(* ===== verification/Go_Prelude.thy ===== *)
theory Go_Prelude
  imports Main "HOL-Library.Word" "HOL-Library.AList"
begin

text \<open>
  The part of the Go language and of its standard library that the DeskAccess
  sources use, shared by every component theory.

  \<^item> Bytes are 8-bit words, byte slices are lists of them, Go strings are
    lists of characters (one character per byte). Case folding and white space
    are those of ASCII: the strings the program folds or trims are protocol
    names, node identifiers, host names and URL schemes.
  \<^item> Instants are nanoseconds since the first of January of year 1, which is
    Go's zero \<open>time.Time\<close>; the clock is an argument \<open>now\<close> of the operations
    that read it.
  \<^item> A Go map is an association list with distinct keys; the order of the list
    is the iteration order of \<open>range\<close>.
  \<^item> Errors are values: a result is \<open>Inl\<close> of an error or \<open>Inr\<close> of a value.
\<close>

unbundle bit_operations_syntax

named_theorems go_simps \<open>unfolding rules of the modelled Go library\<close>
named_theorems go_map_simps \<open>lookups in Go maps after updates and deletions\<close>

section \<open>Bytes and strings\<close>

type_synonym byte = "8 word"
type_synonym bytes = "byte list"

definition byte_of_char :: "char \<Rightarrow> byte" where
  "byte_of_char c = word_of_nat (of_char c)"

definition char_of_byte :: "byte \<Rightarrow> char" where
  "char_of_byte b = char_of (unat b)"

definition bytes_of_string :: "string \<Rightarrow> bytes" where
  "bytes_of_string s = map byte_of_char s"

definition string_of_bytes :: "bytes \<Rightarrow> string" where
  "string_of_bytes bs = map char_of_byte bs"

lemma char_of_byte_of_char [simp]: "char_of_byte (byte_of_char c) = c"
proof -
  have "unat (word_of_nat (of_char c) :: byte) = of_char c"
    by (simp add: unsigned_of_nat take_bit_eq_mod)
  then show ?thesis
    by (simp add: char_of_byte_def byte_of_char_def)
qed

lemma byte_of_char_of_byte [simp]: "byte_of_char (char_of_byte b) = b"
proof -
  have "unat b < 256"
    using unsigned_less [of b, where ?'a = nat] by simp
  then show ?thesis
    by (simp add: char_of_byte_def byte_of_char_def)
qed

lemma string_of_bytes_of_string [simp]: "string_of_bytes (bytes_of_string s) = s"
  by (simp add: string_of_bytes_def bytes_of_string_def comp_def)

lemma bytes_of_string_of_bytes [simp]: "bytes_of_string (string_of_bytes bs) = bs"
  by (simp add: string_of_bytes_def bytes_of_string_def comp_def)

lemma length_bytes_of_string [simp]: "length (bytes_of_string s) = length s"
  by (simp add: bytes_of_string_def)

lemma length_string_of_bytes [simp]: "length (string_of_bytes s) = length s"
  by (simp add: string_of_bytes_def)

lemma bytes_of_string_inject [simp]: "bytes_of_string s = bytes_of_string t \<longleftrightarrow> s = t"
  by (metis string_of_bytes_of_string)

lemma string_of_bytes_inject [simp]: "string_of_bytes s = string_of_bytes t \<longleftrightarrow> s = t"
  by (metis bytes_of_string_of_bytes)

subsection \<open>Package strings\<close>

definition char_code :: "char \<Rightarrow> nat" where
  "char_code c = of_char c"

definition lower_char :: "char \<Rightarrow> char" where
  "lower_char c = (if 65 \<le> char_code c \<and> char_code c \<le> 90 then char_of (char_code c + 32) else c)"

definition ToLower :: "string \<Rightarrow> string" where
  "ToLower s = map lower_char s"

definition upper_char :: "char \<Rightarrow> char" where
  "upper_char c = (if 97 \<le> char_code c \<and> char_code c \<le> 122 then char_of (char_code c - 32) else c)"

definition ToUpper :: "string \<Rightarrow> string" where
  "ToUpper s = map upper_char s"

definition EqualFold :: "string \<Rightarrow> string \<Rightarrow> bool" where
  "EqualFold s t \<longleftrightarrow> ToLower s = ToLower t"

definition is_space :: "char \<Rightarrow> bool" where
  "is_space c \<longleftrightarrow> char_code c \<in> {9, 10, 11, 12, 13, 32}"

definition TrimLeftFunc :: "(char \<Rightarrow> bool) \<Rightarrow> string \<Rightarrow> string" where
  "TrimLeftFunc p s = dropWhile p s"

definition TrimRightFunc :: "(char \<Rightarrow> bool) \<Rightarrow> string \<Rightarrow> string" where
  "TrimRightFunc p s = rev (dropWhile p (rev s))"

definition TrimFunc :: "(char \<Rightarrow> bool) \<Rightarrow> string \<Rightarrow> string" where
  "TrimFunc p s = TrimRightFunc p (TrimLeftFunc p s)"

definition TrimSpace :: "string \<Rightarrow> string" where
  "TrimSpace s = TrimFunc is_space s"

definition HasPrefix :: "string \<Rightarrow> string \<Rightarrow> bool" where
  "HasPrefix s p \<longleftrightarrow> take (length p) s = p"

definition HasSuffix :: "string \<Rightarrow> string \<Rightarrow> bool" where
  "HasSuffix s p \<longleftrightarrow> length p \<le> length s \<and> drop (length s - length p) s = p"

definition TrimPrefix :: "string \<Rightarrow> string \<Rightarrow> string" where
  "TrimPrefix s p = (if HasPrefix s p then drop (length p) s else s)"

definition TrimSuffix :: "string \<Rightarrow> string \<Rightarrow> string" where
  "TrimSuffix s p = (if HasSuffix s p then take (length s - length p) s else s)"

text \<open>\<open>strings.Index\<close> with \<open>None\<close> for the result \<open>-1\<close>.\<close>

fun Index :: "string \<Rightarrow> string \<Rightarrow> nat option" where
  "Index [] p = (if p = [] then Some 0 else None)"
| "Index (c # s) p =
     (if HasPrefix (c # s) p then Some 0 else map_option Suc (Index s p))"

definition Contains :: "string \<Rightarrow> string \<Rightarrow> bool" where
  "Contains s p \<longleftrightarrow> Index s p \<noteq> None"

definition LastIndexByte :: "string \<Rightarrow> char \<Rightarrow> nat option" where
  "LastIndexByte s c =
     (let r = takeWhile (\<lambda>x. x \<noteq> c) (rev s)
      in if length r = length s then None else Some (length s - Suc (length r)))"

text \<open>\<open>strings.Cut\<close>: the text before and after the first separator, and whether it was found.\<close>

definition Cut :: "string \<Rightarrow> string \<Rightarrow> string \<times> string \<times> bool" where
  "Cut s sep = (case Index s sep of
       Some i \<Rightarrow> (take i s, drop (i + length sep) s, True)
     | None \<Rightarrow> (s, [], False))"

text \<open>The idiom \<open>if before, _, ok := strings.Cut(s, sep); ok { s = before }\<close>.\<close>

definition CutBefore :: "string \<Rightarrow> char \<Rightarrow> string" where
  "CutBefore s c = (case Cut s [c] of (before, _, ok) \<Rightarrow> if ok then before else s)"

text \<open>\<open>strings.ReplaceAll\<close> of a one-character string by the empty string.\<close>

definition RemoveAll :: "char \<Rightarrow> string \<Rightarrow> string" where
  "RemoveAll c s = filter (\<lambda>x. x \<noteq> c) s"

lemma char_code_less [simp]: "char_code c < 256"
  by (simp add: char_code_def)

lemma char_code_char_of [simp]: "n < 256 \<Longrightarrow> char_code (char_of n) = n"
  by (simp add: char_code_def)

lemma lower_char_idem [simp]: "lower_char (lower_char c) = lower_char c"
  by (simp add: lower_char_def)

lemma lower_upper_char [simp]: "lower_char (upper_char c) = lower_char c"
  by (auto simp: lower_char_def upper_char_def char_code_def)

lemma ToUpper_Nil_iff [simp]: "ToUpper s = [] \<longleftrightarrow> s = []"
  by (simp add: ToUpper_def)

lemma ToLower_idem [simp]: "ToLower (ToLower s) = ToLower s"
  by (simp add: ToLower_def comp_def)

lemma length_ToLower [simp]: "length (ToLower s) = length s"
  by (simp add: ToLower_def)

lemma ToLower_Nil_iff [simp]: "ToLower s = [] \<longleftrightarrow> s = []"
  by (simp add: ToLower_def)

lemma EqualFold_refl [simp]: "EqualFold s s"
  by (simp add: EqualFold_def)

lemma EqualFold_ToUpper [simp]: "EqualFold (ToUpper s) t \<longleftrightarrow> EqualFold s t"
  by (simp add: EqualFold_def ToUpper_def ToLower_def comp_def)

lemma EqualFold_sym: "EqualFold s t \<longleftrightarrow> EqualFold t s"
  by (auto simp: EqualFold_def)

lemma EqualFold_trans: "EqualFold s t \<Longrightarrow> EqualFold t u \<Longrightarrow> EqualFold s u"
  by (simp add: EqualFold_def)

lemma TrimFunc_id: "(\<And>c. c \<in> set s \<Longrightarrow> \<not> p c) \<Longrightarrow> TrimFunc p s = s"
proof -
  assume a: "\<And>c. c \<in> set s \<Longrightarrow> \<not> p c"
  have l: "dropWhile p s = s"
    using a by (cases s) auto
  have r: "dropWhile p (rev s) = rev s"
    using a by (cases "rev s") (auto simp: rev_eq_Cons_iff)
  show ?thesis
    by (simp add: TrimFunc_def TrimLeftFunc_def TrimRightFunc_def l r)
qed

lemma TrimFunc_edges:
  assumes "TrimFunc p s = t" "t \<noteq> []"
  shows "\<not> p (hd t)" "\<not> p (last t)"
proof -
  have l: "\<not> p (last t)"
    using assms hd_dropWhile [of p "rev (dropWhile p s)"]
    by (auto simp: TrimFunc_def TrimLeftFunc_def TrimRightFunc_def last_rev)
  obtain u where u: "dropWhile p s = t @ u"
    using assms(1) takeWhile_dropWhile_id [of p "rev (dropWhile p s)"]
    unfolding TrimFunc_def TrimLeftFunc_def TrimRightFunc_def
    by (metis rev_append rev_rev_ident)
  have "\<not> p (hd t)"
    using hd_dropWhile [of p s] u assms(2) by auto
  with l show "\<not> p (hd t)" "\<not> p (last t)" by auto
qed

lemma TrimFunc_edge_id: "\<not> p (hd t) \<Longrightarrow> \<not> p (last t) \<Longrightarrow> t \<noteq> [] \<Longrightarrow> TrimFunc p t = t"
proof -
  assume a: "\<not> p (hd t)" "\<not> p (last t)" "t \<noteq> []"
  have "dropWhile p t = t" "dropWhile p (rev t) = rev t"
    using a by (auto simp: dropWhile_eq_self_iff hd_rev)
  then show ?thesis
    by (simp add: TrimFunc_def TrimLeftFunc_def TrimRightFunc_def)
qed

lemma TrimFunc_Nil [simp]: "TrimFunc p [] = []"
  by (simp add: TrimFunc_def TrimLeftFunc_def TrimRightFunc_def)

lemma TrimFunc_idem [simp]: "TrimFunc p (TrimFunc p s) = TrimFunc p s"
proof (cases "TrimFunc p s = []")
  case True
  then show ?thesis by (simp only: TrimFunc_Nil)
next
  case False
  then show ?thesis
    using TrimFunc_edges [OF refl False] by (intro TrimFunc_edge_id) auto
qed

lemma TrimSpace_idem [simp]: "TrimSpace (TrimSpace s) = TrimSpace s"
  by (simp add: TrimSpace_def)

lemma TrimSpace_Nil [simp]: "TrimSpace [] = []"
  by (simp add: TrimSpace_def TrimFunc_def TrimLeftFunc_def TrimRightFunc_def)

lemma Index_None_iff_char: "Index s [c] = None \<longleftrightarrow> c \<notin> set s"
  by (induction s) (auto simp: HasPrefix_def)

lemma Cut_absent: "c \<notin> set s \<Longrightarrow> Cut s [c] = (s, [], False)"
  using Index_None_iff_char [of s c] by (auto simp: Cut_def)

lemma Cut_at: "c \<notin> set s \<Longrightarrow> Cut (s @ c # t) [c] = (s, t, True)"
proof -
  assume "c \<notin> set s"
  then have "Index (s @ c # t) [c] = Some (length s)"
    by (induction s) (auto simp: HasPrefix_def)
  then show ?thesis by (simp add: Cut_def)
qed

lemma CutBefore_takeWhile: "CutBefore s c = takeWhile (\<lambda>x. x \<noteq> c) s"
proof (cases "c \<in> set s")
  case True
  then obtain a b where s: "s = a @ c # b" "c \<notin> set a"
    by (meson split_list_first)
  have "takeWhile (\<lambda>x. x \<noteq> c) a = a"
    using s(2) by (auto simp: takeWhile_eq_all_conv)
  then show ?thesis
    using Cut_at [OF s(2), of b] s by (auto simp: CutBefore_def takeWhile_append)
next
  case False
  then have t: "takeWhile (\<lambda>x. x \<noteq> c) s = s"
    by (auto simp: takeWhile_eq_all_conv)
  show ?thesis
    unfolding CutBefore_def Cut_absent [OF False] t by simp
qed

text \<open>Fields ended by a separator they do not contain can be read back.\<close>

lemma sep_inject:
  "c \<notin> set a \<Longrightarrow> c \<notin> set b \<Longrightarrow> a @ c # r = b @ c # s \<longleftrightarrow> a = b \<and> r = s"
proof (induction a arbitrary: b)
  case Nil
  then show ?case by (cases b) auto
next
  case (Cons x a)
  then show ?case by (cases b) auto
qed

lemma sep_inject_last:
  assumes "c \<notin> set a" "c \<notin> set b"
  shows "x @ c # a = y @ c # b \<longleftrightarrow> x = y \<and> a = b"
proof -
  have "x @ c # a = y @ c # b \<longleftrightarrow> rev (x @ c # a) = rev (y @ c # b)"
    by (simp only: rev_is_rev_conv)
  also have "\<dots> \<longleftrightarrow> rev a = rev b \<and> rev x = rev y"
    using sep_inject [of c "rev a" "rev b"] assms by simp
  finally show ?thesis by auto
qed

lemma HasPrefix_append [simp]: "HasPrefix (p @ s) p"
  by (simp add: HasPrefix_def)

lemma TrimPrefix_append [simp]: "TrimPrefix (p @ s) p = s"
  by (simp add: TrimPrefix_def)
section \<open>Package encoding/binary: big-endian integers\<close>

definition be_value :: "bytes \<Rightarrow> nat" where
  "be_value bs = foldl (\<lambda>n b. n * 256 + unat b) 0 bs"

primrec be_bytes :: "nat \<Rightarrow> nat \<Rightarrow> bytes" where
  "be_bytes 0 n = []"
| "be_bytes (Suc k) n = be_bytes k (n div 256) @ [word_of_nat n]"

definition PutUint16 :: "16 word \<Rightarrow> bytes" where "PutUint16 v = be_bytes 2 (unat v)"
definition PutUint32 :: "32 word \<Rightarrow> bytes" where "PutUint32 v = be_bytes 4 (unat v)"
definition PutUint64 :: "64 word \<Rightarrow> bytes" where "PutUint64 v = be_bytes 8 (unat v)"
definition Uint16 :: "bytes \<Rightarrow> 16 word" where "Uint16 bs = word_of_nat (be_value (take 2 bs))"
definition Uint32 :: "bytes \<Rightarrow> 32 word" where "Uint32 bs = word_of_nat (be_value (take 4 bs))"
definition Uint64 :: "bytes \<Rightarrow> 64 word" where "Uint64 bs = word_of_nat (be_value (take 8 bs))"

lemma be_value_Nil [simp]: "be_value [] = 0"
  by (simp add: be_value_def)

lemma be_value_snoc [simp]: "be_value (bs @ [b]) = be_value bs * 256 + unat b"
  by (simp add: be_value_def)

lemma unat_byte_less [simp]: "unat (b :: byte) < 256"
  using unsigned_less [of b, where ?'a = nat] by simp

lemma be_value_Cons: "be_value (b # bs) = unat b * 256 ^ length bs + be_value bs"
proof (induction bs rule: rev_induct)
  case Nil
  then show ?case using be_value_snoc [of "[]" b] by simp
next
  case (snoc x xs)
  have "be_value (b # xs @ [x]) = be_value (b # xs) * 256 + unat x"
    using be_value_snoc [of "b # xs" x] by simp
  then show ?case by (simp add: snoc algebra_simps)
qed

lemma be_value_less: "be_value bs < 256 ^ length bs"
proof (induction bs rule: rev_induct)
  case Nil
  then show ?case by simp
next
  case (snoc x xs)
  have "be_value xs * 256 + unat x < be_value xs * 256 + 256" by simp
  also have "\<dots> = (be_value xs + 1) * 256" by simp
  also have "\<dots> \<le> 256 ^ length xs * 256"
    using snoc by (intro mult_le_mono1) simp
  finally show ?case by simp
qed

lemma length_be_bytes [simp]: "length (be_bytes k n) = k"
  by (induction k arbitrary: n) auto

lemma be_value_be_bytes: "be_value (be_bytes k n) = n mod 256 ^ k"
proof (induction k arbitrary: n)
  case 0
  then show ?case by simp
next
  case (Suc k)
  have "be_value (be_bytes (Suc k) n) = n div 256 mod 256 ^ k * 256 + n mod 256"
    by (simp add: Suc unsigned_of_nat take_bit_eq_mod)
  then show ?case
    by (simp add: mod_mult2_eq mult.commute)
qed

lemma be_bytes_be_value: "be_bytes (length bs) (be_value bs) = bs"
proof (induction bs rule: rev_induct)
  case Nil
  then show ?case by simp
next
  case (snoc x xs)
  have "(word_of_nat (be_value xs * 256 + unat x) :: byte) = x"
  proof -
    have z: "(256 :: byte) = 0" by simp
    show ?thesis by (simp only: of_nat_add of_nat_mult of_nat_numeral z) simp
  qed
  moreover have "(be_value xs * 256 + unat x) div 256 = be_value xs"
    by simp
  ultimately show ?case using snoc by simp
qed

text \<open>An encoding of a fixed width that can be read back from the front of a buffer.\<close>

locale fixed_codec =
  fixes enc :: "'a \<Rightarrow> bytes" and dec :: "bytes \<Rightarrow> 'a" and width :: nat
  assumes length_enc: "length (enc x) = width"
    and dec_enc_append: "dec (enc x @ rest) = x"
    and enc_dec: "length bs = width \<Longrightarrow> enc (dec bs) = bs"
begin

lemma enc_inject: "enc x = enc y \<longleftrightarrow> x = y"
  by (metis dec_enc_append)

lemma dec_enc: "dec (enc x) = x"
  using dec_enc_append [of x "[]"] by simp

lemma enc_append_inject: "enc x @ r = enc y @ s \<longleftrightarrow> x = y \<and> r = s"
  by (metis length_enc append_eq_append_conv enc_inject)

lemma dec_inject: "length a = width \<Longrightarrow> length b = width \<Longrightarrow> dec a = dec b \<Longrightarrow> a = b"
  by (metis enc_dec)

end

interpretation be16: fixed_codec PutUint16 Uint16 2
proof
  fix x :: "16 word" and rest bs :: bytes
  show "length (PutUint16 x) = 2" by (simp add: PutUint16_def)
  show "Uint16 (PutUint16 x @ rest) = x"
    using unsigned_less [of x, where ?'a = nat]
    by (simp add: PutUint16_def Uint16_def be_value_be_bytes)
  assume "length bs = 2"
  then show "PutUint16 (Uint16 bs) = bs"
    using be_value_less [of bs] be_bytes_be_value [of bs]
    by (simp add: PutUint16_def Uint16_def unsigned_of_nat take_bit_eq_mod)
qed

interpretation be32: fixed_codec PutUint32 Uint32 4
proof
  fix x :: "32 word" and rest bs :: bytes
  show "length (PutUint32 x) = 4" by (simp add: PutUint32_def)
  show "Uint32 (PutUint32 x @ rest) = x"
    using unsigned_less [of x, where ?'a = nat]
    by (simp add: PutUint32_def Uint32_def be_value_be_bytes)
  assume "length bs = 4"
  then show "PutUint32 (Uint32 bs) = bs"
    using be_value_less [of bs] be_bytes_be_value [of bs]
    by (simp add: PutUint32_def Uint32_def unsigned_of_nat take_bit_eq_mod)
qed

interpretation be64: fixed_codec PutUint64 Uint64 8
proof
  fix x :: "64 word" and rest bs :: bytes
  show "length (PutUint64 x) = 8" by (simp add: PutUint64_def)
  show "Uint64 (PutUint64 x @ rest) = x"
    using unsigned_less [of x, where ?'a = nat]
    by (simp add: PutUint64_def Uint64_def be_value_be_bytes)
  assume "length bs = 8"
  then show "PutUint64 (Uint64 bs) = bs"
    using be_value_less [of bs] be_bytes_be_value [of bs]
    by (simp add: PutUint64_def Uint64_def unsigned_of_nat take_bit_eq_mod)
qed

section \<open>Package time\<close>

text \<open>Instants and durations in nanoseconds; instant 0 is the zero time.\<close>

type_synonym instant = int
type_synonym duration = int

abbreviation nanosecond :: duration where "nanosecond \<equiv> 1"
abbreviation second :: duration where "second \<equiv> 1000000000"
abbreviation minute :: duration where "minute \<equiv> 60 * second"
abbreviation hour :: duration where "hour \<equiv> 60 * minute"

definition unix_epoch :: int where "unix_epoch = 62135596800"

definition IsZero :: "instant \<Rightarrow> bool" where "IsZero t \<longleftrightarrow> t = 0"
definition After :: "instant \<Rightarrow> instant \<Rightarrow> bool" where "After t u \<longleftrightarrow> u < t"
definition Before :: "instant \<Rightarrow> instant \<Rightarrow> bool" where "Before t u \<longleftrightarrow> t < u"
definition Unix :: "instant \<Rightarrow> int" where "Unix t = t div second - unix_epoch"
definition time_Unix :: "int \<Rightarrow> instant" where "time_Unix sec = (sec + unix_epoch) * second"

lemma Unix_time_Unix [simp]: "Unix (time_Unix s) = s"
  by (simp add: Unix_def time_Unix_def)

lemma time_Unix_Unix_le: "time_Unix (Unix t) \<le> t" "t < time_Unix (Unix t) + second"
  using div_mult_mod_eq [of t second] pos_mod_bound [of second t] pos_mod_sign [of second t]
  by (simp_all add: Unix_def time_Unix_def del: pos_mod_bound pos_mod_sign)

lemma Unix_mono: "t \<le> u \<Longrightarrow> Unix t \<le> Unix u"
  by (simp add: Unix_def zdiv_mono1)

section \<open>Integer division and decimal numerals\<close>

text \<open>Go's integer division truncates towards zero.\<close>

definition go_div :: "int \<Rightarrow> int \<Rightarrow> int" where
  "go_div a b = sgn a * sgn b * (\<bar>a\<bar> div \<bar>b\<bar>)"

definition is_digit :: "char \<Rightarrow> bool" where
  "is_digit c \<longleftrightarrow> 48 \<le> char_code c \<and> char_code c \<le> 57"

definition digit_char :: "nat \<Rightarrow> char" where
  "digit_char d = char_of (48 + d)"

fun Utoa :: "nat \<Rightarrow> string" where
  "Utoa n = (if n < 10 then [digit_char n] else Utoa (n div 10) @ [digit_char (n mod 10)])"

declare Utoa.simps [simp del]

definition Itoa :: "int \<Rightarrow> string" where
  "Itoa i = (if i < 0 then ''-'' @ Utoa (nat (- i)) else Utoa (nat i))"

definition digits_value :: "string \<Rightarrow> nat" where
  "digits_value s = foldl (\<lambda>n c. n * 10 + (char_code c - 48)) 0 s"

definition max_int64 :: int where "max_int64 = 2 ^ 63 - 1"

text \<open>\<open>strconv.Atoi\<close>: an optional sign and decimal digits; \<open>None\<close> is a syntax or range error.\<close>

definition Atoi :: "string \<Rightarrow> int option" where
  "Atoi s =
     (let neg = HasPrefix s ''-'';
          body = (if neg \<or> HasPrefix s ''+'' then tl s else s);
          v = (if neg then - int (digits_value body) else int (digits_value body))
      in if body \<noteq> [] \<and> list_all is_digit body \<and> - max_int64 - 1 \<le> v \<and> v \<le> max_int64
         then Some v else None)"

lemma digits_value_snoc [simp]: "digits_value (s @ [c]) = digits_value s * 10 + (char_code c - 48)"
  by (simp add: digits_value_def)

lemma is_digit_digit_char [simp]: "d < 10 \<Longrightarrow> is_digit (digit_char d)"
  by (simp add: is_digit_def digit_char_def)

lemma digits_Utoa: "list_all is_digit (Utoa n) \<and> Utoa n \<noteq> [] \<and> digits_value (Utoa n) = n"
proof (induction n rule: Utoa.induct)
  case (1 n)
  show ?case
  proof (cases "n < 10")
    case True
    then show ?thesis
      by (simp add: Utoa.simps [of n] digits_value_def digit_char_def is_digit_def)
  next
    case False
    then show ?thesis
      using 1 by (simp add: Utoa.simps [of n] digit_char_def is_digit_def)
  qed
qed

lemma length_Utoa_le: "n < 10 ^ k \<Longrightarrow> 0 < k \<Longrightarrow> length (Utoa n) \<le> k"
proof (induction n arbitrary: k rule: Utoa.induct)
  case (1 n)
  show ?case
  proof (cases "n < 10")
    case True
    then show ?thesis using 1 by (simp add: Utoa.simps [of n])
  next
    case False
    obtain j where j: "k = Suc j" using 1 by (cases k) auto
    have "n div 10 < 10 ^ j" using 1 j by (simp add: less_mult_imp_div_less mult.commute)
    moreover have "0 < j" using 1 False j by (cases j) auto
    ultimately show ?thesis using 1 False j by (simp add: Utoa.simps [of n])
  qed
qed

lemma Utoa_inject: "Utoa m = Utoa n \<longleftrightarrow> m = n"
  by (metis digits_Utoa)

lemma Atoi_Itoa: "0 \<le> i \<Longrightarrow> i \<le> max_int64 \<Longrightarrow> Atoi (Itoa i) = Some i"
proof -
  assume i: "0 \<le> i" "i \<le> max_int64"
  obtain c s where u: "Utoa (nat i) = c # s"
    using digits_Utoa [of "nat i"] by (cases "Utoa (nat i)") auto
  have "is_digit c"
    using digits_Utoa [of "nat i"] u by simp
  then have "c \<noteq> CHR ''-''" "c \<noteq> CHR ''+''"
    by (auto simp: is_digit_def char_code_def)
  then show ?thesis
    using i digits_Utoa [of "nat i"] u
    by (simp add: Atoi_def Itoa_def HasPrefix_def Let_def max_int64_def)
qed

section \<open>Package encoding/hex\<close>

definition hextable :: string where "hextable = ''0123456789abcdef''"

definition hexEncode :: "bytes \<Rightarrow> string" where
  "hexEncode bs = concat (map (\<lambda>b. [hextable ! (unat b div 16), hextable ! (unat b mod 16)]) bs)"

definition fromHexChar :: "char \<Rightarrow> nat option" where
  "fromHexChar c =
     (if is_digit c then Some (char_code c - 48)
      else if 97 \<le> char_code c \<and> char_code c \<le> 102 then Some (char_code c - 87)
      else if 65 \<le> char_code c \<and> char_code c \<le> 70 then Some (char_code c - 55)
      else None)"

fun hexDecode :: "string \<Rightarrow> bytes option" where
  "hexDecode [] = Some []"
| "hexDecode [c] = None"
| "hexDecode (c # d # cs) =
     (case (fromHexChar c, fromHexChar d, hexDecode cs) of
        (Some a, Some b, Some r) \<Rightarrow> Some (word_of_nat (a * 16 + b) # r)
      | _ \<Rightarrow> None)"

lemma fromHexChar_hextable: "i < 16 \<Longrightarrow> fromHexChar (hextable ! i) = Some i"
proof -
  have "list_all (\<lambda>i. fromHexChar (hextable ! i) = Some i) [0..<16]"
    by (simp add: upt_rec fromHexChar_def hextable_def is_digit_def char_code_def)
  then show "i < 16 \<Longrightarrow> ?thesis" by (simp add: list_all_iff)
qed

lemma hexDecode_hexEncode [simp]: "hexDecode (hexEncode bs) = Some bs"
proof (induction bs)
  case Nil
  then show ?case by (simp add: hexEncode_def)
next
  case (Cons b bs)
  have "unat b div 16 < 16"
    using unat_byte_less [of b] by (simp add: less_mult_imp_div_less)
  then have "hexDecode (hexEncode (b # bs)) =
      (case hexDecode (hexEncode bs) of None \<Rightarrow> None | Some r \<Rightarrow> Some (word_of_nat (unat b div 16 * 16 + unat b mod 16) # r))"
    by (simp add: hexEncode_def fromHexChar_hextable split: option.splits)
  then show ?case using Cons by (simp del: of_nat_add of_nat_mult)
qed

lemma hexEncode_inject [simp]: "hexEncode a = hexEncode b \<longleftrightarrow> a = b"
  by (metis hexDecode_hexEncode option.inject)

lemma length_hexEncode [simp]: "length (hexEncode bs) = 2 * length bs"
  by (induction bs) (auto simp: hexEncode_def)

section \<open>Slices: first match, removal, defaults\<close>

text \<open>The first index whose element satisfies a condition, as a \<open>for i := range\<close> loop finds it.\<close>

primrec find_first :: "('a \<Rightarrow> bool) \<Rightarrow> 'a list \<Rightarrow> nat option" where
  "find_first p [] = None"
| "find_first p (x # xs) = (if p x then Some 0 else map_option Suc (find_first p xs))"

text \<open>\<open>append(xs[:i], xs[i+1:]...)\<close>.\<close>

definition remove_nth :: "nat \<Rightarrow> 'a list \<Rightarrow> 'a list" where
  "remove_nth i xs = take i xs @ drop (Suc i) xs"

text \<open>\<open>if new != "" { old = new }\<close>, also for slices that replace when they are not empty.\<close>

definition override :: "'a list \<Rightarrow> 'a list \<Rightarrow> 'a list" where
  "override old new = (if new \<noteq> [] then new else old)"

lemma override_idem [simp]: "override (override a b) b = override a b"
  by (simp add: override_def)

lemma find_first_None: "find_first p xs = None \<longleftrightarrow> (\<forall>x \<in> set xs. \<not> p x)"
  by (induction xs) auto

lemma find_first_Some:
  "find_first p xs = Some i \<Longrightarrow> i < length xs \<and> p (xs ! i) \<and> (\<forall>j < i. \<not> p (xs ! j))"
proof (induction xs arbitrary: i)
  case Nil
  then show ?case by simp
next
  case (Cons x xs)
  show ?case
  proof (cases "p x")
    case True
    then show ?thesis using Cons.prems by simp
  next
    case False
    then obtain k where "find_first p xs = Some k" "i = Suc k"
      using Cons.prems by auto
    then show ?thesis using Cons.IH [of k] False by (auto simp: less_Suc_eq_0_disj nth_Cons')
  qed
qed

lemma find_first_split:
  assumes "find_first p xs = Some i"
  obtains as x bs where "xs = as @ x # bs" "length as = i" "p x" "\<forall>a \<in> set as. \<not> p a"
proof -
  note f = find_first_Some [OF assms]
  have "xs = take i xs @ xs ! i # drop (Suc i) xs"
    using f by (simp add: id_take_nth_drop)
  moreover have "\<forall>a \<in> set (take i xs). \<not> p a"
    using f by (auto simp: in_set_conv_nth)
  ultimately show ?thesis using f that [of "take i xs" "xs ! i" "drop (Suc i) xs"] by auto
qed

lemma remove_nth_append [simp]: "remove_nth (length as) (as @ x # bs) = as @ bs"
  by (simp add: remove_nth_def)

lemma set_remove_nth_subset: "set (remove_nth i xs) \<subseteq> set xs"
  by (auto simp: remove_nth_def dest: in_set_takeD in_set_dropD)

text \<open>
  The loop that copies the elements not seen before: each element has a key, or is
  skipped; the keys are collected in order of first occurrence.
\<close>

primrec uniq_loop :: "('a \<Rightarrow> 'b option) \<Rightarrow> 'b list \<Rightarrow> 'a list \<Rightarrow> 'b list" where
  "uniq_loop f seen [] = []"
| "uniq_loop f seen (x # xs) =
     (case f x of
        None \<Rightarrow> uniq_loop f seen xs
      | Some k \<Rightarrow> if k \<in> set seen then uniq_loop f seen xs else k # uniq_loop f (k # seen) xs)"

definition keys_of :: "('a \<Rightarrow> 'b option) \<Rightarrow> 'a list \<Rightarrow> 'b set" where
  "keys_of f xs = {k. \<exists>x \<in> set xs. f x = Some k}"

lemma keys_of_Cons: "keys_of f (x # xs) = (case f x of None \<Rightarrow> keys_of f xs | Some k \<Rightarrow> insert k (keys_of f xs))"
  by (cases "f x") (auto simp: keys_of_def)

lemma uniq_loop_correct:
  "distinct (uniq_loop f seen xs) \<and> set (uniq_loop f seen xs) = keys_of f xs - set seen"
proof (induction xs arbitrary: seen)
  case Nil
  then show ?case by (simp add: keys_of_def)
next
  case (Cons x xs)
  show ?case
  proof (cases "f x")
    case None
    then show ?thesis using Cons.IH [of seen] by (simp add: keys_of_Cons)
  next
    case (Some k)
    show ?thesis
    proof (cases "k \<in> set seen")
      case True
      then show ?thesis using Cons.IH [of seen] Some by (simp add: keys_of_Cons)
    next
      case False
      then show ?thesis using Cons.IH [of "k # seen"] Some by (simp add: keys_of_Cons) blast
    qed
  qed
qed

lemma distinct_uniq_loop [simp]: "distinct (uniq_loop f seen xs)"
  by (rule uniq_loop_correct [THEN conjunct1])

lemma set_uniq_loop: "set (uniq_loop f seen xs) = keys_of f xs - set seen"
  by (rule uniq_loop_correct [THEN conjunct2])

section \<open>Go maps\<close>

type_synonym ('k, 'v) gomap = "('k \<times> 'v) list"

definition map_ok :: "('k, 'v) gomap \<Rightarrow> bool" where
  "map_ok m \<longleftrightarrow> distinct (map fst m)"

abbreviation map_set :: "'k \<Rightarrow> 'v \<Rightarrow> ('k, 'v) gomap \<Rightarrow> ('k, 'v) gomap" where
  "map_set \<equiv> AList.update"

abbreviation map_del :: "'k \<Rightarrow> ('k, 'v) gomap \<Rightarrow> ('k, 'v) gomap" where
  "map_del \<equiv> AList.delete"

abbreviation map_get :: "('k, 'v) gomap \<Rightarrow> 'k \<Rightarrow> 'v option" where
  "map_get \<equiv> map_of"

lemma map_ok_Nil [simp]: "map_ok []"
  by (simp add: map_ok_def)

lemma map_ok_set [simp]: "map_ok m \<Longrightarrow> map_ok (map_set k v m)"
  by (simp add: map_ok_def distinct_update)

lemma map_ok_del [simp]: "map_ok m \<Longrightarrow> map_ok (map_del k m)"
  by (simp add: map_ok_def distinct_delete)

lemma map_ok_filter [simp]: "map_ok m \<Longrightarrow> map_ok (filter p m)"
  by (auto simp: map_ok_def intro: distinct_map_filter)

lemma map_get_set [go_map_simps]: "map_get (map_set k v m) k' = (if k = k' then Some v else map_get m k')"
  by (simp add: update_conv')

lemma map_get_del [go_map_simps]: "map_get (map_del k m) k' = (if k = k' then None else map_get m k')"
  by (simp add: delete_conv')

lemma map_get_filter [go_map_simps]:
  "map_ok m \<Longrightarrow> map_get (filter (\<lambda>(k, v). p k v) m) k =
     (case map_get m k of Some v \<Rightarrow> if p k v then Some v else None | None \<Rightarrow> None)"
proof (induction m)
  case Nil
  then show ?case by simp
next
  case (Cons x m)
  obtain k' v' where x: "x = (k', v')" by (cases x)
  have "k' \<notin> fst ` set m" "map_ok m"
    using Cons.prems x by (simp_all add: map_ok_def)
  then have "map_get m k' = None"
    by (simp add: map_of_eq_None_iff)
  then show ?case
    using Cons.IH \<open>map_ok m\<close> by (auto simp: x split: option.splits)
qed

lemma map_get_mem: "map_ok m \<Longrightarrow> (k, v) \<in> set m \<longleftrightarrow> map_get m k = Some v"
  by (simp add: map_ok_def)

section \<open>Machines: invariants over sequences of operations\<close>

text \<open>
  A component whose operations are serialised by a mutex runs a sequence of
  operations, each a step on its state. What every step keeps holds after every
  sequence.
\<close>

locale guarded_machine =
  fixes step :: "'s \<Rightarrow> 'op \<Rightarrow> 's" and ok :: "'s \<Rightarrow> bool"
  assumes step_ok: "ok s \<Longrightarrow> ok (step s a)"
begin

lemma run_ok: "ok s \<Longrightarrow> ok (foldl step s as)"
  by (induction as arbitrary: s) (auto intro: step_ok)

end

text \<open>
  A machine whose states are also related step by step, such as counters that only
  grow or flags that are never cleared.
\<close>

locale tracked_machine = guarded_machine step ok
  for step :: "'s \<Rightarrow> 'op \<Rightarrow> 's" and ok :: "'s \<Rightarrow> bool" +
  fixes rel :: "'s \<Rightarrow> 's \<Rightarrow> bool"
  assumes rel_refl: "rel s s"
    and rel_trans: "rel s t \<Longrightarrow> rel t u \<Longrightarrow> rel s u"
    and step_rel: "ok s \<Longrightarrow> rel s (step s a)"
begin

lemma run_rel: "ok s \<Longrightarrow> rel s (foldl step s as)"
  by (induction as arbitrary: s) (auto intro: rel_refl rel_trans step_rel step_ok)

end

text \<open>
  Goroutines that interleave: a step relation, what holds at the start and is kept by
  every step holds in every reachable state.
\<close>

locale concurrent_system =
  fixes start :: 's and step :: "'s \<Rightarrow> 's \<Rightarrow> bool" and ok :: "'s \<Rightarrow> bool"
  assumes start_ok: "ok start"
    and step_keeps: "step s t \<Longrightarrow> ok s \<Longrightarrow> ok t"
begin

lemma reachable_ok: "step\<^sup>*\<^sup>* start s \<Longrightarrow> ok s"
  by (induction rule: rtranclp_induct) (auto intro: start_ok step_keeps)

end

end
