(* ===== verification/Protocol.thy ===== *)
theory Protocol
  imports Go_Prelude
begin

text \<open>
  The wire protocol, \<open>internal/protocol/protocol.go\<close>: the handshake payloads,
  the framing of one payload on a stream, and the host's store of short-lived,
  use-limited session tokens. The JSON codec and the stream are arguments; the
  stream written to obeys the contract of \<open>io.Writer\<close> where a theorem says so.
\<close>

section \<open>Constants and payloads\<close>

definition Version :: "8 word" where "Version = 1"

type_synonym MsgType = byte

definition MsgPairRequest :: MsgType where "MsgPairRequest = 1"
definition MsgPairResponse :: MsgType where "MsgPairResponse = 2"
definition MsgTunnelHello :: MsgType where "MsgTunnelHello = 3"
definition MsgTunnelReady :: MsgType where "MsgTunnelReady = 4"
definition MsgTunnelError :: MsgType where "MsgTunnelError = 5"
definition MsgTunnelPing :: MsgType where "MsgTunnelPing = 6"
definition MsgTunnelPong :: MsgType where "MsgTunnelPong = 7"

lemmas MsgType_defs = MsgPairRequest_def MsgPairResponse_def MsgTunnelHello_def
  MsgTunnelReady_def MsgTunnelError_def MsgTunnelPing_def MsgTunnelPong_def

definition MaxFrameSize :: nat where "MaxFrameSize = 256 * 1024"
definition SessionTokenTTL :: duration where "SessionTokenTTL = 2 * minute"
definition SessionTokenMaxUses :: int where "SessionTokenMaxUses = 16"

record TPMAttestation =
  ta_AKCert :: bytes
  ta_EKCert :: bytes
  ta_ManufacturerCA :: bytes
  ta_Manufacturer :: string
  ta_TPMVersion :: string

record IdentityProof =
  ip_Backend :: string
  ip_MachineID :: string
  ip_PublicKey :: bytes
  ip_NodePublicKey :: bytes
  ip_NodeSignature :: bytes
  ip_TimeWindow :: int
  ip_Signature :: bytes

record PairRequest =
  prq_Version :: "8 word"
  prq_NodeID :: string
  prq_InviteID :: bytes
  prq_Proof :: bytes
  prq_Mode :: string
  prq_Label :: string
  prq_Protocol :: string
  prq_TargetPort :: int
  prq_Attestation :: "TPMAttestation option"
  prq_Identity :: "IdentityProof option"

record PairResponse =
  prs_OK :: bool
  prs_Message :: string
  prs_HostLabel :: string
  prs_SessionToken :: bytes
  prs_Protocol :: string
  prs_TargetPort :: int
  prs_IrohTicket :: string
  prs_Attestation :: "TPMAttestation option"
  prs_Identity :: "IdentityProof option"

record TunnelHello =
  th_Version :: "8 word"
  th_NodeID :: string
  th_Method :: string
  th_SessionToken :: bytes
  th_TargetHost :: string
  th_TargetPort :: int
  th_StreamID :: string

record TunnelReady =
  tr_HostLabel :: string
  tr_Status :: int
  tr_Message :: string

record TunnelError =
  te_Reason :: string

record TunnelPing =
  tping_TimeUnix :: int

record TunnelPong =
  tpong_TimeUnix :: int

section \<open>Frame input and output\<close>

datatype io_error = ErrShortWrite | EOF | ErrUnexpectedEOF | StreamError | SlicePanic

datatype frame_error =
    MarshalFrame
  | PayloadTooLarge nat
  | WriteHeader io_error
  | WritePayload io_error
  | ReadHeader io_error
  | FrameTooLarge nat
  | ReadPayload io_error

text \<open>
  One call of \<open>w.Write\<close>: the number of bytes accepted, the error, the writer
  afterwards. \<open>writeAll\<close> loops until the data is gone; slicing past the end of
  the data panics.
\<close>

type_synonym 'w writer = "'w \<Rightarrow> bytes \<Rightarrow> nat \<times> io_error option \<times> 'w"

function writeAll :: "'w writer \<Rightarrow> 'w \<Rightarrow> bytes \<Rightarrow> io_error option \<times> 'w" where
  "writeAll wr w data =
     (if data = [] then (None, w)
      else case wr w data of (n, err, w') \<Rightarrow>
        if n > length data then (Some SlicePanic, w')
        else case err of
          Some e \<Rightarrow> (Some e, w')
        | None \<Rightarrow> if n = 0 then (Some ErrShortWrite, w')
                  else writeAll wr w' (drop n data))"
  by pat_completeness auto
termination
  by (relation "measure (\<lambda>(_, _, data). length data)") auto

declare writeAll.simps [simp del]

definition WriteFrame ::
  "('p \<Rightarrow> bytes option) \<Rightarrow> 'w writer \<Rightarrow> 'w \<Rightarrow> MsgType \<Rightarrow> 'p \<Rightarrow> frame_error option \<times> 'w" where
  "WriteFrame marshal wr w t payload =
     (case marshal payload of
        None \<Rightarrow> (Some MarshalFrame, w)
      | Some data \<Rightarrow>
          if length data > MaxFrameSize then (Some (PayloadTooLarge (length data)), w)
          else
            let header = t # PutUint32 (word_of_nat (length data)) in
            case writeAll wr w header of
              (Some e, w1) \<Rightarrow> (Some (WriteHeader e), w1)
            | (None, w1) \<Rightarrow>
                (case writeAll wr w1 data of
                   (Some e, w2) \<Rightarrow> (Some (WritePayload e), w2)
                 | (None, w2) \<Rightarrow> (None, w2)))"

text \<open>\<open>io.ReadFull\<close> on the bytes the peer sends before it closes the stream.\<close>

definition ReadFull :: "nat \<Rightarrow> bytes \<Rightarrow> (io_error + bytes) \<times> bytes" where
  "ReadFull n r =
     (if n \<le> length r then (Inr (take n r), drop n r)
      else (Inl (if r = [] then EOF else ErrUnexpectedEOF), []))"

definition ReadFrame :: "bytes \<Rightarrow> (frame_error + MsgType \<times> bytes) \<times> bytes" where
  "ReadFrame r =
     (case ReadFull 5 r of
        (Inl e, r1) \<Rightarrow> (Inl (ReadHeader e), r1)
      | (Inr header, r1) \<Rightarrow>
          let t = header ! 0; n = Uint32 (drop 1 header) in
          if n > word_of_nat MaxFrameSize then (Inl (FrameTooLarge (unat n)), r1)
          else (case ReadFull (unat n) r1 of
                  (Inl e, r2) \<Rightarrow> (Inl (ReadPayload e), r2)
                | (Inr payload, r2) \<Rightarrow> (Inr (t, payload), r2)))"

definition Decode :: "(bytes \<Rightarrow> 'p option) \<Rightarrow> bytes \<Rightarrow> 'p option" where
  "Decode unmarshal payload = unmarshal payload"

section \<open>Session tokens\<close>

record SessionGrant =
  sg_PeerID :: string
  sg_TargetPort :: int

record sessionEntry =
  se_expiresAt :: instant
  se_grant :: SessionGrant
  se_usesLeft :: int

record SessionStore =
  ss_tokens :: "(bytes, sessionEntry) gomap"

datatype token_error = InvalidSessionToken | SessionTokenExpired | SessionTokenUseLimit | RandomFailed

definition NewSessionStore :: SessionStore where
  "NewSessionStore = \<lparr>ss_tokens = []\<rparr>"

definition sweep :: "instant \<Rightarrow> SessionStore \<Rightarrow> SessionStore" where
  "sweep now s = s\<lparr>ss_tokens := filter (\<lambda>(k, e). \<not> After now (se_expiresAt e)) (ss_tokens s)\<rparr>"

text \<open>The random source yields the 16 token bytes, or fails.\<close>

definition Issue ::
  "SessionStore \<Rightarrow> bytes option \<Rightarrow> instant \<Rightarrow> string \<Rightarrow> int \<Rightarrow> (token_error + bytes) \<times> SessionStore" where
  "Issue s random now peerID targetPort =
     (case random of
        None \<Rightarrow> (Inl RandomFailed, s)
      | Some token \<Rightarrow>
          let entry = \<lparr>se_expiresAt = now + SessionTokenTTL,
                       se_grant = \<lparr>sg_PeerID = peerID, sg_TargetPort = targetPort\<rparr>,
                       se_usesLeft = SessionTokenMaxUses\<rparr>;
              s1 = s\<lparr>ss_tokens := map_set token entry (ss_tokens s)\<rparr>
          in (Inr token, sweep now s1))"

definition VerifyGrant ::
  "SessionStore \<Rightarrow> instant \<Rightarrow> bytes \<Rightarrow> (token_error + SessionGrant) \<times> SessionStore" where
  "VerifyGrant s now token =
     (case map_get (ss_tokens s) token of
        None \<Rightarrow> (Inl InvalidSessionToken, s)
      | Some e \<Rightarrow>
          if After now (se_expiresAt e)
          then (Inl SessionTokenExpired, s\<lparr>ss_tokens := map_del token (ss_tokens s)\<rparr>)
          else if se_usesLeft e \<le> 0
          then (Inl SessionTokenUseLimit, s\<lparr>ss_tokens := map_del token (ss_tokens s)\<rparr>)
          else let e' = e\<lparr>se_usesLeft := se_usesLeft e - 1\<rparr> in
            if se_usesLeft e' \<le> 0
            then (Inr (se_grant e'), s\<lparr>ss_tokens := map_del token (ss_tokens s)\<rparr>)
            else (Inr (se_grant e'), s\<lparr>ss_tokens := map_set token e' (ss_tokens s)\<rparr>))"

definition Verify ::
  "SessionStore \<Rightarrow> instant \<Rightarrow> bytes \<Rightarrow> (token_error + string) \<times> SessionStore" where
  "Verify s now token =
     (case VerifyGrant s now token of
        (Inl e, s') \<Rightarrow> (Inl e, s')
      | (Inr grant, s') \<Rightarrow> (Inr (sg_PeerID grant), s'))"

section \<open>Framing: the two directions agree\<close>

text \<open>
  The documented contract of \<open>io.Writer\<close>, for a writer whose accepted bytes are
  \<open>out\<close>: it accepts a prefix of the data, all of it unless it reports an error.
\<close>

definition writer_contract :: "'w writer \<Rightarrow> ('w \<Rightarrow> bytes) \<Rightarrow> bool" where
  "writer_contract wr out \<longleftrightarrow>
     (\<forall>w data. case wr w data of (n, err, w') \<Rightarrow>
        n \<le> length data \<and> out w' = out w @ take n data \<and> (err = None \<longrightarrow> n = length data))"

lemma writer_contractD:
  "writer_contract wr out \<Longrightarrow> wr w data = (n, err, w') \<Longrightarrow>
     n \<le> length data \<and> out w' = out w @ take n data \<and> (err = None \<longrightarrow> n = length data)"
  unfolding writer_contract_def by (metis (mono_tags, lifting) case_prod_conv)

lemma writeAll_out:
  assumes "writer_contract wr out" "writeAll wr w data = (None, w')"
  shows "out w' = out w @ data"
  using assms
proof (induction wr w data rule: writeAll.induct)
  case (1 wr w data)
  show ?case
  proof (cases "data = []")
    case True
    then show ?thesis using "1.prems" by (simp add: writeAll.simps)
  next
    case False
    obtain n err w1 where w1: "wr w data = (n, err, w1)"
      by (cases "wr w data")
    note c = writer_contractD [OF "1.prems"(1) w1]
    have ok: "err = None" "n \<noteq> 0" "\<not> length data < n" "writeAll wr w1 (drop n data) = (None, w')"
      using "1.prems"(2) False w1 c by (auto simp: writeAll.simps [of wr w data] split: if_splits option.splits)
    have "out w' = out w1 @ drop n data"
      using "1.IH" [OF False w1 [symmetric] refl ok(3) ok(1) ok(2)] "1.prems"(1) ok(4) by blast
    then show ?thesis using c by simp
  qed
qed

definition frame_bytes :: "MsgType \<Rightarrow> bytes \<Rightarrow> bytes" where
  "frame_bytes t data = t # PutUint32 (word_of_nat (length data)) @ data"

lemma length_frame_bytes [simp]: "length (frame_bytes t data) = 5 + length data"
  by (simp add: frame_bytes_def be32.length_enc)

lemma word_of_nat_size [simp]: "n \<le> MaxFrameSize \<Longrightarrow> unat (word_of_nat n :: 32 word) = n"
  by (simp add: unsigned_of_nat take_bit_eq_mod MaxFrameSize_def)

lemma frame_size_le_iff: "(w :: 32 word) > word_of_nat MaxFrameSize \<longleftrightarrow> unat w > MaxFrameSize"
  by (simp add: word_less_nat_alt MaxFrameSize_def)

lemma WriteFrame_out:
  assumes "writer_contract wr out" "WriteFrame marshal wr w t p = (None, w')"
  shows "\<exists>data. marshal p = Some data \<and> length data \<le> MaxFrameSize \<and> out w' = out w @ frame_bytes t data"
proof -
  obtain data where d: "marshal p = Some data" "length data \<le> MaxFrameSize"
    using assms(2) by (auto simp: WriteFrame_def split: option.splits if_splits)
  let ?h = "t # PutUint32 (word_of_nat (length data))"
  obtain w1 where w1: "writeAll wr w ?h = (None, w1)" "writeAll wr w1 data = (None, w')"
    using assms(2) d by (auto simp: WriteFrame_def Let_def split: option.splits if_splits prod.splits)
  show ?thesis
    using d writeAll_out [OF assms(1) w1(1)] writeAll_out [OF assms(1) w1(2)]
    by (simp add: frame_bytes_def)
qed

lemma ReadFrame_frame_bytes:
  assumes "length data \<le> MaxFrameSize"
  shows "ReadFrame (frame_bytes t data @ rest) = (Inr (t, data), rest)"
proof -
  have l: "length (PutUint32 x) = 4" for x by (rule be32.length_enc)
  show ?thesis
    using assms
    by (simp add: ReadFrame_def ReadFull_def frame_bytes_def Let_def l frame_size_le_iff be32.dec_enc)
qed

text \<open>
  C2: a frame that \<open>WriteFrame\<close> reports as written is read back by \<open>ReadFrame\<close>
  with its type and its payload, whatever follows it on the stream.
\<close>

theorem WriteFrame_ReadFrame:
  assumes "writer_contract wr out"
    and "WriteFrame marshal wr w t p = (None, w')"
  shows "\<exists>data frame. marshal p = Some data \<and> length data \<le> MaxFrameSize
    \<and> out w' = out w @ frame \<and> length frame = 5 + length data
    \<and> (\<forall>rest. ReadFrame (frame @ rest) = (Inr (t, data), rest))"
  using WriteFrame_out [OF assms] ReadFrame_frame_bytes by (metis length_frame_bytes)

definition buffer_write :: "bytes writer" where
  "buffer_write w data = (length data, None, w @ data)"

theorem WriteFrame_ReadFrame_witness:
  "\<exists>data frame. Some [7, 8, 9 :: byte] = Some data \<and> length data \<le> MaxFrameSize
    \<and> snd (WriteFrame Some buffer_write [] MsgPairRequest [7, 8, 9]) = [] @ frame
    \<and> length frame = 5 + length data
    \<and> (\<forall>rest. ReadFrame (frame @ rest) = (Inr (MsgPairRequest, data), rest))"
proof (rule WriteFrame_ReadFrame [where out = "\<lambda>w. w" and wr = buffer_write and marshal = Some
      and p = "[7, 8, 9]" and w = "[]"])
  show "writer_contract buffer_write (\<lambda>w. w)"
    by (simp add: writer_contract_def buffer_write_def)
  show "WriteFrame Some buffer_write [] MsgPairRequest [7, 8, 9] =
     (None, snd (WriteFrame Some buffer_write [] MsgPairRequest [7, 8, 9]))"
    by (simp add: WriteFrame_def buffer_write_def writeAll.simps MaxFrameSize_def Let_def)
qed

text \<open>
  C3: \<open>ReadFrame\<close> returns a payload only when the stream starts with exactly the
  encoding of that payload, which is at most \<open>MaxFrameSize\<close> bytes long; what it
  leaves on the stream is what follows the frame.
\<close>

theorem ReadFrame_sound:
  assumes "ReadFrame r = (Inr (t, data), rest)"
  shows "length data \<le> MaxFrameSize \<and> r = frame_bytes t data @ rest"
proof -
  have len: "5 \<le> length r"
    using assms by (auto simp: ReadFrame_def ReadFull_def split: if_splits)
  define b h p where "b = hd r" and "h = take 4 (tl r)" and "p = drop 4 (tl r)"
  have r: "r = b # h @ p" "length h = 4"
    using len unfolding b_def h_def p_def by (cases r; simp)+
  then show ?thesis
    using assms be32.enc_dec [of h]
    by (auto simp: ReadFrame_def ReadFull_def Let_def frame_size_le_iff frame_bytes_def
      split: if_splits)
qed

theorem ReadFrame_sound_witness:
  "length [9 :: byte] \<le> MaxFrameSize \<and> [4, 0, 0, 0, 1, 9, 5] = frame_bytes 4 [9] @ [5]"
proof (rule ReadFrame_sound)
  show "ReadFrame [4, 0, 0, 0, 1, 9, 5] = (Inr (4, [9]), [5])"
    by (simp add: ReadFrame_def ReadFull_def Let_def Uint32_def be_value_def MaxFrameSize_def)
qed

text \<open>A stream that ends before the frame does is an error, never a shorter frame.\<close>

theorem ReadFrame_truncated:
  assumes "length data \<le> MaxFrameSize" "n < 5 + length data"
  shows "\<exists>e. ReadFrame (take n (frame_bytes t data)) =
    (Inl (if n < 5 then ReadHeader e else ReadPayload e), [])"
proof (cases "n < 5")
  case True
  then show ?thesis by (simp add: ReadFrame_def ReadFull_def)
next
  case False
  then obtain k where k: "n = 5 + k" by (metis add.commute le_Suc_ex not_less)
  have l: "length (PutUint32 x) = 4" for x by (rule be32.length_enc)
  show ?thesis
    using assms False
    by (simp add: k ReadFrame_def ReadFull_def frame_bytes_def Let_def l frame_size_le_iff be32.dec_enc)
qed

section \<open>Capabilities: what a store of use-limited tokens promises its clients\<close>

datatype ('tok, 'g) cap_op = CapIssue 'tok 'g instant | CapUse instant 'tok

fun cap_step ::
  "('s \<Rightarrow> 'tok \<Rightarrow> 'g \<Rightarrow> instant \<Rightarrow> 's) \<Rightarrow> ('s \<Rightarrow> instant \<Rightarrow> 'tok \<Rightarrow> 'g option \<times> 's) \<Rightarrow>
   's \<Rightarrow> ('tok, 'g) cap_op \<Rightarrow> 'g option \<times> 's" where
  "cap_step issue use s (CapIssue t g now) = (None, issue s t g now)"
| "cap_step issue use s (CapUse now t) = use s now t"

primrec cap_trace ::
  "('s \<Rightarrow> 'tok \<Rightarrow> 'g \<Rightarrow> instant \<Rightarrow> 's) \<Rightarrow> ('s \<Rightarrow> instant \<Rightarrow> 'tok \<Rightarrow> 'g option \<times> 's) \<Rightarrow>
   's \<Rightarrow> ('tok, 'g) cap_op list \<Rightarrow> (('tok, 'g) cap_op \<times> 'g option) list" where
  "cap_trace issue use s [] = []"
| "cap_trace issue use s (a # ops) =
     (a, fst (cap_step issue use s a)) # cap_trace issue use (snd (cap_step issue use s a)) ops"

fun granted :: "'tok \<Rightarrow> ('tok, 'g) cap_op \<times> 'g option \<Rightarrow> bool" where
  "granted t (CapUse now t', Some g) = (t' = t)"
| "granted t _ = False"

fun reissues :: "'tok \<Rightarrow> ('tok, 'g) cap_op \<Rightarrow> bool" where
  "reissues t (CapIssue t' g now) = (t' = t)"
| "reissues t _ = False"

locale capability_store =
  fixes issue :: "'s \<Rightarrow> 'tok \<Rightarrow> 'g \<Rightarrow> instant \<Rightarrow> 's"
    and use :: "'s \<Rightarrow> instant \<Rightarrow> 'tok \<Rightarrow> 'g option \<times> 's"
    and held :: "'s \<Rightarrow> 'tok \<Rightarrow> ('g \<times> nat \<times> instant) option"
    and ok :: "'s \<Rightarrow> bool"
    and max_uses :: nat
    and ttl :: duration
  assumes ok_issue: "ok s \<Longrightarrow> ok (issue s t g now)"
    and ok_use: "ok s \<Longrightarrow> ok (snd (use s now t))"
    and issue_new: "ok s \<Longrightarrow> held (issue s t g now) t = Some (g, max_uses, now + ttl)"
    and issue_other: "ok s \<Longrightarrow> t' \<noteq> t \<Longrightarrow> held (issue s t g now) t' \<in> {held s t', None}"
    and use_other: "ok s \<Longrightarrow> t' \<noteq> t \<Longrightarrow> held (snd (use s now t)) t' = held s t'"
    and use_live: "ok s \<Longrightarrow> held s t = Some (g, Suc n, e) \<Longrightarrow> now \<le> e \<Longrightarrow>
      fst (use s now t) = Some g
      \<and> held (snd (use s now t)) t = (if n = 0 then None else Some (g, n, e))"
    and use_dead: "ok s \<Longrightarrow> (\<And>g n e. held s t = Some (g, Suc n, e) \<Longrightarrow> e < now) \<Longrightarrow>
      fst (use s now t) = None \<and> held (snd (use s now t)) t = None"
begin

definition budget :: "'s \<Rightarrow> 'tok \<Rightarrow> nat" where
  "budget s t = (case held s t of Some (g, n, e) \<Rightarrow> n | None \<Rightarrow> 0)"

lemma use_cases:
  assumes "ok s"
  obtains g n e where "held s t = Some (g, Suc n, e)" "now \<le> e" "fst (use s now t) = Some g"
      "held (snd (use s now t)) t = (if n = 0 then None else Some (g, n, e))"
  | "fst (use s now t) = None" "held (snd (use s now t)) t = None"
  using use_live [OF assms, of t] use_dead [OF assms, of t now] by (metis linorder_not_le)

lemma trace_bound:
  assumes "ok s" "\<not> list_ex (reissues t) ops"
  shows "length (filter (granted t) (cap_trace issue use s ops)) \<le> budget s t"
  using assms
proof (induction ops arbitrary: s)
  case Nil
  then show ?case by simp
next
  case (Cons a ops)
  show ?case
  proof (cases a)
    case (CapIssue t' g now)
    then have ne: "t' \<noteq> t" using Cons.prems by auto
    have "budget (issue s t' g now) t \<le> budget s t"
      using issue_other [OF Cons.prems(1) ne [symmetric], of g now] by (auto simp: budget_def)
    then show ?thesis
      using Cons.IH [OF ok_issue [OF Cons.prems(1)], of t' g now] Cons.prems CapIssue
      by simp
  next
    case (CapUse now t')
    note ih = Cons.IH [OF ok_use [OF Cons.prems(1), of now t']]
    show ?thesis
    proof (cases "t' = t")
      case False
      have "budget (snd (use s now t')) t = budget s t"
        using use_other [OF Cons.prems(1) False [symmetric], of now] by (simp add: budget_def)
      then show ?thesis
        using ih Cons.prems CapUse False by (cases "fst (use s now t')") simp_all
    next
      case True
      show ?thesis
        using ih Cons.prems CapUse True
        by (cases rule: use_cases [OF Cons.prems(1), of t now]) (auto simp: budget_def split: if_splits)
    qed
  qed
qed

lemma trace_grant:
  assumes "ok s" "\<not> list_ex (reissues t) ops" "(CapUse now t, Some g) \<in> set (cap_trace issue use s ops)"
  shows "\<exists>n e. held s t = Some (g, n, e) \<and> now \<le> e"
  using assms
proof (induction ops arbitrary: s)
  case Nil
  then show ?case by simp
next
  case (Cons a ops)
  show ?case
  proof (cases a)
    case (CapIssue t' g' now')
    then have ne: "t' \<noteq> t" using Cons.prems by auto
    then show ?thesis
      using Cons.IH [OF ok_issue [OF Cons.prems(1)], of t' g' now'] Cons.prems CapIssue
        issue_other [OF Cons.prems(1) ne [symmetric], of g' now'] by auto
  next
    case (CapUse now' t')
    note ih = Cons.IH [OF ok_use [OF Cons.prems(1), of now' t']]
    show ?thesis
    proof (cases "t' = t")
      case False
      then show ?thesis
        using ih Cons.prems CapUse use_other [OF Cons.prems(1) False [symmetric], of now'] by auto
    next
      case True
      show ?thesis
        using ih Cons.prems CapUse True
        by (cases rule: use_cases [OF Cons.prems(1), of t now']) (auto split: if_splits)
    qed
  qed
qed

lemma uses_available:
  assumes "ok s" "held s t = Some (g, n, e)" "length nows \<le> n" "list_all (\<lambda>now. now \<le> e) nows"
  shows "cap_trace issue use s (map (\<lambda>now. CapUse now t) nows) = map (\<lambda>now. (CapUse now t, Some g)) nows"
  using assms
proof (induction nows arbitrary: s n)
  case Nil
  then show ?case by simp
next
  case (Cons now nows)
  then obtain m where m: "n = Suc m" by (cases n) auto
  note live = use_live [OF Cons.prems(1) Cons.prems(2) [unfolded m], of now]
  show ?case
  proof (cases nows)
    case Nil
    then show ?thesis using live Cons.prems by simp
  next
    case (Cons now2 nows2)
    then have "m \<noteq> 0" using Cons.prems m by auto
    then show ?thesis
      using live Cons.prems m Cons.IH [OF ok_use [OF Cons.prems(1)], of now t m] by simp
  qed
qed

end

definition store_ok :: "SessionStore \<Rightarrow> bool" where
  "store_ok s \<longleftrightarrow> map_ok (ss_tokens s) \<and> (\<forall>(k, e) \<in> set (ss_tokens s). 0 < se_usesLeft e)"

definition grant_issue :: "SessionStore \<Rightarrow> bytes \<Rightarrow> SessionGrant \<Rightarrow> instant \<Rightarrow> SessionStore" where
  "grant_issue s t g now = snd (Issue s (Some t) now (sg_PeerID g) (sg_TargetPort g))"

definition grant_use :: "SessionStore \<Rightarrow> instant \<Rightarrow> bytes \<Rightarrow> SessionGrant option \<times> SessionStore" where
  "grant_use s now t = (case VerifyGrant s now t of
      (Inl _, s') \<Rightarrow> (None, s') | (Inr g, s') \<Rightarrow> (Some g, s'))"

definition grant_held :: "SessionStore \<Rightarrow> bytes \<Rightarrow> (SessionGrant \<times> nat \<times> instant) option" where
  "grant_held s t = map_option (\<lambda>e. (se_grant e, nat (se_usesLeft e), se_expiresAt e)) (map_get (ss_tokens s) t)"

lemma store_okI:
  "map_ok (ss_tokens s) \<Longrightarrow> (\<And>k e. map_get (ss_tokens s) k = Some e \<Longrightarrow> 0 < se_usesLeft e) \<Longrightarrow> store_ok s"
  by (auto simp: store_ok_def map_get_mem)

lemma store_okD:
  "store_ok s \<Longrightarrow> map_ok (ss_tokens s)"
  "store_ok s \<Longrightarrow> map_get (ss_tokens s) k = Some e \<Longrightarrow> 0 < se_usesLeft e"
  by (auto simp: store_ok_def dest: map_of_SomeD)

lemma store_ok_New: "store_ok NewSessionStore"
  by (simp add: store_ok_def NewSessionStore_def)

lemma store_ok_Issue: "store_ok s \<Longrightarrow> store_ok (snd (Issue s r now p port))"
  by (rule store_okI)
    (auto simp: Issue_def Let_def sweep_def go_map_simps store_okD SessionTokenMaxUses_def
      split: option.splits if_splits)

lemma store_ok_VerifyGrant: "store_ok s \<Longrightarrow> store_ok (snd (VerifyGrant s now t))"
  by (rule store_okI)
    (auto simp: VerifyGrant_def Let_def go_map_simps store_okD
      split: option.splits if_splits)

interpretation sess: capability_store grant_issue grant_use grant_held store_ok 16 SessionTokenTTL
proof
  fix s t t' g now n e
  assume s: "store_ok s"
  show "store_ok (grant_issue s t g now)"
    using s by (simp add: grant_issue_def store_ok_Issue)
  show "store_ok (snd (grant_use s now t))"
    using store_ok_VerifyGrant [OF s, of now t]
    by (auto simp: grant_use_def split: prod.splits sum.splits)
  show "grant_held (grant_issue s t g now) t = Some (g, 16, now + SessionTokenTTL)"
    using store_okD(1) [OF s]
    by (simp add: grant_issue_def grant_held_def Issue_def sweep_def Let_def go_map_simps After_def
      SessionTokenTTL_def SessionTokenMaxUses_def)
  { assume "t' \<noteq> t"
    then show "grant_held (grant_issue s t g now) t' \<in> {grant_held s t', None}"
      using store_okD(1) [OF s]
      by (auto simp: grant_issue_def grant_held_def Issue_def sweep_def Let_def go_map_simps
        split: option.splits) }
  { assume "t' \<noteq> t"
    then show "grant_held (snd (grant_use s now t)) t' = grant_held s t'"
      by (auto simp: grant_use_def grant_held_def VerifyGrant_def Let_def go_map_simps
        split: option.splits) }
  { assume "grant_held s t = Some (g, Suc n, e)" "now \<le> e"
    then show "fst (grant_use s now t) = Some g
      \<and> grant_held (snd (grant_use s now t)) t = (if n = 0 then None else Some (g, n, e))"
      using store_okD(1) [OF s]
      by (auto simp: grant_use_def grant_held_def VerifyGrant_def Let_def go_map_simps After_def) }
  { assume d: "\<And>g n e. grant_held s t = Some (g, Suc n, e) \<Longrightarrow> e < now"
    show "fst (grant_use s now t) = None \<and> grant_held (snd (grant_use s now t)) t = None"
    proof (cases "map_get (ss_tokens s) t")
      case None
      then show ?thesis by (simp add: grant_use_def grant_held_def VerifyGrant_def)
    next
      case (Some en)
      then have "0 < se_usesLeft en" using store_okD(2) [OF s] by blast
      then have "se_expiresAt en < now"
        using d [of "se_grant en" "nat (se_usesLeft en) - 1" "se_expiresAt en"] Some
        by (simp add: grant_held_def)
      then show ?thesis
        using Some by (simp add: grant_use_def grant_held_def VerifyGrant_def After_def go_map_simps)
    qed }
qed


text \<open>The operations of the store keep it well formed, in every order.\<close>

interpretation sess_machine: guarded_machine "\<lambda>s a. snd (cap_step grant_issue grant_use s a)" store_ok
proof
  fix s :: SessionStore and a :: "(bytes, SessionGrant) cap_op"
  assume "store_ok s"
  then show "store_ok (snd (cap_step grant_issue grant_use s a))"
    by (cases a) (auto intro: sess.ok_issue sess.ok_use)
qed

abbreviation session_state :: "(bytes, SessionGrant) cap_op list \<Rightarrow> SessionStore" where
  "session_state ops \<equiv> foldl (\<lambda>s a. snd (cap_step grant_issue grant_use s a)) NewSessionStore ops"

abbreviation session_trace ::
  "SessionStore \<Rightarrow> (bytes, SessionGrant) cap_op list \<Rightarrow> ((bytes, SessionGrant) cap_op \<times> SessionGrant option) list" where
  "session_trace \<equiv> cap_trace grant_issue grant_use"

lemma Issue_grant_issue:
  "Issue s (Some tok) now peer port = (Inr tok, grant_issue s tok \<lparr>sg_PeerID = peer, sg_TargetPort = port\<rparr> now)"
  by (simp add: Issue_def grant_issue_def Let_def)

text \<open>
  C1: a session token issued by a host is accepted at most 16 times, never later
  than two minutes after its issue, and always grants the peer and the port it
  was issued for, in every later sequence of issues and verifications that does
  not draw the same random token again.
\<close>

theorem session_token_limits:
  assumes "Issue (session_state before) (Some tok) now peer port = (Inr tok', s)"
    and "\<not> list_ex (reissues tok) ops"
  shows "tok' = tok
    \<and> length (filter (granted tok) (session_trace s ops)) \<le> 16
    \<and> (\<forall>at g. (CapUse at tok, Some g) \<in> set (session_trace s ops) \<longrightarrow>
         at \<le> now + SessionTokenTTL \<and> g = \<lparr>sg_PeerID = peer, sg_TargetPort = port\<rparr>)"
proof -
  let ?g = "\<lparr>sg_PeerID = peer, sg_TargetPort = port\<rparr>"
  have s: "tok' = tok" "s = grant_issue (session_state before) tok ?g now"
    using assms(1) by (auto simp: Issue_grant_issue)
  have ok: "store_ok (session_state before)"
    by (rule sess_machine.run_ok [OF store_ok_New])
  have held: "grant_held s tok = Some (?g, 16, now + SessionTokenTTL)"
    unfolding s(2) by (rule sess.issue_new [OF ok])
  have ok': "store_ok s" unfolding s(2) by (rule sess.ok_issue [OF ok])
  show ?thesis
    using s(1) sess.trace_bound [OF ok' assms(2)] sess.trace_grant [OF ok' assms(2)] held
    by (auto simp: sess.budget_def)
qed

theorem session_token_limits_witness:
  "let s = snd (Issue NewSessionStore (Some [1, 2]) 0 ''peer'' 22) in
     length (filter (granted [1, 2]) (session_trace s [CapUse 5 [1, 2], CapUse 6 [3]])) \<le> 16"
  using session_token_limits [of "[]" "[1, 2]" 0 "''peer''" 22 "[1, 2]"
      "snd (Issue NewSessionStore (Some [1, 2]) 0 ''peer'' 22)" "[CapUse 5 [1, 2], CapUse 6 [3]]"]
  by (simp add: Issue_grant_issue Let_def)

text \<open>
  within two minutes of its issue a session token opens at least 16 tunnel
  streams, each with the grant it was issued for.
\<close>

theorem session_token_available:
  assumes "Issue (session_state before) (Some tok) now peer port = (Inr tok', s)"
    and "length nows \<le> 16" "list_all (\<lambda>at. at \<le> now + SessionTokenTTL) nows"
  shows "session_trace s (map (\<lambda>at. CapUse at tok) nows) =
    map (\<lambda>at. (CapUse at tok, Some \<lparr>sg_PeerID = peer, sg_TargetPort = port\<rparr>)) nows"
proof -
  let ?g = "\<lparr>sg_PeerID = peer, sg_TargetPort = port\<rparr>"
  have s: "s = grant_issue (session_state before) tok ?g now"
    using assms(1) by (auto simp: Issue_grant_issue)
  have ok: "store_ok (session_state before)"
    by (rule sess_machine.run_ok [OF store_ok_New])
  show ?thesis
    using sess.uses_available [OF _ _ assms(2,3)] sess.issue_new [OF ok] sess.ok_issue [OF ok] s by blast
qed

theorem session_token_available_witness:
  "let s = snd (Issue NewSessionStore (Some [1, 2]) 0 ''peer'' 22) in
     session_trace s (map (\<lambda>at. CapUse at [1, 2]) [5, 7]) =
     map (\<lambda>at. (CapUse at [1, 2], Some \<lparr>sg_PeerID = ''peer'', sg_TargetPort = 22\<rparr>)) [5, 7]"
  using session_token_available [of "[]" "[1, 2]" 0 "''peer''" 22 "[1, 2]"
      "snd (Issue NewSessionStore (Some [1, 2]) 0 ''peer'' 22)" "[5, 7]"]
  by (simp add: Issue_grant_issue Let_def SessionTokenTTL_def)


end
