(* ===== verification/Token.thy ===== *)
theory Token
  imports Go_Prelude
begin

text \<open>
  The invite token of \<open>internal/rendezvous/token.go\<close> (its 88-byte layout, the
  base58 text form, the \<open>deskaccess://\<close> URL and the invite proof) and the
  display codes of \<open>internal/rendezvous/code.go\<close>. Fixed-size Go arrays are
  byte lists whose lengths are the well-formedness predicate \<open>token_ok\<close>; HMAC-SHA256
  is an argument.
\<close>

section \<open>Constants and protocols\<close>

definition tokenBytes :: nat where "tokenBytes = 88"
definition URLScheme :: string where "URLScheme = ''deskaccess''"
definition CodeLength :: nat where "CodeLength = 6"
definition InviteIDSize :: nat where "InviteIDSize = 16"
definition InviteSecretSize :: nat where "InviteSecretSize = 32"
definition TimeWindowSecs :: int where "TimeWindowSecs = 30"
definition maxUnix32 :: int where "maxUnix32 = 2 ^ 32 - 1"

type_synonym Protocol = byte

definition ProtoRDP :: Protocol where "ProtoRDP = 0"
definition ProtoVNC :: Protocol where "ProtoVNC = 1"
definition ProtoSSH :: Protocol where "ProtoSSH = 2"
definition ProtoCustom :: Protocol where "ProtoCustom = 3"

lemmas Proto_defs = ProtoRDP_def ProtoVNC_def ProtoSSH_def ProtoCustom_def

definition Protocol_String :: "Protocol \<Rightarrow> string" where
  "Protocol_String p =
     (if p = ProtoRDP then ''rdp'' else if p = ProtoVNC then ''vnc''
      else if p = ProtoSSH then ''ssh'' else ''custom'')"

definition DefaultPort :: "Protocol \<Rightarrow> int" where
  "DefaultPort p =
     (if p = ProtoRDP then 3389 else if p = ProtoVNC then 5900
      else if p = ProtoSSH then 22 else 3389)"

definition ParseProtocol :: "string \<Rightarrow> Protocol" where
  "ParseProtocol s =
     (let l = ToLower s in
      if l = ''vnc'' then ProtoVNC else if l = ''ssh'' then ProtoSSH
      else if l = ''custom'' then ProtoCustom else ProtoRDP)"

record Token =
  tok_PubKey :: bytes
  tok_RelayMask :: byte
  tok_InviteID :: bytes
  tok_InviteSecret :: bytes
  tok_ExpiresAt :: instant
  tok_Mode :: byte
  tok_Protocol :: Protocol
  tok_TargetPort :: "16 word"

definition token_ok :: "Token \<Rightarrow> bool" where
  "token_ok t \<longleftrightarrow> length (tok_PubKey t) = 32 \<and> length (tok_InviteID t) = InviteIDSize
     \<and> length (tok_InviteSecret t) = InviteSecretSize"

definition Port :: "Token \<Rightarrow> int" where
  "Port t = (if tok_TargetPort t = 0 then DefaultPort (tok_Protocol t) else uint (tok_TargetPort t))"

section \<open>Base58\<close>

definition base58Alphabet :: string where
  "base58Alphabet = ''123456789ABCDEFGHJKLMNPQRSTUVWXYZabcdefghijkmnopqrstuvwxyz''"

text \<open>The digit loop of \<open>base58Encode\<close>, least significant digit first.\<close>

fun base58_digits :: "nat \<Rightarrow> string" where
  "base58_digits n = (if n = 0 then [] else base58Alphabet ! (n mod 58) # base58_digits (n div 58))"

declare base58_digits.simps [simp del]

definition base58Encode :: "bytes \<Rightarrow> string" where
  "base58Encode input =
     rev (base58_digits (be_value input)
          @ replicate (length (takeWhile (\<lambda>b. b = 0) input)) (base58Alphabet ! 0))"

text \<open>\<open>big.Int.Bytes\<close>: the big-endian bytes without leading zeros.\<close>

fun big_Bytes :: "nat \<Rightarrow> bytes" where
  "big_Bytes n = (if n = 0 then [] else big_Bytes (n div 256) @ [word_of_nat n])"

declare big_Bytes.simps [simp del]

datatype token_decode_error = NotADeskAccessURL | InvalidBase58Char char | InvalidTokenLength nat

fun base58_value :: "nat \<Rightarrow> string \<Rightarrow> token_decode_error + nat" where
  "base58_value n [] = Inr n"
| "base58_value n (c # cs) =
     (case Index base58Alphabet [c] of
        None \<Rightarrow> Inl (InvalidBase58Char c)
      | Some idx \<Rightarrow> base58_value (n * 58 + idx) cs)"

definition base58Decode :: "string \<Rightarrow> token_decode_error + bytes" where
  "base58Decode input =
     (case base58_value 0 input of
        Inl e \<Rightarrow> Inl e
      | Inr n \<Rightarrow>
          let decoded = big_Bytes n;
              leading = length (takeWhile (\<lambda>c. c = base58Alphabet ! 0) input)
          in Inr (replicate leading 0 @ decoded))"

section \<open>The token and its URL\<close>

definition token_flags :: "Protocol \<Rightarrow> byte \<Rightarrow> byte" where
  "token_flags p m = push_bit 4 p OR (m AND 0x0F)"

definition clamp_expiry :: "instant \<Rightarrow> int" where
  "clamp_expiry t =
     (let expires = Unix t;
          expires = (if expires < 0 then 0 else expires)
      in if expires > maxUnix32 then maxUnix32 else expires)"

definition token_buf :: "Token \<Rightarrow> bytes" where
  "token_buf t =
     tok_PubKey t @ [tok_RelayMask t] @ tok_InviteID t @ tok_InviteSecret t
     @ PutUint32 (word_of_int (clamp_expiry (tok_ExpiresAt t)))
     @ [token_flags (tok_Protocol t) (tok_Mode t)] @ PutUint16 (tok_TargetPort t)"

definition Encode :: "Token \<Rightarrow> string" where
  "Encode t = URLScheme @ ''://'' @ base58Encode (token_buf t)"

definition urlPrefix :: "string \<Rightarrow> string \<times> bool" where
  "urlPrefix raw =
     (let prefix = URLScheme @ ''://'' in
      if HasPrefix (ToLower raw) prefix then (take (length prefix) raw, True) else ([], False))"

text \<open>The text between the scheme and the query or fragment.\<close>

definition url_payload :: "string \<Rightarrow> string \<Rightarrow> string" where
  "url_payload url prefix =
     (let encoded = TrimSpace (TrimPrefix url prefix);
          encoded = TrimLeftFunc (\<lambda>c. c = CHR ''/'') encoded;
          encoded = CutBefore encoded (CHR ''?'');
          encoded = CutBefore encoded (CHR ''#'')
      in TrimFunc (\<lambda>c. c = CHR ''/'') encoded)"

definition token_of_buf :: "bytes \<Rightarrow> Token" where
  "token_of_buf buf =
     (let flags = buf ! 85 in
      \<lparr>tok_PubKey = take 32 buf,
       tok_RelayMask = buf ! 32,
       tok_InviteID = take 16 (drop 33 buf),
       tok_InviteSecret = take 32 (drop 49 buf),
       tok_ExpiresAt = time_Unix (uint (Uint32 (take 4 (drop 81 buf)))),
       tok_Mode = flags AND 0x0F,
       tok_Protocol = drop_bit 4 flags,
       tok_TargetPort = Uint16 (take 2 (drop 86 buf))\<rparr>)"

definition DecodeURL :: "string \<Rightarrow> token_decode_error + Token" where
  "DecodeURL url =
     (case urlPrefix url of (prefix, ok) \<Rightarrow>
        if \<not> ok then Inl NotADeskAccessURL
        else case base58Decode (url_payload url prefix) of
          Inl e \<Rightarrow> Inl e
        | Inr buf \<Rightarrow>
            if length buf \<noteq> tokenBytes then Inl (InvalidTokenLength (length buf))
            else Inr (token_of_buf buf))"

definition IsExpired :: "instant \<Rightarrow> Token \<Rightarrow> bool" where
  "IsExpired now t =
     (if tok_Mode t = 1 then False
      else if After (tok_ExpiresAt t) (now + 50 * 365 * 24 * hour) then False
      else After now (tok_ExpiresAt t))"

definition ModeString :: "Token \<Rightarrow> string" where
  "ModeString t = (if tok_Mode t = 1 then ''pairing'' else ''onetime'')"

definition TimeWindow :: "instant \<Rightarrow> int" where
  "TimeWindow at = go_div (Unix at) TimeWindowSecs"

section \<open>Invite proofs\<close>

definition invite_transcript :: "bytes \<Rightarrow> string \<Rightarrow> string \<Rightarrow> string \<Rightarrow> int \<Rightarrow> bytes" where
  "invite_transcript inviteID hostPeerID clientPeerID mode window =
     bytes_of_string ''deskaccess invite proof v1'' @ [0] @ inviteID @ [0]
     @ bytes_of_string hostPeerID @ [0] @ bytes_of_string clientPeerID @ [0]
     @ bytes_of_string mode @ [0] @ PutUint64 (word_of_int window)"

definition InviteProof ::
  "(bytes \<Rightarrow> bytes \<Rightarrow> bytes) \<Rightarrow> bytes \<Rightarrow> bytes \<Rightarrow> string \<Rightarrow> string \<Rightarrow> string \<Rightarrow> int \<Rightarrow> bytes" where
  "InviteProof hmac secret inviteID hostPeerID clientPeerID mode window =
     hmac secret (invite_transcript inviteID hostPeerID clientPeerID mode window)"

definition EqualProof :: "bytes \<Rightarrow> bytes \<Rightarrow> bool" where
  "EqualProof a b \<longleftrightarrow> a = b"

section \<open>Session codes and machine identifiers\<close>

definition NewSessionCode :: "nat option \<Rightarrow> string option" where
  "NewSessionCode random = map_option (\<lambda>n. replicate (6 - length (Utoa n)) (CHR ''0'') @ Utoa n) random"

definition FormatCode :: "string \<Rightarrow> string" where
  "FormatCode code =
     (let code = TrimSpace code in
      if length code \<noteq> CodeLength then code else take 3 code @ ''-'' @ drop 3 code)"

definition NormaliseCode :: "string \<Rightarrow> string" where
  "NormaliseCode code = TrimSpace (RemoveAll (CHR '' '') (RemoveAll (CHR ''-'') code))"

fun format_machine_loop :: "nat \<Rightarrow> string \<Rightarrow> string" where
  "format_machine_loop i [] = []"
| "format_machine_loop i (c # cs) =
     (if i > 0 \<and> i mod 4 = 0 then [CHR ''-''] else []) @ c # format_machine_loop (Suc i) cs"

definition FormatMachineID :: "string \<Rightarrow> string" where
  "FormatMachineID peerID = format_machine_loop 0 peerID"

definition NormaliseMachineID :: "string \<Rightarrow> string" where
  "NormaliseMachineID display = RemoveAll (CHR ''-'') display"

definition ShortMachineID :: "string \<Rightarrow> string" where
  "ShortMachineID peerID =
     (if length peerID > 20 then take 20 peerID @ map char_of [0xE2, 0x80, 0xA6 :: nat] else peerID)"

section \<open>Base58 round trip\<close>

lemma Index_nth: "distinct s \<Longrightarrow> i < length s \<Longrightarrow> Index s [s ! i] = Some i"
proof (induction s arbitrary: i)
  case Nil
  then show ?case by simp
next
  case (Cons a s)
  then show ?case by (cases i) (auto simp: HasPrefix_def)
qed

lemma alphabet_length [simp]: "length base58Alphabet = 58"
  by (simp add: base58Alphabet_def)

lemma alphabet_distinct [simp]: "distinct base58Alphabet"
  by (simp add: base58Alphabet_def)

lemma alphabet_index [simp]: "i < 58 \<Longrightarrow> Index base58Alphabet [base58Alphabet ! i] = Some i"
  by (rule Index_nth) simp_all

lemma alphabet_nth_eq [simp]:
  "i < 58 \<Longrightarrow> j < 58 \<Longrightarrow> base58Alphabet ! i = base58Alphabet ! j \<longleftrightarrow> i = j"
  by (simp add: nth_eq_iff_index_eq)

lemma base58_value_append:
  "base58_value n s = Inr m \<Longrightarrow> base58_value n (s @ t) = base58_value m t"
  by (induction n s arbitrary: m rule: base58_value.induct) (auto split: option.splits)

lemma base58_value_zeros: "base58_value 0 (replicate k (base58Alphabet ! 0)) = Inr 0"
  by (induction k) simp_all

lemma base58_value_digits: "base58_value 0 (rev (base58_digits n)) = Inr n"
proof (induction n rule: base58_digits.induct)
  case (1 n)
  show ?case
  proof (cases "n = 0")
    case True
    then show ?thesis by (simp add: base58_digits.simps)
  next
    case False
    then have "base58_value 0 (rev (base58_digits n)) =
        base58_value (n div 58) [base58Alphabet ! (n mod 58)]"
      using 1 by (simp add: base58_digits.simps [of n] base58_value_append)
    then show ?thesis by simp
  qed
qed

lemma base58_digits_last: "n \<noteq> 0 \<Longrightarrow> base58_digits n \<noteq> [] \<and> last (base58_digits n) \<noteq> base58Alphabet ! 0"
proof (induction n rule: base58_digits.induct)
  case (1 n)
  show ?case
  proof (cases "n div 58 = 0")
    case True
    then have "n < 58" by (simp add: div_eq_0_iff)
    then show ?thesis using 1 True by (simp add: base58_digits.simps)
  next
    case False
    then show ?thesis using 1 by (simp add: base58_digits.simps [of n])
  qed
qed

lemma base58_digits_head: "takeWhile (\<lambda>c. c = base58Alphabet ! 0) (rev (base58_digits n)) = []"
proof (cases "n = 0")
  case True
  then show ?thesis by (simp add: base58_digits.simps)
next
  case False
  then show ?thesis
    using base58_digits_last [of n] by (simp add: takeWhile_eq_Nil_iff hd_rev)
qed

lemma be_value_dropZeros: "be_value (dropWhile (\<lambda>b. b = 0) bs) = be_value bs"
  by (induction bs) (auto simp: be_value_Cons)

lemma big_Bytes_be_value: "bs = [] \<or> hd bs \<noteq> 0 \<Longrightarrow> big_Bytes (be_value bs) = bs"
proof (induction bs rule: rev_induct)
  case Nil
  then show ?case by (simp add: big_Bytes.simps)
next
  case (snoc x xs)
  have z: "(256 :: byte) = 0" by simp
  have w: "(word_of_nat (be_value xs * 256 + unat x) :: byte) = x"
    by (simp only: of_nat_add of_nat_mult of_nat_numeral z) simp
  have "be_value xs * 256 + unat x \<noteq> 0"
  proof (cases xs)
    case Nil
    then show ?thesis using snoc.prems by (simp add: unat_eq_0)
  next
    case (Cons y ys)
    then have "unat y \<noteq> 0" using snoc.prems by (simp add: unat_eq_0)
    then have "be_value xs \<noteq> 0" by (simp add: Cons be_value_Cons)
    then show ?thesis by simp
  qed
  moreover have "big_Bytes (be_value xs) = xs"
    using snoc by (cases xs) auto
  ultimately show ?case
    using w by (simp add: big_Bytes.simps [of "be_value xs * 256 + unat x"])
qed

lemma base58Decode_base58Encode: "base58Decode (base58Encode bs) = Inr bs"
proof -
  let ?z = "length (takeWhile (\<lambda>b. b = 0) bs)"
  have e: "base58Encode bs = replicate ?z (base58Alphabet ! 0) @ rev (base58_digits (be_value bs))"
    by (simp add: base58Encode_def)
  have v: "base58_value 0 (base58Encode bs) = Inr (be_value bs)"
    unfolding e using base58_value_append [OF base58_value_zeros] base58_value_digits by metis
  have l: "takeWhile (\<lambda>c. c = base58Alphabet ! 0) (base58Encode bs) = replicate ?z (base58Alphabet ! 0)"
    unfolding e by (subst takeWhile_append2) (simp_all only: set_replicate_conv_if base58_digits_head append_Nil2, simp split: if_splits)
  have z: "replicate ?z 0 = takeWhile (\<lambda>b. b = 0) bs"
    by (rule replicate_length_same) (auto dest: set_takeWhileD)
  have "big_Bytes (be_value bs) = dropWhile (\<lambda>b. b = 0) bs"
    using big_Bytes_be_value [of "dropWhile (\<lambda>b. b = 0) bs"] hd_dropWhile [of "\<lambda>b. b = 0" bs]
    by (auto simp: be_value_dropZeros)
  then show ?thesis
    using v l z by (simp add: base58Decode_def)
qed

section \<open>The token URL round trip\<close>

lemma base58_digits_alphabet: "set (base58_digits n) \<subseteq> set base58Alphabet"
proof (induction n rule: base58_digits.induct)
  case (1 n)
  then show ?case
    by (auto simp: base58_digits.simps [of n] intro!: nth_mem)
qed

lemma base58Encode_alphabet: "c \<in> set (base58Encode bs) \<Longrightarrow> c \<in> set base58Alphabet"
  using base58_digits_alphabet nth_mem [of 0 base58Alphabet]
  by (auto simp: base58Encode_def split: if_splits)

lemma alphabet_plain: "c \<in> set base58Alphabet \<Longrightarrow>
    \<not> is_space c \<and> c \<noteq> CHR ''/'' \<and> c \<noteq> CHR ''?'' \<and> c \<noteq> CHR ''#''"
  by (auto simp: base58Alphabet_def is_space_def char_code_def)

lemma base58Encode_Nil_iff: "base58Encode bs = [] \<longleftrightarrow> bs = []"
  by (metis base58Decode_base58Encode base58Encode_def be_value_Nil base58_digits.simps
      list.size(3) replicate_0 append_Nil rev.simps(1) takeWhile.simps(1) sum.inject(2))

lemma TrimFunc_keep:
  assumes "s \<noteq> []" "\<not> p (hd s)" "\<not> p c"
  shows "\<exists>t'. TrimFunc p (s @ c # t) = s @ c # t'"
proof -
  have l: "dropWhile p (s @ c # t) = s @ c # t"
    using assms by (cases s) auto
  have "rev (dropWhile p (rev (s @ c # t))) = s @ c # rev (dropWhile p (rev t))"
    using assms by (simp add: dropWhile_append)
  then show ?thesis
    by (auto simp: TrimFunc_def TrimLeftFunc_def TrimRightFunc_def l)
qed

text \<open>What may follow the token in a URL: nothing, a query or a fragment.\<close>

definition url_suffix :: "string \<Rightarrow> bool" where
  "url_suffix s \<longleftrightarrow> s = [] \<or> hd s = CHR ''?'' \<or> hd s = CHR ''#''"

lemma url_payload_plain:
  assumes plain: "\<And>c. c \<in> set body \<Longrightarrow> c \<in> set base58Alphabet" and ne: "body \<noteq> []"
    and suf: "url_suffix suffix"
  shows "url_payload (pre @ body @ suffix) pre = body"
proof -
  have p: "\<not> is_space c \<and> c \<noteq> CHR ''/'' \<and> c \<noteq> CHR ''?'' \<and> c \<noteq> CHR ''#''" if "c \<in> set body" for c
    using plain [OF that] by (rule alphabet_plain)
  have hd: "hd body \<in> set body" using ne by simp
  have tl: "TrimFunc (\<lambda>c. c = CHR ''/'') body = body"
    using p by (intro TrimFunc_id) auto
  have tll: "dropWhile (\<lambda>c. c = CHR ''/'') (body @ r) = body @ r" for r
    using ne p [OF hd] by (cases body) auto
  have body: "takeWhile (\<lambda>x. x \<noteq> CHR ''?'') body = body" "takeWhile (\<lambda>x. x \<noteq> CHR ''#'') body = body"
    using p by (simp_all add: takeWhile_eq_all_conv)
  show ?thesis
  proof (cases suffix)
    case Nil
    have "TrimSpace body = body"
      unfolding TrimSpace_def using p by (intro TrimFunc_id) auto
    then show ?thesis
      using tl tll [of "[]"]
      by (simp add: Nil url_payload_def Let_def TrimLeftFunc_def CutBefore_takeWhile body)
  next
    case (Cons c q)
    then have c: "c = CHR ''?'' \<or> c = CHR ''#''" using suf by (simp add: url_suffix_def)
    then obtain q' where q': "TrimSpace (body @ c # q) = body @ c # q'"
      using TrimFunc_keep [of body is_space c q] ne p [OF hd]
      by (auto simp: TrimSpace_def is_space_def char_code_def)
    have "takeWhile (\<lambda>x. x \<noteq> CHR ''#'') (takeWhile (\<lambda>x. x \<noteq> CHR ''?'') (body @ c # q')) = body"
      using c p body by (auto simp: takeWhile_append)
    then show ?thesis
      using q' tl tll
      by (simp add: Cons url_payload_def Let_def TrimLeftFunc_def CutBefore_takeWhile)
  qed
qed

lemma token_flags_split:
  "token_flags p m AND 0x0F = m AND 0x0F" "drop_bit 4 (token_flags p m) = p AND 0x0F"
proof -
  have n: "(0x0F :: byte) = mask 4" by (simp add: mask_eq_exp_minus_1)
  show "token_flags p m AND 0x0F = m AND 0x0F" "drop_bit 4 (token_flags p m) = p AND 0x0F"
    unfolding token_flags_def n by (auto intro!: bit_word_eqI simp: bit_simps)
qed

lemma clamp_expiry_range: "0 \<le> clamp_expiry t" "clamp_expiry t \<le> maxUnix32"
  by (simp_all add: clamp_expiry_def Let_def maxUnix32_def)

lemma uint_clamp_expiry: "uint (word_of_int (clamp_expiry t) :: 32 word) = clamp_expiry t"
  using clamp_expiry_range [of t]
  by (simp add: unsigned_of_int take_bit_eq_mod maxUnix32_def)

definition token_canonical :: "Token \<Rightarrow> Token" where
  "token_canonical t = t\<lparr>tok_ExpiresAt := time_Unix (clamp_expiry (tok_ExpiresAt t)),
     tok_Mode := tok_Mode t AND 0x0F, tok_Protocol := tok_Protocol t AND 0x0F\<rparr>"

lemma length_token_buf: "token_ok t \<Longrightarrow> length (token_buf t) = tokenBytes"
  by (simp add: token_ok_def token_buf_def tokenBytes_def InviteIDSize_def InviteSecretSize_def
      be32.length_enc be16.length_enc)

lemma token_of_buf_token_buf:
  assumes "token_ok t"
  shows "token_of_buf (token_buf t) = token_canonical t"
proof -
  have l: "length (tok_PubKey t) = 32" "length (tok_InviteID t) = 16" "length (tok_InviteSecret t) = 32"
    using assms by (simp_all add: token_ok_def InviteIDSize_def InviteSecretSize_def)
  have e: "length (PutUint32 x) = 4" "length (PutUint16 y) = 2" for x y
    by (rule be32.length_enc, rule be16.length_enc)
  show ?thesis
    by (simp add: token_of_buf_def token_buf_def token_canonical_def Let_def l e nth_append
        token_flags_split be32.dec_enc be16.dec_enc uint_clamp_expiry)
qed

lemma DecodeURL_link:
  assumes "token_ok t" "url_suffix suffix"
  shows "DecodeURL (Encode t @ suffix) = Inr (token_canonical t)"
proof -
  let ?pre = "URLScheme @ ''://''" and ?body = "base58Encode (token_buf t)"
  have lower: "ToLower URLScheme = URLScheme"
    by (simp add: URLScheme_def ToLower_def lower_char_def char_code_def)
  have pre: "urlPrefix (Encode t @ suffix) = (?pre, True)"
    by (simp add: urlPrefix_def Encode_def HasPrefix_def Let_def URLScheme_def ToLower_def
        lower_char_def char_code_def)
  have "token_buf t \<noteq> []"
    using length_token_buf [OF assms(1)] by (auto simp: tokenBytes_def)
  then have "url_payload (?pre @ ?body @ suffix) ?pre = ?body"
    using base58Encode_alphabet base58Encode_Nil_iff assms(2) by (intro url_payload_plain) auto
  then have "url_payload (Encode t @ suffix) ?pre = ?body"
    by (simp add: Encode_def)
  then show ?thesis
    using pre length_token_buf [OF assms(1)] token_of_buf_token_buf [OF assms(1)]
    by (simp add: DecodeURL_def base58Decode_base58Encode)
qed

text \<open>
  C4: the URL of a token decodes to that token, with the expiry cut to whole
  seconds in the range of 32 bits and mode and protocol to their four bits; a
  query or fragment after the token does not change this.
\<close>

theorem DecodeURL_Encode:
  assumes "token_ok t" "url_suffix suffix"
  shows "DecodeURL (Encode t @ suffix) = Inr (token_canonical t)"
  using assms by (rule DecodeURL_link)

definition sample_token :: Token where
  "sample_token = \<lparr>tok_PubKey = replicate 32 7, tok_RelayMask = 3, tok_InviteID = replicate 16 0,
     tok_InviteSecret = replicate 32 9, tok_ExpiresAt = time_Unix 1700000000, tok_Mode = 0,
     tok_Protocol = ProtoSSH, tok_TargetPort = 2222\<rparr>"

theorem DecodeURL_Encode_witness:
  "DecodeURL (Encode sample_token @ ''?v=2'') = Inr sample_token"
proof -
  have "token_canonical sample_token = sample_token"
    by (simp add: token_canonical_def sample_token_def clamp_expiry_def maxUnix32_def ProtoSSH_def)
  moreover have "DecodeURL (Encode sample_token @ ''?v=2'') = Inr (token_canonical sample_token)"
    by (rule DecodeURL_Encode)
      (simp_all add: token_ok_def url_suffix_def sample_token_def InviteIDSize_def InviteSecretSize_def)
  ultimately show ?thesis by simp
qed

section \<open>What an invite proof is bound to\<close>

lemma zero_in_bytes_of_string: "0 \<in> set (bytes_of_string s) \<longleftrightarrow> CHR 0x00 \<in> set s"
proof -
  have "byte_of_char (CHR 0x00) = 0" by (simp add: byte_of_char_def)
  then have "byte_of_char c = 0 \<longleftrightarrow> c = CHR 0x00" for c by (metis char_of_byte_of_char)
  then show ?thesis by (force simp: bytes_of_string_def image_iff)
qed

text \<open>
  the message an invite proof authenticates determines the invite, the host,
  the client, the mode and the time window, so a proof computed for one client,
  host, mode or window is not the HMAC of another's message.
\<close>

theorem invite_transcript_inject:
  assumes "length i = InviteIDSize" "length i' = InviteIDSize"
    and "CHR 0x00 \<notin> set h \<union> set c \<union> set m" "CHR 0x00 \<notin> set h' \<union> set c' \<union> set m'"
    and "-(2 ^ 63) \<le> w" "w < 2 ^ 63" "-(2 ^ 63) \<le> w'" "w' < 2 ^ 63"
    and "invite_transcript i h c m w = invite_transcript i' h' c' m' w'"
  shows "i = i' \<and> h = h' \<and> c = c' \<and> m = m' \<and> w = w'"
proof -
  have z: "0 \<notin> set (bytes_of_string h)" "0 \<notin> set (bytes_of_string c)" "0 \<notin> set (bytes_of_string m)"
    "0 \<notin> set (bytes_of_string h')" "0 \<notin> set (bytes_of_string c')" "0 \<notin> set (bytes_of_string m')"
    using assms(3,4) by (simp_all add: zero_in_bytes_of_string)
  have "i @ 0 # bytes_of_string h @ 0 # bytes_of_string c @ 0 # bytes_of_string m @ 0 # PutUint64 (word_of_int w) =
    i' @ 0 # bytes_of_string h' @ 0 # bytes_of_string c' @ 0 # bytes_of_string m' @ 0 # PutUint64 (word_of_int w')"
    using assms(9) by (simp add: invite_transcript_def)
  then have ii: "i = i'" and rest: "bytes_of_string h @ 0 # bytes_of_string c @ 0 # bytes_of_string m @ 0 # PutUint64 (word_of_int w) =
    bytes_of_string h' @ 0 # bytes_of_string c' @ 0 # bytes_of_string m' @ 0 # PutUint64 (word_of_int w')"
    using assms(1,2) by simp_all
  have s: "h = h'" "c = c'" "m = m'" "(word_of_int w :: 64 word) = word_of_int w'"
    using rest by (simp_all add: sep_inject z be64.enc_inject)
  have "sint (word_of_int w :: 64 word) = w" "sint (word_of_int w' :: 64 word) = w'"
    using assms(5-8) by (simp_all add: signed_of_int signed_take_bit_int_eq_self)
  then show ?thesis using ii s by metis
qed

theorem invite_transcript_inject_witness:
  "\<exists>m w. ''onetime'' = m \<and> 56 = w \<and> invite_transcript (replicate 16 1) ''host'' ''client'' ''onetime'' 56
     = invite_transcript (replicate 16 1) ''host'' ''client'' m w"
  using invite_transcript_inject [of "replicate 16 1" "replicate 16 1" "''host''" "''client''" "''onetime''"
      "''host''" "''client''" "''onetime''" 56 56]
  by (simp add: InviteIDSize_def)

section \<open>Codes and identifiers\<close>

lemma is_digit_plain: "is_digit c \<Longrightarrow> c \<noteq> CHR ''-'' \<and> c \<noteq> CHR '' '' \<and> \<not> is_space c"
  by (auto simp: is_digit_def is_space_def char_code_def)

lemma NewSessionCode_digits:
  assumes "n < 1000000" "NewSessionCode (Some n) = Some code"
  shows "length code = CodeLength \<and> list_all is_digit code"
proof -
  have "length (Utoa n) \<le> 6"
    using assms(1) by (intro length_Utoa_le) simp_all
  then show ?thesis
    using assms(2) digits_Utoa [of n]
    by (auto simp: NewSessionCode_def CodeLength_def list_all_iff is_digit_def char_code_def)
qed

lemma TrimSpace_digits: "list_all is_digit s \<Longrightarrow> TrimSpace s = s"
  unfolding TrimSpace_def using is_digit_plain by (intro TrimFunc_id) (auto simp: list_all_iff)

text \<open>
  a generated session code has six digits, is shown with a dash in the
  middle, and typed back in that form is the same code.
\<close>

theorem session_code_roundtrip:
  assumes "n < 1000000" "NewSessionCode (Some n) = Some code"
  shows "length code = CodeLength \<and> list_all is_digit code
    \<and> FormatCode code = take 3 code @ ''-'' @ drop 3 code
    \<and> NormaliseCode (FormatCode code) = code"
proof -
  note c = NewSessionCode_digits [OF assms]
  have d: "x \<noteq> CHR ''-'' \<and> x \<noteq> CHR '' ''" if "x \<in> set code" for x
    using c that is_digit_plain by (auto simp: list_all_iff)
  have f: "FormatCode code = take 3 code @ ''-'' @ drop 3 code"
    using c by (simp add: FormatCode_def TrimSpace_digits Let_def)
  have "filter (\<lambda>x. x \<noteq> CHR ''-'') (take 3 code @ ''-'' @ drop 3 code) = code"
  proof -
    have "filter (\<lambda>x. x \<noteq> CHR ''-'') (take 3 code) = take 3 code"
      "filter (\<lambda>x. x \<noteq> CHR ''-'') (drop 3 code) = drop 3 code"
      using d by (auto simp: filter_id_conv dest: in_set_takeD in_set_dropD)
    then show ?thesis by simp
  qed
  moreover have "filter (\<lambda>x. x \<noteq> CHR '' '') code = code"
    using d by (simp add: filter_id_conv)
  ultimately show ?thesis
    using c f by (simp add: NormaliseCode_def RemoveAll_def TrimSpace_digits)
qed

lemma replicate_numeral2: "replicate 2 x = [x, x]"
  by (simp add: numeral_2_eq_2)

theorem session_code_roundtrip_witness: "FormatCode ''004219'' = ''004-219''"
proof -
  have "NewSessionCode (Some 4219) = Some ''004219''"
    by (simp add: NewSessionCode_def Utoa.simps digit_char_def char_of_def replicate_numeral2 bit_Suc_0_iff)
  then show ?thesis using session_code_roundtrip [of 4219 "''004219''"] by simp
qed

lemma NormaliseMachineID_FormatMachineID:
  "CHR ''-'' \<notin> set p \<Longrightarrow> NormaliseMachineID (FormatMachineID p) = p"
proof -
  have "CHR ''-'' \<notin> set p \<Longrightarrow> RemoveAll (CHR ''-'') (format_machine_loop i p) = p" for i
    by (induction i p rule: format_machine_loop.induct) (auto simp: RemoveAll_def)
  then show "CHR ''-'' \<notin> set p \<Longrightarrow> ?thesis"
    by (simp add: NormaliseMachineID_def FormatMachineID_def)
qed

lemma ParseProtocol_String:
  "ParseProtocol (Protocol_String p) = (if p \<in> {ProtoRDP, ProtoVNC, ProtoSSH} then p else ProtoCustom)"
  by (auto simp: ParseProtocol_def Protocol_String_def Proto_defs Let_def ToLower_def lower_char_def char_code_def)

end
