(* ===== verification/Config.thy ===== *)
theory Config
  imports Go_Prelude
begin

text \<open>
  The persistent configuration, \<open>internal/config/config.go\<close>: the paired remotes of
  the client role and the trusted peers of the host role, with their add, merge
  and remove operations, and the normalisation of the network modes. The file
  system, the TOML codec and key generation are arguments; the clock is read once
  per operation.
\<close>

section \<open>Configuration data\<close>

record NetworkConfig =
  nc_ShareBackend :: string

record NodeConfig =
  nd_PrivateKey :: string
  nd_Label :: string

record RelayConfig =
  rl_Mode :: string
  rl_Servers :: "string list"
  rl_Allowlist :: "string list"

record DHTConfig =
  dht_Mode :: string
  dht_Bootstrap :: "string list"

record BTDHTConfig =
  bt_Mode :: string
  bt_Bootstrap :: "string list"
  bt_PublishIntervalSecs :: int

record IrohConfig =
  iroh_Mode :: string
  iroh_Servers :: "string list"

record RDPConfig =
  rdp_ListenAddr :: string
  rdp_TargetAddr :: string
  rdp_Protocol :: string

record RemoteConfig =
  rc_Label :: string
  rc_NodeID :: string
  rc_PublicKey :: string
  rc_MachineID :: string
  rc_Backend :: string
  rc_Protocol :: string
  rc_TargetPort :: int
  rc_RelayAddrs :: "string list"
  rc_IrohTicket :: string
  rc_DirectQUICAddrs :: "string list"
  rc_IdentityBackend :: string
  rc_HardwareBacked :: bool
  rc_TPMVendor :: string
  rc_TPMVersion :: string
  rc_TPMRootThumbprint :: string
  rc_AddedAt :: instant
  rc_LastConnectedAt :: instant

record TrustedPeer =
  tp_NodeID :: string
  tp_Label :: string
  tp_PublicKey :: string
  tp_MachineID :: string
  tp_Protocol :: string
  tp_TargetPort :: int
  tp_IdentityBackend :: string
  tp_HardwareBacked :: bool
  tp_TPMVendor :: string
  tp_TPMVersion :: string
  tp_TPMRootThumbprint :: string
  tp_AddedAt :: instant
  tp_LastConnectedAt :: instant

record Config =
  cfg_Network :: NetworkConfig
  cfg_Node :: NodeConfig
  cfg_Relay :: RelayConfig
  cfg_DHT :: DHTConfig
  cfg_BTDHT :: BTDHTConfig
  cfg_Iroh :: IrohConfig
  cfg_RDP :: RDPConfig
  cfg_Remotes :: "RemoteConfig list"
  cfg_Trusted :: "TrustedPeer list"

definition defaultConfig :: "string \<Rightarrow> Config" where
  "defaultConfig hostname =
     \<lparr>cfg_Network = \<lparr>nc_ShareBackend = []\<rparr>,
      cfg_Node = \<lparr>nd_PrivateKey = [], nd_Label = hostname\<rparr>,
      cfg_Relay = \<lparr>rl_Mode = ''disabled'', rl_Servers = [], rl_Allowlist = []\<rparr>,
      cfg_DHT = \<lparr>dht_Mode = ''disabled'', dht_Bootstrap = []\<rparr>,
      cfg_BTDHT = \<lparr>bt_Mode = ''disabled'', bt_Bootstrap = [], bt_PublishIntervalSecs = 60\<rparr>,
      cfg_Iroh = \<lparr>iroh_Mode = ''public'', iroh_Servers = []\<rparr>,
      cfg_RDP = \<lparr>rdp_ListenAddr = ''127.0.0.1:0'', rdp_TargetAddr = ''127.0.0.1:3389'', rdp_Protocol = ''rdp''\<rparr>,
      cfg_Remotes = [], cfg_Trusted = []\<rparr>"

section \<open>Network backends\<close>

definition CanonicalNetworkBackend :: "string \<Rightarrow> string" where
  "CanonicalNetworkBackend backend = backend"

definition validNetworkBackend :: "string \<Rightarrow> bool" where
  "validNetworkBackend backend \<longleftrightarrow>
     CanonicalNetworkBackend backend \<in> {''iroh'', ''bittorrent_dht'', ''libp2p_relay'', ''libp2p_dht''}"

definition inferActiveNetworkBackend :: "Config \<Rightarrow> string" where
  "inferActiveNetworkBackend c = ''iroh''"

definition ensureBackendEnabled :: "string \<Rightarrow> Config \<Rightarrow> Config" where
  "ensureBackendEnabled backend c =
     (let b = CanonicalNetworkBackend backend in
      if b = ''iroh'' then
        (if iroh_Mode (cfg_Iroh c) \<in> {[], ''disabled''}
         then c\<lparr>cfg_Iroh := (cfg_Iroh c)\<lparr>iroh_Mode := ''public''\<rparr>\<rparr> else c)
      else if b = ''bittorrent_dht'' then
        (if bt_Mode (cfg_BTDHT c) \<in> {[], ''disabled''}
         then c\<lparr>cfg_BTDHT := (cfg_BTDHT c)\<lparr>bt_Mode := ''public''\<rparr>\<rparr> else c)
      else if b = ''libp2p_relay'' then
        (if rl_Mode (cfg_Relay c) \<in> {[], ''disabled''}
         then c\<lparr>cfg_Relay := (cfg_Relay c)\<lparr>rl_Mode := ''public''\<rparr>\<rparr> else c)
      else if b = ''libp2p_dht'' then
        (if dht_Mode (cfg_DHT c) \<in> {[], ''disabled''}
         then c\<lparr>cfg_DHT := (cfg_DHT c)\<lparr>dht_Mode := ''public''\<rparr>\<rparr> else c)
      else c)"

definition default_modes :: "Config \<Rightarrow> Config" where
  "default_modes c =
     (let bt = cfg_BTDHT c;
          bt = (if bt_PublishIntervalSecs bt \<le> 0 then bt\<lparr>bt_PublishIntervalSecs := 60\<rparr> else bt);
          bt = (if bt_Mode bt = [] then bt\<lparr>bt_Mode := ''disabled''\<rparr> else bt);
          rl = cfg_Relay c;
          rl = (if rl_Mode rl = [] then rl\<lparr>rl_Mode := ''disabled''\<rparr> else rl);
          d = cfg_DHT c;
          d = (if dht_Mode d = [] then d\<lparr>dht_Mode := ''disabled''\<rparr> else d);
          ir = cfg_Iroh c;
          ir = (if iroh_Mode ir = [] then ir\<lparr>iroh_Mode := ''public''\<rparr> else ir)
      in c\<lparr>cfg_BTDHT := bt, cfg_Relay := rl, cfg_DHT := d, cfg_Iroh := ir\<rparr>)"

definition NormalizeNetworkBackend :: "Config \<Rightarrow> Config" where
  "NormalizeNetworkBackend c =
     (let c1 = default_modes c;
          sb = CanonicalNetworkBackend (nc_ShareBackend (cfg_Network c1));
          sb = (if \<not> validNetworkBackend sb then ''iroh'' else sb);
          c2 = c1\<lparr>cfg_Network := (cfg_Network c1)\<lparr>nc_ShareBackend := sb\<rparr>\<rparr>
      in ensureBackendEnabled sb c2)"

definition ActiveNetworkBackend :: "Config option \<Rightarrow> string" where
  "ActiveNetworkBackend c =
     (case c of
        None \<Rightarrow> ''iroh''
      | Some c \<Rightarrow>
          let backend = CanonicalNetworkBackend (nc_ShareBackend (cfg_Network c)) in
          if validNetworkBackend backend then backend else ''iroh'')"

section \<open>Loading and saving\<close>

datatype config_error = ReadConfig | ParseConfig | MakeConfigDir | MarshalConfig | WriteConfig | GenerateKey | BadPrivateKey

definition initNew :: "string \<Rightarrow> bytes option \<Rightarrow> bool \<Rightarrow> (Config \<Rightarrow> bytes option) \<Rightarrow> (bytes \<Rightarrow> bool) \<Rightarrow> config_error + Config" where
  "initNew hostname priv mkdir marshal wr =
     (case priv of
        None \<Rightarrow> Inl GenerateKey
      | Some key \<Rightarrow>
          let c = defaultConfig hostname;
              cfg = c\<lparr>cfg_Node := (cfg_Node c)\<lparr>nd_PrivateKey := hexEncode key\<rparr>\<rparr>
          in if \<not> mkdir then Inl MakeConfigDir
             else case marshal cfg of
               None \<Rightarrow> Inl MarshalConfig
             | Some data \<Rightarrow> if \<not> wr data then Inl WriteConfig else Inr cfg)"

datatype config_file = FileMissing | FileUnreadable | FileData bytes

definition Load ::
  "config_file \<Rightarrow> string \<Rightarrow> bytes option \<Rightarrow> bool \<Rightarrow> (Config \<Rightarrow> bytes option) \<Rightarrow> (bytes \<Rightarrow> bool) \<Rightarrow>
   (Config \<Rightarrow> bytes \<Rightarrow> Config option) \<Rightarrow> config_error + Config" where
  "Load file hostname priv mkdir marshal wr unmarshal =
     (case file of
        FileMissing \<Rightarrow> initNew hostname priv mkdir marshal wr
      | FileUnreadable \<Rightarrow> Inl ReadConfig
      | FileData data \<Rightarrow>
          (case unmarshal (defaultConfig hostname) data of
             None \<Rightarrow> Inl ParseConfig
           | Some cfg \<Rightarrow> Inr (NormalizeNetworkBackend cfg)))"

text \<open>\<open>Save\<close> normalises the configuration in memory even when writing fails.\<close>

definition Save ::
  "bool \<Rightarrow> (Config \<Rightarrow> bytes option) \<Rightarrow> (bytes \<Rightarrow> bool) \<Rightarrow> Config \<Rightarrow> config_error option \<times> Config" where
  "Save mkdir marshal wr c =
     (let c1 = NormalizeNetworkBackend c in
      if \<not> mkdir then (Some MakeConfigDir, c1)
      else case marshal c1 of
        None \<Rightarrow> (Some MarshalConfig, c1)
      | Some data \<Rightarrow> (if wr data then None else Some WriteConfig, c1))"

definition PrivateKeyBytes :: "Config \<Rightarrow> config_error + bytes" where
  "PrivateKeyBytes c = (case hexDecode (nd_PrivateKey (cfg_Node c)) of
      None \<Rightarrow> Inl BadPrivateKey | Some b \<Rightarrow> Inr b)"

section \<open>Paired remotes\<close>

definition protocolDefaultPort :: "string \<Rightarrow> int" where
  "protocolDefaultPort protocol =
     (let p = ToLower (TrimSpace protocol) in
      if p = ''ssh'' then 22 else if p = ''vnc'' then 5900 else 3389)"

definition service_protocol :: "string \<Rightarrow> string" where
  "service_protocol protocol =
     (let p = ToLower (TrimSpace protocol) in if p = [] then ''rdp'' else p)"

definition service_port :: "string \<Rightarrow> int \<Rightarrow> int" where
  "service_port protocol targetPort =
     (if targetPort \<le> 0 then protocolDefaultPort (service_protocol protocol) else targetPort)"

definition RemoteServiceKeyParts :: "string \<Rightarrow> string \<Rightarrow> int \<Rightarrow> string" where
  "RemoteServiceKeyParts nodeID protocol targetPort =
     TrimSpace nodeID @ ''|'' @ service_protocol protocol @ ''|'' @ Itoa (service_port protocol targetPort)"

definition RemoteServiceKey :: "RemoteConfig \<Rightarrow> string" where
  "RemoteServiceKey r = RemoteServiceKeyParts (rc_NodeID r) (rc_Protocol r) (rc_TargetPort r)"

definition SameRemoteService :: "RemoteConfig \<Rightarrow> RemoteConfig \<Rightarrow> bool" where
  "SameRemoteService a b =
     (if TrimSpace (rc_NodeID a) = [] \<or> TrimSpace (rc_NodeID b) = [] then False
      else RemoteServiceKey a = RemoteServiceKey b)"

definition mergeIdentityInfo ::
  "string \<times> bool \<times> string \<times> string \<times> string \<Rightarrow> string \<times> bool \<times> string \<times> string \<times> string \<Rightarrow>
   string \<times> bool \<times> string \<times> string \<times> string" where
  "mergeIdentityInfo old new =
     (case old of (backend, hardware, vendor, version, root) \<Rightarrow>
      case new of (newBackend, newHardware, newVendor, newVersion, newRoot) \<Rightarrow>
       (override backend newBackend,
        (if newHardware then True else if newBackend \<noteq> [] then newHardware else hardware),
        override vendor newVendor, override version newVersion, override root newRoot))"

definition merge_remote :: "RemoteConfig \<Rightarrow> RemoteConfig \<Rightarrow> RemoteConfig" where
  "merge_remote d r =
     (case mergeIdentityInfo
         (rc_IdentityBackend d, rc_HardwareBacked d, rc_TPMVendor d, rc_TPMVersion d, rc_TPMRootThumbprint d)
         (rc_IdentityBackend r, rc_HardwareBacked r, rc_TPMVendor r, rc_TPMVersion r, rc_TPMRootThumbprint r)
      of (ib, hw, vendor, version, root) \<Rightarrow>
      d\<lparr>rc_Label := override (rc_Label d) (rc_Label r),
        rc_PublicKey := override (rc_PublicKey d) (rc_PublicKey r),
        rc_MachineID := override (rc_MachineID d) (rc_MachineID r),
        rc_Backend := override (rc_Backend d) (rc_Backend r),
        rc_Protocol := override (rc_Protocol d) (rc_Protocol r),
        rc_TargetPort := (if rc_TargetPort r > 0 then rc_TargetPort r else rc_TargetPort d),
        rc_RelayAddrs := override (rc_RelayAddrs d) (rc_RelayAddrs r),
        rc_IrohTicket := override (rc_IrohTicket d) (rc_IrohTicket r),
        rc_DirectQUICAddrs := override (rc_DirectQUICAddrs d) (rc_DirectQUICAddrs r),
        rc_IdentityBackend := ib, rc_HardwareBacked := hw, rc_TPMVendor := vendor,
        rc_TPMVersion := version, rc_TPMRootThumbprint := root,
        rc_AddedAt := (if IsZero (rc_AddedAt d) \<or> (\<not> IsZero (rc_AddedAt r) \<and> Before (rc_AddedAt r) (rc_AddedAt d))
                       then rc_AddedAt r else rc_AddedAt d),
        rc_LastConnectedAt := (if After (rc_LastConnectedAt r) (rc_LastConnectedAt d)
                       then rc_LastConnectedAt r else rc_LastConnectedAt d)\<rparr>)"

definition AddRemote :: "instant \<Rightarrow> RemoteConfig \<Rightarrow> Config \<Rightarrow> Config" where
  "AddRemote now r0 c =
     (let r = (if IsZero (rc_AddedAt r0) then r0\<lparr>rc_AddedAt := now\<rparr> else r0) in
      case find_first (\<lambda>d. SameRemoteService d r) (cfg_Remotes c) of
        Some i \<Rightarrow> c\<lparr>cfg_Remotes := (cfg_Remotes c)[i := merge_remote (cfg_Remotes c ! i) r]\<rparr>
      | None \<Rightarrow> c\<lparr>cfg_Remotes := cfg_Remotes c @ [r]\<rparr>)"

definition RemoveRemote :: "string \<Rightarrow> Config \<Rightarrow> bool \<times> Config" where
  "RemoveRemote nodeID c =
     (case find_first (\<lambda>d. rc_NodeID d = nodeID) (cfg_Remotes c) of
        Some i \<Rightarrow> (True, c\<lparr>cfg_Remotes := remove_nth i (cfg_Remotes c)\<rparr>)
      | None \<Rightarrow> (False, c))"

definition RemoveRemoteService :: "string \<Rightarrow> Config \<Rightarrow> bool \<times> Config" where
  "RemoveRemoteService key c =
     (case find_first (\<lambda>d. RemoteServiceKey d = key) (cfg_Remotes c) of
        Some i \<Rightarrow> (True, c\<lparr>cfg_Remotes := remove_nth i (cfg_Remotes c)\<rparr>)
      | None \<Rightarrow> (False, c))"

section \<open>Trusted peers\<close>

definition sameTrustedMachine :: "TrustedPeer \<Rightarrow> TrustedPeer \<Rightarrow> bool" where
  "sameTrustedMachine a b =
     (if tp_NodeID a \<noteq> [] \<and> tp_NodeID b \<noteq> [] \<and> tp_NodeID a = tp_NodeID b then True
      else if tp_MachineID a \<noteq> [] \<and> tp_MachineID b \<noteq> [] \<and> tp_MachineID a = tp_MachineID b then True
      else if tp_TPMRootThumbprint a \<noteq> [] \<and> tp_TPMRootThumbprint b \<noteq> []
              \<and> tp_TPMRootThumbprint a = tp_TPMRootThumbprint b then True
      else False)"

definition mergeTrustedPeer :: "TrustedPeer \<Rightarrow> TrustedPeer \<Rightarrow> TrustedPeer" where
  "mergeTrustedPeer dst src =
     (case mergeIdentityInfo
         (tp_IdentityBackend dst, tp_HardwareBacked dst, tp_TPMVendor dst, tp_TPMVersion dst, tp_TPMRootThumbprint dst)
         (tp_IdentityBackend src, tp_HardwareBacked src, tp_TPMVendor src, tp_TPMVersion src, tp_TPMRootThumbprint src)
      of (ib, hw, vendor, version, root) \<Rightarrow>
      dst\<lparr>tp_NodeID := override (tp_NodeID dst) (tp_NodeID src),
        tp_Label := override (tp_Label dst) (tp_Label src),
        tp_PublicKey := override (tp_PublicKey dst) (tp_PublicKey src),
        tp_MachineID := override (tp_MachineID dst) (tp_MachineID src),
        tp_Protocol := override (tp_Protocol dst) (tp_Protocol src),
        tp_TargetPort := (if tp_TargetPort src > 0 then tp_TargetPort src else tp_TargetPort dst),
        tp_IdentityBackend := ib, tp_HardwareBacked := hw, tp_TPMVendor := vendor,
        tp_TPMVersion := version, tp_TPMRootThumbprint := root,
        tp_AddedAt := (if IsZero (tp_AddedAt dst) \<or> (\<not> IsZero (tp_AddedAt src) \<and> Before (tp_AddedAt src) (tp_AddedAt dst))
                       then tp_AddedAt src else tp_AddedAt dst),
        tp_LastConnectedAt := (if After (tp_LastConnectedAt src) (tp_LastConnectedAt dst)
                       then tp_LastConnectedAt src else tp_LastConnectedAt dst)\<rparr>)"

text \<open>The loop over \<open>i = len-1 .. 0\<close>; its first argument is \<open>i + 1\<close>.\<close>

primrec removeDuplicateTrustedPeers :: "nat \<Rightarrow> nat \<Rightarrow> TrustedPeer list \<Rightarrow> TrustedPeer list" where
  "removeDuplicateTrustedPeers 0 keep ps = ps"
| "removeDuplicateTrustedPeers (Suc i) keep ps =
     (if i \<noteq> keep \<and> sameTrustedMachine (ps ! keep) (ps ! i)
      then removeDuplicateTrustedPeers i (if i < keep then keep - 1 else keep) (remove_nth i ps)
      else removeDuplicateTrustedPeers i keep ps)"

definition AddTrustedPeer :: "instant \<Rightarrow> TrustedPeer \<Rightarrow> Config \<Rightarrow> Config" where
  "AddTrustedPeer now p0 c =
     (let p = (if IsZero (tp_AddedAt p0) then p0\<lparr>tp_AddedAt := now\<rparr> else p0) in
      case find_first (\<lambda>d. sameTrustedMachine d p) (cfg_Trusted c) of
        Some i \<Rightarrow>
          let ps = (cfg_Trusted c)[i := mergeTrustedPeer (cfg_Trusted c ! i) p]
          in c\<lparr>cfg_Trusted := removeDuplicateTrustedPeers (length ps) i ps\<rparr>
      | None \<Rightarrow> c\<lparr>cfg_Trusted := cfg_Trusted c @ [p]\<rparr>)"

definition RemoveTrustedPeer :: "string \<Rightarrow> Config \<Rightarrow> bool \<times> Config" where
  "RemoveTrustedPeer nodeID c =
     (case find_first (\<lambda>d. tp_NodeID d = nodeID) (cfg_Trusted c) of
        Some i \<Rightarrow> (True, c\<lparr>cfg_Trusted := remove_nth i (cfg_Trusted c)\<rparr>)
      | None \<Rightarrow> (False, c))"

definition IsTrusted :: "string \<Rightarrow> Config \<Rightarrow> bool" where
  "IsTrusted nodeID c = list_ex (\<lambda>p. tp_NodeID p = nodeID) (cfg_Trusted c)"

definition TrustedPeer_get :: "string \<Rightarrow> Config \<Rightarrow> TrustedPeer option" where
  "TrustedPeer_get nodeID c = List.find (\<lambda>p. tp_NodeID p = nodeID) (cfg_Trusted c)"

section \<open>Normalisation\<close>

definition backend_mode :: "string \<Rightarrow> Config \<Rightarrow> string" where
  "backend_mode b c =
     (if b = ''iroh'' then iroh_Mode (cfg_Iroh c)
      else if b = ''bittorrent_dht'' then bt_Mode (cfg_BTDHT c)
      else if b = ''libp2p_relay'' then rl_Mode (cfg_Relay c)
      else dht_Mode (cfg_DHT c))"

definition normalized :: "Config \<Rightarrow> bool" where
  "normalized c \<longleftrightarrow>
     validNetworkBackend (nc_ShareBackend (cfg_Network c))
     \<and> backend_mode (nc_ShareBackend (cfg_Network c)) c \<notin> {[], ''disabled''}
     \<and> (\<forall>b \<in> {''iroh'', ''bittorrent_dht'', ''libp2p_relay'', ''libp2p_dht''}. backend_mode b c \<noteq> [])
     \<and> 0 < bt_PublishIntervalSecs (cfg_BTDHT c)"

lemma default_modes_modes:
  "backend_mode b (default_modes c) \<noteq> []"
  "0 < bt_PublishIntervalSecs (cfg_BTDHT (default_modes c))"
  "cfg_Network (default_modes c) = cfg_Network c"
  by (simp_all add: default_modes_def backend_mode_def Let_def)

lemmas backend_simps = ensureBackendEnabled_def backend_mode_def CanonicalNetworkBackend_def Let_def

lemma validNetworkBackend_cases:
  assumes "validNetworkBackend b"
  obtains "b = ''iroh''" | "b = ''bittorrent_dht''" | "b = ''libp2p_relay''" | "b = ''libp2p_dht''"
  using assms by (auto simp: validNetworkBackend_def CanonicalNetworkBackend_def)

lemma ensureBackendEnabled_mode:
  "validNetworkBackend b \<Longrightarrow> backend_mode b (ensureBackendEnabled b c) \<noteq> []
     \<and> backend_mode b (ensureBackendEnabled b c) \<noteq> ''disabled''"
  by (erule validNetworkBackend_cases) (simp_all add: backend_simps)

lemma ensureBackendEnabled_other:
  "validNetworkBackend b \<Longrightarrow> backend_mode b' c \<noteq> [] \<Longrightarrow> backend_mode b' (ensureBackendEnabled b c) \<noteq> []"
  by (erule validNetworkBackend_cases) (simp_all add: backend_simps split: if_splits)

lemma ensureBackendEnabled_keeps:
  "validNetworkBackend b \<Longrightarrow> cfg_Network (ensureBackendEnabled b c) = cfg_Network c
     \<and> bt_PublishIntervalSecs (cfg_BTDHT (ensureBackendEnabled b c)) = bt_PublishIntervalSecs (cfg_BTDHT c)"
  by (erule validNetworkBackend_cases) (simp_all add: backend_simps)

lemma ensureBackendEnabled_id:
  "validNetworkBackend b \<Longrightarrow> backend_mode b c \<noteq> [] \<Longrightarrow> backend_mode b c \<noteq> ''disabled'' \<Longrightarrow>
     ensureBackendEnabled b c = c"
  by (erule validNetworkBackend_cases) (simp_all add: backend_simps)

lemma normalized_fixed:
  assumes "normalized c"
  shows "NormalizeNetworkBackend c = c"
proof -
  have m: "backend_mode ''iroh'' c \<noteq> []" "backend_mode ''bittorrent_dht'' c \<noteq> []"
    "backend_mode ''libp2p_relay'' c \<noteq> []" "backend_mode ''libp2p_dht'' c \<noteq> []"
    using assms by (simp_all add: normalized_def)
  have "default_modes c = c"
    using assms m by (simp add: default_modes_def backend_mode_def normalized_def Let_def)
  then show ?thesis
    using assms by (simp add: NormalizeNetworkBackend_def normalized_def ensureBackendEnabled_id
        CanonicalNetworkBackend_def Let_def)
qed

lemma backend_mode_Network [simp]: "backend_mode b (c\<lparr>cfg_Network := n\<rparr>) = backend_mode b c"
  by (simp add: backend_mode_def)

lemma normalized_Normalize: "normalized (NormalizeNetworkBackend c)"
proof -
  define sb where "sb = (let s = nc_ShareBackend (cfg_Network c) in if validNetworkBackend s then s else ''iroh'')"
  have v: "validNetworkBackend sb"
    by (simp add: sb_def Let_def validNetworkBackend_def CanonicalNetworkBackend_def)
  have n: "NormalizeNetworkBackend c =
      ensureBackendEnabled sb ((default_modes c)\<lparr>cfg_Network := (cfg_Network c)\<lparr>nc_ShareBackend := sb\<rparr>\<rparr>)"
    by (simp add: NormalizeNetworkBackend_def Let_def sb_def CanonicalNetworkBackend_def default_modes_modes)
  show ?thesis
    using v by (simp add: n normalized_def ensureBackendEnabled_mode ensureBackendEnabled_other
        ensureBackendEnabled_keeps default_modes_modes)
qed

lemma NormalizeNetworkBackend_keeps:
  "cfg_Remotes (NormalizeNetworkBackend c) = cfg_Remotes c"
  "cfg_Trusted (NormalizeNetworkBackend c) = cfg_Trusted c"
  "cfg_Node (NormalizeNetworkBackend c) = cfg_Node c"
  "cfg_RDP (NormalizeNetworkBackend c) = cfg_RDP c"
proof -
  have e: "cfg_Remotes (ensureBackendEnabled b d) = cfg_Remotes d" "cfg_Trusted (ensureBackendEnabled b d) = cfg_Trusted d"
    "cfg_Node (ensureBackendEnabled b d) = cfg_Node d" "cfg_RDP (ensureBackendEnabled b d) = cfg_RDP d" for b d
    by (simp_all add: ensureBackendEnabled_def Let_def)
  have d: "cfg_Remotes (default_modes c) = cfg_Remotes c" "cfg_Trusted (default_modes c) = cfg_Trusted c"
    "cfg_Node (default_modes c) = cfg_Node c" "cfg_RDP (default_modes c) = cfg_RDP c"
    by (simp_all add: default_modes_def Let_def)
  show "cfg_Remotes (NormalizeNetworkBackend c) = cfg_Remotes c"
    "cfg_Trusted (NormalizeNetworkBackend c) = cfg_Trusted c"
    "cfg_Node (NormalizeNetworkBackend c) = cfg_Node c"
    "cfg_RDP (NormalizeNetworkBackend c) = cfg_RDP c"
    by (simp_all add: NormalizeNetworkBackend_def Let_def e d)
qed

lemma NormalizeNetworkBackend_active:
  "ActiveNetworkBackend (Some (NormalizeNetworkBackend c)) = ActiveNetworkBackend (Some c)"
proof -
  have "nc_ShareBackend (cfg_Network (NormalizeNetworkBackend c)) = ActiveNetworkBackend (Some c)"
    by (simp add: NormalizeNetworkBackend_def ActiveNetworkBackend_def Let_def CanonicalNetworkBackend_def
        ensureBackendEnabled_keeps validNetworkBackend_def default_modes_modes)
  then show ?thesis
    using normalized_Normalize [of c]
    by (simp add: ActiveNetworkBackend_def [of "Some (NormalizeNetworkBackend c)"] normalized_def
        CanonicalNetworkBackend_def)
qed

lemma ActiveNetworkBackend_valid: "validNetworkBackend (ActiveNetworkBackend (Some c))"
  by (simp add: ActiveNetworkBackend_def Let_def validNetworkBackend_def CanonicalNetworkBackend_def)

text \<open>
  after \<open>NormalizeNetworkBackend\<close>, which \<open>Load\<close> and \<open>Save\<close> run, the backend for
  new invites is one of the four known ones and is enabled, every mode is set,
  and normalising again changes nothing; remotes and trusted peers are kept.
\<close>

theorem NormalizeNetworkBackend_correct:
  "normalized (NormalizeNetworkBackend c)
   \<and> NormalizeNetworkBackend (NormalizeNetworkBackend c) = NormalizeNetworkBackend c
   \<and> ActiveNetworkBackend (Some (NormalizeNetworkBackend c)) = ActiveNetworkBackend (Some c)
   \<and> cfg_Remotes (NormalizeNetworkBackend c) = cfg_Remotes c
   \<and> cfg_Trusted (NormalizeNetworkBackend c) = cfg_Trusted c"
  using normalized_Normalize normalized_fixed NormalizeNetworkBackend_active NormalizeNetworkBackend_keeps by blast

section \<open>Remotes: one entry per service\<close>

definition remotes_ok :: "Config \<Rightarrow> bool" where
  "remotes_ok c \<longleftrightarrow>
     (\<forall>r \<in> set (cfg_Remotes c). CHR ''|'' \<notin> set (rc_Protocol r))
     \<and> sorted_wrt (\<lambda>a b. \<not> SameRemoteService a b) (cfg_Remotes c)"

lemma Itoa_no_bar: "CHR ''|'' \<notin> set (Itoa i)"
proof -
  have "is_digit x" if "x \<in> set (Utoa n)" for x n
    using digits_Utoa [of n] that by (auto simp: list_all_iff)
  then have "CHR ''|'' \<notin> set (Utoa n)" for n
    by (force simp: is_digit_def char_code_def)
  then show ?thesis by (simp add: Itoa_def)
qed

lemma Itoa_nonneg_inject: "0 \<le> a \<Longrightarrow> 0 \<le> b \<Longrightarrow> Itoa a = Itoa b \<longleftrightarrow> a = b"
  by (auto simp: Itoa_def Utoa_inject)

lemma set_TrimSpace: "set (TrimSpace s) \<subseteq> set s"
  by (auto simp: TrimSpace_def TrimFunc_def TrimLeftFunc_def TrimRightFunc_def dest!: set_dropWhileD)

lemma lower_char_bar: "lower_char c = CHR ''|'' \<longleftrightarrow> c = CHR ''|''"
proof -
  have "char_of (n + 32) \<noteq> CHR ''|''" if "65 \<le> n" "n \<le> 90" for n :: nat
  proof
    assume "char_of (n + 32) = CHR ''|''"
    then have "char_code (char_of (n + 32)) = char_code (CHR ''|'')" by simp
    then show False using that by (simp add: char_code_def)
  qed
  moreover have "char_code (CHR ''|'') = 124" by (simp add: char_code_def)
  ultimately show ?thesis by (auto simp: lower_char_def)
qed

lemma service_protocol_no_bar: "CHR ''|'' \<notin> set p \<Longrightarrow> CHR ''|'' \<notin> set (service_protocol p)"
proof -
  assume "CHR ''|'' \<notin> set p"
  then have "CHR ''|'' \<notin> set (TrimSpace p)" using set_TrimSpace by blast
  then have "CHR ''|'' \<notin> lower_char ` set (TrimSpace p)" by (metis imageE lower_char_bar)
  then show ?thesis by (simp add: service_protocol_def Let_def ToLower_def)
qed

lemma service_port_nonneg: "0 \<le> service_port p t"
  by (simp add: service_port_def protocolDefaultPort_def Let_def)

lemma RemoteServiceKeyParts_inject:
  assumes "CHR ''|'' \<notin> set p" "CHR ''|'' \<notin> set p'"
  shows "RemoteServiceKeyParts n p t = RemoteServiceKeyParts n' p' t' \<longleftrightarrow>
     TrimSpace n = TrimSpace n' \<and> service_protocol p = service_protocol p' \<and> service_port p t = service_port p' t'"
proof -
  have "RemoteServiceKeyParts n p t = RemoteServiceKeyParts n' p' t' \<longleftrightarrow>
      TrimSpace n @ CHR ''|'' # service_protocol p = TrimSpace n' @ CHR ''|'' # service_protocol p'
      \<and> Itoa (service_port p t) = Itoa (service_port p' t')"
    using sep_inject_last [OF Itoa_no_bar Itoa_no_bar,
        of "TrimSpace n @ CHR ''|'' # service_protocol p" "service_port p t"
           "TrimSpace n' @ CHR ''|'' # service_protocol p'" "service_port p' t'"]
    by (simp add: RemoteServiceKeyParts_def)
  then show ?thesis
    using sep_inject_last [OF service_protocol_no_bar [OF assms(1)] service_protocol_no_bar [OF assms(2)]]
      Itoa_nonneg_inject [OF service_port_nonneg service_port_nonneg] by auto
qed

lemma RemoteServiceKey_merge:
  assumes "CHR ''|'' \<notin> set (rc_Protocol d)" "CHR ''|'' \<notin> set (rc_Protocol r)"
    and "RemoteServiceKey d = RemoteServiceKey r"
  shows "RemoteServiceKey (merge_remote d r) = RemoteServiceKey d"
    and "rc_NodeID (merge_remote d r) = rc_NodeID d"
    and "CHR ''|'' \<notin> set (rc_Protocol (merge_remote d r))"
proof -
  have k: "TrimSpace (rc_NodeID d) = TrimSpace (rc_NodeID r)"
    "service_protocol (rc_Protocol d) = service_protocol (rc_Protocol r)"
    "service_port (rc_Protocol d) (rc_TargetPort d) = service_port (rc_Protocol r) (rc_TargetPort r)"
    using assms(3) RemoteServiceKeyParts_inject [OF assms(1,2)] by (auto simp: RemoteServiceKey_def)
  show n: "rc_NodeID (merge_remote d r) = rc_NodeID d"
    by (simp add: merge_remote_def split: prod.splits)
  have f: "rc_Protocol (merge_remote d r) = override (rc_Protocol d) (rc_Protocol r)"
    "rc_TargetPort (merge_remote d r) = (if rc_TargetPort r > 0 then rc_TargetPort r else rc_TargetPort d)"
    by (simp_all add: merge_remote_def split: prod.splits)
  have p: "service_protocol (rc_Protocol (merge_remote d r)) = service_protocol (rc_Protocol d)"
    using k(2) by (simp add: f override_def)
  moreover have "service_port (rc_Protocol (merge_remote d r)) (rc_TargetPort (merge_remote d r))
      = service_port (rc_Protocol d) (rc_TargetPort d)"
    using k(3) p by (auto simp: service_port_def f)
  ultimately show "RemoteServiceKey (merge_remote d r) = RemoteServiceKey d"
    by (simp add: RemoteServiceKey_def RemoteServiceKeyParts_def n)
  show "CHR ''|'' \<notin> set (rc_Protocol (merge_remote d r))"
    using assms(1,2) by (simp add: f override_def)
qed

lemma SameRemoteService_key:
  "TrimSpace (rc_NodeID a) \<noteq> [] \<Longrightarrow> TrimSpace (rc_NodeID b) \<noteq> [] \<Longrightarrow>
     SameRemoteService a b \<longleftrightarrow> RemoteServiceKey a = RemoteServiceKey b"
  by (simp add: SameRemoteService_def)

lemma SameRemoteService_cong:
  "RemoteServiceKey a = RemoteServiceKey a' \<Longrightarrow> rc_NodeID a = rc_NodeID a' \<Longrightarrow>
     SameRemoteService a b \<longleftrightarrow> SameRemoteService a' b"
  "RemoteServiceKey a = RemoteServiceKey a' \<Longrightarrow> rc_NodeID a = rc_NodeID a' \<Longrightarrow>
     SameRemoteService b a \<longleftrightarrow> SameRemoteService b a'"
  by (auto simp: SameRemoteService_def)

lemma key_nonblank:
  assumes "CHR ''|'' \<notin> set (rc_Protocol a)" "CHR ''|'' \<notin> set (rc_Protocol b)"
    and "RemoteServiceKey a = RemoteServiceKey b" "TrimSpace (rc_NodeID b) \<noteq> []"
  shows "SameRemoteService a b" "SameRemoteService b a"
proof -
  have "TrimSpace (rc_NodeID a) = TrimSpace (rc_NodeID b)"
    using assms(3) RemoteServiceKeyParts_inject [OF assms(1,2)] by (simp add: RemoteServiceKey_def)
  then show "SameRemoteService a b" "SameRemoteService b a"
    using assms(3,4) by (simp_all add: SameRemoteService_def)
qed

text \<open>What adding a remote does to the list: one entry for the service, the rest untouched.\<close>

definition remote_stored :: "RemoteConfig \<Rightarrow> Config \<Rightarrow> Config \<Rightarrow> bool" where
  "remote_stored r c c' \<longleftrightarrow>
     (\<exists>d. filter (\<lambda>x. RemoteServiceKey x = RemoteServiceKey r) (cfg_Remotes c') = [d]
        \<and> TrimSpace (rc_NodeID d) = TrimSpace (rc_NodeID r)
        \<and> rc_IrohTicket d = override (rc_IrohTicket d) (rc_IrohTicket r)
        \<and> rc_Backend d = override (rc_Backend d) (rc_Backend r))
     \<and> filter (\<lambda>x. RemoteServiceKey x \<noteq> RemoteServiceKey r) (cfg_Remotes c') =
        filter (\<lambda>x. RemoteServiceKey x \<noteq> RemoteServiceKey r) (cfg_Remotes c)
     \<and> c' = c\<lparr>cfg_Remotes := cfg_Remotes c'\<rparr>"

lemma AddRemote_new:
  assumes ok: "remotes_ok c" and bar: "CHR ''|'' \<notin> set (rc_Protocol r)" and ne: "TrimSpace (rc_NodeID r) \<noteq> []"
    and f: "find_first (\<lambda>d. SameRemoteService d r) (cfg_Remotes c) = None"
  shows "remotes_ok (c\<lparr>cfg_Remotes := cfg_Remotes c @ [r]\<rparr>)
    \<and> remote_stored r c (c\<lparr>cfg_Remotes := cfg_Remotes c @ [r]\<rparr>)"
proof -
  have n: "\<forall>d \<in> set (cfg_Remotes c). \<not> SameRemoteService d r"
    using f by (simp add: find_first_None)
  then have "\<forall>d \<in> set (cfg_Remotes c). RemoteServiceKey d \<noteq> RemoteServiceKey r"
    using ok bar ne key_nonblank(1) unfolding remotes_ok_def by blast
  then show ?thesis
    using ok bar n by (auto simp: remotes_ok_def remote_stored_def sorted_wrt_append override_def)
qed

lemma AddRemote_merged:
  assumes ok: "remotes_ok c" and bar: "CHR ''|'' \<notin> set (rc_Protocol r)" and ne: "TrimSpace (rc_NodeID r) \<noteq> []"
    and f: "find_first (\<lambda>d. SameRemoteService d r) (cfg_Remotes c) = Some i"
  defines "c' \<equiv> c\<lparr>cfg_Remotes := (cfg_Remotes c)[i := merge_remote (cfg_Remotes c ! i) r]\<rparr>"
  shows "remotes_ok c' \<and> remote_stored r c c'"
proof -
  obtain as d bs where s: "cfg_Remotes c = as @ d # bs" "length as = i" "SameRemoteService d r"
    using find_first_split [OF f] by metis
  let ?m = "merge_remote d r"
  have db: "CHR ''|'' \<notin> set (rc_Protocol d)" using ok s by (simp add: remotes_ok_def)
  have dk: "RemoteServiceKey d = RemoteServiceKey r" using s by (simp add: SameRemoteService_def split: if_splits)
  note m = RemoteServiceKey_merge [OF db bar dk]
  have c': "c' = c\<lparr>cfg_Remotes := as @ ?m # bs\<rparr>"
    using s(2) by (simp add: c'_def s(1) list_update_append nth_append)
  have sorted: "sorted_wrt (\<lambda>a b. \<not> SameRemoteService a b) (as @ ?m # bs)"
    using ok s SameRemoteService_cong [OF m(1,2)] by (simp add: remotes_ok_def sorted_wrt_append)
  have ok': "remotes_ok c'"
    using ok m s sorted by (auto simp: remotes_ok_def c')
  have dne: "TrimSpace (rc_NodeID d) \<noteq> []" using s(3) by (auto simp: SameRemoteService_def)
  have "RemoteServiceKey x \<noteq> RemoteServiceKey r" if "x \<in> set as \<union> set bs" for x
  proof
    assume k: "RemoteServiceKey x = RemoteServiceKey r"
    have "CHR ''|'' \<notin> set (rc_Protocol x)" using ok s that by (auto simp: remotes_ok_def)
    then have "SameRemoteService x d" "SameRemoteService d x"
      using key_nonblank [of x d] db dk k dne by auto
    then show False using ok s that by (auto simp: remotes_ok_def sorted_wrt_append)
  qed
  then have "filter (\<lambda>x. RemoteServiceKey x = RemoteServiceKey r) as = []"
    "filter (\<lambda>x. RemoteServiceKey x = RemoteServiceKey r) bs = []"
    by (auto simp: filter_empty_conv)
  moreover have "TrimSpace (rc_NodeID d) = TrimSpace (rc_NodeID r)"
    using dk RemoteServiceKeyParts_inject [OF db bar] by (simp add: RemoteServiceKey_def)
  moreover have "rc_IrohTicket ?m = override (rc_IrohTicket d) (rc_IrohTicket r)"
    "rc_Backend ?m = override (rc_Backend d) (rc_Backend r)"
    by (simp_all add: merge_remote_def split: prod.splits)
  ultimately have "remote_stored r c c'"
    using m dk by (simp add: remote_stored_def c' s)
  with ok' show ?thesis by blast
qed

text \<open>
  adding a remote keeps one entry per service (node, protocol, port): the
  service's entry is merged in place or appended, with the new route details,
  and every other entry is kept as it is.
\<close>

theorem AddRemote_one_per_service:
  assumes "remotes_ok c" "CHR ''|'' \<notin> set (rc_Protocol r)" "TrimSpace (rc_NodeID r) \<noteq> []"
  shows "remotes_ok (AddRemote now r c) \<and> remote_stored r c (AddRemote now r c)"
proof -
  define r' where "r' = (if IsZero (rc_AddedAt r) then r\<lparr>rc_AddedAt := now\<rparr> else r)"
  have f: "rc_Protocol r' = rc_Protocol r" "rc_NodeID r' = rc_NodeID r" "RemoteServiceKey r' = RemoteServiceKey r"
    "rc_IrohTicket r' = rc_IrohTicket r" "rc_Backend r' = rc_Backend r"
    by (simp_all add: r'_def RemoteServiceKey_def)
  have st: "remote_stored r' c x = remote_stored r c x" for x
    by (simp add: remote_stored_def f)
  show ?thesis
    using AddRemote_new [of c r'] AddRemote_merged [of c r'] assms
    by (cases "find_first (\<lambda>d. SameRemoteService d r') (cfg_Remotes c)")
      (simp_all add: AddRemote_def Let_def f st flip: r'_def)
qed

definition sample_remote :: RemoteConfig where
  "sample_remote = \<lparr>rc_Label = ''pc'', rc_NodeID = ''node'', rc_PublicKey = [], rc_MachineID = [],
     rc_Backend = ''iroh'', rc_Protocol = ''ssh'', rc_TargetPort = 0, rc_RelayAddrs = [], rc_IrohTicket = ''t'',
     rc_DirectQUICAddrs = [], rc_IdentityBackend = [], rc_HardwareBacked = False, rc_TPMVendor = [],
     rc_TPMVersion = [], rc_TPMRootThumbprint = [], rc_AddedAt = 0, rc_LastConnectedAt = 0\<rparr>"

theorem AddRemote_one_per_service_witness:
  "remotes_ok (AddRemote 5 sample_remote (defaultConfig ''h''))
   \<and> remote_stored sample_remote (defaultConfig ''h'') (AddRemote 5 sample_remote (defaultConfig ''h''))"
  by (rule AddRemote_one_per_service)
    (simp_all add: remotes_ok_def defaultConfig_def sample_remote_def TrimSpace_def TrimFunc_def
      TrimLeftFunc_def TrimRightFunc_def is_space_def char_code_def)

lemma RemoveRemoteService_gone:
  assumes ok: "remotes_ok c" and "RemoveRemoteService (RemoteServiceKey r) c = (b, c')"
    and bar: "CHR ''|'' \<notin> set (rc_Protocol r)" and ne: "TrimSpace (rc_NodeID r) \<noteq> []"
  shows "remotes_ok c' \<and> cfg_Remotes c' = filter (\<lambda>d. RemoteServiceKey d \<noteq> RemoteServiceKey r) (cfg_Remotes c)
    \<and> (b \<longleftrightarrow> (\<exists>d \<in> set (cfg_Remotes c). RemoteServiceKey d = RemoteServiceKey r))"
proof (cases "find_first (\<lambda>d. RemoteServiceKey d = RemoteServiceKey r) (cfg_Remotes c)")
  case None
  then have "b = False" "c' = c"
    using assms(2) by (simp_all add: RemoveRemoteService_def)
  moreover have n: "\<forall>d \<in> set (cfg_Remotes c). RemoteServiceKey d \<noteq> RemoteServiceKey r"
    using None by (simp add: find_first_None)
  moreover have "filter (\<lambda>d. RemoteServiceKey d \<noteq> RemoteServiceKey r) (cfg_Remotes c) = cfg_Remotes c"
    using n by (simp add: filter_id_conv)
  ultimately show ?thesis using ok by metis
next
  case (Some i)
  obtain as d bs where s: "cfg_Remotes c = as @ d # bs" "length as = i" "RemoteServiceKey d = RemoteServiceKey r"
    using find_first_split [OF Some] by metis
  have c': "c' = c\<lparr>cfg_Remotes := as @ bs\<rparr>" "b"
    using assms(2) Some s(2) by (auto simp: RemoveRemoteService_def s(1))
  have db: "CHR ''|'' \<notin> set (rc_Protocol d)" using ok s by (simp add: remotes_ok_def)
  have dne: "SameRemoteService d r" using key_nonblank [OF db bar s(3) ne] by blast
  have "RemoteServiceKey x \<noteq> RemoteServiceKey r" if "x \<in> set as \<union> set bs" for x
  proof
    assume k: "RemoteServiceKey x = RemoteServiceKey r"
    have "CHR ''|'' \<notin> set (rc_Protocol x)" using ok s that by (auto simp: remotes_ok_def)
    then have "SameRemoteService x d" "SameRemoteService d x"
      using key_nonblank [of x d] db s(3) k dne by (auto simp: SameRemoteService_def split: if_splits)
    then show False using ok s that by (auto simp: remotes_ok_def sorted_wrt_append)
  qed
  then have "filter (\<lambda>d. RemoteServiceKey d \<noteq> RemoteServiceKey r) as = as"
    "filter (\<lambda>d. RemoteServiceKey d \<noteq> RemoteServiceKey r) bs = bs"
    by (auto simp: filter_id_conv)
  then show ?thesis
    using ok s c' by (auto simp: remotes_ok_def sorted_wrt_append)
qed

section \<open>Trusted peers: one entry per machine\<close>

lemma sameTrustedMachine_sym: "sameTrustedMachine a b \<longleftrightarrow> sameTrustedMachine b a"
  by (auto simp: sameTrustedMachine_def)

text \<open>The backward loop of \<open>removeDuplicateTrustedPeers\<close> drops exactly the other entries of the machine kept.\<close>

lemma removeDuplicates_after:
  "removeDuplicateTrustedPeers (Suc (length as) + length bs) (length as) (as @ k # bs @ cs) =
   removeDuplicateTrustedPeers (Suc (length as)) (length as)
     (as @ k # filter (\<lambda>x. \<not> sameTrustedMachine k x) bs @ cs)"
proof (induction bs arbitrary: cs rule: rev_induct)
  case Nil
  then show ?case by simp
next
  case (snoc x bs)
  have n: "(as @ k # bs @ x # cs) ! Suc (length as + length bs) = x"
    by (simp add: nth_append)
  have r: "remove_nth (Suc (length as + length bs)) (as @ k # bs @ x # cs) = as @ k # bs @ cs"
    using remove_nth_append [of "as @ k # bs" x cs] by simp
  show ?case
    using snoc [of "x # cs"] snoc [of cs] by (simp add: n r del: removeDuplicateTrustedPeers.simps(2)
      add: removeDuplicateTrustedPeers.simps(2) [of "Suc (length as + length bs)"])
qed

lemma removeDuplicates_before:
  "removeDuplicateTrustedPeers (length as) (length as + length ds) (as @ ds @ k # cs) =
   filter (\<lambda>x. \<not> sameTrustedMachine k x) as @ ds @ k # cs"
proof (induction as arbitrary: ds rule: rev_induct)
  case Nil
  then show ?case by simp
next
  case (snoc x as)
  have n: "(as @ x # ds @ k # cs) ! length as = x" "(as @ x # ds @ k # cs) ! Suc (length as + length ds) = k"
    using nth_append_length [of "as @ x # ds" k cs] by (simp_all)
  show ?case
    using snoc [of "x # ds"] snoc [of ds] by (simp add: n)
qed

lemma removeDuplicateTrustedPeers_eq:
  "removeDuplicateTrustedPeers (length (as @ k # bs)) (length as) (as @ k # bs) =
   filter (\<lambda>x. \<not> sameTrustedMachine k x) as @ k # filter (\<lambda>x. \<not> sameTrustedMachine k x) bs"
  using removeDuplicates_after [of as bs k "[]"] removeDuplicates_before [of as "[]" k]
  by simp

definition trust_ok :: "Config \<Rightarrow> bool" where
  "trust_ok c \<longleftrightarrow> sorted_wrt (\<lambda>a b. \<not> sameTrustedMachine a b) (cfg_Trusted c)"

lemma AddTrustedPeer_cases:
  obtains (new) p where "tp_NodeID p = tp_NodeID p0" "tp_TPMRootThumbprint p = tp_TPMRootThumbprint p0"
      "\<forall>d \<in> set (cfg_Trusted c). \<not> sameTrustedMachine d p"
      "cfg_Trusted (AddTrustedPeer now p0 c) = cfg_Trusted c @ [p]"
  | (merged) p as d bs where "tp_NodeID p = tp_NodeID p0" "tp_TPMRootThumbprint p = tp_TPMRootThumbprint p0"
      "cfg_Trusted c = as @ d # bs" "sameTrustedMachine d p"
      "cfg_Trusted (AddTrustedPeer now p0 c) =
        filter (\<lambda>x. \<not> sameTrustedMachine (mergeTrustedPeer d p) x) as @ mergeTrustedPeer d p
        # filter (\<lambda>x. \<not> sameTrustedMachine (mergeTrustedPeer d p) x) bs"
proof -
  define p where "p = (if IsZero (tp_AddedAt p0) then p0\<lparr>tp_AddedAt := now\<rparr> else p0)"
  have id: "tp_NodeID p = tp_NodeID p0" "tp_TPMRootThumbprint p = tp_TPMRootThumbprint p0"
    by (simp_all add: p_def)
  show ?thesis
  proof (cases "find_first (\<lambda>d. sameTrustedMachine d p) (cfg_Trusted c)")
    case None
    then have "cfg_Trusted (AddTrustedPeer now p0 c) = cfg_Trusted c @ [p]"
      by (simp add: AddTrustedPeer_def flip: p_def)
    then show ?thesis using new [OF id] None by (simp add: find_first_None)
  next
    case (Some i)
    obtain as d bs where s: "cfg_Trusted c = as @ d # bs" "length as = i" "sameTrustedMachine d p"
      using find_first_split [OF Some] by metis
    have "cfg_Trusted (AddTrustedPeer now p0 c) =
        removeDuplicateTrustedPeers (length (as @ mergeTrustedPeer d p # bs)) (length as) (as @ mergeTrustedPeer d p # bs)"
      using Some s(2) by (simp add: AddTrustedPeer_def s(1) list_update_append nth_append Let_def
          del: removeDuplicateTrustedPeers.simps flip: p_def)
    then show ?thesis using merged [OF id s(1,3)] removeDuplicateTrustedPeers_eq by simp
  qed
qed

lemma mergeTrustedPeer_NodeID: "tp_NodeID (mergeTrustedPeer d p) = override (tp_NodeID d) (tp_NodeID p)"
  by (simp add: mergeTrustedPeer_def split: prod.splits)

lemma trust_ok_Add: "trust_ok c \<Longrightarrow> trust_ok (AddTrustedPeer now p c)"
proof (cases rule: AddTrustedPeer_cases [of p c now])
  case (new q)
  then show "trust_ok c \<Longrightarrow> ?thesis" by (simp add: trust_ok_def sorted_wrt_append)
next
  case (merged q as d bs)
  then show "trust_ok c \<Longrightarrow> ?thesis"
    by (auto simp: trust_ok_def sorted_wrt_append sorted_wrt_filter sameTrustedMachine_sym)
qed

lemma IsTrusted_set: "IsTrusted n c \<longleftrightarrow> (\<exists>p \<in> set (cfg_Trusted c). tp_NodeID p = n)"
  by (simp add: IsTrusted_def list_ex_iff)

lemma Add_trusted: "tp_NodeID p \<noteq> [] \<Longrightarrow> IsTrusted (tp_NodeID p) (AddTrustedPeer now p c)"
  by (cases rule: AddTrustedPeer_cases [of p c now])
    (auto simp: IsTrusted_set mergeTrustedPeer_NodeID override_def)

lemma Add_trusted_only:
  "IsTrusted n (AddTrustedPeer now p c) \<Longrightarrow> n = tp_NodeID p \<or> IsTrusted n c"
  by (cases rule: AddTrustedPeer_cases [of p c now])
    (auto simp: IsTrusted_set mergeTrustedPeer_NodeID override_def split: if_splits)

lemma Remove_trusted:
  assumes "trust_ok c" "n \<noteq> []"
  shows "trust_ok (snd (RemoveTrustedPeer n c))"
    and "IsTrusted m (snd (RemoveTrustedPeer n c)) \<longleftrightarrow> m \<noteq> n \<and> IsTrusted m c"
    and "fst (RemoveTrustedPeer n c) \<longleftrightarrow> IsTrusted n c"
proof -
  have "trust_ok (snd (RemoveTrustedPeer n c))
    \<and> (IsTrusted m (snd (RemoveTrustedPeer n c)) \<longleftrightarrow> m \<noteq> n \<and> IsTrusted m c)
    \<and> (fst (RemoveTrustedPeer n c) \<longleftrightarrow> IsTrusted n c)"
  proof (cases "find_first (\<lambda>d. tp_NodeID d = n) (cfg_Trusted c)")
    case None
    then show ?thesis
      using assms find_first_None [of "\<lambda>d. tp_NodeID d = n" "cfg_Trusted c"]
      by (auto simp: RemoveTrustedPeer_def IsTrusted_set)
  next
    case (Some i)
    obtain as d bs where s: "cfg_Trusted c = as @ d # bs" "length as = i" "tp_NodeID d = n"
      using find_first_split [OF Some] by metis
    have "sameTrustedMachine x d \<and> sameTrustedMachine d x" if "tp_NodeID x = n" for x
      using that s(3) assms(2) by (simp add: sameTrustedMachine_def)
    moreover have "\<not> sameTrustedMachine x d \<or> \<not> sameTrustedMachine d x" if "x \<in> set as \<union> set bs" for x
      using that assms(1) by (auto simp: trust_ok_def s(1) sorted_wrt_append)
    ultimately have "tp_NodeID x \<noteq> n" if "x \<in> set as \<union> set bs" for x
      using that by blast
    then show ?thesis
      using Some s(2,3) assms(1) by (auto simp: RemoveTrustedPeer_def IsTrusted_set s(1) trust_ok_def sorted_wrt_append)
  qed
  then show "trust_ok (snd (RemoveTrustedPeer n c))"
    "IsTrusted m (snd (RemoveTrustedPeer n c)) \<longleftrightarrow> m \<noteq> n \<and> IsTrusted m c"
    "fst (RemoveTrustedPeer n c) \<longleftrightarrow> IsTrusted n c" by auto
qed

text \<open>
  A list of trusted identities as the pairing code uses it: an identity is added
  when an invite is redeemed and removed when it is revoked. Adding may replace
  another entry of the same machine, so only the new identity is promised.
\<close>

locale trust_list =
  fixes add :: "'p \<Rightarrow> 's \<Rightarrow> 's"
    and remove :: "'id \<Rightarrow> 's \<Rightarrow> 's"
    and ident :: "'p \<Rightarrow> 'id"
    and trusted :: "'id \<Rightarrow> 's \<Rightarrow> bool"
    and ok :: "'s \<Rightarrow> bool"
    and valid :: "'id \<Rightarrow> bool"
  assumes ok_add: "ok s \<Longrightarrow> ok (add p s)"
    and ok_remove: "ok s \<Longrightarrow> ok (remove n s)"
    and add_trusted: "valid (ident p) \<Longrightarrow> trusted (ident p) (add p s)"
    and add_only: "trusted n (add p s) \<Longrightarrow> n = ident p \<or> trusted n s"
    and remove_gone: "ok s \<Longrightarrow> valid n \<Longrightarrow> \<not> trusted n (remove n s)"
    and remove_only: "trusted m (remove n s) \<Longrightarrow> trusted m s"
begin

definition trust_step :: "'s \<Rightarrow> 'p + 'id \<Rightarrow> 's" where
  "trust_step s a = (case a of Inl p \<Rightarrow> add p s | Inr n \<Rightarrow> remove n s)"

lemma trust_step_simps [simp]: "trust_step s (Inl p) = add p s" "trust_step s (Inr n) = remove n s"
  by (simp_all add: trust_step_def)

lemma history:
  assumes "ok s" "valid n" "trusted n (foldl trust_step s ops)"
  shows "trusted n s \<and> Inr n \<notin> set ops
    \<or> (\<exists>pre p post. ops = pre @ Inl p # post \<and> ident p = n \<and> Inr n \<notin> set post)"
  using assms
proof (induction ops rule: rev_induct)
  case Nil
  then show ?case by simp
next
  case (snoc a ops)
  have ok: "ok (foldl trust_step s ops)"
    using snoc.prems(1)
    by (induction ops rule: rev_induct) (auto simp: trust_step_def ok_add ok_remove split: sum.splits)
  show ?case
  proof (cases a)
    case (Inl p)
    show ?thesis
    proof (cases "ident p = n")
      case True
      then show ?thesis using Inl by force
    next
      case False
      then have t: "trusted n (foldl trust_step s ops)"
        using add_only [of n p] snoc.prems(3) Inl by auto
      from snoc.IH [OF snoc.prems(1,2) t] show ?thesis
      proof (elim disjE exE conjE)
        fix pre q post
        assume "ops = pre @ Inl q # post" "ident q = n" "Inr n \<notin> set post"
        then have "ops @ [a] = pre @ Inl q # (post @ [a]) \<and> ident q = n \<and> Inr n \<notin> set (post @ [a])"
          using Inl by simp
        then show ?thesis by blast
      qed (use Inl in simp)
    qed
  next
    case (Inr m)
    then have m: "m \<noteq> n" "trusted n (foldl trust_step s ops)"
      using remove_gone [OF ok] remove_only snoc.prems by auto
    from snoc.IH [OF snoc.prems(1,2) m(2)] show ?thesis
    proof (elim disjE exE conjE)
      fix pre q post
      assume "ops = pre @ Inl q # post" "ident q = n" "Inr n \<notin> set post"
      then have "ops @ [a] = pre @ Inl q # (post @ [a]) \<and> ident q = n \<and> Inr n \<notin> set (post @ [a])"
        using Inr m by simp
      then show ?thesis by blast
    qed (use Inr m in simp)
  qed
qed

end

lemma trust_ok_Remove: "trust_ok c \<Longrightarrow> trust_ok (snd (RemoveTrustedPeer n c))"
proof (cases "find_first (\<lambda>d. tp_NodeID d = n) (cfg_Trusted c)")
  case None
  then show "trust_ok c \<Longrightarrow> ?thesis" by (simp add: RemoveTrustedPeer_def)
next
  case (Some i)
  obtain as d bs where "cfg_Trusted c = as @ d # bs" "length as = i"
    using find_first_split [OF Some] by metis
  then show "trust_ok c \<Longrightarrow> ?thesis"
    using Some by (auto simp: RemoveTrustedPeer_def trust_ok_def sorted_wrt_append)
qed

lemma Remove_trusted_only: "IsTrusted m (snd (RemoveTrustedPeer n c)) \<Longrightarrow> IsTrusted m c"
proof (cases "find_first (\<lambda>d. tp_NodeID d = n) (cfg_Trusted c)")
  case None
  then show "IsTrusted m (snd (RemoveTrustedPeer n c)) \<Longrightarrow> ?thesis" by (simp add: RemoveTrustedPeer_def)
next
  case (Some i)
  then show "IsTrusted m (snd (RemoveTrustedPeer n c)) \<Longrightarrow> ?thesis"
    using set_remove_nth_subset [of i "cfg_Trusted c"]
    by (simp add: RemoveTrustedPeer_def IsTrusted_set) blast
qed

interpretation trust: trust_list "\<lambda>(now, p). AddTrustedPeer now p" "\<lambda>n c. snd (RemoveTrustedPeer n c)"
  "\<lambda>(now, p). tp_NodeID p" IsTrusted trust_ok "\<lambda>n. n \<noteq> []"
proof
  fix c :: Config and q :: "instant \<times> TrustedPeer" and n m
  obtain now p where q: "q = (now, p)" by (cases q)
  show "trust_ok c \<Longrightarrow> trust_ok ((\<lambda>(now, p). AddTrustedPeer now p) q c)"
    by (simp add: q trust_ok_Add)
  show "trust_ok c \<Longrightarrow> trust_ok (snd (RemoveTrustedPeer n c))" by (rule trust_ok_Remove)
  show "(\<lambda>(now, p). tp_NodeID p) q \<noteq> [] \<Longrightarrow>
      IsTrusted ((\<lambda>(now, p). tp_NodeID p) q) ((\<lambda>(now, p). AddTrustedPeer now p) q c)"
    by (simp add: q Add_trusted)
  show "IsTrusted n ((\<lambda>(now, p). AddTrustedPeer now p) q c) \<Longrightarrow> n = (\<lambda>(now, p). tp_NodeID p) q \<or> IsTrusted n c"
    using Add_trusted_only by (simp add: q)
  show "trust_ok c \<Longrightarrow> n \<noteq> [] \<Longrightarrow> \<not> IsTrusted n (snd (RemoveTrustedPeer n c))"
    using Remove_trusted(2) by blast
  show "IsTrusted m (snd (RemoveTrustedPeer n c)) \<Longrightarrow> IsTrusted m c" by (rule Remove_trusted_only)
qed

datatype trust_op = TrustAdd instant TrustedPeer | TrustRemove string

fun trust_apply :: "Config \<Rightarrow> trust_op \<Rightarrow> Config" where
  "trust_apply c (TrustAdd now p) = AddTrustedPeer now p c"
| "trust_apply c (TrustRemove n) = snd (RemoveTrustedPeer n c)"

fun trust_op_sum :: "trust_op \<Rightarrow> (instant \<times> TrustedPeer) + string" where
  "trust_op_sum (TrustAdd now p) = Inl (now, p)"
| "trust_op_sum (TrustRemove n) = Inr n"

lemma trust_apply_step: "foldl trust_apply c ops = foldl trust.trust_step c (map trust_op_sum ops)"
proof (induction ops arbitrary: c)
  case Nil
  then show ?case by simp
next
  case (Cons a ops)
  then show ?case by (cases a) (simp_all add: trust.trust_step_def)
qed

lemma trust_op_sum_iff: "trust_op_sum a = Inr n \<longleftrightarrow> a = TrustRemove n" "trust_op_sum a = Inl (now, p) \<longleftrightarrow> a = TrustAdd now p"
  by (cases a; auto)+

text \<open>
  C5: in every sequence of additions and removals of trusted peers, a node that is
  trusted at the end was either trusted from the start and never removed, or was
  added by an operation after which it was not removed: a revoked peer stays
  revoked until it is paired again.
\<close>

theorem trust_history:
  assumes "trust_ok c" "n \<noteq> []" "IsTrusted n (foldl trust_apply c ops)"
  shows "IsTrusted n c \<and> TrustRemove n \<notin> set ops
    \<or> (\<exists>pre now p post. ops = pre @ TrustAdd now p # post \<and> tp_NodeID p = n \<and> TrustRemove n \<notin> set post)"
proof -
  have rem: "Inr n \<in> set (map trust_op_sum xs) \<longleftrightarrow> TrustRemove n \<in> set xs" for xs
    using trust_op_sum_iff(1) by (auto simp: image_iff) metis+
  from trust.history [OF assms(1,2) assms(3) [unfolded trust_apply_step]]
  consider "IsTrusted n c" "TrustRemove n \<notin> set ops"
    | pre q post where "map trust_op_sum ops = pre @ Inl q # post" "tp_NodeID (snd q) = n" "Inr n \<notin> set post"
    using rem by (auto split: prod.splits)
  then show ?thesis
  proof cases
    case 1
    then show ?thesis by blast
  next
    case (2 pre q post)
    then obtain a x b where "ops = a @ x # b" "trust_op_sum x = Inl q" "map trust_op_sum b = post"
      by (auto simp: map_eq_append_conv map_eq_Cons_conv)
    then show ?thesis
      using 2 rem trust_op_sum_iff(2) [of x "fst q" "snd q"] by auto
  qed
qed

definition sample_peer :: TrustedPeer where
  "sample_peer = \<lparr>tp_NodeID = ''node'', tp_Label = [], tp_PublicKey = [], tp_MachineID = ''m'', tp_Protocol = ''ssh'',
     tp_TargetPort = 22, tp_IdentityBackend = ''tpm'', tp_HardwareBacked = True, tp_TPMVendor = [],
     tp_TPMVersion = [], tp_TPMRootThumbprint = ''ca'', tp_AddedAt = 0, tp_LastConnectedAt = 0\<rparr>"

theorem trust_history_witness:
  "\<exists>pre now p post. [TrustAdd 3 sample_peer] = pre @ TrustAdd now p # post \<and> tp_NodeID p = ''node''
     \<and> TrustRemove ''node'' \<notin> set post"
  using trust_history [of "defaultConfig ''h''" "''node''" "[TrustAdd 3 sample_peer]"]
  by (auto simp: trust_ok_def defaultConfig_def AddTrustedPeer_def IsTrusted_def sample_peer_def IsZero_def Let_def)

text \<open>
  pairing a peer with a node identifier makes exactly that node trusted in
  addition: it is found by \<open>TrustedPeer\<close>, no other node becomes trusted, and the
  list keeps one entry per machine.
\<close>

theorem AddTrustedPeer_correct:
  assumes "trust_ok c" "tp_NodeID p \<noteq> []"
  shows "trust_ok (AddTrustedPeer now p c)
    \<and> (\<exists>q. TrustedPeer_get (tp_NodeID p) (AddTrustedPeer now p c) = Some q \<and> tp_NodeID q = tp_NodeID p)
    \<and> (\<forall>n. IsTrusted n (AddTrustedPeer now p c) \<longrightarrow> n = tp_NodeID p \<or> IsTrusted n c)"
proof -
  have "TrustedPeer_get (tp_NodeID p) (AddTrustedPeer now p c) \<noteq> None"
    using Add_trusted [OF assms(2)] by (auto simp: TrustedPeer_get_def find_None_iff IsTrusted_set)
  then obtain q where "TrustedPeer_get (tp_NodeID p) (AddTrustedPeer now p c) = Some q" by blast
  moreover from this have "tp_NodeID q = tp_NodeID p"
    by (auto simp: TrustedPeer_get_def find_Some_iff)
  ultimately show ?thesis
    using trust_ok_Add [OF assms(1)] Add_trusted_only by blast
qed

theorem AddTrustedPeer_correct_witness:
  "trust_ok (AddTrustedPeer 3 sample_peer (defaultConfig ''h''))
   \<and> (\<exists>q. TrustedPeer_get ''node'' (AddTrustedPeer 3 sample_peer (defaultConfig ''h'')) = Some q \<and> tp_NodeID q = ''node'')"
  using AddTrustedPeer_correct [of "defaultConfig ''h''" sample_peer 3]
  by (simp add: trust_ok_def defaultConfig_def sample_peer_def)

text \<open>
  two machines whose TPMs chain to the same manufacturer root are one machine
  for \<open>AddTrustedPeer\<close>: pairing the second replaces the entry of the first, which is
  no longer trusted.
\<close>

theorem AddTrustedPeer_same_root_replaces:
  assumes "cfg_Trusted c = [a]" "tp_TPMRootThumbprint a = tp_TPMRootThumbprint b" "tp_TPMRootThumbprint b \<noteq> []"
    and "tp_NodeID b \<noteq> []" "tp_NodeID a \<noteq> tp_NodeID b"
  shows "length (cfg_Trusted (AddTrustedPeer now b c)) = 1
    \<and> IsTrusted (tp_NodeID b) (AddTrustedPeer now b c)
    \<and> \<not> IsTrusted (tp_NodeID a) (AddTrustedPeer now b c)"
proof (cases rule: AddTrustedPeer_cases [of b c now])
  case (new p)
  then have "tp_TPMRootThumbprint p = tp_TPMRootThumbprint b" by blast
  then have "sameTrustedMachine a p"
    using assms(2,3) by (simp add: sameTrustedMachine_def)
  moreover have "\<not> sameTrustedMachine a p" using new(3) assms(1) by simp
  ultimately show ?thesis by blast
next
  case (merged p as d bs)
  have "as @ d # bs = [a]" using merged(3) assms(1) by simp
  then have "as = []" "bs = []" "d = a"
    by (auto simp: append_eq_Cons_conv)
  then show ?thesis
    using merged assms by (simp add: IsTrusted_set mergeTrustedPeer_NodeID override_def)
qed

theorem AddTrustedPeer_same_root_replaces_witness:
  "\<not> IsTrusted ''node'' (AddTrustedPeer 5 (sample_peer\<lparr>tp_NodeID := ''other'', tp_MachineID := ''m2''\<rparr>)
      ((defaultConfig ''h'')\<lparr>cfg_Trusted := [sample_peer]\<rparr>))"
  using AddTrustedPeer_same_root_replaces [of "(defaultConfig ''h'')\<lparr>cfg_Trusted := [sample_peer]\<rparr>" sample_peer
      "sample_peer\<lparr>tp_NodeID := ''other'', tp_MachineID := ''m2''\<rparr>" 5]
  by (simp add: sample_peer_def)

end
