(* ===== verification/Identity.thy ===== *)
theory Identity
  imports Protocol Token Config
begin

text \<open>
  Machine identities, \<open>internal/identity/identity.go\<close>, and the identity proofs of the
  pairing handshake (the second half of \<open>internal/pairing/pairing.go\<close>): the messages
  that are signed, the local proof, its verification and the comparison with a
  stored identity. The cryptographic libraries (SHA-256, HMAC, Ed25519, ECDSA,
  X.509, libp2p peer identifiers) are the fields of one argument of type
  \<open>cryptography\<close>.
\<close>

section \<open>The cryptographic libraries, as an argument\<close>

record certificate =
  x_SPKI :: bytes
  x_ecdsa_key :: "bytes option"
  x_pkix :: "bytes option"
  x_SubjectOrganization :: "string list"
  x_SubjectCommonName :: string
  x_IssuerOrganization :: "string list"
  x_IssuerCommonName :: string

record cryptography =
  cr_sha256 :: "bytes \<Rightarrow> bytes"
  cr_hmac :: "bytes \<Rightarrow> bytes \<Rightarrow> bytes"
  cr_ParseCertificate :: "bytes \<Rightarrow> certificate option"
  cr_VerifyChain :: "certificate \<Rightarrow> certificate list \<Rightarrow> certificate list \<Rightarrow> bool"
  cr_ecdsa_verify :: "bytes \<Rightarrow> bytes \<Rightarrow> bytes \<Rightarrow> bool"
  cr_ecdsa_pkix :: "bytes \<Rightarrow> bytes option"
  cr_ed25519_key :: "bytes \<Rightarrow> bool"
  cr_ed25519_verify :: "bytes \<Rightarrow> bytes \<Rightarrow> bytes \<Rightarrow> bool option"
  cr_peer_id :: "bytes \<Rightarrow> string option"
  cr_peer_Decode :: "string \<Rightarrow> bool"

text \<open>A libp2p private key: its raw public key and its signing function.\<close>

record private_key =
  pk_public :: "bytes option"
  pk_sign :: "bytes \<Rightarrow> bytes option"

section \<open>Identities\<close>

definition BackendTPM :: string where "BackendTPM = ''tpm''"
definition BackendSoftware :: string where "BackendSoftware = ''software''"

record AttestationBundle =
  ab_AKCert :: bytes
  ab_EKCert :: bytes
  ab_ManufacturerCA :: bytes
  ab_Manufacturer :: string
  ab_TPMVersion :: string

record Identity =
  id_PrivKey :: "private_key option"
  id_Signer :: "(bytes \<Rightarrow> bytes option) option"
  id_Backend :: string
  id_Attestation :: "AttestationBundle option"

datatype identity_error =
    MissingAttestationCert | TPMThumbprintMismatch | BadAKCert | AKNotECDSA | TPMSignatureInvalid
  | MissingSoftwareKey | SoftwareThumbprintMismatch | BadSoftwareKey | SoftwareVerifyFailed | SoftwareSignatureInvalid
  | NoAttestation | BadManufacturerCA | BadEKCert | EKNotSigned | AKChainInvalid | NoIdentityKey | AKPublicKeyMismatch
  | MarshalAKKey | IdentityUnavailable | IdentityKeyUnavailable | SigningFailed | NilDereference
  | MissingIdentityProof | IdentityProofExpired | UnsupportedProofBackend
  | MissingNodeKey | MissingNodeSignature | BadNodeKey | NodeIDUnderivable | SignerMismatch
  | NodeVerifyFailed | NodeSignatureInvalid
  | NoStoredIdentity | NoMachineID | MachineIDMismatch | SoftwareKeyMismatch
  | LoadNodeKey | DecodeNodeKey | ReadNodeKey | LocalSignerMismatch | MachineIDUnavailable | SignNodeBinding

definition thumbprint :: "cryptography \<Rightarrow> bytes \<Rightarrow> string" where
  "thumbprint cr raw = ToUpper (hexEncode (cr_sha256 cr raw))"

definition AttestationKeyThumbprint :: "cryptography \<Rightarrow> AttestationBundle option \<Rightarrow> string" where
  "AttestationKeyThumbprint cr a =
     (case a of
        None \<Rightarrow> []
      | Some b \<Rightarrow>
          if ab_AKCert b = [] then []
          else case cr_ParseCertificate cr (ab_AKCert b) of
            None \<Rightarrow> []
          | Some cert \<Rightarrow> if x_SPKI cert = [] then [] else thumbprint cr (x_SPKI cert))"

definition PublicKeyThumbprint :: "cryptography \<Rightarrow> bytes \<Rightarrow> string" where
  "PublicKeyThumbprint cr raw = (if raw = [] then [] else thumbprint cr raw)"

definition MachineID :: "cryptography \<Rightarrow> Identity option \<Rightarrow> string" where
  "MachineID cr i =
     (case i of
        None \<Rightarrow> []
      | Some idn \<Rightarrow>
          let thumb = (if id_Attestation idn \<noteq> None then AttestationKeyThumbprint cr (id_Attestation idn) else []) in
          if thumb \<noteq> [] then thumb
          else case id_PrivKey idn of
            None \<Rightarrow> []
          | Some key \<Rightarrow> (case pk_public key of None \<Rightarrow> [] | Some raw \<Rightarrow> PublicKeyThumbprint cr raw))"

definition PublicKeyRaw :: "Identity option \<Rightarrow> bytes" where
  "PublicKeyRaw i =
     (case i of
        None \<Rightarrow> []
      | Some idn \<Rightarrow> (case id_PrivKey idn of
            None \<Rightarrow> []
          | Some key \<Rightarrow> (case pk_public key of None \<Rightarrow> [] | Some raw \<Rightarrow> raw)))"

definition SignProof :: "cryptography \<Rightarrow> Identity option \<Rightarrow> bytes \<Rightarrow> identity_error + bytes" where
  "SignProof cr i message =
     (case i of
        None \<Rightarrow> Inl IdentityUnavailable
      | Some idn \<Rightarrow>
          (case id_Signer idn of
             Some sign \<Rightarrow> (case sign (cr_sha256 cr message) of None \<Rightarrow> Inl SigningFailed | Some s \<Rightarrow> Inr s)
           | None \<Rightarrow>
               (case id_PrivKey idn of
                  None \<Rightarrow> Inl IdentityKeyUnavailable
                | Some key \<Rightarrow> (case pk_sign key message of None \<Rightarrow> Inl SigningFailed | Some s \<Rightarrow> Inr s))))"

definition VerifyTPMProof ::
  "cryptography \<Rightarrow> AttestationBundle option \<Rightarrow> string \<Rightarrow> bytes \<Rightarrow> bytes \<Rightarrow> identity_error option" where
  "VerifyTPMProof cr att machineID message signature =
     (case att of
        None \<Rightarrow> Some MissingAttestationCert
      | Some b \<Rightarrow>
          if ab_AKCert b = [] then Some MissingAttestationCert
          else let got = AttestationKeyThumbprint cr att in
            if got = [] \<or> \<not> EqualFold got machineID then Some TPMThumbprintMismatch
            else case cr_ParseCertificate cr (ab_AKCert b) of
              None \<Rightarrow> Some BadAKCert
            | Some cert \<Rightarrow>
                (case x_ecdsa_key cert of
                   None \<Rightarrow> Some AKNotECDSA
                 | Some pub \<Rightarrow>
                     if \<not> cr_ecdsa_verify cr pub (cr_sha256 cr message) signature
                     then Some TPMSignatureInvalid else None))"

definition VerifySoftwareProof ::
  "cryptography \<Rightarrow> bytes \<Rightarrow> string \<Rightarrow> bytes \<Rightarrow> bytes \<Rightarrow> identity_error option" where
  "VerifySoftwareProof cr publicKeyRaw machineID message signature =
     (if publicKeyRaw = [] then Some MissingSoftwareKey
      else let got = PublicKeyThumbprint cr publicKeyRaw in
        if got = [] \<or> \<not> EqualFold got machineID then Some SoftwareThumbprintMismatch
        else if \<not> cr_ed25519_key cr publicKeyRaw then Some BadSoftwareKey
        else case cr_ed25519_verify cr publicKeyRaw message signature of
          None \<Rightarrow> Some SoftwareVerifyFailed
        | Some ok \<Rightarrow> if \<not> ok then Some SoftwareSignatureInvalid else None)"

text \<open>The byte comparison loop of \<open>equalPublicKeys\<close> is list equality.\<close>

definition equalPublicKeys :: "cryptography \<Rightarrow> bytes \<Rightarrow> certificate \<Rightarrow> bool" where
  "equalPublicKeys cr libp2pPubRaw cert =
     (case x_pkix cert of
        None \<Rightarrow> False
      | Some certPubDER \<Rightarrow>
          (case cr_ecdsa_pkix cr libp2pPubRaw of
             None \<Rightarrow> False
           | Some libp2pPubDER \<Rightarrow>
               if length certPubDER \<noteq> length libp2pPubDER then False
               else list_all2 (\<lambda>a b. a = b) certPubDER libp2pPubDER))"

definition AttestationBundle_Verify ::
  "cryptography \<Rightarrow> AttestationBundle option \<Rightarrow> Identity option \<Rightarrow> identity_error option" where
  "AttestationBundle_Verify cr a i =
     (case a of
        None \<Rightarrow> Some NoAttestation
      | Some b \<Rightarrow>
          (case cr_ParseCertificate cr (ab_ManufacturerCA b) of
             None \<Rightarrow> Some BadManufacturerCA
           | Some mfrCA \<Rightarrow>
               (case cr_ParseCertificate cr (ab_EKCert b) of
                  None \<Rightarrow> Some BadEKCert
                | Some ekCert \<Rightarrow>
                    (case cr_ParseCertificate cr (ab_AKCert b) of
                       None \<Rightarrow> Some BadAKCert
                     | Some akCert \<Rightarrow>
                         if \<not> cr_VerifyChain cr ekCert [mfrCA] [] then Some EKNotSigned
                         else if \<not> cr_VerifyChain cr akCert [mfrCA] [ekCert] then Some AKChainInvalid
                         else case i of
                           None \<Rightarrow> Some NilDereference
                         | Some idn \<Rightarrow>
                             (case id_PrivKey idn of
                                None \<Rightarrow> Some NilDereference
                              | Some key \<Rightarrow>
                                  (case pk_public key of
                                     None \<Rightarrow> Some NoIdentityKey
                                   | Some idPub \<Rightarrow>
                                       if x_pkix akCert = None then Some MarshalAKKey
                                       else if \<not> equalPublicKeys cr idPub akCert then Some AKPublicKeyMismatch
                                       else None))))))"

section \<open>Signed messages\<close>

definition append_bytes :: "bytes \<Rightarrow> bytes" where
  "append_bytes b = PutUint32 (word_of_nat (length b)) @ b"

definition append_string :: "string \<Rightarrow> bytes" where
  "append_string s = append_bytes (bytes_of_string s)"

definition identityProofMessage ::
  "string \<Rightarrow> string \<Rightarrow> string \<Rightarrow> bytes \<Rightarrow> bytes \<Rightarrow> bytes \<Rightarrow> string \<Rightarrow> int \<Rightarrow> bytes" where
  "identityProofMessage role signerPeer verifierPeer inviteID inviteProof sessionToken mode window =
     append_string ''DeskAccess identity proof v1'' @ append_string role @ append_string signerPeer
     @ append_string verifierPeer @ append_string mode @ append_bytes inviteID @ append_bytes inviteProof
     @ append_bytes sessionToken @ PutUint64 (word_of_int window)"

definition identityBindingMessage :: "bytes \<Rightarrow> IdentityProof \<Rightarrow> bytes" where
  "identityBindingMessage proofMessage proof =
     append_string ''DeskAccess node identity binding v1'' @ append_bytes proofMessage
     @ append_string (ip_Backend proof) @ append_string (ip_MachineID proof)
     @ append_bytes (ip_PublicKey proof) @ append_bytes (ip_Signature proof)"

section \<open>Local proofs\<close>

text \<open>The node key of the configuration: its raw public key, signing function and peer identifier.\<close>

definition localNodeKey ::
  "cryptography \<Rightarrow> (bytes \<Rightarrow> private_key option) \<Rightarrow> Config \<Rightarrow> identity_error + (private_key \<times> bytes \<times> string)" where
  "localNodeKey cr unmarshal cfg =
     (case PrivateKeyBytes cfg of
        Inl _ \<Rightarrow> Inl LoadNodeKey
      | Inr priv \<Rightarrow>
          (case unmarshal priv of
             None \<Rightarrow> Inl DecodeNodeKey
           | Some key \<Rightarrow>
               (case pk_public key of
                  None \<Rightarrow> Inl ReadNodeKey
                | Some raw \<Rightarrow>
                    (case cr_peer_id cr raw of
                       None \<Rightarrow> Inl NodeIDUnderivable
                     | Some nodeID \<Rightarrow> Inr (key, raw, nodeID)))))"

definition localProofIdentity ::
  "(bytes \<Rightarrow> private_key option) \<Rightarrow> Config \<Rightarrow> Identity option \<Rightarrow> Identity option" where
  "localProofIdentity unmarshal cfg ident =
     (let software = (case PrivateKeyBytes cfg of
            Inl _ \<Rightarrow> None
          | Inr priv \<Rightarrow> (case unmarshal priv of
                None \<Rightarrow> None
              | Some key \<Rightarrow> Some \<lparr>id_PrivKey = Some key, id_Signer = None, id_Backend = BackendSoftware,
                                  id_Attestation = None\<rparr>))
      in case ident of
           None \<Rightarrow> software
         | Some idn \<Rightarrow> if \<not> Option.is_none (id_Signer idn) \<or> \<not> Option.is_none (id_PrivKey idn) then Some idn else software)"

definition localProof ::
  "cryptography \<Rightarrow> (bytes \<Rightarrow> private_key option) \<Rightarrow> Config \<Rightarrow> Identity option \<Rightarrow> string \<Rightarrow> string \<Rightarrow> string \<Rightarrow>
   bytes \<Rightarrow> bytes \<Rightarrow> bytes \<Rightarrow> string \<Rightarrow> int \<Rightarrow> identity_error + IdentityProof" where
  "localProof cr unmarshal cfg ident role signerPeer verifierPeer inviteID inviteProof sessionToken mode window =
     (let idn = localProofIdentity unmarshal cfg ident in
      if Option.is_none idn then Inl IdentityUnavailable
      else case localNodeKey cr unmarshal cfg of
        Inl e \<Rightarrow> Inl e
      | Inr (nodeKey, nodePublicKey, nodePeerID) \<Rightarrow>
          if signerPeer \<noteq> nodePeerID then Inl LocalSignerMismatch
          else
            let backend = id_Backend (the idn);
                backend = (if backend = [] then BackendSoftware else backend);
                proof0 = \<lparr>ip_Backend = backend, ip_MachineID = MachineID cr idn,
                          ip_PublicKey = (if backend = BackendSoftware then PublicKeyRaw idn else []),
                          ip_NodePublicKey = nodePublicKey, ip_NodeSignature = [],
                          ip_TimeWindow = window, ip_Signature = []\<rparr>
            in if ip_MachineID proof0 = [] then Inl MachineIDUnavailable
               else
                 let msg = identityProofMessage role signerPeer verifierPeer inviteID inviteProof sessionToken mode window in
                 case SignProof cr idn msg of
                   Inl e \<Rightarrow> Inl e
                 | Inr sig \<Rightarrow>
                     let proof1 = proof0\<lparr>ip_Signature := sig\<rparr> in
                     (case pk_sign nodeKey (identityBindingMessage msg proof1) of
                        None \<Rightarrow> Inl SignNodeBinding
                      | Some nodeSig \<Rightarrow> Inr (proof1\<lparr>ip_NodeSignature := nodeSig\<rparr>)))"

section \<open>Verification\<close>

definition attestationBundle :: "TPMAttestation option \<Rightarrow> AttestationBundle option" where
  "attestationBundle att = map_option (\<lambda>a. \<lparr>ab_AKCert = ta_AKCert a, ab_EKCert = ta_EKCert a,
      ab_ManufacturerCA = ta_ManufacturerCA a, ab_Manufacturer = ta_Manufacturer a,
      ab_TPMVersion = ta_TPMVersion a\<rparr>) att"

definition attestationForIdentity :: "Identity option \<Rightarrow> TPMAttestation option" where
  "attestationForIdentity i =
     (case i of None \<Rightarrow> None
      | Some idn \<Rightarrow> map_option (\<lambda>a. \<lparr>ta_AKCert = ab_AKCert a, ta_EKCert = ab_EKCert a,
          ta_ManufacturerCA = ab_ManufacturerCA a, ta_Manufacturer = ab_Manufacturer a,
          ta_TPMVersion = ab_TPMVersion a\<rparr>) (id_Attestation idn))"

definition verifyNodeIdentityBinding ::
  "cryptography \<Rightarrow> IdentityProof \<Rightarrow> string \<Rightarrow> bytes \<Rightarrow> identity_error option" where
  "verifyNodeIdentityBinding cr proof signerPeer proofMessage =
     (if ip_NodePublicKey proof = [] then Some MissingNodeKey
      else if ip_NodeSignature proof = [] then Some MissingNodeSignature
      else if \<not> cr_ed25519_key cr (ip_NodePublicKey proof) then Some BadNodeKey
      else case cr_peer_id cr (ip_NodePublicKey proof) of
        None \<Rightarrow> Some NodeIDUnderivable
      | Some nodeID \<Rightarrow>
          if nodeID \<noteq> signerPeer then Some SignerMismatch
          else case cr_ed25519_verify cr (ip_NodePublicKey proof)
                      (identityBindingMessage proofMessage proof) (ip_NodeSignature proof) of
            None \<Rightarrow> Some NodeVerifyFailed
          | Some ok \<Rightarrow> if \<not> ok then Some NodeSignatureInvalid else None)"

definition validWindow :: "instant \<Rightarrow> int \<Rightarrow> bool" where
  "validWindow now w \<longleftrightarrow> list_ex (\<lambda>offset. w = TimeWindow now + offset) [-1, 0, 1]"

definition verifyIdentityProof ::
  "cryptography \<Rightarrow> instant \<Rightarrow> IdentityProof option \<Rightarrow> TPMAttestation option \<Rightarrow> string \<Rightarrow> string \<Rightarrow> string \<Rightarrow>
   bytes \<Rightarrow> bytes \<Rightarrow> bytes \<Rightarrow> string \<Rightarrow> identity_error option" where
  "verifyIdentityProof cr now prf att role signerPeer verifierPeer inviteID inviteProof sessionToken mode =
     (case prf of
        None \<Rightarrow> Some MissingIdentityProof
      | Some proof \<Rightarrow>
          if \<not> validWindow now (ip_TimeWindow proof) then Some IdentityProofExpired
          else
            let msg = identityProofMessage role signerPeer verifierPeer inviteID inviteProof sessionToken mode
                        (ip_TimeWindow proof)
            in case verifyNodeIdentityBinding cr proof signerPeer msg of
                 Some e \<Rightarrow> Some e
               | None \<Rightarrow>
                   if ip_Backend proof = BackendTPM
                   then VerifyTPMProof cr (attestationBundle att) (ip_MachineID proof) msg (ip_Signature proof)
                   else if ip_Backend proof = BackendSoftware \<or> ip_Backend proof = []
                   then VerifySoftwareProof cr (ip_PublicKey proof) (ip_MachineID proof) msg (ip_Signature proof)
                   else Some UnsupportedProofBackend)"

definition verifyStoredIdentity :: "string \<Rightarrow> string \<Rightarrow> IdentityProof option \<Rightarrow> identity_error option" where
  "verifyStoredIdentity storedPublicKey storedMachineID prf =
     (case prf of
        None \<Rightarrow> Some MissingIdentityProof
      | Some proof \<Rightarrow>
          let mid = TrimSpace storedMachineID; pub = TrimSpace storedPublicKey in
          if mid = [] \<and> pub = [] then Some NoStoredIdentity
          else if mid \<noteq> [] \<and> ip_MachineID proof = [] then Some NoMachineID
          else if mid \<noteq> [] \<and> \<not> EqualFold mid (ip_MachineID proof) then Some MachineIDMismatch
          else if pub \<noteq> [] \<and> ip_PublicKey proof \<noteq> [] \<and> \<not> EqualFold pub (hexEncode (ip_PublicKey proof))
          then Some SoftwareKeyMismatch
          else None)"

definition canRepairStoredSoftwarePublicKey ::
  "identity_error option \<Rightarrow> string \<Rightarrow> IdentityProof option \<Rightarrow> bool" where
  "canRepairStoredSoftwarePublicKey err storedMachineID prf =
     (case (err, prf) of
        (Some e, Some proof) \<Rightarrow>
          if e \<noteq> SoftwareKeyMismatch then False
          else if TrimSpace storedMachineID = [] \<or> ip_MachineID proof = [] then False
          else EqualFold (TrimSpace storedMachineID) (ip_MachineID proof)
      | _ \<Rightarrow> False)"

definition identityProofMachineID :: "IdentityProof option \<Rightarrow> string" where
  "identityProofMachineID prf = (case prf of None \<Rightarrow> [] | Some p \<Rightarrow> TrimSpace (ip_MachineID p))"

definition identityProofPublicKeyHex :: "IdentityProof option \<Rightarrow> string" where
  "identityProofPublicKeyHex prf =
     (case prf of None \<Rightarrow> [] | Some p \<Rightarrow> if ip_PublicKey p = [] then [] else hexEncode (ip_PublicKey p))"

definition tpmRootThumbprintFromAttestation :: "cryptography \<Rightarrow> TPMAttestation option \<Rightarrow> string" where
  "tpmRootThumbprintFromAttestation cr att =
     (case att of
        None \<Rightarrow> []
      | Some a \<Rightarrow> if ta_ManufacturerCA a = [] then [] else thumbprint cr (ta_ManufacturerCA a))"

primrec join_comma :: "string list \<Rightarrow> string" where
  "join_comma [] = []"
| "join_comma (s # ss) = (if ss = [] then s else s @ '', '' @ join_comma ss)"

definition vendor_of_cert :: "certificate \<Rightarrow> string option" where
  "vendor_of_cert cert =
     (if x_SubjectOrganization cert \<noteq> [] then Some (join_comma (x_SubjectOrganization cert))
      else if x_SubjectCommonName cert \<noteq> [] then Some (x_SubjectCommonName cert)
      else if x_IssuerOrganization cert \<noteq> [] then Some (join_comma (x_IssuerOrganization cert))
      else if x_IssuerCommonName cert \<noteq> [] then Some (x_IssuerCommonName cert)
      else None)"

primrec vendor_loop :: "cryptography \<Rightarrow> bytes list \<Rightarrow> string" where
  "vendor_loop cr [] = []"
| "vendor_loop cr (der # ders) =
     (if der = [] then vendor_loop cr ders
      else case cr_ParseCertificate cr der of
        None \<Rightarrow> vendor_loop cr ders
      | Some cert \<Rightarrow> (case vendor_of_cert cert of Some v \<Rightarrow> v | None \<Rightarrow> vendor_loop cr ders))"

definition vendorFromTPMCerts :: "cryptography \<Rightarrow> TPMAttestation \<Rightarrow> string" where
  "vendorFromTPMCerts cr att = vendor_loop cr [ta_EKCert att, ta_ManufacturerCA att]"

definition identityInfoFromAttestation ::
  "cryptography \<Rightarrow> TPMAttestation option \<Rightarrow> string \<times> bool \<times> string \<times> string \<times> string" where
  "identityInfoFromAttestation cr att =
     (case att of
        None \<Rightarrow> (BackendSoftware, False, [], [], [])
      | Some a \<Rightarrow>
          if ta_Manufacturer a \<noteq> [] \<or> ta_TPMVersion a \<noteq> [] \<or> ta_AKCert a \<noteq> [] \<or> ta_EKCert a \<noteq> []
          then
            let vendor = TrimSpace (ta_Manufacturer a);
                vendor = (if vendor = [] then vendorFromTPMCerts cr a else vendor)
            in (BackendTPM, True, vendor, ta_TPMVersion a, tpmRootThumbprintFromAttestation cr att)
          else (BackendSoftware, False, [], [], []))"

definition pubKeyToPeerID :: "cryptography \<Rightarrow> bytes \<Rightarrow> string option" where
  "pubKeyToPeerID cr pub = (if \<not> cr_ed25519_key cr pub then None else cr_peer_id cr pub)"

definition shortPeer :: "string \<Rightarrow> string" where
  "shortPeer peerID = (if length peerID \<le> 12 then peerID else take 12 peerID)"


section \<open>Signed messages determine their fields\<close>

definition lp_ok :: "bytes \<Rightarrow> bool" where
  "lp_ok b \<longleftrightarrow> length b < 2 ^ 32"

lemma append_bytes_inject:
  assumes "lp_ok a" "lp_ok b"
  shows "append_bytes a @ r = append_bytes b @ s \<longleftrightarrow> a = b \<and> r = s"
proof
  assume eq: "append_bytes a @ r = append_bytes b @ s"
  then have "(word_of_nat (length a) :: 32 word) = word_of_nat (length b)" and rest: "a @ r = b @ s"
    by (simp_all add: append_bytes_def be32.enc_append_inject)
  then have "unat (word_of_nat (length a) :: 32 word) = unat (word_of_nat (length b) :: 32 word)" by simp
  then have "length a = length b"
    using assms by (simp add: lp_ok_def unsigned_of_nat take_bit_eq_mod)
  then show "a = b \<and> r = s" using rest by simp
qed simp

lemma append_string_inject:
  assumes "lp_ok (bytes_of_string a)" "lp_ok (bytes_of_string b)"
  shows "append_string a @ r = append_string b @ s \<longleftrightarrow> a = b \<and> r = s"
  using append_bytes_inject [OF assms] by (simp add: append_string_def)

lemma lp_ok_string [simp]: "lp_ok (bytes_of_string s) \<longleftrightarrow> length s < 2 ^ 32"
  by (simp add: lp_ok_def)

text \<open>
  the message an identity proof signs determines the role, both peers, the
  mode, the invite, the invite proof, the session token and the time window, so
  a signature for one handshake is not a signature for another.
\<close>

theorem identityProofMessage_inject:
  assumes "list_all (\<lambda>s. length s < 2 ^ 32) [role, signer, verifier, mode, role', signer', verifier', mode']"
    and "list_all lp_ok [ivt, prf, tok, ivt', prf', tok']"
    and "identityProofMessage role signer verifier ivt prf tok mode w =
         identityProofMessage role' signer' verifier' ivt' prf' tok' mode' w'"
  shows "role = role' \<and> signer = signer' \<and> verifier = verifier' \<and> mode = mode'
    \<and> ivt = ivt' \<and> prf = prf' \<and> tok = tok' \<and> (word_of_int w :: 64 word) = word_of_int w'"
  using assms
  by (simp add: identityProofMessage_def append_string_inject append_bytes_inject be64.enc_inject)

theorem identityProofMessage_inject_witness:
  "''client'' = ''client'' \<and> identityProofMessage ''client'' ''a'' ''b'' [] [] [] ''trusted'' 3 =
   identityProofMessage ''client'' ''a'' ''b'' [] [] [] ''trusted'' 3"
  using identityProofMessage_inject [of "''client''" "''a''" "''b''" "''trusted''" "''client''" "''a''" "''b''" "''trusted''"
      "[]" "[]" "[]" "[]" "[]" "[]" 3 3]
  by (simp add: lp_ok_def)

lemma identityBindingMessage_inject:
  assumes "lp_ok m" "lp_ok m'"
    and "length (ip_Backend p) < 2 ^ 32" "length (ip_MachineID p) < 2 ^ 32" "lp_ok (ip_PublicKey p)" "lp_ok (ip_Signature p)"
    and "length (ip_Backend q) < 2 ^ 32" "length (ip_MachineID q) < 2 ^ 32" "lp_ok (ip_PublicKey q)" "lp_ok (ip_Signature q)"
    and "identityBindingMessage m p = identityBindingMessage m' q"
  shows "m = m' \<and> ip_Backend p = ip_Backend q \<and> ip_MachineID p = ip_MachineID q
    \<and> ip_PublicKey p = ip_PublicKey q \<and> ip_Signature p = ip_Signature q"
  using assms append_bytes_inject [of "ip_Signature p" "ip_Signature q" "[]" "[]"]
  by (simp add: identityBindingMessage_def append_string_inject append_bytes_inject)

section \<open>What a verified proof guarantees\<close>

lemma verifyNodeIdentityBinding_None_iff:
  "verifyNodeIdentityBinding cr p signer msg = None \<longleftrightarrow>
     ip_NodePublicKey p \<noteq> [] \<and> ip_NodeSignature p \<noteq> [] \<and> cr_ed25519_key cr (ip_NodePublicKey p)
     \<and> cr_peer_id cr (ip_NodePublicKey p) = Some signer
     \<and> cr_ed25519_verify cr (ip_NodePublicKey p) (identityBindingMessage msg p) (ip_NodeSignature p) = Some True"
  by (auto simp: verifyNodeIdentityBinding_def split: option.splits)

lemma VerifySoftwareProof_None_iff:
  "VerifySoftwareProof cr pub mid msg sig = None \<longleftrightarrow>
     pub \<noteq> [] \<and> PublicKeyThumbprint cr pub \<noteq> [] \<and> EqualFold (PublicKeyThumbprint cr pub) mid
     \<and> cr_ed25519_key cr pub \<and> cr_ed25519_verify cr pub msg sig = Some True"
  by (auto simp: VerifySoftwareProof_def Let_def split: option.splits)

lemma VerifyTPMProof_None_iff:
  "VerifyTPMProof cr att mid msg sig = None \<longleftrightarrow>
     (\<exists>b cert pub. att = Some b \<and> ab_AKCert b \<noteq> [] \<and> cr_ParseCertificate cr (ab_AKCert b) = Some cert
        \<and> x_SPKI cert \<noteq> [] \<and> cr_sha256 cr (x_SPKI cert) \<noteq> [] \<and> EqualFold (thumbprint cr (x_SPKI cert)) mid
        \<and> x_ecdsa_key cert = Some pub \<and> cr_ecdsa_verify cr pub (cr_sha256 cr msg) sig)"
  by (auto simp: VerifyTPMProof_def AttestationKeyThumbprint_def Let_def thumbprint_def hexEncode_def split: option.splits if_splits)

text \<open>The key that signs for a machine, and how the machine identifier is bound to it.\<close>

definition machine_key_signed ::
  "cryptography \<Rightarrow> IdentityProof \<Rightarrow> TPMAttestation option \<Rightarrow> bytes \<Rightarrow> bool" where
  "machine_key_signed cr p att msg \<longleftrightarrow>
     (if ip_Backend p = BackendTPM
      then (\<exists>a cert pub. att = Some a \<and> cr_ParseCertificate cr (ta_AKCert a) = Some cert
              \<and> EqualFold (thumbprint cr (x_SPKI cert)) (ip_MachineID p)
              \<and> x_ecdsa_key cert = Some pub \<and> cr_ecdsa_verify cr pub (cr_sha256 cr msg) (ip_Signature p))
      else EqualFold (PublicKeyThumbprint cr (ip_PublicKey p)) (ip_MachineID p)
           \<and> cr_ed25519_verify cr (ip_PublicKey p) msg (ip_Signature p) = Some True)"

lemma validWindow_iff: "validWindow now w \<longleftrightarrow> \<bar>w - TimeWindow now\<bar> \<le> 1"
  by (auto simp: validWindow_def)

text \<open>
  C6: an identity proof is accepted only when it is fresh, the node key it carries
  derives the signing peer and signed the binding of all its fields, and the key
  whose thumbprint is the machine identifier (the TPM attestation key or the
  software key) signed the transcript of this very handshake.
\<close>

theorem verifyIdentityProof_sound:
  assumes "verifyIdentityProof cr now prf att role signer verifier ivt iprf tok mode = None"
  shows "\<exists>p msg. prf = Some p
    \<and> msg = identityProofMessage role signer verifier ivt iprf tok mode (ip_TimeWindow p)
    \<and> \<bar>ip_TimeWindow p - TimeWindow now\<bar> \<le> 1
    \<and> cr_peer_id cr (ip_NodePublicKey p) = Some signer
    \<and> cr_ed25519_verify cr (ip_NodePublicKey p) (identityBindingMessage msg p) (ip_NodeSignature p) = Some True
    \<and> ip_Backend p \<in> {BackendTPM, BackendSoftware, []}
    \<and> machine_key_signed cr p att msg"
proof -
  obtain p where p: "prf = Some p"
    using assms by (auto simp: verifyIdentityProof_def split: option.splits)
  define msg where "msg = identityProofMessage role signer verifier ivt iprf tok mode (ip_TimeWindow p)"
  have w: "validWindow now (ip_TimeWindow p)" and b: "verifyNodeIdentityBinding cr p signer msg = None"
    and v: "ip_Backend p = BackendTPM \<and> VerifyTPMProof cr (attestationBundle att) (ip_MachineID p) msg (ip_Signature p) = None
      \<or> ip_Backend p \<noteq> BackendTPM \<and> ip_Backend p \<in> {BackendSoftware, []}
        \<and> VerifySoftwareProof cr (ip_PublicKey p) (ip_MachineID p) msg (ip_Signature p) = None"
    using assms by (auto simp: p verifyIdentityProof_def Let_def msg_def [symmetric] split: if_splits option.splits)
  have "machine_key_signed cr p att msg"
    using v by (auto simp: machine_key_signed_def VerifyTPMProof_None_iff VerifySoftwareProof_None_iff attestationBundle_def)
  then show ?thesis
    using p w b v by (auto simp: msg_def validWindow_iff verifyNodeIdentityBinding_None_iff)
qed


text \<open>How long a proof stays acceptable.\<close>

lemma TimeWindow_div: "0 \<le> Unix t \<Longrightarrow> TimeWindow t = Unix t div 30"
  by (cases "Unix t = 0") (simp_all add: TimeWindow_def go_div_def TimeWindowSecs_def sgn_if)

text \<open>
  a window taken at one instant is valid for a verifier whose clock is within 30
  seconds of it, and for none whose clock is 60 seconds or more away: replays expire.
\<close>

theorem validWindow_time_bound:
  assumes "0 \<le> Unix made" "0 \<le> Unix now"
  shows "(validWindow now (TimeWindow made) \<longrightarrow> \<bar>Unix now - Unix made\<bar> < 60)
    \<and> (\<bar>Unix now - Unix made\<bar> \<le> 30 \<longrightarrow> validWindow now (TimeWindow made))"
proof -
  have "TimeWindow made = Unix made div 30" "TimeWindow now = Unix now div 30"
    using assms by (simp_all add: TimeWindow_div)
  moreover obtain q r q' r' where "Unix made div 30 = q" "Unix now div 30 = q'"
      "Unix made = 30 * q + r" "0 \<le> r" "r < 30" "Unix now = 30 * q' + r'" "0 \<le> r'" "r' < 30"
    by (metis mult_div_mod_eq pos_mod_bound pos_mod_sign zero_less_numeral)
  ultimately show ?thesis
    unfolding validWindow_iff by simp arith
qed

theorem validWindow_time_bound_witness:
  "validWindow (time_Unix 1000) (TimeWindow (time_Unix 990))"
  using validWindow_time_bound [of "time_Unix 990" "time_Unix 1000"] by simp

section \<open>Honest proofs are accepted\<close>

text \<open>
  The documented laws of the libraries for an Ed25519 key: the public key of a
  key pair is readable and well formed, a signature made with the key is
  non-empty and verifies under its public key; SHA-256 has a non-empty value.
\<close>

definition ed25519_law :: "cryptography \<Rightarrow> private_key \<Rightarrow> bool" where
  "ed25519_law cr key \<longleftrightarrow>
     (\<exists>pub. pk_public key = Some pub \<and> pub \<noteq> [] \<and> cr_ed25519_key cr pub
       \<and> (\<forall>m. \<exists>s. pk_sign key m = Some s \<and> s \<noteq> [] \<and> cr_ed25519_verify cr pub m s = Some True))"

lemma localProof_software:
  assumes node: "localNodeKey cr unmarshal cfg = Inr (key, pub, signer)" and law: "ed25519_law cr key"
    and sha: "\<And>b. cr_sha256 cr b \<noteq> []"
  shows "\<exists>p. localProof cr unmarshal cfg None role signer verifier ivt iprf tok mode w = Inr p
    \<and> ip_TimeWindow p = w \<and> ip_Backend p = BackendSoftware \<and> ip_PublicKey p = pub \<and> ip_NodePublicKey p = pub
    \<and> EqualFold (PublicKeyThumbprint cr pub) (ip_MachineID p) \<and> ip_NodeSignature p \<noteq> []
    \<and> cr_ed25519_verify cr pub (identityProofMessage role signer verifier ivt iprf tok mode w) (ip_Signature p) = Some True
    \<and> cr_ed25519_verify cr pub
        (identityBindingMessage (identityProofMessage role signer verifier ivt iprf tok mode w) p) (ip_NodeSignature p) = Some True"
proof -
  obtain priv where k: "PrivateKeyBytes cfg = Inr priv" "unmarshal priv = Some key" "pk_public key = Some pub"
      "cr_peer_id cr pub = Some signer"
    using node by (auto simp: localNodeKey_def split: sum.splits option.splits)
  have ne: "pub \<noteq> []" and sg: "\<exists>s. pk_sign key m = Some s \<and> s \<noteq> [] \<and> cr_ed25519_verify cr pub m s = Some True" for m
    using law k(3) by (auto simp: ed25519_law_def)
  let ?id = "\<lparr>id_PrivKey = Some key, id_Signer = None, id_Backend = BackendSoftware, id_Attestation = None\<rparr>"
  have i: "localProofIdentity unmarshal cfg None = Some ?id"
    by (simp add: localProofIdentity_def k Let_def)
  have th: "thumbprint cr pub \<noteq> []"
    using sha [of pub] by (cases "cr_sha256 cr pub") (simp_all add: thumbprint_def hexEncode_def)
  let ?msg = "identityProofMessage role signer verifier ivt iprf tok mode w"
  obtain s where s: "pk_sign key ?msg = Some s" "cr_ed25519_verify cr pub ?msg s = Some True"
    using sg by blast
  let ?p = "\<lparr>ip_Backend = BackendSoftware, ip_MachineID = thumbprint cr pub, ip_PublicKey = pub,
     ip_NodePublicKey = pub, ip_NodeSignature = [], ip_TimeWindow = w, ip_Signature = s\<rparr>"
  obtain n where n: "pk_sign key (identityBindingMessage ?msg ?p) = Some n" "n \<noteq> []"
      "cr_ed25519_verify cr pub (identityBindingMessage ?msg ?p) n = Some True"
    using sg by blast
  have "identityBindingMessage ?msg (?p\<lparr>ip_NodeSignature := n\<rparr>) = identityBindingMessage ?msg ?p"
    by (simp add: identityBindingMessage_def)
  then show ?thesis
    using i node n s ne th k
    by (simp add: localProof_def Let_def MachineID_def PublicKeyRaw_def PublicKeyThumbprint_def SignProof_def BackendSoftware_def)
qed

lemma localProof_accepted:
  assumes "localNodeKey cr unmarshal cfg = Inr (key, pub, signer)" "ed25519_law cr key"
    and "\<forall>b. cr_sha256 cr b \<noteq> []" "validWindow now w"
  shows "\<exists>p. localProof cr unmarshal cfg None role signer verifier ivt iprf tok mode w = Inr p
    \<and> verifyIdentityProof cr now (Some p) None role signer verifier ivt iprf tok mode = None"
proof -
  obtain p where p: "localProof cr unmarshal cfg None role signer verifier ivt iprf tok mode w = Inr p"
      "ip_TimeWindow p = w" "ip_Backend p = BackendSoftware" "ip_PublicKey p = pub" "ip_NodePublicKey p = pub"
      "EqualFold (PublicKeyThumbprint cr pub) (ip_MachineID p)" "ip_NodeSignature p \<noteq> []"
      "cr_ed25519_verify cr pub (identityProofMessage role signer verifier ivt iprf tok mode w) (ip_Signature p) = Some True"
      "cr_ed25519_verify cr pub
        (identityBindingMessage (identityProofMessage role signer verifier ivt iprf tok mode w) p) (ip_NodeSignature p) = Some True"
    using localProof_software [OF assms(1,2)] assms(3) by meson
  have k: "pk_public key = Some pub" "cr_peer_id cr pub = Some signer"
    using assms(1) by (auto simp: localNodeKey_def split: sum.splits option.splits)
  have l: "pub \<noteq> []" "cr_ed25519_key cr pub"
    using assms(2) k by (auto simp: ed25519_law_def)
  have "PublicKeyThumbprint cr pub \<noteq> []"
    using assms(3) l by (cases "cr_sha256 cr pub") (auto simp: PublicKeyThumbprint_def thumbprint_def hexEncode_def)
  then have "VerifySoftwareProof cr (ip_PublicKey p) (ip_MachineID p)
      (identityProofMessage role signer verifier ivt iprf tok mode w) (ip_Signature p) = None"
    using p l by (simp add: VerifySoftwareProof_None_iff)
  moreover have "verifyNodeIdentityBinding cr p signer (identityProofMessage role signer verifier ivt iprf tok mode w) = None"
    using p k l by (simp add: verifyNodeIdentityBinding_None_iff)
  ultimately have "verifyIdentityProof cr now (Some p) None role signer verifier ivt iprf tok mode = None"
    using p(2,3) assms(4) by (simp add: verifyIdentityProof_def Let_def BackendTPM_def BackendSoftware_def)
  with p(1) show ?thesis by blast
qed

text \<open>A trivial key pair and libraries, to evaluate the model on.\<close>

definition toy_crypto :: cryptography where
  "toy_crypto = \<lparr>cr_sha256 = (\<lambda>b. [word_of_nat (length b)]), cr_hmac = (\<lambda>k m. take 32 (k @ m @ replicate 32 0)),
     cr_ParseCertificate = (\<lambda>_. None), cr_VerifyChain = (\<lambda>_ _ _. False), cr_ecdsa_verify = (\<lambda>_ _ _. False),
     cr_ecdsa_pkix = (\<lambda>_. None), cr_ed25519_key = (\<lambda>b. b \<noteq> []),
     cr_ed25519_verify = (\<lambda>k m s. Some (s = k @ m)), cr_peer_id = (\<lambda>b. Some (string_of_bytes b)),
     cr_peer_Decode = (\<lambda>s. s \<noteq> [])\<rparr>"

definition toy_key :: "bytes \<Rightarrow> private_key" where
  "toy_key b = \<lparr>pk_public = Some b, pk_sign = (\<lambda>m. Some (b @ m))\<rparr>"

definition toy_config :: "bytes \<Rightarrow> Config" where
  "toy_config b = (defaultConfig ''host'')\<lparr>cfg_Node := \<lparr>nd_PrivateKey = hexEncode b, nd_Label = ''host''\<rparr>\<rparr>"

lemma toy_localNodeKey:
  "localNodeKey toy_crypto (\<lambda>b. Some (toy_key b)) (toy_config b) = Inr (toy_key b, b, string_of_bytes b)"
  by (simp add: localNodeKey_def toy_config_def toy_key_def toy_crypto_def PrivateKeyBytes_def)

lemma toy_ed25519_law: "b \<noteq> [] \<Longrightarrow> ed25519_law toy_crypto (toy_key b)"
  by (simp add: ed25519_law_def toy_crypto_def toy_key_def)

lemma toy_proof_accepted:
  "\<exists>p. localProof toy_crypto (\<lambda>b. Some (toy_key b)) (toy_config [65]) None ''client'' (string_of_bytes [65]) ''host''
       [1] [2] [] ''pairing'' 7 = Inr p
    \<and> verifyIdentityProof toy_crypto (time_Unix 220) (Some p) None ''client'' (string_of_bytes [65]) ''host''
       [1] [2] [] ''pairing'' = None"
  by (rule localProof_accepted [OF toy_localNodeKey toy_ed25519_law])
    (simp_all add: toy_crypto_def validWindow_iff TimeWindow_div)

theorem verifyIdentityProof_sound_witness:
  "\<exists>p. verifyIdentityProof toy_crypto (time_Unix 220) (Some p) None ''client'' (string_of_bytes [65]) ''host''
       [1] [2] [] ''pairing'' = None \<and> \<bar>ip_TimeWindow p - TimeWindow (time_Unix 220)\<bar> \<le> 1"
proof -
  obtain p where v: "verifyIdentityProof toy_crypto (time_Unix 220) (Some p) None ''client'' (string_of_bytes [65]) ''host''
       [1] [2] [] ''pairing'' = None"
    using toy_proof_accepted by blast
  show ?thesis using verifyIdentityProof_sound [OF v] v by blast
qed

text \<open>
  the proof an honest machine makes with its software identity is accepted by
  a verifier of the same handshake within the time windows.
\<close>

theorem localProof_verifies:
  assumes "localNodeKey cr unmarshal cfg = Inr (key, pub, signer)" "ed25519_law cr key"
    and "\<forall>b. cr_sha256 cr b \<noteq> []" "validWindow now w"
  shows "\<exists>p. localProof cr unmarshal cfg None role signer verifier ivt iprf tok mode w = Inr p
    \<and> verifyIdentityProof cr now (Some p) None role signer verifier ivt iprf tok mode = None"
  using assms by (rule localProof_accepted)

theorem localProof_verifies_witness:
  "\<exists>p. localProof toy_crypto (\<lambda>b. Some (toy_key b)) (toy_config [65]) None ''client'' (string_of_bytes [65]) ''host''
       [1] [2] [] ''pairing'' 7 = Inr p
    \<and> verifyIdentityProof toy_crypto (time_Unix 220) (Some p) None ''client'' (string_of_bytes [65]) ''host''
       [1] [2] [] ''pairing'' = None"
proof (rule localProof_verifies)
  show "localNodeKey toy_crypto (\<lambda>b. Some (toy_key b)) (toy_config [65]) = Inr (toy_key [65], [65], string_of_bytes [65])"
    by (rule toy_localNodeKey)
  show "ed25519_law toy_crypto (toy_key [65])" by (rule toy_ed25519_law) simp
  show "\<forall>b. cr_sha256 toy_crypto b \<noteq> []" by (simp add: toy_crypto_def)
  show "validWindow (time_Unix 220) 7" by (simp add: validWindow_iff TimeWindow_div)
qed

section \<open>Stored identities\<close>

text \<open>
  a machine whose identifier was stored is recognised only by a proof carrying
  that identifier, and its stored software key only by a proof carrying no other
  key; without any stored identity every proof is refused.
\<close>

theorem verifyStoredIdentity_sound:
  assumes "verifyStoredIdentity storedPub storedMachine prf = None"
  shows "\<exists>p. prf = Some p \<and> (TrimSpace storedMachine \<noteq> [] \<or> TrimSpace storedPub \<noteq> [])
    \<and> (TrimSpace storedMachine \<noteq> [] \<longrightarrow> EqualFold (TrimSpace storedMachine) (ip_MachineID p))
    \<and> (TrimSpace storedPub \<noteq> [] \<longrightarrow> ip_PublicKey p = [] \<or> EqualFold (TrimSpace storedPub) (hexEncode (ip_PublicKey p)))"
  using assms by (auto simp: verifyStoredIdentity_def Let_def split: option.splits if_splits)

theorem verifyStoredIdentity_sound_witness:
  "\<exists>p. EqualFold ''AB'' (ip_MachineID p) \<and> verifyStoredIdentity [] ''AB'' (Some p) = None"
proof -
  define p where "p = \<lparr>ip_Backend = BackendTPM, ip_MachineID = ''ab'', ip_PublicKey = [], ip_NodePublicKey = [1],
    ip_NodeSignature = [2], ip_TimeWindow = 0, ip_Signature = [3]\<rparr>"
  have t: "TrimSpace ''AB'' = ''AB''"
    by (simp add: TrimSpace_def TrimFunc_def TrimLeftFunc_def TrimRightFunc_def is_space_def char_code_def)
  have v: "verifyStoredIdentity [] ''AB'' (Some p) = None"
    by (simp add: verifyStoredIdentity_def t p_def EqualFold_def ToLower_def lower_char_def char_code_def char_of_def bit_simps)
  show ?thesis using verifyStoredIdentity_sound [OF v] v t by auto
qed

end
