(* ===== verification/Go_Url.thy ===== *)
theory Go_Url
  imports Go_Prelude "HOL-Library.Char_ord" "HOL-Library.List_Lexorder"
begin

text \<open>
  The part of Go's \<open>net/url\<close> that the invite links use: parsing a URL, reading and
  setting its query values, and printing it again. User, host, path and fragment
  are kept in the escaped form they were read in, which is the form \<open>String\<close> prints
  for the links the program builds.
\<close>

section \<open>Escaping\<close>

definition is_alnum :: "char \<Rightarrow> bool" where
  "is_alnum c \<longleftrightarrow> is_digit c \<or> (65 \<le> char_code c \<and> char_code c \<le> 90) \<or> (97 \<le> char_code c \<and> char_code c \<le> 122)"

definition is_unreserved :: "char \<Rightarrow> bool" where
  "is_unreserved c \<longleftrightarrow> is_alnum c \<or> c \<in> {CHR ''-'', CHR ''_'', CHR ''.'', CHR ''~''}"

definition upperhex :: string where "upperhex = ''0123456789ABCDEF''"

definition escape_char :: "char \<Rightarrow> string" where
  "escape_char c =
     (if is_unreserved c then [c]
      else if c = CHR '' '' then ''+''
      else [CHR ''%'', upperhex ! (char_code c div 16), upperhex ! (char_code c mod 16)])"

definition QueryEscape :: "string \<Rightarrow> string" where
  "QueryEscape s = concat (map escape_char s)"

fun QueryUnescape :: "string \<Rightarrow> string option" where
  "QueryUnescape [] = Some []"
| "QueryUnescape (c # s) =
     (if c = CHR ''%'' then
        (case s of
           a # b # r \<Rightarrow>
             (case (fromHexChar a, fromHexChar b) of
                (Some x, Some y) \<Rightarrow> map_option (\<lambda>t. char_of (x * 16 + y) # t) (QueryUnescape r)
              | _ \<Rightarrow> None)
         | _ \<Rightarrow> None)
      else map_option (\<lambda>t. (if c = CHR ''+'' then CHR '' '' else c) # t) (QueryUnescape s))"

text \<open>Percent signs must introduce two hexadecimal digits, in every part of a URL.\<close>

fun escapes_ok :: "string \<Rightarrow> bool" where
  "escapes_ok [] = True"
| "escapes_ok (c # s) =
     (if c = CHR ''%'' then
        (case s of a # b # r \<Rightarrow> fromHexChar a \<noteq> None \<and> fromHexChar b \<noteq> None \<and> escapes_ok r | _ \<Rightarrow> False)
      else escapes_ok s)"

section \<open>Query values\<close>

type_synonym url_values = "(string, string list) gomap"

definition Values_Get :: "url_values \<Rightarrow> string \<Rightarrow> string" where
  "Values_Get m k = (case map_get m k of Some (v # _) \<Rightarrow> v | _ \<Rightarrow> [])"

definition Values_All :: "url_values \<Rightarrow> string \<Rightarrow> string list" where
  "Values_All m k = (case map_get m k of Some vs \<Rightarrow> vs | None \<Rightarrow> [])"

definition Values_Set :: "string \<Rightarrow> string \<Rightarrow> url_values \<Rightarrow> url_values" where
  "Values_Set k v m = map_set k [v] m"

definition Values_Add :: "string \<Rightarrow> string \<Rightarrow> url_values \<Rightarrow> url_values" where
  "Values_Add k v m = map_set k (Values_All m k @ [v]) m"

primrec join_amp :: "string list \<Rightarrow> string" where
  "join_amp [] = []"
| "join_amp (s # ss) = (if ss = [] then s else s @ CHR ''&'' # join_amp ss)"

definition encode_pair :: "string \<times> string \<Rightarrow> string" where
  "encode_pair kv = QueryEscape (fst kv) @ CHR ''='' # QueryEscape (snd kv)"

definition value_pairs :: "url_values \<Rightarrow> (string \<times> string) list" where
  "value_pairs m = concat (map (\<lambda>(k, vs). map (Pair k) vs) m)"

definition Values_Encode :: "url_values \<Rightarrow> string" where
  "Values_Encode m = join_amp (map encode_pair (value_pairs (sort_key fst m)))"

definition add_segment :: "url_values \<Rightarrow> string \<Rightarrow> url_values" where
  "add_segment m seg =
     (if CHR '';'' \<in> set seg \<or> seg = [] then m
      else case Cut seg ''='' of (k, v, _) \<Rightarrow>
        (case (QueryUnescape k, QueryUnescape v) of
           (Some k', Some v') \<Rightarrow> Values_Add k' v' m
         | _ \<Rightarrow> m))"

function parse_query :: "url_values \<Rightarrow> string \<Rightarrow> url_values" where
  "parse_query m q =
     (if q = [] then m
      else let seg = takeWhile (\<lambda>c. c \<noteq> CHR ''&'') q
           in parse_query (add_segment m seg) (drop (Suc (length seg)) q))"
  by pat_completeness auto
termination
  by (relation "measure (\<lambda>(_, q). length q)") (auto simp: Let_def)

declare parse_query.simps [simp del]

definition ParseQuery :: "string \<Rightarrow> url_values" where
  "ParseQuery q = parse_query [] q"

section \<open>URLs\<close>

record URL =
  u_Scheme :: string
  u_Opaque :: string
  u_Authority :: "string option"
  u_Path :: string
  u_RawQuery :: string
  u_ForceQuery :: bool
  u_Fragment :: string

text \<open>\<open>getScheme\<close>: \<open>None\<close> is the error of a leading colon.\<close>

fun get_scheme :: "nat \<Rightarrow> string \<Rightarrow> string \<Rightarrow> (string \<times> string) option" where
  "get_scheme i raw [] = Some ([], raw)"
| "get_scheme i raw (c # cs) =
     (if is_alnum c \<and> \<not> is_digit c then get_scheme (Suc i) raw cs
      else if is_digit c \<or> c \<in> {CHR ''+'', CHR ''-'', CHR ''.''} then
        (if i = 0 then Some ([], raw) else get_scheme (Suc i) raw cs)
      else if c = CHR '':'' then (if i = 0 then None else Some (take i raw, cs))
      else Some ([], raw))"

definition host_char_ok :: "char \<Rightarrow> bool" where
  "host_char_ok c \<longleftrightarrow> char_code c \<ge> 128 \<or> is_unreserved c \<or> c = CHR ''%''
     \<or> c \<in> set ''!$&()*+,;=:[]<>'' \<or> char_code c = 39 \<or> char_code c = 34"

definition validOptionalPort :: "string \<Rightarrow> bool" where
  "validOptionalPort p \<longleftrightarrow> p = [] \<or> (hd p = CHR '':'' \<and> list_all is_digit (tl p))"

definition parse_host_ok :: "string \<Rightarrow> bool" where
  "parse_host_ok host =
     (let port_ok =
        (if HasPrefix host ''['' then
           (case LastIndexByte host (CHR '']'') of
              None \<Rightarrow> False
            | Some i \<Rightarrow> validOptionalPort (drop (Suc i) host))
         else case LastIndexByte host (CHR '':'') of
              None \<Rightarrow> True
            | Some i \<Rightarrow> validOptionalPort (drop i host))
      in port_ok \<and> escapes_ok host \<and> list_all host_char_ok host)"

definition user_char_ok :: "char \<Rightarrow> bool" where
  "user_char_ok c \<longleftrightarrow> is_unreserved c \<or> c \<in> set '':!$&()*+,;=%@'' \<or> char_code c = 39"

definition parse_authority_ok :: "string \<Rightarrow> bool" where
  "parse_authority_ok auth =
     (case LastIndexByte auth (CHR ''@'') of
        None \<Rightarrow> parse_host_ok auth
      | Some i \<Rightarrow> parse_host_ok (drop (Suc i) auth) \<and> list_all user_char_ok (take i auth) \<and> escapes_ok (take i auth))"

definition is_ctl :: "char \<Rightarrow> bool" where
  "is_ctl c \<longleftrightarrow> char_code c < 32 \<or> char_code c = 127"

definition parse_rest :: "string \<Rightarrow> string \<Rightarrow> string \<Rightarrow> bool \<Rightarrow> string \<Rightarrow> URL option" where
  "parse_rest scheme rest rawq force frag =
     (let mk = (\<lambda>opaque auth path. \<lparr>u_Scheme = scheme, u_Opaque = opaque, u_Authority = auth, u_Path = path,
                  u_RawQuery = rawq, u_ForceQuery = force, u_Fragment = frag\<rparr>)
      in if \<not> HasPrefix rest ''/'' \<and> scheme \<noteq> [] then Some (mk rest None [])
         else if \<not> HasPrefix rest ''/'' \<and> CHR '':'' \<in> set (takeWhile (\<lambda>c. c \<noteq> CHR ''/'') rest) then None
         else if HasPrefix rest ''//'' \<and> (scheme \<noteq> [] \<or> \<not> HasPrefix rest ''///'') then
           let auth = takeWhile (\<lambda>c. c \<noteq> CHR ''/'') (drop 2 rest);
               path = drop (length auth) (drop 2 rest)
           in if parse_authority_ok auth \<and> escapes_ok path then Some (mk [] (Some auth) path) else None
         else if escapes_ok rest then Some (mk [] None rest) else None)"

definition url_Parse :: "string \<Rightarrow> URL option" where
  "url_Parse raw =
     (let u = takeWhile (\<lambda>c. c \<noteq> CHR ''#'') raw; frag = drop (Suc (length u)) raw in
      if list_ex is_ctl u \<or> \<not> escapes_ok frag then None
      else case get_scheme 0 u u of
        None \<Rightarrow> None
      | Some (scheme, rest) \<Rightarrow>
          (case Cut rest ''?'' of (before, q, found) \<Rightarrow>
             parse_rest (ToLower scheme) before q (found \<and> q = []) frag))"

definition url_Query :: "URL \<Rightarrow> url_values" where
  "url_Query u = ParseQuery (u_RawQuery u)"

definition url_String :: "URL \<Rightarrow> string" where
  "url_String u =
     (if u_Scheme u \<noteq> [] then u_Scheme u @ '':'' else [])
     @ (if u_Opaque u \<noteq> [] then u_Opaque u
        else (case u_Authority u of Some a \<Rightarrow> ''//'' @ a | None \<Rightarrow> []) @ u_Path u)
     @ (if u_ForceQuery u \<or> u_RawQuery u \<noteq> [] then CHR ''?'' # u_RawQuery u else [])
     @ (if u_Fragment u \<noteq> [] then CHR ''#'' # u_Fragment u else [])"

section \<open>Round trips\<close>

lemma fromHexChar_upperhex: "i < 16 \<Longrightarrow> fromHexChar (upperhex ! i) = Some i"
proof -
  have "list_all (\<lambda>i. fromHexChar (upperhex ! i) = Some i) [0..<16]"
    by (simp add: upt_rec fromHexChar_def upperhex_def is_digit_def char_code_def)
  then show "i < 16 \<Longrightarrow> ?thesis" by (simp add: list_all_iff)
qed

lemma is_unreserved_plain:
  "is_unreserved c \<Longrightarrow> c \<noteq> CHR ''%'' \<and> c \<noteq> CHR ''+'' \<and> c \<noteq> CHR ''&'' \<and> c \<noteq> CHR '';'' \<and> c \<noteq> CHR ''=''
     \<and> c \<noteq> CHR ''#'' \<and> c \<noteq> CHR ''?'' \<and> c \<noteq> CHR '' '' \<and> \<not> is_ctl c"
  by (auto simp: is_unreserved_def is_alnum_def is_digit_def char_code_def is_ctl_def)

lemma QueryUnescape_escape_char: "QueryUnescape (escape_char c @ s) = map_option (Cons c) (QueryUnescape s)"
proof -
  have "char_code c div 16 < 16"
    using char_code_less [of c] by (simp add: less_mult_imp_div_less)
  moreover have "char_of (char_code c) = c" by (simp add: char_code_def)
  ultimately show ?thesis
    using is_unreserved_plain [of c]
    by (auto simp: escape_char_def fromHexChar_upperhex option.map_comp comp_def)
qed

lemma QueryUnescape_QueryEscape: "QueryUnescape (QueryEscape s) = Some s"
  by (induction s) (simp_all add: QueryEscape_def QueryUnescape_escape_char)

definition query_safe :: "char \<Rightarrow> bool" where
  "query_safe c \<longleftrightarrow> c \<noteq> CHR ''&'' \<and> c \<noteq> CHR '';'' \<and> c \<noteq> CHR ''='' \<and> c \<noteq> CHR ''#'' \<and> c \<noteq> CHR ''?'' \<and> \<not> is_ctl c"

lemma upperhex_safe: "i < 16 \<Longrightarrow> query_safe (upperhex ! i)"
proof -
  have "list_all (\<lambda>i. query_safe (upperhex ! i)) [0..<16]"
    by (simp add: upt_rec query_safe_def upperhex_def is_ctl_def char_code_def)
  then show "i < 16 \<Longrightarrow> ?thesis" by (simp add: list_all_iff)
qed

lemma QueryEscape_safe: "c \<in> set (QueryEscape s) \<Longrightarrow> query_safe c"
proof (induction s)
  case Nil
  then show ?case by (simp add: QueryEscape_def)
next
  case (Cons a s)
  have "char_code a div 16 < 16"
    using char_code_less [of a] by (simp add: less_mult_imp_div_less)
  then have "c \<in> set (escape_char a) \<Longrightarrow> query_safe c"
    using is_unreserved_plain [of a] upperhex_safe
    by (auto simp: escape_char_def query_safe_def is_ctl_def char_code_def split: if_splits)
  then show ?case using Cons by (auto simp: QueryEscape_def)
qed

lemma encode_pair_safe:
  "c \<in> set (encode_pair kv) \<Longrightarrow> c \<noteq> CHR ''&'' \<and> c \<noteq> CHR '';'' \<and> c \<noteq> CHR ''#'' \<and> c \<noteq> CHR ''?'' \<and> \<not> is_ctl c"
  using QueryEscape_safe by (auto simp: encode_pair_def query_safe_def is_ctl_def char_code_def)

lemma add_segment_encode_pair: "add_segment m (encode_pair (k, v)) = Values_Add k v m"
proof -
  have "CHR '';'' \<notin> set (encode_pair (k, v))" using encode_pair_safe by blast
  moreover have "CHR ''='' \<notin> set (QueryEscape k)" using QueryEscape_safe by (auto simp: query_safe_def)
  ultimately show ?thesis
    by (simp add: add_segment_def encode_pair_def Cut_at QueryUnescape_QueryEscape)
qed

lemma parse_query_join:
  "parse_query m (join_amp (map encode_pair ps)) = foldl (\<lambda>m (k, v). Values_Add k v m) m ps"
proof (induction ps arbitrary: m)
  case Nil
  then show ?case by (simp add: parse_query.simps)
next
  case (Cons p ps)
  have ne: "encode_pair p \<noteq> []" by (simp add: encode_pair_def)
  have amp: "takeWhile (\<lambda>c. c \<noteq> CHR ''&'') (encode_pair p) = encode_pair p"
    using encode_pair_safe by (auto simp: takeWhile_eq_all_conv)
  have add: "add_segment m (encode_pair p) = (case p of (k, v) \<Rightarrow> Values_Add k v m)"
    by (cases p) (simp add: add_segment_encode_pair)
  show ?case
  proof (cases ps)
    case Nil
    then show ?thesis
      using ne add by (simp add: parse_query.simps [of m] amp Let_def parse_query.simps [of _ "[]"])
  next
    case (Cons q qs)
    have "takeWhile (\<lambda>c. c \<noteq> CHR ''&'') (encode_pair p @ CHR ''&'' # r) = encode_pair p" for r
      using amp encode_pair_safe by (simp add: takeWhile_append)
    then show ?thesis
      using Cons.IH add Cons by (simp add: parse_query.simps [of m] Let_def)
  qed
qed

lemma map_set_last: "k \<notin> fst ` set acc \<Longrightarrow> map_set k x (acc @ [(k, w)]) = acc @ [(k, x)]"
  by (induction acc) auto

lemma map_set_new: "k \<notin> fst ` set acc \<Longrightarrow> map_set k x acc = acc @ [(k, x)]"
  by (induction acc) auto

lemma map_get_absent: "k \<notin> fst ` set acc \<Longrightarrow> map_get acc k = None"
  by (simp add: map_of_eq_None_iff)

lemma foldl_add_same:
  "k \<notin> fst ` set acc \<Longrightarrow>
     foldl (\<lambda>m (k, v). Values_Add k v m) (acc @ [(k, ws)]) (map (Pair k) vs) = acc @ [(k, ws @ vs)]"
proof (induction vs arbitrary: ws)
  case Nil
  then show ?case by simp
next
  case (Cons v vs)
  have "Values_Add k v (acc @ [(k, ws)]) = acc @ [(k, ws @ [v])]"
    using Cons.prems by (simp add: Values_Add_def Values_All_def map_add_def map_get_absent map_set_last)
  then show ?case using Cons.IH [OF Cons.prems, of "ws @ [v]"] by simp
qed

definition values_ok :: "url_values \<Rightarrow> bool" where
  "values_ok m \<longleftrightarrow> map_ok m \<and> (\<forall>(k, vs) \<in> set m. vs \<noteq> [])"

lemma foldl_add_pairs:
  "map_ok (acc @ m) \<Longrightarrow> (\<forall>(k, vs) \<in> set m. vs \<noteq> []) \<Longrightarrow>
     foldl (\<lambda>m (k, v). Values_Add k v m) acc (value_pairs m) = acc @ m"
proof (induction m arbitrary: acc)
  case Nil
  then show ?case by (simp add: value_pairs_def)
next
  case (Cons x m)
  obtain k v vs where x: "x = (k, v # vs)"
    using Cons.prems(2) by (cases x, rename_tac k vs, case_tac vs) auto
  have new: "k \<notin> fst ` set acc" using Cons.prems(1) by (auto simp: x map_ok_def)
  have "Values_Add k v acc = acc @ [(k, [v])]"
    using new by (simp add: Values_Add_def Values_All_def map_get_absent map_set_new)
  then have "foldl (\<lambda>m (k, v). Values_Add k v m) acc (value_pairs (x # m)) =
      foldl (\<lambda>m (k, v). Values_Add k v m) (acc @ [(k, v # vs)]) (value_pairs m)"
    using foldl_add_same [OF new, of "[v]" vs] by (simp add: x value_pairs_def)
  also have "\<dots> = acc @ [x] @ m"
    using Cons.IH [of "acc @ [x]"] Cons.prems by (simp add: x)
  finally show ?case by simp
qed

lemma ParseQuery_Values_Encode:
  assumes "values_ok m"
  shows "ParseQuery (Values_Encode m) = sort_key fst m"
    and "map_get (ParseQuery (Values_Encode m)) = map_get m"
    and "values_ok (ParseQuery (Values_Encode m))"
proof -
  let ?s = "sort_key fst m"
  have d: "map_ok ?s"
    using assms by (simp add: values_ok_def map_ok_def distinct_map inj_on_def)
  then show e: "ParseQuery (Values_Encode m) = ?s"
    using assms foldl_add_pairs [of "[]" ?s]
    by (simp add: ParseQuery_def Values_Encode_def parse_query_join values_ok_def)
  show "map_get (ParseQuery (Values_Encode m)) = map_get m"
    using map_of_inject_set [of ?s m] assms d unfolding e by (simp add: values_ok_def map_ok_def)
  show "values_ok (ParseQuery (Values_Encode m))"
    using assms d by (simp add: e values_ok_def)
qed

lemma Values_Encode_safe:
  "c \<in> set (Values_Encode m) \<Longrightarrow> c \<noteq> CHR ''#'' \<and> \<not> is_ctl c"
proof -
  have "c \<in> set (join_amp (map encode_pair ps)) \<Longrightarrow> c \<noteq> CHR ''#'' \<and> \<not> is_ctl c" for ps
    using encode_pair_safe
    by (induction ps) (auto simp: is_ctl_def char_code_def split: if_splits)
  then show "c \<in> set (Values_Encode m) \<Longrightarrow> ?thesis" by (simp add: Values_Encode_def)
qed

lemma Values_Encode_Nil_iff: "values_ok m \<Longrightarrow> Values_Encode m = [] \<longleftrightarrow> m = []"
proof
  assume "values_ok m" "Values_Encode m = []"
  then have "sort_key fst m = []"
    using ParseQuery_Values_Encode(1) [of m] by (simp add: ParseQuery_def parse_query.simps)
  then show "m = []" by (metis set_empty set_sort)
qed (simp add: Values_Encode_def value_pairs_def)

lemma values_ok_Set [simp]: "values_ok m \<Longrightarrow> values_ok (Values_Set k v m)"
  by (auto simp: values_ok_def Values_Set_def map_get_mem go_map_simps split: if_splits)

section \<open>Links: a scheme, an alphanumeric host and a query\<close>

definition link :: "string \<Rightarrow> string \<Rightarrow> string \<Rightarrow> string" where
  "link scheme host q = scheme @ ''://'' @ host @ (if q = [] then [] else CHR ''?'' # q)"


definition link_url :: "string \<Rightarrow> string \<Rightarrow> string \<Rightarrow> URL" where
  "link_url scheme host q = \<lparr>u_Scheme = scheme, u_Opaque = [], u_Authority = Some host, u_Path = [],
     u_RawQuery = q, u_ForceQuery = False, u_Fragment = []\<rparr>"

lemma url_String_link: "scheme \<noteq> [] \<Longrightarrow> url_String (link_url scheme host q) = link scheme host q"
  by (simp add: url_String_def link_url_def link_def)

lemma get_scheme_letters:
  "\<forall>c \<in> set s. is_alnum c \<and> \<not> is_digit c \<Longrightarrow> s \<noteq> [] \<Longrightarrow>
     get_scheme (length pre) (pre @ s @ CHR '':'' # r) (s @ CHR '':'' # r) = Some (pre @ s, r)"
proof (induction s arbitrary: pre)
  case Nil
  then show ?case by simp
next
  case (Cons c s)
  have colon: "\<not> is_alnum (CHR '':'')" "\<not> is_digit (CHR '':'')"
    by (simp_all add: is_alnum_def is_digit_def char_code_def)
  show ?case
  proof (cases "s = []")
    case True
    then show ?thesis using Cons.prems colon by simp
  next
    case False
    then show ?thesis using Cons.IH [of "pre @ [c]"] Cons.prems by simp
  qed
qed

lemma is_alnum_plain: "is_alnum c \<Longrightarrow> c \<notin> {CHR ''%'', CHR ''/'', CHR ''?'', CHR ''#'', CHR '':'', CHR ''@'', CHR ''[''} \<and> \<not> is_ctl c"
  by (auto simp: is_alnum_def is_digit_def is_ctl_def char_code_def)

lemma LastIndexByte_None: "c \<notin> set s \<Longrightarrow> LastIndexByte s c = None"
proof -
  assume "c \<notin> set s"
  then have t: "takeWhile (\<lambda>x. x \<noteq> c) (rev s) = rev s" by (auto simp: takeWhile_eq_all_conv)
  show ?thesis unfolding LastIndexByte_def t by simp
qed

lemma escapes_ok_plain: "CHR ''%'' \<notin> set s \<Longrightarrow> escapes_ok s"
  by (induction s) auto

lemma parse_authority_alnum:
  assumes "\<forall>c \<in> set host. is_alnum c"
  shows "parse_authority_ok host"
proof -
  have "c \<notin> set host" if "c \<in> {CHR ''%'', CHR ''/'', CHR ''?'', CHR ''#'', CHR '':'', CHR ''@'', CHR ''[''}" for c
    using assms is_alnum_plain that by blast
  then have n: "CHR ''%'' \<notin> set host" "CHR '':'' \<notin> set host" "CHR ''@'' \<notin> set host" "CHR ''['' \<notin> set host"
    by auto
  have "\<not> HasPrefix host ''[''"
    using n(4) by (cases host) (auto simp: HasPrefix_def)
  then show ?thesis
    using assms n by (simp add: parse_authority_ok_def parse_host_ok_def LastIndexByte_None escapes_ok_plain
        host_char_ok_def is_unreserved_def list_all_iff)
qed

lemma url_Parse_link:
  assumes scheme: "\<forall>c \<in> set scheme. is_alnum c \<and> \<not> is_digit c" "scheme \<noteq> []" "ToLower scheme = scheme"
    and host: "\<forall>c \<in> set host. is_alnum c"
    and q: "\<forall>c \<in> set q. c \<noteq> CHR ''#'' \<and> \<not> is_ctl c"
  shows "url_Parse (link scheme host q) = Some (link_url scheme host q)"
proof -
  let ?l = "link scheme host q"
  have safe: "c \<noteq> CHR ''#'' \<and> \<not> is_ctl c" if "c \<in> set ?l" for c
    using that scheme(1) host q is_alnum_plain [of c]
    by (auto simp: link_def is_ctl_def char_code_def split: if_splits)
  then have t: "takeWhile (\<lambda>c. c \<noteq> CHR ''#'') ?l = ?l" by (auto simp: takeWhile_eq_all_conv)
  have nc: "\<not> list_ex is_ctl ?l" using safe by (auto simp: list_ex_iff)
  let ?r = "''//'' @ host @ (if q = [] then [] else CHR ''?'' # q)"
  have g: "get_scheme 0 ?l ?l = Some (scheme, ?r)"
    using get_scheme_letters [OF scheme(1,2), of "[]" ?r] by (simp add: link_def)
  have noq: "CHR ''?'' \<notin> set host" "CHR ''/'' \<notin> set host" using host is_alnum_plain by blast+
  have c: "Cut ?r ''?'' = (''//'' @ host, q, q \<noteq> [])"
    using Cut_absent [of "CHR ''?''" "''//'' @ host"] Cut_at [of "CHR ''?''" "''//'' @ host" q] noq by simp
  have h: "takeWhile (\<lambda>c. c \<noteq> CHR ''/'') host = host" using noq by (auto simp: takeWhile_eq_all_conv)
  have "parse_rest scheme (''//'' @ host) q False [] = Some (link_url scheme host q)"
    using scheme(2) parse_authority_alnum [OF host] unfolding parse_rest_def Let_def
    by (simp add: HasPrefix_def h link_url_def)
  moreover have "url_Parse ?l = (case Cut ?r ''?'' of (before, q, found) \<Rightarrow>
      parse_rest scheme before q (found \<and> q = []) [])"
    unfolding url_Parse_def Let_def t using nc g by (simp add: scheme(3))
  ultimately show ?thesis unfolding c by simp
qed
end
