(* ===== verification/Pairing.thy ===== *)
theory Pairing
  imports Identity Go_Url
begin

text \<open>
  The invite half of \<open>internal/pairing/pairing.go\<close>: the manager's invites with their
  two indexes, the generation of invite links, listing, renaming, revocation, the
  background sweep, and the verification that redeems an invite.

  The two Go maps hold pointers to the same invite objects, so the model keeps
  the objects in a list, the heap, and the maps hold addresses into it: an update
  through one map is seen through the other. Each definition is one critical
  section of the manager's mutex; the clock is read once per section.
\<close>

section \<open>Invites\<close>

definition maxStoredInvites :: nat where "maxStoredInvites = 500"
definition inviteFormatVersion :: int where "inviteFormatVersion = 1"

record invite =
  inv_ID :: string
  inv_InviteID :: bytes
  inv_Secret :: bytes
  inv_Mode :: string
  inv_Protocol :: string
  inv_TargetPort :: "16 word"
  inv_Label :: string
  inv_URL :: string
  inv_CreatedAt :: instant
  inv_ExpiresAt :: instant
  inv_Revoked :: bool
  inv_Used :: bool
  inv_UsedBy :: string
  inv_UsedByID :: string
  inv_UsedAt :: instant

definition far_future :: duration where "far_future = 99 * 365 * 24 * hour"

definition invite_active :: "instant \<Rightarrow> invite \<Rightarrow> bool" where
  "invite_active now i =
     (if inv_Revoked i \<or> (inv_Mode i = ''onetime'' \<and> inv_Used i) then False
      else if After (inv_ExpiresAt i) (now + far_future) then True
      else IsZero (inv_ExpiresAt i) \<or> Before now (inv_ExpiresAt i))"

definition invite_Status :: "instant \<Rightarrow> invite \<Rightarrow> string" where
  "invite_Status now i =
     (if inv_Revoked i then ''revoked''
      else if inv_Used i then ''used''
      else if \<not> IsZero (inv_ExpiresAt i) \<and> After now (inv_ExpiresAt i) then ''expired''
      else ''pending'')"

definition effectiveTargetPort :: "invite option \<Rightarrow> int" where
  "effectiveTargetPort io =
     (case io of
        None \<Rightarrow> DefaultPort ProtoRDP
      | Some i \<Rightarrow> if inv_TargetPort i \<noteq> 0 then uint (inv_TargetPort i) else DefaultPort (ParseProtocol (inv_Protocol i)))"

record InviteView =
  iv_ID :: string
  iv_Mode :: string
  iv_Protocol :: string
  iv_Label :: string
  iv_Status :: string
  iv_CreatedAt :: instant
  iv_ExpiresAt :: instant
  iv_UsedBy :: string
  iv_UsedByID :: string
  iv_UsedAt :: instant

definition invite_view :: "instant \<Rightarrow> invite \<Rightarrow> InviteView" where
  "invite_view now i =
     \<lparr>iv_ID = inv_ID i, iv_Mode = inv_Mode i, iv_Protocol = inv_Protocol i, iv_Label = inv_Label i,
      iv_Status = invite_Status now i, iv_CreatedAt = inv_CreatedAt i, iv_ExpiresAt = inv_ExpiresAt i,
      iv_UsedBy = inv_UsedBy i, iv_UsedByID = inv_UsedByID i, iv_UsedAt = inv_UsedAt i\<rparr>"

definition inviteKey :: "bytes \<Rightarrow> string" where
  "inviteKey i = hexEncode i"

definition newID :: "bytes \<Rightarrow> string" where
  "newID random = hexEncode random"

definition defaultLabel :: "string \<Rightarrow> string \<Rightarrow> string" where
  "defaultLabel mode proto =
     (let p = ToUpper proto; p = (if p = [] then ''RDP'' else p) in
      if mode = ''pairing'' then p @ '' Pairing invite'' else p @ '' one-time access'')"

section \<open>Invite links\<close>

definition withQuery :: "string \<Rightarrow> (url_values \<Rightarrow> url_values) \<Rightarrow> string" where
  "withQuery rawURL upd =
     (case url_Parse rawURL of
        None \<Rightarrow> rawURL
      | Some u \<Rightarrow> url_String (u\<lparr>u_RawQuery := Values_Encode (upd (url_Query u))\<rparr>))"

definition withIrohEndpointTicket :: "string \<Rightarrow> string \<Rightarrow> string" where
  "withIrohEndpointTicket rawURL ticket = withQuery rawURL (Values_Set ''iroh_ticket'' ticket)"

definition withInviteVersion :: "string \<Rightarrow> string" where
  "withInviteVersion rawURL = withQuery rawURL (Values_Set ''v'' (Itoa inviteFormatVersion))"

definition withInviteBackend :: "string \<Rightarrow> string \<Rightarrow> string" where
  "withInviteBackend rawURL backend =
     (let backend = TrimSpace backend in
      if backend = [] then rawURL else withQuery rawURL (Values_Set ''backend'' backend))"

definition withInviteAddrs :: "string \<Rightarrow> string \<Rightarrow> string list \<Rightarrow> string" where
  "withInviteAddrs rawURL peerID addrs =
     withQuery rawURL (\<lambda>q. foldl (\<lambda>q addr. Values_Add ''addr'' addr q)
        (if peerID \<noteq> [] then Values_Set ''peer'' peerID q else q) addrs)"

definition query_get :: "string \<Rightarrow> string \<Rightarrow> string" where
  "query_get rawURL k = (case url_Parse rawURL of None \<Rightarrow> [] | Some u \<Rightarrow> Values_Get (url_Query u) k)"

definition irohEndpointTicketFromURL :: "string \<Rightarrow> string" where
  "irohEndpointTicketFromURL rawURL = query_get rawURL ''iroh_ticket''"

definition inviteBackendFromURL :: "string \<Rightarrow> string" where
  "inviteBackendFromURL rawURL =
     (let b = TrimSpace (query_get rawURL ''backend'') in
      if b \<in> {''libp2p_relay'', ''libp2p_dht'', ''bittorrent_dht'', ''iroh''} then b else [])"

definition InviteNetworkBackend :: "string \<Rightarrow> string" where
  "InviteNetworkBackend rawURL =
     (let backend = inviteBackendFromURL rawURL in
      if backend \<noteq> [] then backend
      else if irohEndpointTicketFromURL rawURL \<noteq> [] then ''iroh'' else [])"

definition inviteAddrsFromURL :: "string \<Rightarrow> string list" where
  "inviteAddrsFromURL rawURL =
     (case url_Parse rawURL of None \<Rightarrow> [] | Some u \<Rightarrow> Values_All (url_Query u) ''addr'')"

definition invitePeerFromURL :: "string \<Rightarrow> string" where
  "invitePeerFromURL rawURL = query_get rawURL ''peer''"

definition InvitePeerID :: "cryptography \<Rightarrow> string \<Rightarrow> string" where
  "InvitePeerID cr rawURL =
     (case DecodeURL rawURL of
        Inl _ \<Rightarrow> []
      | Inr t \<Rightarrow>
          (case pubKeyToPeerID cr (tok_PubKey t) of
             None \<Rightarrow> []
           | Some peerID \<Rightarrow>
               if inviteAddrsFromURL rawURL \<noteq> [] \<and> invitePeerFromURL rawURL \<noteq> []
               then invitePeerFromURL rawURL else peerID))"

datatype version_error = InvalidLink | InvalidInviteVersion | InviteVersionTooNew int

definition validateInviteFormatVersion :: "string \<Rightarrow> version_error option" where
  "validateInviteFormatVersion rawURL =
     (case url_Parse rawURL of
        None \<Rightarrow> Some InvalidLink
      | Some u \<Rightarrow>
          let raw = TrimSpace (Values_Get (url_Query u) ''v'') in
          if raw = [] then None
          else case Atoi raw of
            None \<Rightarrow> Some InvalidInviteVersion
          | Some version \<Rightarrow>
              if version \<le> 0 then Some InvalidInviteVersion
              else if version > inviteFormatVersion then Some (InviteVersionTooNew version)
              else None)"

definition inviteStoredBackend :: "invite option \<Rightarrow> string" where
  "inviteStoredBackend io =
     (case io of None \<Rightarrow> [] | Some i \<Rightarrow> if inv_URL i = [] then [] else InviteNetworkBackend (inv_URL i))"

section \<open>The manager\<close>

record Manager =
  m_heap :: "invite list"
  m_invites :: "(string, nat) gomap"
  m_byInviteID :: "(string, nat) gomap"
  m_sessions :: SessionStore
  m_cfg :: Config
  m_nodeID :: string
  m_identity :: "Identity option"

definition Manager_New :: "string \<Rightarrow> Config \<Rightarrow> Manager" where
  "Manager_New nodeID cfg =
     \<lparr>m_heap = [], m_invites = [], m_byInviteID = [], m_sessions = NewSessionStore, m_cfg = cfg,
      m_nodeID = nodeID, m_identity = None\<rparr>"

definition SetIdentity :: "Identity option \<Rightarrow> Manager \<Rightarrow> Manager" where
  "SetIdentity i m = m\<lparr>m_identity := i\<rparr>"

definition at :: "Manager \<Rightarrow> nat \<Rightarrow> invite" where
  "at m a = m_heap m ! a"

definition configuredTargetPort :: "Config \<Rightarrow> int" where
  "configuredTargetPort c =
     (let target = TrimSpace (rdp_TargetAddr (cfg_RDP c));
          dflt = DefaultPort (ParseProtocol (rdp_Protocol (cfg_RDP c)))
      in if target = [] then dflt
         else case LastIndexByte target (CHR '':'') of
           None \<Rightarrow> dflt
         | Some idx \<Rightarrow>
             if idx < length target - 1 then
               (case Atoi (drop (Suc idx) target) of
                  Some port \<Rightarrow> if port > 0 \<and> port \<le> 65535 then port else dflt
                | None \<Rightarrow> dflt)
             else dflt)"

definition configuredProtocol :: "Config \<Rightarrow> string" where
  "configuredProtocol c = Protocol_String (ParseProtocol (rdp_Protocol (cfg_RDP c)))"

definition activeNetworkBackend :: "Manager \<Rightarrow> string" where
  "activeNetworkBackend m = ActiveNetworkBackend (Some (m_cfg m))"

text \<open>Saving the configuration: the directory, the codec and the file are arguments.\<close>

record config_store =
  cs_mkdir :: bool
  cs_marshal :: "Config \<Rightarrow> bytes option"
  cs_write :: "bytes \<Rightarrow> bool"

definition save_config :: "config_store \<Rightarrow> Config \<Rightarrow> config_error option \<times> Config" where
  "save_config st c = Save (cs_mkdir st) (cs_marshal st) (cs_write st) c"

subsection \<open>Finding and deleting invites\<close>

definition findActiveInvite ::
  "instant \<Rightarrow> string \<Rightarrow> string \<Rightarrow> 16 word \<Rightarrow> Manager \<Rightarrow> (string \<times> InviteView) option" where
  "findActiveInvite now mode proto targetPort m =
     (case List.find (\<lambda>(k, a). let i = at m a in inv_Mode i = mode \<and> inv_Protocol i = proto
            \<and> inv_TargetPort i = targetPort \<and> inv_URL i \<noteq> [] \<and> invite_active now i) (m_invites m) of
        None \<Rightarrow> None
      | Some (k, a) \<Rightarrow> Some (inv_URL (at m a), (invite_view now (at m a))\<lparr>iv_ExpiresAt := 0\<rparr>))"

definition findActivePairingInvite :: "instant \<Rightarrow> string \<Rightarrow> Manager \<Rightarrow> (string \<times> InviteView) option" where
  "findActivePairingInvite now backend m =
     (case List.find (\<lambda>(k, a). let i = at m a in inv_Mode i = ''pairing'' \<and> inv_URL i \<noteq> []
            \<and> invite_active now i \<and> inviteStoredBackend (Some i) = backend) (m_invites m) of
        None \<Rightarrow> None
      | Some (k, a) \<Rightarrow>
          let i = at m a; view = invite_view now i in
          Some (inv_URL i, if After (inv_ExpiresAt i) (now + far_future) then view\<lparr>iv_ExpiresAt := 0\<rparr> else view))"

definition pending_other_backend :: "instant \<Rightarrow> string \<Rightarrow> invite \<Rightarrow> bool" where
  "pending_other_backend now backend i \<longleftrightarrow>
     \<not> (inv_Mode i \<noteq> ''pairing'' \<or> inv_Used i \<or> inv_Revoked i \<or> \<not> invite_active now i)
     \<and> inviteStoredBackend (Some i) \<noteq> backend"

definition delete_invite :: "string \<Rightarrow> nat \<Rightarrow> Manager \<Rightarrow> Manager" where
  "delete_invite k a m =
     m\<lparr>m_byInviteID := map_del (inviteKey (inv_InviteID (at m a))) (m_byInviteID m),
       m_invites := map_del k (m_invites m)\<rparr>"

definition DeletePendingPairingInvitesExceptBackend :: "instant \<Rightarrow> string \<Rightarrow> Manager \<Rightarrow> nat \<times> Manager" where
  "DeletePendingPairingInvitesExceptBackend now backend m =
     foldl (\<lambda>(n, m') (k, a). if pending_other_backend now backend (at m' a)
                then (Suc n, delete_invite k a m') else (n, m')) (0, m) (m_invites m)"

subsection \<open>Generating links\<close>

datatype generate_error = LoadKey | ShortKeyPanic | NotConnectedToRelay | RandomError | IrohNotRunning | IrohNoTickets | CreateIrohTicket

datatype iroh_ticket = IrohBackendMissing | IrohBackendWithoutTickets | IrohTicketError | IrohTicketIssued string

record generate_env =
  ge_inviteID :: "bytes option"
  ge_secret :: "bytes option"
  ge_displayID :: bytes
  ge_relayMask :: byte
  ge_ticket :: iroh_ticket

text \<open>
  The public half of an Ed25519 private key of 64 bytes, padded as Go's \<open>copy\<close>
  leaves it; a key shorter than 32 bytes panics in \<open>priv[32:]\<close>.
\<close>

definition ed25519_public :: "bytes \<Rightarrow> bytes" where
  "ed25519_public priv = take 32 (drop 32 priv @ replicate 32 0)"

definition invite_relay_mask :: "string \<Rightarrow> string list option \<Rightarrow> byte \<Rightarrow> generate_error + byte" where
  "invite_relay_mask activeBackend relayAddrs nodeMask =
     (case relayAddrs of
        Some _ \<Rightarrow> Inr 0xFF
      | None \<Rightarrow>
          if activeBackend = ''libp2p_relay''
          then (if nodeMask = 0 then Inl NotConnectedToRelay else Inr nodeMask)
          else Inr 0)"

definition invite_token :: "bytes \<Rightarrow> byte \<Rightarrow> bytes \<Rightarrow> bytes \<Rightarrow> instant \<Rightarrow> string \<Rightarrow> string \<Rightarrow> int \<Rightarrow> Token" where
  "invite_token priv relayMask inviteID secret expiresAt mode proto targetPort =
     \<lparr>tok_PubKey = ed25519_public priv, tok_RelayMask = relayMask, tok_InviteID = inviteID,
      tok_InviteSecret = secret, tok_ExpiresAt = expiresAt,
      tok_Mode = (if mode = ''pairing'' then 1 else 0), tok_Protocol = ParseProtocol proto,
      tok_TargetPort = word_of_int targetPort\<rparr>"

definition invite_link ::
  "Token \<Rightarrow> string list option \<Rightarrow> string \<Rightarrow> string \<Rightarrow> iroh_ticket \<Rightarrow> generate_error + string" where
  "invite_link t relayAddrs activeBackend nodeID ticket =
     (let encodedURL = withInviteVersion (Encode t) in
      case relayAddrs of
        Some addrs \<Rightarrow> Inr (withInviteAddrs encodedURL nodeID addrs)
      | None \<Rightarrow>
          let encodedURL = withInviteBackend encodedURL activeBackend in
          if activeBackend = ''iroh'' then
            (case ticket of
               IrohBackendMissing \<Rightarrow> Inl IrohNotRunning
             | IrohBackendWithoutTickets \<Rightarrow> Inl IrohNoTickets
             | IrohTicketError \<Rightarrow> Inl CreateIrohTicket
             | IrohTicketIssued tk \<Rightarrow> Inr (withIrohEndpointTicket encodedURL tk))
          else Inr encodedURL)"

definition create_invite ::
  "generate_env \<Rightarrow> instant \<Rightarrow> string \<Rightarrow> duration \<Rightarrow> string \<Rightarrow> string \<Rightarrow> int \<Rightarrow> string list option \<Rightarrow> string \<Rightarrow> Manager \<Rightarrow>
   (generate_error + string \<times> InviteView) \<times> Manager" where
  "create_invite env now mode ttl label proto targetPort relayAddrs activeBackend m =
     (case PrivateKeyBytes (m_cfg m) of
        Inl _ \<Rightarrow> (Inl LoadKey, m)
      | Inr priv \<Rightarrow>
          (case invite_relay_mask activeBackend relayAddrs (ge_relayMask env) of
             Inl e \<Rightarrow> (Inl e, m)
           | Inr relayMask \<Rightarrow>
               (case (ge_inviteID env, ge_secret env) of
                  (Some inviteID, Some secret) \<Rightarrow>
                    if length priv < 32 then (Inl ShortKeyPanic, m)
                    else
                    let expiresAt = (if ttl > 0 then now + ttl else now + 100 * 365 * 24 * hour);
                        t = invite_token priv relayMask inviteID secret expiresAt mode proto targetPort;
                        displayID = newID (ge_displayID env);
                        label' = (if label = [] then defaultLabel mode proto else label);
                        proto' = (if proto = [] then ''rdp'' else proto)
                    in (case invite_link t relayAddrs activeBackend (m_nodeID m) (ge_ticket env) of
                          Inl e \<Rightarrow> (Inl e, m)
                        | Inr encodedURL \<Rightarrow>
                            let i = \<lparr>inv_ID = displayID, inv_InviteID = inviteID, inv_Secret = secret, inv_Mode = mode,
                                     inv_Protocol = proto', inv_TargetPort = word_of_int targetPort, inv_Label = label',
                                     inv_URL = encodedURL, inv_CreatedAt = now, inv_ExpiresAt = expiresAt,
                                     inv_Revoked = False, inv_Used = False, inv_UsedBy = [], inv_UsedByID = [],
                                     inv_UsedAt = 0\<rparr>;
                                a = length (m_heap m);
                                m' = m\<lparr>m_heap := m_heap m @ [i], m_invites := map_set displayID a (m_invites m),
                                       m_byInviteID := map_set (inviteKey inviteID) a (m_byInviteID m)\<rparr>;
                                view = (invite_view now i)\<lparr>iv_ExpiresAt := (if ttl = 0 then 0 else expiresAt)\<rparr>
                            in (Inr (encodedURL, view), m'))
                | _ \<Rightarrow> (Inl RandomError, m))))"

definition generateURL ::
  "generate_env \<Rightarrow> instant \<Rightarrow> string \<Rightarrow> duration \<Rightarrow> string \<Rightarrow> string \<Rightarrow> int \<Rightarrow> string list option \<Rightarrow> Manager \<Rightarrow>
   (generate_error + string \<times> InviteView) \<times> Manager" where
  "generateURL env now mode ttl label proto targetPort relayAddrs m0 =
     (let m1 = (if relayAddrs = None then m0\<lparr>m_cfg := NormalizeNetworkBackend (m_cfg m0)\<rparr> else m0);
          activeBackend = activeNetworkBackend m1;
          pairing = (mode = ''pairing'' \<and> relayAddrs = None);
          m2 = (if pairing then snd (DeletePendingPairingInvitesExceptBackend now activeBackend m1) else m1);
          reuse = (if pairing then findActivePairingInvite now activeBackend m2
                   else if mode \<noteq> ''pairing'' \<and> ttl = 0 \<and> relayAddrs = None
                   then findActiveInvite now mode proto (word_of_int targetPort) m2 else None)
      in case reuse of
           Some (url, view) \<Rightarrow> (Inr (url, view), m2)
         | None \<Rightarrow> create_invite env now mode ttl label proto targetPort relayAddrs activeBackend m2)"

definition GenerateURL ::
  "generate_env \<Rightarrow> instant \<Rightarrow> string \<Rightarrow> duration \<Rightarrow> string \<Rightarrow> string \<Rightarrow> int \<Rightarrow> Manager \<Rightarrow>
   (generate_error + string \<times> InviteView) \<times> Manager" where
  "GenerateURL env now mode ttl label proto targetPort m = generateURL env now mode ttl label proto targetPort None m"

definition GenerateURLWithAddrs ::
  "generate_env \<Rightarrow> instant \<Rightarrow> string \<Rightarrow> duration \<Rightarrow> string \<Rightarrow> string \<Rightarrow> int \<Rightarrow> string list option \<Rightarrow> Manager \<Rightarrow>
   (generate_error + string \<times> InviteView) \<times> Manager" where
  "GenerateURLWithAddrs env now mode ttl label proto targetPort relayAddrs m =
     generateURL env now mode ttl label proto targetPort relayAddrs m"

subsection \<open>Listing, renaming, revoking, sweeping\<close>

definition ListInvites :: "instant \<Rightarrow> Manager \<Rightarrow> InviteView list" where
  "ListInvites now m =
     sort_key (\<lambda>v. - iv_CreatedAt v)
       (map (\<lambda>(k, a). let i = at m a; v = invite_view now i in
               if After (inv_ExpiresAt i) (now + far_future) then v\<lparr>iv_ExpiresAt := 0\<rparr> else v) (m_invites m))"

datatype invite_op_error = InviteNotFound string | SaveTrustCleanup

definition RevokeInvite :: "config_store \<Rightarrow> string \<Rightarrow> Manager \<Rightarrow> invite_op_error option \<times> Manager" where
  "RevokeInvite st k m =
     (case map_get (m_invites m) k of
        None \<Rightarrow> (Some (InviteNotFound k), m)
      | Some a \<Rightarrow>
          let i = at m a; m1 = delete_invite k a m in
          if inv_Mode i = ''pairing'' \<and> inv_UsedByID i \<noteq> [] then
            let c1 = snd (RemoveTrustedPeer (inv_UsedByID i) (m_cfg m1));
                c2 = snd (RemoveRemote (inv_UsedByID i) c1)
            in (case save_config st c2 of
                  (Some _, c3) \<Rightarrow> (Some SaveTrustCleanup, m1\<lparr>m_cfg := c3\<rparr>)
                | (None, c3) \<Rightarrow> (None, m1\<lparr>m_cfg := c3\<rparr>))
          else (None, m1))"

definition RenameInvite :: "string \<Rightarrow> string \<Rightarrow> Manager \<Rightarrow> invite_op_error option \<times> Manager" where
  "RenameInvite k label m =
     (case map_get (m_invites m) k of
        None \<Rightarrow> (Some (InviteNotFound k), m)
      | Some a \<Rightarrow> (None, m\<lparr>m_heap := (m_heap m)[a := (at m a)\<lparr>inv_Label := label\<rparr>]\<rparr>))"

definition sweep_expired :: "instant \<Rightarrow> Manager \<Rightarrow> Manager" where
  "sweep_expired now m =
     m\<lparr>m_byInviteID := foldl (\<lambda>b (k, a). let i = at m a in
          if \<not> IsZero (inv_ExpiresAt i) \<and> Before (inv_ExpiresAt i) (now + far_future) \<and> After now (inv_ExpiresAt i)
          then map_del (inviteKey (inv_InviteID i)) b else b) (m_byInviteID m) (m_invites m)\<rparr>"

text \<open>One tick of \<open>sweepLoop\<close>: expired invites lose their index entry, and the oldest beyond the cap go.\<close>

definition sweepLoop_tick :: "instant \<Rightarrow> Manager \<Rightarrow> Manager" where
  "sweepLoop_tick now m =
     (let m1 = sweep_expired now m in
      if length (m_invites m1) > maxStoredInvites then
        let items = sort_key (\<lambda>(k, a). inv_CreatedAt (at m1 a)) (m_invites m1)
        in foldl (\<lambda>m' (k, _). case map_get (m_invites m') k of
                     Some a \<Rightarrow> delete_invite k a m' | None \<Rightarrow> m')
             m1 (take (length items - maxStoredInvites) items)
      else m1)"

subsection \<open>Redeeming\<close>

datatype redeem_error =
    InvalidLinkError | InvalidInviteProof | LinkRevoked | LinkAlreadyUsed | LinkExpired | InviteModeMismatch

definition validInviteProofLocked ::
  "cryptography \<Rightarrow> string \<Rightarrow> invite \<Rightarrow> bytes \<Rightarrow> string \<Rightarrow> string \<Rightarrow> instant \<Rightarrow> bool" where
  "validInviteProofLocked cr hostPeerID i proof remotePeerID mode now =
     list_ex (\<lambda>offset. EqualProof proof
        (InviteProof (cr_hmac cr) (inv_Secret i) (inv_InviteID i) hostPeerID remotePeerID mode (TimeWindow now + offset)))
       [-1, 0, 1]"

definition verifyAndConsume ::
  "cryptography \<Rightarrow> instant \<Rightarrow> bytes \<Rightarrow> bytes \<Rightarrow> string \<Rightarrow> string \<Rightarrow> Manager \<Rightarrow> (redeem_error + nat) \<times> Manager" where
  "verifyAndConsume cr now inviteID proof remotePeerID mode m =
     (if length inviteID \<noteq> InviteIDSize then (Inl InvalidLinkError, m)
      else if length proof \<noteq> 32 then (Inl InvalidInviteProof, m)
      else case map_get (m_byInviteID m) (inviteKey inviteID) of
        None \<Rightarrow> (Inl InvalidLinkError, m)
      | Some a \<Rightarrow>
          let i = at m a in
          if inv_InviteID i \<noteq> inviteID then (Inl InvalidLinkError, m)
          else if inv_Revoked i then (Inl LinkRevoked, m)
          else if inv_Mode i = ''onetime'' \<and> inv_Used i then (Inl LinkAlreadyUsed, m)
          else if inv_Mode i \<noteq> ''pairing'' \<and> \<not> IsZero (inv_ExpiresAt i)
                  \<and> Before (inv_ExpiresAt i) (now + far_future) \<and> After now (inv_ExpiresAt i)
          then (Inl LinkExpired, m\<lparr>m_byInviteID := map_del (inviteKey (inv_InviteID i)) (m_byInviteID m)\<rparr>)
          else if mode \<noteq> inv_Mode i then (Inl InviteModeMismatch, m)
          else if \<not> validInviteProofLocked cr (m_nodeID m) i proof remotePeerID mode now
          then (Inl InvalidInviteProof, m)
          else
            let i' = (if inv_Mode i = ''onetime'' then i\<lparr>inv_Used := True\<rparr> else i)\<lparr>inv_UsedAt := now\<rparr>
            in (Inr a, m\<lparr>m_heap := (m_heap m)[a := i']\<rparr>))"

text \<open>The section of the handler that records who used an invite.\<close>

definition record_use :: "instant \<Rightarrow> nat \<Rightarrow> string \<Rightarrow> string \<Rightarrow> Manager \<Rightarrow> Manager" where
  "record_use now a label peerID m =
     m\<lparr>m_heap := (m_heap m)[a := (at m a)\<lparr>inv_UsedBy := label, inv_UsedByID := peerID, inv_UsedAt := now\<rparr>]\<rparr>"


section \<open>The state stays consistent\<close>

definition mgr_ok :: "Manager \<Rightarrow> bool" where
  "mgr_ok m \<longleftrightarrow> map_ok (m_invites m) \<and> map_ok (m_byInviteID m)
     \<and> (\<forall>k a. map_get (m_invites m) k = Some a \<longrightarrow> a < length (m_heap m) \<and> inv_ID (at m a) = k)
     \<and> (\<forall>k a. map_get (m_byInviteID m) k = Some a \<longrightarrow>
          a < length (m_heap m) \<and> inviteKey (inv_InviteID (at m a)) = k)"

text \<open>
  How the invites may change: objects keep their identity, secret, mode, service
  and expiry, a used one stays used, and an index entry is either old or points
  to a new object.
\<close>

definition invite_kept :: "invite \<Rightarrow> invite \<Rightarrow> bool" where
  "invite_kept i j \<longleftrightarrow> inv_ID j = inv_ID i \<and> inv_InviteID j = inv_InviteID i \<and> inv_Secret j = inv_Secret i
     \<and> inv_Mode j = inv_Mode i \<and> inv_Protocol j = inv_Protocol i \<and> inv_TargetPort j = inv_TargetPort i
     \<and> inv_ExpiresAt j = inv_ExpiresAt i \<and> inv_Revoked j = inv_Revoked i \<and> (inv_Used i \<longrightarrow> inv_Used j)"

definition evolves :: "Manager \<Rightarrow> Manager \<Rightarrow> bool" where
  "evolves m m' \<longleftrightarrow> length (m_heap m) \<le> length (m_heap m')
     \<and> (\<forall>a < length (m_heap m). invite_kept (at m a) (at m' a))
     \<and> (\<forall>k a. map_get (m_byInviteID m') k = Some a \<longrightarrow> a < length (m_heap m) \<longrightarrow> map_get (m_byInviteID m) k = Some a)"

lemma invite_kept_refl [simp]: "invite_kept i i"
  by (simp add: invite_kept_def)

lemma invite_kept_trans: "invite_kept i j \<Longrightarrow> invite_kept j k \<Longrightarrow> invite_kept i k"
  by (simp add: invite_kept_def)

lemma evolves_refl [simp]: "evolves m m"
  by (simp add: evolves_def)

lemma evolves_trans: "evolves m n \<Longrightarrow> evolves n p \<Longrightarrow> evolves m p"
proof -
  assume mn: "evolves m n" and np: "evolves n p"
  have "length (m_heap m) \<le> length (m_heap p)" using mn np by (simp add: evolves_def)
  moreover have "invite_kept (at m a) (at p a)" if "a < length (m_heap m)" for a
    using mn np that invite_kept_trans [of "at m a" "at n a" "at p a"] by (simp add: evolves_def)
  moreover have "map_get (m_byInviteID m) k = Some a"
    if "map_get (m_byInviteID p) k = Some a" "a < length (m_heap m)" for k a
    using mn np that by (simp add: evolves_def)
  ultimately show ?thesis by (simp add: evolves_def)
qed

lemma at_update: "at (m\<lparr>m_heap := (m_heap m)[a := i]\<rparr>) b = (if b = a \<and> a < length (m_heap m) then i else at m b)"
  by (cases "a < length (m_heap m)") (auto simp: at_def nth_list_update list_update_beyond)

text \<open>The three ways a section changes the invites.\<close>

lemma heap_update_step:
  assumes "mgr_ok m" "invite_kept (at m a) i"
  shows "mgr_ok (m\<lparr>m_heap := (m_heap m)[a := i]\<rparr>) \<and> evolves m (m\<lparr>m_heap := (m_heap m)[a := i]\<rparr>)"
  using assms by (auto simp: mgr_ok_def evolves_def at_update invite_kept_def)

lemma index_shrink_step:
  assumes "mgr_ok m" "map_ok b" "map_ok v"
    and "\<And>k a. map_get b k = Some a \<Longrightarrow> map_get (m_byInviteID m) k = Some a"
    and "\<And>k a. map_get v k = Some a \<Longrightarrow> map_get (m_invites m) k = Some a"
  shows "mgr_ok (m\<lparr>m_byInviteID := b, m_invites := v\<rparr>) \<and> evolves m (m\<lparr>m_byInviteID := b, m_invites := v\<rparr>)"
  using assms unfolding mgr_ok_def evolves_def at_def by (simp; blast)

lemma alloc_step:
  assumes "mgr_ok m" "inv_ID i = k" "inviteKey (inv_InviteID i) = b"
  defines "m' \<equiv> m\<lparr>m_heap := m_heap m @ [i], m_invites := map_set k (length (m_heap m)) (m_invites m),
      m_byInviteID := map_set b (length (m_heap m)) (m_byInviteID m)\<rparr>"
  shows "mgr_ok m' \<and> evolves m m'"
proof -
  let ?n = "length (m_heap m)"
  have new: "at m' ?n = i" and old: "a < ?n \<Longrightarrow> at m' a = at m a" for a
    by (simp_all add: m'_def at_def nth_append)
  have len: "length (m_heap m') = Suc ?n" by (simp add: m'_def)
  have gi: "map_get (m_invites m') x = (if k = x then Some ?n else map_get (m_invites m) x)"
    "map_get (m_byInviteID m') x = (if b = x then Some ?n else map_get (m_byInviteID m) x)" for x
    by (simp_all add: m'_def go_map_simps)
  have oi: "map_get (m_invites m) x = Some a \<Longrightarrow> a < ?n \<and> inv_ID (at m a) = x"
    "map_get (m_byInviteID m) x = Some a \<Longrightarrow> a < ?n \<and> inviteKey (inv_InviteID (at m a)) = x" for x a
    using assms(1) by (simp_all add: mgr_ok_def)
  have "map_ok (m_invites m')" "map_ok (m_byInviteID m')"
    using assms(1) by (simp_all add: m'_def mgr_ok_def)
  moreover have "a < length (m_heap m') \<and> inv_ID (at m' a) = x" if "map_get (m_invites m') x = Some a" for x a
    using that oi(1) [of x a] new old [of a] assms(2) by (auto simp: gi len split: if_splits)
  moreover have "a < length (m_heap m') \<and> inviteKey (inv_InviteID (at m' a)) = x"
    if "map_get (m_byInviteID m') x = Some a" for x a
    using that oi(2) [of x a] new old [of a] assms(3) by (auto simp: gi len split: if_splits)
  moreover have "evolves m m'"
    using old by (auto simp: evolves_def len gi split: if_splits)
  ultimately show ?thesis by (simp add: mgr_ok_def)
qed

lemma index_shrink1_step:
  assumes "mgr_ok m" "map_ok b" "\<And>k a. map_get b k = Some a \<Longrightarrow> map_get (m_byInviteID m) k = Some a"
  shows "mgr_ok (m\<lparr>m_byInviteID := b\<rparr>) \<and> evolves m (m\<lparr>m_byInviteID := b\<rparr>)"
  using assms unfolding mgr_ok_def evolves_def at_def by (simp; blast)

lemma mgr_ok_cfg [simp]: "mgr_ok (m\<lparr>m_cfg := c\<rparr>) \<longleftrightarrow> mgr_ok m"
  by (simp add: mgr_ok_def at_def)

lemma evolves_cfg [simp]: "evolves m (m'\<lparr>m_cfg := c\<rparr>) \<longleftrightarrow> evolves m m'" "evolves (m\<lparr>m_cfg := c\<rparr>) m' \<longleftrightarrow> evolves m m'"
  by (simp_all add: evolves_def at_def)

lemma delete_invite_step: "mgr_ok m \<Longrightarrow> mgr_ok (delete_invite k a m) \<and> evolves m (delete_invite k a m)"
  unfolding delete_invite_def
  by (rule index_shrink_step) (auto simp: mgr_ok_def go_map_simps split: if_splits)

lemma fold_step:
  assumes "\<And>m x. mgr_ok m \<Longrightarrow> mgr_ok (f m x) \<and> evolves m (f m x)" "mgr_ok m"
  shows "mgr_ok (foldl f m xs) \<and> evolves m (foldl f m xs)"
  using assms(2)
proof (induction xs arbitrary: m)
  case Nil
  then show ?case by simp
next
  case (Cons x xs)
  then show ?case using assms(1) [of m x] evolves_trans by auto
qed

lemma DeletePending_step:
  assumes "mgr_ok m"
  shows "mgr_ok (snd (DeletePendingPairingInvitesExceptBackend now b m))
    \<and> evolves m (snd (DeletePendingPairingInvitesExceptBackend now b m))"
proof -
  let ?g = "\<lambda>(n, m') (k, a). if pending_other_backend now b (at m' a) then (Suc n, delete_invite k a m') else (n, m')"
  have "snd (foldl ?g (n, m') xs) = foldl (\<lambda>m' (k, a). if pending_other_backend now b (at m' a) then delete_invite k a m' else m') m' xs" for n m' xs
    by (induction xs arbitrary: n m') (auto split: prod.splits)
  moreover have "mgr_ok (foldl (\<lambda>m' (k, a). if pending_other_backend now b (at m' a) then delete_invite k a m' else m') m (m_invites m))
    \<and> evolves m (foldl (\<lambda>m' (k, a). if pending_other_backend now b (at m' a) then delete_invite k a m' else m') m (m_invites m))"
    by (rule fold_step [OF _ assms]) (auto simp: delete_invite_step split: prod.splits)
  ultimately show ?thesis by (simp add: DeletePendingPairingInvitesExceptBackend_def)
qed

lemma create_invite_step:
  assumes "mgr_ok m"
  shows "mgr_ok (snd (create_invite env now mode ttl label proto port addrs b m))
    \<and> evolves m (snd (create_invite env now mode ttl label proto port addrs b m))"
  using assms alloc_step [OF assms]
  by (auto simp: create_invite_def Let_def split: sum.splits option.splits)

lemma generateURL_step:
  assumes "mgr_ok m"
  shows "mgr_ok (snd (generateURL env now mode ttl label proto port addrs m))
    \<and> evolves m (snd (generateURL env now mode ttl label proto port addrs m))"
proof -
  define m1 where "m1 = (if addrs = None then m\<lparr>m_cfg := NormalizeNetworkBackend (m_cfg m)\<rparr> else m)"
  define m2 where "m2 = (if mode = ''pairing'' \<and> addrs = None
      then snd (DeletePendingPairingInvitesExceptBackend now (activeNetworkBackend m1) m1) else m1)"
  have 1: "mgr_ok m1" "evolves m m1" using assms by (simp_all add: m1_def)
  have 2: "mgr_ok m2" "evolves m m2"
    using 1 DeletePending_step [OF 1(1)] evolves_trans by (auto simp: m2_def)
  have "snd (generateURL env now mode ttl label proto port addrs m) \<in>
      {m2, snd (create_invite env now mode ttl label proto port addrs (activeNetworkBackend m1) m2)}"
    unfolding generateURL_def Let_def m1_def [symmetric] m2_def [symmetric]
    by (auto split: option.splits prod.splits)
  then show ?thesis using 2 create_invite_step [OF 2(1)] evolves_trans by auto
qed

lemma RevokeInvite_step:
  "mgr_ok m \<Longrightarrow> mgr_ok (snd (RevokeInvite st k m)) \<and> evolves m (snd (RevokeInvite st k m))"
  using delete_invite_step [of m k]
  by (auto simp: RevokeInvite_def Let_def split: option.splits prod.splits)

lemma RenameInvite_step:
  "mgr_ok m \<Longrightarrow> mgr_ok (snd (RenameInvite k l m)) \<and> evolves m (snd (RenameInvite k l m))"
  by (cases "map_get (m_invites m) k")
    (simp_all add: RenameInvite_def heap_update_step invite_kept_def)

lemma foldl_shrink:
  assumes "\<And>b x k a. map_get (f b x) k = Some a \<Longrightarrow> map_get b k = Some a"
  shows "map_get (foldl f b xs) k = Some a \<Longrightarrow> map_get b k = Some a"
proof (induction xs arbitrary: b)
  case Nil
  then show ?case by simp
next
  case (Cons x xs)
  then show ?case using assms [of b x k a] by simp
qed

lemma sweep_expired_step:
  assumes "mgr_ok m"
  shows "mgr_ok (sweep_expired now m) \<and> evolves m (sweep_expired now m)"
proof -
  let ?f = "\<lambda>b (k, a). let i = at m a in
      if \<not> IsZero (inv_ExpiresAt i) \<and> Before (inv_ExpiresAt i) (now + far_future) \<and> After now (inv_ExpiresAt i)
      then map_del (inviteKey (inv_InviteID i)) b else b"
  have "map_ok b \<Longrightarrow> map_ok (foldl ?f b xs)" for b xs
    by (induction xs arbitrary: b) (auto simp: Let_def)
  moreover have st: "map_get (?f b x) k = Some a \<Longrightarrow> map_get b k = Some a" for b x k a
    by (cases x) (simp add: Let_def go_map_simps split: if_splits)
  have "map_get (foldl ?f b xs) k = Some a \<Longrightarrow> map_get b k = Some a" for b xs k a
    by (rule foldl_shrink [where f = ?f]) (rule st)
  ultimately show ?thesis
    unfolding sweep_expired_def using assms by (intro index_shrink1_step) (auto simp: mgr_ok_def)
qed

lemma sweepLoop_step:
  assumes "mgr_ok m"
  shows "mgr_ok (sweepLoop_tick now m) \<and> evolves m (sweepLoop_tick now m)"
proof -
  note s = sweep_expired_step [OF assms, of now]
  let ?f = "\<lambda>m' (k, _ :: nat). case map_get (m_invites m') k of Some a \<Rightarrow> delete_invite k a m' | None \<Rightarrow> m'"
  have "mgr_ok (foldl ?f (sweep_expired now m) xs) \<and> evolves (sweep_expired now m) (foldl ?f (sweep_expired now m) xs)" for xs
    by (rule fold_step) (auto simp: delete_invite_step s split: prod.splits option.splits)
  then show ?thesis
    using s evolves_trans by (auto simp: sweepLoop_tick_def Let_def)
qed

lemma verifyAndConsume_step:
  assumes "mgr_ok m"
  shows "mgr_ok (snd (verifyAndConsume cr now i p r mode m)) \<and> evolves m (snd (verifyAndConsume cr now i p r mode m))"
proof (cases "map_get (m_byInviteID m) (inviteKey i)")
  case None
  then show ?thesis using assms by (simp add: verifyAndConsume_def)
next
  case (Some a)
  let ?x = "at m a"
  let ?m1 = "m\<lparr>m_byInviteID := map_del (inviteKey i) (m_byInviteID m)\<rparr>"
  let ?m2 = "m\<lparr>m_heap := (m_heap m)[a := (if inv_Mode ?x = ''onetime'' then ?x\<lparr>inv_Used := True\<rparr> else ?x)\<lparr>inv_UsedAt := now\<rparr>]\<rparr>"
  have 1: "mgr_ok ?m1 \<and> evolves m ?m1"
    using assms by (intro index_shrink1_step) (auto simp: mgr_ok_def go_map_simps split: if_splits)
  have 2: "mgr_ok ?m2 \<and> evolves m ?m2"
    by (rule heap_update_step [OF assms]) (simp add: invite_kept_def)
  have "snd (verifyAndConsume cr now i p r mode m) \<in> {m, ?m1, ?m2}"
    by (simp add: verifyAndConsume_def Let_def Some)
  then show ?thesis using assms 1 2 by auto
qed

lemma record_use_step: "mgr_ok m \<Longrightarrow> mgr_ok (record_use now a l p m) \<and> evolves m (record_use now a l p m)"
  by (simp add: record_use_def heap_update_step invite_kept_def)
end
