(* ===== verification/Pairing_Safety.thy ===== *)
theory Pairing_Safety
  imports Pairing
begin

text \<open>
  What the invites promise over every interleaving of the manager's critical
  sections: a one-time link is redeemed at most once, a revoked link never again,
  an expired one-time link never; and what a link carries is what its invite says.
\<close>

section \<open>The manager as a machine\<close>

datatype pairing_op =
    OpGenerate generate_env instant string duration string string int "string list option"
  | OpDeletePending instant string
  | OpRevoke config_store string
  | OpRename string string
  | OpSweep instant
  | OpRedeem instant bytes bytes string string
  | OpRecord instant nat string string

primrec pairing_step :: "cryptography \<Rightarrow> Manager \<Rightarrow> pairing_op \<Rightarrow> Manager" where
  "pairing_step cr m (OpGenerate env now mode ttl label proto port addrs) =
     snd (generateURL env now mode ttl label proto port addrs m)"
| "pairing_step cr m (OpDeletePending now backend) = snd (DeletePendingPairingInvitesExceptBackend now backend m)"
| "pairing_step cr m (OpRevoke st k) = snd (RevokeInvite st k m)"
| "pairing_step cr m (OpRename k label) = snd (RenameInvite k label m)"
| "pairing_step cr m (OpSweep now) = sweepLoop_tick now m"
| "pairing_step cr m (OpRedeem now i p r mode) = snd (verifyAndConsume cr now i p r mode m)"
| "pairing_step cr m (OpRecord now a label p) = record_use now a label p m"

text \<open>The invite a step redeems, if any.\<close>

primrec redeemed :: "cryptography \<Rightarrow> Manager \<Rightarrow> pairing_op \<Rightarrow> nat option" where
  "redeemed cr m (OpGenerate env now mode ttl label proto port addrs) = None"
| "redeemed cr m (OpDeletePending now backend) = None"
| "redeemed cr m (OpRevoke st k) = None"
| "redeemed cr m (OpRename k label) = None"
| "redeemed cr m (OpSweep now) = None"
| "redeemed cr m (OpRedeem now i p r mode) =
     (case fst (verifyAndConsume cr now i p r mode m) of Inl _ \<Rightarrow> None | Inr a \<Rightarrow> Some a)"
| "redeemed cr m (OpRecord now a label p) = None"

primrec redemptions :: "cryptography \<Rightarrow> Manager \<Rightarrow> pairing_op list \<Rightarrow> nat list" where
  "redemptions cr m [] = []"
| "redemptions cr m (x # xs) =
     (case redeemed cr m x of Some a \<Rightarrow> [a] | None \<Rightarrow> []) @ redemptions cr (pairing_step cr m x) xs"

lemma pairing_step_step: "mgr_ok m \<Longrightarrow> mgr_ok (pairing_step cr m x) \<and> evolves m (pairing_step cr m x)"
  by (cases x) (simp_all only: pairing_step.simps generateURL_step DeletePending_step RevokeInvite_step
      RenameInvite_step sweepLoop_step verifyAndConsume_step record_use_step simp_thms)

interpretation pairing: tracked_machine "pairing_step cr" mgr_ok evolves for cr
  by unfold_locales (auto intro: evolves_trans simp: pairing_step_step)

section \<open>Redemption\<close>

lemma verifyAndConsume_Inr:
  assumes "verifyAndConsume cr now i p r mode m = (Inr a, m')"
  shows "map_get (m_byInviteID m) (inviteKey i) = Some a \<and> inv_InviteID (at m a) = i
    \<and> length i = InviteIDSize \<and> \<not> inv_Revoked (at m a) \<and> \<not> (inv_Mode (at m a) = ''onetime'' \<and> inv_Used (at m a))
    \<and> inv_Mode (at m a) = mode
    \<and> (inv_Mode (at m a) = ''pairing'' \<or> IsZero (inv_ExpiresAt (at m a)) \<or> now \<le> inv_ExpiresAt (at m a))
    \<and> validInviteProofLocked cr (m_nodeID m) (at m a) p r mode now
    \<and> m' = m\<lparr>m_heap := (m_heap m)[a := (if mode = ''onetime'' then (at m a)\<lparr>inv_Used := True\<rparr> else at m a)\<lparr>inv_UsedAt := now\<rparr>]\<rparr>"
proof -
  obtain b where b: "length i = InviteIDSize" "length p = 32" "map_get (m_byInviteID m) (inviteKey i) = Some b"
    using assms by (auto simp: verifyAndConsume_def split: if_splits option.splits)
  have far: "0 < far_future" by (simp add: far_future_def)
  show ?thesis
    using assms b far by (auto simp: verifyAndConsume_def Let_def Before_def After_def split: if_splits)
qed

lemma redeemed_Some:
  assumes "mgr_ok m" "redeemed cr m x = Some a"
  shows "a < length (m_heap m)" "\<exists>k. map_get (m_byInviteID m) k = Some a"
    and "\<not> (inv_Mode (at m a) = ''onetime'' \<and> inv_Used (at m a))"
    and "inv_Mode (at m a) = ''onetime'' \<Longrightarrow> inv_Used (at (pairing_step cr m x) a)"
proof -
  obtain now i p r mode where x: "x = OpRedeem now i p r mode"
    using assms(2) by (cases x) auto
  obtain m' where v: "verifyAndConsume cr now i p r mode m = (Inr a, m')"
    using assms(2) x by (cases "verifyAndConsume cr now i p r mode m") (auto split: sum.splits)
  note f = verifyAndConsume_Inr [OF v]
  show len: "a < length (m_heap m)" "\<exists>k. map_get (m_byInviteID m) k = Some a"
    "\<not> (inv_Mode (at m a) = ''onetime'' \<and> inv_Used (at m a))"
    using f assms(1) by (auto simp: mgr_ok_def)
  show "inv_Mode (at m a) = ''onetime'' \<Longrightarrow> inv_Used (at (pairing_step cr m x) a)"
    using f len v x by (simp add: at_update)
qed

lemma redemptions_dead:
  assumes "mgr_ok m" "a < length (m_heap m)"
    and "inv_Mode (at m a) = ''onetime'' \<and> inv_Used (at m a) \<or> (\<forall>k. map_get (m_byInviteID m) k \<noteq> Some a)"
  shows "a \<notin> set (redemptions cr m xs)"
  using assms
proof (induction xs arbitrary: m)
  case Nil
  then show ?case by simp
next
  case (Cons x xs)
  let ?m = "pairing_step cr m x"
  note st = pairing_step_step [OF Cons.prems(1), of cr x]
  have "a < length (m_heap ?m)" using st Cons.prems(2) by (simp add: evolves_def)
  moreover have "inv_Mode (at ?m a) = ''onetime'' \<and> inv_Used (at ?m a) \<or> (\<forall>k. map_get (m_byInviteID ?m) k \<noteq> Some a)"
    using st Cons.prems(2,3) by (auto simp: evolves_def invite_kept_def)
  ultimately have "a \<notin> set (redemptions cr ?m xs)" using Cons.IH st by blast
  moreover have "redeemed cr m x \<noteq> Some a"
    using redeemed_Some [OF Cons.prems(1), of cr x a] Cons.prems(3) by blast
  ultimately show ?case by (auto split: option.splits)
qed

lemma redemptions_onetime:
  assumes "mgr_ok m" "a < length (m_heap m)" "inv_Mode (at m a) = ''onetime''"
  shows "count_list (redemptions cr m xs) a \<le> 1"
  using assms
proof (induction xs arbitrary: m)
  case Nil
  then show ?case by simp
next
  case (Cons x xs)
  let ?m = "pairing_step cr m x"
  note st = pairing_step_step [OF Cons.prems(1), of cr x]
  have m: "a < length (m_heap ?m)" "inv_Mode (at ?m a) = ''onetime''"
    using st Cons.prems by (auto simp: evolves_def invite_kept_def)
  show ?case
  proof (cases "redeemed cr m x = Some a")
    case True
    then have "a \<notin> set (redemptions cr ?m xs)"
      using redemptions_dead [of ?m a cr xs] redeemed_Some(4) [OF Cons.prems(1) True] st m Cons.prems(3) by blast
    then show ?thesis using True by (simp add: count_list_0_iff)
  next
    case False
    then show ?thesis
      using Cons.IH [OF _ m] st by (auto split: option.splits)
  qed
qed

lemma mgr_ok_New: "mgr_ok (Manager_New nodeID cfg)"
  by (simp add: mgr_ok_def Manager_New_def)

abbreviation pairing_run :: "cryptography \<Rightarrow> Manager \<Rightarrow> pairing_op list \<Rightarrow> Manager" where
  "pairing_run cr \<equiv> foldl (pairing_step cr)"

text \<open>
  C7: however the host's operations interleave, a one-time invite is redeemed at
  most once, from the moment it exists.
\<close>

theorem onetime_redeemed_at_most_once:
  assumes "m = pairing_run cr (Manager_New nodeID cfg) before"
    and "a < length (m_heap m)" "inv_Mode (at m a) = ''onetime''"
  shows "count_list (redemptions cr m ops) a \<le> 1"
  using assms pairing.run_ok [OF mgr_ok_New] redemptions_onetime by simp

text \<open>
  C8: after \<open>RevokeInvite\<close> has removed an invite, no later sequence of operations
  redeems it.
\<close>

theorem revoked_never_redeemed:
  assumes "m = pairing_run cr (Manager_New nodeID cfg) before"
    and "map_get (m_invites m) k = Some a" "RevokeInvite st k m = (err, m')"
  shows "a \<notin> set (redemptions cr m' ops) \<and> map_get (m_invites m') k = None"
proof -
  have ok: "mgr_ok m" unfolding assms(1) by (rule pairing.run_ok [OF mgr_ok_New])
  have a: "a < length (m_heap m)" using ok assms(2) by (simp add: mgr_ok_def)
  have st: "mgr_ok m'" "evolves m m'" using RevokeInvite_step [OF ok, of st k] assms(3) by auto
  have idx: "m_byInviteID m' = map_del (inviteKey (inv_InviteID (at m a))) (m_byInviteID m)"
      "m_invites m' = map_del k (m_invites m)"
    using assms(2,3)
    by (auto simp: RevokeInvite_def Let_def delete_invite_def split: if_splits prod.splits option.splits)
  have "map_get (m_byInviteID m') x \<noteq> Some a" for x
    using ok by (auto simp: idx go_map_simps mgr_ok_def)
  then show ?thesis
    using redemptions_dead [OF st(1), of a cr ops] a st(2) by (auto simp: evolves_def idx go_map_simps)
qed


lemma verifyAndConsume_complete:
  assumes ok: "mgr_ok m" and idx: "map_get (m_byInviteID m) (inviteKey i) = Some a" and len: "length i = InviteIDSize"
    and live: "\<not> inv_Revoked (at m a)" "inv_Mode (at m a) = ''onetime'' \<longrightarrow> \<not> inv_Used (at m a)"
      "now \<le> inv_ExpiresAt (at m a)"
    and p: "p = InviteProof (cr_hmac cr) (inv_Secret (at m a)) i (m_nodeID m) r (inv_Mode (at m a)) w" "length p = 32"
    and w: "\<bar>w - TimeWindow now\<bar> \<le> 1"
  shows "fst (verifyAndConsume cr now i p r (inv_Mode (at m a)) m) = Inr a"
proof -
  have "inviteKey (inv_InviteID (at m a)) = inviteKey i" using ok idx by (simp add: mgr_ok_def)
  then have i: "inv_InviteID (at m a) = i" by (simp add: inviteKey_def)
  have "w = TimeWindow now - 1 \<or> w = TimeWindow now \<or> w = TimeWindow now + 1" using w by arith
  then have "validInviteProofLocked cr (m_nodeID m) (at m a) p r (inv_Mode (at m a)) now"
    using p(1) i by (auto simp: validInviteProofLocked_def EqualProof_def)
  then show ?thesis
    using idx len live p(2) i by (auto simp: verifyAndConsume_def Let_def After_def)
qed

section \<open>What a generated link carries\<close>

lemma alphabet_alnum: "c \<in> set base58Alphabet \<Longrightarrow> is_alnum c"
  by (auto simp: base58Alphabet_def is_alnum_def is_digit_def char_code_def)

lemma URLScheme_props:
  "\<forall>c \<in> set URLScheme. is_alnum c \<and> \<not> is_digit c" "URLScheme \<noteq> []" "ToLower URLScheme = URLScheme"
  by (simp_all add: URLScheme_def is_alnum_def is_digit_def char_code_def ToLower_def lower_char_def)

definition token_link :: "Token \<Rightarrow> url_values \<Rightarrow> string" where
  "token_link t v = link URLScheme (base58Encode (token_buf t)) (Values_Encode v)"

lemma token_link_Nil: "token_link t [] = Encode t"
  by (simp add: token_link_def link_def Encode_def Values_Encode_def value_pairs_def)

lemma url_Parse_token_link:
  "url_Parse (token_link t v) = Some (link_url URLScheme (base58Encode (token_buf t)) (Values_Encode v))"
  unfolding token_link_def
  by (rule url_Parse_link)
    (use URLScheme_props alphabet_alnum base58Encode_alphabet Values_Encode_safe in auto)

lemma withQuery_token_link:
  "withQuery (token_link t v) upd = token_link t (upd (ParseQuery (Values_Encode v)))"
proof -
  let ?h = "base58Encode (token_buf t)"
  have "(link_url URLScheme ?h q)\<lparr>u_RawQuery := q'\<rparr> = link_url URLScheme ?h q'" "u_RawQuery (link_url URLScheme ?h q) = q" for q q'
    by (simp_all add: link_url_def)
  then have "withQuery (token_link t v) upd =
      url_String (link_url URLScheme ?h (Values_Encode (upd (ParseQuery (Values_Encode v)))))"
    by (simp add: withQuery_def url_Parse_token_link url_Query_def)
  then show ?thesis
    by (simp add: url_String_link [OF URLScheme_props(2)] token_link_def)
qed

lemma query_get_token_link:
  "values_ok v \<Longrightarrow> query_get (token_link t v) k = Values_Get v k"
  by (simp add: query_get_def url_Parse_token_link url_Query_def link_url_def Values_Get_def ParseQuery_Values_Encode(2))

definition parsed :: "url_values \<Rightarrow> url_values" where
  "parsed v = ParseQuery (Values_Encode v)"

lemma parsed_ok [simp]: "values_ok v \<Longrightarrow> values_ok (parsed v)"
  unfolding parsed_def by (rule ParseQuery_Values_Encode(3))

lemma Values_Get_parsed [simp]: "values_ok v \<Longrightarrow> Values_Get (parsed v) k = Values_Get v k"
  by (simp add: parsed_def Values_Get_def ParseQuery_Values_Encode(2))

lemma Values_Get_Set [simp]: "Values_Get (Values_Set k v m) k' = (if k = k' then v else Values_Get m k')"
  by (simp add: Values_Get_def Values_Set_def go_map_simps)

lemma values_ok_Nil [simp]: "values_ok []" "parsed [] = []"
  by (simp_all add: values_ok_def parsed_def ParseQuery_def parse_query.simps Values_Encode_def value_pairs_def)

lemma DecodeURL_token_link: "token_ok t \<Longrightarrow> DecodeURL (token_link t v) = Inr (token_canonical t)"
proof -
  assume t: "token_ok t"
  have "token_link t v = Encode t @ (if Values_Encode v = [] then [] else CHR ''?'' # Values_Encode v)"
    by (simp add: token_link_def link_def Encode_def)
  then show ?thesis using DecodeURL_link [OF t] by (simp add: url_suffix_def)
qed

lemma TrimSpace_backend: "validNetworkBackend b \<Longrightarrow> TrimSpace b = b \<and> b \<noteq> []"
  by (erule validNetworkBackend_cases)
    (simp_all add: TrimSpace_def TrimFunc_def TrimLeftFunc_def TrimRightFunc_def is_space_def char_code_def)

lemma Itoa_1: "Itoa inviteFormatVersion = ''1''"
  by (simp add: Itoa_def inviteFormatVersion_def Utoa.simps digit_char_def char_of_def bit_simps)

text \<open>The query of a link made for a backend: version, backend and, for iroh, the ticket.\<close>

definition link_query :: "string \<Rightarrow> string \<Rightarrow> url_values" where
  "link_query b ticket =
     (let q = Values_Set ''backend'' b (parsed (Values_Set ''v'' ''1'' []))
      in if b = ''iroh'' then Values_Set ''iroh_ticket'' ticket (parsed q) else q)"

lemma invite_link_token_link:
  assumes "validNetworkBackend b" "invite_link t None b nodeID tk = Inr url"
  shows "\<exists>ticket. url = token_link t (link_query b ticket) \<and> (b = ''iroh'' \<longrightarrow> tk = IrohTicketIssued ticket)"
proof -
  have v: "withInviteVersion (Encode t) = token_link t (Values_Set ''v'' ''1'' [])"
    using withQuery_token_link [of t "[]"]
    by (simp add: withInviteVersion_def token_link_Nil Itoa_1 flip: parsed_def)
  have b: "withInviteBackend (token_link t q) b = token_link t (Values_Set ''backend'' b (parsed q))" for q
    using TrimSpace_backend [OF assms(1)] by (simp add: withInviteBackend_def withQuery_token_link parsed_def)
  have k: "withIrohEndpointTicket (token_link t q) x = token_link t (Values_Set ''iroh_ticket'' x (parsed q))" for q x
    by (simp add: withIrohEndpointTicket_def withQuery_token_link parsed_def)
  show ?thesis
  proof (cases "b = ''iroh''")
    case True
    then obtain x where "tk = IrohTicketIssued x"
      using assms(2) by (auto simp: invite_link_def Let_def split: iroh_ticket.splits)
    then show ?thesis using assms(2) True by (simp add: invite_link_def Let_def v k link_query_def b [unfolded True])
  next
    case False
    then show ?thesis using assms(2) by (simp add: invite_link_def Let_def v b link_query_def)
  qed
qed

lemma link_query_get:
  assumes "validNetworkBackend b"
  shows "values_ok (link_query b ticket)" "Values_Get (link_query b ticket) ''v'' = ''1''"
    "Values_Get (link_query b ticket) ''backend'' = b"
    "b = ''iroh'' \<Longrightarrow> Values_Get (link_query b ticket) ''iroh_ticket'' = ticket"
  by (simp_all add: link_query_def Let_def)

lemma token_link_query:
  assumes "validNetworkBackend b"
  shows "InviteNetworkBackend (token_link t (link_query b ticket)) = b"
    and "validateInviteFormatVersion (token_link t (link_query b ticket)) = None"
    and "b = ''iroh'' \<Longrightarrow> irohEndpointTicketFromURL (token_link t (link_query b ticket)) = ticket"
proof -
  note q = link_query_get [OF assms, of ticket]
  have "b \<in> {''libp2p_relay'', ''libp2p_dht'', ''bittorrent_dht'', ''iroh''}"
    using assms by (auto elim: validNetworkBackend_cases)
  then show "InviteNetworkBackend (token_link t (link_query b ticket)) = b"
    using TrimSpace_backend [OF assms]
    by (simp add: InviteNetworkBackend_def inviteBackendFromURL_def query_get_token_link q Let_def)
  have "TrimSpace ''1'' = ''1''" "Atoi ''1'' = Some 1"
    using Atoi_Itoa [of 1] Itoa_1
    by (simp_all add: TrimSpace_def TrimFunc_def TrimLeftFunc_def TrimRightFunc_def is_space_def char_code_def
        inviteFormatVersion_def max_int64_def)
  then show "validateInviteFormatVersion (token_link t (link_query b ticket)) = None"
    using q(2) query_get_token_link [OF q(1), of t "''v''"]
    by (simp add: validateInviteFormatVersion_def query_get_def url_Parse_token_link inviteFormatVersion_def)
  show "b = ''iroh'' \<Longrightarrow> irohEndpointTicketFromURL (token_link t (link_query b ticket)) = ticket"
    using query_get_token_link [OF q(1), of t "''iroh_ticket''"] q(4) by (simp add: irohEndpointTicketFromURL_def)
qed

lemma token_ok_invite_token:
  "length i = InviteIDSize \<Longrightarrow> length s = InviteSecretSize \<Longrightarrow> token_ok (invite_token priv msk i s e mode proto port)"
  by (simp add: token_ok_def invite_token_def ed25519_public_def)

lemma create_invite_Inr:
  assumes "create_invite env now mode ttl label proto port None b m = (Inr (url, view), m')" "validNetworkBackend b"
  shows "\<exists>priv msk i s e ticket x. ge_inviteID env = Some i \<and> ge_secret env = Some s
    \<and> PrivateKeyBytes (m_cfg m) = Inr priv
    \<and> url = token_link (invite_token priv msk i s e mode proto port) (link_query b ticket)
    \<and> (b = ''iroh'' \<longrightarrow> ge_ticket env = IrohTicketIssued ticket)
    \<and> m_heap m' = m_heap m @ [x] \<and> map_get (m_byInviteID m') (inviteKey i) = Some (length (m_heap m))
    \<and> inv_InviteID x = i \<and> inv_Secret x = s \<and> inv_Mode x = mode \<and> inv_URL x = url \<and> inv_ExpiresAt x = e
    \<and> inv_TargetPort x = word_of_int port \<and> ParseProtocol (inv_Protocol x) = ParseProtocol proto"
proof -
  obtain priv msk i s where e: "PrivateKeyBytes (m_cfg m) = Inr priv"
      "invite_relay_mask b None (ge_relayMask env) = Inr msk" "ge_inviteID env = Some i" "ge_secret env = Some s"
      "\<not> length priv < 32"
    using assms(1) by (auto simp: create_invite_def split: sum.splits option.splits if_splits)
  let ?e = "if ttl > 0 then now + ttl else now + 100 * 365 * 24 * hour"
  let ?t = "invite_token priv msk i s ?e mode proto port"
  have l: "invite_link ?t None b (m_nodeID m) (ge_ticket env) = Inr url"
    using assms(1) e by (auto simp: create_invite_def Let_def split: sum.splits)
  have rdp: "ParseProtocol ''rdp'' = ParseProtocol []"
    by (simp add: ParseProtocol_def ToLower_def lower_char_def char_code_def)
  obtain x where x: "m_heap m' = m_heap m @ [x]" "map_get (m_byInviteID m') (inviteKey i) = Some (length (m_heap m))"
      "inv_InviteID x = i" "inv_Secret x = s" "inv_Mode x = mode" "inv_URL x = url" "inv_ExpiresAt x = ?e"
      "inv_TargetPort x = word_of_int port" "ParseProtocol (inv_Protocol x) = ParseProtocol proto"
    using assms(1) e l rdp by (auto simp: create_invite_def Let_def go_map_simps)
  show ?thesis
    using invite_link_token_link [OF assms(2) l] e x by blast
qed

lemma generateURL_new:
  assumes "GenerateURL env now mode ttl label proto port m = (Inr (url, view), m')"
    and "length (m_heap m) < length (m_heap m')"
  shows "\<exists>m2. create_invite env now mode ttl label proto port None (activeNetworkBackend m) m2 = (Inr (url, view), m')
    \<and> m_heap m2 = m_heap m \<and> PrivateKeyBytes (m_cfg m2) = PrivateKeyBytes (m_cfg m)"
proof -
  let ?m1 = "m\<lparr>m_cfg := NormalizeNetworkBackend (m_cfg m)\<rparr>"
  define m2 where "m2 = (if mode = ''pairing''
      then snd (DeletePendingPairingInvitesExceptBackend now (activeNetworkBackend ?m1) ?m1) else ?m1)"
  have ab: "activeNetworkBackend ?m1 = activeNetworkBackend m"
    using NormalizeNetworkBackend_active by (simp add: activeNetworkBackend_def)
  have keep: "m_heap (delete_invite k a x) = m_heap x \<and> m_cfg (delete_invite k a x) = m_cfg x" for k a x
    by (simp add: delete_invite_def)
  have "m_heap (snd (foldl (\<lambda>(n, m') (k, a). if pending_other_backend now c (at m' a)
        then (Suc n, delete_invite k a m') else (n, m')) z xs)) = m_heap (snd z)
      \<and> m_cfg (snd (foldl (\<lambda>(n, m') (k, a). if pending_other_backend now c (at m' a)
        then (Suc n, delete_invite k a m') else (n, m')) z xs)) = m_cfg (snd z)" for c z xs
    by (induction xs arbitrary: z) (auto simp: keep split: prod.splits)
  then have h: "m_heap m2 = m_heap m" "m_cfg m2 = NormalizeNetworkBackend (m_cfg m)"
    by (simp_all add: m2_def DeletePendingPairingInvitesExceptBackend_def)
  have "m' \<noteq> m2" using assms(2) h by auto
  then have "create_invite env now mode ttl label proto port None (activeNetworkBackend ?m1) m2 = (Inr (url, view), m')"
    using assms(1) unfolding GenerateURL_def generateURL_def Let_def m2_def
    by (auto split: option.splits if_splits prod.splits)
  moreover have "PrivateKeyBytes (m_cfg m2) = PrivateKeyBytes (m_cfg m)"
    by (simp add: PrivateKeyBytes_def h NormalizeNetworkBackend_keeps)
  ultimately show ?thesis using h ab by auto
qed

lemma ParseProtocol_nibble [simp]: "ParseProtocol p AND 0x0F = ParseProtocol p"
  by (simp add: ParseProtocol_def Let_def Proto_defs)


section \<open>A sample host\<close>

definition sample_config :: Config where
  "sample_config = (toy_config (replicate 64 5))\<lparr>cfg_Network := \<lparr>nc_ShareBackend = ''libp2p_dht''\<rparr>\<rparr>"

definition sample_env :: generate_env where
  "sample_env = \<lparr>ge_inviteID = Some (replicate 16 7), ge_secret = Some (replicate 32 9), ge_displayID = [1, 2, 3, 4],
     ge_relayMask = 0, ge_ticket = IrohBackendMissing\<rparr>"

definition sample_ops :: "pairing_op list" where
  "sample_ops = [OpGenerate sample_env 100 ''onetime'' minute ''guest'' ''ssh'' 22 None]"

abbreviation sample_manager :: Manager where
  "sample_manager \<equiv> pairing_run toy_crypto (Manager_New ''node'' sample_config) sample_ops"

lemma sample_private_key: "PrivateKeyBytes (NormalizeNetworkBackend sample_config) = Inr (replicate 64 5)"
  by (simp add: PrivateKeyBytes_def NormalizeNetworkBackend_keeps sample_config_def toy_config_def)

lemma sample_backend:
  "ActiveNetworkBackend (Some (NormalizeNetworkBackend sample_config)) = ''libp2p_dht''"
  unfolding NormalizeNetworkBackend_active
  by (simp add: ActiveNetworkBackend_def sample_config_def validNetworkBackend_def CanonicalNetworkBackend_def)

lemma sample_generate:
  "\<exists>url view m' x. GenerateURL sample_env 100 ''onetime'' minute ''guest'' ''ssh'' 22 (Manager_New ''node'' sample_config)
     = (Inr (url, view), m') \<and> m' = sample_manager \<and> m_heap m' = [x] \<and> inv_Mode x = ''onetime'' \<and> inv_Secret x = replicate 32 9
     \<and> inv_InviteID x = replicate 16 7 \<and> \<not> inv_Used x \<and> \<not> inv_Revoked x \<and> inv_ExpiresAt x = 100 + minute
     \<and> m_invites m' = [(newID [1, 2, 3, 4], 0)] \<and> m_byInviteID m' = [(inviteKey (replicate 16 7), 0)] \<and> m_nodeID m' = ''node''"
  by (simp add: sample_ops_def GenerateURL_def generateURL_def create_invite_def Let_def activeNetworkBackend_def Manager_New_def
      sample_private_key sample_backend sample_env_def invite_relay_mask_def invite_link_def)

theorem onetime_redeemed_at_most_once_witness:
  "count_list (redemptions toy_crypto sample_manager
     [OpRedeem 200 (replicate 16 7) (replicate 32 9) ''client'' ''onetime'', OpRedeem 201 (replicate 16 7) (replicate 32 9) ''thief'' ''onetime'']) 0 \<le> 1"
proof (rule onetime_redeemed_at_most_once [OF refl])
  show "0 < length (m_heap sample_manager)" "inv_Mode (at sample_manager 0) = ''onetime''"
    using sample_generate by (auto simp: at_def)
qed

theorem revoked_never_redeemed_witness:
  "0 \<notin> set (redemptions toy_crypto (snd (RevokeInvite \<lparr>cs_mkdir = True, cs_marshal = (\<lambda>_. None), cs_write = (\<lambda>_. True)\<rparr>
      (newID [1, 2, 3, 4]) sample_manager))
     [OpRedeem 200 (replicate 16 7) (replicate 32 9) ''client'' ''onetime''])"
proof -
  have k: "map_get (m_invites sample_manager) (newID [1, 2, 3, 4]) = Some 0"
    using sample_generate by auto
  show ?thesis using revoked_never_redeemed [OF refl k surjective_pairing] by blast
qed

lemma sample_redeem:
  "fst (verifyAndConsume toy_crypto 200 (replicate 16 7) (replicate 32 9) ''client'' ''onetime'' sample_manager) = Inr 0"
proof -
  let ?p = "InviteProof (cr_hmac toy_crypto) (inv_Secret (at sample_manager 0)) (replicate 16 7) ''node'' ''client'' ''onetime''
      (TimeWindow 200)"
  have s: "inv_Secret (at sample_manager 0) = replicate 32 9" "inv_Mode (at sample_manager 0) = ''onetime''"
    using sample_generate by (auto simp: at_def)
  have p: "?p = replicate 32 9"
    unfolding s by (simp add: InviteProof_def toy_crypto_def)
  have ok: "mgr_ok sample_manager" by (rule pairing.run_ok [OF mgr_ok_New])
  show ?thesis
    using verifyAndConsume_complete [OF ok, of "replicate 16 7" 0 200 "replicate 32 9" toy_crypto "''client''" "TimeWindow 200"]
      sample_generate p s by (auto simp: at_def InviteIDSize_def)
qed



end
