(* ===== verification/Go_Net.thy ===== *)
theory Go_Net
  imports Go_Prelude
begin

text \<open>
  The part of Go's \<open>net\<close> package that the transports use: splitting and joining
  \<open>host:port\<close>, parsing textual IP addresses, and the classes of addresses. An IP
  address is its 16-byte form, as \<open>net.ParseIP\<close> returns it; IPv4 addresses are the
  ones with the mapped prefix.
\<close>

section \<open>Host and port\<close>

text \<open>\<open>net.SplitHostPort\<close>; \<open>None\<close> is an \<open>AddrError\<close>.\<close>

definition SplitHostPort :: "string \<Rightarrow> (string \<times> string) option" where
  "SplitHostPort hostport =
     (case LastIndexByte hostport (CHR '':'') of
        None \<Rightarrow> None
      | Some i \<Rightarrow>
          let port = drop (Suc i) hostport in
          if HasPrefix hostport ''['' then
            (case Index hostport '']'' of
               None \<Rightarrow> None
             | Some e \<Rightarrow>
                 if Suc e \<noteq> i then None
                 else let host = take (e - 1) (drop 1 hostport) in
                   if CHR ''['' \<in> set (drop 1 hostport) \<or> CHR '']'' \<in> set (drop (Suc e) hostport) then None
                   else Some (host, port))
          else let host = take i hostport in
            if CHR '':'' \<in> set host \<or> CHR ''['' \<in> set hostport \<or> CHR '']'' \<in> set hostport then None
            else Some (host, port))"

definition JoinHostPort :: "string \<Rightarrow> string \<Rightarrow> string" where
  "JoinHostPort host port =
     (if CHR '':'' \<in> set host then ''['' @ host @ '']:'' @ port else host @ '':'' @ port)"

lemma LastIndexByte_at:
  assumes "c \<notin> set t"
  shows "LastIndexByte (s @ c # t) c = Some (length s)"
proof -
  have "takeWhile (\<lambda>x. x \<noteq> c) (rev t) = rev t"
    using assms by (auto simp: takeWhile_eq_all_conv)
  then have r: "takeWhile (\<lambda>x. x \<noteq> c) (rev (s @ c # t)) = rev t"
    using assms by (simp add: takeWhile_append)
  show ?thesis unfolding LastIndexByte_def r by simp
qed

lemma SplitHostPort_JoinHostPort:
  assumes "CHR '':'' \<notin> set port" "CHR ''['' \<notin> set host \<union> set port" "CHR '']'' \<notin> set host \<union> set port"
  shows "SplitHostPort (JoinHostPort host port) = Some (host, port)"
proof (cases "CHR '':'' \<in> set host")
  case False
  have "LastIndexByte (host @ CHR '':'' # port) (CHR '':'') = Some (length host)"
    by (rule LastIndexByte_at [OF assms(1)])
  moreover have "\<not> HasPrefix (host @ CHR '':'' # port) ''[''"
    using assms(2) by (cases host) (auto simp: HasPrefix_def)
  ultimately show ?thesis
    using False assms by (simp add: SplitHostPort_def JoinHostPort_def)
next
  case True
  let ?s = "''['' @ host @ '']:'' @ port"
  have "LastIndexByte ((CHR ''['' # host @ [CHR '']'']) @ CHR '':'' # port) (CHR '':'') = Some (length (CHR ''['' # host @ [CHR '']'']))"
    by (rule LastIndexByte_at [OF assms(1)])
  then have l: "LastIndexByte ?s (CHR '':'') = Some (Suc (Suc (length host)))" by simp
  have "Index (t @ CHR '']'' # r) '']'' = Some (length t)" if "CHR '']'' \<notin> set t" for t r
    using that by (induction t) (auto simp: HasPrefix_def)
  from this [of "CHR ''['' # host"] have i: "Index ?s '']'' = Some (Suc (length host))"
    using assms(3) by simp
  show ?thesis
    using True assms l i by (simp add: SplitHostPort_def JoinHostPort_def HasPrefix_def)
qed

section \<open>IP addresses\<close>

type_synonym IP = bytes

definition v4InV6Prefix :: bytes where
  "v4InV6Prefix = replicate 10 0 @ [0xFF, 0xFF]"

definition To4 :: "IP \<Rightarrow> bytes option" where
  "To4 ip = (if length ip = 16 \<and> take 12 ip = v4InV6Prefix then Some (drop 12 ip) else None)"

text \<open>Dotted decimal: four fields of one to three digits without leading zeros, each at most 255.\<close>

definition parse_octet :: "string \<Rightarrow> byte option" where
  "parse_octet s =
     (if s = [] \<or> \<not> list_all is_digit s \<or> length s > 3 \<or> (length s > 1 \<and> hd s = CHR ''0'') \<or> digits_value s > 255
      then None else Some (word_of_nat (digits_value s)))"

fun split_char :: "char \<Rightarrow> string \<Rightarrow> string list" where
  "split_char c [] = [[]]"
| "split_char c (x # xs) =
     (if x = c then [] # split_char c xs
      else case split_char c xs of s # ss \<Rightarrow> (x # s) # ss | [] \<Rightarrow> [[x]])"

primrec all_some :: "'a option list \<Rightarrow> 'a list option" where
  "all_some [] = Some []"
| "all_some (x # xs) = (case x of None \<Rightarrow> None | Some a \<Rightarrow> map_option (Cons a) (all_some xs))"

definition parseIPv4Fields :: "string \<Rightarrow> bytes option" where
  "parseIPv4Fields s =
     (let fs = split_char (CHR ''.'') s in
      if length fs \<noteq> 4 then None else all_some (map parse_octet fs))"

text \<open>One group of an IPv6 address: one to four hexadecimal digits, and what follows it.\<close>

definition hex_group :: "string \<Rightarrow> (nat \<times> string) option" where
  "hex_group s =
     (let ds = takeWhile (\<lambda>c. fromHexChar c \<noteq> None) s in
      if ds = [] \<or> length ds > 4 then None
      else Some (foldl (\<lambda>n c. n * 16 + the (fromHexChar c)) 0 ds, drop (length ds) s))"

text \<open>
  The loop of \<open>netip.parseIPv6\<close>: \<open>bs\<close> are the bytes read so far, \<open>ell\<close> the position of
  the ellipsis. The result is the 16 bytes, with the ellipsis expanded.
\<close>

definition finish_ipv6 :: "nat option \<Rightarrow> bytes \<Rightarrow> bytes option" where
  "finish_ipv6 ell bs =
     (if length bs = 16 then (if ell = None then Some bs else None)
      else case ell of
        None \<Rightarrow> None
      | Some e \<Rightarrow> Some (take e bs @ replicate (16 - length bs) 0 @ drop e bs))"

function ipv6_loop :: "nat option \<Rightarrow> bytes \<Rightarrow> string \<Rightarrow> bytes option" where
  "ipv6_loop ell bs s =
     (if length bs \<ge> 16 then (if s = [] then finish_ipv6 ell bs else None)
      else case hex_group s of
        None \<Rightarrow> None
      | Some (acc, rest) \<Rightarrow>
          if HasPrefix rest ''.'' then
            (if (ell = None \<and> length bs \<noteq> 12) \<or> length bs + 4 > 16 then None
             else case parseIPv4Fields s of
               None \<Rightarrow> None
             | Some v4 \<Rightarrow> finish_ipv6 ell (bs @ v4))
          else
            let bs' = bs @ [word_of_nat (acc div 256), word_of_nat acc] in
            if rest = [] then finish_ipv6 ell bs'
            else if \<not> HasPrefix rest '':'' then None
            else if length rest = 1 then None
            else let rest1 = drop 1 rest in
              if HasPrefix rest1 '':'' then
                (if ell \<noteq> None then None
                 else let rest2 = drop 1 rest1 in
                   if rest2 = [] then finish_ipv6 (Some (length bs')) bs'
                   else ipv6_loop (Some (length bs')) bs' rest2)
              else ipv6_loop ell bs' rest1)"
  by pat_completeness auto
termination
  by (relation "measure (\<lambda>(_, bs, _). 16 - length bs)") auto

declare ipv6_loop.simps [simp del]

definition parseIPv6 :: "string \<Rightarrow> bytes option" where
  "parseIPv6 s =
     (if HasPrefix s ''::'' then
        (let r = drop 2 s in if r = [] then Some (replicate 16 0) else ipv6_loop (Some 0) [] r)
      else ipv6_loop None [] s)"

text \<open>\<open>net.ParseIP\<close>: the first of \<open>.\<close> and \<open>:\<close> decides the family; zones are refused.\<close>

definition ParseIP :: "string \<Rightarrow> IP option" where
  "ParseIP s =
     (case List.find (\<lambda>c. c \<in> {CHR ''.'', CHR '':'', CHR ''%''}) s of
        None \<Rightarrow> None
      | Some c \<Rightarrow>
          if c = CHR ''.'' then map_option (\<lambda>b. v4InV6Prefix @ b) (parseIPv4Fields s)
          else if c = CHR '':'' then (if CHR ''%'' \<in> set s then None else parseIPv6 s)
          else None)"

section \<open>Address classes\<close>

definition IsUnspecified :: "IP \<Rightarrow> bool" where
  "IsUnspecified ip \<longleftrightarrow> ip = v4InV6Prefix @ [0, 0, 0, 0] \<or> ip = replicate 16 0"

definition IsLoopback :: "IP \<Rightarrow> bool" where
  "IsLoopback ip = (case To4 ip of Some b \<Rightarrow> b ! 0 = 127 | None \<Rightarrow> ip = replicate 15 0 @ [1])"

definition IsPrivate :: "IP \<Rightarrow> bool" where
  "IsPrivate ip =
     (case To4 ip of
        Some b \<Rightarrow> b ! 0 = 10 \<or> (b ! 0 = 172 \<and> b ! 1 AND 0xF0 = 16) \<or> (b ! 0 = 192 \<and> b ! 1 = 168)
      | None \<Rightarrow> length ip = 16 \<and> ip ! 0 AND 0xFE = 0xFC)"

definition IsMulticast :: "IP \<Rightarrow> bool" where
  "IsMulticast ip = (case To4 ip of Some b \<Rightarrow> b ! 0 AND 0xF0 = 0xE0 | None \<Rightarrow> length ip = 16 \<and> ip ! 0 = 0xFF)"

definition IsLinkLocalUnicast :: "IP \<Rightarrow> bool" where
  "IsLinkLocalUnicast ip =
     (case To4 ip of
        Some b \<Rightarrow> b ! 0 = 169 \<and> b ! 1 = 254
      | None \<Rightarrow> length ip = 16 \<and> ip ! 0 = 0xFE \<and> ip ! 1 AND 0xC0 = 0x80)"

definition IsGlobalUnicast :: "IP \<Rightarrow> bool" where
  "IsGlobalUnicast ip \<longleftrightarrow>
     length ip = 16 \<and> ip \<noteq> v4InV6Prefix @ [0xFF, 0xFF, 0xFF, 0xFF] \<and> \<not> IsUnspecified ip \<and> \<not> IsLoopback ip
     \<and> \<not> IsMulticast ip \<and> \<not> IsLinkLocalUnicast ip"

lemma all_some_length: "all_some xs = Some ys \<Longrightarrow> length ys = length xs"
  by (induction xs arbitrary: ys) (auto split: option.splits)

lemma parseIPv4Fields_length: "parseIPv4Fields s = Some b \<Longrightarrow> length b = 4"
  by (auto simp: parseIPv4Fields_def Let_def dest!: all_some_length split: if_splits)

lemma finish_ipv6_length: "finish_ipv6 ell bs = Some b \<Longrightarrow> length bs \<le> 16 \<Longrightarrow> length b = 16"
  by (auto simp: finish_ipv6_def split: if_splits option.splits)

end
