(* ===== verification/Netbackend.thy ===== *)
theory Netbackend
  imports Config Go_Net
begin

text \<open>
  The transport-neutral layer, \<open>internal/netbackend/netbackend.go\<close>, and the direct
  QUIC backend of \<open>internal/btdht/backend.go\<close>: the registry of stream backends and
  how each backend opens a pairing session. The networks themselves are arguments:
  a backend is a record of its opening functions, a stream is a value of the type
  variable.
\<close>

section \<open>Targets, sessions, backends\<close>

definition BackendLibp2pRelay :: string where "BackendLibp2pRelay = ''libp2p_relay''"
definition BackendLibp2pDHT :: string where "BackendLibp2pDHT = ''libp2p_dht''"
definition BackendIroh :: string where "BackendIroh = ''iroh''"
definition BackendBitTorrentDHT :: string where "BackendBitTorrentDHT = ''bittorrent_dht''"

record Target =
  tg_PeerID :: string
  tg_RelayAddrs :: "string list"
  tg_IrohTicket :: string
  tg_QUICEndpoint :: string

record PairingTarget =
  pt_Backend :: string
  pt_PeerID :: string
  pt_PublicKeyHex :: string
  pt_IrohTicket :: string
  pt_RelayAddrs :: "string list"
  pt_PresenceAddrs :: "string list"
  pt_StoredAddrs :: "string list"
  pt_DirectQUICAddrs :: "string list"

record 's PairingSession =
  ps_Stream :: 's
  ps_RelayAddrs :: "string list"
  ps_IrohTicket :: string
  ps_DirectQUICAddrs :: "string list"
  ps_QUICEndpoint :: string

datatype net_error =
    BackendNotRunning string | OpenFailed string | NoIrohEndpointTicket | LookupFailed
  | MissingPublicKey | NoDirectQUICAddress | InvalidHostAddresses | DirectQUICFailed

record 's StreamBackend =
  sb_Name :: string
  sb_OpenPairing :: "Target \<Rightarrow> net_error + 's"
  sb_OpenTunnel :: "Target \<Rightarrow> net_error + 's"
  sb_OpenPairingSession :: "(PairingTarget \<Rightarrow> net_error + 's PairingSession) option"
  sb_Start :: "(string \<Rightarrow> net_error option) option"
  sb_Stop :: "(unit \<Rightarrow> net_error option) option"

type_synonym 's Registry = "(string, 's StreamBackend) gomap"

definition NewRegistry :: "'s Registry" where
  "NewRegistry = []"

definition Register :: "'s StreamBackend option \<Rightarrow> string list \<Rightarrow> 's Registry \<Rightarrow> 's Registry" where
  "Register backend aliases r =
     (case backend of
        None \<Rightarrow> r
      | Some b \<Rightarrow> foldl (\<lambda>r name. if name = [] then r else map_set name b r) r (sb_Name b # aliases))"

definition Unregister :: "string list \<Rightarrow> 's Registry \<Rightarrow> 's Registry" where
  "Unregister names r = foldl (\<lambda>r name. map_del name r) r names"

definition Get :: "string \<Rightarrow> 's Registry \<Rightarrow> 's StreamBackend option" where
  "Get name r = map_get r name"

definition MustGet :: "string \<Rightarrow> 's Registry \<Rightarrow> net_error + 's StreamBackend" where
  "MustGet name r = (case Get name r of None \<Rightarrow> Inl (BackendNotRunning name) | Some b \<Rightarrow> Inr b)"

definition Registry_Start :: "string \<Rightarrow> 's Registry \<Rightarrow> net_error option" where
  "Registry_Start name r =
     (case MustGet name r of
        Inl e \<Rightarrow> Some e
      | Inr b \<Rightarrow> (case sb_Start b of None \<Rightarrow> None | Some start \<Rightarrow> start name))"

definition Registry_Stop :: "string \<Rightarrow> 's Registry \<Rightarrow> net_error option" where
  "Registry_Stop name r =
     (case Get name r of
        None \<Rightarrow> None
      | Some b \<Rightarrow> (case sb_Stop b of None \<Rightarrow> None | Some stop \<Rightarrow> stop ()))"

definition Registry_OpenPairingSession :: "string \<Rightarrow> PairingTarget \<Rightarrow> 's Registry \<Rightarrow> net_error + 's PairingSession" where
  "Registry_OpenPairingSession name target0 r =
     (case MustGet name r of
        Inl e \<Rightarrow> Inl e
      | Inr b \<Rightarrow>
          let target = target0\<lparr>pt_Backend := name\<rparr> in
          (case sb_OpenPairingSession b of
             Some open_session \<Rightarrow> open_session target
           | None \<Rightarrow>
               (case sb_OpenPairing b \<lparr>tg_PeerID = pt_PeerID target, tg_RelayAddrs = pt_RelayAddrs target,
                                      tg_IrohTicket = pt_IrohTicket target, tg_QUICEndpoint = []\<rparr> of
                  Inl e \<Rightarrow> Inl e
                | Inr stream \<Rightarrow> Inr \<lparr>ps_Stream = stream, ps_RelayAddrs = pt_RelayAddrs target,
                    ps_IrohTicket = pt_IrohTicket target, ps_DirectQUICAddrs = pt_DirectQUICAddrs target,
                    ps_QUICEndpoint = []\<rparr>)))"

section \<open>The libp2p backend\<close>

text \<open>What the backend uses of the node; \<open>None\<close> stands for a nil node.\<close>

record 's libp2p_node =
  ln_OpenPairing :: "string \<Rightarrow> string list \<Rightarrow> net_error + 's"
  ln_OpenTunnel :: "string \<Rightarrow> string list \<Rightarrow> net_error + 's"
  ln_FindIdentityAddrs :: "string \<Rightarrow> string \<Rightarrow> net_error + string list"
  ln_FindPeerAddrs :: "string \<Rightarrow> net_error + string list"
  ln_ResolveAddrs :: "string \<Rightarrow> string list \<Rightarrow> string list \<Rightarrow> net_error + string list"

definition Libp2p_OpenPairing :: "'s libp2p_node option \<Rightarrow> Target \<Rightarrow> net_error + 's" where
  "Libp2p_OpenPairing n target =
     (case n of None \<Rightarrow> Inl (BackendNotRunning ''libp2p'')
      | Some n \<Rightarrow> ln_OpenPairing n (tg_PeerID target) (tg_RelayAddrs target))"

definition Libp2p_OpenTunnel :: "'s libp2p_node option \<Rightarrow> Target \<Rightarrow> net_error + 's" where
  "Libp2p_OpenTunnel n target =
     (case n of None \<Rightarrow> Inl (BackendNotRunning ''libp2p'')
      | Some n \<Rightarrow> ln_OpenTunnel n (tg_PeerID target) (tg_RelayAddrs target))"

definition libp2p_addrs :: "'s libp2p_node \<Rightarrow> PairingTarget \<Rightarrow> net_error + string list" where
  "libp2p_addrs n target =
     (let dht = (if pt_RelayAddrs target = [] \<and> pt_Backend target = BackendLibp2pDHT
           then (case ln_FindIdentityAddrs n (pt_PublicKeyHex target) (pt_PeerID target) of
                   Inl _ \<Rightarrow> ln_FindPeerAddrs n (pt_PeerID target)
                 | Inr a \<Rightarrow> Inr a)
           else Inr (pt_RelayAddrs target))
      in case dht of
           Inl e \<Rightarrow> Inl e
         | Inr addrs \<Rightarrow>
             if addrs = [] then ln_ResolveAddrs n (pt_PeerID target) (pt_PresenceAddrs target) (pt_StoredAddrs target)
             else Inr addrs)"

definition Libp2p_OpenPairingSession :: "'s libp2p_node option \<Rightarrow> PairingTarget \<Rightarrow> net_error + 's PairingSession" where
  "Libp2p_OpenPairingSession n target =
     (case n of
        None \<Rightarrow> Inl (BackendNotRunning ''libp2p'')
      | Some nd \<Rightarrow>
          (case libp2p_addrs nd target of
             Inl e \<Rightarrow> Inl e
           | Inr addrs \<Rightarrow>
               (case Libp2p_OpenPairing n \<lparr>tg_PeerID = pt_PeerID target, tg_RelayAddrs = addrs, tg_IrohTicket = [],
                                          tg_QUICEndpoint = []\<rparr> of
                  Inl e \<Rightarrow> Inl e
                | Inr s \<Rightarrow> Inr \<lparr>ps_Stream = s, ps_RelayAddrs = addrs, ps_IrohTicket = [], ps_DirectQUICAddrs = [],
                               ps_QUICEndpoint = []\<rparr>)))"

section \<open>The iroh backend\<close>

record 's iroh_sidecar =
  is_OpenPairing :: "string \<Rightarrow> net_error + 's"
  is_OpenTunnel :: "string \<Rightarrow> net_error + 's"

definition Iroh_OpenPairing :: "'s iroh_sidecar option \<Rightarrow> Target \<Rightarrow> net_error + 's" where
  "Iroh_OpenPairing b target =
     (case b of None \<Rightarrow> Inl (BackendNotRunning ''iroh'') | Some i \<Rightarrow> is_OpenPairing i (tg_IrohTicket target))"

definition Iroh_OpenTunnel :: "'s iroh_sidecar option \<Rightarrow> Target \<Rightarrow> net_error + 's" where
  "Iroh_OpenTunnel b target =
     (case b of None \<Rightarrow> Inl (BackendNotRunning ''iroh'') | Some i \<Rightarrow> is_OpenTunnel i (tg_IrohTicket target))"

definition Iroh_OpenPairingSession :: "'s iroh_sidecar option \<Rightarrow> PairingTarget \<Rightarrow> net_error + 's PairingSession" where
  "Iroh_OpenPairingSession b target =
     (if TrimSpace (pt_IrohTicket target) = [] then Inl NoIrohEndpointTicket
      else case Iroh_OpenPairing b \<lparr>tg_PeerID = pt_PeerID target, tg_RelayAddrs = [],
                                   tg_IrohTicket = pt_IrohTicket target, tg_QUICEndpoint = []\<rparr> of
        Inl e \<Rightarrow> Inl e
      | Inr s \<Rightarrow> Inr \<lparr>ps_Stream = s, ps_RelayAddrs = [], ps_IrohTicket = pt_IrohTicket target,
                     ps_DirectQUICAddrs = [], ps_QUICEndpoint = []\<rparr>)"

section \<open>The direct QUIC backend\<close>

definition isPublicHostPort :: "string \<Rightarrow> bool" where
  "isPublicHostPort addr =
     (case SplitHostPort addr of
        None \<Rightarrow> False
      | Some (host, _) \<Rightarrow>
          (case ParseIP (TrimFunc (\<lambda>c. c \<in> {CHR ''['', CHR '']''}) host) of
             None \<Rightarrow> True
           | Some ip \<Rightarrow> IsGlobalUnicast ip \<and> \<not> IsPrivate ip \<and> \<not> IsLoopback ip \<and> \<not> IsLinkLocalUnicast ip
                        \<and> \<not> IsUnspecified ip))"

text \<open>The loop keeps the addresses seen and appends each new one to its group.\<close>

primrec order_loop :: "string list \<Rightarrow> string list \<Rightarrow> string list \<Rightarrow> string list \<Rightarrow> string list \<times> string list" where
  "order_loop seen public private [] = (public, private)"
| "order_loop seen public private (a # as) =
     (let addr = TrimSpace a in
      if addr = [] then order_loop seen public private as
      else if addr \<in> set seen then order_loop seen public private as
      else if isPublicHostPort addr then order_loop (addr # seen) (public @ [addr]) private as
      else order_loop (addr # seen) public (private @ [addr]) as)"

definition orderDirectQUICAddrs :: "string list \<Rightarrow> string list" where
  "orderDirectQUICAddrs addrs = (case order_loop [] [] [] addrs of (public, private) \<Rightarrow> public @ private)"

definition directQUICEndpoint :: "string \<Rightarrow> string \<Rightarrow> string" where
  "directQUICEndpoint publicKeyHex addr =
     (let pk = ToLower (TrimSpace publicKeyHex); addr = TrimSpace addr in
      if pk = [] \<or> addr = [] then [] else pk @ ''@'' @ addr)"

definition ConnectionDisplayAddr :: "Target \<Rightarrow> string" where
  "ConnectionDisplayAddr target =
     (let endpoint = TrimSpace (tg_QUICEndpoint target) in
      case Cut endpoint ''@'' of (_, addr, ok) \<Rightarrow> if ok then TrimSpace addr else endpoint)"

text \<open>
  All endpoints are dialled at once and the first stream to arrive wins. The order
  in which the results arrive is the argument \<open>arrive\<close>.
\<close>

primrec first_stream :: "(string \<Rightarrow> net_error + 's) \<Rightarrow> string list \<Rightarrow> ('s \<times> string) option" where
  "first_stream dial [] = None"
| "first_stream dial (e # es) = (case dial e of Inr s \<Rightarrow> Some (s, e) | Inl _ \<Rightarrow> first_stream dial es)"

definition openFirstPairingStream ::
  "(string list \<Rightarrow> string list) \<Rightarrow> (string \<Rightarrow> net_error + 's) \<Rightarrow> string \<Rightarrow> string list \<Rightarrow> net_error + 's \<times> string" where
  "openFirstPairingStream arrive dial publicKeyHex addrs =
     (let endpoints = filter (\<lambda>e. e \<noteq> []) (map (directQUICEndpoint publicKeyHex) addrs) in
      if endpoints = [] then Inl InvalidHostAddresses
      else case first_stream dial (arrive endpoints) of
        Some r \<Rightarrow> Inr r
      | None \<Rightarrow> Inl DirectQUICFailed)"

definition QUIC_OpenPairingSession ::
  "(string list \<Rightarrow> string list) \<Rightarrow> (string \<Rightarrow> net_error + 's) option \<Rightarrow>
   (string \<Rightarrow> string \<Rightarrow> net_error + string list \<times> string list) option \<Rightarrow> PairingTarget \<Rightarrow> net_error + 's PairingSession" where
  "QUIC_OpenPairingSession arrive transport discoverer target =
     (case transport of
        None \<Rightarrow> Inl (BackendNotRunning ''bittorrent_dht'')
      | Some dial \<Rightarrow>
          let found = (if pt_DirectQUICAddrs target = [] \<and> \<not> Option.is_none discoverer \<and> pt_PublicKeyHex target \<noteq> []
                then (the discoverer) (pt_PublicKeyHex target) (pt_PeerID target)
                else Inr (pt_RelayAddrs target, pt_DirectQUICAddrs target))
          in case found of
               Inl _ \<Rightarrow> Inl LookupFailed
             | Inr (relayAddrs, directAddrs) \<Rightarrow>
                 let ordered = orderDirectQUICAddrs directAddrs in
                 if ordered = [] then Inl (if pt_PublicKeyHex target = [] then MissingPublicKey else NoDirectQUICAddress)
                 else case openFirstPairingStream arrive dial (pt_PublicKeyHex target) ordered of
                   Inl e \<Rightarrow> Inl e
                 | Inr (s, endpoint) \<Rightarrow>
                     Inr \<lparr>ps_Stream = s, ps_RelayAddrs = relayAddrs, ps_IrohTicket = [],
                          ps_DirectQUICAddrs = ordered, ps_QUICEndpoint = endpoint\<rparr>)"

section \<open>The registry as a keyed store\<close>

text \<open>A table of entries by name, as the managers use the registry.\<close>

locale named_table =
  fixes put :: "'v \<Rightarrow> string list \<Rightarrow> 't \<Rightarrow> 't"
    and drop_names :: "string list \<Rightarrow> 't \<Rightarrow> 't"
    and get :: "string \<Rightarrow> 't \<Rightarrow> 'v option"
    and names_of :: "'v \<Rightarrow> string list \<Rightarrow> string list"
  assumes get_put: "get n (put v al t) = (if n \<noteq> [] \<and> n \<in> set (names_of v al) then Some v else get n t)"
    and get_drop: "get n (drop_names ns t) = (if n \<in> set ns then None else get n t)"
begin

lemma get_after_replace:
  "n \<noteq> [] \<Longrightarrow> n \<in> set (names_of v al) \<Longrightarrow> get n (put v al (drop_names ns t)) = Some v"
  by (simp add: get_put)

lemma drop_after_put:
  "set (names_of v al) \<subseteq> set ns \<Longrightarrow> get n (drop_names ns (put v al t)) = get n (drop_names ns t)"
  by (auto simp: get_put get_drop)

end

lemma Get_Register_fold:
  "Get n (foldl (\<lambda>r name. if name = [] then r else map_set name b r) r names) =
     (if n \<noteq> [] \<and> n \<in> set names then Some b else Get n r)"
  by (induction names arbitrary: r) (auto simp: Get_def go_map_simps)

lemma Get_Unregister: "Get n (Unregister ns r) = (if n \<in> set ns then None else Get n r)"
proof -
  have "map_get (foldl (\<lambda>r name. map_del name r) r ns) n = (if n \<in> set ns then None else map_get r n)"
    by (induction ns arbitrary: r) (auto simp: go_map_simps)
  then show ?thesis by (simp add: Get_def Unregister_def)
qed

interpretation registry: named_table "\<lambda>b. Register (Some b)" Unregister Get "\<lambda>b al. sb_Name b # al"
  by unfold_locales (simp_all only: Register_def option.case Get_Register_fold Get_Unregister)

text \<open>
  after a backend is registered under its name and aliases it is what the
  registry returns for each of them; after those names are unregistered none is
  found and opening a pairing session through them reports that the backend is not
  running; other names are not affected.
\<close>

theorem registry_lifecycle:
  assumes "n \<noteq> []" "n \<in> set (sb_Name b # aliases)"
  shows "MustGet n (Register (Some b) aliases r) = Inr b
    \<and> Registry_OpenPairingSession n target (Unregister (sb_Name b # aliases) (Register (Some b) aliases r))
        = Inl (BackendNotRunning n)
    \<and> (\<forall>m. m \<notin> set (sb_Name b # aliases) \<longrightarrow>
         Get m (Unregister (sb_Name b # aliases) (Register (Some b) aliases r)) = Get m r)"
  using assms
  by (simp add: MustGet_def registry.get_put registry.get_drop Registry_OpenPairingSession_def)

definition sample_backend :: "nat StreamBackend" where
  "sample_backend = \<lparr>sb_Name = ''iroh'', sb_OpenPairing = \<lambda>_. Inr 1, sb_OpenTunnel = \<lambda>_. Inr 2,
     sb_OpenPairingSession = None, sb_Start = None, sb_Stop = None\<rparr>"

theorem registry_lifecycle_witness:
  "MustGet ''iroh'' (Register (Some sample_backend) [''iroh_alias''] NewRegistry) = Inr sample_backend"
  using registry_lifecycle [of "''iroh''" sample_backend "[''iroh_alias'']" NewRegistry]
  by (simp add: sample_backend_def)

section \<open>Address order\<close>

lemma order_loop_correct:
  "order_loop seen pub priv as =
     (pub @ filter isPublicHostPort (uniq_loop (\<lambda>a. if TrimSpace a = [] then None else Some (TrimSpace a)) seen as),
      priv @ filter (\<lambda>a. \<not> isPublicHostPort a) (uniq_loop (\<lambda>a. if TrimSpace a = [] then None else Some (TrimSpace a)) seen as))"
  by (induction as arbitrary: seen pub priv) (simp_all add: Let_def)

text \<open>
  \<open>orderDirectQUICAddrs\<close> keeps each distinct non-blank address once, trimmed, and
  puts the publicly routable ones before the others.
\<close>

theorem orderDirectQUICAddrs_correct:
  "distinct (orderDirectQUICAddrs addrs)
   \<and> set (orderDirectQUICAddrs addrs) = {TrimSpace a | a. a \<in> set addrs \<and> TrimSpace a \<noteq> []}
   \<and> (\<exists>pub priv. orderDirectQUICAddrs addrs = pub @ priv
        \<and> list_all isPublicHostPort pub \<and> \<not> list_ex isPublicHostPort priv)"
proof -
  let ?u = "uniq_loop (\<lambda>a. if TrimSpace a = [] then None else Some (TrimSpace a)) [] addrs"
  have o: "orderDirectQUICAddrs addrs = filter isPublicHostPort ?u @ filter (\<lambda>a. \<not> isPublicHostPort a) ?u"
    by (simp add: orderDirectQUICAddrs_def order_loop_correct)
  have "distinct (orderDirectQUICAddrs addrs)" by (auto simp: o)
  moreover have "set (orderDirectQUICAddrs addrs) = set ?u" by (auto simp: o)
  moreover have "set ?u = {TrimSpace a | a. a \<in> set addrs \<and> TrimSpace a \<noteq> []}"
    by (auto simp: set_uniq_loop keys_of_def split: if_splits)
  moreover have "list_all isPublicHostPort (filter isPublicHostPort ?u)"
    "\<not> list_ex isPublicHostPort (filter (\<lambda>a. \<not> isPublicHostPort a) ?u)"
    by (auto simp: list_all_iff list_ex_iff)
  ultimately show ?thesis using o by blast
qed

section \<open>The dialling race\<close>

lemma first_stream_Some: "first_stream dial es = Some (s, e) \<Longrightarrow> e \<in> set es \<and> dial e = Inr s"
  by (induction es) (auto split: sum.splits)

lemma first_stream_None: "first_stream dial es = None \<longleftrightarrow> (\<forall>e \<in> set es. \<exists>x. dial e = Inl x)"
  by (induction es) (auto split: sum.splits)



end
