(* ===== verification/Node.thy ===== *)
theory Node
  imports Config Go_Net Token
begin

text \<open>
  The libp2p node, \<open>internal/node/node.go\<close> and \<open>internal/node/resolve.go\<close>: its
  lifecycle with the relay list, the relay reservations and the DHT client, the
  filtering of addresses it will dial, and the resolution of a peer's addresses.
  The multiaddr and libp2p libraries are arguments: a record of the functions the
  code calls, and the outcomes of dialling and reserving.
\<close>

section \<open>Addresses\<close>

text \<open>A peer identifier is its textual form.\<close>

type_synonym peer_id = string

record 'm AddrInfo =
  ai_ID :: peer_id
  ai_Addrs :: "'m list"

record 'm multiaddr_lib =
  ml_New :: "string \<Rightarrow> 'm option"
  ml_String :: "'m \<Rightarrow> string"
  ml_Value :: "'m \<Rightarrow> nat \<Rightarrow> string option"
  ml_AddrInfo :: "'m \<Rightarrow> 'm AddrInfo option"
  ml_Circuit :: "'m \<Rightarrow> peer_id \<Rightarrow> peer_id \<Rightarrow> 'm"
  ml_peer_Decode :: "string \<Rightarrow> peer_id option"

definition P_IP4 :: nat where "P_IP4 = 4"
definition P_IP6 :: nat where "P_IP6 = 41"

definition PublicRelays :: "string list" where
  "PublicRelays =
    [''/ip4/147.75.80.110/tcp/4001/p2p/QmbFgm5zan8P6eWWmeyfncR5feYEMPbht5b1FW1C37aQ7y'',
     ''/ip4/147.75.80.110/udp/4001/quic-v1/p2p/QmbFgm5zan8P6eWWmeyfncR5feYEMPbht5b1FW1C37aQ7y'',
     ''/ip4/147.75.195.153/tcp/4001/p2p/QmW9m57aiBDHAkKj9nmFSEn7ZqrcF1fZS4bipsTCHburei'',
     ''/ip4/147.75.195.153/udp/4001/quic-v1/p2p/QmW9m57aiBDHAkKj9nmFSEn7ZqrcF1fZS4bipsTCHburei'',
     ''/ip4/147.75.70.221/tcp/4001/p2p/Qme8g49gm3q4Acp7xWBKg3nAa9fxZ1YmyDJdyGgoG6LsXh'',
     ''/ip4/147.75.70.221/udp/4001/quic-v1/p2p/Qme8g49gm3q4Acp7xWBKg3nAa9fxZ1YmyDJdyGgoG6LsXh'']"

text \<open>The first of the two protocols that the address has decides.\<close>

definition isLoopbackMultiaddr :: "'m multiaddr_lib \<Rightarrow> 'm \<Rightarrow> bool" where
  "isLoopbackMultiaddr lib addr =
     (case List.find (\<lambda>proto. ml_Value lib addr proto \<noteq> None) [P_IP4, P_IP6] of
        None \<Rightarrow> False
      | Some proto \<Rightarrow> (case ParseIP (the (ml_Value lib addr proto)) of None \<Rightarrow> False | Some ip \<Rightarrow> IsLoopback ip))"

definition filterNonLoopbackMultiaddrs :: "'m multiaddr_lib \<Rightarrow> 'm list \<Rightarrow> 'm list" where
  "filterNonLoopbackMultiaddrs lib addrs = filter (\<lambda>a. \<not> isLoopbackMultiaddr lib a) addrs"

definition dialable_key :: "'m multiaddr_lib \<Rightarrow> string \<Rightarrow> string option" where
  "dialable_key lib raw =
     (case ml_New lib raw of
        None \<Rightarrow> None
      | Some ma \<Rightarrow> if isLoopbackMultiaddr lib ma then None else Some (ml_String lib ma))"

definition FilterExternallyDialableAddrs :: "'m multiaddr_lib \<Rightarrow> string list \<Rightarrow> string list" where
  "FilterExternallyDialableAddrs lib rawAddrs = uniq_loop (dialable_key lib) [] rawAddrs"

primrec append_unique_loop :: "'m multiaddr_lib \<Rightarrow> string list \<Rightarrow> 'm list \<Rightarrow> 'm list \<Rightarrow> 'm list" where
  "append_unique_loop lib seen dst [] = dst"
| "append_unique_loop lib seen dst (a # as) =
     (if ml_String lib a \<in> set seen then append_unique_loop lib seen dst as
      else append_unique_loop lib (ml_String lib a # seen) (dst @ [a]) as)"

definition appendUniqueMultiaddrs :: "'m multiaddr_lib \<Rightarrow> 'm list \<Rightarrow> 'm list \<Rightarrow> 'm list" where
  "appendUniqueMultiaddrs lib dst src = append_unique_loop lib (map (ml_String lib) dst) dst src"

definition short :: "string \<Rightarrow> string" where
  "short i = (if length i > 12 then take 12 i @ map char_of [226::nat, 128, 166] else i)"

definition buildAllRelayAddrs :: "string \<Rightarrow> string list" where
  "buildAllRelayAddrs hostPeerID = map (\<lambda>relay. relay @ ''/p2p-circuit/p2p/'' @ hostPeerID) PublicRelays"

text \<open>\<open>relayMaskToAddrs\<close> of \<open>pairing.go\<close>: the client's reading of the mask in an invite.\<close>

definition relayMaskToAddrs :: "byte \<Rightarrow> string \<Rightarrow> string list" where
  "relayMaskToAddrs msk hostPeerID =
     map (\<lambda>(i, relay). relay @ ''/p2p-circuit/p2p/'' @ hostPeerID)
       (filter (\<lambda>(i, relay). bit msk i) (enumerate 0 PublicRelays))"

section \<open>The node\<close>

datatype node_error =
    InvalidPeerID | OnlyLoopback | HostNotRunning | ConnectError | NoValidRelays | AllReservationsFailed nat nat
  | LoadPrivateKey | UnmarshalKey | DerivePeerID | CreateHost | UnsupportedLibp2pBackend | DHTInitFailed | DHTNotReady
  | DHTDisabled | DHTBootstrap | FindPeerFailed | NoExternalAddrs | OnlyLoopbackProvider | DecodePublicKey
  | NoDialAddresses | Unreachable | IndexPanic | NilPanic

record 'm Node =
  n_PeerID :: peer_id
  n_cfg :: Config
  n_Host :: bool
  n_backend :: string
  n_relayAddrs :: "'m list"
  n_relayInfos :: "'m AddrInfo list"
  n_relayRefusedUntil :: "instant list"
  n_lastRelayErr :: "node_error option"
  n_lastDHTErr :: "node_error option"
  n_dhtClient :: "nat option"
  n_relayCancel :: bool
  n_dhtCancel :: bool
  n_dhtGen :: "64 word"
  n_testRelayMask :: byte
  n_allowLoopbackDial :: bool
  n_addrsChanges :: "string list list"

text \<open>
  \<open>n_dhtClient\<close> names a running client; the cancel functions are present or nil;
  \<open>n_addrsChanges\<close> collects the arguments of the address callback.
\<close>

definition relayEnabled :: "'m Node \<Rightarrow> bool" where
  "relayEnabled n \<longleftrightarrow> n_backend n = ''libp2p_relay'' \<and> rl_Mode (cfg_Relay (n_cfg n)) \<noteq> []
     \<and> rl_Mode (cfg_Relay (n_cfg n)) \<noteq> ''disabled''"

definition dhtEnabled :: "'m Node \<Rightarrow> bool" where
  "dhtEnabled n \<longleftrightarrow> n_backend n = ''libp2p_dht'' \<and> dht_Mode (cfg_DHT (n_cfg n)) \<noteq> []
     \<and> dht_Mode (cfg_DHT (n_cfg n)) \<noteq> ''disabled''"

definition libp2pActive :: "'m Node \<Rightarrow> bool" where
  "libp2pActive n \<longleftrightarrow> relayEnabled n \<or> dhtEnabled n"

definition configuredLibp2pBackend :: "Config \<Rightarrow> string" where
  "configuredLibp2pBackend c =
     (let b = ActiveNetworkBackend (Some c) in if b \<in> {''libp2p_relay'', ''libp2p_dht''} then b else [])"

definition RelayMask :: "(peer_id \<Rightarrow> bool) \<Rightarrow> 'm Node \<Rightarrow> byte" where
  "RelayMask connected n =
     (if n_testRelayMask n \<noteq> 0 then n_testRelayMask n
      else if \<not> relayEnabled n then 0
      else if \<not> n_Host n then 0
      else foldl (\<lambda>msk (i, info). if connected (ai_ID info) then or msk (push_bit i 1) else msk) 0
             (enumerate 0 (take 8 (n_relayInfos n))))"

definition RelayAddrs :: "'m multiaddr_lib \<Rightarrow> 'm Node \<Rightarrow> string list" where
  "RelayAddrs lib n = (if \<not> relayEnabled n then [] else map (ml_String lib) (n_relayAddrs n))"

definition setRelayError :: "node_error option \<Rightarrow> 'm Node \<Rightarrow> 'm Node" where
  "setRelayError e n = n\<lparr>n_lastRelayErr := e\<rparr>"

definition setDHTError :: "node_error option \<Rightarrow> 'm Node \<Rightarrow> 'm Node" where
  "setDHTError e n = n\<lparr>n_lastDHTErr := e\<rparr>"

definition fireAddrsChange :: "'m multiaddr_lib \<Rightarrow> 'm Node \<Rightarrow> 'm Node" where
  "fireAddrsChange lib n = n\<lparr>n_addrsChanges := n_addrsChanges n @ [map (ml_String lib) (n_relayAddrs n)]\<rparr>"

subsection \<open>Relays\<close>

definition relay_raw_addrs :: "RelayConfig \<Rightarrow> string list option" where
  "relay_raw_addrs rc =
     (if rl_Mode rc \<in> {[], ''disabled''} then None
      else if rl_Mode rc = ''custom'' then Some (rl_Servers rc)
      else if rl_Mode rc = ''mixed'' then Some (PublicRelays @ rl_Servers rc)
      else Some PublicRelays)"

definition relay_info :: "'m multiaddr_lib \<Rightarrow> string \<Rightarrow> 'm AddrInfo option" where
  "relay_info lib raw =
     (case ml_New lib raw of
        None \<Rightarrow> None
      | Some ma \<Rightarrow>
          (case ml_AddrInfo lib ma of
             None \<Rightarrow> None
           | Some info \<Rightarrow>
               let addrs = filterNonLoopbackMultiaddrs lib (ai_Addrs info) in
               if addrs = [] then None else Some (info\<lparr>ai_Addrs := addrs\<rparr>)))"

text \<open>
  The loop over the raw addresses with its index of positions by peer; the first
  address of a peer opens its entry and later ones are merged into it.
\<close>

primrec resolve_loop ::
  "'m multiaddr_lib \<Rightarrow> (peer_id, nat) gomap \<Rightarrow> 'm AddrInfo list \<Rightarrow> string list \<Rightarrow> 'm AddrInfo list" where
  "resolve_loop lib byPeer infos [] = infos"
| "resolve_loop lib byPeer infos (raw # raws) =
     (case relay_info lib raw of
        None \<Rightarrow> resolve_loop lib byPeer infos raws
      | Some info \<Rightarrow>
          (case map_get byPeer (ai_ID info) of
             Some idx \<Rightarrow>
               resolve_loop lib byPeer
                 (infos[idx := (infos ! idx)\<lparr>ai_Addrs := appendUniqueMultiaddrs lib (ai_Addrs (infos ! idx)) (ai_Addrs info)\<rparr>]) raws
           | None \<Rightarrow> resolve_loop lib (map_set (ai_ID info) (length infos) byPeer) (infos @ [info]) raws))"

definition resolveRelays :: "'m multiaddr_lib \<Rightarrow> Config \<Rightarrow> node_error + 'm AddrInfo list" where
  "resolveRelays lib c =
     (case relay_raw_addrs (cfg_Relay c) of
        None \<Rightarrow> Inr []
      | Some raws \<Rightarrow>
          let infos = resolve_loop lib [] [] raws in
          if infos = [] then Inl NoValidRelays else Inr infos)"

text \<open>What one relay answers: the dial, then the reservation with its addresses.\<close>

datatype 'm relay_answer = RelayDialFailed | RelayRefused | RelayReserveFailed | RelayReserved "'m list"

definition reserve_one ::
  "'m multiaddr_lib \<Rightarrow> (peer_id \<Rightarrow> 'm relay_answer) \<Rightarrow> instant \<Rightarrow> peer_id \<Rightarrow> 'm AddrInfo \<Rightarrow> instant \<Rightarrow>
   (node_error + 'm list) \<times> instant" where
  "reserve_one lib answer now self info refused =
     (if \<not> IsZero refused \<and> Before now refused then (Inr [], refused)
      else case answer (ai_ID info) of
        RelayDialFailed \<Rightarrow> (Inl ConnectError, refused)
      | RelayRefused \<Rightarrow> (Inl ConnectError, now + 30 * minute)
      | RelayReserveFailed \<Rightarrow> (Inl ConnectError, refused)
      | RelayReserved addrs \<Rightarrow> (Inr (map (\<lambda>a. ml_Circuit lib a (ai_ID info) self) addrs), 0))"

definition oks :: "('e + 'a list) list \<Rightarrow> 'a list" where
  "oks rs = concat (map (\<lambda>r. case r of Inl _ \<Rightarrow> [] | Inr as \<Rightarrow> as) rs)"

definition fails :: "('e + 'a) list \<Rightarrow> nat" where
  "fails rs = length (filter (\<lambda>r. case r of Inl _ \<Rightarrow> True | Inr _ \<Rightarrow> False) rs)"

definition reserveAll ::
  "'m multiaddr_lib \<Rightarrow> (peer_id \<Rightarrow> 'm relay_answer) \<Rightarrow> instant \<Rightarrow> 'm Node \<Rightarrow> node_error option \<times> 'm Node" where
  "reserveAll lib answer now n =
     (if length (n_relayRefusedUntil n) < length (n_relayInfos n) then (Some IndexPanic, n\<lparr>n_relayAddrs := []\<rparr>)
      else
        let rs = map2 (reserve_one lib answer now (n_PeerID n)) (n_relayInfos n) (n_relayRefusedUntil n);
            refused = map snd rs @ drop (length (n_relayInfos n)) (n_relayRefusedUntil n);
            addrs = oks (map fst rs);
            n1 = n\<lparr>n_relayAddrs := addrs, n_relayRefusedUntil := refused\<rparr>
        in if addrs = [] then (Some (AllReservationsFailed (fails (map fst rs)) (length (n_relayInfos n))), n1)
           else (None, n1\<lparr>n_lastRelayErr := None\<rparr>))"

definition hasRelayInfo :: "peer_id \<Rightarrow> 'm Node \<Rightarrow> bool" where
  "hasRelayInfo i n = list_ex (\<lambda>ri. ai_ID ri = i) (n_relayInfos n)"

text \<open>The candidates are the relay-capable peers of the DHT client's routing table.\<close>

definition addDHTRelays :: "'m AddrInfo list \<Rightarrow> 'm Node \<Rightarrow> 'm Node" where
  "addDHTRelays candidates n =
     (if n_dhtClient n = None \<or> candidates = [] then n
      else foldl (\<lambda>n info. if hasRelayInfo (ai_ID info) n then n
              else n\<lparr>n_relayInfos := n_relayInfos n @ [info], n_relayRefusedUntil := n_relayRefusedUntil n @ [0]\<rparr>)
             n candidates)"

text \<open>
  \<open>reconnectWithBackoff\<close>: attempts until one succeeds with addresses or the
  context ends. The list holds, per attempt, the candidates of the DHT, the
  relays' answers and the time, and ends when the context does.
\<close>

primrec reconnectWithBackoff ::
  "'m multiaddr_lib \<Rightarrow> nat \<Rightarrow> ('m AddrInfo list \<times> (peer_id \<Rightarrow> 'm relay_answer) \<times> instant) list \<Rightarrow> 'm Node \<Rightarrow> 'm Node" where
  "reconnectWithBackoff lib attempt [] n = n"
| "reconnectWithBackoff lib attempt (t # ts) n =
     (case t of (cands, answer, now) \<Rightarrow>
        let n1 = (if Suc attempt > 3 then addDHTRelays cands n else n) in
        case reserveAll lib answer now n1 of (err, n2) \<Rightarrow>
          if err = None \<and> RelayAddrs lib n2 \<noteq> [] then fireAddrsChange lib (setRelayError None n2)
          else reconnectWithBackoff lib (Suc attempt) ts n2)"

definition reservationRefresh_tick ::
  "'m multiaddr_lib \<Rightarrow> (peer_id \<Rightarrow> 'm relay_answer) \<Rightarrow> instant \<Rightarrow> 'm Node \<Rightarrow> 'm Node" where
  "reservationRefresh_tick lib answer now n =
     (case reserveAll lib answer now n of
        (Some e, n1) \<Rightarrow> setRelayError (Some e) n1
      | (None, n1) \<Rightarrow> fireAddrsChange lib (setRelayError None n1))"

subsection \<open>Lifecycle\<close>

definition startRelayLoops :: "'m Node \<Rightarrow> 'm Node" where
  "startRelayLoops n = (if \<not> relayEnabled n then n else n\<lparr>n_relayCancel := True\<rparr>)"

definition startDHT :: "'m Node \<Rightarrow> 'm Node" where
  "startDHT n =
     (if \<not> dhtEnabled n then n\<lparr>n_dhtCancel := False, n_dhtClient := None\<rparr>
      else if \<not> n_Host n then setDHTError (Some HostNotRunning) n
      else n\<lparr>n_dhtCancel := True, n_dhtGen := n_dhtGen n + 1\<rparr>)"

text \<open>The goroutine of \<open>startDHT\<close> when \<open>dht.New\<close> returns, for the generation it was started with.\<close>

definition startDHT_done :: "64 word \<Rightarrow> bool \<Rightarrow> nat option \<Rightarrow> 'm Node \<Rightarrow> 'm Node" where
  "startDHT_done gen cancelled client n =
     (case client of
        None \<Rightarrow> if cancelled then n else setDHTError (Some DHTInitFailed) n
      | Some dc \<Rightarrow> if n_dhtGen n = gen then n\<lparr>n_dhtClient := Some dc, n_lastDHTErr := None\<rparr> else n)"

definition StopLibp2p :: "'m multiaddr_lib \<Rightarrow> 'm Node \<Rightarrow> 'm Node" where
  "StopLibp2p lib n =
     (let n1 = n\<lparr>n_relayCancel := False, n_dhtCancel := False, n_dhtClient := None, n_relayAddrs := [],
                 n_relayInfos := [], n_relayRefusedUntil := [], n_Host := False, n_backend := []\<rparr>
      in if \<not> n_Host n then n1 else fireAddrsChange lib n1)"

text \<open>
  The world the host is started in: whether the private key is accepted, the peer
  identifier of the host that libp2p creates, and how the relays answer.
\<close>

record 'm host_env =
  he_key :: "bytes \<Rightarrow> peer_id option"
  he_new :: "peer_id option"
  he_answer :: "peer_id \<Rightarrow> 'm relay_answer"
  he_now :: instant

definition connection_gater :: "Config \<Rightarrow> string list option" where
  "connection_gater c =
     (if rl_Mode (cfg_Relay c) = ''custom'' \<and> rl_Allowlist (cfg_Relay c) \<noteq> [] then Some (rl_Allowlist (cfg_Relay c)) else None)"

definition isAllowed :: "string list \<Rightarrow> peer_id \<Rightarrow> bool" where
  "isAllowed allowed p = list_ex (\<lambda>a. a = p) allowed"

definition host_reserve :: "'m multiaddr_lib \<Rightarrow> 'm host_env \<Rightarrow> 'm Node \<Rightarrow> 'm Node" where
  "host_reserve lib env n =
     (case reserveAll lib (he_answer env) (he_now env) n of
        (Some e, n1) \<Rightarrow> setRelayError (Some e) n1
      | (None, n1) \<Rightarrow> n1)"

definition startLibp2pHost :: "'m multiaddr_lib \<Rightarrow> 'm host_env \<Rightarrow> 'm Node \<Rightarrow> node_error option \<times> 'm Node" where
  "startLibp2pHost lib env n =
     (if n_Host n then (None, n)
      else case he_new env of
        None \<Rightarrow> (Some CreateHost, n)
      | Some pid \<Rightarrow>
          let n1 = n\<lparr>n_Host := True, n_PeerID := pid\<rparr>;
              n2 = (case resolveRelays lib (n_cfg n1) of
                      Inl e \<Rightarrow> setRelayError (Some e) n1
                    | Inr infos \<Rightarrow> n1\<lparr>n_relayInfos := infos, n_relayRefusedUntil := replicate (length infos) 0\<rparr>);
              n3 = (if relayEnabled n2 \<and> n_relayInfos n2 \<noteq> [] then host_reserve lib env n2 else n2)
          in (None, startDHT (startRelayLoops n3)))"

definition applyNetworkConfig ::
  "'m multiaddr_lib \<Rightarrow> 'm host_env \<Rightarrow> string \<Rightarrow> 'm Node \<Rightarrow> node_error option \<times> 'm Node" where
  "applyNetworkConfig lib env activeBackend n0 =
     (let n = n0\<lparr>n_backend := activeBackend, n_relayCancel := False, n_dhtCancel := False, n_dhtClient := None,
                 n_relayAddrs := [], n_relayInfos := [], n_relayRefusedUntil := []\<rparr>
      in if \<not> libp2pActive n then (None, StopLibp2p lib n)
         else if \<not> n_Host n then
           (case PrivateKeyBytes (n_cfg n) of
              Inl _ \<Rightarrow> (Some LoadPrivateKey, n)
            | Inr priv \<Rightarrow>
                if length priv < 64 then (Some IndexPanic, n)
                else if he_key env (take 64 priv) = None then (Some UnmarshalKey, n)
                else startLibp2pHost lib env n)
         else
           let n1 = (if relayEnabled n then
                 (case resolveRelays lib (n_cfg n) of
                    Inl e \<Rightarrow> setRelayError (Some e) n
                  | Inr infos \<Rightarrow> host_reserve lib env
                      (n\<lparr>n_relayInfos := infos, n_relayRefusedUntil := replicate (length infos) 0\<rparr>))
                 else n)
           in (None, startDHT (startRelayLoops (fireAddrsChange lib n1))))"

definition StartLibp2p ::
  "'m multiaddr_lib \<Rightarrow> 'm host_env \<Rightarrow> string \<Rightarrow> 'm Node \<Rightarrow> node_error option \<times> 'm Node" where
  "StartLibp2p lib env backend n =
     (let backend = CanonicalNetworkBackend backend in
      if backend \<noteq> ''libp2p_relay'' \<and> backend \<noteq> ''libp2p_dht'' then (Some UnsupportedLibp2pBackend, n)
      else applyNetworkConfig lib env backend n)"

definition ApplyNetworkConfig :: "'m multiaddr_lib \<Rightarrow> 'm host_env \<Rightarrow> 'm Node \<Rightarrow> node_error option \<times> 'm Node" where
  "ApplyNetworkConfig lib env n = applyNetworkConfig lib env (configuredLibp2pBackend (n_cfg n)) n"

definition fresh_node :: "Config \<Rightarrow> peer_id \<Rightarrow> 'm Node" where
  "fresh_node c pid =
     \<lparr>n_PeerID = pid, n_cfg = c, n_Host = False, n_backend = configuredLibp2pBackend c, n_relayAddrs = [],
      n_relayInfos = [], n_relayRefusedUntil = [], n_lastRelayErr = None, n_lastDHTErr = None, n_dhtClient = None,
      n_relayCancel = False, n_dhtCancel = False, n_dhtGen = 0, n_testRelayMask = 0, n_allowLoopbackDial = False,
      n_addrsChanges = []\<rparr>"

definition Node_New :: "'m multiaddr_lib \<Rightarrow> 'm host_env \<Rightarrow> Config \<Rightarrow> node_error + 'm Node" where
  "Node_New lib env c =
     (case PrivateKeyBytes c of
        Inl _ \<Rightarrow> Inl LoadPrivateKey
      | Inr priv \<Rightarrow>
          if length priv < 64 then Inl IndexPanic
          else case he_key env (take 64 priv) of
            None \<Rightarrow> Inl UnmarshalKey
          | Some pid \<Rightarrow>
              let n = fresh_node c pid in
              if \<not> libp2pActive n then Inr n
              else case startLibp2pHost lib env n of
                (Some e, _) \<Rightarrow> Inl e
              | (None, n1) \<Rightarrow> Inr n1)"

subsection \<open>Dialling\<close>

definition buildAddrInfo :: "'m multiaddr_lib \<Rightarrow> 'm Node \<Rightarrow> string \<Rightarrow> string list \<Rightarrow> node_error + 'm AddrInfo" where
  "buildAddrInfo lib n peerID relayAddrs =
     (case ml_peer_Decode lib peerID of
        None \<Rightarrow> Inl InvalidPeerID
      | Some pid \<Rightarrow>
          let mas = List.map_filter (ml_New lib) relayAddrs;
              skipped = filter (\<lambda>ma. \<not> n_allowLoopbackDial n \<and> isLoopbackMultiaddr lib ma) mas;
              addrs = filter (\<lambda>ma. \<not> (\<not> n_allowLoopbackDial n \<and> isLoopbackMultiaddr lib ma)) mas
          in if addrs = [] \<and> skipped \<noteq> [] then Inl OnlyLoopback
             else Inr \<lparr>ai_ID = pid, ai_Addrs = addrs\<rparr>)"

definition open_stream ::
  "'m multiaddr_lib \<Rightarrow> ('m AddrInfo \<Rightarrow> bool) \<Rightarrow> (peer_id \<Rightarrow> 's option) \<Rightarrow> 'm Node \<Rightarrow> string \<Rightarrow> string list \<Rightarrow> node_error + 's" where
  "open_stream lib connect new_stream n peerID relayAddrs =
     (if \<not> n_Host n then Inl HostNotRunning
      else case buildAddrInfo lib n peerID relayAddrs of
        Inl e \<Rightarrow> Inl e
      | Inr info \<Rightarrow>
          if \<not> connect info then Inl ConnectError
          else case new_stream (ai_ID info) of None \<Rightarrow> Inl ConnectError | Some s \<Rightarrow> Inr s)"

datatype ConnType = ConnDirect | ConnRelayed | ConnUnknown

definition ConnTypeFor :: "'m multiaddr_lib \<Rightarrow> (peer_id \<Rightarrow> string list) \<Rightarrow> 'm Node \<Rightarrow> string \<Rightarrow> ConnType" where
  "ConnTypeFor lib conns n peerID =
     (if \<not> n_Host n then ConnUnknown
      else case ml_peer_Decode lib peerID of
        None \<Rightarrow> ConnUnknown
      | Some pid \<Rightarrow>
          if list_ex (\<lambda>a. \<not> Contains a ''p2p-circuit'') (conns pid) then ConnDirect
          else if conns pid \<noteq> [] then ConnRelayed else ConnUnknown)"

text \<open>Waiting for the DHT client ends with the client, or with an error when DHT is off or time is up.\<close>

record 'm dht_env =
  de_client :: "node_error + nat"
  de_ready :: bool
  de_FindPeer :: "peer_id \<Rightarrow> 'm AddrInfo option"
  de_FindIdentityProvider :: "bytes \<Rightarrow> peer_id \<Rightarrow> 'm AddrInfo option"
  de_connect :: "'m AddrInfo \<Rightarrow> bool"

definition external_addrs :: "'m multiaddr_lib \<Rightarrow> 'm AddrInfo \<Rightarrow> string list" where
  "external_addrs lib info = map (ml_String lib) (filter (\<lambda>a. \<not> isLoopbackMultiaddr lib a) (ai_Addrs info))"

definition FindPeerAddrs :: "'m multiaddr_lib \<Rightarrow> 'm dht_env \<Rightarrow> string \<Rightarrow> node_error + string list" where
  "FindPeerAddrs lib env peerID =
     (case ml_peer_Decode lib peerID of
        None \<Rightarrow> Inl InvalidPeerID
      | Some pid \<Rightarrow>
          (case de_client env of
             Inl e \<Rightarrow> Inl e
           | Inr _ \<Rightarrow>
               if \<not> de_ready env then Inl DHTBootstrap
               else case de_FindPeer env pid of
                 None \<Rightarrow> Inl FindPeerFailed
               | Some info \<Rightarrow>
                   let out = external_addrs lib info in
                   if out = [] then Inl NoExternalAddrs else Inr out))"

definition FindIdentityAddrs ::
  "'m multiaddr_lib \<Rightarrow> 'm dht_env \<Rightarrow> 'm Node \<Rightarrow> string \<Rightarrow> string \<Rightarrow> node_error + string list" where
  "FindIdentityAddrs lib env n publicKeyHex expectedPeerID =
     (case hexDecode publicKeyHex of
        None \<Rightarrow> Inl DecodePublicKey
      | Some k \<Rightarrow>
          (case ml_peer_Decode lib expectedPeerID of
             None \<Rightarrow> Inl InvalidPeerID
           | Some expected \<Rightarrow>
               (case de_client env of
                  Inl e \<Rightarrow> Inl e
                | Inr _ \<Rightarrow>
                    if \<not> de_ready env then Inl DHTBootstrap
                    else case de_FindIdentityProvider env k expected of
                      None \<Rightarrow> Inl FindPeerFailed
                    | Some info \<Rightarrow>
                        if ai_Addrs info \<noteq> [] then
                          let out = external_addrs lib info in
                          if out = [] then Inl OnlyLoopbackProvider else Inr out
                        else if \<not> n_Host n then Inl HostNotRunning
                        else if \<not> de_connect env info then Inl ConnectError
                        else Inr [])))"

subsection \<open>Resolving a peer\<close>

record ResolveResult =
  rr_RelayAddrs :: "string list"
  rr_Source :: string

definition resolve_sets ::
  "'m Node \<Rightarrow> string \<Rightarrow> string list \<Rightarrow> string list \<Rightarrow> string list \<Rightarrow> ResolveResult list" where
  "resolve_sets n hostPeerID presenceAddrs storedAddrs btDHTAddrs =
     (if presenceAddrs \<noteq> [] then [\<lparr>rr_RelayAddrs = presenceAddrs, rr_Source = ''presence''\<rparr>] else [])
     @ (if storedAddrs \<noteq> [] then [\<lparr>rr_RelayAddrs = storedAddrs, rr_Source = ''stored''\<rparr>] else [])
     @ (if btDHTAddrs \<noteq> [] then [\<lparr>rr_RelayAddrs = btDHTAddrs, rr_Source = ''bittorrent-dht''\<rparr>] else [])
     @ (if relayEnabled n \<and> buildAllRelayAddrs hostPeerID \<noteq> []
        then [\<lparr>rr_RelayAddrs = buildAllRelayAddrs hostPeerID, rr_Source = ''all-relays''\<rparr>] else [])"

definition probeConnection ::
  "'m multiaddr_lib \<Rightarrow> ('m AddrInfo \<Rightarrow> bool) \<Rightarrow> 'm Node \<Rightarrow> string \<Rightarrow> string list \<Rightarrow> node_error option" where
  "probeConnection lib connect n hostPeerID relayAddrs =
     (if \<not> n_Host n then Some HostNotRunning
      else case buildAddrInfo lib n hostPeerID relayAddrs of
        Inl e \<Rightarrow> Some e
      | Inr info \<Rightarrow> if connect info then None else Some ConnectError)"

text \<open>
  The candidate sets are probed in parallel and the first success wins; \<open>arrive\<close> is
  the order of the results. Slicing a peer identifier of fewer than 12 bytes panics.
\<close>

definition ResolveAddrs ::
  "'m multiaddr_lib \<Rightarrow> (ResolveResult list \<Rightarrow> ResolveResult list) \<Rightarrow> ('m AddrInfo \<Rightarrow> bool) \<Rightarrow> 'm Node \<Rightarrow>
   string \<Rightarrow> string list \<Rightarrow> string list \<Rightarrow> string list \<Rightarrow> node_error + ResolveResult" where
  "ResolveAddrs lib arrive connect n hostPeerID presenceAddrs storedAddrs btDHTAddrs =
     (let sets = resolve_sets n hostPeerID presenceAddrs storedAddrs btDHTAddrs in
      if length hostPeerID < 12 then Inl IndexPanic
      else if sets = [] then Inl NoDialAddresses
      else case List.find (\<lambda>c. probeConnection lib connect n hostPeerID (rr_RelayAddrs c) = None) (arrive sets) of
        Some c \<Rightarrow> Inr c
      | None \<Rightarrow> Inl Unreachable)"

definition parallelFirst :: "(nat list \<Rightarrow> nat list) \<Rightarrow> (nat \<Rightarrow> node_error option) \<Rightarrow> nat \<Rightarrow> nat option \<times> node_error option" where
  "parallelFirst arrive run k =
     (case List.find (\<lambda>i. run i = None) (arrive [0..<k]) of
        Some i \<Rightarrow> (Some i, None)
      | None \<Rightarrow> (None, foldl (\<lambda>_ i. run i) None (arrive [0..<k])))"

section \<open>The relay list\<close>

text \<open>The loop's index names exactly the positions of the relays collected so far.\<close>

definition index_ok :: "(peer_id, nat) gomap \<Rightarrow> 'm AddrInfo list \<Rightarrow> bool" where
  "index_ok byPeer infos \<longleftrightarrow> (\<forall>p i. map_get byPeer p = Some i \<longleftrightarrow> i < length infos \<and> ai_ID (infos ! i) = p)"

definition relays_dialable :: "'m multiaddr_lib \<Rightarrow> 'm AddrInfo list \<Rightarrow> bool" where
  "relays_dialable lib infos \<longleftrightarrow>
     (\<forall>info \<in> set infos. ai_Addrs info \<noteq> [] \<and> (\<forall>a \<in> set (ai_Addrs info). \<not> isLoopbackMultiaddr lib a))"

lemma index_ok_distinct: "index_ok byPeer infos \<Longrightarrow> distinct (map ai_ID infos)"
  unfolding index_ok_def distinct_conv_nth length_map
  by (metis (no_types, lifting) nth_map option.inject)

lemma index_ok_push:
  assumes "index_ok byPeer infos" "map_get byPeer (ai_ID info) = None"
  shows "index_ok (map_set (ai_ID info) (length infos) byPeer) (infos @ [info])"
  unfolding index_ok_def
proof (intro allI)
  fix p i
  have old: "map_get byPeer p = Some i \<longleftrightarrow> i < length infos \<and> ai_ID (infos ! i) = p"
    using assms(1) by (simp add: index_ok_def)
  have new: "\<not> (i < length infos \<and> ai_ID (infos ! i) = ai_ID info)"
    using assms unfolding index_ok_def by (metis option.distinct(1))
  show "map_get (map_set (ai_ID info) (length infos) byPeer) p = Some i
     \<longleftrightarrow> i < length (infos @ [info]) \<and> ai_ID ((infos @ [info]) ! i) = p"
    using old new by (auto simp: go_map_simps nth_append less_Suc_eq)
qed

lemma index_ok_merge:
  assumes "index_ok byPeer infos" "idx < length infos"
  shows "index_ok byPeer (infos[idx := (infos ! idx)\<lparr>ai_Addrs := as\<rparr>])"
proof -
  have "ai_ID (infos[idx := (infos ! idx)\<lparr>ai_Addrs := as\<rparr>] ! i) = ai_ID (infos ! i)" if "i < length infos" for i
    using that by (cases "i = idx") simp_all
  then show ?thesis using assms(1) unfolding index_ok_def by (auto cong: conj_cong)
qed

lemma set_append_unique_loop: "set (append_unique_loop lib seen dst as) \<subseteq> set dst \<union> set as"
proof (induction as arbitrary: seen dst)
  case (Cons a as)
  show ?case
    using Cons.IH [of seen dst] Cons.IH [of "ml_String lib a # seen" "dst @ [a]"] by auto
qed simp

lemma append_unique_loop_prefix: "\<exists>rest. append_unique_loop lib seen dst as = dst @ rest"
proof (induction as arbitrary: seen dst)
  case (Cons a as)
  show ?case
    using Cons.IH [of seen dst] Cons.IH [of "ml_String lib a # seen" "dst @ [a]"] by auto
qed simp

lemma relay_info_dialable:
  "relay_info lib raw = Some info \<Longrightarrow> ai_Addrs info \<noteq> [] \<and> (\<forall>a \<in> set (ai_Addrs info). \<not> isLoopbackMultiaddr lib a)"
  by (auto simp: relay_info_def Let_def filterNonLoopbackMultiaddrs_def split: option.splits if_splits)

lemma relays_dialable_merge:
  assumes "relays_dialable lib infos" "idx < length infos" "\<forall>a \<in> set as. \<not> isLoopbackMultiaddr lib a"
  shows "relays_dialable lib
    (infos[idx := (infos ! idx)\<lparr>ai_Addrs := appendUniqueMultiaddrs lib (ai_Addrs (infos ! idx)) as\<rparr>])"
proof -
  let ?d = "ai_Addrs (infos ! idx)"
  have "infos ! idx \<in> set infos" using assms(2) by simp
  then have d: "?d \<noteq> []" "\<forall>a \<in> set ?d. \<not> isLoopbackMultiaddr lib a"
    using assms(1) by (auto simp: relays_dialable_def)
  obtain rest where "appendUniqueMultiaddrs lib ?d as = ?d @ rest"
    using append_unique_loop_prefix unfolding appendUniqueMultiaddrs_def by metis
  moreover have "set (appendUniqueMultiaddrs lib ?d as) \<subseteq> set ?d \<union> set as"
    unfolding appendUniqueMultiaddrs_def by (rule set_append_unique_loop)
  ultimately have m: "appendUniqueMultiaddrs lib ?d as \<noteq> []"
      "\<forall>a \<in> set (appendUniqueMultiaddrs lib ?d as). \<not> isLoopbackMultiaddr lib a"
    using d assms(3) by auto
  have sub: "set (infos[idx := x]) \<subseteq> insert x (set infos)" for x by (rule set_update_subset_insert)
  show ?thesis unfolding relays_dialable_def
  proof
    fix info assume "info \<in> set (infos[idx := (infos ! idx)\<lparr>ai_Addrs := appendUniqueMultiaddrs lib ?d as\<rparr>])"
    then consider "info = (infos ! idx)\<lparr>ai_Addrs := appendUniqueMultiaddrs lib ?d as\<rparr>" | "info \<in> set infos"
      using sub by blast
    then show "ai_Addrs info \<noteq> [] \<and> (\<forall>a \<in> set (ai_Addrs info). \<not> isLoopbackMultiaddr lib a)"
      using m assms(1) by cases (simp_all add: relays_dialable_def)
  qed
qed

definition relay_peer :: "'m multiaddr_lib \<Rightarrow> string \<Rightarrow> peer_id option" where
  "relay_peer lib raw = map_option ai_ID (relay_info lib raw)"

lemma map_ID_update:
  "idx < length infos \<Longrightarrow> map ai_ID (infos[idx := (infos ! idx)\<lparr>ai_Addrs := as\<rparr>]) = map ai_ID infos"
  by (rule nth_equalityI) (simp_all add: nth_list_update)

lemma ID_image_update [simp]:
  "idx < length infos \<Longrightarrow> ai_ID ` set (infos[idx := (infos ! idx)\<lparr>ai_Addrs := as\<rparr>]) = ai_ID ` set infos"
  using map_ID_update [of idx infos as] by (metis list.set_map)

lemma index_ok_None: "index_ok byPeer infos \<Longrightarrow> map_get byPeer p = None \<Longrightarrow> p \<notin> set (map ai_ID infos)"
  unfolding index_ok_def in_set_conv_nth by (metis length_map nth_map option.distinct(1))

lemma resolve_loop_correct:
  assumes "index_ok byPeer infos" "relays_dialable lib infos"
  shows "distinct (map ai_ID (resolve_loop lib byPeer infos raws)) \<and> relays_dialable lib (resolve_loop lib byPeer infos raws)
    \<and> ai_ID ` set (resolve_loop lib byPeer infos raws) = ai_ID ` set infos \<union> keys_of (relay_peer lib) raws"
  using assms
proof (induction raws arbitrary: byPeer infos)
  case Nil
  then show ?case by (simp add: index_ok_distinct keys_of_def)
next
  case (Cons raw raws)
  show ?case
  proof (cases "relay_info lib raw")
    case None
    then show ?thesis using Cons by (simp add: keys_of_Cons relay_peer_def)
  next
    case (Some info)
    note d = relay_info_dialable [OF Some]
    have k: "keys_of (relay_peer lib) (raw # raws) = insert (ai_ID info) (keys_of (relay_peer lib) raws)"
      using Some by (simp add: keys_of_Cons relay_peer_def)
    show ?thesis
    proof (cases "map_get byPeer (ai_ID info)")
      case None
      have "relays_dialable lib (infos @ [info])" using Cons.prems(2) d by (auto simp: relays_dialable_def)
      from Cons.IH [OF index_ok_push [OF Cons.prems(1) None] this]
      show ?thesis using Some None k by simp
    next
      case (Some idx)
      then have i: "idx < length infos" "ai_ID (infos ! idx) = ai_ID info"
        using Cons.prems(1) by (auto simp: index_ok_def)
      then have "ai_ID info \<in> ai_ID ` set infos" by (metis image_eqI nth_mem)
      moreover note Cons.IH [OF index_ok_merge [OF Cons.prems(1) i(1)] relays_dialable_merge [OF Cons.prems(2) i(1)],
          of "ai_Addrs info"]
      ultimately show ?thesis
        using \<open>relay_info lib raw = Some info\<close> Some k d i(1) by (simp add: insert_absorb)
    qed
  qed
qed

text \<open>
  the relay list of a configuration has one entry per relay peer, holding only
  addresses that other machines can reach, for exactly the peers of the configured
  addresses that parse; it fails only when no address is usable.
\<close>

theorem resolveRelays_correct:
  "case resolveRelays lib c of
     Inl e \<Rightarrow> e = NoValidRelays \<and> (\<exists>raws. relay_raw_addrs (cfg_Relay c) = Some raws \<and> keys_of (relay_peer lib) raws = {})
   | Inr infos \<Rightarrow> distinct (map ai_ID infos) \<and> relays_dialable lib infos
       \<and> (case relay_raw_addrs (cfg_Relay c) of
            None \<Rightarrow> infos = []
          | Some raws \<Rightarrow> ai_ID ` set infos = keys_of (relay_peer lib) raws)"
proof -
  have e: "index_ok [] ([] :: 'a AddrInfo list)" "relays_dialable lib []"
    by (simp_all add: index_ok_def relays_dialable_def)
  show ?thesis
  proof (cases "relay_raw_addrs (cfg_Relay c)")
    case None
    then show ?thesis by (simp add: resolveRelays_def e)
  next
    case (Some raws)
    note r = resolve_loop_correct [OF e, of raws]
    show ?thesis
    proof (cases "resolve_loop lib [] [] raws = []")
      case True
      then show ?thesis using Some r by (simp add: resolveRelays_def)
    next
      case False
      then show ?thesis using Some r by (simp add: resolveRelays_def)
    qed
  qed
qed

section \<open>The relay tables stay aligned\<close>

definition relays_ok :: "'m Node \<Rightarrow> bool" where
  "relays_ok n \<longleftrightarrow> length (n_relayRefusedUntil n) = length (n_relayInfos n) \<and> distinct (map ai_ID (n_relayInfos n))"

text \<open>What the operations of the node may do, in any order and interleaving of its critical sections.\<close>

datatype 'm node_op =
    OpApply "'m host_env"
  | OpStart "'m host_env" string
  | OpStop
  | OpDHTDone "64 word" bool "nat option"
  | OpRefresh "peer_id \<Rightarrow> 'm relay_answer" instant
  | OpReconnect "('m AddrInfo list \<times> (peer_id \<Rightarrow> 'm relay_answer) \<times> instant) list"
  | OpConfig "Config"

primrec node_step :: "'m multiaddr_lib \<Rightarrow> 'm Node \<Rightarrow> 'm node_op \<Rightarrow> 'm Node" where
  "node_step lib n (OpApply env) = snd (ApplyNetworkConfig lib env n)"
| "node_step lib n (OpStart env b) = snd (StartLibp2p lib env b n)"
| "node_step lib n OpStop = StopLibp2p lib n"
| "node_step lib n (OpDHTDone g c cl) = startDHT_done g c cl n"
| "node_step lib n (OpRefresh answer now) = reservationRefresh_tick lib answer now n"
| "node_step lib n (OpReconnect ts) = reconnectWithBackoff lib 0 ts n"
| "node_step lib n (OpConfig c) = n\<lparr>n_cfg := c\<rparr>"

lemma relays_ok_setters [simp]:
  "relays_ok (setRelayError e n) = relays_ok n" "relays_ok (setDHTError e n) = relays_ok n"
  "relays_ok (fireAddrsChange lib n) = relays_ok n" "relays_ok (startRelayLoops n) = relays_ok n"
  "relays_ok (startDHT n) = relays_ok n" "relays_ok (startDHT_done g c cl n) = relays_ok n"
  "relays_ok (n\<lparr>n_cfg := cf\<rparr>) = relays_ok n"
  by (auto simp: relays_ok_def setRelayError_def setDHTError_def fireAddrsChange_def startRelayLoops_def startDHT_def
      startDHT_done_def split: option.splits)

lemma relays_ok_StopLibp2p [simp]: "relays_ok (StopLibp2p lib n)"
  by (simp add: StopLibp2p_def Let_def) (simp add: relays_ok_def)

lemma reserveAll_keeps:
  assumes "relays_ok n"
  shows "relays_ok (snd (reserveAll lib answer now n)) \<and> fst (reserveAll lib answer now n) \<noteq> Some IndexPanic
    \<and> n_relayInfos (snd (reserveAll lib answer now n)) = n_relayInfos n
    \<and> n_cfg (snd (reserveAll lib answer now n)) = n_cfg n \<and> n_backend (snd (reserveAll lib answer now n)) = n_backend n"
  using assms by (simp add: reserveAll_def relays_ok_def Let_def)

lemma relays_ok_host_reserve [simp]: "relays_ok n \<Longrightarrow> relays_ok (host_reserve lib env n)"
  using reserveAll_keeps [of n lib "he_answer env" "he_now env"]
  by (auto simp: host_reserve_def split: prod.splits option.splits)

lemma relays_ok_refresh [simp]: "relays_ok n \<Longrightarrow> relays_ok (reservationRefresh_tick lib answer now n)"
  using reserveAll_keeps [of n lib answer now]
  by (auto simp: reservationRefresh_tick_def split: prod.splits option.splits)

lemma relays_ok_add_one:
  "relays_ok n \<Longrightarrow> \<not> hasRelayInfo (ai_ID info) n \<Longrightarrow>
     relays_ok (n\<lparr>n_relayInfos := n_relayInfos n @ [info], n_relayRefusedUntil := n_relayRefusedUntil n @ [0]\<rparr>)"
  by (auto simp: relays_ok_def hasRelayInfo_def list_ex_iff)

lemma relays_ok_addDHTRelays [simp]:
  assumes "relays_ok n"
  shows "relays_ok (addDHTRelays cands n)"
proof -
  let ?f = "\<lambda>n info. if hasRelayInfo (ai_ID info) n then n
              else n\<lparr>n_relayInfos := n_relayInfos n @ [info], n_relayRefusedUntil := n_relayRefusedUntil n @ [0]\<rparr>"
  have "relays_ok n \<Longrightarrow> relays_ok (foldl ?f n cands)" for n
    by (induction cands arbitrary: n) (simp_all add: relays_ok_add_one)
  then show ?thesis using assms by (simp add: addDHTRelays_def)
qed

lemma relays_ok_reconnect [simp]: "relays_ok n \<Longrightarrow> relays_ok (reconnectWithBackoff lib k ts n)"
proof (induction ts arbitrary: n k)
  case (Cons t ts)
  obtain cands answer now where t: "t = (cands, answer, now)" by (cases t)
  define n1 where "n1 = (if Suc k > 3 then addDHTRelays cands n else n)"
  have "relays_ok n1" using Cons.prems by (simp add: n1_def)
  obtain err n2 where r: "reserveAll lib answer now n1 = (err, n2)" by (cases "reserveAll lib answer now n1")
  then have "relays_ok n2" using reserveAll_keeps [OF \<open>relays_ok n1\<close>] by (metis snd_conv)
  then show ?case
    unfolding reconnectWithBackoff.simps t prod.case Let_def n1_def [symmetric] r
    using Cons.IH by simp
qed simp

lemma resolveRelays_distinct: "resolveRelays lib c = Inr infos \<Longrightarrow> distinct (map ai_ID infos)"
  using resolve_loop_correct [of "[]" "[]" lib]
  by (auto simp: resolveRelays_def index_ok_def relays_dialable_def Let_def split: option.splits if_splits)

lemma relays_ok_resolved:
  "resolveRelays lib c = Inr infos \<Longrightarrow>
     relays_ok (n\<lparr>n_relayInfos := infos, n_relayRefusedUntil := replicate (length infos) 0\<rparr>)"
  by (simp add: relays_ok_def resolveRelays_distinct)

lemma relays_ok_startLibp2pHost [simp]:
  assumes "relays_ok n"
  shows "relays_ok (snd (startLibp2pHost lib env n))"
proof (cases "n_Host n \<or> he_new env = None")
  case True
  then show ?thesis using assms by (auto simp: startLibp2pHost_def)
next
  case False
  then obtain pid where pid: "he_new env = Some pid" by blast
  let ?n1 = "n\<lparr>n_Host := True, n_PeerID := pid\<rparr>"
  let ?n2 = "case resolveRelays lib (n_cfg ?n1) of
                      Inl e \<Rightarrow> setRelayError (Some e) ?n1
                    | Inr infos \<Rightarrow> ?n1\<lparr>n_relayInfos := infos, n_relayRefusedUntil := replicate (length infos) 0\<rparr>"
  have "relays_ok ?n1" using assms by (simp add: relays_ok_def)
  then have "relays_ok ?n2"
    using relays_ok_resolved [of lib "n_cfg ?n1" _ ?n1] by (cases "resolveRelays lib (n_cfg ?n1)") auto
  then show ?thesis using False pid by (simp add: startLibp2pHost_def Let_def)
qed

lemma relays_ok_applyNetworkConfig [simp]: "relays_ok (snd (applyNetworkConfig lib env b n0))"
proof -
  let ?n = "n0\<lparr>n_backend := b, n_relayCancel := False, n_dhtCancel := False, n_dhtClient := None,
                 n_relayAddrs := [], n_relayInfos := [], n_relayRefusedUntil := []\<rparr>"
  have ok: "relays_ok ?n" by (simp add: relays_ok_def)
  have "relays_ok (case resolveRelays lib (n_cfg ?n) of
                    Inl e \<Rightarrow> setRelayError (Some e) ?n
                  | Inr infos \<Rightarrow> host_reserve lib env
                      (?n\<lparr>n_relayInfos := infos, n_relayRefusedUntil := replicate (length infos) 0\<rparr>))"
    using ok relays_ok_resolved [of lib "n_cfg ?n" _ ?n] by (cases "resolveRelays lib (n_cfg ?n)") auto
  then show ?thesis
    using ok unfolding applyNetworkConfig_def Let_def by (auto split: sum.splits)
qed

interpretation node_machine: guarded_machine "node_step lib" relays_ok for lib
proof
  fix n :: "'a Node" and a
  assume "relays_ok n"
  then show "relays_ok (node_step lib n a)"
    by (cases a) (simp_all add: ApplyNetworkConfig_def StartLibp2p_def Let_def)
qed

text \<open>
  C17: Whatever configuration changes, starts, stops, DHT completions, refreshes and
  reconnects a node goes through, every relay in its list has its own cool-off entry
  and appears once, so a reservation round never indexes out of range.
\<close>

theorem relay_tables_aligned:
  "length (n_relayRefusedUntil (foldl (node_step lib) (fresh_node c pid) ops))
     = length (n_relayInfos (foldl (node_step lib) (fresh_node c pid) ops))
   \<and> distinct (map ai_ID (n_relayInfos (foldl (node_step lib) (fresh_node c pid) ops)))
   \<and> fst (reserveAll lib answer now (foldl (node_step lib) (fresh_node c pid) ops)) \<noteq> Some IndexPanic"
proof -
  have "relays_ok (fresh_node c pid)" by (simp add: relays_ok_def fresh_node_def)
  then have "relays_ok (foldl (node_step lib) (fresh_node c pid) ops)" by (rule node_machine.run_ok)
  then show ?thesis using reserveAll_keeps relays_ok_def by blast
qed

section \<open>Masks\<close>

lemma bit_mask_fold:
  "bit (foldl (\<lambda>msk (i, info). if p info then or msk (push_bit i 1) else msk) (m :: byte) (enumerate k xs)) j
     \<longleftrightarrow> bit m j \<or> (j < 8 \<and> k \<le> j \<and> j < k + length xs \<and> p (xs ! (j - k)))"
proof (induction xs arbitrary: k m)
  case (Cons x xs)
  show ?case
  proof (cases "p x")
    case True
    then show ?thesis
      using Cons [of "or m (push_bit k 1)" "Suc k"]
      by (cases "j = k") (auto simp: bit_simps nth_Cons' Suc_diff_le intro: le_neq_implies_less)
  next
    case False
    then show ?thesis
      using Cons [of m "Suc k"]
      by (cases "j = k") (auto simp: nth_Cons' intro: le_neq_implies_less)
  qed
qed auto

lemma RelayMask_bit:
  assumes "n_testRelayMask n = 0" "relayEnabled n" "n_Host n"
  shows "bit (RelayMask connected n) j \<longleftrightarrow> j < 8 \<and> j < length (n_relayInfos n) \<and> connected (ai_ID (n_relayInfos n ! j))"
  using assms bit_mask_fold [of "\<lambda>info. connected (ai_ID info)" 0 0 "take 8 (n_relayInfos n)" j]
  by (auto simp: RelayMask_def)

lemma uniq_loop_map: "uniq_loop f seen xs = uniq_loop (\<lambda>x. x) seen (map f xs)"
  by (induction xs arbitrary: seen) (auto split: option.splits)

lemma resolve_loop_order:
  assumes "index_ok byPeer infos"
  shows "map ai_ID (resolve_loop lib byPeer infos raws)
    = map ai_ID infos @ uniq_loop (relay_peer lib) (rev (map ai_ID infos)) raws"
  using assms
proof (induction raws arbitrary: byPeer infos)
  case (Cons raw raws)
  show ?case
  proof (cases "relay_info lib raw")
    case None
    then show ?thesis using Cons by (simp add: relay_peer_def)
  next
    case (Some info)
    show ?thesis
    proof (cases "map_get byPeer (ai_ID info)")
      case None
      have "ai_ID info \<notin> set (map ai_ID infos)"
        using index_ok_None [OF Cons.prems None] .
      then show ?thesis
        using Cons.IH [OF index_ok_push [OF Cons.prems None]] Some None by (simp add: relay_peer_def)
    next
      case (Some idx)
      then have i: "idx < length infos" "ai_ID (infos ! idx) = ai_ID info"
        using Cons.prems by (auto simp: index_ok_def)
      then have m: "ai_ID info \<in> set (map ai_ID infos)" by (metis length_map nth_map nth_mem)
      then show ?thesis
        using Cons.IH [OF index_ok_merge [OF Cons.prems i(1)]] \<open>relay_info lib raw = Some info\<close> Some map_ID_update [OF i(1)]
        by (simp add: relay_peer_def del: map_update)
    qed
  qed
qed simp

lemma length_PublicRelays: "length PublicRelays = 6"
  by (simp only: PublicRelays_def list.size)

lemma enumerate_PublicRelays: "enumerate 0 PublicRelays = map (\<lambda>i. (i, PublicRelays ! i)) [0, 1, 2, 3, 4, 5]"
proof -
  have "enumerate 0 PublicRelays = map (\<lambda>i. (i, PublicRelays ! i)) [0..<6]"
    by (rule nth_equalityI) (simp_all add: length_PublicRelays nth_enumerate_eq)
  then show ?thesis by (simp add: upt_rec numeral_eq_Suc)
qed

lemma relay_order_public:
  assumes "map (relay_peer lib) PublicRelays = [Some p, Some p, Some q, Some q, Some r, Some r]" "distinct [p, q, r]"
    and "rl_Mode (cfg_Relay c) = ''public''" "resolveRelays lib c = Inr infos"
  shows "map ai_ID infos = [p, q, r]"
proof -
  have "relay_raw_addrs (cfg_Relay c) = Some PublicRelays" using assms(3) by (simp add: relay_raw_addrs_def)
  then have "infos = resolve_loop lib [] [] PublicRelays"
    using assms(4) by (auto simp: resolveRelays_def Let_def split: if_splits)
  then have "map ai_ID infos = uniq_loop (relay_peer lib) [] PublicRelays"
    using resolve_loop_order [of "[]" "[]" lib PublicRelays] by (simp add: index_ok_def)
  also have "\<dots> = [p, q, r]"
    using assms(1,2) by (subst uniq_loop_map) auto
  finally show ?thesis .
qed

text \<open>
  the mask in a relay invite is read by the client against another table than
  the host wrote it for. The host numbers the merged relays, the client the raw
  addresses, of which each public relay has two: a host connected to the second
  public relay only writes a mask that the client reads as an address of the first.
\<close>

theorem relay_mask_misread:
  assumes "map (relay_peer lib) PublicRelays = [Some p, Some p, Some q, Some q, Some r, Some r]" "distinct [p, q, r]"
    and "rl_Mode (cfg_Relay (n_cfg n)) = ''public''" "resolveRelays lib (n_cfg n) = Inr (n_relayInfos n)"
    and "n_testRelayMask n = 0" "relayEnabled n" "n_Host n"
  shows "RelayMask (\<lambda>x. x = q) n = 2
    \<and> relayMaskToAddrs (RelayMask (\<lambda>x. x = q) n) h = [PublicRelays ! 1 @ ''/p2p-circuit/p2p/'' @ h]
    \<and> relay_peer lib (PublicRelays ! 1) = Some p"
proof -
  have ids: "map ai_ID (n_relayInfos n) = [p, q, r]" by (rule relay_order_public [OF assms(1-4)])
  then obtain a b c where i: "n_relayInfos n = [a, b, c]" "ai_ID a = p" "ai_ID b = q" "ai_ID c = r"
    by (auto simp: map_eq_Cons_conv)
  have j: "bit (RelayMask (\<lambda>x. x = q) n) j \<longleftrightarrow> j = 1" for j
    using RelayMask_bit [OF assms(5-7), of "\<lambda>x. x = q" j] i assms(2)
    by (cases j) (auto simp: nth_Cons' split: if_splits)
  have two: "RelayMask (\<lambda>x. x = q) n = 2"
    by (rule bit_word_eqI) (auto simp: j bit_simps bit_2_iff)
  moreover have "relayMaskToAddrs 2 h = [PublicRelays ! 1 @ ''/p2p-circuit/p2p/'' @ h]"
    unfolding relayMaskToAddrs_def enumerate_PublicRelays by (simp add: bit_simps bit_2_iff)
  moreover have "relay_peer lib (PublicRelays ! 1) = Some p"
    using arg_cong [OF assms(1), of "\<lambda>xs. xs ! 1"] by (simp add: length_PublicRelays)
  ultimately show ?thesis by simp
qed

text \<open>A library that reads the peer off the address, to evaluate the model on.\<close>

definition toy_multiaddr :: "string multiaddr_lib" where
  "toy_multiaddr = \<lparr>ml_New = Some, ml_String = (\<lambda>s. s), ml_Value = (\<lambda>_ _. None),
     ml_AddrInfo = (\<lambda>m. Some \<lparr>ai_ID = take 2 (drop 12 m), ai_Addrs = [m]\<rparr>), ml_Circuit = (\<lambda>a _ _. a),
     ml_peer_Decode = Some\<rparr>"

definition relay_config :: Config where
  "relay_config = (defaultConfig ''h'')\<lparr>cfg_Relay := \<lparr>rl_Mode = ''public'', rl_Servers = [], rl_Allowlist = []\<rparr>\<rparr>"

definition relay_node :: "string Node" where
  "relay_node = (fresh_node relay_config ''me'')\<lparr>n_Host := True, n_backend := ''libp2p_relay'',
     n_relayInfos := projr (resolveRelays toy_multiaddr relay_config)\<rparr>"

lemma toy_relay_peers:
  "map (relay_peer toy_multiaddr) PublicRelays = [Some ''80'', Some ''80'', Some ''19'', Some ''19'', Some ''70'', Some ''70'']"
proof -
  have r: "relay_peer toy_multiaddr m = Some (take 2 (drop 12 m))" for m
    by (simp add: relay_peer_def relay_info_def toy_multiaddr_def filterNonLoopbackMultiaddrs_def isLoopbackMultiaddr_def Let_def)
  show ?thesis by (simp add: r PublicRelays_def)
qed

lemma toy_resolveRelays: "resolveRelays toy_multiaddr relay_config = Inr (n_relayInfos relay_node)"
proof -
  have "keys_of (relay_peer toy_multiaddr) PublicRelays \<noteq> {}"
    using toy_relay_peers keys_of_Cons [of "relay_peer toy_multiaddr" "PublicRelays ! 0" "tl PublicRelays"]
    by (simp add: PublicRelays_def)
  then have "resolve_loop toy_multiaddr [] [] PublicRelays \<noteq> []"
    using resolve_loop_correct [of "[]" "[]" toy_multiaddr PublicRelays] by (auto simp: index_ok_def relays_dialable_def)
  then show ?thesis
    by (simp add: relay_node_def resolveRelays_def relay_config_def relay_raw_addrs_def fresh_node_def)
qed

theorem relay_mask_misread_witness:
  "relayMaskToAddrs (RelayMask (\<lambda>x. x = ''19'') relay_node) ''host'' = [PublicRelays ! 1 @ ''/p2p-circuit/p2p/'' @ ''host'']
   \<and> relay_peer toy_multiaddr (PublicRelays ! 1) = Some ''80''"
proof -
  have c: "n_cfg relay_node = relay_config" "rl_Mode (cfg_Relay relay_config) = ''public''"
    by (simp_all add: relay_node_def fresh_node_def relay_config_def)
  then have "resolveRelays toy_multiaddr (n_cfg relay_node) = Inr (n_relayInfos relay_node)"
    using toy_resolveRelays by simp
  moreover have "n_testRelayMask relay_node = 0" "relayEnabled relay_node" "n_Host relay_node"
    using c by (simp_all add: relay_node_def fresh_node_def relayEnabled_def)
  moreover have "distinct [''80'', ''19'', ''70'' :: string]" by simp
  ultimately show ?thesis
    using relay_mask_misread [OF toy_relay_peers, of relay_node "''host''"] c by metis
qed

section \<open>Resolving\<close>



text \<open>
  The node dials no address of its own machine that it learnt from an invite,
  presence, the DHT or the saved configuration.
\<close>

lemma buildAddrInfo_external:
  assumes "\<not> n_allowLoopbackDial n" "buildAddrInfo lib n peerID relayAddrs = Inr info"
  shows "ml_peer_Decode lib peerID = Some (ai_ID info)
    \<and> (\<forall>a \<in> set (ai_Addrs info). \<not> isLoopbackMultiaddr lib a \<and> (\<exists>raw \<in> set relayAddrs. ml_New lib raw = Some a))"
proof -
  have "ml_peer_Decode lib peerID = Some (ai_ID info)"
    and "set (ai_Addrs info) \<subseteq> {a \<in> set (List.map_filter (ml_New lib) relayAddrs). \<not> isLoopbackMultiaddr lib a}"
    using assms by (auto simp: buildAddrInfo_def Let_def split: option.splits if_splits)
  then show ?thesis by (force simp: List.map_filter_def)
qed

lemma FilterExternallyDialableAddrs_correct:
  "distinct (FilterExternallyDialableAddrs lib raws)
   \<and> set (FilterExternallyDialableAddrs lib raws) = keys_of (dialable_key lib) raws"
  by (simp add: FilterExternallyDialableAddrs_def set_uniq_loop)

text \<open>A DHT client built for an earlier start is dropped, unless the node was only stopped meanwhile.\<close>

lemma startDHT_done_stale: "n_dhtGen n \<noteq> gen \<Longrightarrow> n_dhtClient (startDHT_done gen cc cl n) = n_dhtClient n"
  by (simp add: startDHT_done_def setDHTError_def split: option.splits)

lemma startDHT_done_after_stop:
  "n_Host (startDHT_done (n_dhtGen n) cc (Some dc) (StopLibp2p lib n)) = False
   \<and> n_dhtClient (startDHT_done (n_dhtGen n) cc (Some dc) (StopLibp2p lib n)) = Some dc"
  by (simp add: startDHT_done_def StopLibp2p_def fireAddrsChange_def Let_def)

end
