(* ===== verification/Handshake.thy ===== *)
theory Handshake
  imports Pairing_Safety Netbackend Node
begin

text \<open>
  The pairing handshake of \<open>internal/pairing/pairing.go\<close>: the host's handler of a
  pairing stream (\<open>handleIncomingConn\<close>), and the client's side, by invite link
  (\<open>ConnectByURL\<close>) and by a saved pairing (\<open>reauthOverStream\<close>). The bytes of the
  stream, the JSON codec, the clock, the random source, the ticket of the iroh
  backend and the file of the configuration are arguments. A handler runs to its
  end on the state it finds; within it the configuration is changed as the code
  changes it, also when the connection fails afterwards.
\<close>

section \<open>Tickets of the iroh sidecar\<close>

definition TicketPrefix :: string where "TicketPrefix = ''iroh-sidecar-v1:''"

text \<open>The base64 decoder, and the JSON reader of the field \<open>id\<close>.\<close>

record ticket_codec =
  tc_base64 :: "string \<Rightarrow> bytes option"
  tc_json_id :: "bytes \<Rightarrow> string option"

datatype ticket_error = IncompatibleTicket | DecodeTicket | ParseTicket | TicketWithoutID

definition TicketEndpointID :: "ticket_codec \<Rightarrow> string \<Rightarrow> ticket_error + string" where
  "TicketEndpointID tc ticket0 =
     (let ticket = TrimSpace ticket0 in
      if \<not> HasPrefix ticket TicketPrefix then Inl IncompatibleTicket
      else case tc_base64 tc (TrimPrefix ticket TicketPrefix) of
        None \<Rightarrow> Inl DecodeTicket
      | Some data \<Rightarrow>
          (case tc_json_id tc data of
             None \<Rightarrow> Inl ParseTicket
           | Some i \<Rightarrow> if TrimSpace i = [] then Inl TicketWithoutID else Inr (TrimSpace i)))"

definition IsTicket :: "ticket_codec \<Rightarrow> string \<Rightarrow> bool" where
  "IsTicket tc ticket = (case TicketEndpointID tc ticket of Inl _ \<Rightarrow> False | Inr _ \<Rightarrow> True)"

definition validateIrohTicket :: "ticket_codec \<Rightarrow> string \<Rightarrow> bytes \<Rightarrow> ticket_error option" where
  "validateIrohTicket tc ticket publicKey = (case TicketEndpointID tc ticket of Inl e \<Rightarrow> Some e | Inr _ \<Rightarrow> None)"

definition validateIrohTicketPeer :: "ticket_codec \<Rightarrow> string \<Rightarrow> string \<Rightarrow> ticket_error option" where
  "validateIrohTicketPeer tc ticket peerID = (case TicketEndpointID tc ticket of Inl e \<Rightarrow> Some e | Inr _ \<Rightarrow> None)"

section \<open>The host\<close>

datatype pair_reject =
    UnsupportedVersion "8 word" | MissingNodeID | InvalidNodeID | IdentityRejected identity_error | NotTrusted
  | TrustedIdentityMismatch identity_error | InviteRejected redeem_error | TokenIssueFailed | ProofSigningFailed identity_error

text \<open>What the host writes back: nothing, a response with \<open>OK: false\<close> and a reason, or the session.\<close>

datatype host_reply = NoReply | Rejected pair_reject | Accepted PairResponse

record handshake_env =
  hv_cr :: cryptography
  hv_unmarshalKey :: "bytes \<Rightarrow> private_key option"
  hv_decode :: "bytes \<Rightarrow> PairRequest option"
  hv_now :: instant
  hv_token :: "bytes option"
  hv_ticket :: "string option"
  hv_store :: config_store

definition pairRequestNodeID :: "cryptography \<Rightarrow> PairRequest \<Rightarrow> string \<Rightarrow> string \<Rightarrow> pair_reject + string" where
  "pairRequestNodeID cr req transportPeerID transportBackend =
     (let nodeID = TrimSpace (prq_NodeID req) in
      if nodeID = [] then
        (if transportBackend = BackendIroh then Inl MissingNodeID else Inr (TrimSpace transportPeerID))
      else if \<not> cr_peer_Decode cr nodeID then Inl InvalidNodeID
      else Inr nodeID)"

definition localAttestation :: "Manager \<Rightarrow> TPMAttestation option" where
  "localAttestation m = attestationForIdentity (m_identity m)"

definition trusted_entry :: "handshake_env \<Rightarrow> PairRequest \<Rightarrow> string \<Rightarrow> string \<Rightarrow> int \<Rightarrow> TrustedPeer" where
  "trusted_entry env req peer proto port =
     (case identityInfoFromAttestation (hv_cr env) (prq_Attestation req) of (backend, hardware, vendor, version, root) \<Rightarrow>
        \<lparr>tp_NodeID = peer, tp_Label = prq_Label req, tp_PublicKey = identityProofPublicKeyHex (prq_Identity req),
         tp_MachineID = identityProofMachineID (prq_Identity req), tp_Protocol = proto, tp_TargetPort = port,
         tp_IdentityBackend = backend, tp_HardwareBacked = hardware, tp_TPMVendor = vendor, tp_TPMVersion = version,
         tp_TPMRootThumbprint = root, tp_AddedAt = 0, tp_LastConnectedAt = hv_now env\<rparr>)"

definition store_trusted :: "handshake_env \<Rightarrow> TrustedPeer \<Rightarrow> Manager \<Rightarrow> Manager" where
  "store_trusted env p m = m\<lparr>m_cfg := snd (save_config (hv_store env) (AddTrustedPeer (hv_now env) p (m_cfg m)))\<rparr>"

text \<open>Mode \<open>trusted\<close>: the stored identity must match; the request may name another service.\<close>

definition trusted_branch ::
  "handshake_env \<Rightarrow> PairRequest \<Rightarrow> string \<Rightarrow> Manager \<Rightarrow> (pair_reject + string \<times> int) \<times> Manager" where
  "trusted_branch env req peer m =
     (case TrustedPeer_get peer (m_cfg m) of
        None \<Rightarrow> (Inl NotTrusted, m)
      | Some trusted \<Rightarrow>
          (case verifyStoredIdentity (tp_PublicKey trusted) (tp_MachineID trusted) (prq_Identity req) of
             Some e \<Rightarrow> (Inl (TrustedIdentityMismatch e), m)
           | None \<Rightarrow>
               let proto0 = configuredProtocol (m_cfg m);
                   port0 = configuredTargetPort (m_cfg m);
                   proto1 = (if tp_Protocol trusted \<noteq> [] then tp_Protocol trusted else proto0);
                   port1 = (if tp_TargetPort trusted > 0 then tp_TargetPort trusted else port0);
                   proto2 = (if prq_Protocol req \<noteq> [] then Protocol_String (ParseProtocol (prq_Protocol req)) else proto1);
                   port2 = (if prq_TargetPort req > 0 then prq_TargetPort req else port1)
               in (Inr (proto2, port2), store_trusted env (trusted_entry env req peer proto2 port2) m)))"

text \<open>Any other mode: the invite is redeemed; pairing also stores the peer as trusted.\<close>

definition invite_branch ::
  "handshake_env \<Rightarrow> PairRequest \<Rightarrow> string \<Rightarrow> Manager \<Rightarrow> (pair_reject + string \<times> int) \<times> Manager" where
  "invite_branch env req peer m =
     (case verifyAndConsume (hv_cr env) (hv_now env) (prq_InviteID req) (prq_Proof req) peer (prq_Mode req) m of
        (Inl e, m1) \<Rightarrow> (Inl (InviteRejected e), m1)
      | (Inr a, m1) \<Rightarrow>
          let port = effectiveTargetPort (Some (at m1 a));
              proto = Protocol_String (ParseProtocol (inv_Protocol (at m1 a)));
              m2 = record_use (hv_now env) a (prq_Label req) peer m1;
              m3 = (if prq_Mode req = ''pairing'' then store_trusted env (trusted_entry env req peer proto port) m2 else m2)
          in (Inr (proto, port), m3))"

definition respond ::
  "handshake_env \<Rightarrow> string \<Rightarrow> PairRequest \<Rightarrow> string \<Rightarrow> string \<Rightarrow> int \<Rightarrow> Manager \<Rightarrow> host_reply \<times> Manager" where
  "respond env transportBackend req peer proto port m =
     (case Issue (m_sessions m) (hv_token env) (hv_now env) peer port of
        (Inl _, s) \<Rightarrow> (Rejected TokenIssueFailed, m\<lparr>m_sessions := s\<rparr>)
      | (Inr sessionToken, s) \<Rightarrow>
          let m1 = m\<lparr>m_sessions := s\<rparr> in
          (case localProof (hv_cr env) (hv_unmarshalKey env) (m_cfg m1) (m_identity m1) ''response'' (m_nodeID m1) peer
                  (prq_InviteID req) (prq_Proof req) sessionToken (prq_Mode req) (TimeWindow (hv_now env)) of
             Inl e \<Rightarrow> (Rejected (ProofSigningFailed e), m1)
           | Inr responseProof \<Rightarrow>
               let ticket = (if transportBackend = BackendIroh then (case hv_ticket env of Some t \<Rightarrow> t | None \<Rightarrow> []) else [])
               in (Accepted \<lparr>prs_OK = True, prs_Message = ''authenticated'', prs_HostLabel = nd_Label (cfg_Node (m_cfg m1)),
                     prs_SessionToken = sessionToken, prs_Protocol = proto, prs_TargetPort = port, prs_IrohTicket = ticket,
                     prs_Attestation = localAttestation m1, prs_Identity = Some responseProof\<rparr>, m1)))"

definition handle_request ::
  "handshake_env \<Rightarrow> string \<Rightarrow> string \<Rightarrow> PairRequest \<Rightarrow> Manager \<Rightarrow> host_reply \<times> Manager" where
  "handle_request env remotePeerID transportBackend req m =
     (if prq_Version req > Version then (Rejected (UnsupportedVersion (prq_Version req)), m)
      else case pairRequestNodeID (hv_cr env) req remotePeerID transportBackend of
        Inl e \<Rightarrow> (Rejected e, m)
      | Inr peer \<Rightarrow>
          (case verifyIdentityProof (hv_cr env) (hv_now env) (prq_Identity req) (prq_Attestation req) ''request'' peer
                  (m_nodeID m) (prq_InviteID req) (prq_Proof req) [] (prq_Mode req) of
             Some e \<Rightarrow> (Rejected (IdentityRejected e), m)
           | None \<Rightarrow>
               (case (if prq_Mode req = ''trusted'' then trusted_branch env req peer m else invite_branch env req peer m) of
                  (Inl e, m1) \<Rightarrow> (Rejected e, m1)
                | (Inr (proto, port), m1) \<Rightarrow> respond env transportBackend req peer proto port m1)))"

definition handleIncomingConn ::
  "handshake_env \<Rightarrow> bytes \<Rightarrow> string \<Rightarrow> string \<Rightarrow> Manager \<Rightarrow> host_reply \<times> Manager" where
  "handleIncomingConn env incoming remotePeerID transportBackend m =
     (case ReadFrame incoming of
        (Inl _, _) \<Rightarrow> (NoReply, m)
      | (Inr (msgType, payload), _) \<Rightarrow>
          if msgType \<noteq> MsgPairRequest then (NoReply, m)
          else case Decode (hv_decode env) payload of
            None \<Rightarrow> (NoReply, m)
          | Some req \<Rightarrow> handle_request env remotePeerID transportBackend req m)"

section \<open>The client\<close>

datatype client_error =
    BadInviteVersion version_error | BadLink token_decode_error | ClientLinkExpired | DerivePeer | MissingIrohTicket
  | BadIrohTicket ticket_error | SignIdentityProof identity_error | IrohDirectUDPFailed net_error | IrohOpenTimedOut net_error
  | IrohUnreachable net_error | DHTDirectDialFailed net_error | BitTorrentUnreachable net_error | CannotReachHost net_error
  | SendRequestFailed | HostDidNotAnswer | ContextEnded | UnexpectedResponse MsgType | DecodeResponse | HostRejected string
  | NoSessionToken | HostIdentityRejected identity_error | HostIdentityChanged identity_error
  | RefreshedTicketRejected ticket_error | SavePairedRemote | PeerIDPanic | MissingPeerNodeID

text \<open>
  \<open>readFrameWithContext\<close> races the frame against the end of the context: there is
  no context, the frame came first, or the context ended first and the frame came
  within the grace period or not.
\<close>

datatype frame_wait =
    NoContext "frame_error + MsgType \<times> bytes"
  | FrameFirst "frame_error + MsgType \<times> bytes"
  | ContextFirst "(frame_error + MsgType \<times> bytes) option"

definition readFrameWithContext :: "frame_wait \<Rightarrow> client_error + MsgType \<times> bytes" where
  "readFrameWithContext wait =
     (case wait of
        NoContext r \<Rightarrow> (case r of Inl _ \<Rightarrow> Inl HostDidNotAnswer | Inr f \<Rightarrow> Inr f)
      | FrameFirst r \<Rightarrow> (case r of Inl _ \<Rightarrow> Inl HostDidNotAnswer | Inr f \<Rightarrow> Inr f)
      | ContextFirst late \<Rightarrow> Inl ContextEnded)"

record ('s, 'm) client_env =
  cl_cr :: cryptography
  cl_unmarshalKey :: "bytes \<Rightarrow> private_key option"
  cl_now :: instant
  cl_codec :: ticket_codec
  cl_registry :: "'s Registry"
  cl_message :: "net_error \<Rightarrow> string"
  cl_send :: "'s \<Rightarrow> PairRequest \<Rightarrow> bool"
  cl_receive :: "'s \<Rightarrow> PairRequest \<Rightarrow> frame_wait"
  cl_decode :: "bytes \<Rightarrow> PairResponse option"
  cl_lib :: "'m multiaddr_lib"
  cl_allowLoopbackDial :: bool
  cl_store :: config_store
  cl_presence :: "string \<Rightarrow> string list"

record ConnectResult =
  cn_PeerID :: string
  cn_RelayAddrs :: "string list"
  cn_IrohTicket :: string
  cn_BitTorrentQUICEndpoint :: string
  cn_HostLabel :: string
  cn_Mode :: string
  cn_Protocol :: string
  cn_TargetPort :: int
  cn_SessionToken :: bytes

definition storableRelayAddrs :: "('s, 'm) client_env \<Rightarrow> string list \<Rightarrow> string list" where
  "storableRelayAddrs env relayAddrs =
     (if cl_allowLoopbackDial env then relayAddrs else FilterExternallyDialableAddrs (cl_lib env) relayAddrs)"

definition isIrohDirectConnectError :: "string \<Rightarrow> bool" where
  "isIrohDirectConnectError message =
     (let msg = ToLower message in
      Contains msg ''direct udp connect failed'' \<or> Contains msg ''relay disabled''
      \<or> Contains msg ''hole punching/direct path did not complete'')"

definition isIrohOpenTimeout :: "string \<Rightarrow> bool" where
  "isIrohOpenTimeout message =
     (let msg = ToLower message in
      Contains msg ''/open'' \<and> (Contains msg ''timed out'' \<or> Contains msg ''timeout''
        \<or> Contains msg ''deadline exceeded'' \<or> Contains msg ''awaiting headers''))"

subsection \<open>Connecting by link\<close>

text \<open>What the link says: where and how to dial.\<close>

record dial_plan =
  dp_token :: Token
  dp_peerID :: string
  dp_publicKeyHex :: string
  dp_relayAddrs :: "string list"
  dp_backend :: string
  dp_irohTicket :: string

definition link_plan :: "cryptography \<Rightarrow> ticket_codec \<Rightarrow> instant \<Rightarrow> string \<Rightarrow> string \<Rightarrow> client_error + dial_plan" where
  "link_plan cr tc now activeBackend rawURL =
     (case validateInviteFormatVersion rawURL of
        Some e \<Rightarrow> Inl (BadInviteVersion e)
      | None \<Rightarrow>
          (case DecodeURL rawURL of
             Inl e \<Rightarrow> Inl (BadLink e)
           | Inr t \<Rightarrow>
               if IsExpired now t then Inl ClientLinkExpired
               else case pubKeyToPeerID cr (tok_PubKey t) of
                 None \<Rightarrow> Inl DerivePeer
               | Some derived \<Rightarrow>
                   let irohTicket = irohEndpointTicketFromURL rawURL;
                       explicitAddrs = inviteAddrsFromURL rawURL;
                       peerID = (if explicitAddrs \<noteq> [] \<and> invitePeerFromURL rawURL \<noteq> [] then invitePeerFromURL rawURL
                                 else derived);
                       relayAddrs = (if explicitAddrs = [] then relayMaskToAddrs (tok_RelayMask t) peerID else explicitAddrs);
                       linkBackend = inviteBackendFromURL rawURL;
                       backend = (if linkBackend \<noteq> [] then linkBackend
                                  else if irohTicket \<noteq> [] then ''iroh''
                                  else if relayAddrs \<noteq> [] then BackendLibp2pRelay
                                  else activeBackend);
                       plan = \<lparr>dp_token = t, dp_peerID = peerID, dp_publicKeyHex = hexEncode (tok_PubKey t),
                               dp_relayAddrs = relayAddrs, dp_backend = backend, dp_irohTicket = irohTicket\<rparr>
                   in if backend = ''iroh'' \<or> irohTicket \<noteq> [] then
                        (if irohTicket = [] then Inl MissingIrohTicket
                         else case validateIrohTicket tc irohTicket (tok_PubKey t) of
                           Some e \<Rightarrow> Inl (BadIrohTicket e)
                         | None \<Rightarrow> Inr plan)
                      else Inr plan))"

definition link_request :: "('s, 'm) client_env \<Rightarrow> dial_plan \<Rightarrow> Manager \<Rightarrow> client_error + PairRequest" where
  "link_request env plan m =
     (let t = dp_token plan; mode = ModeString t; window = TimeWindow (cl_now env);
          proof = InviteProof (cr_hmac (cl_cr env)) (tok_InviteSecret t) (tok_InviteID t) (dp_peerID plan) (m_nodeID m) mode window
      in case localProof (cl_cr env) (cl_unmarshalKey env) (m_cfg m) (m_identity m) ''request'' (m_nodeID m) (dp_peerID plan)
                (tok_InviteID t) proof [] mode window of
           Inl e \<Rightarrow> Inl (SignIdentityProof e)
         | Inr idp \<Rightarrow> Inr \<lparr>prq_Version = Version, prq_NodeID = m_nodeID m, prq_InviteID = tok_InviteID t, prq_Proof = proof,
              prq_Mode = mode, prq_Label = nd_Label (cfg_Node (m_cfg m)), prq_Protocol = [], prq_TargetPort = 0,
              prq_Attestation = localAttestation m, prq_Identity = Some idp\<rparr>)"

text \<open>Sending a request and reading a response that carries a session token.\<close>

definition exchange :: "('s, 'm) client_env \<Rightarrow> 's \<Rightarrow> PairRequest \<Rightarrow> client_error + PairResponse" where
  "exchange env stream req =
     (if \<not> cl_send env stream req then Inl SendRequestFailed
      else case readFrameWithContext (cl_receive env stream req) of
        Inl e \<Rightarrow> Inl e
      | Inr (msgType, payload) \<Rightarrow>
          if msgType \<noteq> MsgPairResponse then Inl (UnexpectedResponse msgType)
          else case Decode (cl_decode env) payload of
            None \<Rightarrow> Inl DecodeResponse
          | Some resp \<Rightarrow>
              if \<not> prs_OK resp then Inl (HostRejected (prs_Message resp))
              else if prs_SessionToken resp = [] then Inl NoSessionToken
              else Inr resp)"

definition open_link_session ::
  "('s, 'm) client_env \<Rightarrow> dial_plan \<Rightarrow> client_error + 's PairingSession" where
  "open_link_session env plan =
     (let backendName = (if dp_backend plan = [] then BackendLibp2pRelay else dp_backend plan) in
      case Registry_OpenPairingSession backendName
             \<lparr>pt_Backend = [], pt_PeerID = dp_peerID plan, pt_PublicKeyHex = dp_publicKeyHex plan,
              pt_IrohTicket = dp_irohTicket plan, pt_RelayAddrs = dp_relayAddrs plan, pt_PresenceAddrs = [],
              pt_StoredAddrs = [], pt_DirectQUICAddrs = []\<rparr> (cl_registry env) of
        Inr session \<Rightarrow> Inr session
      | Inl e \<Rightarrow>
          if (dp_backend plan = ''iroh'' \<or> dp_irohTicket plan \<noteq> []) \<and> isIrohDirectConnectError (cl_message env e)
          then Inl (IrohDirectUDPFailed e)
          else if dp_backend plan = BackendLibp2pDHT then Inl (DHTDirectDialFailed e)
          else Inl (CannotReachHost e))"

definition remote_entry ::
  "('s, 'm) client_env \<Rightarrow> PairResponse \<Rightarrow> string \<Rightarrow> string \<Rightarrow> string \<Rightarrow> int \<Rightarrow> string list \<Rightarrow> string \<Rightarrow> string list \<Rightarrow> RemoteConfig" where
  "remote_entry env resp peerID backend proto port relayAddrs ticket quicAddrs =
     (case identityInfoFromAttestation (cl_cr env) (prs_Attestation resp) of (idBackend, hardware, vendor, version, root) \<Rightarrow>
        \<lparr>rc_Label = prs_HostLabel resp, rc_NodeID = peerID, rc_PublicKey = identityProofPublicKeyHex (prs_Identity resp),
         rc_MachineID = identityProofMachineID (prs_Identity resp), rc_Backend = backend, rc_Protocol = proto,
         rc_TargetPort = port, rc_RelayAddrs = storableRelayAddrs env relayAddrs, rc_IrohTicket = ticket,
         rc_DirectQUICAddrs = quicAddrs, rc_IdentityBackend = idBackend, rc_HardwareBacked = hardware, rc_TPMVendor = vendor,
         rc_TPMVersion = version, rc_TPMRootThumbprint = root, rc_AddedAt = 0, rc_LastConnectedAt = cl_now env\<rparr>)"

definition accept_link_response ::
  "('s, 'm) client_env \<Rightarrow> dial_plan \<Rightarrow> 's PairingSession \<Rightarrow> PairRequest \<Rightarrow> PairResponse \<Rightarrow> Manager \<Rightarrow>
   (client_error + ConnectResult) \<times> Manager" where
  "accept_link_response env plan session req resp m =
     (let t = dp_token plan; peerID = dp_peerID plan; mode = ModeString t in
      case verifyIdentityProof (cl_cr env) (cl_now env) (prs_Identity resp) (prs_Attestation resp) ''response'' peerID
             (m_nodeID m) (tok_InviteID t) (prq_Proof req) (prs_SessionToken resp) mode of
        Some e \<Rightarrow> (Inl (HostIdentityRejected e), m)
      | None \<Rightarrow>
          (case (if prs_IrohTicket resp \<noteq> [] then validateIrohTicket (cl_codec env) (prs_IrohTicket resp) (tok_PubKey t) else None) of
             Some e \<Rightarrow> (Inl (RefreshedTicketRejected e), m)
           | None \<Rightarrow>
               let ticket = (if prs_IrohTicket resp \<noteq> [] then prs_IrohTicket resp else ps_IrohTicket session);
                   port = (if prs_TargetPort resp = 0 then Port t else prs_TargetPort resp);
                   result = \<lparr>cn_PeerID = peerID, cn_RelayAddrs = ps_RelayAddrs session, cn_IrohTicket = ticket,
                             cn_BitTorrentQUICEndpoint = ps_QUICEndpoint session, cn_HostLabel = prs_HostLabel resp,
                             cn_Mode = mode, cn_Protocol = Protocol_String (tok_Protocol t), cn_TargetPort = port,
                             cn_SessionToken = prs_SessionToken resp\<rparr>
               in if mode = ''pairing'' then
                    (case save_config (cl_store env)
                            (AddRemote (cl_now env) (remote_entry env resp peerID (dp_backend plan) (Protocol_String (tok_Protocol t))
                                port (ps_RelayAddrs session) ticket (ps_DirectQUICAddrs session)) (m_cfg m)) of
                       (Some _, c) \<Rightarrow> (Inl SavePairedRemote, m\<lparr>m_cfg := c\<rparr>)
                     | (None, c) \<Rightarrow>
                         if length peerID < 12 then (Inl PeerIDPanic, m\<lparr>m_cfg := c\<rparr>)
                         else (Inr result, m\<lparr>m_cfg := c\<rparr>))
                  else (Inr result, m)))"

definition ConnectByURL ::
  "('s, 'm) client_env \<Rightarrow> string \<Rightarrow> Manager \<Rightarrow> (client_error + ConnectResult) \<times> Manager" where
  "ConnectByURL env rawURL m =
     (case link_plan (cl_cr env) (cl_codec env) (cl_now env) (activeNetworkBackend m) rawURL of
        Inl e \<Rightarrow> (Inl e, m)
      | Inr plan \<Rightarrow>
          (case link_request env plan m of
             Inl e \<Rightarrow> (Inl e, m)
           | Inr req \<Rightarrow>
               (case open_link_session env plan of
                  Inl e \<Rightarrow> (Inl e, m)
                | Inr session \<Rightarrow>
                    (case exchange env (ps_Stream session) req of
                       Inl e \<Rightarrow> (Inl e, m)
                     | Inr resp \<Rightarrow> accept_link_response env plan session req resp m))))"

subsection \<open>Reconnecting to a paired host\<close>

definition RemoteBackend :: "Manager \<Rightarrow> string \<Rightarrow> string" where
  "RemoteBackend m peerID =
     (case List.find (\<lambda>r. rc_NodeID r = peerID) (cfg_Remotes (m_cfg m)) of None \<Rightarrow> [] | Some r \<Rightarrow> TrimSpace (rc_Backend r))"

definition RemoteService :: "Manager \<Rightarrow> string \<Rightarrow> RemoteConfig option" where
  "RemoteService m k = List.find (\<lambda>r. RemoteServiceKey r = k) (cfg_Remotes (m_cfg m))"

definition empty_remote :: "string \<Rightarrow> RemoteConfig" where
  "empty_remote peerID =
     \<lparr>rc_Label = [], rc_NodeID = peerID, rc_PublicKey = [], rc_MachineID = [], rc_Backend = [], rc_Protocol = [],
      rc_TargetPort = 0, rc_RelayAddrs = [], rc_IrohTicket = [], rc_DirectQUICAddrs = [], rc_IdentityBackend = [],
      rc_HardwareBacked = False, rc_TPMVendor = [], rc_TPMVersion = [], rc_TPMRootThumbprint = [], rc_AddedAt = 0,
      rc_LastConnectedAt = 0\<rparr>"

definition reauth_request :: "('s, 'm) client_env \<Rightarrow> string \<Rightarrow> string \<Rightarrow> int \<Rightarrow> Manager \<Rightarrow> client_error + PairRequest" where
  "reauth_request env peerID storedProtocol storedTargetPort m =
     (case localProof (cl_cr env) (cl_unmarshalKey env) (m_cfg m) (m_identity m) ''request'' (m_nodeID m) peerID
             [] [] [] ''trusted'' (TimeWindow (cl_now env)) of
        Inl e \<Rightarrow> Inl (SignIdentityProof e)
      | Inr idp \<Rightarrow> Inr \<lparr>prq_Version = Version, prq_NodeID = m_nodeID m, prq_InviteID = [], prq_Proof = [],
           prq_Mode = ''trusted'', prq_Label = nd_Label (cfg_Node (m_cfg m)), prq_Protocol = storedProtocol,
           prq_TargetPort = storedTargetPort, prq_Attestation = localAttestation m, prq_Identity = Some idp\<rparr>)"

definition accept_reauth_response ::
  "('s, 'm) client_env \<Rightarrow> string \<Rightarrow> 's PairingSession \<Rightarrow> RemoteConfig \<Rightarrow> string \<Rightarrow> PairResponse \<Rightarrow> Manager \<Rightarrow>
   (client_error + ConnectResult) \<times> Manager" where
  "accept_reauth_response env peerID session remote networkBackend resp m =
     (case verifyIdentityProof (cl_cr env) (cl_now env) (prs_Identity resp) (prs_Attestation resp) ''response'' peerID
             (m_nodeID m) [] [] (prs_SessionToken resp) ''trusted'' of
        Some e \<Rightarrow> (Inl (HostIdentityRejected e), m)
      | None \<Rightarrow>
          (case (case verifyStoredIdentity (rc_PublicKey remote) (rc_MachineID remote) (prs_Identity resp) of
                   None \<Rightarrow> None
                 | Some e \<Rightarrow> if canRepairStoredSoftwarePublicKey (Some e) (rc_MachineID remote) (prs_Identity resp)
                             then None else Some e) of
             Some e \<Rightarrow> (Inl (HostIdentityChanged e), m)
           | None \<Rightarrow>
               (case (if prs_IrohTicket resp \<noteq> [] then validateIrohTicketPeer (cl_codec env) (prs_IrohTicket resp) peerID else None) of
                  Some e \<Rightarrow> (Inl (RefreshedTicketRejected e), m)
                | None \<Rightarrow>
                    let ticket = (if prs_IrohTicket resp \<noteq> [] then prs_IrohTicket resp else ps_IrohTicket session);
                        proto1 = (if prs_Protocol resp = [] then rc_Protocol remote else prs_Protocol resp);
                        proto = (if proto1 = [] then Protocol_String ProtoRDP else proto1);
                        port1 = (if prs_TargetPort resp = 0 then rc_TargetPort remote else prs_TargetPort resp);
                        port = (if port1 = 0 then DefaultPort (ParseProtocol proto) else port1);
                        entry = remote_entry env resp peerID networkBackend proto port (ps_RelayAddrs session) ticket
                                  (ps_DirectQUICAddrs session);
                        m1 = (if prs_Identity resp \<noteq> None
                              then m\<lparr>m_cfg := snd (save_config (cl_store env) (AddRemote (cl_now env) entry (m_cfg m)))\<rparr>
                              else if prs_IrohTicket resp \<noteq> []
                              then m\<lparr>m_cfg := snd (save_config (cl_store env) (AddRemote (cl_now env)
                                     ((empty_remote peerID)\<lparr>rc_Label := prs_HostLabel resp, rc_Backend := networkBackend,
                                        rc_Protocol := proto, rc_TargetPort := port, rc_IrohTicket := ticket,
                                        rc_RelayAddrs := storableRelayAddrs env (ps_RelayAddrs session)\<rparr>) (m_cfg m)))\<rparr>
                              else m)
                    in (Inr \<lparr>cn_PeerID = peerID, cn_RelayAddrs = ps_RelayAddrs session, cn_IrohTicket = ticket,
                             cn_BitTorrentQUICEndpoint = ps_QUICEndpoint session, cn_HostLabel = prs_HostLabel resp,
                             cn_Mode = ''trusted'', cn_Protocol = proto, cn_TargetPort = port,
                             cn_SessionToken = prs_SessionToken resp\<rparr>, m1))))"

definition reauthOverStream ::
  "('s, 'm) client_env \<Rightarrow> 's PairingSession \<Rightarrow> RemoteConfig \<Rightarrow> string \<Rightarrow> Manager \<Rightarrow> (client_error + ConnectResult) \<times> Manager" where
  "reauthOverStream env session remote networkBackend m =
     (case reauth_request env (rc_NodeID remote) (rc_Protocol remote) (rc_TargetPort remote) m of
        Inl e \<Rightarrow> (Inl e, m)
      | Inr req \<Rightarrow>
          (case exchange env (ps_Stream session) req of
             Inl e \<Rightarrow> (Inl e, m)
           | Inr resp \<Rightarrow> accept_reauth_response env (rc_NodeID remote) session remote networkBackend resp m))"

definition reauth_backend :: "Manager \<Rightarrow> RemoteConfig \<Rightarrow> string \<Rightarrow> string" where
  "reauth_backend m remote preferredBackend =
     (let b1 = TrimSpace preferredBackend;
          b2 = (if b1 = [] then TrimSpace (rc_Backend remote) else b1)
      in if b2 = [] then activeNetworkBackend m else b2)"

definition reauthRemoteWithBackend ::
  "('s, 'm) client_env \<Rightarrow> RemoteConfig \<Rightarrow> string \<Rightarrow> Manager \<Rightarrow> (client_error + ConnectResult) \<times> Manager" where
  "reauthRemoteWithBackend env remote preferredBackend m =
     (let peerID = rc_NodeID remote; backend = reauth_backend m remote preferredBackend in
      if backend = ''iroh'' then
        (if rc_IrohTicket remote = [] then (Inl MissingIrohTicket, m)
         else case validateIrohTicketPeer (cl_codec env) (rc_IrohTicket remote) peerID of
           Some e \<Rightarrow> (Inl (BadIrohTicket e), m)
         | None \<Rightarrow>
             (case Registry_OpenPairingSession backend
                     \<lparr>pt_Backend = [], pt_PeerID = peerID, pt_PublicKeyHex = [], pt_IrohTicket = rc_IrohTicket remote,
                      pt_RelayAddrs = [], pt_PresenceAddrs = [], pt_StoredAddrs = [], pt_DirectQUICAddrs = []\<rparr> (cl_registry env) of
                Inl e \<Rightarrow>
                  if isIrohDirectConnectError (cl_message env e) then (Inl (IrohDirectUDPFailed e), m)
                  else if isIrohOpenTimeout (cl_message env e) then (Inl (IrohOpenTimedOut e), m)
                  else (Inl (IrohUnreachable e), m)
              | Inr session \<Rightarrow> reauthOverStream env session remote backend m))
      else
        (case Registry_OpenPairingSession backend
                \<lparr>pt_Backend = [], pt_PeerID = peerID, pt_PublicKeyHex = rc_PublicKey remote, pt_IrohTicket = [],
                 pt_RelayAddrs = rc_RelayAddrs remote, pt_PresenceAddrs = cl_presence env peerID,
                 pt_StoredAddrs = rc_RelayAddrs remote, pt_DirectQUICAddrs = rc_DirectQUICAddrs remote\<rparr> (cl_registry env) of
           Inl e \<Rightarrow>
             if backend = BackendBitTorrentDHT then (Inl (BitTorrentUnreachable e), m)
             else if backend = BackendLibp2pDHT then (Inl (DHTDirectDialFailed e), m)
             else if length peerID < 12 then (Inl PeerIDPanic, m)
             else (Inl (CannotReachHost e), m)
         | Inr session \<Rightarrow> reauthOverStream env session remote backend m))"

definition ReauthRemoteWithBackend ::
  "('s, 'm) client_env \<Rightarrow> RemoteConfig \<Rightarrow> string \<Rightarrow> Manager \<Rightarrow> (client_error + ConnectResult) \<times> Manager" where
  "ReauthRemoteWithBackend env remote preferredBackend m =
     (if TrimSpace (rc_NodeID remote) = [] then (Inl MissingPeerNodeID, m)
      else reauthRemoteWithBackend env remote preferredBackend m)"

definition ReauthPairedWithBackend ::
  "('s, 'm) client_env \<Rightarrow> string \<Rightarrow> string \<Rightarrow> Manager \<Rightarrow> (client_error + ConnectResult) \<times> Manager" where
  "ReauthPairedWithBackend env peerID preferredBackend m =
     (case List.find (\<lambda>r. rc_NodeID r = peerID) (cfg_Remotes (m_cfg m)) of
        Some r \<Rightarrow> reauthRemoteWithBackend env r preferredBackend m
      | None \<Rightarrow> reauthRemoteWithBackend env (empty_remote peerID) preferredBackend m)"

definition ReauthPaired :: "('s, 'm) client_env \<Rightarrow> string \<Rightarrow> Manager \<Rightarrow> (client_error + ConnectResult) \<times> Manager" where
  "ReauthPaired env peerID m = ReauthPairedWithBackend env peerID [] m"

subsection \<open>Discovery without connecting\<close>

record DiscoveryStatus =
  ds_Online :: bool
  ds_Source :: string
  ds_Addrs :: "string list"
  ds_Error :: string

definition no_discovery :: "string \<Rightarrow> string \<Rightarrow> DiscoveryStatus" where
  "no_discovery source err = \<lparr>ds_Online = False, ds_Source = source, ds_Addrs = [], ds_Error = err\<rparr>"

definition found :: "string \<Rightarrow> string list \<Rightarrow> DiscoveryStatus" where
  "found source addrs = \<lparr>ds_Online = True, ds_Source = source, ds_Addrs = addrs, ds_Error = []\<rparr>"

text \<open>The lookups report an error text or the addresses; \<open>None\<close> for the record lookup is a missing discoverer.\<close>

record discovery_env =
  dv_codec :: ticket_codec
  dv_ticket_message :: "ticket_error \<Rightarrow> string"
  dv_FindIdentityAddrs :: "string \<Rightarrow> string \<Rightarrow> string + string list"
  dv_FindPeerAddrs :: "string \<Rightarrow> string + string list"
  dv_LookupRecord :: "(string \<Rightarrow> string \<Rightarrow> string + string list \<times> string list) option"

definition discover_peer :: "discovery_env \<Rightarrow> string \<Rightarrow> string \<Rightarrow> DiscoveryStatus" where
  "discover_peer env backend nodeID =
     (case dv_FindPeerAddrs env nodeID of
        Inr addrs \<Rightarrow> if addrs \<noteq> [] then found ''libp2p_dht'' addrs
                     else no_discovery [] (''unsupported discovery backend: '' @ backend)
      | Inl e \<Rightarrow> no_discovery ''libp2p_dht'' e)"

definition DiscoverRemote :: "discovery_env \<Rightarrow> Manager \<Rightarrow> RemoteConfig \<Rightarrow> DiscoveryStatus" where
  "DiscoverRemote env m remote =
     (let backend = activeNetworkBackend m; publicKey = TrimSpace (rc_PublicKey remote) in
      if backend = ''iroh'' then
        (let ticket = TrimSpace (rc_IrohTicket remote) in
         if ticket = [] then no_discovery ''iroh'' ''paired remote has no iroh ticket''
         else case validateIrohTicketPeer (dv_codec env) ticket (rc_NodeID remote) of
           Some e \<Rightarrow> no_discovery ''iroh'' (dv_ticket_message env e)
         | None \<Rightarrow> \<lparr>ds_Online = False, ds_Source = ''iroh_cached_ticket'', ds_Addrs = [''iroh''],
                     ds_Error = ''iroh reachability is checked during connect''\<rparr>)
      else if backend = ''libp2p_dht'' then
        (if publicKey \<noteq> [] then
           (case dv_FindIdentityAddrs env publicKey (rc_NodeID remote) of
              Inl e \<Rightarrow> no_discovery ''libp2p_dht'' e
            | Inr addrs \<Rightarrow> if addrs \<noteq> [] then found ''libp2p_dht'' addrs else discover_peer env backend (rc_NodeID remote))
         else discover_peer env backend (rc_NodeID remote))
      else if backend = ''bittorrent_dht'' then
        (if publicKey = [] then no_discovery ''bittorrent_dht'' ''paired remote has no public key''
         else case dv_LookupRecord env of
           None \<Rightarrow> no_discovery ''bittorrent_dht'' ''BitTorrent DHT discoverer is not running''
         | Some lookup \<Rightarrow>
             (case lookup publicKey (rc_NodeID remote) of
                Inl e \<Rightarrow> no_discovery ''bittorrent_dht'' e
              | Inr (quic, relay) \<Rightarrow>
                  if quic @ relay \<noteq> [] then found ''bittorrent_dht'' (quic @ relay)
                  else no_discovery ''bittorrent_dht'' ''record has no reachable addresses''))
      else if backend = ''libp2p_relay'' then
        \<lparr>ds_Online = False, ds_Source = ''libp2p_relay'', ds_Addrs = rc_RelayAddrs remote, ds_Error = []\<rparr>
      else no_discovery [] (''unsupported discovery backend: '' @ backend))"

end
