(* ===== verification/Handshake_Safety.thy ===== *)
theory Handshake_Safety
  imports Handshake
begin

text \<open>
  What the handshake guarantees: the host issues a session only to an authenticated
  and authorised peer, trusts a new peer only through a redeemed pairing invite, and
  grants the port of the invite; the client keeps a host only after verifying it.
\<close>

section \<open>The host's branches\<close>

lemma save_config_keeps [simp]:
  "cfg_Trusted (snd (save_config st c)) = cfg_Trusted c" "cfg_Remotes (snd (save_config st c)) = cfg_Remotes c"
  "cfg_Node (snd (save_config st c)) = cfg_Node c" "cfg_RDP (snd (save_config st c)) = cfg_RDP c"
  by (simp_all add: save_config_def Save_def Let_def NormalizeNetworkBackend_keeps split: option.splits)

lemma IsTrusted_save [simp]: "IsTrusted p (snd (save_config st c)) = IsTrusted p c"
  by (simp add: IsTrusted_set)

lemma store_trusted_simps [simp]:
  "m_sessions (store_trusted env p m) = m_sessions m" "m_heap (store_trusted env p m) = m_heap m"
  "m_invites (store_trusted env p m) = m_invites m" "m_byInviteID (store_trusted env p m) = m_byInviteID m"
  "m_nodeID (store_trusted env p m) = m_nodeID m" "m_identity (store_trusted env p m) = m_identity m"
  by (simp_all add: store_trusted_def)

lemma store_trusted_only: "IsTrusted p (m_cfg (store_trusted env q m)) \<Longrightarrow> p = tp_NodeID q \<or> IsTrusted p (m_cfg m)"
  using Add_trusted_only by (fastforce simp: store_trusted_def)

lemma TrustedPeer_get_IsTrusted: "TrustedPeer_get n c = Some t \<Longrightarrow> IsTrusted n c"
  by (metis (mono_tags, lifting) IsTrusted_set TrustedPeer_get_def find_Some_iff nth_mem)

lemma trusted_entry_NodeID [simp]: "tp_NodeID (trusted_entry env req peer proto port) = peer"
  by (simp add: trusted_entry_def split: prod.splits)

lemma record_use_simps [simp]:
  "m_sessions (record_use now a l p m) = m_sessions m" "m_cfg (record_use now a l p m) = m_cfg m"
  "m_nodeID (record_use now a l p m) = m_nodeID m" "m_identity (record_use now a l p m) = m_identity m"
  by (simp_all add: record_use_def)

lemma verifyAndConsume_keeps:
  assumes "verifyAndConsume cr now i p r mode m = (x, m')"
  shows "m_sessions m' = m_sessions m" "m_cfg m' = m_cfg m" "m_nodeID m' = m_nodeID m" "m_identity m' = m_identity m"
  using assms by (auto simp: verifyAndConsume_def Let_def split: if_splits option.splits)

lemma verifyAndConsume_service:
  assumes "verifyAndConsume cr now i p r mode m = (Inr a, m')"
  shows "inv_Protocol (at m' a) = inv_Protocol (at m a)" "inv_TargetPort (at m' a) = inv_TargetPort (at m a)"
  using assms by (auto simp: verifyAndConsume_def Let_def at_update split: if_splits option.splits)

definition trusted_port :: "PairRequest \<Rightarrow> TrustedPeer \<Rightarrow> Config \<Rightarrow> int" where
  "trusted_port req t c =
     (if prq_TargetPort req > 0 then prq_TargetPort req
      else if tp_TargetPort t > 0 then tp_TargetPort t else configuredTargetPort c)"

lemma trusted_branch_Inr:
  assumes "trusted_branch env req peer m = (Inr (proto, port), m1)"
  obtains t where "TrustedPeer_get peer (m_cfg m) = Some t"
    "verifyStoredIdentity (tp_PublicKey t) (tp_MachineID t) (prq_Identity req) = None"
    "port = trusted_port req t (m_cfg m)" "m1 = store_trusted env (trusted_entry env req peer proto port) m"
  using assms by (auto simp: trusted_branch_def Let_def trusted_port_def split: option.splits)

lemma trusted_branch_Inl: "trusted_branch env req peer m = (Inl e, m1) \<Longrightarrow> m1 = m"
  by (auto simp: trusted_branch_def Let_def split: option.splits)

lemma invite_branch_Inr:
  assumes "invite_branch env req peer m = (Inr (proto, port), m1)"
  obtains a m' where "verifyAndConsume (hv_cr env) (hv_now env) (prq_InviteID req) (prq_Proof req) peer (prq_Mode req) m = (Inr a, m')"
    "port = effectiveTargetPort (Some (at m a))"
    "m1 = (if prq_Mode req = ''pairing''
       then store_trusted env (trusted_entry env req peer proto port) (record_use (hv_now env) a (prq_Label req) peer m')
       else record_use (hv_now env) a (prq_Label req) peer m')"
proof -
  obtain a m' where v: "verifyAndConsume (hv_cr env) (hv_now env) (prq_InviteID req) (prq_Proof req) peer (prq_Mode req) m = (Inr a, m')"
    using assms by (auto simp: invite_branch_def split: prod.splits sum.splits)
  have "port = effectiveTargetPort (Some (at m a))"
    using assms v verifyAndConsume_service [OF v] by (auto simp: invite_branch_def Let_def effectiveTargetPort_def)
  then show ?thesis using that assms v by (auto simp: invite_branch_def Let_def)
qed

lemma invite_branch_Inl:
  assumes "invite_branch env req peer m = (Inl e, m1)"
  shows "m_sessions m1 = m_sessions m" "m_cfg m1 = m_cfg m"
  using assms verifyAndConsume_keeps
  by (fastforce simp: invite_branch_def Let_def split: prod.splits sum.splits)+

lemma respond_state:
  "m_sessions (snd (respond env tb req peer proto port m)) = snd (Issue (m_sessions m) (hv_token env) (hv_now env) peer port)"
  "m_cfg (snd (respond env tb req peer proto port m)) = m_cfg m"
  by (auto simp: respond_def Let_def split: prod.splits sum.splits)

lemma Issue_None: "snd (Issue s None now peer port) = s"
  by (simp add: Issue_def)

section \<open>Authorisation\<close>

text \<open>
  What entitles a peer to a session: its identity proof for this host and request,
  and either a matching entry in the trust list or a redeemed invite.
\<close>

definition authorised :: "handshake_env \<Rightarrow> PairRequest \<Rightarrow> string \<Rightarrow> Manager \<Rightarrow> int \<Rightarrow> bool" where
  "authorised env req peer m port \<longleftrightarrow>
     verifyIdentityProof (hv_cr env) (hv_now env) (prq_Identity req) (prq_Attestation req) ''request'' peer
       (m_nodeID m) (prq_InviteID req) (prq_Proof req) [] (prq_Mode req) = None
     \<and> (if prq_Mode req = ''trusted''
        then \<exists>t. TrustedPeer_get peer (m_cfg m) = Some t
               \<and> verifyStoredIdentity (tp_PublicKey t) (tp_MachineID t) (prq_Identity req) = None
               \<and> port = trusted_port req t (m_cfg m)
        else \<exists>a. fst (verifyAndConsume (hv_cr env) (hv_now env) (prq_InviteID req) (prq_Proof req) peer (prq_Mode req) m) = Inr a
               \<and> port = effectiveTargetPort (Some (at m a)))"

text \<open>Everything the handler may do with a decoded request.\<close>

lemma handle_request_cases:
  assumes "handle_request env remote tb req m = (reply, m')"
  obtains (refused) e where "reply = Rejected e" "m_sessions m' = m_sessions m" "m_cfg m' = m_cfg m"
  | (served) peer proto port m1 where
      "pairRequestNodeID (hv_cr env) req remote tb = Inr peer" "authorised env req peer m port"
      "(reply, m') = respond env tb req peer proto port m1" "m_sessions m1 = m_sessions m"
      "(if prq_Mode req \<in> {''trusted'', ''pairing''}
        then m_cfg m1 = snd (save_config (hv_store env)
               (AddTrustedPeer (hv_now env) (trusted_entry env req peer proto port) (m_cfg m)))
        else m_cfg m1 = m_cfg m)"
proof (cases "prq_Version req > Version")
  case True
  then show ?thesis using assms refused by (auto simp: handle_request_def)
next
  case False
  show ?thesis
  proof (cases "pairRequestNodeID (hv_cr env) req remote tb")
    case (Inl e)
    then show ?thesis using assms False refused by (auto simp: handle_request_def)
  next
    case (Inr peer)
    let ?v = "verifyIdentityProof (hv_cr env) (hv_now env) (prq_Identity req) (prq_Attestation req) ''request'' peer
       (m_nodeID m) (prq_InviteID req) (prq_Proof req) [] (prq_Mode req)"
    let ?b = "if prq_Mode req = ''trusted'' then trusted_branch env req peer m else invite_branch env req peer m"
    show ?thesis
    proof (cases ?v)
      case (Some e)
      then show ?thesis using assms False Inr refused by (auto simp: handle_request_def)
    next
      case v: None
      obtain r m1 where b: "?b = (r, m1)" by (cases ?b)
      show ?thesis
      proof (cases r)
        case e: (Inl e)
        have "m_sessions m1 = m_sessions m \<and> m_cfg m1 = m_cfg m"
          using b e by (cases "prq_Mode req = ''trusted''") (auto dest: trusted_branch_Inl invite_branch_Inl)
        moreover have "reply = Rejected e" "m' = m1" using assms False Inr v b e by (simp_all add: handle_request_def)
        ultimately show ?thesis using refused by blast
      next
        case ok: (Inr pp)
        obtain proto port where pp: "pp = (proto, port)" by (cases pp)
        have res: "(reply, m') = respond env tb req peer proto port m1"
          using assms False Inr v b ok pp by (simp add: handle_request_def)
        show ?thesis
        proof (cases "prq_Mode req = ''trusted''")
          case True
          then have "trusted_branch env req peer m = (Inr (proto, port), m1)" using b ok pp by simp
          then show ?thesis
            by (rule trusted_branch_Inr)
              (rule served [OF Inr _ res], use v True in \<open>auto simp: authorised_def store_trusted_def\<close>)
        next
          case F: False
          then have "invite_branch env req peer m = (Inr (proto, port), m1)" using b ok pp by simp
          then show ?thesis
          proof (rule invite_branch_Inr)
            fix a m2
            assume c: "verifyAndConsume (hv_cr env) (hv_now env) (prq_InviteID req) (prq_Proof req) peer (prq_Mode req) m = (Inr a, m2)"
              and p: "port = effectiveTargetPort (Some (at m a))"
              and m1: "m1 = (if prq_Mode req = ''pairing''
                 then store_trusted env (trusted_entry env req peer proto port) (record_use (hv_now env) a (prq_Label req) peer m2)
                 else record_use (hv_now env) a (prq_Label req) peer m2)"
            show ?thesis
              by (rule served [OF Inr _ res])
                (use v c p m1 F verifyAndConsume_keeps [OF c] in \<open>auto simp: authorised_def store_trusted_def\<close>)
          qed
        qed
      qed
    qed
  qed
qed

lemma handleIncomingConn_cases:
  assumes "handleIncomingConn env incoming remote tb m = (reply, m')"
  obtains (silent) "reply = NoReply" "m' = m"
  | (request) payload rest req where "ReadFrame incoming = (Inr (MsgPairRequest, payload), rest)"
      "hv_decode env payload = Some req" "handle_request env remote tb req m = (reply, m')"
  using assms
  by (auto simp: handleIncomingConn_def Decode_def split: prod.splits sum.splits if_splits option.splits)

text \<open>
  C13: when a pairing stream adds a session token to the host's store, the stream
  carried a pairing request whose identity proof verifies for the peer the token is
  issued to, and that peer is either in the trust list with the stored identity it
  proves, or has redeemed an invite; the grant is for that peer and the port of the
  service it was authorised for.
\<close>

theorem session_only_if_authorised:
  assumes "handleIncomingConn env incoming remote tb m = (reply, m')"
    and "m_sessions m' \<noteq> m_sessions m"
  shows "\<exists>payload rest req peer port token.
    ReadFrame incoming = (Inr (MsgPairRequest, payload), rest) \<and> hv_decode env payload = Some req
    \<and> pairRequestNodeID (hv_cr env) req remote tb = Inr peer \<and> authorised env req peer m port
    \<and> hv_token env = Some token \<and> m_sessions m' = snd (Issue (m_sessions m) (Some token) (hv_now env) peer port)"
  using assms(1)
proof (cases rule: handleIncomingConn_cases)
  case silent
  then show ?thesis using assms(2) by simp
next
  case (request payload rest req)
  from request(3) show ?thesis
  proof (cases rule: handle_request_cases)
    case (refused e)
    then show ?thesis using assms(2) by simp
  next
    case (served peer proto port m1)
    have "m_sessions m' = snd (Issue (m_sessions m) (hv_token env) (hv_now env) peer port)"
      using respond_state(1) [of env tb req peer proto port m1] served(3,4) by (metis snd_conv)
    moreover from this obtain token where "hv_token env = Some token"
      using assms(2) Issue_None by (cases "hv_token env") auto
    ultimately show ?thesis using request served(1,2) by metis
  qed
qed

text \<open>
  C14: a pairing stream makes a peer trusted that was not trusted before only if it
  carried a pairing-mode request of that very peer, proved by its identity and
  redeeming a stored pairing invite.
\<close>

theorem trust_only_by_pairing:
  assumes "handleIncomingConn env incoming remote tb m = (reply, m')"
    and "IsTrusted p (m_cfg m')" "\<not> IsTrusted p (m_cfg m)"
  shows "\<exists>payload rest req port a.
    ReadFrame incoming = (Inr (MsgPairRequest, payload), rest) \<and> hv_decode env payload = Some req
    \<and> pairRequestNodeID (hv_cr env) req remote tb = Inr p \<and> authorised env req p m port
    \<and> prq_Mode req = ''pairing'' \<and> map_get (m_byInviteID m) (inviteKey (prq_InviteID req)) = Some a
    \<and> inv_Mode (at m a) = ''pairing'' \<and> \<not> inv_Revoked (at m a)"
  using assms(1)
proof (cases rule: handleIncomingConn_cases)
  case silent
  then show ?thesis using assms(2,3) by simp
next
  case (request payload rest req)
  from request(3) show ?thesis
  proof (cases rule: handle_request_cases)
    case (refused e)
    then show ?thesis using assms(2,3) by simp
  next
    case (served peer proto port m1)
    have "m_cfg m' = m_cfg m1" using respond_state(2) [of env tb req peer proto port m1] served(3) by (metis snd_conv)
    then have t: "prq_Mode req \<in> {''trusted'', ''pairing''}" "p = peer"
      using served(5) assms(2,3) Add_trusted_only [of p "hv_now env" "trusted_entry env req peer proto port" "m_cfg m"]
      by (auto split: if_splits)
    have "prq_Mode req \<noteq> ''trusted''"
      using served(2) assms(3) t(2)
      by (auto simp: authorised_def dest: TrustedPeer_get_IsTrusted)
    then have mode: "prq_Mode req = ''pairing''" using t(1) by simp
    then obtain a where "fst (verifyAndConsume (hv_cr env) (hv_now env) (prq_InviteID req) (prq_Proof req) peer ''pairing'' m) = Inr a"
      using served(2) by (auto simp: authorised_def)
    then obtain m2 where "verifyAndConsume (hv_cr env) (hv_now env) (prq_InviteID req) (prq_Proof req) peer ''pairing'' m = (Inr a, m2)"
      by (metis prod.collapse)
    note f = verifyAndConsume_Inr [OF this]
    show ?thesis using request(1,2) served(1,2) mode t(2) f by blast
  qed
qed

section \<open>The granted port\<close>

text \<open>
  a peer in the trust list chooses the port of its session: whatever positive port
  its request names is granted, also when another port was stored for it when it was
  paired.
\<close>

theorem trusted_reauth_port:
  assumes "prq_Version req \<le> Version" "prq_Mode req = ''trusted''" "prq_TargetPort req > 0"
    and "pairRequestNodeID (hv_cr env) req remote tb = Inr peer"
    and "verifyIdentityProof (hv_cr env) (hv_now env) (prq_Identity req) (prq_Attestation req) ''request'' peer
       (m_nodeID m) (prq_InviteID req) (prq_Proof req) [] ''trusted'' = None"
    and "TrustedPeer_get peer (m_cfg m) = Some t"
    and "verifyStoredIdentity (tp_PublicKey t) (tp_MachineID t) (prq_Identity req) = None"
    and "hv_token env = Some token"
  shows "m_sessions (snd (handle_request env remote tb req m)) =
    snd (Issue (m_sessions m) (Some token) (hv_now env) peer (prq_TargetPort req))"
proof -
  obtain proto where b: "trusted_branch env req peer m =
      (Inr (proto, prq_TargetPort req), store_trusted env (trusted_entry env req peer proto (prq_TargetPort req)) m)"
    using assms(3,6,7) by (auto simp: trusted_branch_def Let_def)
  then have "handle_request env remote tb req m = respond env tb req peer proto (prq_TargetPort req)
      (store_trusted env (trusted_entry env req peer proto (prq_TargetPort req)) m)"
    using leD [OF assms(1)] assms(2,4,5) by (simp add: handle_request_def)
  then show ?thesis using assms(8) by (simp add: respond_state)
qed

section \<open>The client\<close>

lemma exchange_Inr: "exchange env st req = Inr resp \<Longrightarrow> prs_OK resp \<and> prs_SessionToken resp \<noteq> []"
  by (auto simp: exchange_def split: if_splits sum.splits prod.splits option.splits)

lemma link_plan_Inr:
  assumes "link_plan cr tc now ab url = Inr plan"
  shows "DecodeURL url = Inr (dp_token plan) \<and> \<not> IsExpired now (dp_token plan)
    \<and> (inviteAddrsFromURL url = [] \<longrightarrow> pubKeyToPeerID cr (tok_PubKey (dp_token plan)) = Some (dp_peerID plan))"
  using assms by (auto simp: link_plan_def Let_def split: option.splits sum.splits if_splits)

lemma accept_link_response_cases:
  assumes "accept_link_response env plan session req resp m = (r, m')"
  obtains (failed) e where "r = Inl e" "m' = m"
  | (verified) "verifyIdentityProof (cl_cr env) (cl_now env) (prs_Identity resp) (prs_Attestation resp) ''response''
        (dp_peerID plan) (m_nodeID m) (tok_InviteID (dp_token plan)) (prq_Proof req) (prs_SessionToken resp)
        (ModeString (dp_token plan)) = None"
      "\<forall>res. r = Inr res \<longrightarrow> cn_PeerID res = dp_peerID plan \<and> cn_SessionToken res = prs_SessionToken resp"
      "m' \<noteq> m \<longrightarrow> ModeString (dp_token plan) = ''pairing''"
  using assms
  by (auto simp: accept_link_response_def Let_def split: option.splits if_splits prod.splits)


text \<open>What a verified response of a known host proves of its machine.\<close>

definition same_machine :: "RemoteConfig \<Rightarrow> IdentityProof \<Rightarrow> bool" where
  "same_machine remote p \<longleftrightarrow>
     (if TrimSpace (rc_MachineID remote) \<noteq> [] then EqualFold (TrimSpace (rc_MachineID remote)) (ip_MachineID p)
      else TrimSpace (rc_PublicKey remote) \<noteq> []
           \<and> (ip_PublicKey p = [] \<or> EqualFold (TrimSpace (rc_PublicKey remote)) (hexEncode (ip_PublicKey p))))"

lemma stored_or_repaired:
  assumes "(case verifyStoredIdentity (rc_PublicKey remote) (rc_MachineID remote) prf of
       None \<Rightarrow> None
     | Some e \<Rightarrow> if canRepairStoredSoftwarePublicKey (Some e) (rc_MachineID remote) prf then None else Some e) = None"
  shows "\<exists>p. prf = Some p \<and> same_machine remote p"
proof (cases "verifyStoredIdentity (rc_PublicKey remote) (rc_MachineID remote) prf")
  case None
  then obtain p where "prf = Some p" by (cases "prf") (auto simp: verifyStoredIdentity_def)
  with None show ?thesis
    by (auto simp: verifyStoredIdentity_def same_machine_def Let_def split: if_splits)
next
  case (Some e)
  then have "canRepairStoredSoftwarePublicKey (Some e) (rc_MachineID remote) prf" using assms by (simp split: if_splits)
  then show ?thesis
    by (cases "prf") (auto simp: canRepairStoredSoftwarePublicKey_def same_machine_def split: if_splits)
qed

lemma accept_reauth_response_cases:
  assumes "accept_reauth_response env peerID session remote nb resp m = (r, m')"
  obtains (failed) e where "r = Inl e" "m' = m"
  | (verified) p where "prs_Identity resp = Some p"
      "verifyIdentityProof (cl_cr env) (cl_now env) (Some p) (prs_Attestation resp) ''response'' peerID
        (m_nodeID m) [] [] (prs_SessionToken resp) ''trusted'' = None"
      "same_machine remote p"
      "\<forall>res. r = Inr res \<longrightarrow> cn_PeerID res = peerID \<and> cn_SessionToken res = prs_SessionToken resp"
proof -
  let ?v = "verifyIdentityProof (cl_cr env) (cl_now env) (prs_Identity resp) (prs_Attestation resp) ''response'' peerID
             (m_nodeID m) [] [] (prs_SessionToken resp) ''trusted''"
  let ?s = "case verifyStoredIdentity (rc_PublicKey remote) (rc_MachineID remote) (prs_Identity resp) of
                   None \<Rightarrow> None
                 | Some e \<Rightarrow> if canRepairStoredSoftwarePublicKey (Some e) (rc_MachineID remote) (prs_Identity resp)
                             then None else Some e"
  consider e where "?v = Some e" | e where "?v = None" "?s = Some e" | "?v = None" "?s = None"
    by (cases ?v; cases ?s) blast+
  then show ?thesis
  proof cases
    case 1
    then have "r = Inl (HostIdentityRejected e)" "m' = m" using assms by (simp_all add: accept_reauth_response_def)
    then show ?thesis by (rule failed)
  next
    case 2
    then have "r = Inl (HostIdentityChanged e)" "m' = m" using assms unfolding accept_reauth_response_def by simp_all
    then show ?thesis by (rule failed)
  next
    case 3
    obtain p where p: "prs_Identity resp = Some p" "same_machine remote p" using stored_or_repaired [OF 3(2)] by blast
    have "\<forall>res. r = Inr res \<longrightarrow> cn_PeerID res = peerID \<and> cn_SessionToken res = prs_SessionToken resp"
      using assms unfolding accept_reauth_response_def 3 option.case Let_def by (auto split: option.splits)
    then show ?thesis using verified [OF p(1)] 3(1) p by simp
  qed
qed

lemma reauthOverStream_verified:
  assumes "reauthOverStream env session remote nb m = (r, m')" "m' \<noteq> m \<or> r = Inr res"
  shows "\<exists>p (resp :: PairResponse). prs_Identity resp = Some p \<and> prs_SessionToken resp \<noteq> []
    \<and> verifyIdentityProof (cl_cr env) (cl_now env) (Some p) (prs_Attestation resp) ''response'' (rc_NodeID remote)
        (m_nodeID m) [] [] (prs_SessionToken resp) ''trusted'' = None
    \<and> same_machine remote p
    \<and> (r = Inr res \<longrightarrow> cn_PeerID res = rc_NodeID remote \<and> cn_SessionToken res = prs_SessionToken resp)"
proof -
  obtain req resp where p: "exchange env (ps_Stream session) req = Inr resp"
      "accept_reauth_response env (rc_NodeID remote) session remote nb resp m = (r, m')"
    using assms by (auto simp: reauthOverStream_def split: sum.splits)
  from p(2) show ?thesis
  proof (cases rule: accept_reauth_response_cases)
    case (failed e)
    then show ?thesis using assms(2) by simp
  next
    case (verified q)
    then show ?thesis
      using exchange_Inr [OF p(1)] by (intro exI [of _ q] exI [of _ resp]) auto
  qed
qed

text \<open>
  C16: reconnecting to a saved host succeeds, or changes the client's state, only when
  the host proves for this client and the returned session token the node identity
  saved for it, on the machine it was paired with: the stored machine identifier
  always has to match, the stored software key only where no machine is known.
\<close>

theorem reauth_same_host:
  assumes "reauthRemoteWithBackend env remote preferred m = (r, m')" "m' \<noteq> m \<or> r = Inr res"
  shows "\<exists>p (resp :: PairResponse). prs_Identity resp = Some p \<and> prs_SessionToken resp \<noteq> []
    \<and> verifyIdentityProof (cl_cr env) (cl_now env) (Some p) (prs_Attestation resp) ''response'' (rc_NodeID remote)
        (m_nodeID m) [] [] (prs_SessionToken resp) ''trusted'' = None
    \<and> same_machine remote p
    \<and> (r = Inr res \<longrightarrow> cn_PeerID res = rc_NodeID remote \<and> cn_SessionToken res = prs_SessionToken resp)"
proof -
  obtain session where "reauthOverStream env session remote (reauth_backend m remote preferred) m = (r, m')"
    using assms by (auto simp: reauthRemoteWithBackend_def Let_def split: if_splits option.splits sum.splits)
  then show ?thesis using reauthOverStream_verified assms(2) by blast
qed

end
