(* ===== verification/Handshake_Live.thy ===== *)
theory Handshake_Live
  imports Handshake_Safety
begin

text \<open>
  The two sides of the handshake together: an honest client holding the link of a
  live invite and an honest host complete it, and the session token the client
  receives opens a tunnel at the host.
\<close>

text \<open>A machine with a software identity whose configured key gives its node identifier.\<close>

definition honest :: "cryptography \<Rightarrow> (bytes \<Rightarrow> private_key option) \<Rightarrow> Manager \<Rightarrow> bool" where
  "honest cr unm m \<longleftrightarrow> m_identity m = None
     \<and> (\<exists>key pub. localNodeKey cr unm (m_cfg m) = Inr (key, pub, m_nodeID m) \<and> ed25519_law cr key)"

text \<open>The documented sizes of SHA-256 and HMAC-SHA256 values.\<close>

definition digest_laws :: "cryptography \<Rightarrow> bool" where
  "digest_laws cr \<longleftrightarrow> (\<forall>b. cr_sha256 cr b \<noteq> []) \<and> (\<forall>k x. length (cr_hmac cr k x) = 32)"

text \<open>The invite a token was made from, still redeemable.\<close>

definition live_invite :: "instant \<Rightarrow> Token \<Rightarrow> nat \<Rightarrow> Manager \<Rightarrow> bool" where
  "live_invite now t a m \<longleftrightarrow>
     map_get (m_byInviteID m) (inviteKey (tok_InviteID t)) = Some a \<and> length (tok_InviteID t) = InviteIDSize
     \<and> inv_Secret (at m a) = tok_InviteSecret t \<and> inv_Mode (at m a) = ModeString t
     \<and> \<not> inv_Revoked (at m a) \<and> (ModeString t = ''onetime'' \<longrightarrow> \<not> inv_Used (at m a)) \<and> now \<le> inv_ExpiresAt (at m a)"

lemma localNodeKey_Node: "cfg_Node c' = cfg_Node c \<Longrightarrow> localNodeKey cr unm c' = localNodeKey cr unm c"
  by (simp add: localNodeKey_def PrivateKeyBytes_def)

lemma AddTrustedPeer_Node [simp]: "cfg_Node (AddTrustedPeer now p c) = cfg_Node c"
  by (cases rule: AddTrustedPeer_cases [of p c now]) (simp_all add: AddTrustedPeer_def Let_def split: option.splits)

lemma honest_proof:
  assumes "honest cr unm m" "digest_laws cr" "cfg_Node c = cfg_Node (m_cfg m)" "\<bar>TimeWindow made - TimeWindow now\<bar> \<le> 1"
  shows "\<exists>p. localProof cr unm c None role (m_nodeID m) verifier ivt iprf tok mode (TimeWindow made) = Inr p
    \<and> verifyIdentityProof cr now (Some p) None role (m_nodeID m) verifier ivt iprf tok mode = None"
proof -
  obtain key pub where k: "localNodeKey cr unm c = Inr (key, pub, m_nodeID m)" "ed25519_law cr key"
    using assms(1) localNodeKey_Node [OF assms(3)] by (auto simp: honest_def)
  show ?thesis
    by (rule localProof_accepted [OF k]) (use assms(2,4) in \<open>auto simp: digest_laws_def validWindow_iff\<close>)
qed

lemma honest_None: "honest cr unm m \<Longrightarrow> m_identity m = None \<and> localAttestation m = None"
  by (simp add: honest_def localAttestation_def attestationForIdentity_def)

section \<open>The request\<close>

text \<open>What the client sends for a link.\<close>

definition request_for :: "('s, 'm) client_env \<Rightarrow> dial_plan \<Rightarrow> Manager \<Rightarrow> IdentityProof \<Rightarrow> PairRequest" where
  "request_for env plan m idp =
     (let t = dp_token plan in
      \<lparr>prq_Version = Version, prq_NodeID = m_nodeID m, prq_InviteID = tok_InviteID t,
       prq_Proof = InviteProof (cr_hmac (cl_cr env)) (tok_InviteSecret t) (tok_InviteID t) (dp_peerID plan) (m_nodeID m)
         (ModeString t) (TimeWindow (cl_now env)),
       prq_Mode = ModeString t, prq_Label = nd_Label (cfg_Node (m_cfg m)), prq_Protocol = [], prq_TargetPort = 0,
       prq_Attestation = localAttestation m, prq_Identity = Some idp\<rparr>)"

lemma client_request:
  assumes "honest (cl_cr env) (cl_unmarshalKey env) c" "digest_laws (cl_cr env)"
    and "\<bar>TimeWindow (cl_now env) - TimeWindow now\<bar> \<le> 1"
  shows "\<exists>idp. link_request env plan c = Inr (request_for env plan c idp)
    \<and> verifyIdentityProof (cl_cr env) now (Some idp) None ''request'' (m_nodeID c) (dp_peerID plan)
        (tok_InviteID (dp_token plan)) (prq_Proof (request_for env plan c idp)) [] (ModeString (dp_token plan)) = None"
  using honest_proof [OF assms(1,2) refl assms(3), of "''request''" "dp_peerID plan" "tok_InviteID (dp_token plan)"
      "InviteProof (cr_hmac (cl_cr env)) (tok_InviteSecret (dp_token plan)) (tok_InviteID (dp_token plan)) (dp_peerID plan) (m_nodeID c)
         (ModeString (dp_token plan)) (TimeWindow (cl_now env))" "[]" "ModeString (dp_token plan)"]
    honest_None [OF assms(1)]
  by (auto simp: link_request_def request_for_def Let_def)

section \<open>The host's answer\<close>

lemma invite_branch_accepts:
  assumes "mgr_ok h" "live_invite (hv_now env) t a h" "digest_laws (hv_cr env)"
    and "prq_InviteID req = tok_InviteID t" "prq_Mode req = ModeString t"
    and "prq_Proof req = InviteProof (cr_hmac (hv_cr env)) (tok_InviteSecret t) (tok_InviteID t) (m_nodeID h) peer (ModeString t) w"
    and "\<bar>w - TimeWindow (hv_now env)\<bar> \<le> 1"
  shows "\<exists>proto h1. invite_branch env req peer h = (Inr (proto, effectiveTargetPort (Some (at h a))), h1)
    \<and> m_sessions h1 = m_sessions h \<and> m_nodeID h1 = m_nodeID h \<and> m_identity h1 = m_identity h
    \<and> cfg_Node (m_cfg h1) = cfg_Node (m_cfg h)"
proof -
  have "length (prq_Proof req) = 32" using assms(3,6) by (simp add: InviteProof_def digest_laws_def)
  then have "fst (verifyAndConsume (hv_cr env) (hv_now env) (prq_InviteID req) (prq_Proof req) peer (prq_Mode req) h) = Inr a"
    using verifyAndConsume_complete [OF assms(1), of "tok_InviteID t" a "hv_now env" "prq_Proof req" "hv_cr env" peer w]
      assms(2,4-7) by (simp add: live_invite_def)
  then obtain h2 where v: "verifyAndConsume (hv_cr env) (hv_now env) (prq_InviteID req) (prq_Proof req) peer (prq_Mode req) h = (Inr a, h2)"
    by (metis prod.collapse)
  have e: "effectiveTargetPort (Some (at h2 a)) = effectiveTargetPort (Some (at h a))"
    using verifyAndConsume_service [OF v] by (simp add: effectiveTargetPort_def)
  show ?thesis
    using v e verifyAndConsume_keeps [OF v] by (simp add: invite_branch_def Let_def store_trusted_def)
qed

lemma respond_accepts:
  assumes "honest (hv_cr env) (hv_unmarshalKey env) h" "digest_laws (hv_cr env)"
    and "m_nodeID h1 = m_nodeID h" "m_identity h1 = m_identity h" "cfg_Node (m_cfg h1) = cfg_Node (m_cfg h)"
    and "hv_token env = Some tok" "\<bar>TimeWindow (hv_now env) - TimeWindow now\<bar> \<le> 1"
  shows "\<exists>resp h2. respond env tb req peer proto port h1 = (Accepted resp, h2)
    \<and> m_sessions h2 = snd (Issue (m_sessions h1) (Some tok) (hv_now env) peer port)
    \<and> prs_OK resp \<and> prs_SessionToken resp = tok \<and> prs_TargetPort resp = port \<and> prs_Attestation resp = None
    \<and> (prs_IrohTicket resp \<noteq> [] \<longrightarrow> tb = BackendIroh \<and> hv_ticket env = Some (prs_IrohTicket resp))
    \<and> verifyIdentityProof (hv_cr env) now (prs_Identity resp) None ''response'' (m_nodeID h) peer (prq_InviteID req)
        (prq_Proof req) tok (prq_Mode req) = None"
proof -
  obtain p where p: "localProof (hv_cr env) (hv_unmarshalKey env) (m_cfg h1) None ''response'' (m_nodeID h) peer (prq_InviteID req)
      (prq_Proof req) tok (prq_Mode req) (TimeWindow (hv_now env)) = Inr p"
    "verifyIdentityProof (hv_cr env) now (Some p) None ''response'' (m_nodeID h) peer (prq_InviteID req)
        (prq_Proof req) tok (prq_Mode req) = None"
    using honest_proof [OF assms(1,2,5,7)] by blast
  have i: "m_identity h1 = None" using assms(4) honest_None [OF assms(1)] by simp
  then have "localAttestation (h1\<lparr>m_sessions := s\<rparr>) = None" for s by (simp add: localAttestation_def attestationForIdentity_def)
  then show ?thesis
    using p assms(3,6) i by (simp add: respond_def Issue_def Let_def split: option.splits)
qed

lemma host_answers:
  assumes "mgr_ok h" "honest (hv_cr env) (hv_unmarshalKey env) h" "digest_laws (hv_cr env)"
    and "live_invite (hv_now env) t a h" "hv_token env = Some tok"
    and "prq_Version req = Version" "pairRequestNodeID (hv_cr env) req remote tb = Inr peer"
    and "verifyIdentityProof (hv_cr env) (hv_now env) (prq_Identity req) (prq_Attestation req) ''request'' peer (m_nodeID h)
      (prq_InviteID req) (prq_Proof req) [] (prq_Mode req) = None"
    and "prq_InviteID req = tok_InviteID t" "prq_Mode req = ModeString t"
    and "prq_Proof req = InviteProof (cr_hmac (hv_cr env)) (tok_InviteSecret t) (tok_InviteID t) (m_nodeID h) peer (ModeString t) w"
    and "\<bar>w - TimeWindow (hv_now env)\<bar> \<le> 1" "\<bar>TimeWindow (hv_now env) - TimeWindow now\<bar> \<le> 1"
  shows "\<exists>resp h2. handle_request env remote tb req h = (Accepted resp, h2)
    \<and> m_sessions h2 = snd (Issue (m_sessions h) (Some tok) (hv_now env) peer (effectiveTargetPort (Some (at h a))))
    \<and> prs_OK resp \<and> prs_SessionToken resp = tok \<and> prs_TargetPort resp = effectiveTargetPort (Some (at h a))
    \<and> prs_Attestation resp = None
    \<and> (prs_IrohTicket resp \<noteq> [] \<longrightarrow> tb = BackendIroh \<and> hv_ticket env = Some (prs_IrohTicket resp))
    \<and> verifyIdentityProof (hv_cr env) now (prs_Identity resp) None ''response'' (m_nodeID h) peer (prq_InviteID req)
        (prq_Proof req) tok (prq_Mode req) = None"
proof -
  obtain proto h1 where b: "invite_branch env req peer h = (Inr (proto, effectiveTargetPort (Some (at h a))), h1)"
    "m_sessions h1 = m_sessions h" "m_nodeID h1 = m_nodeID h" "m_identity h1 = m_identity h"
    "cfg_Node (m_cfg h1) = cfg_Node (m_cfg h)"
    using invite_branch_accepts [OF assms(1,4,3,9,10,11,12)] by blast
  have "prq_Mode req \<noteq> ''trusted''" using assms(10) by (simp add: ModeString_def)
  then have "handle_request env remote tb req h = respond env tb req peer proto (effectiveTargetPort (Some (at h a))) h1"
    using assms(6-8) b(1) by (simp add: handle_request_def)
  then show ?thesis
    using respond_accepts [OF assms(2,3) b(3,4,5) assms(5,13), of tb req peer proto "effectiveTargetPort (Some (at h a))"] b(2)
    by simp
qed

lemma VerifyGrant_after_Issue:
  assumes "store_ok s" "later \<le> now + SessionTokenTTL"
  shows "fst (VerifyGrant (snd (Issue s (Some tok) now peer port)) later tok) = Inr \<lparr>sg_PeerID = peer, sg_TargetPort = port\<rparr>"
proof -
  have "map_get (ss_tokens (snd (Issue s (Some tok) now peer port))) tok =
      Some \<lparr>se_expiresAt = now + SessionTokenTTL, se_grant = \<lparr>sg_PeerID = peer, sg_TargetPort = port\<rparr>, se_usesLeft = SessionTokenMaxUses\<rparr>"
    using store_okD(1) [OF assms(1)]
    by (simp add: Issue_def Let_def sweep_def go_map_simps After_def SessionTokenTTL_def)
  then show ?thesis
    using assms(2) by (simp add: VerifyGrant_def Let_def After_def SessionTokenMaxUses_def)
qed

section \<open>The client's acceptance\<close>

lemma accept_link_response_ok:
  assumes "verifyIdentityProof (cl_cr env) (cl_now env) (prs_Identity resp) (prs_Attestation resp) ''response'' (dp_peerID plan)
      (m_nodeID c) (tok_InviteID (dp_token plan)) (prq_Proof req) (prs_SessionToken resp) (ModeString (dp_token plan)) = None"
    and "prs_IrohTicket resp \<noteq> [] \<longrightarrow> validateIrohTicket (cl_codec env) (prs_IrohTicket resp) (tok_PubKey (dp_token plan)) = None"
    and "\<forall>cf. fst (save_config (cl_store env) cf) = None" "12 \<le> length (dp_peerID plan)"
  shows "\<exists>res. fst (accept_link_response env plan session req resp c) = Inr res
    \<and> cn_PeerID res = dp_peerID plan \<and> cn_SessionToken res = prs_SessionToken resp"
proof -
  obtain g where g: "\<And>cf. save_config (cl_store env) cf = (None, g cf)"
    using that [of "\<lambda>cf. snd (save_config (cl_store env) cf)"] assms(3) by (simp add: prod_eq_iff)
  show ?thesis
    using assms(1,2,4)
    by (cases "ModeString (dp_token plan) = ''pairing''") (auto simp: accept_link_response_def Let_def g)
qed

text \<open>
  The situation of an honest client and an honest host: the libraries agree and obey
  their laws, the clocks are a time window apart at most, the client's identifier is
  well formed, the link leads to the host and belongs to a live invite, the stream
  carries the request to the host's handler and its answer back, the random source
  and the configuration file work, and a ticket of the host is well formed.
\<close>

definition handshake_world ::
  "('s, 'm) client_env \<Rightarrow> handshake_env \<Rightarrow> Manager \<Rightarrow> Manager \<Rightarrow> string \<Rightarrow> dial_plan \<Rightarrow> 's PairingSession \<Rightarrow>
   string \<Rightarrow> string \<Rightarrow> nat \<Rightarrow> bytes \<Rightarrow> bool" where
  "handshake_world cenv henv c h url plan session remote tb a tok \<longleftrightarrow>
     hv_cr henv = cl_cr cenv
     \<and> digest_laws (cl_cr cenv)
     \<and> honest (cl_cr cenv) (cl_unmarshalKey cenv) c
     \<and> honest (hv_cr henv) (hv_unmarshalKey henv) h
     \<and> mgr_ok h
     \<and> store_ok (m_sessions h)
     \<and> \<bar>TimeWindow (cl_now cenv) - TimeWindow (hv_now henv)\<bar> \<le> 1
     \<and> TrimSpace (m_nodeID c) = m_nodeID c \<and> m_nodeID c \<noteq> [] \<and> cr_peer_Decode (cl_cr cenv) (m_nodeID c)
     \<and> link_plan (cl_cr cenv) (cl_codec cenv) (cl_now cenv) (activeNetworkBackend c) url = Inr plan
     \<and> dp_peerID plan = m_nodeID h
     \<and> 12 \<le> length (m_nodeID h)
     \<and> live_invite (hv_now henv) (dp_token plan) a h
     \<and> open_link_session cenv plan = Inr session
     \<and> (\<forall>req. cl_send cenv (ps_Stream session) req)
     \<and> (\<forall>req resp. link_request cenv plan c = Inr req \<and> fst (handle_request henv remote tb req h) = Accepted resp \<longrightarrow>
      (\<exists>payload. cl_receive cenv (ps_Stream session) req = FrameFirst (Inr (MsgPairResponse, payload))
        \<and> cl_decode cenv payload = Some resp))
     \<and> hv_token henv = Some tok
     \<and> tok \<noteq> []
     \<and> (\<forall>k. tb = BackendIroh \<and> hv_ticket henv = Some k \<longrightarrow> validateIrohTicket (cl_codec cenv) k (tok_PubKey (dp_token plan)) = None)
     \<and> (\<forall>cf. fst (save_config (cl_store cenv) cf) = None)"

lemma handshake_steps:
  assumes "hv_cr henv = cl_cr cenv"
    and "digest_laws (cl_cr cenv)"
    and "honest (cl_cr cenv) (cl_unmarshalKey cenv) c"
    and "honest (hv_cr henv) (hv_unmarshalKey henv) h"
    and "mgr_ok h"
    and "store_ok (m_sessions h)"
    and "\<bar>TimeWindow (cl_now cenv) - TimeWindow (hv_now henv)\<bar> \<le> 1"
    and "TrimSpace (m_nodeID c) = m_nodeID c \<and> m_nodeID c \<noteq> [] \<and> cr_peer_Decode (cl_cr cenv) (m_nodeID c)"
    and "link_plan (cl_cr cenv) (cl_codec cenv) (cl_now cenv) (activeNetworkBackend c) url = Inr plan"
    and "dp_peerID plan = m_nodeID h"
    and "12 \<le> length (m_nodeID h)"
    and "live_invite (hv_now henv) (dp_token plan) a h"
    and "open_link_session cenv plan = Inr session"
    and "(\<forall>req. cl_send cenv (ps_Stream session) req)"
    and "(\<forall>req resp. link_request cenv plan c = Inr req \<and> fst (handle_request henv remote tb req h) = Accepted resp \<longrightarrow>
      (\<exists>payload. cl_receive cenv (ps_Stream session) req = FrameFirst (Inr (MsgPairResponse, payload))
        \<and> cl_decode cenv payload = Some resp))"
    and "hv_token henv = Some tok"
    and "tok \<noteq> []"
    and "(\<forall>k. tb = BackendIroh \<and> hv_ticket henv = Some k \<longrightarrow> validateIrohTicket (cl_codec cenv) k (tok_PubKey (dp_token plan)) = None)"
    and "(\<forall>cf. fst (save_config (cl_store cenv) cf) = None)"
  shows "\<exists>res req. fst (ConnectByURL cenv url c) = Inr res \<and> cn_PeerID res = m_nodeID h \<and> cn_SessionToken res = tok
    \<and> link_request cenv plan c = Inr req
    \<and> (\<forall>later \<le> hv_now henv + SessionTokenTTL.
        fst (VerifyGrant (m_sessions (snd (handle_request henv remote tb req h))) later tok)
          = Inr \<lparr>sg_PeerID = m_nodeID c, sg_TargetPort = effectiveTargetPort (Some (at h a))\<rparr>)"
proof -
  let ?t = "dp_token plan"
  obtain idp where req: "link_request cenv plan c = Inr (request_for cenv plan c idp)"
    and v: "verifyIdentityProof (cl_cr cenv) (hv_now henv) (Some idp) None ''request'' (m_nodeID c) (dp_peerID plan)
        (tok_InviteID ?t) (prq_Proof (request_for cenv plan c idp)) [] (ModeString ?t) = None"
    using client_request [OF assms(3,2,7)] by blast
  let ?req = "request_for cenv plan c idp"
  have f: "prq_Version ?req = Version" "prq_InviteID ?req = tok_InviteID ?t" "prq_Mode ?req = ModeString ?t"
      "prq_Attestation ?req = None" "prq_Identity ?req = Some idp"
      "prq_Proof ?req = InviteProof (cr_hmac (hv_cr henv)) (tok_InviteSecret ?t) (tok_InviteID ?t) (m_nodeID h) (m_nodeID c)
         (ModeString ?t) (TimeWindow (cl_now cenv))"
      "pairRequestNodeID (hv_cr henv) ?req remote tb = Inr (m_nodeID c)"
    using honest_None [OF assms(3)] assms(1,8,10) by (simp_all add: request_for_def Let_def pairRequestNodeID_def)
  obtain resp h2 where r: "handle_request henv remote tb ?req h = (Accepted resp, h2)"
      "m_sessions h2 = snd (Issue (m_sessions h) (Some tok) (hv_now henv) (m_nodeID c) (effectiveTargetPort (Some (at h a))))"
      "prs_OK resp" "prs_SessionToken resp = tok" "prs_Attestation resp = None"
      "prs_IrohTicket resp \<noteq> [] \<longrightarrow> tb = BackendIroh \<and> hv_ticket henv = Some (prs_IrohTicket resp)"
      "verifyIdentityProof (hv_cr henv) (cl_now cenv) (prs_Identity resp) None ''response'' (m_nodeID h) (m_nodeID c)
        (prq_InviteID ?req) (prq_Proof ?req) tok (prq_Mode ?req) = None"
    using host_answers [OF assms(5,4) _ assms(12,16) f(1) f(7) _ f(2) f(3) f(6), of "cl_now cenv"]
      assms(1,2,7,10) v f(2-5) by (auto simp: abs_minus_commute)
  obtain payload where pay: "cl_receive cenv (ps_Stream session) ?req = FrameFirst (Inr (MsgPairResponse, payload))"
      "cl_decode cenv payload = Some resp"
    using assms(15) req r(1) by (metis fst_conv)
  have ex: "exchange cenv (ps_Stream session) ?req = Inr resp"
    using assms(14,17) pay r(3,4) by (simp add: exchange_def readFrameWithContext_def Decode_def)
  obtain res where res: "fst (accept_link_response cenv plan session ?req resp c) = Inr res"
      "cn_PeerID res = dp_peerID plan" "cn_SessionToken res = prs_SessionToken resp"
    using accept_link_response_ok [of cenv resp plan c ?req session] r(4-7) f(2,3) assms(1,10,11,18,19) by auto
  have "fst (ConnectByURL cenv url c) = Inr res"
    using assms(9,13) req ex res(1) by (simp add: ConnectByURL_def)
  then show ?thesis
    using res(2,3) r(1,2,4) assms(10) req VerifyGrant_after_Issue [OF assms(6)]
    by (intro exI [of _ res] exI [of _ ?req]) simp
qed

lemma handshake_ok:
  assumes "handshake_world cenv henv c h url plan session remote tb a tok"
  shows "\<exists>res req. fst (ConnectByURL cenv url c) = Inr res \<and> cn_PeerID res = m_nodeID h \<and> cn_SessionToken res = tok
    \<and> link_request cenv plan c = Inr req
    \<and> (\<forall>later \<le> hv_now henv + SessionTokenTTL.
        fst (VerifyGrant (m_sessions (snd (handle_request henv remote tb req h))) later tok)
          = Inr \<lparr>sg_PeerID = m_nodeID c, sg_TargetPort = effectiveTargetPort (Some (at h a))\<rparr>)"
  by (rule handshake_steps [where session = session]; use assms [unfolded handshake_world_def] in blast)


section \<open>A sample world\<close>

text \<open>
  A host and a client with toy keys; the host has one pairing invite, the client its
  link. The stream hands the client's request to the host's handler.
\<close>

definition host_key :: bytes where "host_key = replicate 32 65"
definition client_key :: bytes where "client_key = replicate 32 66"

definition sample_invite :: invite where
  "sample_invite = \<lparr>inv_ID = ''i'', inv_InviteID = replicate 16 7, inv_Secret = replicate 32 9, inv_Mode = ''pairing'',
     inv_Protocol = ''ssh'', inv_TargetPort = 22, inv_Label = [], inv_URL = [], inv_CreatedAt = 0, inv_ExpiresAt = 10 * minute,
     inv_Revoked = False, inv_Used = False, inv_UsedBy = [], inv_UsedByID = [], inv_UsedAt = 0\<rparr>"

definition sample_host :: Manager where
  "sample_host = (Manager_New (string_of_bytes host_key) (toy_config host_key))\<lparr>m_heap := [sample_invite],
     m_invites := [(''i'', 0)], m_byInviteID := [(inviteKey (replicate 16 7), 0)]\<rparr>"

definition sample_client :: Manager where
  "sample_client = Manager_New (string_of_bytes client_key) (toy_config client_key)"

definition sample_link_token :: Token where
  "sample_link_token = \<lparr>tok_PubKey = host_key, tok_RelayMask = 0, tok_InviteID = replicate 16 7, tok_InviteSecret = replicate 32 9,
     tok_ExpiresAt = 0, tok_Mode = 1, tok_Protocol = ProtoSSH, tok_TargetPort = 22\<rparr>"

definition sample_url :: string where
  "sample_url = token_link sample_link_token (link_query ''libp2p_dht'' [])"

definition good_store :: config_store where
  "good_store = \<lparr>cs_mkdir = True, cs_marshal = (\<lambda>_. Some []), cs_write = (\<lambda>_. True)\<rparr>"

definition sample_plan :: dial_plan where
  "sample_plan = \<lparr>dp_token = token_canonical sample_link_token, dp_peerID = string_of_bytes host_key,
     dp_publicKeyHex = hexEncode host_key, dp_relayAddrs = [], dp_backend = ''libp2p_dht'', dp_irohTicket = []\<rparr>"

definition dht_backend :: "unit StreamBackend" where
  "dht_backend = \<lparr>sb_Name = ''libp2p_dht'', sb_OpenPairing = (\<lambda>_. Inr ()), sb_OpenTunnel = (\<lambda>_. Inr ()),
     sb_OpenPairingSession = None, sb_Start = None, sb_Stop = None\<rparr>"

definition client_env_with :: "PairResponse \<Rightarrow> (unit, string) client_env" where
  "client_env_with resp = \<lparr>cl_cr = toy_crypto, cl_unmarshalKey = (\<lambda>b. Some (toy_key b)), cl_now = 0,
     cl_codec = \<lparr>tc_base64 = (\<lambda>_. None), tc_json_id = (\<lambda>_. None)\<rparr>,
     cl_registry = Register (Some dht_backend) [] NewRegistry, cl_message = (\<lambda>_. []), cl_send = (\<lambda>_ _. True),
     cl_receive = (\<lambda>_ _. FrameFirst (Inr (MsgPairResponse, []))), cl_decode = (\<lambda>_. Some resp), cl_lib = toy_multiaddr,
     cl_allowLoopbackDial = False, cl_store = good_store, cl_presence = (\<lambda>_. [])\<rparr>"

definition host_env_with :: "PairRequest \<Rightarrow> handshake_env" where
  "host_env_with req = \<lparr>hv_cr = toy_crypto, hv_unmarshalKey = (\<lambda>b. Some (toy_key b)), hv_decode = (\<lambda>_. Some req), hv_now = 0,
     hv_token = Some [1, 2, 3], hv_ticket = None, hv_store = good_store\<rparr>"

lemma sample_env_simps [simp]:
  "cl_cr (client_env_with r) = toy_crypto" "cl_unmarshalKey (client_env_with r) = (\<lambda>b. Some (toy_key b))"
  "cl_now (client_env_with r) = 0" "cl_store (client_env_with r) = good_store" "cl_send (client_env_with r) = (\<lambda>_ _. True)"
  "cl_receive (client_env_with r) = (\<lambda>_ _. FrameFirst (Inr (MsgPairResponse, [])))" "cl_decode (client_env_with r) = (\<lambda>_. Some r)"
  "hv_cr (host_env_with q) = toy_crypto" "hv_unmarshalKey (host_env_with q) = (\<lambda>b. Some (toy_key b))"
  "hv_decode (host_env_with q) = (\<lambda>_. Some q)" "hv_now (host_env_with q) = 0" "hv_token (host_env_with q) = Some [1, 2, 3]"
  "hv_ticket (host_env_with q) = None"
  by (simp_all add: client_env_with_def host_env_with_def)

lemma toy_digest_laws: "digest_laws toy_crypto"
  by (simp add: digest_laws_def toy_crypto_def del: take_append)

lemma toy_honest:
  "b \<noteq> [] \<Longrightarrow> m_cfg m = toy_config b \<Longrightarrow> m_nodeID m = string_of_bytes b \<Longrightarrow> m_identity m = None \<Longrightarrow>
     honest toy_crypto (\<lambda>b. Some (toy_key b)) m"
  using toy_localNodeKey [of b] toy_ed25519_law [of b] by (auto simp: honest_def)

lemma sample_honest:
  "honest toy_crypto (\<lambda>b. Some (toy_key b)) sample_host" "honest toy_crypto (\<lambda>b. Some (toy_key b)) sample_client"
  by (rule toy_honest [of host_key] toy_honest [of client_key];
      simp add: sample_host_def sample_client_def Manager_New_def host_key_def client_key_def)+

lemma sample_host_ok: "mgr_ok sample_host" "store_ok (m_sessions sample_host)"
  using store_ok_New
  by (auto simp: sample_host_def mgr_ok_def Manager_New_def at_def sample_invite_def map_ok_def)

lemma map_get_Values_Set: "map_get (Values_Set k v m) k' = (if k = k' then Some [v] else map_get m k')"
  by (simp add: Values_Set_def go_map_simps)

lemma map_get_parsed: "values_ok v \<Longrightarrow> map_get (parsed v) = map_get v"
  unfolding parsed_def by (rule ParseQuery_Values_Encode(2))

lemma sample_addrs: "inviteAddrsFromURL sample_url = []"
proof -
  have vb: "validNetworkBackend ''libp2p_dht''" by (simp add: validNetworkBackend_def CanonicalNetworkBackend_def)
  have "map_get (link_query ''libp2p_dht'' []) ''addr'' = None"
    by (simp add: link_query_def Let_def map_get_Values_Set map_get_parsed)
  then show ?thesis
    using ParseQuery_Values_Encode(2) [OF link_query_get(1) [OF vb, of "[]"]]
    by (simp add: sample_url_def inviteAddrsFromURL_def url_Parse_token_link url_Query_def link_url_def Values_All_def)
qed

lemma sample_link: "link_plan toy_crypto tc 0 ab sample_url = Inr sample_plan"
proof -
  have vb: "validNetworkBackend ''libp2p_dht''" by (simp add: validNetworkBackend_def CanonicalNetworkBackend_def)
  note q = link_query_get [OF vb, of "[]"]
  have d: "DecodeURL sample_url = Inr (token_canonical sample_link_token)"
    unfolding sample_url_def
    by (rule DecodeURL_token_link) (simp add: token_ok_def sample_link_token_def host_key_def InviteIDSize_def InviteSecretSize_def)
  have "map_get (link_query ''libp2p_dht'' []) ''iroh_ticket'' = None"
    by (simp add: link_query_def Let_def map_get_Values_Set map_get_parsed)
  then have t: "irohEndpointTicketFromURL sample_url = []"
    by (simp add: sample_url_def irohEndpointTicketFromURL_def query_get_token_link [OF q(1)] Values_Get_def)
  have b: "inviteBackendFromURL sample_url = ''libp2p_dht''"
    using TrimSpace_backend [OF vb]
    by (simp add: sample_url_def inviteBackendFromURL_def query_get_token_link [OF q(1)] q(3) Let_def)
  have "IsExpired 0 (token_canonical sample_link_token) = False"
    by (simp add: IsExpired_def token_canonical_def sample_link_token_def)
  moreover have "pubKeyToPeerID toy_crypto (tok_PubKey (token_canonical sample_link_token)) = Some (string_of_bytes host_key)"
    by (simp add: pubKeyToPeerID_def toy_crypto_def token_canonical_def sample_link_token_def host_key_def)
  moreover have "tok_PubKey (token_canonical sample_link_token) = host_key" "tok_RelayMask (token_canonical sample_link_token) = 0"
    by (simp_all add: token_canonical_def sample_link_token_def)
  moreover have "relayMaskToAddrs 0 x = []" for x by (simp add: relayMaskToAddrs_def)
  ultimately show ?thesis
    using d sample_addrs t b token_link_query(2) [OF vb, of sample_link_token "[]", folded sample_url_def]
    by (simp add: link_plan_def Let_def sample_plan_def)
qed

lemma sample_live: "live_invite 0 (dp_token sample_plan) 0 sample_host"
  by (simp add: live_invite_def sample_plan_def token_canonical_def sample_link_token_def sample_host_def sample_invite_def
      InviteIDSize_def at_def ModeString_def)

lemma sample_session:
  "\<exists>session. open_link_session (client_env_with resp) sample_plan = Inr session"
  by (simp add: open_link_session_def sample_plan_def client_env_with_def Registry_OpenPairingSession_def MustGet_def
      registry.get_put Let_def dht_backend_def)

lemma sample_store: "fst (save_config good_store cf) = None"
  by (simp add: save_config_def good_store_def Save_def Let_def)

lemma sample_client_id:
  "TrimSpace (string_of_bytes client_key) = string_of_bytes client_key \<and> string_of_bytes client_key \<noteq> []"
proof -
  have "\<not> is_space c" if "c \<in> set (string_of_bytes client_key)" for c
    using that by (simp add: string_of_bytes_def client_key_def char_of_byte_def is_space_def char_code_def char_of_def bit_simps)
  then show ?thesis
    unfolding TrimSpace_def by (subst TrimFunc_id) (auto simp: string_of_bytes_def client_key_def)
qed

definition sample_request :: PairRequest where
  "sample_request = projr (link_request (client_env_with undefined) sample_plan sample_client)"

definition sample_response :: PairResponse where
  "sample_response =
     (case fst (handle_request (host_env_with sample_request) ''peer'' ''libp2p'' sample_request sample_host) of Accepted r \<Rightarrow> r)"

lemma sample_link_request:
  "link_request (client_env_with resp) sample_plan sample_client = Inr req \<Longrightarrow> req = sample_request"
  by (simp add: sample_request_def link_request_def client_env_with_def Let_def)

lemma sample_world:
  "\<exists>session. handshake_world (client_env_with sample_response) (host_env_with sample_request) sample_client sample_host sample_url
     sample_plan session ''peer'' ''libp2p'' 0 [1, 2, 3]"
proof -
  obtain session where s: "open_link_session (client_env_with sample_response) sample_plan = Inr session"
    using sample_session by blast
  have n: "m_nodeID sample_client = string_of_bytes client_key" "m_nodeID sample_host = string_of_bytes host_key"
    by (simp_all add: sample_client_def sample_host_def Manager_New_def)
  have "12 \<le> length (m_nodeID sample_host)" using n by (simp add: string_of_bytes_def host_key_def)
  moreover have "cr_peer_Decode toy_crypto (m_nodeID sample_client)" using sample_client_id n by (simp add: toy_crypto_def)
  moreover have "\<forall>req resp. link_request (client_env_with sample_response) sample_plan sample_client = Inr req
        \<and> fst (handle_request (host_env_with sample_request) ''peer'' ''libp2p'' req sample_host) = Accepted resp \<longrightarrow> sample_response = resp"
    by (auto simp: sample_response_def dest!: sample_link_request)
  ultimately have "handshake_world (client_env_with sample_response) (host_env_with sample_request) sample_client sample_host sample_url
     sample_plan session ''peer'' ''libp2p'' 0 [1, 2, 3]"
    using s n sample_link sample_live sample_client_id sample_honest sample_host_ok toy_digest_laws sample_store
    by (simp add: handshake_world_def sample_plan_def [THEN arg_cong, of dp_peerID])
  then show ?thesis by blast
qed

lemma sample_connect:
  "\<exists>res. fst (ConnectByURL (client_env_with sample_response) sample_url sample_client) = Inr res"
  using sample_world handshake_ok by blast


section \<open>The safety properties apply to it\<close>

lemma sample_answer:
  "\<exists>resp h2. handle_request (host_env_with sample_request) ''peer'' ''libp2p'' sample_request sample_host = (Accepted resp, h2)
    \<and> m_sessions h2 \<noteq> m_sessions sample_host"
proof -
  let ?h = "host_env_with sample_request"
  have n: "m_nodeID sample_client = string_of_bytes client_key" "m_nodeID sample_host = string_of_bytes host_key"
    by (simp_all add: sample_client_def sample_host_def Manager_New_def)
  obtain idp where req: "link_request (client_env_with undefined) sample_plan sample_client
      = Inr (request_for (client_env_with undefined) sample_plan sample_client idp)"
    and v: "verifyIdentityProof toy_crypto 0 (Some idp) None ''request'' (m_nodeID sample_client) (dp_peerID sample_plan)
        (tok_InviteID (dp_token sample_plan)) (prq_Proof (request_for (client_env_with undefined) sample_plan sample_client idp)) []
        (ModeString (dp_token sample_plan)) = None"
    using client_request [of "client_env_with undefined" sample_client 0 sample_plan] sample_honest(2) toy_digest_laws
    by auto
  let ?r = "request_for (client_env_with undefined) sample_plan sample_client idp"
  have r: "sample_request = ?r" using req by (simp add: sample_request_def)
  have f: "prq_Version ?r = Version" "prq_InviteID ?r = tok_InviteID (dp_token sample_plan)"
      "prq_Mode ?r = ModeString (dp_token sample_plan)" "prq_Attestation ?r = None" "prq_Identity ?r = Some idp"
      "prq_Proof ?r = InviteProof (cr_hmac (hv_cr ?h)) (tok_InviteSecret (dp_token sample_plan)) (tok_InviteID (dp_token sample_plan))
         (m_nodeID sample_host) (m_nodeID sample_client) (ModeString (dp_token sample_plan)) (TimeWindow 0)"
      "pairRequestNodeID (hv_cr ?h) ?r ''peer'' ''libp2p'' = Inr (m_nodeID sample_client)"
    using honest_None [OF sample_honest(2)] sample_client_id n
    by (simp_all add: request_for_def Let_def pairRequestNodeID_def sample_plan_def toy_crypto_def)
  have "\<exists>resp h2. handle_request ?h ''peer'' ''libp2p'' ?r sample_host = (Accepted resp, h2)
    \<and> m_sessions h2 = snd (Issue (m_sessions sample_host) (Some [1, 2, 3]) (hv_now ?h) (m_nodeID sample_client)
        (effectiveTargetPort (Some (at sample_host 0))))"
    using host_answers [of sample_host ?h "dp_token sample_plan" 0 "[1, 2, 3]" ?r "''peer''" "''libp2p''" "m_nodeID sample_client" "TimeWindow 0" 0]
      sample_host_ok(1) sample_honest(1) toy_digest_laws sample_live f v n(2)
    by (auto simp: sample_plan_def)
  moreover have "snd (Issue (m_sessions sample_host) (Some [1, 2, 3]) now p q) \<noteq> m_sessions sample_host" for now p q
    by (simp add: sample_host_def Manager_New_def NewSessionStore_def Issue_def sweep_def Let_def After_def SessionTokenTTL_def)
  ultimately show ?thesis unfolding r by metis
qed

lemma sample_incoming:
  "\<exists>reply h2. handleIncomingConn (host_env_with sample_request) (frame_bytes MsgPairRequest [] @ []) ''peer'' ''libp2p'' sample_host = (reply, h2)
    \<and> m_sessions h2 \<noteq> m_sessions sample_host"
  using sample_answer ReadFrame_frame_bytes [of "[]" MsgPairRequest "[]"]
  by (auto simp: handleIncomingConn_def Decode_def)

theorem session_only_if_authorised_witness:
  "\<exists>peer port. pairRequestNodeID toy_crypto sample_request ''peer'' ''libp2p'' = Inr peer
     \<and> authorised (host_env_with sample_request) sample_request peer sample_host port"
proof -
  obtain reply h2 where i: "handleIncomingConn (host_env_with sample_request) (frame_bytes MsgPairRequest [] @ []) ''peer'' ''libp2p''
      sample_host = (reply, h2)" "m_sessions h2 \<noteq> m_sessions sample_host"
    using sample_incoming by blast
  show ?thesis using session_only_if_authorised [OF i] by auto
qed

lemma sample_newly_trusted:
  "\<exists>reply h2. handleIncomingConn (host_env_with sample_request) (frame_bytes MsgPairRequest [] @ []) ''peer'' ''libp2p'' sample_host = (reply, h2)
    \<and> IsTrusted (m_nodeID sample_client) (m_cfg h2) \<and> \<not> IsTrusted (m_nodeID sample_client) (m_cfg sample_host)"
proof -
  obtain resp h2 where a: "handle_request (host_env_with sample_request) ''peer'' ''libp2p'' sample_request sample_host = (Accepted resp, h2)"
    using sample_answer by blast
  then have i: "handleIncomingConn (host_env_with sample_request) (frame_bytes MsgPairRequest [] @ []) ''peer'' ''libp2p'' sample_host
      = (Accepted resp, h2)"
    using ReadFrame_frame_bytes [of "[]" MsgPairRequest "[]"] by (simp add: handleIncomingConn_def Decode_def)
  obtain idp where "link_request (client_env_with undefined) sample_plan sample_client
      = Inr (request_for (client_env_with undefined) sample_plan sample_client idp)"
    using client_request [of "client_env_with undefined" sample_client 0 sample_plan] sample_honest(2) toy_digest_laws by auto
  then have r: "sample_request = request_for (client_env_with undefined) sample_plan sample_client idp"
    by (simp add: sample_request_def)
  have q: "prq_Mode sample_request = ''pairing''" "prq_NodeID sample_request = string_of_bytes client_key"
    unfolding r
    by (simp_all add: request_for_def Let_def sample_plan_def ModeString_def token_canonical_def sample_link_token_def
        sample_client_def Manager_New_def)
  from a show ?thesis
  proof (cases rule: handle_request_cases)
    case (refused e)
    then show ?thesis by simp
  next
    case (served peer proto port m1)
    have "peer = string_of_bytes client_key" "peer \<noteq> []"
      using served(1) q(2) sample_client_id by (auto simp: pairRequestNodeID_def Let_def toy_crypto_def split: if_splits)
    moreover have "m_cfg h2 = m_cfg m1" using respond_state(2) served(3) by (metis snd_conv)
    ultimately show ?thesis
      using i served(5) q(1) Add_trusted [of "trusted_entry (host_env_with sample_request) sample_request peer proto port"]
      by (simp add: sample_host_def sample_client_def Manager_New_def toy_config_def defaultConfig_def IsTrusted_set)
  qed
qed

theorem trust_only_by_pairing_witness:
  "\<exists>a. map_get (m_byInviteID sample_host) (inviteKey (prq_InviteID sample_request)) = Some a \<and> inv_Mode (at sample_host a) = ''pairing''"
proof -
  obtain reply h2 where i: "handleIncomingConn (host_env_with sample_request) (frame_bytes MsgPairRequest [] @ []) ''peer'' ''libp2p''
      sample_host = (reply, h2)" "IsTrusted (m_nodeID sample_client) (m_cfg h2)" "\<not> IsTrusted (m_nodeID sample_client) (m_cfg sample_host)"
    using sample_newly_trusted by blast
  show ?thesis using trust_only_by_pairing [OF i] by auto
qed


section \<open>A trusted peer\<close>

text \<open>The host has the client in its trust list, for port 22.\<close>

definition client_entry :: TrustedPeer where
  "client_entry = sample_peer\<lparr>tp_NodeID := string_of_bytes client_key, tp_MachineID := [],
     tp_PublicKey := hexEncode client_key, tp_TargetPort := 22\<rparr>"

definition trusted_host :: Manager where
  "trusted_host = sample_host\<lparr>m_cfg := (m_cfg sample_host)\<lparr>cfg_Trusted := [client_entry]\<rparr>\<rparr>"

definition trusted_request :: PairRequest where
  "trusted_request = projr (reauth_request (client_env_with undefined) (string_of_bytes host_key) ''vnc'' 5900 sample_client)"

lemma stored_key_matches:
  assumes "k = replicate 32 65 \<or> k = replicate 32 66" "ip_PublicKey p = k"
  shows "verifyStoredIdentity (hexEncode k) [] (Some p) = None"
proof -
  have "\<not> is_space c" if "c \<in> set (hexEncode k)" for c
    using that assms(1) by (auto simp: hexEncode_def hextable_def is_space_def char_code_def)
  then have "TrimSpace (hexEncode k) = hexEncode k" by (simp add: TrimSpace_def TrimFunc_id)
  moreover have "TrimSpace [] = []" by (simp add: TrimSpace_def TrimFunc_id)
  moreover have "hexEncode k \<noteq> []" using assms(1) by (auto simp: hexEncode_def)
  ultimately show ?thesis using assms(2) by (simp add: verifyStoredIdentity_def EqualFold_def)
qed

lemma toy_proof:
  assumes "b \<noteq> []"
  shows "\<exists>p. localProof toy_crypto (\<lambda>b. Some (toy_key b)) (toy_config b) None role (string_of_bytes b) verifier ivt iprf tok mode
        (TimeWindow 0) = Inr p
    \<and> ip_PublicKey p = b
    \<and> verifyIdentityProof toy_crypto 0 (Some p) None role (string_of_bytes b) verifier ivt iprf tok mode = None"
proof -
  note l = toy_localNodeKey [of b] toy_ed25519_law [OF assms]
  have sha: "cr_sha256 toy_crypto x \<noteq> []" for x by (simp add: toy_crypto_def)
  obtain p where p: "localProof toy_crypto (\<lambda>b. Some (toy_key b)) (toy_config b) None role (string_of_bytes b) verifier ivt iprf tok mode
        (TimeWindow 0) = Inr p" "ip_PublicKey p = b"
    using localProof_software [OF l sha] by meson
  obtain q where "localProof toy_crypto (\<lambda>b. Some (toy_key b)) (toy_config b) None role (string_of_bytes b) verifier ivt iprf tok mode
        (TimeWindow 0) = Inr q"
      "verifyIdentityProof toy_crypto 0 (Some q) None role (string_of_bytes b) verifier ivt iprf tok mode = None"
    using localProof_accepted [OF l, of 0 "TimeWindow 0" role verifier ivt iprf tok mode] sha by (auto simp: validWindow_iff)
  then show ?thesis using p by auto
qed

lemma trusted_request_ok:
  "prq_Version trusted_request = Version \<and> prq_Mode trusted_request = ''trusted'' \<and> prq_TargetPort trusted_request = 5900
   \<and> pairRequestNodeID toy_crypto trusted_request ''peer'' ''libp2p'' = Inr (string_of_bytes client_key)
   \<and> verifyIdentityProof toy_crypto 0 (prq_Identity trusted_request) (prq_Attestation trusted_request) ''request''
       (string_of_bytes client_key) (m_nodeID trusted_host) (prq_InviteID trusted_request) (prq_Proof trusted_request) [] ''trusted'' = None
   \<and> verifyStoredIdentity (tp_PublicKey client_entry) (tp_MachineID client_entry) (prq_Identity trusted_request) = None"
proof -
  have ne: "client_key \<noteq> []" by (simp add: client_key_def)
  obtain p where p: "localProof toy_crypto (\<lambda>b. Some (toy_key b)) (toy_config client_key) None ''request'' (string_of_bytes client_key)
        (string_of_bytes host_key) [] [] [] ''trusted'' (TimeWindow 0) = Inr p" "ip_PublicKey p = client_key"
      "verifyIdentityProof toy_crypto 0 (Some p) None ''request'' (string_of_bytes client_key) (string_of_bytes host_key) [] [] [] ''trusted'' = None"
    using toy_proof [OF ne] by meson
  have r: "trusted_request = \<lparr>prq_Version = Version, prq_NodeID = string_of_bytes client_key, prq_InviteID = [], prq_Proof = [],
      prq_Mode = ''trusted'', prq_Label = ''host'', prq_Protocol = ''vnc'', prq_TargetPort = 5900, prq_Attestation = None,
      prq_Identity = Some p\<rparr>"
    using p(1)
    by (simp add: trusted_request_def reauth_request_def sample_client_def Manager_New_def localAttestation_def
        attestationForIdentity_def) (simp add: toy_config_def)
  show ?thesis
    using p(2,3) stored_key_matches [of client_key p] sample_client_id
    by (simp add: r pairRequestNodeID_def Let_def toy_crypto_def trusted_host_def sample_host_def Manager_New_def client_entry_def
        client_key_def)
qed

theorem trusted_reauth_port_witness:
  "m_sessions (snd (handle_request (host_env_with trusted_request) ''peer'' ''libp2p'' trusted_request trusted_host)) =
    snd (Issue (m_sessions trusted_host) (Some [1, 2, 3]) 0 (string_of_bytes client_key) 5900)
   \<and> tp_TargetPort client_entry = 22"
proof -
  have g: "TrustedPeer_get (string_of_bytes client_key) (m_cfg trusted_host) = Some client_entry"
    by (simp add: TrustedPeer_get_def trusted_host_def client_entry_def)
  show ?thesis
    using trusted_reauth_port [of trusted_request "host_env_with trusted_request" "''peer''" "''libp2p''" "string_of_bytes client_key"
        trusted_host client_entry "[1, 2, 3]"] trusted_request_ok g
    by (simp add: client_entry_def)
qed

definition host_remote :: RemoteConfig where
  "host_remote = (empty_remote (string_of_bytes host_key))\<lparr>rc_PublicKey := hexEncode host_key, rc_Backend := ''libp2p_dht''\<rparr>"

definition reauth_proof :: IdentityProof where
  "reauth_proof = projr (localProof toy_crypto (\<lambda>b. Some (toy_key b)) (toy_config host_key) None ''response'' (string_of_bytes host_key)
     (string_of_bytes client_key) [] [] [1] ''trusted'' (TimeWindow 0))"

definition reauth_response :: PairResponse where
  "reauth_response = \<lparr>prs_OK = True, prs_Message = [], prs_HostLabel = ''h'', prs_SessionToken = [1], prs_Protocol = ''ssh'',
     prs_TargetPort = 22, prs_IrohTicket = [], prs_Attestation = None, prs_Identity = Some reauth_proof\<rparr>"

lemma sample_reauth:
  "\<exists>res m'. reauthRemoteWithBackend (client_env_with reauth_response) host_remote [] sample_client = (Inr res, m')"
proof -
  have ne: "host_key \<noteq> []" by (simp add: host_key_def)
  have p: "ip_PublicKey reauth_proof = host_key"
      "verifyIdentityProof toy_crypto 0 (Some reauth_proof) None ''response'' (string_of_bytes host_key) (string_of_bytes client_key)
         [] [] [1] ''trusted'' = None"
    using toy_proof [OF ne, of "''response''" "string_of_bytes client_key" "[]" "[]" "[1]" "''trusted''"]
    by (auto simp: reauth_proof_def)
  have i: "verifyStoredIdentity (hexEncode host_key) [] (Some reauth_proof) = None"
    using stored_key_matches [OF _ p(1)] by (simp add: host_key_def)
  have ck: "client_key \<noteq> []" by (simp add: client_key_def)
  obtain req where q: "reauth_request (client_env_with reauth_response) (string_of_bytes host_key) [] 0 sample_client = Inr req"
    using toy_proof [OF ck, of "''request''" "string_of_bytes host_key" "[]" "[]" "[]" "''trusted''"]
    by (auto simp: reauth_request_def sample_client_def Manager_New_def)
  have b: "reauth_backend sample_client host_remote [] = ''libp2p_dht''"
    using TrimSpace_backend [of "''libp2p_dht''"]
    by (simp add: reauth_backend_def host_remote_def validNetworkBackend_def CanonicalNetworkBackend_def Let_def TrimSpace_def TrimFunc_id)
  have o: "Registry_OpenPairingSession ''libp2p_dht'' target (cl_registry (client_env_with reauth_response)) =
      Inr \<lparr>ps_Stream = (), ps_RelayAddrs = pt_RelayAddrs target, ps_IrohTicket = pt_IrohTicket target,
        ps_DirectQUICAddrs = pt_DirectQUICAddrs target, ps_QUICEndpoint = []\<rparr>" for target
    by (simp add: client_env_with_def Registry_OpenPairingSession_def MustGet_def registry.get_put Let_def dht_backend_def)
  have h: "rc_NodeID host_remote = string_of_bytes host_key" "rc_PublicKey host_remote = hexEncode host_key" "rc_MachineID host_remote = []"
      "rc_Protocol host_remote = []" "rc_TargetPort host_remote = 0"
    by (simp_all add: host_remote_def empty_remote_def)
  have n: "m_nodeID sample_client = string_of_bytes client_key" by (simp add: sample_client_def Manager_New_def)
  have "exchange (client_env_with reauth_response) () req = Inr reauth_response"
    by (simp add: exchange_def readFrameWithContext_def Decode_def reauth_response_def)
  then have "\<exists>res m'. reauthOverStream (client_env_with reauth_response) session host_remote nb sample_client = (Inr res, m')" for session nb
    using q p(2) i h n by (simp add: reauthOverStream_def accept_reauth_response_def reauth_response_def Let_def)
  then show ?thesis using b o by (simp add: reauthRemoteWithBackend_def Let_def)
qed

theorem reauth_same_host_witness:
  "\<exists>p att tok. same_machine host_remote p \<and> verifyIdentityProof toy_crypto 0 (Some p) att ''response''
     (rc_NodeID host_remote) (m_nodeID sample_client) [] [] tok ''trusted'' = None"
proof -
  obtain res m' where r: "reauthRemoteWithBackend (client_env_with reauth_response) host_remote [] sample_client = (Inr res, m')"
    using sample_reauth by blast
  obtain p and resp :: PairResponse where "same_machine host_remote p"
      "verifyIdentityProof toy_crypto 0 (Some p) (prs_Attestation resp) ''response'' (rc_NodeID host_remote)
        (m_nodeID sample_client) [] [] (prs_SessionToken resp) ''trusted'' = None"
    using reauth_same_host [OF r, of res] by auto
  then show ?thesis by blast
qed

end
