(* ===== verification/Tunnel.thy ===== *)
theory Tunnel
  imports Handshake
begin

text \<open>
  The tunnel, \<open>internal/tunnel/tunnel.go\<close>: the host's handler of a tunnel stream up
  to the service it dials, the client's opening of a data stream, the local proxy
  with its connections, and the copying between the two ends. Dialling, listening
  and the streams are arguments.
\<close>

section \<open>Errors\<close>

text \<open>A Go error: the sentinel it wraps, if any, and its text.\<close>

datatype sentinel = IsEOF | IsNetErrClosed | IsAddrInUse | IsOther

record go_error =
  ge_is :: sentinel
  ge_text :: string

definition isUseOfClosedNetworkConnection :: "go_error option \<Rightarrow> bool" where
  "isUseOfClosedNetworkConnection err =
     (case err of None \<Rightarrow> False | Some e \<Rightarrow> Contains (ToLower (ge_text e)) ''use of closed network connection'')"

definition isConnectionReset :: "go_error option \<Rightarrow> bool" where
  "isConnectionReset err =
     (case err of None \<Rightarrow> False
      | Some e \<Rightarrow> let msg = ToLower (ge_text e) in
          Contains msg ''connection reset by peer'' \<or> Contains msg ''forcibly closed by the remote host'' \<or> Contains msg ''wsarecv'')"

definition isIrohRemoteClosed :: "go_error option \<Rightarrow> bool" where
  "isIrohRemoteClosed err =
     (case err of None \<Rightarrow> False
      | Some e \<Rightarrow> let msg = ToLower (TrimSpace (ge_text e)) in
          msg = ''internal_error (remote)'' \<or> Contains msg ''application error 0x0 (remote)''
          \<or> Contains msg ''canceled by remote with error code 0'')"

definition isTunnelClosedError :: "go_error option \<Rightarrow> bool" where
  "isTunnelClosedError err \<longleftrightarrow>
     (case err of Some e \<Rightarrow> ge_is e = IsNetErrClosed | None \<Rightarrow> False) \<or> isUseOfClosedNetworkConnection err
     \<or> isConnectionReset err \<or> isIrohRemoteClosed err"

definition bridgeCopyFailed :: "go_error option \<Rightarrow> bool" where
  "bridgeCopyFailed err =
     (case err of None \<Rightarrow> False | Some e \<Rightarrow> ge_is e \<noteq> IsEOF \<and> \<not> isTunnelClosedError err)"

definition bridgeCloseCause :: "go_error option \<Rightarrow> string" where
  "bridgeCloseCause err =
     (case err of
        None \<Rightarrow> ''nil''
      | Some e \<Rightarrow> if ge_is e = IsEOF then ''eof'' else if isTunnelClosedError err then ''closed'' else [])"

definition isAddrInUse :: "go_error \<Rightarrow> bool" where
  "isAddrInUse e \<longleftrightarrow> ge_is e = IsAddrInUse
     \<or> (let msg = ToLower (ge_text e) in
        Contains msg ''address already in use'' \<or> Contains msg ''only one usage of each socket address'')"

section \<open>Targets\<close>

definition targetAddrForPort :: "Config \<Rightarrow> int \<Rightarrow> string" where
  "targetAddrForPort c port =
     (if port > 0 \<and> port \<le> 65535 then JoinHostPort ''127.0.0.1'' (Itoa port)
      else if TrimSpace (rdp_TargetAddr (cfg_RDP c)) \<noteq> [] then rdp_TargetAddr (cfg_RDP c)
      else ''127.0.0.1:3389'')"

definition tunnel_configuredTargetPort :: "Config \<Rightarrow> int" where
  "tunnel_configuredTargetPort c =
     (let target = TrimSpace (rdp_TargetAddr (cfg_RDP c)) in
      if target = [] then 3389
      else case LastIndexByte target (CHR '':'') of
        None \<Rightarrow> 3389
      | Some idx \<Rightarrow>
          if idx < length target - 1 then
            (case Atoi (drop (Suc idx) target) of
               Some prt \<Rightarrow> if prt > 0 \<and> prt \<le> 65535 then prt else 3389
             | None \<Rightarrow> 3389)
          else 3389)"

definition trim_brackets :: "string \<Rightarrow> string" where
  "trim_brackets s = TrimFunc (\<lambda>c. c \<in> {CHR ''['', CHR '']''}) s"

definition connectTargetHost :: "string \<Rightarrow> string" where
  "connectTargetHost host0 =
     (let host = TrimSpace (trim_brackets host0) in if host = [] then ''127.0.0.1'' else host)"

definition isLoopbackHost :: "string \<Rightarrow> bool" where
  "isLoopbackHost host0 =
     (let host = connectTargetHost host0 in
      if EqualFold host ''localhost'' then True
      else case ParseIP host of None \<Rightarrow> False | Some ip \<Rightarrow> IsLoopback ip)"

definition splitTargetAddr :: "string \<Rightarrow> string \<times> string" where
  "splitTargetAddr addr = (case SplitHostPort addr of None \<Rightarrow> (addr, []) | Some hp \<Rightarrow> hp)"

section \<open>The host\<close>

datatype tunnel_reject =
    TunnelVersion "8 word" | TunnelMethod string | TunnelMissingNodeID | TunnelInvalidNodeID | TunnelToken token_error
  | TunnelPeerMismatch | TunnelPortNotGranted int | TunnelNonLoopback

text \<open>
  How the handler ends: by a reset, a panic of \<open>remote[:12]\<close>, a pong, an error frame,
  a ready frame that could not be written, a dial of the local service that failed, or
  the bridge to the service dialled.
\<close>

datatype tunnel_outcome =
    TReset | TPanic | TPong | TRejected tunnel_reject | TReadyFailed | TUnreachable string
  | TBridged string string

definition cut12 :: "string \<Rightarrow> tunnel_outcome \<Rightarrow> tunnel_outcome" where
  "cut12 peer r = (if length peer < 12 then TPanic else r)"

record tunnel_env =
  tv_cr :: cryptography
  tv_now :: instant
  tv_decodePing :: "bytes \<Rightarrow> TunnelPing option"
  tv_decodeHello :: "bytes \<Rightarrow> TunnelHello option"
  tv_pongWritten :: bool
  tv_readyWritten :: bool
  tv_dial :: "string \<Rightarrow> bool"

text \<open>The address dialled, if the handler came as far.\<close>

primrec dialled :: "tunnel_outcome \<Rightarrow> string option" where
  "dialled TReset = None"
| "dialled TPanic = None"
| "dialled TPong = None"
| "dialled (TRejected r) = None"
| "dialled TReadyFailed = None"
| "dialled (TUnreachable a) = Some a"
| "dialled (TBridged a sid) = Some a"

definition proxyToService :: "tunnel_env \<Rightarrow> string \<Rightarrow> string \<Rightarrow> string \<Rightarrow> tunnel_outcome" where
  "proxyToService env remote targetAddr streamID =
     cut12 remote (if tv_dial env targetAddr then TBridged targetAddr streamID else TUnreachable targetAddr)"

definition tunnelHelloNodeID :: "cryptography \<Rightarrow> TunnelHello \<Rightarrow> string \<Rightarrow> string \<Rightarrow> tunnel_reject + string" where
  "tunnelHelloNodeID cr hello transportPeerID transportBackend =
     (let nodeID = TrimSpace (th_NodeID hello) in
      if nodeID = [] then
        (if transportBackend = BackendIroh then Inl TunnelMissingNodeID else Inr (TrimSpace transportPeerID))
      else if \<not> cr_peer_Decode cr nodeID then Inl TunnelInvalidNodeID
      else Inr nodeID)"

text \<open>What follows the session grant: the port and host the client asks for must be the granted ones.\<close>

definition connect_target :: "Config \<Rightarrow> TunnelHello \<Rightarrow> SessionGrant \<Rightarrow> string \<Rightarrow> tunnel_reject + string" where
  "connect_target c hello grant requestPeerID =
     (if sg_PeerID grant \<noteq> requestPeerID then Inl TunnelPeerMismatch
      else
        let grantedPort = (if sg_TargetPort grant \<le> 0 then tunnel_configuredTargetPort c else sg_TargetPort grant) in
        if th_TargetPort hello > 0 \<and> th_TargetPort hello \<noteq> grantedPort then Inl (TunnelPortNotGranted (th_TargetPort hello))
        else if TrimSpace (th_TargetHost hello) \<noteq> [] \<and> \<not> isLoopbackHost (th_TargetHost hello) then Inl TunnelNonLoopback
        else Inr (targetAddrForPort c grantedPort))"

definition handle_hello ::
  "tunnel_env \<Rightarrow> Config \<Rightarrow> string \<Rightarrow> string \<Rightarrow> TunnelHello \<Rightarrow> SessionStore \<Rightarrow> tunnel_outcome \<times> SessionStore" where
  "handle_hello env c remote transportBackend hello s =
     (if th_Version hello > Version then (cut12 remote (TRejected (TunnelVersion (th_Version hello))), s)
      else if th_Method hello \<noteq> [] \<and> \<not> EqualFold (th_Method hello) ''CONNECT''
      then (cut12 remote (TRejected (TunnelMethod (th_Method hello))), s)
      else case tunnelHelloNodeID (tv_cr env) hello remote transportBackend of
        Inl e \<Rightarrow> (TRejected e, s)
      | Inr requestPeerID \<Rightarrow>
          (case VerifyGrant s (tv_now env) (th_SessionToken hello) of
             (Inl e, s1) \<Rightarrow> (TRejected (TunnelToken e), s1)
           | (Inr grant, s1) \<Rightarrow>
               (case connect_target c hello grant requestPeerID of
                  Inl e \<Rightarrow> (TRejected e, s1)
                | Inr targetAddr \<Rightarrow>
                    if \<not> tv_readyWritten env then (TReadyFailed, s1)
                    else (proxyToService env requestPeerID targetAddr (th_StreamID hello), s1))))"

definition tunnel_handleIncomingConn ::
  "tunnel_env \<Rightarrow> Config \<Rightarrow> bytes \<Rightarrow> string \<Rightarrow> string \<Rightarrow> SessionStore \<Rightarrow> tunnel_outcome \<times> SessionStore" where
  "tunnel_handleIncomingConn env c incoming remote transportBackend s =
     (case ReadFrame incoming of
        (Inl _, _) \<Rightarrow> (cut12 remote TReset, s)
      | (Inr (msgType, payload), _) \<Rightarrow>
          if msgType = MsgTunnelPing then
            (case Decode (tv_decodePing env) payload of
               None \<Rightarrow> (cut12 remote TReset, s)
             | Some ping \<Rightarrow> (cut12 remote (if tv_pongWritten env then TPong else TReset), s))
          else if msgType \<noteq> MsgTunnelHello then (cut12 remote TReset, s)
          else case Decode (tv_decodeHello env) payload of
            None \<Rightarrow> (TReset, s)
          | Some hello \<Rightarrow> handle_hello env c remote transportBackend hello s)"

section \<open>The client\<close>

datatype open_error =
    OpenBackend net_error | OpenTunnelFailed net_error | SendHello | ReadTunnelResponse | HostRejectedTunnel string
  | UnexpectedTunnelResponse MsgType | OpenPanic

record 's open_env =
  oe_registry :: "'s Registry"
  oe_send :: "'s \<Rightarrow> TunnelHello \<Rightarrow> bool"
  oe_receive :: "'s \<Rightarrow> TunnelHello \<Rightarrow> frame_error + MsgType \<times> bytes"
  oe_decodeError :: "bytes \<Rightarrow> string option"

definition tunnel_target :: "string \<Rightarrow> string list \<Rightarrow> string \<Rightarrow> string \<times> Target" where
  "tunnel_target peerID relayAddrs transportEndpoint =
     (if HasPrefix transportEndpoint ''quic:''
      then (BackendBitTorrentDHT, \<lparr>tg_PeerID = peerID, tg_RelayAddrs = [], tg_IrohTicket = [],
              tg_QUICEndpoint = TrimPrefix transportEndpoint ''quic:''\<rparr>)
      else if transportEndpoint \<noteq> []
      then (BackendIroh, \<lparr>tg_PeerID = peerID, tg_RelayAddrs = [], tg_IrohTicket = transportEndpoint, tg_QUICEndpoint = []\<rparr>)
      else (BackendLibp2pRelay, \<lparr>tg_PeerID = peerID, tg_RelayAddrs = relayAddrs, tg_IrohTicket = [], tg_QUICEndpoint = []\<rparr>))"

definition client_hello :: "string \<Rightarrow> bytes \<Rightarrow> int \<Rightarrow> string \<Rightarrow> TunnelHello" where
  "client_hello nodeID sessionToken targetPort streamID =
     \<lparr>th_Version = Version, th_NodeID = nodeID, th_Method = ''CONNECT'', th_SessionToken = sessionToken,
      th_TargetHost = ''127.0.0.1'', th_TargetPort = targetPort, th_StreamID = streamID\<rparr>"

definition openDataStream ::
  "'s open_env \<Rightarrow> string \<Rightarrow> string \<Rightarrow> string list \<Rightarrow> string \<Rightarrow> bytes \<Rightarrow> int \<Rightarrow> string \<Rightarrow> open_error + 's" where
  "openDataStream env nodeID peerID relayAddrs transportEndpoint sessionToken targetPort streamID =
     (case tunnel_target peerID relayAddrs transportEndpoint of (name, target) \<Rightarrow>
        case MustGet name (oe_registry env) of
          Inl e \<Rightarrow> Inl (OpenBackend e)
        | Inr backend \<Rightarrow>
            if length peerID < 12 then Inl OpenPanic
            else case sb_OpenTunnel backend target of
              Inl e \<Rightarrow> Inl (OpenTunnelFailed e)
            | Inr stream \<Rightarrow>
                let hello = client_hello nodeID sessionToken targetPort streamID in
                if \<not> oe_send env stream hello then Inl SendHello
                else case oe_receive env stream hello of
                  Inl _ \<Rightarrow> Inl ReadTunnelResponse
                | Inr (msgType, payload) \<Rightarrow>
                    if msgType = MsgTunnelReady then Inr stream
                    else if msgType = MsgTunnelError
                    then Inl (HostRejectedTunnel (case oe_decodeError env payload of Some r \<Rightarrow> r | None \<Rightarrow> []))
                    else Inl (UnexpectedTunnelResponse msgType))"

definition normalizeListenAddr :: "string \<Rightarrow> string" where
  "normalizeListenAddr addr0 = (let addr = TrimSpace addr0 in if addr = [] then ''127.0.0.1:0'' else addr)"

definition listenLocalTunnel :: "(string \<Rightarrow> go_error + 'l) \<Rightarrow> string \<Rightarrow> go_error + 'l" where
  "listenLocalTunnel listen preferred =
     (let addr = normalizeListenAddr preferred in
      case listen addr of
        Inr ln \<Rightarrow> Inr ln
      | Inl err \<Rightarrow>
          if \<not> isAddrInUse err then Inl err
          else
            let host = (case SplitHostPort addr of None \<Rightarrow> ''127.0.0.1'' | Some (h, _) \<Rightarrow> if h = [] then ''127.0.0.1'' else h) in
            (case listen (JoinHostPort host ''0'') of
               Inr ln \<Rightarrow> Inr ln
             | Inl e \<Rightarrow> Inl err))"

definition loopbackClientAddr :: "string \<Rightarrow> string" where
  "loopbackClientAddr addr =
     (case SplitHostPort (TrimSpace addr) of
        None \<Rightarrow> addr
      | Some (host, port) \<Rightarrow>
          if port = [] then addr
          else if host \<in> {[], ''0.0.0.0'', ''::'', ''[::]'', ''::1'', ''localhost''} then JoinHostPort ''127.0.0.1'' port
          else case ParseIP (trim_brackets host) of
            Some ip \<Rightarrow> if IsUnspecified ip then JoinHostPort ''127.0.0.1'' port else JoinHostPort host port
          | None \<Rightarrow> JoinHostPort host port)"

definition normalizeConnectionPath :: "string \<Rightarrow> string" where
  "normalizeConnectionPath path =
     (let p = ToLower (TrimSpace path) in
      if p = ''direct'' then ''direct''
      else if p \<in> {''relay'', ''relayed''} then ''relayed''
      else if p = ''iroh_virtual'' then ''direct''
      else ''unknown'')"

definition isIrohVirtualAddr :: "string \<Rightarrow> bool" where
  "isIrohVirtualAddr addr =
     (let host = (case SplitHostPort addr of None \<Rightarrow> trim_brackets addr | Some (h, _) \<Rightarrow> h)
      in HasPrefix (ToLower (trim_brackets host)) ''fd15:'')"

text \<open>What a stream reports of its path and address, if it can.\<close>

definition connectionPathForStream :: "string option \<Rightarrow> string \<Rightarrow> string" where
  "connectionPathForStream reported transportEndpoint =
     (if HasPrefix transportEndpoint ''quic:'' then ''direct''
      else if transportEndpoint = [] then ''relayed''
      else case reported of Some p \<Rightarrow> p | None \<Rightarrow> ''unknown'')"

definition connectionAddrForStream :: "bool \<Rightarrow> string option \<Rightarrow> string \<Rightarrow> string" where
  "connectionAddrForStream quic_display reported transportEndpoint =
     (if HasPrefix transportEndpoint ''quic:'' then
        (if quic_display
         then ConnectionDisplayAddr \<lparr>tg_PeerID = [], tg_RelayAddrs = [], tg_IrohTicket = [],
                tg_QUICEndpoint = TrimPrefix transportEndpoint ''quic:''\<rparr>
         else [])
      else case reported of
        None \<Rightarrow> []
      | Some a \<Rightarrow> let addr = TrimSpace a in if isIrohVirtualAddr addr then [] else addr)"

text \<open>\<open>ConnectToPaired\<close> chooses the addresses; \<open>None\<close> stands for a missing presence manager.\<close>

definition paired_addrs :: "(string \<Rightarrow> string list) option \<Rightarrow> Config \<Rightarrow> string \<Rightarrow> string list option" where
  "paired_addrs presence c peerID =
     (case presence of
        None \<Rightarrow> None
      | Some get \<Rightarrow>
          let live = get peerID;
              addrs = (if live = [] then
                         (case List.find (\<lambda>r. rc_NodeID r = peerID) (cfg_Remotes c) of Some r \<Rightarrow> rc_RelayAddrs r | None \<Rightarrow> [])
                       else live)
          in if addrs = [] then None else Some addrs)"

definition closeBackendTunnel_backend :: "string \<Rightarrow> string \<Rightarrow> string option" where
  "closeBackendTunnel_backend peerID transportEndpoint =
     (if TrimSpace peerID = [] then None
      else if HasPrefix transportEndpoint ''quic:'' then Some BackendBitTorrentDHT
      else if TrimSpace transportEndpoint \<noteq> [] then Some BackendIroh
      else Some BackendLibp2pRelay)"

section \<open>The local proxy\<close>

text \<open>
  Client connections, remote streams and callbacks are numbers. \<open>lp_shut\<close> lists what
  has been closed, \<open>lp_fired\<close> the callbacks that ran; the composed \<open>onClose\<close> is the
  list of the functions it calls. An operation that collects what it closes under the
  lock and closes it afterwards returns what it collected.
\<close>

datatype handle = Client nat | Remote nat | Listener

record LocalProxy =
  lp_Addr :: string
  lp_conns :: "nat list"
  lp_streams :: "(string, nat \<times> nat option) gomap"
  lp_path :: string
  lp_addr :: string
  lp_closed :: bool
  lp_onClose :: "nat list"
  lp_once :: bool
  lp_shut :: "handle list"
  lp_fired :: "nat list"

definition newLocalProxy :: "string \<Rightarrow> LocalProxy" where
  "newLocalProxy addr = \<lparr>lp_Addr = addr, lp_conns = [], lp_streams = [], lp_path = [], lp_addr = [], lp_closed = False,
     lp_onClose = [], lp_once = False, lp_shut = [], lp_fired = []\<rparr>"

definition shut :: "handle list \<Rightarrow> LocalProxy \<Rightarrow> LocalProxy" where
  "shut hs p = p\<lparr>lp_shut := lp_shut p @ hs\<rparr>"

definition remote_handles :: "nat option \<Rightarrow> handle list" where
  "remote_handles r = (case r of None \<Rightarrow> [] | Some x \<Rightarrow> [Remote x])"

definition SetConnectionPath :: "string \<Rightarrow> string \<Rightarrow> LocalProxy \<Rightarrow> LocalProxy" where
  "SetConnectionPath path0 addr p =
     (let path = normalizeConnectionPath path0 in
      if path = [] \<or> path = ''unknown'' then p
      else p\<lparr>lp_path := path, lp_addr := (if TrimSpace addr \<noteq> [] then TrimSpace addr else lp_addr p)\<rparr>)"

definition ConnectionPath :: "LocalProxy option \<Rightarrow> string" where
  "ConnectionPath p = (case p of None \<Rightarrow> ''unknown'' | Some p \<Rightarrow> if lp_path p = [] then ''unknown'' else lp_path p)"

definition ConnectionAddr :: "LocalProxy option \<Rightarrow> string" where
  "ConnectionAddr p = (case p of None \<Rightarrow> [] | Some p \<Rightarrow> lp_addr p)"

definition SetOnClose :: "nat option \<Rightarrow> LocalProxy \<Rightarrow> LocalProxy" where
  "SetOnClose fn p =
     (case fn of
        None \<Rightarrow> p
      | Some f \<Rightarrow>
          let p1 = p\<lparr>lp_onClose := lp_onClose p @ [f]\<rparr>
          in if lp_closed p then p1\<lparr>lp_fired := lp_fired p1 @ [f]\<rparr> else p1)"

definition track :: "nat \<Rightarrow> LocalProxy \<Rightarrow> LocalProxy" where
  "track conn p = (if lp_closed p then shut [Client conn] p else p\<lparr>lp_conns := List.insert conn (lp_conns p)\<rparr>)"

definition untrack :: "nat \<Rightarrow> LocalProxy \<Rightarrow> LocalProxy" where
  "untrack conn p = p\<lparr>lp_conns := removeAll conn (lp_conns p)\<rparr>"

definition trackStream :: "string \<Rightarrow> nat \<Rightarrow> nat option \<Rightarrow> LocalProxy \<Rightarrow> bool \<times> LocalProxy" where
  "trackStream streamID client remote p =
     (if lp_closed p then (False, shut (Client client # remote_handles remote) p)
      else (True, p\<lparr>lp_conns := List.insert client (lp_conns p), lp_streams := map_set streamID (client, remote) (lp_streams p)\<rparr>))"

definition untrackStream :: "string \<Rightarrow> nat \<Rightarrow> LocalProxy \<Rightarrow> LocalProxy" where
  "untrackStream streamID client p =
     p\<lparr>lp_streams := map_del streamID (lp_streams p), lp_conns := removeAll client (lp_conns p)\<rparr>"

definition CloseStream :: "string \<Rightarrow> LocalProxy \<Rightarrow> handle list \<times> LocalProxy" where
  "CloseStream streamID p =
     (case map_get (lp_streams p) streamID of
        None \<Rightarrow> ([], p)
      | Some (client, remote) \<Rightarrow>
          (Client client # remote_handles remote,
           p\<lparr>lp_streams := map_del streamID (lp_streams p), lp_conns := removeAll client (lp_conns p)\<rparr>))"

definition notifyClosed :: "LocalProxy \<Rightarrow> LocalProxy" where
  "notifyClosed p = (if lp_once p then p else p\<lparr>lp_once := True, lp_fired := lp_fired p @ lp_onClose p\<rparr>)"

definition CloseConnections :: "LocalProxy \<Rightarrow> handle list \<times> LocalProxy" where
  "CloseConnections p =
     (map Client (lp_conns p) @ concat (map (\<lambda>(sid, c, r). remote_handles r) (lp_streams p)),
      p\<lparr>lp_conns := [], lp_streams := []\<rparr>)"

text \<open>\<open>Close\<close> up to the unlock, \<open>None\<close> when the proxy is closed already, and the rest of it.\<close>

definition close_locked :: "LocalProxy \<Rightarrow> (handle list \<times> LocalProxy) option" where
  "close_locked p =
     (if lp_closed p then None
      else case CloseConnections (p\<lparr>lp_closed := True\<rparr>) of (hs, p') \<Rightarrow> Some (Listener # hs, p'))"

definition close_rest :: "handle list \<Rightarrow> LocalProxy \<Rightarrow> LocalProxy" where
  "close_rest hs p = notifyClosed (shut hs p)"

definition LocalProxy_Close :: "LocalProxy \<Rightarrow> LocalProxy" where
  "LocalProxy_Close p = (case close_locked p of None \<Rightarrow> p | Some (hs, p') \<Rightarrow> close_rest hs p')"

definition ActiveClients :: "LocalProxy option \<Rightarrow> nat" where
  "ActiveClients p = (case p of None \<Rightarrow> 0 | Some p \<Rightarrow> length (lp_conns p))"

definition ActiveStreams :: "LocalProxy option \<Rightarrow> nat" where
  "ActiveStreams p = (case p of None \<Rightarrow> 0 | Some p \<Rightarrow> length (lp_streams p))"

subsection \<open>The goroutines of \<open>connectStream\<close>\<close>

text \<open>
  A client connection is served by a goroutine: it opens a stream, tracks it, bridges,
  closes the proxy stream if the bridge failed, and untracks. \<open>px_pending\<close> are the
  closings collected under the lock and not yet carried out, with whether \<open>Close\<close> or
  another operation collected them; \<open>px_opened\<close> are the remote streams obtained. The
  steps are the critical sections, in any order; the first callback, \<open>0\<close>, is the one
  that releases the tunnel of the backend.
\<close>

datatype worker = Opening | Bridging string nat | Failing string | Untracking string | Leaving | Finished

primrec worker_id :: "worker \<Rightarrow> string option" where
  "worker_id Opening = None"
| "worker_id (Bridging sid r) = Some sid"
| "worker_id (Failing sid) = Some sid"
| "worker_id (Untracking sid) = Some sid"
| "worker_id Leaving = None"
| "worker_id Finished = None"

record proxy_sys =
  px_proxy :: LocalProxy
  px_workers :: "nat \<rightharpoonup> worker"
  px_pending :: "(bool \<times> handle list) list"
  px_opened :: "nat list"

definition connectStream_start :: "string \<Rightarrow> proxy_sys" where
  "connectStream_start addr =
     \<lparr>px_proxy = SetOnClose (Some 0) (newLocalProxy addr), px_workers = Map.empty, px_pending = [], px_opened = []\<rparr>"

definition set_worker :: "nat \<Rightarrow> worker \<Rightarrow> LocalProxy \<Rightarrow> proxy_sys \<Rightarrow> proxy_sys" where
  "set_worker c w p s = s\<lparr>px_proxy := p, px_workers := (px_workers s)(c \<mapsto> w)\<rparr>"

inductive proxy_step :: "proxy_sys \<Rightarrow> proxy_sys \<Rightarrow> bool" where
  accepted: "px_workers s c = None \<Longrightarrow> proxy_step s (set_worker c Opening (track c (px_proxy s)) s)"
| accept_error: "proxy_step s (s\<lparr>px_proxy := notifyClosed (px_proxy s)\<rparr>)"
| open_failed: "px_workers s c = Some Opening \<Longrightarrow> proxy_step s (set_worker c Leaving (shut [Client c] (px_proxy s)) s)"
| opened:
    "px_workers s c = Some Opening \<Longrightarrow> \<forall>c' w. px_workers s c' = Some w \<longrightarrow> worker_id w \<noteq> Some sid \<Longrightarrow>
     trackStream sid c (Some r) (SetConnectionPath path addr (px_proxy s)) = (ok, p') \<Longrightarrow>
     proxy_step s (set_worker c (if ok then Bridging sid r else Leaving) p' (s\<lparr>px_opened := r # px_opened s\<rparr>))"
| bridged:
    "px_workers s c = Some (Bridging sid r) \<Longrightarrow>
     proxy_step s (set_worker c (if failed then Failing sid else Untracking sid)
       (shut [Client c, Remote r] (px_proxy s)) s)"
| failed:
    "px_workers s c = Some (Failing sid) \<Longrightarrow> CloseStream sid (px_proxy s) = (hs, p') \<Longrightarrow>
     proxy_step s (set_worker c (Untracking sid) p' (s\<lparr>px_pending := (False, hs) # px_pending s\<rparr>))"
| untracked_stream:
    "px_workers s c = Some (Untracking sid) \<Longrightarrow> proxy_step s (set_worker c Leaving (untrackStream sid c (px_proxy s)) s)"
| left: "px_workers s c = Some Leaving \<Longrightarrow> proxy_step s (set_worker c Finished (untrack c (px_proxy s)) s)"
| registered: "f \<noteq> 0 \<Longrightarrow> proxy_step s (s\<lparr>px_proxy := SetOnClose (Some f) (px_proxy s)\<rparr>)"
| close_connections:
    "CloseConnections (px_proxy s) = (hs, p') \<Longrightarrow>
     proxy_step s (s\<lparr>px_proxy := p', px_pending := (False, hs) # px_pending s\<rparr>)"
| close_begin:
    "close_locked (px_proxy s) = Some (hs, p') \<Longrightarrow>
     proxy_step s (s\<lparr>px_proxy := p', px_pending := (True, hs) # px_pending s\<rparr>)"
| close_end:
    "(closing, hs) \<in> set (px_pending s) \<Longrightarrow>
     proxy_step s (s\<lparr>px_proxy := (if closing then close_rest hs (px_proxy s) else shut hs (px_proxy s)),
       px_pending := remove1 (closing, hs) (px_pending s)\<rparr>)"

section \<open>Bridging\<close>

definition bridgeWriteBufferSize :: nat where "bridgeWriteBufferSize = 32 * 1024"

definition writeChunkSize :: "int option \<Rightarrow> nat" where
  "writeChunkSize reported = (case reported of Some sz \<Rightarrow> if sz > 0 then nat sz else 0 | None \<Rightarrow> 0)"

text \<open>One call of \<open>dst.Write\<close>: the bytes accepted, the error, the destination afterwards.\<close>

type_synonym 'w dst_write = "'w \<Rightarrow> bytes \<Rightarrow> nat \<times> go_error option \<times> 'w"

definition short_write :: go_error where
  "short_write = \<lparr>ge_is = IsOther, ge_text = ''short write''\<rparr>"

function write_full_loop ::
  "'w dst_write \<Rightarrow> nat \<Rightarrow> bytes \<Rightarrow> nat \<Rightarrow> 'w \<Rightarrow> nat \<times> go_error option \<times> 'w" where
  "write_full_loop wr chunk p tot w =
     (if tot < length p then
        let upto = (if chunk > 0 \<and> length p - tot > chunk then tot + chunk else length p) in
        case wr w (take (upto - tot) (drop tot p)) of (n, err, w') \<Rightarrow>
          (case err of
             Some e \<Rightarrow> (tot + n, Some e, w')
           | None \<Rightarrow> if n = 0 then (tot, Some short_write, w') else write_full_loop wr chunk p (tot + n) w')
      else (tot, None, w))"
  by pat_completeness auto
termination
  by (relation "measure (\<lambda>(_, _, p, tot, _). length p - tot)") auto

declare write_full_loop.simps [simp del]

definition writeFullWithDeadline ::
  "'w dst_write \<Rightarrow> int option \<Rightarrow> bytes \<Rightarrow> 'w \<Rightarrow> nat \<times> go_error option \<times> 'w" where
  "writeFullWithDeadline wr chunkSize p w = write_full_loop wr (writeChunkSize chunkSize) p 0 w"

text \<open>
  The source is the list of its read results, each some bytes and perhaps an error;
  when the list ends the copy is still waiting for the next read.
\<close>

primrec copyWithProgress ::
  "'w dst_write \<Rightarrow> int option \<Rightarrow> (bytes \<times> go_error option) list \<Rightarrow> nat \<Rightarrow> 'w \<Rightarrow> nat \<times> go_error option \<times> 'w" where
  "copyWithProgress wr cs [] tot w = (tot, None, w)"
| "copyWithProgress wr cs (r # rs) tot w =
     (case r of (data, er) \<Rightarrow>
        (case (if data = [] then (0, None, w) else writeFullWithDeadline wr cs data w) of (nw, ew, w') \<Rightarrow>
           (case ew of
              Some e \<Rightarrow> (tot + nw, Some e, w')
            | None \<Rightarrow>
                if nw \<noteq> length data then (tot + nw, Some short_write, w')
                else (case er of
                        Some e \<Rightarrow> (tot + nw, Some e, w')
                      | None \<Rightarrow> copyWithProgress wr cs rs (tot + nw) w'))))"

datatype bridge_end = EndA | EndB
datatype bridge_action = CloseWrite bridge_end | CloseAbortive bridge_end | CloseGraceful bridge_end

text \<open>
  The two directions end in some order, each with the side it wrote to and its
  error; teardown happens once.
\<close>

definition direction_end :: "bool \<Rightarrow> bridge_end \<Rightarrow> go_error option \<Rightarrow> bridge_action list" where
  "direction_end torn dst err =
     (if bridgeCopyFailed err then (if torn then [] else [CloseAbortive EndA, CloseAbortive EndB]) else [CloseWrite dst])"

definition bridgeLogged ::
  "bridge_end \<times> go_error option \<Rightarrow> bridge_end \<times> go_error option \<Rightarrow> bool \<times> bridge_action list" where
  "bridgeLogged fst_end snd_end =
     (let f1 = bridgeCopyFailed (snd fst_end); f2 = bridgeCopyFailed (snd snd_end) in
      (f1 \<or> f2,
       direction_end False (fst fst_end) (snd fst_end) @ direction_end f1 (fst snd_end) (snd snd_end)
       @ (if f1 \<or> f2 then [] else [CloseGraceful EndA, CloseGraceful EndB])))"


section \<open>Properties of the handler\<close>

lemma tunnel_configuredTargetPort_range: "0 < tunnel_configuredTargetPort c" "tunnel_configuredTargetPort c \<le> 65535"
  by (auto simp: tunnel_configuredTargetPort_def Let_def split: option.splits if_splits)

lemma dialled_cut12: "dialled (cut12 peer r) = Some a \<Longrightarrow> dialled r = Some a"
  by (auto simp: cut12_def split: if_splits)

lemma dialled_proxyToService: "dialled (proxyToService env remote a sid) = Some b \<Longrightarrow> b = a"
  unfolding proxyToService_def by (drule dialled_cut12) (auto split: if_splits)

definition granted_port :: "Config \<Rightarrow> SessionGrant \<Rightarrow> int" where
  "granted_port c grant = (if sg_TargetPort grant \<le> 0 then tunnel_configuredTargetPort c else sg_TargetPort grant)"

lemma connect_target_InrD:
  assumes "connect_target c hello grant peer = Inr target"
  shows "sg_PeerID grant = peer" "th_TargetPort hello \<le> 0 \<or> th_TargetPort hello = granted_port c grant"
    "TrimSpace (th_TargetHost hello) = [] \<or> isLoopbackHost (th_TargetHost hello)"
    "target = targetAddrForPort c (granted_port c grant)"
  using assms by (auto simp: connect_target_def granted_port_def Let_def split: if_splits)

lemma targetAddrForPort_granted:
  "sg_TargetPort grant \<le> 65535 \<Longrightarrow>
     targetAddrForPort c (granted_port c grant) = JoinHostPort ''127.0.0.1'' (Itoa (granted_port c grant))"
  using tunnel_configuredTargetPort_range [of c] by (auto simp: targetAddrForPort_def granted_port_def)

lemma handle_hello_dialled:
  assumes "handle_hello env c remote backend hello s = (r, s')" "dialled r = Some target"
  obtains grant where "\<not> th_Version hello > Version" "th_Method hello = [] \<or> EqualFold (th_Method hello) ''CONNECT''"
    "tunnelHelloNodeID (tv_cr env) hello remote backend = Inr (sg_PeerID grant)"
    "VerifyGrant s (tv_now env) (th_SessionToken hello) = (Inr grant, s')"
    "connect_target c hello grant (sg_PeerID grant) = Inr target"
proof -
  have v: "\<not> th_Version hello > Version" "th_Method hello = [] \<or> EqualFold (th_Method hello) ''CONNECT''"
    using assms by (auto simp: handle_hello_def dest: dialled_cut12 split: if_splits)
  obtain peer where peer: "tunnelHelloNodeID (tv_cr env) hello remote backend = Inr peer"
    using assms v by (auto simp: handle_hello_def split: if_splits sum.splits)
  obtain grant s1 where g: "VerifyGrant s (tv_now env) (th_SessionToken hello) = (Inr grant, s1)"
    using assms v peer by (auto simp: handle_hello_def split: if_splits sum.splits prod.splits)
  obtain t where t: "connect_target c hello grant peer = Inr t"
    using assms v peer g by (auto simp: handle_hello_def split: if_splits sum.splits)
  have "sg_PeerID grant = peer" using connect_target_InrD [OF t] by simp
  moreover have "s' = s1" "t = target"
    using assms v peer g t by (auto simp: handle_hello_def dest: dialled_proxyToService split: if_splits)
  ultimately show ?thesis using that [of grant] v peer g t by simp
qed

lemma tunnel_handleIncomingConn_dialled:
  assumes "tunnel_handleIncomingConn env c incoming remote backend s = (r, s')" "dialled r = Some target"
  obtains payload rest hello where "ReadFrame incoming = (Inr (MsgTunnelHello, payload), rest)"
    "Decode (tv_decodeHello env) payload = Some hello" "handle_hello env c remote backend hello s = (r, s')"
proof -
  obtain t payload rest where f: "ReadFrame incoming = (Inr (t, payload), rest)"
    using assms by (auto simp: tunnel_handleIncomingConn_def dest: dialled_cut12 split: prod.splits sum.splits)
  have np: "t \<noteq> MsgTunnelPing"
    using assms f by (auto simp: tunnel_handleIncomingConn_def dest: dialled_cut12 split: if_splits option.splits)
  then have t: "t = MsgTunnelHello"
    using assms f by (auto simp: tunnel_handleIncomingConn_def dest: dialled_cut12 split: if_splits)
  with assms f np obtain hello where "Decode (tv_decodeHello env) payload = Some hello"
    by (auto simp: tunnel_handleIncomingConn_def split: option.splits)
  with assms f np t that show ?thesis by (auto simp: tunnel_handleIncomingConn_def)
qed


subsection \<open>The client's hello at the host\<close>

lemma isLoopbackHost_local: "isLoopbackHost ''127.0.0.1''"
  by code_simp

lemma map_get_filter_set: "q (k, v) \<Longrightarrow> map_get (filter q (map_set k v m)) k = Some v"
  by (induction m) auto

lemma VerifyGrant_Issue:
  assumes "Issue s (Some tok) issued peer port = (Inr tok', s1)" "issued \<le> now" "now \<le> issued + SessionTokenTTL"
  shows "\<exists>s2. VerifyGrant s1 now tok = (Inr \<lparr>sg_PeerID = peer, sg_TargetPort = port\<rparr>, s2)"
proof -
  let ?e = "\<lparr>se_expiresAt = issued + SessionTokenTTL, se_grant = \<lparr>sg_PeerID = peer, sg_TargetPort = port\<rparr>,
    se_usesLeft = SessionTokenMaxUses\<rparr>"
  have s1: "s1 = sweep issued (s\<lparr>ss_tokens := map_set tok ?e (ss_tokens s)\<rparr>)"
    using assms(1) by (auto simp: Issue_def Let_def)
  have "\<not> After issued (issued + SessionTokenTTL)" by (simp add: After_def SessionTokenTTL_def)
  then have "map_get (ss_tokens s1) tok = Some ?e"
    unfolding s1 sweep_def by (simp add: map_get_filter_set)
  then show ?thesis
    using assms(3) by (simp add: VerifyGrant_def After_def SessionTokenMaxUses_def Let_def)
qed

lemma handle_hello_client:
  assumes "Issue s (Some tok) issued nodeID port = (Inr tok', s1)"
    and "issued \<le> tv_now env" "tv_now env \<le> issued + SessionTokenTTL"
    and "cr_peer_Decode (tv_cr env) nodeID" "TrimSpace nodeID = nodeID" "length nodeID \<ge> 12" "length remote \<ge> 12"
    and "0 < port" "port \<le> 65535" "asked = 0 \<or> asked = port"
    and "tv_readyWritten env" "tv_dial env (JoinHostPort ''127.0.0.1'' (Itoa port))"
  shows "fst (handle_hello env c remote backend (client_hello nodeID tok asked sid) s1) =
    TBridged (JoinHostPort ''127.0.0.1'' (Itoa port)) sid"
proof -
  let ?h = "client_hello nodeID tok asked sid" and ?g = "\<lparr>sg_PeerID = nodeID, sg_TargetPort = port\<rparr>"
  obtain s2 where v: "VerifyGrant s1 (tv_now env) tok = (Inr ?g, s2)"
    using VerifyGrant_Issue [OF assms(1-3)] by blast
  have n: "tunnelHelloNodeID (tv_cr env) ?h remote backend = Inr nodeID"
    using assms(4-6) by (auto simp: tunnelHelloNodeID_def client_hello_def Let_def)
  have m: "EqualFold ''CONNECT'' ''CONNECT''" by (simp add: EqualFold_def)
  have "connect_target c ?h ?g nodeID = Inr (JoinHostPort ''127.0.0.1'' (Itoa port))"
    using assms(8-10) isLoopbackHost_local
    by (auto simp: connect_target_def client_hello_def targetAddrForPort_def Let_def)
  then show ?thesis
    using v n m assms(6,11,12) by (simp add: handle_hello_def client_hello_def proxyToService_def cut12_def)
qed


section \<open>Properties of the copying\<close>

text \<open>A destination that accepts some of the bytes of a write not above its chunk size, and one that always makes progress.\<close>

definition dst_contract :: "'w dst_write \<Rightarrow> nat \<Rightarrow> ('w \<Rightarrow> bytes) \<Rightarrow> bool" where
  "dst_contract wr chunk out \<longleftrightarrow>
     (\<forall>w data. data \<noteq> [] \<and> (chunk = 0 \<or> length data \<le> chunk) \<longrightarrow>
        fst (wr w data) \<le> length data \<and> out (snd (snd (wr w data))) = out w @ take (fst (wr w data)) data)"

definition dst_progress :: "'w dst_write \<Rightarrow> nat \<Rightarrow> bool" where
  "dst_progress wr chunk \<longleftrightarrow>
     (\<forall>w data. data \<noteq> [] \<and> (chunk = 0 \<or> length data \<le> chunk) \<longrightarrow> fst (wr w data) > 0 \<and> fst (snd (wr w data)) = None)"

lemma write_full_loop_correct:
  assumes "dst_contract wr chunk out" "tot \<le> length p"
  shows "case write_full_loop wr chunk p tot w of (t, err, w') \<Rightarrow>
     tot \<le> t \<and> t \<le> length p \<and> out w' = out w @ take (t - tot) (drop tot p)
     \<and> (err = None \<longrightarrow> t = length p) \<and> (dst_progress wr chunk \<longrightarrow> err = None)"
  using assms
proof (induction wr chunk p tot w rule: write_full_loop.induct)
  case (1 wr chunk p tot w)
  show ?case
  proof (cases "tot < length p")
    case False
    then show ?thesis using "1.prems" by (subst write_full_loop.simps) simp
  next
    case True
    define upto where "upto = (if chunk > 0 \<and> length p - tot > chunk then tot + chunk else length p)"
    define data where "data = take (upto - tot) (drop tot p)"
    obtain n err w1 where w1: "wr w data = (n, err, w1)" by (cases "wr w data")
    have upto: "tot < upto" "upto \<le> length p" "chunk = 0 \<or> upto - tot \<le> chunk"
      using True by (auto simp: upto_def)
    then have d: "data \<noteq> []" "length data = upto - tot" by (auto simp: data_def)
    have c: "n \<le> length data" "out w1 = out w @ take n data"
      using "1.prems"(1) d upto w1 unfolding dst_contract_def by (metis fst_conv snd_conv)+
    have pr: "dst_progress wr chunk \<Longrightarrow> n > 0 \<and> err = None"
      using d upto w1 unfolding dst_progress_def by (metis fst_conv snd_conv)
    have data: "take n data = take n (drop tot p)" using c d by (simp add: data_def)
    have unf: "write_full_loop wr chunk p tot w =
       (case err of Some e \<Rightarrow> (tot + n, Some e, w1)
        | None \<Rightarrow> if n = 0 then (tot, Some short_write, w1) else write_full_loop wr chunk p (tot + n) w1)"
      using True w1 by (simp add: write_full_loop.simps [of wr chunk p tot w] upto_def data_def Let_def)
    show ?thesis
    proof (cases "err = None \<and> n \<noteq> 0")
      case False
      then show ?thesis using unf c data d upto pr by (cases err) auto
    next
      case ok: True
      have ih: "case write_full_loop wr chunk p (tot + n) w1 of (t, err, w') \<Rightarrow>
         tot + n \<le> t \<and> t \<le> length p \<and> out w' = out w1 @ take (t - (tot + n)) (drop (tot + n) p)
         \<and> (err = None \<longrightarrow> t = length p) \<and> (dst_progress wr chunk \<longrightarrow> err = None)"
        using "1.IH" [OF True upto_def w1 [symmetric, unfolded data_def]] ok c d upto "1.prems"(1) by simp
      have "take (t - tot) (drop tot p) = take n (drop tot p) @ take (t - (tot + n)) (drop (tot + n) p)"
        if "tot + n \<le> t" for t
        using that take_add [of n "t - (tot + n)" "drop tot p"] by (simp add: add.commute)
      then show ?thesis using ih unf ok c data by (auto split: prod.splits)
    qed
  qed
qed

text \<open>The reads up to the first that reports an error.\<close>

primrec until_error :: "('d \<times> 'e option) list \<Rightarrow> ('d \<times> 'e option) list" where
  "until_error [] = []"
| "until_error (r # rs) = r # (if snd r = None then until_error rs else [])"

abbreviation bytes_read :: "(bytes \<times> go_error option) list \<Rightarrow> bytes" where
  "bytes_read rs \<equiv> concat (map fst (until_error rs))"

lemma writeFullWithDeadline_correct:
  assumes "dst_contract wr (writeChunkSize cs) out" "writeFullWithDeadline wr cs p w = (n, err, w')"
  shows "n \<le> length p" "out w' = out w @ take n p" "err = None \<Longrightarrow> n = length p"
    "dst_progress wr (writeChunkSize cs) \<Longrightarrow> err = None"
  using write_full_loop_correct [OF assms(1), of 0 p w] assms(2) by (simp_all add: writeFullWithDeadline_def)

lemma copyWithProgress_gen:
  assumes "dst_contract wr (writeChunkSize cs) out"
  shows "case copyWithProgress wr cs rs tot w of (n, err, w') \<Rightarrow>
     tot \<le> n \<and> n \<le> tot + length (bytes_read rs) \<and> out w' = out w @ take (n - tot) (bytes_read rs)
     \<and> (dst_progress wr (writeChunkSize cs) \<longrightarrow>
          n = tot + length (bytes_read rs) \<and> err = (if rs = [] then None else snd (last (until_error rs))))"
proof (induction rs arbitrary: tot w)
  case Nil
  then show ?case by simp
next
  case (Cons r rs)
  obtain data er where r: "r = (data, er)" by (cases r)
  obtain nw ew w1 where w1: "(if data = [] then (0, None, w) else writeFullWithDeadline wr cs data w) = (nw, ew, w1)"
    by (cases "if data = [] then (0, None, w) else writeFullWithDeadline wr cs data w")
  have c: "nw \<le> length data" "out w1 = out w @ take nw data" "ew = None \<Longrightarrow> nw = length data"
      "dst_progress wr (writeChunkSize cs) \<Longrightarrow> ew = None"
    using w1 writeFullWithDeadline_correct [OF assms, of data w] by (auto split: if_splits)
  have ne: "until_error rs \<noteq> [] \<longleftrightarrow> rs \<noteq> []" by (cases rs) auto
  show ?case
  proof (cases "ew = None \<and> er = None")
    case True
    then show ?thesis using r w1 c Cons.IH [of "tot + nw" w1] ne by (auto split: prod.splits)
  next
    case False
    then show ?thesis using r w1 c by (cases ew; cases er) auto
  qed
qed

text \<open>
  C22: A direction of a bridge copies what it reads, in order and without gaps, to the
  other end, whatever the chunk size: with a destination that takes some of each
  write, the bytes delivered are the first \<open>n\<close> of those read up to the first read error, and
  \<open>n\<close> is the count returned; with a destination that also makes progress on each write
  without error all of them are delivered and the result is the read error. No write
  exceeds the destination's chunk size.
\<close>

theorem copyWithProgress_correct:
  assumes "dst_contract wr (writeChunkSize cs) out"
    and "copyWithProgress wr cs rs 0 w = (n, err, w')"
  shows "n \<le> length (bytes_read rs) \<and> out w' = out w @ take n (bytes_read rs)
    \<and> (dst_progress wr (writeChunkSize cs) \<longrightarrow>
         n = length (bytes_read rs) \<and> out w' = out w @ bytes_read rs
         \<and> err = (if rs = [] then None else snd (last (until_error rs))))"
  using copyWithProgress_gen [OF assms(1), where rs = rs and tot = 0 and w = w] assms(2) by auto

definition sample_dst :: "bytes list dst_write" where
  "sample_dst w data = (if length data > 4 then (length data + 1, None, []) else (min 3 (length data), None, w @ [take 3 data]))"

lemma sample_dst_ok: "dst_contract sample_dst 4 concat" "dst_progress sample_dst 4"
  by (auto simp: dst_contract_def dst_progress_def sample_dst_def min_def)

theorem copyWithProgress_correct_witness:
  "dst_contract sample_dst (writeChunkSize (Some 4)) concat \<and> dst_progress sample_dst (writeChunkSize (Some 4))
   \<and> (let rs = [([1, 2, 3, 4, 5, 6], None), ([7, 8], Some \<lparr>ge_is = IsEOF, ge_text = ''EOF''\<rparr>), ([9], None)]
      in copyWithProgress sample_dst (Some 4) rs 0 [] =
           (8, Some \<lparr>ge_is = IsEOF, ge_text = ''EOF''\<rparr>, [[1, 2, 3], [4, 5, 6], [7, 8]])
       \<and> concat [[1, 2, 3], [4, 5, 6], [7, 8]] = (bytes_read rs :: bytes))"
proof -
  let ?rs = "[([1, 2, 3, 4, 5, 6], None), ([7, 8], Some \<lparr>ge_is = IsEOF, ge_text = ''EOF''\<rparr>), ([9], None)]
    :: (bytes \<times> go_error option) list"
  have 0: "dst_contract sample_dst (writeChunkSize (Some 4)) concat" "dst_progress sample_dst (writeChunkSize (Some 4))"
    using sample_dst_ok by (simp_all add: writeChunkSize_def)
  have 1: "copyWithProgress sample_dst (Some 4) ?rs 0 [] =
      (8, Some \<lparr>ge_is = IsEOF, ge_text = ''EOF''\<rparr>, [[1, 2, 3], [4, 5, 6], [7, 8]])"
    by (simp add: writeFullWithDeadline_def writeChunkSize_def write_full_loop.simps sample_dst_def Let_def)
  show ?thesis
    using copyWithProgress_correct [OF 0(1) 1] 0 1 unfolding Let_def by (simp del: copyWithProgress.simps)
qed


section \<open>Witnesses\<close>

definition sample_hello :: TunnelHello where
  "sample_hello = client_hello ''12D3KooWClient'' [7, 7] 22 ''s1''"

definition sample_tunnel_env :: tunnel_env where
  "sample_tunnel_env = \<lparr>tv_cr = toy_crypto, tv_now = 10, tv_decodePing = (\<lambda>_. None), tv_decodeHello = (\<lambda>_. Some sample_hello),
     tv_pongWritten = True, tv_readyWritten = True, tv_dial = (\<lambda>_. True)\<rparr>"

abbreviation sample_store :: SessionStore where
  "sample_store \<equiv> snd (Issue NewSessionStore (Some [7, 7]) 0 ''12D3KooWClient'' 22)"

lemma Itoa_22: "JoinHostPort ''127.0.0.1'' (Itoa 22) = ''127.0.0.1:22''"
  by code_simp

lemma sample_id: "TrimSpace ''12D3KooWClient'' = ''12D3KooWClient''"
  by code_simp

lemma sample_issue: "Issue NewSessionStore (Some [7, 7]) 0 ''12D3KooWClient'' 22 = (Inr [7, 7], sample_store)"
  by (simp add: Issue_def Let_def)

lemmas sample_tunnel = sample_tunnel_env_def sample_hello_def toy_crypto_def SessionTokenTTL_def MaxFrameSize_def Itoa_22


lemma sample_dial:
  "fst (tunnel_handleIncomingConn sample_tunnel_env (toy_config []) (frame_bytes MsgTunnelHello [1, 2] @ [9])
     ''12D3KooWClient'' BackendLibp2pRelay sample_store) = TBridged ''127.0.0.1:22'' ''s1''"
proof -
  have "fst (handle_hello sample_tunnel_env (toy_config []) ''12D3KooWClient'' BackendLibp2pRelay sample_hello sample_store) =
      TBridged (JoinHostPort ''127.0.0.1'' (Itoa 22)) ''s1''"
    using handle_hello_client [OF sample_issue, where env = sample_tunnel_env and asked = 22 and sid = "''s1''"
        and remote = "''12D3KooWClient''" and c = "toy_config []" and backend = BackendLibp2pRelay] sample_id
    by (simp add: sample_tunnel)
  moreover have "ReadFrame (frame_bytes MsgTunnelHello [1, 2] @ [9]) = (Inr (MsgTunnelHello, [1, 2]), [9])"
    by (rule ReadFrame_frame_bytes) (simp add: MaxFrameSize_def)
  moreover have "Decode (tv_decodeHello sample_tunnel_env) [1, 2] = Some sample_hello"
    by (simp add: sample_tunnel_env_def Decode_def)
  ultimately show ?thesis by (simp add: tunnel_handleIncomingConn_def MsgType_defs Itoa_22)
qed


end
