(* ===== verification/Tunnel_Proxy.thy ===== *)
theory Tunnel_Proxy
  imports Tunnel
begin

text \<open>
  What the local proxy of \<open>internal/tunnel/tunnel.go\<close> guarantees in every interleaving
  of the goroutines that accept, open, bridge and close.
\<close>

definition covered :: "proxy_sys \<Rightarrow> handle \<Rightarrow> bool" where
  "covered s h \<longleftrightarrow> h \<in> set (lp_shut (px_proxy s)) \<or> (\<exists>b hs. (b, hs) \<in> set (px_pending s) \<and> h \<in> set hs)"

definition clients_ok :: "proxy_sys \<Rightarrow> bool" where
  "clients_ok s \<longleftrightarrow> (\<forall>c w. px_workers s c = Some w \<longrightarrow>
     covered s (Client c) \<or> (c \<in> set (lp_conns (px_proxy s)) \<and> (w = Opening \<or> (\<exists>sid r. w = Bridging sid r))))"

definition ids_ok :: "proxy_sys \<Rightarrow> bool" where
  "ids_ok s \<longleftrightarrow> (\<forall>c c' w w' i. px_workers s c = Some w \<longrightarrow> px_workers s c' = Some w' \<longrightarrow>
     worker_id w = Some i \<longrightarrow> worker_id w' = Some i \<longrightarrow> c = c')"

definition remotes_ok :: "proxy_sys \<Rightarrow> bool" where
  "remotes_ok s \<longleftrightarrow> (\<forall>c sid r. px_workers s c = Some (Bridging sid r) \<longrightarrow>
     covered s (Remote r) \<or> map_get (lp_streams (px_proxy s)) sid = Some (c, Some r))"

definition opened_ok :: "proxy_sys \<Rightarrow> bool" where
  "opened_ok s \<longleftrightarrow> (\<forall>r \<in> set (px_opened s). covered s (Remote r) \<or> (\<exists>c sid. px_workers s c = Some (Bridging sid r)))"

definition closing_ok :: "proxy_sys \<Rightarrow> bool" where
  "closing_ok s \<longleftrightarrow> (lp_closed (px_proxy s) \<longrightarrow>
     lp_conns (px_proxy s) = [] \<and> lp_streams (px_proxy s) = [] \<and> covered s Listener)"

definition callbacks_ok :: "proxy_sys \<Rightarrow> bool" where
  "callbacks_ok s \<longleftrightarrow> count_list (lp_onClose (px_proxy s)) 0 = 1
     \<and> count_list (lp_fired (px_proxy s)) 0 = (if lp_once (px_proxy s) then 1 else 0)
     \<and> (lp_closed (px_proxy s) \<longrightarrow> lp_once (px_proxy s) \<or> (\<exists>hs. (True, hs) \<in> set (px_pending s)))"

text \<open>What the operations do to the fields of the proxy.\<close>

lemma proxy_shut [simp]:
  "lp_conns (shut hs p) = lp_conns p" "lp_streams (shut hs p) = lp_streams p" "lp_closed (shut hs p) = lp_closed p"
  "lp_onClose (shut hs p) = lp_onClose p" "lp_once (shut hs p) = lp_once p" "lp_fired (shut hs p) = lp_fired p"
  "lp_shut (shut hs p) = lp_shut p @ hs"
  by (simp_all add: shut_def)

lemma proxy_track [simp]:
  "set (lp_conns (track c p)) = (if lp_closed p then set (lp_conns p) else insert c (set (lp_conns p)))"
  "lp_streams (track c p) = lp_streams p" "lp_closed (track c p) = lp_closed p"
  "lp_onClose (track c p) = lp_onClose p" "lp_once (track c p) = lp_once p" "lp_fired (track c p) = lp_fired p"
  "set (lp_shut (track c p)) = (if lp_closed p then insert (Client c) (set (lp_shut p)) else set (lp_shut p))"
  by (simp_all add: track_def)

lemma proxy_untrack [simp]:
  "set (lp_conns (untrack c p)) = set (lp_conns p) - {c}" "lp_streams (untrack c p) = lp_streams p"
  "lp_closed (untrack c p) = lp_closed p" "lp_onClose (untrack c p) = lp_onClose p" "lp_once (untrack c p) = lp_once p"
  "lp_fired (untrack c p) = lp_fired p" "lp_shut (untrack c p) = lp_shut p"
  by (auto simp: untrack_def)

lemma proxy_untrackStream [simp]:
  "set (lp_conns (untrackStream sid c p)) = set (lp_conns p) - {c}"
  "lp_streams (untrackStream sid c p) = map_del sid (lp_streams p)"
  "lp_closed (untrackStream sid c p) = lp_closed p" "lp_onClose (untrackStream sid c p) = lp_onClose p"
  "lp_once (untrackStream sid c p) = lp_once p" "lp_fired (untrackStream sid c p) = lp_fired p"
  "lp_shut (untrackStream sid c p) = lp_shut p"
  by (auto simp: untrackStream_def)

lemma proxy_path [simp]:
  "lp_conns (SetConnectionPath x a p) = lp_conns p" "lp_streams (SetConnectionPath x a p) = lp_streams p"
  "lp_closed (SetConnectionPath x a p) = lp_closed p" "lp_onClose (SetConnectionPath x a p) = lp_onClose p"
  "lp_once (SetConnectionPath x a p) = lp_once p" "lp_fired (SetConnectionPath x a p) = lp_fired p"
  "lp_shut (SetConnectionPath x a p) = lp_shut p"
  by (simp_all add: SetConnectionPath_def Let_def)

lemma proxy_notify [simp]:
  "lp_conns (notifyClosed p) = lp_conns p" "lp_streams (notifyClosed p) = lp_streams p"
  "lp_closed (notifyClosed p) = lp_closed p" "lp_onClose (notifyClosed p) = lp_onClose p" "lp_once (notifyClosed p)"
  "lp_fired (notifyClosed p) = lp_fired p @ (if lp_once p then [] else lp_onClose p)"
  "lp_shut (notifyClosed p) = lp_shut p"
  by (simp_all add: notifyClosed_def)

lemma proxy_setOnClose [simp]:
  "lp_conns (SetOnClose f p) = lp_conns p" "lp_streams (SetOnClose f p) = lp_streams p"
  "lp_closed (SetOnClose f p) = lp_closed p" "lp_once (SetOnClose f p) = lp_once p" "lp_shut (SetOnClose f p) = lp_shut p"
  "lp_onClose (SetOnClose (Some g) p) = lp_onClose p @ [g]"
  "lp_fired (SetOnClose (Some g) p) = lp_fired p @ (if lp_closed p then [g] else [])"
  by (simp_all add: SetOnClose_def Let_def split: option.splits)

lemma trackStreamD:
  assumes "trackStream sid c (Some r) p = (ok, p')"
  shows "ok \<longleftrightarrow> \<not> lp_closed p" "lp_closed p' = lp_closed p" "lp_onClose p' = lp_onClose p" "lp_once p' = lp_once p"
    "lp_fired p' = lp_fired p" "ok \<Longrightarrow> set (lp_conns p') = insert c (set (lp_conns p))"
    "ok \<Longrightarrow> lp_streams p' = map_set sid (c, Some r) (lp_streams p)" "ok \<Longrightarrow> lp_shut p' = lp_shut p"
    "\<not> ok \<Longrightarrow> lp_conns p' = lp_conns p" "\<not> ok \<Longrightarrow> lp_streams p' = lp_streams p"
    "\<not> ok \<Longrightarrow> set (lp_shut p') = {Client c, Remote r} \<union> set (lp_shut p)"
  using assms by (auto simp: trackStream_def remote_handles_def split: if_splits)

lemma CloseStreamD:
  assumes "CloseStream sid p = (hs, p')"
  shows "lp_closed p' = lp_closed p" "lp_onClose p' = lp_onClose p" "lp_once p' = lp_once p" "lp_fired p' = lp_fired p"
    "lp_shut p' = lp_shut p" "set (lp_conns p') \<subseteq> set (lp_conns p)"
    "c \<in> set (lp_conns p) \<Longrightarrow> c \<in> set (lp_conns p') \<or> Client c \<in> set hs"
    "map_get (lp_streams p') i = (if i = sid then None else map_get (lp_streams p) i)"
    "lp_streams p = [] \<Longrightarrow> lp_streams p' = []" "lp_conns p = [] \<Longrightarrow> lp_conns p' = []"
  using assms by (auto simp: CloseStream_def map_get_del split: option.splits)

lemma CloseConnectionsD:
  assumes "CloseConnections p = (hs, p')"
  shows "lp_closed p' = lp_closed p" "lp_onClose p' = lp_onClose p" "lp_once p' = lp_once p" "lp_fired p' = lp_fired p"
    "lp_shut p' = lp_shut p" "lp_conns p' = []" "lp_streams p' = []"
    "c \<in> set (lp_conns p) \<Longrightarrow> Client c \<in> set hs"
    "map_get (lp_streams p) i = Some (c, Some r) \<Longrightarrow> Remote r \<in> set hs"
  using assms by (auto simp: CloseConnections_def) (force simp: remote_handles_def dest!: map_of_SomeD)

lemma close_lockedD:
  assumes "close_locked p = Some (hs, p')"
  shows "lp_closed p'" "lp_onClose p' = lp_onClose p" "lp_once p' = lp_once p" "lp_fired p' = lp_fired p"
    "lp_shut p' = lp_shut p" "lp_conns p' = []" "lp_streams p' = []" "Listener \<in> set hs"
    "c \<in> set (lp_conns p) \<Longrightarrow> Client c \<in> set hs"
    "map_get (lp_streams p) i = Some (c, Some r) \<Longrightarrow> Remote r \<in> set hs"
  using assms CloseConnectionsD [of "p\<lparr>lp_closed := True\<rparr>" "tl hs" p']
  by (auto simp: close_locked_def split: if_splits prod.splits)

lemma proxy_close_rest [simp]:
  "lp_conns (close_rest hs p) = lp_conns p" "lp_streams (close_rest hs p) = lp_streams p"
  "lp_closed (close_rest hs p) = lp_closed p" "lp_onClose (close_rest hs p) = lp_onClose p" "lp_once (close_rest hs p)"
  "lp_fired (close_rest hs p) = lp_fired p @ (if lp_once p then [] else lp_onClose p)"
  "lp_shut (close_rest hs p) = lp_shut p @ hs"
  by (simp_all add: close_rest_def)

lemma set_worker_fields [simp]:
  "px_proxy (set_worker c w p s) = p" "px_workers (set_worker c w p s) = (px_workers s)(c \<mapsto> w)"
  "px_pending (set_worker c w p s) = px_pending s" "px_opened (set_worker c w p s) = px_opened s"
  by (simp_all add: set_worker_def)

text \<open>What is closed or about to be closed stays so.\<close>

lemma covered_mono: "proxy_step s t \<Longrightarrow> covered s h \<Longrightarrow> covered t h"
proof (induction rule: proxy_step.induct)
  case (opened s c sid r path addr ok p')
  then show ?case using trackStreamD [OF opened(3)] by (cases ok) (auto simp: covered_def)
next
  case (failed s c sid hs p')
  then show ?case using CloseStreamD(5) [OF failed(2)] by (auto simp: covered_def)
next
  case (close_connections s hs p')
  then show ?case using CloseConnectionsD(5) [OF close_connections(1)] by (auto simp: covered_def)
next
  case (close_begin s hs p')
  then show ?case using close_lockedD(5) [OF close_begin(1)] by (auto simp: covered_def)
next
  case (close_end closing hs s)
  have "h \<in> set (lp_shut (px_proxy s)) \<or> h \<in> set hs \<or> (\<exists>b hs'. (b, hs') \<in> set (remove1 (closing, hs) (px_pending s)) \<and> h \<in> set hs')"
    using close_end(2) unfolding covered_def by (metis in_set_remove1 prod.inject)
  then show ?case by (auto simp: covered_def)
qed (auto simp: covered_def)

lemma covered_shut: "h \<in> set (lp_shut (px_proxy s)) \<Longrightarrow> covered s h"
  by (simp add: covered_def)

lemma covered_pending: "(b, hs) \<in> set (px_pending s) \<Longrightarrow> h \<in> set hs \<Longrightarrow> covered s h"
  by (auto simp: covered_def)

lemma clients_okI:
  assumes "proxy_step s t" "clients_ok s"
    and "\<And>c w. px_workers t c = Some w \<Longrightarrow> covered t (Client c)
      \<or> c \<in> set (lp_conns (px_proxy t)) \<and> (w = Opening \<or> (\<exists>sid r. w = Bridging sid r))
      \<or> px_workers s c = Some w \<and> (c \<in> set (lp_conns (px_proxy s)) \<longrightarrow> c \<in> set (lp_conns (px_proxy t)) \<or> covered t (Client c))"
  shows "clients_ok t"
  unfolding clients_ok_def
proof (intro allI impI)
  fix c w
  assume w: "px_workers t c = Some w"
  from assms(3) [OF w] show "covered t (Client c) \<or> c \<in> set (lp_conns (px_proxy t)) \<and> (w = Opening \<or> (\<exists>sid r. w = Bridging sid r))"
    using assms(2) covered_mono [OF assms(1)] unfolding clients_ok_def by meson
qed

lemma ended_covered:
  assumes "proxy_step s t" "clients_ok s" "px_workers s c = Some w" "w \<noteq> Opening" "\<And>sid r. w \<noteq> Bridging sid r"
  shows "covered t (Client c)"
  using assms covered_mono [OF assms(1)] unfolding clients_ok_def by meson

lemma clients_ok_step:
  assumes st: "proxy_step s t" and ok: "clients_ok s"
  shows "clients_ok t"
proof (rule clients_okI [OF st ok])
  fix c' w'
  assume w: "px_workers t c' = Some w'"
  note ended = ended_covered [OF st ok]
  from st show "covered t (Client c')
      \<or> c' \<in> set (lp_conns (px_proxy t)) \<and> (w' = Opening \<or> (\<exists>sid r. w' = Bridging sid r))
      \<or> px_workers s c' = Some w' \<and> (c' \<in> set (lp_conns (px_proxy s)) \<longrightarrow> c' \<in> set (lp_conns (px_proxy t)) \<or> covered t (Client c'))"
  proof (cases rule: proxy_step.cases)
    case (accepted c)
    then show ?thesis using w by (auto intro: covered_shut split: if_splits)
  next
    case (open_failed c)
    then show ?thesis using w by (auto intro: covered_shut split: if_splits)
  next
    case (opened c sid r path addr ok' p')
    then show ?thesis using w trackStreamD [OF opened(4)] by (cases ok') (auto intro: covered_shut split: if_splits)
  next
    case (bridged c sid r fl)
    then show ?thesis using w by (auto intro: covered_shut split: if_splits)
  next
    case (failed c sid hs p')
    have "Client d \<in> set hs \<Longrightarrow> covered t (Client d)" for d
      by (rule covered_pending [of False hs]) (simp_all add: failed(1))
    then show ?thesis
      using w ended [OF failed(2)] CloseStreamD(7) [OF failed(3)] failed(1) by (cases "c' = c") auto
  next
    case (untracked_stream c sid)
    then show ?thesis using w ended [OF untracked_stream(2)] by (cases "c' = c") auto
  next
    case (left c)
    then show ?thesis using w ended [OF left(2)] by (cases "c' = c") auto
  next
    case (close_connections hs p')
    have "Client d \<in> set hs \<Longrightarrow> covered t (Client d)" for d
      by (rule covered_pending [of False hs]) (simp_all add: close_connections(1))
    then show ?thesis using w CloseConnectionsD(8) [OF close_connections(2)] close_connections(1) by auto
  next
    case (close_begin hs p')
    have "Client d \<in> set hs \<Longrightarrow> covered t (Client d)" for d
      by (rule covered_pending [of True hs]) (simp_all add: close_begin(1))
    then show ?thesis using w close_lockedD(9) [OF close_begin(2)] close_begin(1) by auto
  qed (use w in auto)
qed

lemma ids_ok_upd:
  assumes "ids_ok s" "px_workers t = (px_workers s)(c \<mapsto> w)"
    and "worker_id w = None \<or> (\<exists>v. px_workers s c = Some v \<and> worker_id v = worker_id w)
      \<or> (\<forall>c' v. px_workers s c' = Some v \<longrightarrow> worker_id v \<noteq> worker_id w)"
  shows "ids_ok t"
  using assms unfolding ids_ok_def by (auto split: if_splits)

lemma ids_ok_same: "ids_ok s \<Longrightarrow> px_workers t = px_workers s \<Longrightarrow> ids_ok t"
  by (simp add: ids_ok_def)

lemma ids_ok_step:
  assumes st: "proxy_step s t" and ok: "ids_ok s"
  shows "ids_ok t"
  using st
proof (cases rule: proxy_step.cases)
  case (opened c sid r path addr ok' p')
  then show ?thesis by (intro ids_ok_upd [OF ok, of t c "if ok' then Bridging sid r else Leaving"]) auto
qed (auto intro: ids_ok_upd [OF ok] ids_ok_same [OF ok])

lemma remotes_okI:
  assumes "proxy_step s t" "remotes_ok s"
    and "\<And>c sid r. px_workers t c = Some (Bridging sid r) \<Longrightarrow>
      covered t (Remote r) \<or> map_get (lp_streams (px_proxy t)) sid = Some (c, Some r)
      \<or> px_workers s c = Some (Bridging sid r)
        \<and> (map_get (lp_streams (px_proxy s)) sid = Some (c, Some r) \<longrightarrow>
             map_get (lp_streams (px_proxy t)) sid = Some (c, Some r) \<or> covered t (Remote r))"
  shows "remotes_ok t"
  unfolding remotes_ok_def using assms(2,3) covered_mono [OF assms(1)] unfolding remotes_ok_def by meson

lemma remotes_ok_step:
  assumes st: "proxy_step s t" and ids: "ids_ok s" and ok: "remotes_ok s"
  shows "remotes_ok t"
proof (rule remotes_okI [OF st ok])
  fix c' sid' r'
  assume w: "px_workers t c' = Some (Bridging sid' r')"
  have other: "sid \<noteq> sid'"
    if "px_workers s c' = Some (Bridging sid' r')" "px_workers s c = Some w" "worker_id w = Some sid" "c \<noteq> c'" for c w sid
    using ids that unfolding ids_ok_def by (metis worker_id.simps(2))
  from st show "covered t (Remote r') \<or> map_get (lp_streams (px_proxy t)) sid' = Some (c', Some r')
      \<or> px_workers s c' = Some (Bridging sid' r')
        \<and> (map_get (lp_streams (px_proxy s)) sid' = Some (c', Some r') \<longrightarrow>
             map_get (lp_streams (px_proxy t)) sid' = Some (c', Some r') \<or> covered t (Remote r'))"
  proof (cases rule: proxy_step.cases)
    case (opened c sid r path addr ok' p')
    have fresh: "c' \<noteq> c \<Longrightarrow> sid' \<noteq> sid" using w opened(1,3) by force
    show ?thesis
      using w opened(1) trackStreamD [OF opened(4)] fresh
      by (cases ok'; cases "c' = c") (auto simp: go_map_simps intro: covered_shut)
  next
    case (failed c sid hs p')
    then show ?thesis
      using w other [OF _ failed(2)] CloseStreamD(8) [OF failed(3), of sid'] by (cases "c' = c") auto
  next
    case (untracked_stream c sid)
    then show ?thesis using w other [OF _ untracked_stream(2)] by (cases "c' = c") (auto simp: go_map_simps)
  next
    case (close_connections hs p')
    have "Remote r' \<in> set hs \<Longrightarrow> covered t (Remote r')"
      by (rule covered_pending [of False hs]) (simp_all add: close_connections(1))
    then show ?thesis using w CloseConnectionsD(9) [OF close_connections(2)] close_connections(1) by auto
  next
    case (close_begin hs p')
    have "Remote r' \<in> set hs \<Longrightarrow> covered t (Remote r')"
      by (rule covered_pending [of True hs]) (simp_all add: close_begin(1))
    then show ?thesis using w close_lockedD(10) [OF close_begin(2)] close_begin(1) by auto
  qed (use w in \<open>auto split: if_splits\<close>)
qed

lemma opened_ok_step:
  assumes st: "proxy_step s t" and ok: "opened_ok s"
  shows "opened_ok t"
  unfolding opened_ok_def
proof
  fix x
  assume x: "x \<in> set (px_opened t)"
  note mono = covered_mono [OF st]
  have kept: "covered t (Remote x) \<or> (\<exists>c sid. px_workers t c = Some (Bridging sid x))"
    if "x \<in> set (px_opened s)" "\<And>c sid. px_workers s c = Some (Bridging sid x) \<Longrightarrow>
       px_workers t c = Some (Bridging sid x) \<or> covered t (Remote x)"
    using ok that mono unfolding opened_ok_def by blast
  from st show "covered t (Remote x) \<or> (\<exists>c sid. px_workers t c = Some (Bridging sid x))"
  proof (cases rule: proxy_step.cases)
    case (opened c sid r path addr ok' p')
    show ?thesis
    proof (cases "x = r")
      case True
      then show ?thesis using opened(1) trackStreamD(11) [OF opened(4)] by (cases ok') (auto intro: covered_shut)
    next
      case False
      then show ?thesis using x opened(1,2) by (intro kept) auto
    qed
  next
    case (bridged c sid r fl)
    then show ?thesis using x by (intro kept) (auto intro: covered_shut)
  qed (use x in \<open>(intro kept; auto)+\<close>)
qed

lemma closing_ok_step:
  assumes st: "proxy_step s t" and ok: "closing_ok s"
  shows "closing_ok t"
proof -
  have kept: "closing_ok t"
    if "lp_closed (px_proxy t) \<Longrightarrow> lp_closed (px_proxy s)"
      "lp_conns (px_proxy s) = [] \<Longrightarrow> lp_closed (px_proxy t) \<Longrightarrow> lp_conns (px_proxy t) = []"
      "lp_streams (px_proxy s) = [] \<Longrightarrow> lp_closed (px_proxy t) \<Longrightarrow> lp_streams (px_proxy t) = []"
    using ok that covered_mono [OF st] unfolding closing_ok_def by blast
  from st show ?thesis
  proof (cases rule: proxy_step.cases)
    case (accepted c)
    then show ?thesis by (intro kept) (auto simp: track_def split: if_splits)
  next
    case (opened c sid r path addr ok' p')
    then show ?thesis using trackStreamD [OF opened(4)] by (cases ok') (intro kept; auto)+
  next
    case (failed c sid hs p')
    then show ?thesis using CloseStreamD(1,9,10) [OF failed(3)] by (intro kept) auto
  next
    case (left c)
    then show ?thesis by (intro kept) (auto simp: untrack_def)
  next
    case (untracked_stream c sid)
    then show ?thesis by (intro kept) (auto simp: untrackStream_def)
  next
    case (close_connections hs p')
    then show ?thesis using CloseConnectionsD(1,6,7) [OF close_connections(2)] by (intro kept) auto
  next
    case (close_begin hs p')
    have "covered t Listener"
      using close_lockedD(8) [OF close_begin(2)] by (intro covered_pending [of True hs]) (simp_all add: close_begin(1))
    then show ?thesis using close_lockedD(6,7) [OF close_begin(2)] close_begin(1) by (simp add: closing_ok_def)
  qed (intro kept; auto split: if_splits)+
qed

lemma callbacks_ok_step:
  assumes st: "proxy_step s t" and ok: "callbacks_ok s"
  shows "callbacks_ok t"
  using st
proof (cases rule: proxy_step.cases)
  case (opened c sid r path addr ok' p')
  then show ?thesis using ok trackStreamD(2-5) [OF opened(4)] by (simp add: callbacks_ok_def)
next
  case (failed c sid hs p')
  then show ?thesis using ok CloseStreamD(1-4) [OF failed(3)] by (auto simp: callbacks_ok_def)
next
  case (close_connections hs p')
  then show ?thesis using ok CloseConnectionsD(1-4) [OF close_connections(2)] by (auto simp: callbacks_ok_def)
next
  case (close_begin hs p')
  then show ?thesis using ok close_lockedD(1-4) [OF close_begin(2)] by (auto simp: callbacks_ok_def)
next
  case (close_end closing hs)
  then show ?thesis using ok by (cases closing) (auto simp: callbacks_ok_def)
qed (use ok in \<open>auto simp: callbacks_ok_def\<close>)

definition proxy_ok :: "proxy_sys \<Rightarrow> bool" where
  "proxy_ok s \<longleftrightarrow> clients_ok s \<and> ids_ok s \<and> remotes_ok s \<and> opened_ok s \<and> closing_ok s \<and> callbacks_ok s"

interpretation proxy: concurrent_system "connectStream_start addr" proxy_step proxy_ok for addr
proof
  show "proxy_ok (connectStream_start addr)"
    by (simp add: proxy_ok_def connectStream_start_def clients_ok_def ids_ok_def remotes_ok_def opened_ok_def
        closing_ok_def callbacks_ok_def newLocalProxy_def SetOnClose_def)
  show "proxy_step s t \<Longrightarrow> proxy_ok s \<Longrightarrow> proxy_ok t" for s t
    unfolding proxy_ok_def
    by (blast intro: clients_ok_step ids_ok_step remotes_ok_step opened_ok_step closing_ok_step callbacks_ok_step)
qed

lemma proxy_closed:
  assumes "proxy_ok s" "lp_closed (px_proxy s)" "px_pending s = []"
  shows "lp_conns (px_proxy s) = []" "lp_streams (px_proxy s) = []" "Listener \<in> set (lp_shut (px_proxy s))"
    "px_workers s c \<noteq> None \<Longrightarrow> Client c \<in> set (lp_shut (px_proxy s))"
    "r \<in> set (px_opened s) \<Longrightarrow> Remote r \<in> set (lp_shut (px_proxy s))"
    "count_list (lp_fired (px_proxy s)) 0 = 1"
proof -
  have cov: "covered s h \<longleftrightarrow> h \<in> set (lp_shut (px_proxy s))" for h
    using assms(3) by (simp add: covered_def)
  show e: "lp_conns (px_proxy s) = []" "lp_streams (px_proxy s) = []" "Listener \<in> set (lp_shut (px_proxy s))"
    using assms cov by (auto simp: proxy_ok_def closing_ok_def)
  show "px_workers s c \<noteq> None \<Longrightarrow> Client c \<in> set (lp_shut (px_proxy s))"
    using assms(1) e(1) cov by (auto simp: proxy_ok_def clients_ok_def)
  show "r \<in> set (px_opened s) \<Longrightarrow> Remote r \<in> set (lp_shut (px_proxy s))"
    using assms(1) e(2) cov by (fastforce simp: proxy_ok_def opened_ok_def remotes_ok_def)
  show "count_list (lp_fired (px_proxy s)) 0 = 1"
    using assms by (auto simp: proxy_ok_def callbacks_ok_def)
qed

text \<open>
  C21: In every interleaving of the goroutines of a local proxy, once \<open>Close\<close> has returned
  the proxy tracks nothing, its listener, every client connection it ever accepted and every
  remote stream it ever obtained are closed, also those accepted or opened while or after
  it was closing, and the callback that releases the tunnel of the backend has run exactly once.
\<close>

theorem proxy_close_complete:
  assumes "proxy_step\<^sup>*\<^sup>* (connectStream_start addr) s"
    and "lp_closed (px_proxy s)" "px_pending s = []"
  shows "ActiveClients (Some (px_proxy s)) = 0 \<and> ActiveStreams (Some (px_proxy s)) = 0
    \<and> Listener \<in> set (lp_shut (px_proxy s))
    \<and> Client ` dom (px_workers s) \<union> Remote ` set (px_opened s) \<subseteq> set (lp_shut (px_proxy s))
    \<and> count_list (lp_fired (px_proxy s)) 0 = 1"
  using proxy_closed [OF proxy.reachable_ok [OF assms(1)] assms(2,3)]
  by (auto simp: ActiveClients_def ActiveStreams_def)

text \<open>A run: a client is being bridged and a second is opening its stream when the proxy is closed.\<close>

abbreviation run0 :: proxy_sys where
  "run0 \<equiv> connectStream_start ''127.0.0.1:5000''"

definition run1 :: proxy_sys where
  "run1 = set_worker 1 Opening (track 1 (px_proxy run0)) run0"

definition run2 :: proxy_sys where
  "run2 = set_worker 1 (Bridging ''a'' 7)
     (snd (trackStream ''a'' 1 (Some 7) (SetConnectionPath ''direct'' [] (px_proxy run1)))) (run1\<lparr>px_opened := 7 # px_opened run1\<rparr>)"

definition run3 :: proxy_sys where
  "run3 = set_worker 2 Opening (track 2 (px_proxy run2)) run2"

definition run4 :: proxy_sys where
  "run4 = (case the (close_locked (px_proxy run3)) of (hs, p) \<Rightarrow> run3\<lparr>px_proxy := p, px_pending := (True, hs) # px_pending run3\<rparr>)"

definition run5 :: proxy_sys where
  "run5 = set_worker 2 Leaving
     (snd (trackStream ''b'' 2 (Some 8) (SetConnectionPath ''direct'' [] (px_proxy run4)))) (run4\<lparr>px_opened := 8 # px_opened run4\<rparr>)"

definition run6 :: proxy_sys where
  "run6 = (case hd (px_pending run5) of (b, hs) \<Rightarrow>
     run5\<lparr>px_proxy := close_rest hs (px_proxy run5), px_pending := remove1 (b, hs) (px_pending run5)\<rparr>)"

lemma path_direct: "normalizeConnectionPath ''direct'' = ''direct''"
  by code_simp

lemmas run_defs = path_direct run1_def run2_def run3_def run4_def run5_def run6_def connectStream_start_def newLocalProxy_def
  SetOnClose_def set_worker_def track_def trackStream_def SetConnectionPath_def close_locked_def CloseConnections_def
  shut_def remote_handles_def

lemma run_steps: "proxy_step\<^sup>*\<^sup>* run0 run6"
proof -
  have "proxy_step run0 run1"
    unfolding run1_def by (rule proxy_step.accepted) (simp add: connectStream_start_def)
  also have "proxy_step\<^sup>*\<^sup>* run1 run2"
    using proxy_step.opened [of run1 1 "''a''" 7 "''direct''" "[]" True] unfolding run2_def
    by (auto simp: run_defs Let_def)
  also have "proxy_step run2 run3"
    unfolding run3_def by (rule proxy_step.accepted) (simp add: run_defs)
  also have "proxy_step run3 run4"
  proof -
    obtain hs p where hp: "close_locked (px_proxy run3) = Some (hs, p)" by (simp add: run_defs)
    show ?thesis using proxy_step.close_begin [OF hp] by (simp add: run4_def hp)
  qed
  also have "proxy_step run4 run5"
    using proxy_step.opened [of run4 2 "''b''" 8 "''direct''" "[]" False] unfolding run5_def
    by (auto simp: run_defs Let_def)
  also have "proxy_step run5 run6"
  proof -
    obtain hs where hp: "px_pending run5 = [(True, hs)]" by (simp add: run_defs)
    show ?thesis using proxy_step.close_end [of True hs run5] by (simp add: run6_def hp)
  qed
  finally show ?thesis .
qed

theorem proxy_close_complete_witness:
  "dom (px_workers run6) = {1, 2} \<and> px_opened run6 = [8, 7]
   \<and> {Listener, Client 1, Client 2, Remote 7, Remote 8} \<subseteq> set (lp_shut (px_proxy run6))
   \<and> count_list (lp_fired (px_proxy run6)) 0 = 1"
proof -
  have c: "lp_closed (px_proxy run6)" "px_pending run6 = []" by (simp_all add: run_defs close_rest_def)
  have d: "dom (px_workers run6) = {1, 2}" "px_opened run6 = [8, 7]" by (auto simp: run_defs)
  show ?thesis using proxy_close_complete [OF run_steps c] d by auto
qed

end
