(* ===== verification/Service.thy ===== *)
theory Service
  imports Node Netbackend
begin

text \<open>
  The backends the daemon runs, \<open>internal/service/service.go\<close>: the closures of
  \<open>RunStack\<close> that start and stop the iroh sidecar, the direct QUIC and BitTorrent DHT
  backends and the libp2p node, the references that keep a backend alive, and the
  background retry. The configuration is the one the node shares. Constructors of the
  backends are arguments.
\<close>

record 'm net_state =
  ns_node :: "'m Node"
  ns_refs :: "(string, string list) gomap"
  ns_sidecar :: "bool option"
  ns_iroh_pairing :: bool
  ns_iroh_tunnel :: bool
  ns_quic :: bool
  ns_quic_pairing :: bool
  ns_quic_tunnel :: bool
  ns_bt :: bool
  ns_discoverer :: bool
  ns_libp2p_pairing :: bool
  ns_libp2p_tunnel :: bool
  ns_lastError :: string

text \<open>
  \<open>ns_sidecar\<close> is \<open>None\<close> for the nil pointer, otherwise whether the process still
  runs; the \<open>pairing\<close> and \<open>tunnel\<close> flags say whether the backend is registered with that manager.
\<close>

record 'm service_env =
  sv_lib :: "'m multiaddr_lib"
  sv_host :: "'m host_env"
  sv_newSidecar :: "Config \<Rightarrow> string + bool"
  sv_newQUIC :: "Config \<Rightarrow> bytes \<Rightarrow> string + bool"
  sv_newBT :: "Config \<Rightarrow> bytes \<Rightarrow> string + bool"
  sv_btReady :: "string option"
  sv_dhtReady :: "string option"
  sv_config_error :: "config_error \<Rightarrow> string"
  sv_node_error :: "node_error \<Rightarrow> string"

abbreviation ns_cfg :: "'m net_state \<Rightarrow> Config" where
  "ns_cfg s \<equiv> n_cfg (ns_node s)"

definition set_cfg :: "Config \<Rightarrow> 'm net_state \<Rightarrow> 'm net_state" where
  "set_cfg c s = s\<lparr>ns_node := (ns_node s)\<lparr>n_cfg := c\<rparr>\<rparr>"

definition set_irohMode :: "string \<Rightarrow> 'm net_state \<Rightarrow> 'm net_state" where
  "set_irohMode mode s = set_cfg ((ns_cfg s)\<lparr>cfg_Iroh := (cfg_Iroh (ns_cfg s))\<lparr>iroh_Mode := mode\<rparr>\<rparr>) s"

definition mode_off :: "string \<Rightarrow> bool" where
  "mode_off mode \<longleftrightarrow> mode = [] \<or> mode = ''disabled''"

definition backendRefCount :: "string \<Rightarrow> 'm net_state \<Rightarrow> nat" where
  "backendRefCount backend s =
     (case map_get (ns_refs s) (CanonicalNetworkBackend backend) of None \<Rightarrow> 0 | Some refs \<Rightarrow> length refs)"

section \<open>The iroh sidecar\<close>

definition registerIrohSidecar :: "'m net_state \<Rightarrow> 'm net_state" where
  "registerIrohSidecar s = s\<lparr>ns_sidecar := Some True, ns_iroh_pairing := True, ns_iroh_tunnel := True\<rparr>"

definition stopIrohSidecar :: "'m net_state \<Rightarrow> 'm net_state" where
  "stopIrohSidecar s =
     (if ns_sidecar s = None then s
      else s\<lparr>ns_sidecar := None, ns_iroh_pairing := False, ns_iroh_tunnel := False\<rparr>)"

definition launchIrohSidecar :: "'m service_env \<Rightarrow> bool \<Rightarrow> 'm net_state \<Rightarrow> string option \<times> 'm net_state" where
  "launchIrohSidecar env allowEnable s =
     (let oldMode = iroh_Mode (cfg_Iroh (ns_cfg s));
          enabling = (allowEnable \<and> mode_off oldMode);
          s1 = (if enabling then set_irohMode ''public'' s else s);
          restore = (\<lambda>s. if enabling then set_irohMode oldMode s else s)
      in if mode_off (iroh_Mode (cfg_Iroh (ns_cfg s1))) then (Some ''iroh backend is disabled'', restore s1)
         else case sv_newSidecar env (ns_cfg s1) of
           Inl err \<Rightarrow> (Some err, restore (s1\<lparr>ns_lastError := err\<rparr>))
         | Inr present \<Rightarrow>
             if \<not> present
             then (Some ''iroh sidecar binary not found'', restore (s1\<lparr>ns_lastError := ''iroh sidecar binary not found''\<rparr>))
             else (None, restore ((registerIrohSidecar s1)\<lparr>ns_lastError := []\<rparr>)))"

definition startIrohSidecar :: "'m service_env \<Rightarrow> bool \<Rightarrow> 'm net_state \<Rightarrow> string option \<times> 'm net_state" where
  "startIrohSidecar env allowEnable s =
     (if ns_sidecar s = Some True then (None, s)
      else launchIrohSidecar env allowEnable (if ns_sidecar s = None then s else stopIrohSidecar s))"

section \<open>References\<close>

definition setBackendRef ::
  "'m service_env \<Rightarrow> string \<Rightarrow> string \<Rightarrow> bool \<Rightarrow> 'm net_state \<Rightarrow> string option \<times> 'm net_state" where
  "setBackendRef env backend0 key active s =
     (let backend = CanonicalNetworkBackend backend0 in
      if backend = [] \<or> backend = ''disabled'' \<or> key = [] then (None, s)
      else
        let refs0 = (case map_get (ns_refs s) backend of None \<Rightarrow> [] | Some refs \<Rightarrow> refs);
            refs = (if active then List.insert key refs0 else removeAll key refs0);
            s1 = s\<lparr>ns_refs := (if refs = [] then map_del backend (ns_refs s) else map_set backend refs (ns_refs s))\<rparr>
        in if backend \<noteq> BackendIroh then (None, s1)
           else if refs \<noteq> [] then startIrohSidecar env True s1
           else (None, stopIrohSidecar s1))"

definition backendRunning :: "'m net_state \<Rightarrow> string \<Rightarrow> bool" where
  "backendRunning s backend =
     (if backend = BackendIroh then ns_sidecar s = Some True
      else if backend = BackendBitTorrentDHT then ns_bt s \<and> ns_quic s
      else if backend = BackendLibp2pDHT then n_dhtClient (ns_node s) \<noteq> None
      else if backend = BackendLibp2pRelay then n_Host (ns_node s)
      else False)"

section \<open>Starting a backend\<close>

definition fail_with :: "string \<Rightarrow> 'm net_state \<Rightarrow> string option \<times> 'm net_state" where
  "fail_with err s = (Some err, s\<lparr>ns_lastError := err\<rparr>)"

definition set_libp2p :: "'m net_state \<Rightarrow> 'm net_state" where
  "set_libp2p s = s\<lparr>ns_libp2p_pairing := n_Host (ns_node s), ns_libp2p_tunnel := n_Host (ns_node s)\<rparr>"

definition ensure_quic :: "'m service_env \<Rightarrow> bytes \<Rightarrow> 'm net_state \<Rightarrow> string option \<times> 'm net_state" where
  "ensure_quic env priv s =
     (if ns_quic s then (None, s)
      else case sv_newQUIC env (ns_cfg s) priv of
        Inl err \<Rightarrow> fail_with err s
      | Inr present \<Rightarrow> (None, if present then s\<lparr>ns_quic := True, ns_quic_pairing := True, ns_quic_tunnel := True\<rparr> else s))"

definition ensure_bt :: "'m service_env \<Rightarrow> bytes \<Rightarrow> 'm net_state \<Rightarrow> string option \<times> 'm net_state" where
  "ensure_bt env priv s =
     (case (if ns_bt s then (None, s)
            else case sv_newBT env (ns_cfg s) priv of
              Inl err \<Rightarrow> fail_with err s
            | Inr present \<Rightarrow> (None, s\<lparr>ns_bt := present, ns_discoverer := present\<rparr>)) of
        (Some err, s1) \<Rightarrow> (Some err, s1)
      | (None, s1) \<Rightarrow>
          if ns_bt s1 then
            (case sv_btReady env of Some err \<Rightarrow> fail_with err s1 | None \<Rightarrow> (None, s1\<lparr>ns_lastError := []\<rparr>))
          else (None, s1\<lparr>ns_lastError := []\<rparr>))"

definition ensure_libp2p_dht :: "'m service_env \<Rightarrow> 'm net_state \<Rightarrow> string option \<times> 'm net_state" where
  "ensure_libp2p_dht env s0 =
     (let s = set_cfg (ensureBackendEnabled ''libp2p_dht'' (ns_cfg s0)) s0 in
      case (if n_dhtClient (ns_node s) \<noteq> None then (None, s)
            else case StartLibp2p (sv_lib env) (sv_host env) BackendLibp2pDHT (ns_node s) of
              (Some e, n1) \<Rightarrow> fail_with (sv_node_error env e) (s\<lparr>ns_node := n1\<rparr>)
            | (None, n1) \<Rightarrow> (None, set_libp2p (s\<lparr>ns_node := n1\<rparr>))) of
        (Some err, s1) \<Rightarrow> (Some err, s1)
      | (None, s1) \<Rightarrow>
          (case sv_dhtReady env of Some err \<Rightarrow> fail_with err s1 | None \<Rightarrow> (None, s1\<lparr>ns_lastError := []\<rparr>)))"

definition ensureNetworkBackend ::
  "'m service_env \<Rightarrow> string \<Rightarrow> string \<Rightarrow> 'm net_state \<Rightarrow> string option \<times> 'm net_state" where
  "ensureNetworkBackend env backend reason s =
     (if backend = BackendIroh then startIrohSidecar env (reason = ''connect'') s
      else if backend = BackendBitTorrentDHT then
        (let s1 = set_cfg (ensureBackendEnabled ''bittorrent_dht'' (ns_cfg s)) s in
         case PrivateKeyBytes (ns_cfg s1) of
           Inl e \<Rightarrow> fail_with (sv_config_error env e) s1
         | Inr priv \<Rightarrow>
             (case ensure_quic env priv s1 of
                (Some err, s2) \<Rightarrow> (Some err, s2)
              | (None, s2) \<Rightarrow> ensure_bt env priv s2))
      else if backend = BackendLibp2pDHT then ensure_libp2p_dht env s
      else if backend = BackendLibp2pRelay then
        (let s1 = set_cfg (ensureBackendEnabled ''libp2p_relay'' (ns_cfg s)) s in
         case StartLibp2p (sv_lib env) (sv_host env) BackendLibp2pRelay (ns_node s1) of
           (Some e, n1) \<Rightarrow> fail_with (sv_node_error env e) (s1\<lparr>ns_node := n1\<rparr>)
         | (None, n1) \<Rightarrow> (None, (set_libp2p (s1\<lparr>ns_node := n1\<rparr>))\<lparr>ns_lastError := []\<rparr>))
      else (Some (''unsupported backend '' @ backend), s))"

definition background_retry :: "'m service_env \<Rightarrow> 'm net_state \<Rightarrow> 'm net_state" where
  "background_retry env s =
     (let active = ActiveNetworkBackend (Some (ns_cfg s)) in
      if active \<noteq> [] \<and> active \<noteq> ''disabled'' \<and> \<not> backendRunning s active
      then snd (ensureNetworkBackend env active ''background retry'' s) else s)"

section \<open>Applying settings\<close>

definition shouldRunIrohSidecarBackend :: "Config option \<Rightarrow> bool" where
  "shouldRunIrohSidecarBackend c = (case c of None \<Rightarrow> False
     | Some cfg \<Rightarrow> ActiveNetworkBackend c = ''iroh'' \<and> \<not> mode_off (iroh_Mode (cfg_Iroh cfg)))"

definition shouldRunBitTorrentDHTBackend :: "Config option \<Rightarrow> bool" where
  "shouldRunBitTorrentDHTBackend c = (case c of None \<Rightarrow> False
     | Some cfg \<Rightarrow> ActiveNetworkBackend c = BackendBitTorrentDHT \<and> \<not> mode_off (bt_Mode (cfg_BTDHT cfg)))"

definition shouldRunLibp2pBackground :: "Config option \<Rightarrow> bool" where
  "shouldRunLibp2pBackground c = (case c of None \<Rightarrow> False
     | Some cfg \<Rightarrow>
         if ActiveNetworkBackend c = BackendLibp2pRelay then \<not> mode_off (rl_Mode (cfg_Relay cfg))
         else if ActiveNetworkBackend c = BackendLibp2pDHT then \<not> mode_off (dht_Mode (cfg_DHT cfg))
         else False)"

definition stop_bittorrent :: "'m net_state \<Rightarrow> 'm net_state" where
  "stop_bittorrent s =
     (let s1 = (if ns_bt s then s\<lparr>ns_bt := False, ns_discoverer := False\<rparr> else s)
      in if ns_quic s1 then s1\<lparr>ns_quic := False, ns_quic_pairing := False, ns_quic_tunnel := False\<rparr> else s1)"

definition start_bittorrent :: "'m service_env \<Rightarrow> 'm net_state \<Rightarrow> 'm net_state" where
  "start_bittorrent env s =
     (case PrivateKeyBytes (ns_cfg s) of
        Inl e \<Rightarrow> s\<lparr>ns_lastError := sv_config_error env e\<rparr>
      | Inr priv \<Rightarrow>
          let s1 = (case sv_newQUIC env (ns_cfg s) priv of
                      Inl err \<Rightarrow> s\<lparr>ns_lastError := err\<rparr>
                    | Inr present \<Rightarrow> if present then s\<lparr>ns_quic := True, ns_quic_pairing := True, ns_quic_tunnel := True\<rparr> else s)
          in (case sv_newBT env (ns_cfg s1) priv of
                Inl err \<Rightarrow> s1\<lparr>ns_lastError := err\<rparr>
              | Inr present \<Rightarrow> if present then s1\<lparr>ns_bt := True, ns_discoverer := True\<rparr> else s1))"

definition service_applyNetworkConfig :: "'m service_env \<Rightarrow> 'm net_state \<Rightarrow> string option \<times> 'm net_state" where
  "service_applyNetworkConfig env s0 =
     (let s = set_cfg (NormalizeNetworkBackend (ns_cfg s0)) s0 in
      case ApplyNetworkConfig (sv_lib env) (sv_host env) (ns_node s) of
        (Some e, n1) \<Rightarrow> fail_with (sv_node_error env e) (s\<lparr>ns_node := n1\<rparr>)
      | (None, n1) \<Rightarrow>
          let s1 = stop_bittorrent ((set_libp2p (s\<lparr>ns_node := n1\<rparr>))\<lparr>ns_lastError := []\<rparr>);
              s2 = (if shouldRunBitTorrentDHTBackend (Some (ns_cfg s1)) then start_bittorrent env s1 else s1);
              s3 = (if ActiveNetworkBackend (Some (ns_cfg s2)) = BackendIroh then
                      (case setBackendRef env BackendIroh ''selected'' True s2 of
                         (Some err, t) \<Rightarrow> t\<lparr>ns_lastError := err\<rparr>
                       | (None, t) \<Rightarrow> t)
                    else snd (setBackendRef env BackendIroh ''selected'' False s2))
          in (None, s3))"

section \<open>References as leases\<close>

text \<open>
  What the dashboard relies on: a table of leases, each a backend and a holder, that
  retaining and releasing add to and remove from, whatever else the provider does
  in between.
\<close>

type_synonym lease = "string \<times> string"

datatype lease_op = LeaseRetain string string | LeaseRelease string string | LeaseOther

primrec lease_spec :: "(string \<Rightarrow> string \<Rightarrow> bool) \<Rightarrow> lease set \<Rightarrow> lease_op \<Rightarrow> lease set" where
  "lease_spec valid L (LeaseRetain b k) = (if valid b k then insert (b, k) L else L)"
| "lease_spec valid L (LeaseRelease b k) = L - {(b, k)}"
| "lease_spec valid L LeaseOther = L"

locale lease_table =
  fixes valid :: "string \<Rightarrow> string \<Rightarrow> bool"
    and step :: "'s \<Rightarrow> 'o \<Rightarrow> 's"
    and op :: "'o \<Rightarrow> lease_op"
    and leases :: "'s \<Rightarrow> lease set"
    and ok :: "'s \<Rightarrow> bool"
  assumes ok_step: "ok s \<Longrightarrow> ok (step s x)"
    and leases_step: "ok s \<Longrightarrow> leases (step s x) = lease_spec valid (leases s) (op x)"
begin

lemma run_ok: "ok s \<Longrightarrow> ok (foldl step s xs)"
  by (induction xs arbitrary: s) (auto intro: ok_step)

lemma leases_run: "ok s \<Longrightarrow> leases (foldl step s xs) = foldl (lease_spec valid) (leases s) (map op xs)"
  by (induction xs arbitrary: s) (simp_all add: ok_step leases_step)

text \<open>A lease that is retained stays until it is released.\<close>

lemma lease_kept:
  assumes "ok s" "(b, k) \<in> leases s" "\<not> list_ex (\<lambda>x. op x = LeaseRelease b k) xs"
  shows "(b, k) \<in> leases (foldl step s xs)"
  using assms
proof (induction xs arbitrary: s)
  case (Cons x xs)
  have "(b, k) \<in> leases (step s x)"
    using Cons.prems leases_step [OF Cons.prems(1), of x] by (cases "op x") auto
  then show ?case using Cons ok_step by simp
qed simp

end

text \<open>The leases of clients; \<open>selected\<close> is the daemon's own.\<close>

definition refs_of :: "'m net_state \<Rightarrow> string \<Rightarrow> string list" where
  "refs_of s b = (case map_get (ns_refs s) b of None \<Rightarrow> [] | Some refs \<Rightarrow> refs)"

definition held :: "'m net_state \<Rightarrow> lease set" where
  "held s = {(b, k). k \<noteq> ''selected'' \<and> k \<in> set (refs_of s b)}"

definition refs_ok :: "'m net_state \<Rightarrow> bool" where
  "refs_ok s \<longleftrightarrow> (\<forall>b. map_get (ns_refs s) b \<noteq> Some []) \<and> (\<forall>b. distinct (refs_of s b) \<and> [] \<notin> set (refs_of s b))
     \<and> refs_of s [] = [] \<and> refs_of s ''disabled'' = []"

definition registration_ok :: "'m net_state \<Rightarrow> bool" where
  "registration_ok s \<longleftrightarrow>
     ns_iroh_pairing s = (ns_sidecar s \<noteq> None) \<and> ns_iroh_tunnel s = (ns_sidecar s \<noteq> None)
     \<and> ns_quic_pairing s = ns_quic s \<and> ns_quic_tunnel s = ns_quic s \<and> ns_discoverer s = ns_bt s"

definition service_ok :: "'m net_state \<Rightarrow> bool" where
  "service_ok s \<longleftrightarrow> refs_ok s \<and> registration_ok s"

datatype 'm service_op =
    SvcRetain "'m service_env" string string
  | SvcRelease "'m service_env" string string
  | SvcEnsure "'m service_env" string
  | SvcRetry "'m service_env"
  | SvcApply "'m service_env"
  | SvcSidecarExit

primrec service_step :: "'m net_state \<Rightarrow> 'm service_op \<Rightarrow> 'm net_state" where
  "service_step s (SvcRetain env b k) = snd (setBackendRef env b k True s)"
| "service_step s (SvcRelease env b k) = snd (setBackendRef env b k False s)"
| "service_step s (SvcEnsure env b) = snd (ensureNetworkBackend env b ''connect'' s)"
| "service_step s (SvcRetry env) = background_retry env s"
| "service_step s (SvcApply env) = snd (service_applyNetworkConfig env s)"
| "service_step s SvcSidecarExit = s\<lparr>ns_sidecar := map_option (\<lambda>_. False) (ns_sidecar s)\<rparr>"

primrec lease_of :: "'m service_op \<Rightarrow> lease_op" where
  "lease_of (SvcRetain env b k) = LeaseRetain b k"
| "lease_of (SvcRelease env b k) = LeaseRelease b k"
| "lease_of (SvcEnsure env b) = LeaseOther"
| "lease_of (SvcRetry env) = LeaseOther"
| "lease_of (SvcApply env) = LeaseOther"
| "lease_of SvcSidecarExit = LeaseOther"

definition valid_lease :: "string \<Rightarrow> string \<Rightarrow> bool" where
  "valid_lease b k \<longleftrightarrow> b \<noteq> [] \<and> b \<noteq> ''disabled'' \<and> k \<noteq> [] \<and> k \<noteq> ''selected''"

subsection \<open>What leaves the references alone\<close>

lemma set_cfg_fields [simp]:
  "ns_refs (set_cfg c s) = ns_refs s" "ns_sidecar (set_cfg c s) = ns_sidecar s" "ns_cfg (set_cfg c s) = c"
  "ns_iroh_pairing (set_cfg c s) = ns_iroh_pairing s" "ns_iroh_tunnel (set_cfg c s) = ns_iroh_tunnel s"
  "ns_quic (set_cfg c s) = ns_quic s" "ns_quic_pairing (set_cfg c s) = ns_quic_pairing s"
  "ns_quic_tunnel (set_cfg c s) = ns_quic_tunnel s" "ns_bt (set_cfg c s) = ns_bt s" "ns_discoverer (set_cfg c s) = ns_discoverer s"
  by (simp_all add: set_cfg_def)

named_theorems refs_simps \<open>operations that leave the references and the registrations consistent\<close>

lemma registration_cfg [refs_simps, simp]: "registration_ok (set_cfg c s) = registration_ok s"
  by (simp add: registration_ok_def)

lemma registration_upd [refs_simps, simp]:
  "registration_ok (s\<lparr>ns_lastError := e\<rparr>) = registration_ok s" "registration_ok (s\<lparr>ns_node := n\<rparr>) = registration_ok s"
  "registration_ok (s\<lparr>ns_refs := r\<rparr>) = registration_ok s" "registration_ok (set_libp2p s) = registration_ok s"
  by (simp_all add: registration_ok_def set_libp2p_def)

lemma refs_fail_with [refs_simps, simp]:
  "ns_refs (snd (fail_with e s)) = ns_refs s" "registration_ok (snd (fail_with e s)) = registration_ok s"
  by (simp_all add: fail_with_def)

lemma refs_stop [simp]: "ns_refs (stopIrohSidecar s) = ns_refs s" "registration_ok s \<Longrightarrow> registration_ok (stopIrohSidecar s)"
    "ns_sidecar (stopIrohSidecar s) = None"
  by (auto simp: stopIrohSidecar_def registration_ok_def)

lemma refs_launch:
  "ns_refs (snd (launchIrohSidecar env a s)) = ns_refs s"
  "registration_ok s \<Longrightarrow> registration_ok (snd (launchIrohSidecar env a s))"
  "launchIrohSidecar env a s = (None, t) \<Longrightarrow> ns_sidecar t = Some True"
  by (auto simp: launchIrohSidecar_def set_irohMode_def registerIrohSidecar_def registration_ok_def Let_def split: sum.splits if_splits)

lemma refs_start:
  "ns_refs (snd (startIrohSidecar env a s)) = ns_refs s"
  "registration_ok s \<Longrightarrow> registration_ok (snd (startIrohSidecar env a s))"
  "startIrohSidecar env a s = (None, t) \<Longrightarrow> ns_sidecar t = Some True"
  by (auto simp: startIrohSidecar_def refs_launch dest: refs_launch(3) split: if_splits)

lemma refs_ensure_quic: "ns_refs (snd (ensure_quic env p s)) = ns_refs s" "registration_ok s \<Longrightarrow> registration_ok (snd (ensure_quic env p s))"
  by (auto simp: ensure_quic_def registration_ok_def fail_with_def split: sum.splits)

lemma refs_ensure_bt: "ns_refs (snd (ensure_bt env p s)) = ns_refs s" "registration_ok s \<Longrightarrow> registration_ok (snd (ensure_bt env p s))"
  by (auto simp: ensure_bt_def registration_ok_def fail_with_def split: sum.splits prod.splits option.splits if_splits)

lemma refs_ensure_dht:
  "ns_refs (snd (ensure_libp2p_dht env s)) = ns_refs s" "registration_ok s \<Longrightarrow> registration_ok (snd (ensure_libp2p_dht env s))"
  by (auto simp: ensure_libp2p_dht_def registration_ok_def set_libp2p_def fail_with_def Let_def split: prod.splits option.splits if_splits)

lemma refs_ensure:
  "ns_refs (snd (ensureNetworkBackend env b reason s)) = ns_refs s"
  "registration_ok s \<Longrightarrow> registration_ok (snd (ensureNetworkBackend env b reason s))"
proof -
  have bt: "ns_refs (snd (case ensure_quic env p t of (Some err, t2) \<Rightarrow> (Some err, t2) | (None, t2) \<Rightarrow> ensure_bt env p t2)) = ns_refs t
     \<and> (registration_ok t \<longrightarrow> registration_ok (snd (case ensure_quic env p t of (Some err, t2) \<Rightarrow> (Some err, t2) | (None, t2) \<Rightarrow> ensure_bt env p t2)))"
    for p t
    using refs_ensure_quic [where env = env and p = p and s = t] refs_ensure_bt [where env = env and p = p]
    by (cases "ensure_quic env p t") (auto split: option.split)
  show "ns_refs (snd (ensureNetworkBackend env b reason s)) = ns_refs s"
    using bt by (auto simp: ensureNetworkBackend_def refs_start refs_ensure_dht set_libp2p_def Let_def split: sum.split prod.split option.split)
  show "registration_ok s \<Longrightarrow> registration_ok (snd (ensureNetworkBackend env b reason s))"
    using bt by (auto simp: ensureNetworkBackend_def refs_start refs_ensure_dht Let_def split: sum.split prod.split option.split)
qed

lemma refs_bittorrent:
  "ns_refs (stop_bittorrent s) = ns_refs s" "registration_ok s \<Longrightarrow> registration_ok (stop_bittorrent s)"
  "ns_refs (start_bittorrent env s) = ns_refs s" "registration_ok s \<Longrightarrow> registration_ok (start_bittorrent env s)"
  by (auto simp: stop_bittorrent_def start_bittorrent_def registration_ok_def Let_def split: sum.splits)

lemma held_refs: "ns_refs t = ns_refs s \<Longrightarrow> held t = held s" "ns_refs t = ns_refs s \<Longrightarrow> refs_ok t = refs_ok s"
  by (simp_all add: held_def refs_ok_def refs_of_def)

subsection \<open>Setting a reference\<close>

definition ref_table :: "string \<Rightarrow> string \<Rightarrow> bool \<Rightarrow> 'm net_state \<Rightarrow> 'm net_state" where
  "ref_table b k active s =
     (let refs = (if active then List.insert k (refs_of s b) else removeAll k (refs_of s b))
      in s\<lparr>ns_refs := (if refs = [] then map_del b (ns_refs s) else map_set b refs (ns_refs s))\<rparr>)"

lemma get_ref_table:
  "map_get (ns_refs (ref_table b k active s)) c =
     (if c \<noteq> b then map_get (ns_refs s) c
      else let refs = (if active then List.insert k (refs_of s b) else removeAll k (refs_of s b))
           in if refs = [] then None else Some refs)"
  by (simp add: ref_table_def Let_def go_map_simps)

lemma refs_of_table:
  "refs_of (ref_table b k active s) c =
     (if c \<noteq> b then refs_of s c else if active then List.insert k (refs_of s b) else removeAll k (refs_of s b))"
  unfolding refs_of_def [of "ref_table b k active s"] get_ref_table by (simp add: Let_def refs_of_def)

lemma setBackendRef_table:
  assumes "b \<noteq> []" "b \<noteq> ''disabled''" "k \<noteq> []"
  shows "setBackendRef env b k active s =
    (if b \<noteq> BackendIroh then (None, ref_table b k active s)
     else if refs_of (ref_table b k active s) b \<noteq> [] then startIrohSidecar env True (ref_table b k active s)
     else (None, stopIrohSidecar (ref_table b k active s)))"
  using assms
  by (simp add: refs_of_table) (auto simp: setBackendRef_def ref_table_def CanonicalNetworkBackend_def Let_def simp flip: refs_of_def)

lemma refs_ok_table:
  assumes "refs_ok s" "b \<noteq> []" "b \<noteq> ''disabled''" "k \<noteq> []"
  shows "refs_ok (ref_table b k active s)"
  using assms unfolding refs_ok_def refs_of_table get_ref_table by (simp add: distinct_removeAll Let_def)

lemma held_table:
  "held (ref_table b k active s) =
     (if active then (if k \<noteq> ''selected'' then insert (b, k) (held s) else held s) else held s - {(b, k)})"
  unfolding held_def by (auto simp: refs_of_table split: if_splits)

lemma setBackendRef_refs:
  assumes "b \<noteq> []" "b \<noteq> ''disabled''" "k \<noteq> []"
  shows "ns_refs (snd (setBackendRef env b k active s)) = ns_refs (ref_table b k active s)"
    "registration_ok s \<Longrightarrow> registration_ok (snd (setBackendRef env b k active s))"
proof -
  have r: "registration_ok s \<Longrightarrow> registration_ok (ref_table b k active s)" by (simp add: ref_table_def Let_def)
  show "ns_refs (snd (setBackendRef env b k active s)) = ns_refs (ref_table b k active s)"
    by (auto simp: setBackendRef_table [OF assms] refs_start)
  show "registration_ok s \<Longrightarrow> registration_ok (snd (setBackendRef env b k active s))"
    using r by (auto simp: setBackendRef_table [OF assms] refs_start)
qed

lemma setBackendRef_invalid: "b = [] \<or> b = ''disabled'' \<or> k = [] \<Longrightarrow> setBackendRef env b k active s = (None, s)"
  by (auto simp: setBackendRef_def CanonicalNetworkBackend_def)

lemma setBackendRef_step:
  assumes "service_ok s"
  shows "service_ok (snd (setBackendRef env b k active s))
    \<and> held (snd (setBackendRef env b k active s)) =
       lease_spec valid_lease (held s) (if active then LeaseRetain b k else LeaseRelease b k)"
proof (cases "b = [] \<or> b = ''disabled'' \<or> k = []")
  case True
  then have "(b, k) \<notin> held s" using assms by (auto simp: service_ok_def refs_ok_def held_def)
  with True assms show ?thesis by (auto simp: setBackendRef_invalid valid_lease_def)
next
  case False
  let ?t = "snd (setBackendRef env b k active s)"
  have r: "ns_refs ?t = ns_refs (ref_table b k active s)" "registration_ok ?t"
    using False assms setBackendRef_refs [where b = b and k = k and env = env and active = active and s = s]
    by (auto simp: service_ok_def)
  have "refs_ok (ref_table b k active s)"
    using assms False by (intro refs_ok_table) (auto simp: service_ok_def)
  then have "service_ok ?t" using r held_refs(2) [OF r(1)] by (simp add: service_ok_def)
  moreover have "held ?t = lease_spec valid_lease (held s) (if active then LeaseRetain b k else LeaseRelease b k)"
    using False held_refs(1) [OF r(1)] by (simp add: held_table valid_lease_def)
  ultimately show ?thesis by simp
qed

lemma service_applyNetworkConfig_step:
  assumes "service_ok s"
  shows "service_ok (snd (service_applyNetworkConfig env s))" "held (snd (service_applyNetworkConfig env s)) = held s"
proof -
  have keep: "service_ok t \<and> held t = held s" if "ns_refs t = ns_refs s" "registration_ok t" for t
    using that assms held_refs [OF that(1)] by (simp add: service_ok_def)
  have sel: "service_ok (snd (setBackendRef env b ''selected'' a t)) \<and> held (snd (setBackendRef env b ''selected'' a t)) = held s"
    if "service_ok t \<and> held t = held s" for b a t
    using setBackendRef_step [of t env b "''selected''" a] that by (auto simp: valid_lease_def held_def)
  have err: "service_ok (t\<lparr>ns_lastError := e\<rparr>) = service_ok t" "held (t\<lparr>ns_lastError := e\<rparr>) = held t" for t e
    by (simp_all add: service_ok_def refs_ok_def held_def refs_of_def)
  obtain r n1 where n1: "ApplyNetworkConfig (sv_lib env) (sv_host env)
      (ns_node (set_cfg (NormalizeNetworkBackend (ns_cfg s)) s)) = (r, n1)" by fastforce
  have reg: "registration_ok s" using assms by (simp add: service_ok_def)
  define s1 where "s1 = stop_bittorrent ((set_libp2p ((set_cfg (NormalizeNetworkBackend (ns_cfg s)) s)\<lparr>ns_node := n1\<rparr>))\<lparr>ns_lastError := []\<rparr>)"
  define s2 where "s2 = (if shouldRunBitTorrentDHTBackend (Some (ns_cfg s1)) then start_bittorrent env s1 else s1)"
  have "ns_refs s1 = ns_refs s" by (simp add: s1_def refs_bittorrent set_libp2p_def)
  moreover have "registration_ok s1" unfolding s1_def using reg by (intro refs_bittorrent(2)) simp
  ultimately have 2: "service_ok s2 \<and> held s2 = held s"
    by (intro keep) (auto simp: s2_def refs_bittorrent)
  have ok: "service_ok (snd (service_applyNetworkConfig env s)) \<and> held (snd (service_applyNetworkConfig env s)) = held s"
  proof (cases r)
    case (Some e)
    then show ?thesis using n1 reg by (intro keep) (simp_all add: service_applyNetworkConfig_def Let_def)
  next
    case None
    have unf: "snd (service_applyNetworkConfig env s) =
       (if ActiveNetworkBackend (Some (ns_cfg s2)) = BackendIroh
        then (case setBackendRef env BackendIroh ''selected'' True s2 of (Some err, t) \<Rightarrow> t\<lparr>ns_lastError := err\<rparr> | (None, t) \<Rightarrow> t)
        else snd (setBackendRef env BackendIroh ''selected'' False s2))"
      using n1 None by (simp add: service_applyNetworkConfig_def Let_def s1_def s2_def)
    obtain e t where t: "setBackendRef env BackendIroh ''selected'' True s2 = (e, t)" by fastforce
    have "service_ok t \<and> held t = held s" using sel [OF 2, of BackendIroh True] t by simp
    then have "service_ok (t\<lparr>ns_lastError := x\<rparr>) \<and> held (t\<lparr>ns_lastError := x\<rparr>) = held s" for x using err by metis
    then show ?thesis
      using sel [OF 2, of BackendIroh False] unf t \<open>service_ok t \<and> held t = held s\<close> by (simp split: option.split)
  qed
  then show "service_ok (snd (service_applyNetworkConfig env s))" "held (snd (service_applyNetworkConfig env s)) = held s"
    by simp_all
qed

lemma service_step_lease:
  assumes "service_ok s"
  shows "service_ok (service_step s x) \<and> held (service_step s x) = lease_spec valid_lease (held s) (lease_of x)"
proof -
  have keep: "service_ok t \<and> held t = held s" if "ns_refs t = ns_refs s" "registration_ok s \<Longrightarrow> registration_ok t" for t
    using that assms held_refs [OF that(1)] by (simp add: service_ok_def)
  show ?thesis
  proof (cases x)
    case (SvcRetain env b k)
    then show ?thesis using setBackendRef_step [OF assms, of env b k True] by simp
  next
    case (SvcRelease env b k)
    then show ?thesis using setBackendRef_step [OF assms, of env b k False] by simp
  next
    case (SvcEnsure env b)
    have "service_ok (service_step s x) \<and> held (service_step s x) = held s"
      by (rule keep) (simp_all add: SvcEnsure refs_ensure)
    then show ?thesis using SvcEnsure by simp
  next
    case (SvcRetry env)
    have "service_ok (background_retry env s) \<and> held (background_retry env s) = held s"
      by (rule keep) (simp_all add: background_retry_def refs_ensure Let_def)
    then show ?thesis using SvcRetry by simp
  next
    case (SvcApply env)
    then show ?thesis using service_applyNetworkConfig_step [OF assms] by simp
  next
    case SvcSidecarExit
    have "service_ok (service_step s x) \<and> held (service_step s x) = held s"
      by (rule keep) (auto simp: SvcSidecarExit registration_ok_def)
    then show ?thesis using SvcSidecarExit by simp
  qed
qed

interpretation backend: lease_table valid_lease service_step lease_of held service_ok
  by unfold_locales (simp_all add: service_step_lease)

definition service_start :: "'m Node \<Rightarrow> 'm net_state" where
  "service_start n = \<lparr>ns_node = n, ns_refs = [], ns_sidecar = None, ns_iroh_pairing = False, ns_iroh_tunnel = False,
     ns_quic = False, ns_quic_pairing = False, ns_quic_tunnel = False, ns_bt = False, ns_discoverer = False,
     ns_libp2p_pairing = False, ns_libp2p_tunnel = False, ns_lastError = []\<rparr>"

lemma service_ok_start: "service_ok (service_start n)" "held (service_start n) = {}"
  by (simp_all add: service_ok_def refs_ok_def registration_ok_def service_start_def refs_of_def held_def)

lemma setBackendRef_sidecar:
  assumes "setBackendRef env BackendIroh k active s = (r, t)" "k \<noteq> []"
  shows "refs_of t BackendIroh = [] \<Longrightarrow> ns_sidecar t = None \<and> r = None"
    "refs_of t BackendIroh \<noteq> [] \<Longrightarrow> r = None \<Longrightarrow> ns_sidecar t = Some True"
proof -
  have b: "BackendIroh \<noteq> []" "BackendIroh \<noteq> ''disabled''" by (simp_all add: BackendIroh_def)
  have refs: "refs_of t BackendIroh = refs_of (ref_table BackendIroh k active s) BackendIroh"
    using setBackendRef_refs(1) [OF b assms(2), of env active s] assms(1) by (simp add: refs_of_def)
  show "refs_of t BackendIroh = [] \<Longrightarrow> ns_sidecar t = None \<and> r = None"
    using assms(1) refs by (auto simp: setBackendRef_table [OF b assms(2)])
  show "refs_of t BackendIroh \<noteq> [] \<Longrightarrow> r = None \<Longrightarrow> ns_sidecar t = Some True"
    using assms(1) refs by (auto simp: setBackendRef_table [OF b assms(2)] dest: refs_start(3))
qed


definition sample_service_env :: "string service_env" where
  "sample_service_env = \<lparr>sv_lib = toy_multiaddr,
     sv_host = \<lparr>he_key = (\<lambda>_. None), he_new = None, he_answer = (\<lambda>_. RelayDialFailed), he_now = 0\<rparr>,
     sv_newSidecar = (\<lambda>_. Inr True), sv_newQUIC = (\<lambda>_ _. Inr True), sv_newBT = (\<lambda>_ _. Inr True), sv_btReady = None, sv_dhtReady = None,
     sv_config_error = (\<lambda>_. ''config''), sv_node_error = (\<lambda>_. ''node'')\<rparr>"

abbreviation sample_service :: "string net_state" where
  "sample_service \<equiv> foldl service_step (service_start relay_node)
     [SvcRetain sample_service_env BackendIroh ''connect:a'', SvcRetain sample_service_env BackendIroh ''connect:b'',
      SvcSidecarExit, SvcRelease sample_service_env BackendIroh ''connect:a'']"


end
