(* ===== verification/Webui.thy ===== *)
theory Webui
  imports Service Handshake
begin

text \<open>
  The dashboard server, \<open>internal/webui/webui.go\<close>: who may use it, and the connections
  it opens. A connection is known under several keys; the server keeps the attempts
  under way, the last status and the live session of every key, and holds a reference
  on the network backend of each session through the hooks of the service.
\<close>

section \<open>State\<close>

record connectStatus =
  st_Key :: string
  st_Stage :: string
  st_Message :: string
  st_Protocol :: string
  st_Peer :: string
  st_LocalAddr :: string
  st_Error :: string
  st_StartedAt :: instant
  st_UpdatedAt :: instant
  st_Done :: bool
  st_Active :: bool
  st_AppConnected :: bool
  st_ActiveAppStreams :: nat
  st_ActiveAppClients :: nat

record connectAttempt =
  ca_StartedAt :: instant
  ca_Cancel :: bool

text \<open>A proxy is a number, with its address and its counts of streams and clients given by the tunnel.\<close>

record connectSession =
  cs_Key :: string
  cs_Keys :: "string list"
  cs_Peer :: string
  cs_Protocol :: string
  cs_Mode :: string
  cs_TargetPort :: int
  cs_Backend :: string
  cs_LocalAddr :: string
  cs_StartedAt :: instant
  cs_Proxy :: nat

text \<open>
  \<open>ws_open\<close> are the proxies not closed, \<open>ws_onClose\<close> the key each proxy's close
  callback was registered with, \<open>ws_cancelled\<close> the keys whose context was cancelled.
\<close>

record 'm Server =
  ws_net :: "'m net_state"
  ws_sessionToken :: string
  ws_launchTokens :: "string list"
  ws_activeConnects :: "(string, connectAttempt) gomap"
  ws_connectStatus :: "(string, connectStatus) gomap"
  ws_activeSessions :: "(string, connectSession) gomap"
  ws_open :: "nat list"
  ws_onClose :: "(nat, string) gomap"
  ws_cancelled :: "string list"

definition connectOperationTimeout :: duration where "connectOperationTimeout = 75 * second"
definition connectStaleAfter :: duration where "connectStaleAfter = 90 * second"

definition zero_status :: connectStatus where
  "zero_status = \<lparr>st_Key = [], st_Stage = [], st_Message = [], st_Protocol = [], st_Peer = [], st_LocalAddr = [], st_Error = [],
     st_StartedAt = 0, st_UpdatedAt = 0, st_Done = False, st_Active = False, st_AppConnected = False,
     st_ActiveAppStreams = 0, st_ActiveAppClients = 0\<rparr>"

definition status_of :: "'m Server \<Rightarrow> string \<Rightarrow> connectStatus" where
  "status_of s k = (case map_get (ws_connectStatus s) k of None \<Rightarrow> zero_status | Some st \<Rightarrow> st)"

definition put_status :: "string \<Rightarrow> connectStatus \<Rightarrow> 'm Server \<Rightarrow> 'm Server" where
  "put_status k st s = s\<lparr>ws_connectStatus := map_set k st (ws_connectStatus s)\<rparr>"

definition Webui_New :: "string \<Rightarrow> 'm net_state \<Rightarrow> 'm Server" where
  "Webui_New token net = \<lparr>ws_net = net, ws_sessionToken = token, ws_launchTokens = [], ws_activeConnects = [],
     ws_connectStatus = [], ws_activeSessions = [], ws_open = [], ws_onClose = [], ws_cancelled = []\<rparr>"

section \<open>Admission\<close>

definition BaseURL :: "string \<Rightarrow> 'm Server \<Rightarrow> string \<times> 'm Server" where
  "BaseURL tok s = (''http://127.0.0.1:18080/?token='' @ tok, s\<lparr>ws_launchTokens := List.insert tok (ws_launchTokens s)\<rparr>)"

text \<open>A request: its session cookie, its launch token (empty if none), and whether its source process is allowed.\<close>

record http_request =
  hr_cookie :: "string option"
  hr_token :: string
  hr_sourceAllowed :: bool

datatype admission = Served | CookieSet string | Forbidden

definition serveHTTP :: "http_request \<Rightarrow> 'm Server \<Rightarrow> admission \<times> 'm Server" where
  "serveHTTP r s =
     (if hr_cookie r = Some (ws_sessionToken s) then (Served, s)
      else if hr_token r \<noteq> [] then
        (if \<not> hr_sourceAllowed r then (Forbidden, s)
         else
           let s1 = s\<lparr>ws_launchTokens := removeAll (hr_token r) (ws_launchTokens s)\<rparr> in
           (if hr_token r \<in> set (ws_launchTokens s) then CookieSet (ws_sessionToken s) else Forbidden, s1))
      else (Forbidden, s))"

section \<open>Keys\<close>

definition shortID :: "string \<Rightarrow> string" where
  "shortID v = (if length v \<le> 12 then v else take 12 v)"

definition connectRequestKey :: "cryptography \<Rightarrow> string \<Rightarrow> string \<Rightarrow> string \<Rightarrow> string" where
  "connectRequestKey cr remoteKey nodeID rawURL =
     (if TrimSpace remoteKey \<noteq> [] then ''peer:'' @ TrimSpace remoteKey
      else if TrimSpace nodeID \<noteq> [] then ''peer:'' @ TrimSpace nodeID
      else if TrimSpace rawURL = [] then []
      else if InvitePeerID cr (TrimSpace rawURL) \<noteq> [] then ''peer:'' @ InvitePeerID cr (TrimSpace rawURL)
      else ''url:'' @ shortID (TrimSpace rawURL))"

definition pairedConnectKey :: "string \<Rightarrow> string \<Rightarrow> int \<Rightarrow> string" where
  "pairedConnectKey nodeID protocol targetPort =
     (if TrimSpace nodeID = [] then [] else ''peer:'' @ RemoteServiceKeyParts (TrimSpace nodeID) protocol targetPort)"

definition uniqueConnectKeys :: "string list \<Rightarrow> string list" where
  "uniqueConnectKeys keys = uniq_loop (\<lambda>k. if TrimSpace k = [] then None else Some (TrimSpace k)) [] keys"

definition sessionKeys :: "connectSession option \<Rightarrow> string \<Rightarrow> string list" where
  "sessionKeys session fallback =
     (case session of
        Some x \<Rightarrow> if cs_Keys x \<noteq> [] then cs_Keys x else uniqueConnectKeys [fallback]
      | None \<Rightarrow> uniqueConnectKeys [fallback])"

section \<open>References held for sessions\<close>

definition retainSessionBackend :: "'m service_env \<Rightarrow> string \<Rightarrow> string \<Rightarrow> 'm Server \<Rightarrow> string option \<times> 'm Server" where
  "retainSessionBackend env backend0 connectKey s =
     (let backend = TrimSpace backend0 in
      if backend = [] then (None, s)
      else case setBackendRef env backend (''connect:'' @ connectKey) True (ws_net s) of (e, net) \<Rightarrow> (e, s\<lparr>ws_net := net\<rparr>))"

definition retainConnectAttemptBackend :: "'m service_env \<Rightarrow> string \<Rightarrow> string \<Rightarrow> 'm Server \<Rightarrow> 'm Server" where
  "retainConnectAttemptBackend env backend0 connectKey s =
     (let backend = TrimSpace backend0 in
      if backend = [] then s
      else s\<lparr>ws_net := snd (setBackendRef env backend (''attempt:'' @ connectKey) True (ws_net s))\<rparr>)"

definition releaseConnectAttemptBackend :: "'m service_env \<Rightarrow> string \<Rightarrow> string \<Rightarrow> 'm Server \<Rightarrow> 'm Server" where
  "releaseConnectAttemptBackend env backend0 connectKey s =
     (let backend = TrimSpace backend0 in
      if backend = [] then s
      else s\<lparr>ws_net := snd (setBackendRef env backend (''attempt:'' @ connectKey) False (ws_net s))\<rparr>)"

definition releaseSessionBackend :: "'m service_env \<Rightarrow> connectSession option \<Rightarrow> 'm Server \<Rightarrow> 'm Server" where
  "releaseSessionBackend env session s =
     (case session of
        None \<Rightarrow> s
      | Some x \<Rightarrow>
          let backend = TrimSpace (cs_Backend x) in
          if backend = [] then s
          else s\<lparr>ws_net := snd (setBackendRef env backend (''connect:'' @ cs_Key x) False (ws_net s))\<rparr>)"

definition backendForConnectResult :: "ConnectResult option \<Rightarrow> string \<Rightarrow> string" where
  "backendForConnectResult result fallback =
     (case result of
        None \<Rightarrow> TrimSpace fallback
      | Some r \<Rightarrow>
          if TrimSpace (cn_IrohTicket r) \<noteq> [] then ''iroh''
          else if TrimSpace (cn_BitTorrentQUICEndpoint r) \<noteq> [] then ''bittorrent_dht''
          else TrimSpace fallback)"

section \<open>Sessions\<close>

definition closed_status :: "instant \<Rightarrow> string \<Rightarrow> connectSession option \<Rightarrow> string \<Rightarrow> connectStatus \<Rightarrow> connectStatus" where
  "closed_status now message session k st =
     (let st1 = (if st_Key st = [] then st\<lparr>st_Key := k\<rparr> else st);
          st2 = (case session of
                   None \<Rightarrow> st1
                 | Some x \<Rightarrow> st1\<lparr>st_Peer := cs_Peer x, st_Protocol := cs_Protocol x, st_LocalAddr := cs_LocalAddr x\<rparr>)
      in st2\<lparr>st_Stage := ''disconnected'', st_Message := message, st_Error := [], st_Active := False, st_AppConnected := False,
             st_ActiveAppStreams := 0, st_ActiveAppClients := 0, st_Done := True, st_UpdatedAt := now\<rparr>)"

primrec close_statuses :: "instant \<Rightarrow> string \<Rightarrow> connectSession option \<Rightarrow> string list \<Rightarrow> 'm Server \<Rightarrow> 'm Server" where
  "close_statuses now message session [] s = s"
| "close_statuses now message session (k # ks) s =
     close_statuses now message session ks (put_status k (closed_status now message session k (status_of s k)) s)"

definition drop_sessions :: "string list \<Rightarrow> 'm Server \<Rightarrow> 'm Server" where
  "drop_sessions ks s = s\<lparr>ws_activeSessions := foldl (\<lambda>m k. map_del k m) (ws_activeSessions s) ks\<rparr>"

definition markSessionClosed ::
  "'m service_env \<Rightarrow> instant \<Rightarrow> string \<Rightarrow> nat \<Rightarrow> string \<Rightarrow> 'm Server \<Rightarrow> 'm Server" where
  "markSessionClosed env now key proxy message s =
     (case map_get (ws_activeSessions s) key of
        None \<Rightarrow> s
      | Some session \<Rightarrow>
          if cs_Proxy session \<noteq> proxy then s
          else
            let msg = (if TrimSpace message = [] then ''Disconnected'' else message);
                ks = sessionKeys (Some session) key
            in releaseSessionBackend env (Some session)
                 (close_statuses now msg (Some session) ks (drop_sessions ks s)))"

text \<open>\<open>LocalProxy.Close\<close>: the first time, it runs the callback.\<close>

definition close_proxy :: "'m service_env \<Rightarrow> instant \<Rightarrow> nat \<Rightarrow> 'm Server \<Rightarrow> 'm Server" where
  "close_proxy env now p s =
     (if p \<notin> set (ws_open s) then s
      else
        let s1 = s\<lparr>ws_open := removeAll p (ws_open s)\<rparr> in
        (case map_get (ws_onClose s) p of
           None \<Rightarrow> s1
         | Some key \<Rightarrow> markSessionClosed env now key p ''Tunnel disconnected'' s1))"

definition set_on_close :: "'m service_env \<Rightarrow> instant \<Rightarrow> string \<Rightarrow> nat \<Rightarrow> 'm Server \<Rightarrow> 'm Server" where
  "set_on_close env now key p s =
     (let s1 = s\<lparr>ws_onClose := map_set p key (ws_onClose s)\<rparr>
      in if p \<in> set (ws_open s) then s1 else markSessionClosed env now key p ''Tunnel disconnected'' s1)"

definition registered_status :: "instant \<Rightarrow> connectSession \<Rightarrow> string \<Rightarrow> connectStatus \<Rightarrow> connectStatus" where
  "registered_status now x k st =
     st\<lparr>st_Key := k, st_Peer := cs_Peer x, st_Protocol := cs_Protocol x, st_LocalAddr := cs_LocalAddr x, st_Active := True,
        st_AppConnected := False, st_ActiveAppStreams := 0, st_ActiveAppClients := 0, st_UpdatedAt := now\<rparr>"

primrec register_keys :: "instant \<Rightarrow> connectSession \<Rightarrow> string list \<Rightarrow> connectSession list \<times> 'm Server \<Rightarrow> connectSession list \<times> 'm Server" where
  "register_keys now x [] os = os"
| "register_keys now x (k # ks) os =
     (case os of (old, s) \<Rightarrow>
        let old' = (case map_get (ws_activeSessions s) k of
                      Some o1 \<Rightarrow> if cs_Proxy o1 \<noteq> cs_Proxy x then List.insert o1 old else old
                    | None \<Rightarrow> old);
            s1 = s\<lparr>ws_activeSessions := map_set k x (ws_activeSessions s)\<rparr>
        in register_keys now x ks (old', put_status k (registered_status now x k (status_of s1 k)) s1))"

definition retire_session :: "'m service_env \<Rightarrow> instant \<Rightarrow> connectSession \<Rightarrow> 'm Server \<Rightarrow> 'm Server" where
  "retire_session env now o1 s = close_proxy env now (cs_Proxy o1) (releaseSessionBackend env (Some o1) s)"

definition registerConnectSession ::
  "'m service_env \<Rightarrow> instant \<Rightarrow> string \<Rightarrow> string \<Rightarrow> string \<Rightarrow> string \<Rightarrow> int \<Rightarrow> string \<Rightarrow> nat \<Rightarrow> string \<Rightarrow> string list \<Rightarrow>
   'm Server \<Rightarrow> 'm Server" where
  "registerConnectSession env now key peer proto mode targetPort backend proxy addr aliases s =
     (let keys = uniqueConnectKeys (key # aliases);
          x = \<lparr>cs_Key = key, cs_Keys = keys, cs_Peer = peer, cs_Protocol = proto, cs_Mode = mode, cs_TargetPort = targetPort,
               cs_Backend = backend, cs_LocalAddr = addr, cs_StartedAt = now, cs_Proxy = proxy\<rparr>
      in case register_keys now x keys ([], s) of (old, s1) \<Rightarrow>
           set_on_close env now key proxy (foldl (\<lambda>t o1. retire_session env now o1 t) s1 old))"

definition connectedSession :: "string \<Rightarrow> 'm Server \<Rightarrow> connectSession option" where
  "connectedSession key s = map_get (ws_activeSessions s) key"

definition disconnectSession :: "'m service_env \<Rightarrow> instant \<Rightarrow> string \<Rightarrow> 'm Server \<Rightarrow> connectSession option \<times> 'm Server" where
  "disconnectSession env now key s =
     (let session = map_get (ws_activeSessions s) key;
          ks = sessionKeys session key;
          s1 = (if session = None then s else drop_sessions ks s);
          s2 = close_statuses now ''Disconnected'' session ks s1;
          s3 = (case session of None \<Rightarrow> s2 | Some x \<Rightarrow> close_proxy env now (cs_Proxy x) s2)
      in (session, releaseSessionBackend env session s3))"

definition cancel_ctx :: "string \<Rightarrow> 'm Server \<Rightarrow> 'm Server" where
  "cancel_ctx key s =
     (case map_get (ws_activeConnects s) key of
        Some a \<Rightarrow> if ca_Cancel a then s\<lparr>ws_cancelled := key # ws_cancelled s\<rparr> else s
      | None \<Rightarrow> s)"

definition removeRemoteConnectState :: "'m service_env \<Rightarrow> instant \<Rightarrow> string \<Rightarrow> 'm Server \<Rightarrow> 'm Server" where
  "removeRemoteConnectState env now remoteKey0 s =
     (let remoteKey = TrimSpace remoteKey0 in
      if remoteKey = [] then s
      else
        let connectKey = ''peer:'' @ remoteKey in
        case disconnectSession env now connectKey s of (session, s1) \<Rightarrow>
          let keys = (case session of None \<Rightarrow> [connectKey] | Some x \<Rightarrow> sessionKeys session connectKey)
          in foldl (\<lambda>t k. let t1 = cancel_ctx k t
                          in t1\<lparr>ws_activeConnects := map_del k (ws_activeConnects t1), ws_connectStatus := map_del k (ws_connectStatus t1)\<rparr>)
               s1 keys)"

section \<open>Attempts\<close>

definition beginConnect :: "instant \<Rightarrow> string \<Rightarrow> 'm Server \<Rightarrow> bool \<times> 'm Server" where
  "beginConnect now key s =
     (case map_get (ws_activeConnects s) key of
        Some a \<Rightarrow>
          if now - ca_StartedAt a > connectStaleAfter then
            let s1 = cancel_ctx key s;
                s2 = s1\<lparr>ws_activeConnects := map_set key \<lparr>ca_StartedAt = now, ca_Cancel = False\<rparr> (map_del key (ws_activeConnects s1))\<rparr>;
                st = status_of s2 key
            in (True,
                if st_Done st then s2
                else put_status key (st\<lparr>st_Key := key, st_Stage := ''failed'', st_Message := ''Previous connection attempt timed out'',
                       st_Error := ''connect attempt exceeded 1m30s'', st_UpdatedAt := now, st_Done := True\<rparr>) s2)
          else (False, s)
      | None \<Rightarrow> (True, s\<lparr>ws_activeConnects := map_set key \<lparr>ca_StartedAt = now, ca_Cancel = False\<rparr> (ws_activeConnects s)\<rparr>))"

definition setConnectCancel :: "string \<Rightarrow> 'm Server \<Rightarrow> 'm Server" where
  "setConnectCancel key s =
     (case map_get (ws_activeConnects s) key of
        Some a \<Rightarrow> s\<lparr>ws_activeConnects := map_set key (a\<lparr>ca_Cancel := True\<rparr>) (ws_activeConnects s)\<rparr>
      | None \<Rightarrow> s)"

definition endConnect :: "string \<Rightarrow> 'm Server \<Rightarrow> 'm Server" where
  "endConnect key s = s\<lparr>ws_activeConnects := map_del key (ws_activeConnects s)\<rparr>"

definition keyed_status :: "string \<Rightarrow> 'm Server \<Rightarrow> connectStatus" where
  "keyed_status key s = (let st = status_of s key in if st_Key st = [] then st\<lparr>st_Key := key\<rparr> else st)"

definition cancelConnect :: "'m service_env \<Rightarrow> instant \<Rightarrow> string \<Rightarrow> 'm Server \<Rightarrow> (connectStatus \<times> bool) \<times> 'm Server" where
  "cancelConnect env now key s =
     (case map_get (ws_activeConnects s) key of
        None \<Rightarrow> ((keyed_status key s, False), s)
      | Some a \<Rightarrow>
          let session = map_get (ws_activeSessions s) key;
              s1 = (cancel_ctx key s)\<lparr>ws_activeConnects := map_del key (ws_activeConnects s)\<rparr>;
              s2 = (if session = None then s1 else s1\<lparr>ws_activeSessions := map_del key (ws_activeSessions s1)\<rparr>);
              st = (keyed_status key s2)\<lparr>st_Stage := ''canceled'', st_Message := ''Connection canceled'', st_Error := [],
                      st_Active := False, st_Done := True, st_UpdatedAt := now\<rparr>;
              s3 = put_status key st s2;
              s4 = (case session of None \<Rightarrow> s3 | Some x \<Rightarrow> close_proxy env now (cs_Proxy x) s3)
          in ((st, True), s4))"

definition connectingState :: "string \<Rightarrow> 'm Server \<Rightarrow> bool \<times> string \<times> string" where
  "connectingState key s =
     (if map_get (ws_activeConnects s) key = None then (False, [], [])
      else (True, st_Stage (status_of s key), st_Message (status_of s key)))"

definition activeConnectStatus :: "instant \<Rightarrow> string \<Rightarrow> 'm Server \<Rightarrow> connectStatus \<times> duration" where
  "activeConnectStatus now key s =
     (keyed_status key s, case map_get (ws_activeConnects s) key of Some a \<Rightarrow> now - ca_StartedAt a | None \<Rightarrow> 0)"

text \<open>\<open>withAppActivity\<close>: the streams and clients of the session's proxy, as the tunnel reports them.\<close>

definition with_activity :: "(nat \<Rightarrow> nat \<times> nat) \<Rightarrow> connectSession option \<Rightarrow> connectStatus \<Rightarrow> connectStatus" where
  "with_activity act session st =
     (case session of
        None \<Rightarrow> st
      | Some x \<Rightarrow> st\<lparr>st_AppConnected := fst (act (cs_Proxy x)) > 0, st_ActiveAppStreams := fst (act (cs_Proxy x)),
                     st_ActiveAppClients := snd (act (cs_Proxy x))\<rparr>)"

definition statusSnapshot :: "(nat \<Rightarrow> nat \<times> nat) \<Rightarrow> instant \<Rightarrow> string \<Rightarrow> 'm Server \<Rightarrow> connectStatus" where
  "statusSnapshot act now key s =
     (let st = keyed_status key s;
          session = map_get (ws_activeSessions s) key;
          st1 = (case session of
                   None \<Rightarrow> st
                 | Some x \<Rightarrow> with_activity act session
                     (st\<lparr>st_Peer := cs_Peer x, st_Protocol := cs_Protocol x, st_LocalAddr := cs_LocalAddr x, st_Active := True\<rparr>))
      in if st_UpdatedAt st1 = 0 then st1\<lparr>st_UpdatedAt := now\<rparr> else st1)"

definition setConnectStatus ::
  "(nat \<Rightarrow> nat \<times> nat) \<Rightarrow> instant \<Rightarrow> string \<Rightarrow> string \<Rightarrow> string \<Rightarrow> string \<Rightarrow> string \<Rightarrow> string \<Rightarrow> string \<Rightarrow> bool \<Rightarrow> 'm Server \<Rightarrow> 'm Server" where
  "setConnectStatus act now key stage message proto peer localAddr err done s =
     (let st = status_of s key in
      if st_Stage st = ''canceled'' \<and> st_Done st \<and> stage \<noteq> ''starting'' then s
      else
        let st1 = st\<lparr>st_StartedAt := (if st_StartedAt st = 0 then now else st_StartedAt st), st_Key := key, st_Stage := stage,
                    st_Message := message, st_Protocol := (if proto \<noteq> [] then proto else st_Protocol st),
                    st_Peer := (if peer \<noteq> [] then peer else st_Peer st),
                    st_LocalAddr := (if localAddr \<noteq> [] then localAddr else st_LocalAddr st), st_Error := err,
                    st_UpdatedAt := now, st_Done := done\<rparr>
        in put_status key (with_activity act (map_get (ws_activeSessions s) key) st1) s)"

definition handleConnectStatus :: "instant \<Rightarrow> string \<Rightarrow> 'm Server \<Rightarrow> connectStatus" where
  "handleConnectStatus now key s =
     (case map_get (ws_connectStatus s) key of
        None \<Rightarrow> zero_status\<lparr>st_Key := key, st_Stage := ''idle'', st_Message := ''Idle'', st_UpdatedAt := now, st_Done := True\<rparr>
      | Some st \<Rightarrow> st)"

section \<open>Connecting\<close>

definition remoteByRequest :: "Config \<Rightarrow> string \<Rightarrow> string \<Rightarrow> RemoteConfig option" where
  "remoteByRequest c remoteKey nodeID =
     (if TrimSpace remoteKey \<noteq> [] then List.find (\<lambda>r. RemoteServiceKey r = TrimSpace remoteKey) (cfg_Remotes c)
      else if TrimSpace nodeID = [] then None
      else List.find (\<lambda>r. rc_NodeID r = TrimSpace nodeID) (cfg_Remotes c))"

definition pairingFallbackPeer :: "cryptography \<Rightarrow> Config \<Rightarrow> string \<Rightarrow> string \<Rightarrow> string" where
  "pairingFallbackPeer cr c rawURL err =
     (if \<not> Contains err ''link already used'' then []
      else case DecodeURL rawURL of
        Inl _ \<Rightarrow> []
      | Inr tok \<Rightarrow>
          if ModeString tok \<noteq> ''pairing'' then []
          else
            let peerID = InvitePeerID cr rawURL in
            if peerID \<noteq> [] \<and> list_ex (\<lambda>r. rc_NodeID r = peerID) (cfg_Remotes c) then peerID else [])"

definition tunnelStatusMessage :: "ConnectResult option \<Rightarrow> string" where
  "tunnelStatusMessage result =
     (case result of
        None \<Rightarrow> ''Opening tunnel''
      | Some r \<Rightarrow>
          if cn_BitTorrentQUICEndpoint r \<noteq> [] then ''Opening BitTorrent DHT tunnel''
          else if cn_IrohTicket r \<noteq> [] then ''Opening iroh tunnel''
          else ''Opening libp2p tunnel'')"

definition inviteConnectErrorMessage :: "string \<Rightarrow> string" where
  "inviteConnectErrorMessage msg =
     (let lower = ToLower msg in
      if Contains lower ''link already used''
      then ''This invite link was already used by another machine. Ask the host to generate a new invite.''
      else if Contains lower ''invalid link'' \<or> Contains lower ''invalid invite proof''
      then ''This invite link is invalid. Ask the host to generate a new invite.''
      else if Contains lower ''link has expired'' then ''This invite link has expired. Ask the host to generate a new invite.''
      else if Contains lower ''link has been revoked'' then ''This invite link was revoked. Ask the host to generate a new invite.''
      else msg)"

record connect_request =
  cq_URL :: string
  cq_NodeID :: string
  cq_RemoteKey :: string

datatype connect_reply =
    BadRequest | Existing connectSession | InProgress | Canceled | ConnectFailed string | Ready string string string

text \<open>
  What a connection meets: the clock, the activity of proxies, the daemon's backends,
  whether its context has ended, the outcome of the pairing exchange and the proxy
  the tunnel starts, with its address.
\<close>

record 'm connect_env =
  ke_now :: instant
  ke_act :: "nat \<Rightarrow> nat \<times> nat"
  ke_svc :: "'m service_env"
  ke_cr :: cryptography
  ke_ended :: bool
  ke_ConnectByURL :: "string \<Rightarrow> string + ConnectResult"
  ke_ReauthPaired :: "string \<Rightarrow> string \<Rightarrow> string + ConnectResult"
  ke_ReauthRemote :: "RemoteConfig \<Rightarrow> string \<Rightarrow> string + ConnectResult"
  ke_tunnel :: "ConnectResult \<Rightarrow> string + nat \<times> string"

abbreviation ke_status ::
  "'m connect_env \<Rightarrow> string \<Rightarrow> string \<Rightarrow> string \<Rightarrow> string \<Rightarrow> string \<Rightarrow> string \<Rightarrow> string \<Rightarrow> bool \<Rightarrow> 'm Server \<Rightarrow> 'm Server" where
  "ke_status env \<equiv> setConnectStatus (ke_act env) (ke_now env)"

definition connect_failed ::
  "'m connect_env \<Rightarrow> string \<Rightarrow> string \<Rightarrow> string \<Rightarrow> string \<Rightarrow> string \<Rightarrow> string \<Rightarrow> 'm Server \<Rightarrow> connect_reply \<times> 'm Server" where
  "connect_failed env key message proto peer err reply s =
     (if ke_ended env then (Canceled, ke_status env key ''canceled'' ''Connection canceled'' proto peer [] [] True s)
      else (ConnectFailed reply, ke_status env key ''failed'' message proto peer [] err True s))"

definition open_tunnel ::
  "'m connect_env \<Rightarrow> string \<Rightarrow> string \<Rightarrow> bool \<Rightarrow> string \<Rightarrow> ConnectResult \<Rightarrow> 'm Server \<Rightarrow> connect_reply \<times> 'm Server" where
  "open_tunnel env key fallback needProto proto r s =
     (let s1 = ke_status env key ''tunnel'' (tunnelStatusMessage (Some r)) (cn_Protocol r) (cn_PeerID r) [] [] False s in
      case ke_tunnel env r of
        Inl e \<Rightarrow> connect_failed env key ''Tunnel setup failed'' proto [] e (''connection failed: '' @ e) s1
      | Inr (p, addr) \<Rightarrow>
          let s2 = s1\<lparr>ws_open := List.insert p (ws_open s1)\<rparr> in
          if needProto \<and> cn_Protocol r = []
          then (Ready [] [] proto, ke_status env key ''ready'' ''Local tunnel ready'' proto [] [] [] True s2)
          else
            let backend = backendForConnectResult (Some r) fallback in
            (case retainSessionBackend (ke_svc env) backend key s2 of
               (Some e, s3) \<Rightarrow> connect_failed env key ''Tunnel setup failed'' (cn_Protocol r) [] e (''connection failed: '' @ e)
                                 (close_proxy (ke_svc env) (ke_now env) p s3)
             | (None, s3) \<Rightarrow>
                 (Ready (cn_PeerID r) addr (cn_Protocol r),
                  ke_status env key ''ready'' ''Local tunnel ready'' (cn_Protocol r) (cn_PeerID r) addr [] True
                    (registerConnectSession (ke_svc env) (ke_now env) key (cn_PeerID r) (cn_Protocol r) (cn_Mode r) (cn_TargetPort r)
                       backend p addr [pairedConnectKey (cn_PeerID r) (cn_Protocol r) (cn_TargetPort r)] s3))))"

text \<open>The backend is ensured under a reference of the attempt, which is released at the end.\<close>

definition with_backend ::
  "'m connect_env \<Rightarrow> string \<Rightarrow> string \<Rightarrow> string \<Rightarrow> ('m Server \<Rightarrow> connect_reply \<times> 'm Server) \<Rightarrow> 'm Server \<Rightarrow> connect_reply \<times> 'm Server" where
  "with_backend env key backend peer body s =
     (if backend = [] then body s
      else
        let s1 = ke_status env key ''backend'' (''Starting '' @ backend @ '' backend'') [] peer [] [] False s;
            s2 = retainConnectAttemptBackend (ke_svc env) backend key s1
        in (case (case ensureNetworkBackend (ke_svc env) backend ''connect'' (ws_net s2) of
                    (Some e, net) \<Rightarrow> connect_failed env key ''Backend startup failed'' [] peer e (''backend startup failed: '' @ e) (s2\<lparr>ws_net := net\<rparr>)
                  | (None, net) \<Rightarrow> body (s2\<lparr>ws_net := net\<rparr>)) of
              (reply, s3) \<Rightarrow> (reply, releaseConnectAttemptBackend (ke_svc env) backend key s3)))"

definition connect_by_url :: "'m connect_env \<Rightarrow> string \<Rightarrow> string \<Rightarrow> string \<Rightarrow> 'm Server \<Rightarrow> connect_reply \<times> 'm Server" where
  "connect_by_url env key proto url s =
     (let s1 = ke_status env key ''discovery'' ''Reading invite and discovering host'' [] [] [] [] False s;
          inviteBackend = InviteNetworkBackend url
      in with_backend env key inviteBackend []
           (\<lambda>t. let t1 = ke_status env key ''pairing'' ''Authenticating invite with host'' [] [] [] [] False t in
              case (case ke_ConnectByURL env url of
                      Inr r \<Rightarrow> (Inr r, t1)
                    | Inl e \<Rightarrow>
                        let fb = pairingFallbackPeer (ke_cr env) (ns_cfg (ws_net t1)) url e in
                        if fb = [] then (Inl e, t1)
                        else (ke_ReauthPaired env fb inviteBackend,
                              ke_status env key ''reauth'' ''Link already used, using saved paired access'' [] fb [] [] False t1)) of
                (Inl e, t2) \<Rightarrow>
                  connect_failed env key ''Invite authentication failed'' [] [] (inviteConnectErrorMessage e) (inviteConnectErrorMessage e) t2
              | (Inr r, t2) \<Rightarrow>
                  open_tunnel env key inviteBackend False proto r
                    (ke_status env key ''authenticated'' ''Invite authenticated'' (cn_Protocol r) (cn_PeerID r) [] [] False t2))
           s1)"

definition connect_by_remote ::
  "'m connect_env \<Rightarrow> string \<Rightarrow> string \<Rightarrow> string \<Rightarrow> RemoteConfig option \<Rightarrow> 'm Server \<Rightarrow> connect_reply \<times> 'm Server" where
  "connect_by_remote env key proto nodeID remote s =
     (case remote of
        None \<Rightarrow> (BadRequest, ke_status env key ''failed'' ''Pairing data is incomplete'' [] nodeID [] ''paired machine not found'' True s)
      | Some rc \<Rightarrow>
          let pairedBackend = TrimSpace (rc_Backend rc) in
          if pairedBackend = []
          then (BadRequest, ke_status env key ''failed'' ''Pairing data is incomplete'' [] (rc_NodeID rc) []
                  ''paired machine is missing invite backend; remove and pair it again'' True s)
          else with_backend env key pairedBackend (rc_NodeID rc)
                 (\<lambda>t. let t1 = ke_status env key ''reauth'' ''Authenticating paired host'' [] (rc_NodeID rc) [] [] False t in
                    case ke_ReauthRemote env rc pairedBackend of
                      Inl e \<Rightarrow> connect_failed env key ''Paired host authentication failed'' [] (rc_NodeID rc) e e t1
                    | Inr r \<Rightarrow>
                        open_tunnel env key pairedBackend True proto r
                          (ke_status env key ''authenticated'' ''Paired host authenticated'' (cn_Protocol r) (cn_PeerID r) [] [] False t1))
                 s)"

definition handleConnect :: "'m connect_env \<Rightarrow> connect_request \<Rightarrow> 'm Server \<Rightarrow> connect_reply \<times> 'm Server" where
  "handleConnect env req s =
     (let c = ns_cfg (ws_net s);
          remote = remoteByRequest c (cq_RemoteKey req) (cq_NodeID req);
          key = connectRequestKey (ke_cr env) (cq_RemoteKey req) (cq_NodeID req) (cq_URL req)
      in if key = [] then (BadRequest, s)
         else case connectedSession key s of
           Some x \<Rightarrow> (Existing x, s)
         | None \<Rightarrow>
             (case beginConnect (ke_now env) key s of
                (False, s1) \<Rightarrow> (InProgress, s1)
              | (True, s1) \<Rightarrow>
                  let s2 = ke_status env key ''starting'' ''Starting connection'' [] [] [] [] False (setConnectCancel key s1);
                      proto = (if rdp_Protocol (cfg_RDP c) = [] then ''rdp'' else rdp_Protocol (cfg_RDP c))
                  in (case (if cq_URL req \<noteq> [] then connect_by_url env key proto (cq_URL req) s2
                            else if cq_RemoteKey req \<noteq> [] \<or> cq_NodeID req \<noteq> [] then connect_by_remote env key proto (cq_NodeID req) remote s2
                            else (BadRequest, s2)) of
                        (reply, s3) \<Rightarrow> (reply, endConnect key s3))))"

definition request_key :: "cryptography \<Rightarrow> string \<Rightarrow> string \<Rightarrow> string \<Rightarrow> string" where
  "request_key cr key remoteKey nodeID = (if TrimSpace key \<noteq> [] then TrimSpace key else connectRequestKey cr remoteKey nodeID [])"

definition handleDisconnect :: "'m connect_env \<Rightarrow> string \<Rightarrow> string \<Rightarrow> string \<Rightarrow> 'm Server \<Rightarrow> (unit + connectSession option) \<times> 'm Server" where
  "handleDisconnect env key0 remoteKey nodeID s =
     (let key = request_key (ke_cr env) key0 remoteKey nodeID in
      if key = [] then (Inl (), s)
      else case disconnectSession (ke_svc env) (ke_now env) key s of (session, s1) \<Rightarrow> (Inr session, s1))"

definition handleCancelConnect :: "'m connect_env \<Rightarrow> string \<Rightarrow> string \<Rightarrow> string \<Rightarrow> 'm Server \<Rightarrow> (unit + connectStatus \<times> bool) \<times> 'm Server" where
  "handleCancelConnect env key0 remoteKey nodeID s =
     (let key = request_key (ke_cr env) key0 remoteKey nodeID in
      if key = [] then (Inl (), s)
      else case cancelConnect (ke_svc env) (ke_now env) key s of (r, s1) \<Rightarrow> (Inr r, s1))"

definition handleLaunch :: "'m connect_env \<Rightarrow> string \<Rightarrow> string \<Rightarrow> string \<Rightarrow> 'm Server \<Rightarrow> connect_reply \<times> 'm Server" where
  "handleLaunch env key0 remoteKey nodeID s =
     (let key = request_key (ke_cr env) key0 remoteKey nodeID in
      if key = [] then (BadRequest, s)
      else case connectedSession key s of
        None \<Rightarrow> (ConnectFailed ''tunnel is not connected'', s)
      | Some x \<Rightarrow>
          if cs_LocalAddr x = [] then (ConnectFailed ''tunnel is not connected'', s)
          else
            let cfgp = rdp_Protocol (cfg_RDP (ns_cfg (ws_net s)));
                proto = (if cs_Protocol x \<noteq> [] then cs_Protocol x else if cfgp \<noteq> [] then cfgp else ''rdp'')
            in (Ready (cs_Peer x) (cs_LocalAddr x) proto,
                ke_status env key ''ready'' (''Tunnel ready at '' @ cs_LocalAddr x) proto (cs_Peer x) (cs_LocalAddr x) [] True s))"

text \<open>The sessions listed apart from the paired remotes.\<close>

definition active_connections :: "Config \<Rightarrow> 'm Server \<Rightarrow> connectSession list" where
  "active_connections c s =
     (let paired = map (\<lambda>r. ''peer:'' @ RemoteServiceKey r) (cfg_Remotes c)
      in filter (\<lambda>x. EqualFold (cs_Mode x) ''onetime'' \<or> \<not> list_ex (\<lambda>k. k \<in> set paired) (sessionKeys (Some x) (cs_Key x)))
           (remdups (map snd (ws_activeSessions s))))"

end
