(* ===== verification/Webui_Sessions.thy ===== *)
theory Webui_Sessions
  imports Webui
begin

text \<open>
  The connections of the dashboard over the life of the daemon: which sessions are
  live, whether their proxies are open and which references they hold on the network
  backends, in every interleaving of the stages of connection attempts with
  cancellations, disconnections and proxies that end by themselves.
\<close>

section \<open>What of the state sessions consist of\<close>

definition lease_for :: "connectSession \<Rightarrow> lease" where
  "lease_for x = (TrimSpace (cs_Backend x), ''connect:'' @ cs_Key x)"

record view =
  v_sessions :: "string \<rightharpoonup> connectSession"
  v_open :: "nat set"
  v_onClose :: "nat \<rightharpoonup> string"
  v_connect :: "lease set"

text \<open>The references that sessions hold, those whose holder is a connection.\<close>

definition connect_leases :: "'m net_state \<Rightarrow> lease set" where
  "connect_leases net = {(b, k). (b, k) \<in> held net \<and> HasPrefix k ''connect:''}"

definition view_of :: "'m Server \<Rightarrow> view" where
  "view_of s = \<lparr>v_sessions = map_get (ws_activeSessions s), v_open = set (ws_open s), v_onClose = map_get (ws_onClose s),
     v_connect = connect_leases (ws_net s)\<rparr>"

definition entry_ok :: "view \<Rightarrow> string \<Rightarrow> connectSession \<Rightarrow> bool" where
  "entry_ok v k x \<longleftrightarrow> k \<in> set (cs_Keys x) \<and> (\<forall>k' \<in> set (cs_Keys x). v_sessions v k' = Some x) \<and> cs_Key x \<in> set (cs_Keys x)
     \<and> cs_Proxy x \<in> v_open v \<and> v_onClose v (cs_Proxy x) = Some (cs_Key x)"

definition proxies_ok :: "view \<Rightarrow> bool" where
  "proxies_ok v \<longleftrightarrow> (\<forall>k x k' y. v_sessions v k = Some x \<longrightarrow> v_sessions v k' = Some y \<longrightarrow> cs_Proxy x = cs_Proxy y \<longrightarrow> x = y)"

definition live_leases :: "view \<Rightarrow> lease set" where
  "live_leases v = {lease_for x | k x. v_sessions v k = Some x \<and> valid_lease (fst (lease_for x)) (snd (lease_for x))}"

definition sessions_ok :: "view \<Rightarrow> bool" where
  "sessions_ok v \<longleftrightarrow> (\<forall>k x. v_sessions v k = Some x \<longrightarrow> entry_ok v k x) \<and> proxies_ok v \<and> v_connect v = live_leases v"

definition ui_ok :: "'m Server \<Rightarrow> bool" where
  "ui_ok s \<longleftrightarrow> service_ok (ws_net s) \<and> sessions_ok (view_of s)"

lemma sessions_ok_entry: "sessions_ok v \<Longrightarrow> v_sessions v k = Some x \<Longrightarrow> entry_ok v k x"
  by (simp add: sessions_ok_def)

lemma sessions_okD:
  assumes "sessions_ok v" "v_sessions v k = Some x"
  shows "k \<in> set (cs_Keys x)" "k' \<in> set (cs_Keys x) \<Longrightarrow> v_sessions v k' = Some x" "cs_Key x \<in> set (cs_Keys x)"
    "cs_Proxy x \<in> v_open v" "v_onClose v (cs_Proxy x) = Some (cs_Key x)" "v_sessions v (cs_Key x) = Some x"
  using sessions_ok_entry [OF assms] by (simp_all add: entry_ok_def)

lemma same_proxy:
  assumes "sessions_ok v" "v_sessions v k = Some x" "v_sessions v k' = Some y" "cs_Proxy x = cs_Proxy y"
  shows "x = y"
proof -
  have "proxies_ok v" using assms(1) by (simp only: sessions_ok_def)
  then show ?thesis unfolding proxies_ok_def using assms(2-4) by (elim allE impE)
qed

text \<open>Two live sessions with the same key are the same; so their references differ.\<close>

lemma lease_for_inj:
  assumes "sessions_ok v" "v_sessions v k = Some x" "v_sessions v k' = Some y" "lease_for x = lease_for y"
  shows "x = y"
proof -
  have "cs_Key x = cs_Key y" using assms(4) by (simp add: lease_for_def)
  then have "Some x = Some y"
    using sessions_okD(6) [OF assms(1,2)] sessions_okD(6) [OF assms(1,3)] by (simp only:)
  then show ?thesis by simp
qed

subsection \<open>A session ends\<close>

definition view_retire :: "connectSession \<Rightarrow> view \<Rightarrow> view" where
  "view_retire x v = v\<lparr>v_sessions := (\<lambda>k. if k \<in> set (cs_Keys x) then None else v_sessions v k),
     v_open := v_open v - {cs_Proxy x}, v_connect := v_connect v - {lease_for x}\<rparr>"

lemma sessions_ok_retire:
  assumes ok: "sessions_ok v" and x: "v_sessions v k = Some x"
  shows "sessions_ok (view_retire x v)"
proof -
  note D = sessions_okD [OF ok]
  have split: "v_sessions (view_retire x v) k' = Some y \<longleftrightarrow> v_sessions v k' = Some y \<and> k' \<notin> set (cs_Keys x)" for k' y
    by (simp add: view_retire_def)
  have other: "y \<noteq> x \<and> set (cs_Keys y) \<inter> set (cs_Keys x) = {}" if "v_sessions v k' = Some y" "k' \<notin> set (cs_Keys x)" for k' y
  proof -
    have "y \<noteq> x" using D(1) [OF that(1)] that(2) by auto
    moreover have "k2 \<notin> set (cs_Keys x)" if "k2 \<in> set (cs_Keys y)" for k2
      using D(2) [OF x, of k2] D(2) [OF \<open>v_sessions v k' = Some y\<close> that] \<open>y \<noteq> x\<close> by auto
    ultimately show ?thesis by auto
  qed
  have "entry_ok (view_retire x v) k' y" if "v_sessions (view_retire x v) k' = Some y" for k' y
  proof -
    have y: "v_sessions v k' = Some y" "k' \<notin> set (cs_Keys x)" using that split by auto
    have "cs_Proxy y \<noteq> cs_Proxy x" using other [OF y] same_proxy [OF ok y(1) x] by auto
    then show ?thesis using sessions_ok_entry [OF ok y(1)] other [OF y] by (auto simp: view_retire_def entry_ok_def)
  qed
  moreover have "proxies_ok (view_retire x v)"
    unfolding proxies_ok_def split by (intro allI impI, elim conjE) (rule same_proxy [OF ok])
  moreover have "v_connect (view_retire x v) = live_leases (view_retire x v)"
  proof -
    have iff: "lease_for y \<noteq> lease_for x \<longleftrightarrow> k' \<notin> set (cs_Keys x)" if "v_sessions v k' = Some y" for k' y
      using lease_for_inj [OF ok that x] other [OF that] D(1) [OF that] D(2) [OF x, of k'] that by auto
    have "v_connect v = live_leases v" using ok by (simp add: sessions_ok_def)
    then have "v_connect (view_retire x v) = live_leases v - {lease_for x}" by (simp add: view_retire_def)
    also have "\<dots> = live_leases (view_retire x v)"
    proof (intro set_eqI iffI)
      fix l
      assume "l \<in> live_leases v - {lease_for x}"
      then show "l \<in> live_leases (view_retire x v)" unfolding live_leases_def split using iff by auto
    next
      fix l
      assume "l \<in> live_leases (view_retire x v)"
      then show "l \<in> live_leases v - {lease_for x}" unfolding live_leases_def split using iff by auto
    qed
    finally show ?thesis .
  qed
  ultimately show ?thesis by (simp add: sessions_ok_def)
qed

subsection \<open>A session begins\<close>

definition view_add :: "connectSession \<Rightarrow> view \<Rightarrow> view" where
  "view_add x v = v\<lparr>v_sessions := (\<lambda>k. if k \<in> set (cs_Keys x) then Some x else v_sessions v k),
     v_open := insert (cs_Proxy x) (v_open v), v_onClose := (v_onClose v)(cs_Proxy x \<mapsto> cs_Key x),
     v_connect := (if valid_lease (fst (lease_for x)) (snd (lease_for x)) then insert (lease_for x) (v_connect v) else v_connect v)\<rparr>"

lemma sessions_ok_add:
  assumes ok: "sessions_ok v" and free: "\<forall>k \<in> set (cs_Keys x). v_sessions v k = None"
    and fresh: "cs_Proxy x \<notin> v_open v" and key: "cs_Key x \<in> set (cs_Keys x)"
  shows "sessions_ok (view_add x v)"
proof -
  note D = sessions_okD [OF ok]
  have split: "v_sessions (view_add x v) k = Some y \<longleftrightarrow>
      (k \<in> set (cs_Keys x) \<and> y = x) \<or> (k \<notin> set (cs_Keys x) \<and> v_sessions v k = Some y)" for k y
    by (auto simp: view_add_def)
  have new: "cs_Proxy y \<noteq> cs_Proxy x" if "v_sessions v k = Some y" for k y
    using D(4) [OF that] fresh by auto
  have "entry_ok (view_add x v) k y" if "v_sessions (view_add x v) k = Some y" for k y
  proof (cases "k \<in> set (cs_Keys x)")
    case True
    then show ?thesis using that key by (auto simp: split entry_ok_def view_add_def)
  next
    case False
    then have y: "v_sessions v k = Some y" using that split by auto
    have "k2 \<notin> set (cs_Keys x)" if "k2 \<in> set (cs_Keys y)" for k2 using D(2) [OF y that] free by auto
    then show ?thesis using sessions_ok_entry [OF ok y] new [OF y] by (auto simp: view_add_def entry_ok_def)
  qed
  moreover have "proxies_ok (view_add x v)"
    unfolding proxies_ok_def split
    by (intro allI impI, elim disjE conjE)
      (blast, metis new, metis new, blast intro: same_proxy [OF ok])
  moreover have "v_connect (view_add x v) = live_leases (view_add x v)"
  proof -
    have "v_connect v = live_leases v" using ok by (simp add: sessions_ok_def)
    moreover have "live_leases (view_add x v) =
        {l. l = lease_for x \<and> valid_lease (fst (lease_for x)) (snd (lease_for x))} \<union> live_leases v"
    proof (intro set_eqI iffI)
      fix l
      assume "l \<in> live_leases (view_add x v)"
      then show "l \<in> {l. l = lease_for x \<and> valid_lease (fst (lease_for x)) (snd (lease_for x))} \<union> live_leases v"
        unfolding live_leases_def split by auto
    next
      fix l
      assume l: "l \<in> {l. l = lease_for x \<and> valid_lease (fst (lease_for x)) (snd (lease_for x))} \<union> live_leases v"
      have "k \<notin> set (cs_Keys x)" if "v_sessions v k = Some y" for k y using that free by auto
      with l show "l \<in> live_leases (view_add x v)" unfolding live_leases_def split using key by auto
    qed
    ultimately show ?thesis by (auto simp: view_add_def)
  qed
  ultimately show ?thesis by (simp add: sessions_ok_def)
qed

section \<open>The operations on the view\<close>

named_theorems view_simps \<open>how the operations change the view\<close>

lemma connect_leases_ref:
  assumes "service_ok net"
  shows "connect_leases (snd (setBackendRef env b (''connect:'' @ k) True net)) =
      (if valid_lease b (''connect:'' @ k) then insert (b, ''connect:'' @ k) (connect_leases net) else connect_leases net)"
    "connect_leases (snd (setBackendRef env b (''connect:'' @ k) False net)) = connect_leases net - {(b, ''connect:'' @ k)}"
    "connect_leases (snd (setBackendRef env b (''attempt:'' @ k) active net)) = connect_leases net"
proof -
  note h = setBackendRef_step [OF assms, THEN conjunct2]
  show "connect_leases (snd (setBackendRef env b (''connect:'' @ k) True net)) =
      (if valid_lease b (''connect:'' @ k) then insert (b, ''connect:'' @ k) (connect_leases net) else connect_leases net)"
    unfolding connect_leases_def h by (auto simp: HasPrefix_def)
  show "connect_leases (snd (setBackendRef env b (''connect:'' @ k) False net)) = connect_leases net - {(b, ''connect:'' @ k)}"
    unfolding connect_leases_def h by (auto simp: HasPrefix_def)
  show "connect_leases (snd (setBackendRef env b (''attempt:'' @ k) active net)) = connect_leases net"
    unfolding connect_leases_def h by (auto simp: HasPrefix_def)
qed

lemma no_empty_lease: "service_ok net \<Longrightarrow> ([], k) \<notin> connect_leases net"
  by (auto simp: connect_leases_def held_def service_ok_def refs_ok_def)

lemma view_put_status [view_simps]: "view_of (put_status k st s) = view_of s" "ws_net (put_status k st s) = ws_net s"
  by (simp_all add: view_of_def put_status_def)

lemma view_close_statuses [view_simps]:
  "view_of (close_statuses now m x ks s) = view_of s \<and> ws_net (close_statuses now m x ks s) = ws_net s"
  by (induction ks arbitrary: s) (simp_all add: view_simps)

lemma view_setConnectStatus [view_simps]:
  "view_of (setConnectStatus act now k a b c d e f g s) = view_of s" "ws_net (setConnectStatus act now k a b c d e f g s) = ws_net s"
  by (simp_all add: setConnectStatus_def Let_def view_simps)

lemma map_get_foldl_del: "map_get (foldl (\<lambda>m k. map_del k m) m ks) k = (if k \<in> set ks then None else map_get m k)"
  by (induction ks arbitrary: m) (auto simp: go_map_simps)

lemma view_drop_sessions [view_simps]:
  "view_of (drop_sessions ks s) = (view_of s)\<lparr>v_sessions := (\<lambda>k. if k \<in> set ks then None else v_sessions (view_of s) k)\<rparr>"
  "ws_net (drop_sessions ks s) = ws_net s"
  by (auto simp: view_of_def drop_sessions_def map_get_foldl_del)

lemma view_releaseSessionBackend:
  assumes "service_ok (ws_net s)"
  shows "view_of (releaseSessionBackend env (Some x) s) = (view_of s)\<lparr>v_connect := v_connect (view_of s) - {lease_for x}\<rparr>
    \<and> service_ok (ws_net (releaseSessionBackend env (Some x) s))"
proof (cases "TrimSpace (cs_Backend x) = []")
  case True
  then show ?thesis using assms no_empty_lease [OF assms]
    by (simp add: releaseSessionBackend_def view_of_def lease_for_def)
next
  case False
  then show ?thesis using assms setBackendRef_step [OF assms, THEN conjunct1]
      connect_leases_ref(2) [OF assms, of env "TrimSpace (cs_Backend x)" "cs_Key x"]
    by (simp add: releaseSessionBackend_def view_of_def lease_for_def Let_def)
qed

lemma sessions_view: "map_get (ws_activeSessions s) k = v_sessions (view_of s) k"
  "p \<in> set (ws_open s) \<longleftrightarrow> p \<in> v_open (view_of s)" "map_get (ws_onClose s) p = v_onClose (view_of s) p"
  by (simp_all add: view_of_def)

lemma view_markSessionClosed:
  assumes "service_ok (ws_net s)" "v_sessions (view_of s) key = Some x" "cs_Keys x \<noteq> []" "cs_Proxy x = p"
  shows "view_of (markSessionClosed env now key p m s) =
      (view_of s)\<lparr>v_sessions := (\<lambda>k. if k \<in> set (cs_Keys x) then None else v_sessions (view_of s) k),
        v_connect := v_connect (view_of s) - {lease_for x}\<rparr>
    \<and> service_ok (ws_net (markSessionClosed env now key p m s))"
proof -
  let ?ks = "cs_Keys x"
  let ?s1 = "close_statuses now (if TrimSpace m = [] then ''Disconnected'' else m) (Some x) ?ks (drop_sessions ?ks s)"
  have m: "markSessionClosed env now key p m s = releaseSessionBackend env (Some x) ?s1"
    using assms(2-4) by (simp add: markSessionClosed_def sessions_view sessionKeys_def Let_def)
  have "ws_net ?s1 = ws_net s" by (simp add: view_simps)
  then have "service_ok (ws_net ?s1)" using assms(1) by simp
  from view_releaseSessionBackend [OF this, of env x] show ?thesis by (simp add: m view_simps cong: if_cong)
qed

lemma markSessionClosed_other:
  assumes "\<And>x. v_sessions (view_of s) key = Some x \<Longrightarrow> cs_Proxy x \<noteq> p"
  shows "markSessionClosed env now key p m s = s"
  using assms by (auto simp: markSessionClosed_def sessions_view split: option.split)

lemma view_open_upd: "view_of (s\<lparr>ws_open := ps\<rparr>) = (view_of s)\<lparr>v_open := set ps\<rparr>"
  by (simp add: view_of_def)

lemma close_proxy_live:
  assumes "service_ok (ws_net s)" "sessions_ok (view_of s)" "v_sessions (view_of s) k = Some x"
  shows "view_of (close_proxy env now (cs_Proxy x) s) = view_retire x (view_of s)
    \<and> service_ok (ws_net (close_proxy env now (cs_Proxy x) s))"
proof -
  note D = sessions_okD [OF assms(2,3)]
  let ?s1 = "s\<lparr>ws_open := removeAll (cs_Proxy x) (ws_open s)\<rparr>"
  have 1: "close_proxy env now (cs_Proxy x) s = markSessionClosed env now (cs_Key x) (cs_Proxy x) ''Tunnel disconnected'' ?s1"
    using D(4,5) by (simp add: close_proxy_def sessions_view Let_def)
  have v: "view_of ?s1 = (view_of s)\<lparr>v_open := v_open (view_of s) - {cs_Proxy x}\<rparr>"
    by (simp add: view_of_def)
  have "cs_Keys x \<noteq> []" using D(1) by auto
  moreover have "v_sessions (view_of ?s1) (cs_Key x) = Some x" using D(6) v by simp
  ultimately show ?thesis
    using view_markSessionClosed [of ?s1 "cs_Key x" x "cs_Proxy x" env now "''Tunnel disconnected''"] assms(1)
    by (simp add: 1 v view_retire_def cong: if_cong)
qed

lemma close_proxy_dead:
  assumes "\<And>k x. v_sessions (view_of s) k = Some x \<Longrightarrow> cs_Proxy x \<noteq> p"
  shows "view_of (close_proxy env now p s) = (view_of s)\<lparr>v_open := v_open (view_of s) - {p}\<rparr>
    \<and> ws_net (close_proxy env now p s) = ws_net s"
proof -
  have v: "view_of (s\<lparr>ws_open := removeAll p (ws_open s)\<rparr>) = (view_of s)\<lparr>v_open := v_open (view_of s) - {p}\<rparr>"
    by (simp add: view_of_def)
  have "markSessionClosed env now key p m (s\<lparr>ws_open := removeAll p (ws_open s)\<rparr>) = s\<lparr>ws_open := removeAll p (ws_open s)\<rparr>" for key m
    using assms v by (intro markSessionClosed_other) simp
  then show ?thesis using v by (auto simp: close_proxy_def sessions_view Let_def split: option.split)
qed

lemma view_disconnectSession:
  assumes ok: "ui_ok s"
  shows "ui_ok (snd (disconnectSession env now key s))"
    "view_of (snd (disconnectSession env now key s)) =
       (case v_sessions (view_of s) key of None \<Rightarrow> view_of s | Some x \<Rightarrow> view_retire x (view_of s))"
    "fst (disconnectSession env now key s) = v_sessions (view_of s) key"
proof -
  have so: "service_ok (ws_net s)" "sessions_ok (view_of s)" using ok by (auto simp: ui_ok_def)
  have *: "ui_ok (snd (disconnectSession env now key s)) \<and> view_of (snd (disconnectSession env now key s)) =
       (case v_sessions (view_of s) key of None \<Rightarrow> view_of s | Some x \<Rightarrow> view_retire x (view_of s))"
  proof (cases "v_sessions (view_of s) key")
    case None
    then show ?thesis using so
      by (simp add: disconnectSession_def sessions_view releaseSessionBackend_def view_simps ui_ok_def Let_def)
  next
    case (Some x)
    let ?v = "view_of s"
    note D = sessions_okD [OF so(2) Some]
    let ?s2 = "close_statuses now ''Disconnected'' (Some x) (cs_Keys x) (drop_sessions (cs_Keys x) s)"
    have ne: "cs_Keys x \<noteq> []" using D(1) by auto
    have v2: "view_of ?s2 = ?v\<lparr>v_sessions := (\<lambda>k. if k \<in> set (cs_Keys x) then None else v_sessions ?v k)\<rparr>"
      by (simp add: view_simps)
    have dead: "cs_Proxy y \<noteq> cs_Proxy x" if "v_sessions (view_of ?s2) k = Some y" for k y
    proof
      assume "cs_Proxy y = cs_Proxy x"
      moreover have "v_sessions ?v k = Some y" "k \<notin> set (cs_Keys x)" using that by (auto simp: v2 split: if_splits)
      ultimately show False using same_proxy [OF so(2) \<open>v_sessions ?v k = Some y\<close> Some] sessions_okD(1) [OF so(2)] by auto
    qed
    let ?s3 = "close_proxy env now (cs_Proxy x) ?s2"
    have v3: "view_of ?s3 = (view_of ?s2)\<lparr>v_open := v_open (view_of ?s2) - {cs_Proxy x}\<rparr>" "ws_net ?s3 = ws_net ?s2"
      using close_proxy_dead [OF dead, where env = env and now = now] by simp_all
    have "service_ok (ws_net ?s3)" using so(1) v3 by (simp add: view_simps)
    note r = view_releaseSessionBackend [OF this, of env x]
    have "snd (disconnectSession env now key s) = releaseSessionBackend env (Some x) ?s3"
      using Some ne by (simp add: disconnectSession_def sessions_view sessionKeys_def Let_def)
    then have "view_of (snd (disconnectSession env now key s)) = view_retire x ?v"
        "service_ok (ws_net (snd (disconnectSession env now key s)))"
      using r by (simp_all add: v3 v2 view_retire_def cong: if_cong)
    then show ?thesis using Some sessions_ok_retire [OF so(2) Some] by (simp add: ui_ok_def)
  qed
  then show "ui_ok (snd (disconnectSession env now key s))"
    "view_of (snd (disconnectSession env now key s)) =
       (case v_sessions (view_of s) key of None \<Rightarrow> view_of s | Some x \<Rightarrow> view_retire x (view_of s))" by simp_all
  show "fst (disconnectSession env now key s) = v_sessions (view_of s) key"
    by (simp add: disconnectSession_def sessions_view Let_def)
qed

lemma ui_ok_close_proxy:
  assumes ok: "ui_ok s"
  shows "ui_ok (close_proxy env now p s)"
proof (cases "\<exists>k x. v_sessions (view_of s) k = Some x \<and> cs_Proxy x = p")
  case True
  then obtain k x where x: "v_sessions (view_of s) k = Some x" "p = cs_Proxy x" by auto
  show ?thesis
    using close_proxy_live [OF _ _ x(1)] sessions_ok_retire [OF _ x(1)] ok x(2) by (simp add: ui_ok_def)
next
  case False
  then have v: "view_of (close_proxy env now p s) = (view_of s)\<lparr>v_open := v_open (view_of s) - {p}\<rparr>"
      "ws_net (close_proxy env now p s) = ws_net s"
    using close_proxy_dead [of s p env now] by auto
  have "entry_ok ((view_of s)\<lparr>v_open := v_open (view_of s) - {p}\<rparr>) k x" if "v_sessions (view_of s) k = Some x" for k x
    using sessions_ok_entry [of "view_of s" k x] ok that False by (auto simp: ui_ok_def entry_ok_def)
  then show ?thesis
    using ok v by (simp add: ui_ok_def sessions_ok_def proxies_ok_def live_leases_def)
qed

lemma register_keys_free:
  assumes "\<forall>k \<in> set ks. map_get (ws_activeSessions s) k = None" "distinct ks"
  shows "fst (register_keys now x ks (old, s)) = old
    \<and> view_of (snd (register_keys now x ks (old, s))) =
        (view_of s)\<lparr>v_sessions := (\<lambda>k. if k \<in> set ks then Some x else v_sessions (view_of s) k)\<rparr>
    \<and> ws_net (snd (register_keys now x ks (old, s))) = ws_net s"
  using assms
proof (induction ks arbitrary: s old)
  case Nil
  then show ?case by simp
next
  case (Cons k ks)
  let ?s1 = "s\<lparr>ws_activeSessions := map_set k x (ws_activeSessions s)\<rparr>"
  let ?s2 = "put_status k (registered_status now x k (status_of ?s1 k)) ?s1"
  have v: "view_of ?s2 = (view_of s)\<lparr>v_sessions := (v_sessions (view_of s))(k \<mapsto> x)\<rparr>" "ws_net ?s2 = ws_net s"
    by (auto simp: view_simps) (auto simp: view_of_def go_map_simps)
  have "\<forall>k' \<in> set ks. map_get (ws_activeSessions ?s2) k' = None"
    using Cons.prems by (auto simp: put_status_def go_map_simps)
  from Cons.IH [OF this, of old] Cons.prems v show ?case by (auto simp: Let_def fun_eq_iff)
qed

lemma uniqueConnectKeys_props: "distinct (uniqueConnectKeys ks)"
    "TrimSpace key = key \<Longrightarrow> key \<noteq> [] \<Longrightarrow> key \<in> set (uniqueConnectKeys (key # ks))"
  by (auto simp: uniqueConnectKeys_def set_uniq_loop keys_of_def)

lemma ui_ok_register:
  assumes ok: "service_ok (ws_net s)" "sessions_ok v"
    and v: "view_of s = v\<lparr>v_open := insert p (v_open v), v_connect := (if valid_lease (TrimSpace backend) (''connect:'' @ key)
         then insert (TrimSpace backend, ''connect:'' @ key) (v_connect v) else v_connect v)\<rparr>"
    and fresh: "p \<notin> v_open v" and key: "TrimSpace key = key" "key \<noteq> []"
    and free: "\<forall>k \<in> set (uniqueConnectKeys (key # aliases)). v_sessions v k = None"
  shows "ui_ok (registerConnectSession env now key peer proto mode port backend p addr aliases s)"
proof -
  let ?ks = "uniqueConnectKeys (key # aliases)"
  let ?x = "\<lparr>cs_Key = key, cs_Keys = ?ks, cs_Peer = peer, cs_Protocol = proto, cs_Mode = mode, cs_TargetPort = port,
     cs_Backend = backend, cs_LocalAddr = addr, cs_StartedAt = now, cs_Proxy = p\<rparr>"
  have f: "\<forall>k \<in> set ?ks. map_get (ws_activeSessions s) k = None" using free v by (simp add: sessions_view)
  obtain s1 where s1: "register_keys now ?x ?ks ([], s) = ([], s1)"
      "view_of s1 = (view_of s)\<lparr>v_sessions := (\<lambda>k. if k \<in> set ?ks then Some ?x else v_sessions (view_of s) k)\<rparr>" "ws_net s1 = ws_net s"
    using register_keys_free [OF f uniqueConnectKeys_props(1), of now ?x "[]"] by (cases "register_keys now ?x ?ks ([], s)") auto
  have open_: "p \<in> set (ws_open s1)" using s1(2) v by (simp add: sessions_view)
  have r: "registerConnectSession env now key peer proto mode port backend p addr aliases s =
      s1\<lparr>ws_onClose := map_set p key (ws_onClose s1)\<rparr>"
    using s1(1) open_ by (simp add: registerConnectSession_def set_on_close_def Let_def)
  have "view_of (s1\<lparr>ws_onClose := map_set p key (ws_onClose s1)\<rparr>) =
      (view_of s1)\<lparr>v_onClose := (v_onClose (view_of s1))(p \<mapsto> key)\<rparr>"
    by (auto simp: view_of_def go_map_simps)
  also have "\<dots> = view_add ?x v"
    using s1(2) v by (simp add: view_add_def lease_for_def cong: if_cong)
  finally have "view_of (registerConnectSession env now key peer proto mode port backend p addr aliases s) = view_add ?x v"
    by (simp add: r)
  moreover have "sessions_ok (view_add ?x v)"
    using sessions_ok_add [OF ok(2), of ?x] free fresh uniqueConnectKeys_props(2) [OF key] by simp
  ultimately show ?thesis using ok(1) s1(3) r by (simp add: ui_ok_def)
qed

section \<open>Every interleaving\<close>

text \<open>
  The stages of connection attempts, cancellations, disconnections, removals and
  proxies that end, and what else the daemon does with its backends.
\<close>

datatype 'm ui_op =
    UBegin "'m connect_env" string
  | UBackend "'m connect_env" string string
  | UTunnel "'m connect_env" string string bool string ConnectResult
  | URelease "'m connect_env" string string
  | UEnd string
  | UCancel "'m connect_env" string
  | UDisconnect "'m connect_env" string
  | URemove "'m connect_env" string
  | UProxyExit "'m connect_env" nat
  | UDaemon "'m service_op"

primrec ui_step :: "'m Server \<Rightarrow> 'm ui_op \<Rightarrow> 'm Server" where
  "ui_step s (UBegin env key) =
     (case beginConnect (ke_now env) key s of
        (False, s1) \<Rightarrow> s1
      | (True, s1) \<Rightarrow> ke_status env key ''starting'' ''Starting connection'' [] [] [] [] False (setConnectCancel key s1))"
| "ui_step s (UBackend env key backend) =
     (let s1 = retainConnectAttemptBackend (ke_svc env) backend key s
      in s1\<lparr>ws_net := snd (ensureNetworkBackend (ke_svc env) backend ''connect'' (ws_net s1))\<rparr>)"
| "ui_step s (UTunnel env key fallback needProto proto r) = snd (open_tunnel env key fallback needProto proto r s)"
| "ui_step s (URelease env key backend) = releaseConnectAttemptBackend (ke_svc env) backend key s"
| "ui_step s (UEnd key) = endConnect key s"
| "ui_step s (UCancel env key) = snd (cancelConnect (ke_svc env) (ke_now env) key s)"
| "ui_step s (UDisconnect env key) = snd (disconnectSession (ke_svc env) (ke_now env) key s)"
| "ui_step s (URemove env remoteKey) = removeRemoteConnectState (ke_svc env) (ke_now env) remoteKey s"
| "ui_step s (UProxyExit env p) = close_proxy (ke_svc env) (ke_now env) p s"
| "ui_step s (UDaemon a) = s\<lparr>ws_net := service_step (ws_net s) a\<rparr>"

text \<open>
  The circumstances in which the bookkeeping is right: a tunnel is opened for a proper
  key none of whose keys has a live session, with a new proxy and a backend that can be
  referenced, and a cancellation does not meet a session that is already live.
\<close>

definition tunnel_allowed :: "'m connect_env \<Rightarrow> string \<Rightarrow> string \<Rightarrow> ConnectResult \<Rightarrow> 'm Server \<Rightarrow> bool" where
  "tunnel_allowed env key fallback r s \<longleftrightarrow>
     TrimSpace key = key \<and> key \<noteq> []
     \<and> list_all (\<lambda>k. connectedSession k s = None) (uniqueConnectKeys [key, pairedConnectKey (cn_PeerID r) (cn_Protocol r) (cn_TargetPort r)])
     \<and> (case ke_tunnel env r of Inl _ \<Rightarrow> True | Inr (p, _) \<Rightarrow> p \<notin> set (ws_open s))
     \<and> fst (retainSessionBackend (ke_svc env) (backendForConnectResult (Some r) fallback) key s) = None"

primrec ui_allowed :: "'m Server \<Rightarrow> 'm ui_op \<Rightarrow> bool" where
  "ui_allowed s (UBegin env key) = True"
| "ui_allowed s (UBackend env key backend) = True"
| "ui_allowed s (UTunnel env key fallback needProto proto r) = tunnel_allowed env key fallback r s"
| "ui_allowed s (URelease env key backend) = True"
| "ui_allowed s (UEnd key) = True"
| "ui_allowed s (UCancel env key) = (connectedSession key s = None)"
| "ui_allowed s (UDisconnect env key) = True"
| "ui_allowed s (URemove env remoteKey) = True"
| "ui_allowed s (UProxyExit env p) = True"
| "ui_allowed s (UDaemon a) = (lease_of a = LeaseOther)"

primrec ui_run :: "'m Server \<Rightarrow> 'm ui_op list \<Rightarrow> 'm Server option" where
  "ui_run s [] = Some s"
| "ui_run s (a # as) = (if ui_allowed s a then ui_run (ui_step s a) as else None)"

lemma ui_ok_same: "ui_ok s \<Longrightarrow> view_of t = view_of s \<Longrightarrow> ws_net t = ws_net s \<Longrightarrow> ui_ok t"
  by (simp add: ui_ok_def)

lemma view_attempt [view_simps]:
  "view_of (s\<lparr>ws_activeConnects := m\<rparr>) = view_of s" "view_of (s\<lparr>ws_cancelled := l\<rparr>) = view_of s"
  "view_of (s\<lparr>ws_connectStatus := st\<rparr>) = view_of s"
  by (simp_all add: view_of_def)

lemma view_cancel_ctx [view_simps]: "view_of (cancel_ctx k s) = view_of s" "ws_net (cancel_ctx k s) = ws_net s"
  by (auto simp: cancel_ctx_def view_simps split: option.split)

lemma view_beginConnect [view_simps]:
  "view_of (snd (beginConnect now k s)) = view_of s" "ws_net (snd (beginConnect now k s)) = ws_net s"
  by (auto simp: beginConnect_def view_simps Let_def split: option.split)

lemma view_setConnectCancel [view_simps]: "view_of (setConnectCancel k s) = view_of s" "ws_net (setConnectCancel k s) = ws_net s"
  by (auto simp: setConnectCancel_def view_simps split: option.split)

lemma view_connect_failed [view_simps]:
  "view_of (snd (connect_failed env k m p q e r s)) = view_of s" "ws_net (snd (connect_failed env k m p q e r s)) = ws_net s"
  by (simp_all add: connect_failed_def view_simps)

lemma ui_ok_net:
  assumes "ui_ok s" "service_ok net" "connect_leases net = connect_leases (ws_net s)"
  shows "ui_ok (s\<lparr>ws_net := net\<rparr>)"
  using assms by (simp add: ui_ok_def view_of_def)

lemma ui_ok_attempt_ref: "ui_ok s \<Longrightarrow> ui_ok (s\<lparr>ws_net := snd (setBackendRef env b (''attempt:'' @ key) active (ws_net s))\<rparr>)"
proof (rule ui_ok_net, assumption)
  assume "ui_ok s"
  then have so: "service_ok (ws_net s)" by (simp add: ui_ok_def)
  show "service_ok (snd (setBackendRef env b (''attempt:'' @ key) active (ws_net s)))"
    using setBackendRef_step [OF so] by blast
  show "connect_leases (snd (setBackendRef env b (''attempt:'' @ key) active (ws_net s))) = connect_leases (ws_net s)"
    by (rule connect_leases_ref(3) [OF so])
qed

lemma connect_leases_daemon:
  assumes "service_ok net" "lease_of a = LeaseOther"
  shows "service_ok (service_step net a)" "connect_leases (service_step net a) = connect_leases net"
  using service_step_lease [OF assms(1), of a] assms(2) by (simp_all add: connect_leases_def)

lemma ui_ok_tunnel:
  assumes ok: "ui_ok s" and al: "tunnel_allowed env key fallback r s"
  shows "ui_ok (snd (open_tunnel env key fallback needProto proto r s))"
proof -
  let ?s1 = "ke_status env key ''tunnel'' (tunnelStatusMessage (Some r)) (cn_Protocol r) (cn_PeerID r) [] [] False s"
  have v1: "view_of ?s1 = view_of s" "ws_net ?s1 = ws_net s" by (simp_all add: view_simps)
  show ?thesis
  proof (cases "ke_tunnel env r")
    case (Inl e)
    then show ?thesis using v1 by (auto simp: open_tunnel_def view_simps Let_def intro: ui_ok_same [OF ok])
  next
    case (Inr pa)
    obtain p addr where pa: "pa = (p, addr)" by (cases pa)
    let ?s2 = "?s1\<lparr>ws_open := List.insert p (ws_open ?s1)\<rparr>"
    let ?b = "backendForConnectResult (Some r) fallback"
    have fresh: "p \<notin> v_open (view_of s)" using al Inr pa by (simp add: tunnel_allowed_def sessions_view)
    have v2: "view_of ?s2 = (view_of s)\<lparr>v_open := insert p (v_open (view_of s))\<rparr>" "ws_net ?s2 = ws_net s"
      using v1 by (simp_all add: view_of_def)
    obtain e s3 where s3: "retainSessionBackend (ke_svc env) ?b key ?s2 = (e, s3)" by fastforce
    have so: "service_ok (ws_net s)" "sessions_ok (view_of s)" using ok by (auto simp: ui_ok_def)
    have v3: "view_of s3 = (view_of s)\<lparr>v_open := insert p (v_open (view_of s)),
          v_connect := (if valid_lease (TrimSpace ?b) (''connect:'' @ key)
            then insert (TrimSpace ?b, ''connect:'' @ key) (v_connect (view_of s)) else v_connect (view_of s))\<rparr>
        \<and> service_ok (ws_net s3) \<and> e = None"
    proof (cases "TrimSpace ?b = []")
      case True
      then show ?thesis using s3 v2 so(1) by (auto simp: retainSessionBackend_def valid_lease_def)
    next
      case False
      obtain e' net where net: "setBackendRef (ke_svc env) (TrimSpace ?b) (''connect:'' @ key) True (ws_net s) = (e', net)" by fastforce
      have "e' = None" using al False net by (simp add: tunnel_allowed_def retainSessionBackend_def Let_def)
      moreover have "e = e'" "s3 = ?s2\<lparr>ws_net := net\<rparr>"
        using s3 net False v2(2) by (simp_all add: retainSessionBackend_def Let_def)
      moreover have "service_ok net" using setBackendRef_step [OF so(1), of "ke_svc env" "TrimSpace ?b" "''connect:'' @ key" True] net by simp
      moreover have "connect_leases net = (if valid_lease (TrimSpace ?b) (''connect:'' @ key)
            then insert (TrimSpace ?b, ''connect:'' @ key) (connect_leases (ws_net s)) else connect_leases (ws_net s))"
        using connect_leases_ref(1) [OF so(1), of "ke_svc env" "TrimSpace ?b" key] net by simp
      ultimately show ?thesis using v2(1) by (simp add: view_of_def)
    qed
    show ?thesis
    proof (cases "needProto \<and> cn_Protocol r = []")
      case True
      have "entry_ok (view_of ?s2) k x" if "v_sessions (view_of s) k = Some x" for k x
        using sessions_ok_entry [OF so(2) that] by (simp add: v2 entry_ok_def)
      then have "sessions_ok (view_of ?s2)"
        using so(2) by (simp add: v2 sessions_ok_def proxies_ok_def live_leases_def)
      then have "ui_ok ?s2" using so(1) v2 by (simp add: ui_ok_def)
      then show ?thesis using True Inr pa by (auto simp: open_tunnel_def Let_def view_simps intro: ui_ok_same [of ?s2])
    next
      case False
      let ?extra = "[pairedConnectKey (cn_PeerID r) (cn_Protocol r) (cn_TargetPort r)]"
      have free: "\<forall>k \<in> set (uniqueConnectKeys (key # ?extra)). v_sessions (view_of s) k = None"
        using al by (auto simp: tunnel_allowed_def list_all_iff connectedSession_def sessions_view)
      let ?t = "registerConnectSession (ke_svc env) (ke_now env) key (cn_PeerID r) (cn_Protocol r) (cn_Mode r) (cn_TargetPort r) ?b p addr ?extra s3"
      have "ui_ok ?t"
        using al v3 by (intro ui_ok_register [OF _ so(2) _ fresh _ _ free]) (auto simp: tunnel_allowed_def)
      moreover have "snd (open_tunnel env key fallback needProto proto r s) =
          ke_status env key ''ready'' ''Local tunnel ready'' (cn_Protocol r) (cn_PeerID r) addr [] True ?t"
      proof -
        have e: "e = None" using v3 by simp
        show ?thesis unfolding open_tunnel_def Let_def Inr pa sum.case prod.case if_not_P [OF False] s3 e by simp
      qed
      ultimately show ?thesis by (auto simp: view_simps intro: ui_ok_same [of ?t])
    qed
  qed
qed

lemma foldl_keeps: "(\<And>t k. g (f t k) = g t) \<Longrightarrow> g (foldl f t ks) = g t"
  by (induction ks arbitrary: t) simp_all

lemma ui_ok_remove:
  assumes "ui_ok s"
  shows "ui_ok (removeRemoteConnectState env now remoteKey s)"
proof -
  let ?f = "\<lambda>t k. (cancel_ctx k t)\<lparr>ws_activeConnects := map_del k (ws_activeConnects (cancel_ctx k t)),
      ws_connectStatus := map_del k (ws_connectStatus (cancel_ctx k t))\<rparr>"
  have fold: "view_of (foldl ?f t ks) = view_of t" "ws_net (foldl ?f t ks) = ws_net t" for t ks
    by (rule foldl_keeps, simp add: view_simps)+
  show ?thesis
  proof (cases "TrimSpace remoteKey = []")
    case False
    obtain x s1 where d: "disconnectSession env now (''peer:'' @ TrimSpace remoteKey) s = (x, s1)" by fastforce
    have 1: "ui_ok s1" using view_disconnectSession(1) [OF assms, of env now "''peer:'' @ TrimSpace remoteKey"] d by simp
    have eq: "removeRemoteConnectState env now remoteKey s = foldl ?f s1
        (case x of None \<Rightarrow> [''peer:'' @ TrimSpace remoteKey] | Some y \<Rightarrow> sessionKeys x (''peer:'' @ TrimSpace remoteKey))"
      using False d by (cases x) (simp_all add: removeRemoteConnectState_def Let_def)
    show ?thesis unfolding eq by (rule ui_ok_same [OF 1]) (rule fold)+
  qed (simp add: removeRemoteConnectState_def assms)
qed

lemma ui_ok_step:
  assumes ok: "ui_ok s" and al: "ui_allowed s a"
  shows "ui_ok (ui_step s a)"
proof (cases a)
  case (UBegin env key)
  obtain b s1 where b: "beginConnect (ke_now env) key s = (b, s1)" by fastforce
  have "view_of s1 = view_of s" "ws_net s1 = ws_net s" using view_beginConnect [of "ke_now env" key s] b by simp_all
  then show ?thesis using UBegin b by (cases b) (auto simp: view_simps intro: ui_ok_same [OF ok])
next
  case (UBackend env key backend)
  let ?s1 = "retainConnectAttemptBackend (ke_svc env) backend key s"
  have 1: "ui_ok ?s1" using ui_ok_attempt_ref [OF ok] ok by (simp add: retainConnectAttemptBackend_def Let_def)
  note d = connect_leases_daemon [of "ws_net ?s1" "SvcEnsure (ke_svc env) backend"]
  show ?thesis unfolding UBackend using d 1 by (simp add: Let_def) (intro ui_ok_net; simp add: ui_ok_def)
next
  case (UTunnel env key fallback needProto proto r)
  then show ?thesis using ui_ok_tunnel [OF ok] al by simp
next
  case (URelease env key backend)
  then show ?thesis using ui_ok_attempt_ref [OF ok] ok by (simp add: releaseConnectAttemptBackend_def Let_def)
next
  case (UEnd key)
  then show ?thesis using ui_ok_same [OF ok, of "endConnect key s"] by (simp add: endConnect_def view_simps)
next
  case (UCancel env key)
  have none: "map_get (ws_activeSessions s) key = None" using al UCancel by (simp add: connectedSession_def)
  have "view_of (ui_step s a) = view_of s \<and> ws_net (ui_step s a) = ws_net s"
    using none by (auto simp: UCancel cancelConnect_def view_simps Let_def split: option.split)
  then show ?thesis using ui_ok_same [OF ok] by blast
next
  case (UDisconnect env key)
  then show ?thesis using view_disconnectSession(1) [OF ok] by simp
next
  case (URemove env remoteKey)
  then show ?thesis using ui_ok_remove [OF ok] by simp
next
  case (UProxyExit env p)
  then show ?thesis using ui_ok_close_proxy [OF ok] by simp
next
  case (UDaemon x)
  have "service_ok (ws_net s)" "lease_of x = LeaseOther" using ok al UDaemon by (auto simp: ui_ok_def)
  then show ?thesis using ui_ok_net [OF ok connect_leases_daemon] UDaemon by simp
qed

lemma ui_ok_run: "ui_ok s \<Longrightarrow> ui_run s as = Some t \<Longrightarrow> ui_ok t"
  by (induction as arbitrary: s) (auto intro: ui_ok_step split: if_splits)

lemma ui_ok_start: "ui_ok (Webui_New tok (service_start n))"
  by (simp add: ui_ok_def service_ok_start sessions_ok_def proxies_ok_def live_leases_def view_of_def Webui_New_def
      connect_leases_def)


section \<open>The properties\<close>


text \<open>
  A cancellation that meets a live session, between its registration and the end of the
  attempt, strands it: the session stays listed as connected under its other keys, its
  proxy closed, and its reference on the backend is not given back.
\<close>

theorem cancel_strands_session:
  assumes "ui_run (Webui_New tok (service_start n)) ops = Some s"
    and "map_get (ws_activeConnects s) key \<noteq> None" "connectedSession key s = Some x" "cs_Key x = key"
    and "k' \<in> set (cs_Keys x)" "k' \<noteq> key"
  shows "case cancelConnect env now key s of ((st, canceled), t) \<Rightarrow>
     canceled \<and> connectedSession key t = None \<and> connectedSession k' t = Some x \<and> cs_Proxy x \<notin> set (ws_open t)
     \<and> connect_leases (ws_net t) = connect_leases (ws_net s)"
proof -
  have so: "sessions_ok (view_of s)" using ui_ok_run [OF ui_ok_start assms(1)] by (simp add: ui_ok_def)
  have xs: "map_get (ws_activeSessions s) key = Some x" using assms(3) by (simp add: connectedSession_def)
  have D: "cs_Proxy x \<in> set (ws_open s)" "map_get (ws_onClose s) (cs_Proxy x) = Some key"
      "map_get (ws_activeSessions s) k' = Some x"
    using sessions_okD(2,4,5) [OF so, of key x] xs assms(4,5) by (simp_all add: sessions_view)
  obtain a where a: "map_get (ws_activeConnects s) key = Some a" using assms(2) by auto
  let ?s2 = "(cancel_ctx key s)\<lparr>ws_activeConnects := map_del key (ws_activeConnects s),
      ws_activeSessions := map_del key (ws_activeSessions s)\<rparr>"
  let ?st = "(keyed_status key ?s2)\<lparr>st_Stage := ''canceled'', st_Message := ''Connection canceled'', st_Error := [],
      st_Active := False, st_Done := True, st_UpdatedAt := now\<rparr>"
  let ?s3 = "put_status key ?st ?s2"
  have c: "ws_activeSessions (cancel_ctx key s) = ws_activeSessions s" "ws_open (cancel_ctx key s) = ws_open s"
      "ws_onClose (cancel_ctx key s) = ws_onClose s" "ws_net (cancel_ctx key s) = ws_net s"
    by (simp_all add: cancel_ctx_def split: option.split)
  have "cancelConnect env now key s = ((?st, True), close_proxy env now (cs_Proxy x) ?s3)"
    using a xs by (simp add: cancelConnect_def c Let_def)
  moreover have "close_proxy env now (cs_Proxy x) ?s3 = ?s3\<lparr>ws_open := removeAll (cs_Proxy x) (ws_open s)\<rparr>"
    using D by (simp add: close_proxy_def put_status_def c markSessionClosed_def go_map_simps Let_def)
  ultimately show ?thesis
    using D(3) assms(6) by (simp add: connectedSession_def put_status_def c go_map_simps)
qed

section \<open>Admission\<close>

datatype web_op = WMint string | WRequest http_request

primrec web_trace :: "'m Server \<Rightarrow> web_op list \<Rightarrow> (http_request \<times> admission) list" where
  "web_trace s [] = []"
| "web_trace s (a # as) =
     (case a of
        WMint tok \<Rightarrow> web_trace (snd (BaseURL tok s)) as
      | WRequest r \<Rightarrow> (r, fst (serveHTTP r s)) # web_trace (snd (serveHTTP r s)) as)"

definition admits :: "string \<Rightarrow> http_request \<times> admission \<Rightarrow> bool" where
  "admits t ra \<longleftrightarrow> hr_token (fst ra) = t \<and> (\<exists>c. snd ra = CookieSet c)"

lemma web_trace_bound:
  "length (filter (admits t) (web_trace s as)) \<le> (if t \<in> set (ws_launchTokens s) then 1 else 0) + length (filter ((=) (WMint t)) as)"
proof (induction as arbitrary: s)
  case Nil
  then show ?case by simp
next
  case (Cons a as)
  show ?case
  proof (cases a)
    case (WMint tok)
    then show ?thesis using Cons.IH [of "snd (BaseURL tok s)"] by (auto simp: BaseURL_def split: if_splits)
  next
    case (WRequest r)
    then show ?thesis
      using Cons.IH [of "snd (serveHTTP r s)"] by (auto simp: serveHTTP_def admits_def Let_def split: if_splits)
  qed
qed

lemma web_trace_token: "ws_sessionToken (snd (BaseURL t s)) = ws_sessionToken s" "ws_sessionToken (snd (serveHTTP r s)) = ws_sessionToken s"
  by (simp_all add: BaseURL_def serveHTTP_def Let_def)

lemma web_trace_sound:
  assumes "(r, a) \<in> set (web_trace s as)"
  shows "a = Served \<Longrightarrow> hr_cookie r = Some (ws_sessionToken s)"
    "a = CookieSet c \<Longrightarrow> c = ws_sessionToken s \<and> hr_sourceAllowed r \<and> (hr_token r \<in> set (ws_launchTokens s) \<or> WMint (hr_token r) \<in> set as)"
proof -
  have "(a = Served \<longrightarrow> hr_cookie r = Some (ws_sessionToken s))
    \<and> (\<forall>c. a = CookieSet c \<longrightarrow> c = ws_sessionToken s \<and> hr_sourceAllowed r \<and> (hr_token r \<in> set (ws_launchTokens s) \<or> WMint (hr_token r) \<in> set as))"
    using assms
  proof (induction as arbitrary: s)
    case Nil
    then show ?case by simp
  next
    case (Cons op as)
    show ?case
    proof (cases op)
      case (WMint tok)
      then show ?thesis using Cons.IH [of "snd (BaseURL tok s)"] Cons.prems by (auto simp: BaseURL_def)
    next
      case (WRequest q)
      then show ?thesis
        using Cons.IH [of "snd (serveHTTP q s)"] Cons.prems by (auto simp: serveHTTP_def Let_def split: if_splits)
    qed
  qed
  then show "a = Served \<Longrightarrow> hr_cookie r = Some (ws_sessionToken s)"
    "a = CookieSet c \<Longrightarrow> c = ws_sessionToken s \<and> hr_sourceAllowed r \<and> (hr_token r \<in> set (ws_launchTokens s) \<or> WMint (hr_token r) \<in> set as)"
    by blast+
qed

text \<open>
  C25: The dashboard serves a request only with the session cookie, and hands the cookie out only
  to an allowed source that presents a launch token minted before, once per minting: over
  any sequence of minted tokens and requests a token obtains the cookie at most as often as it was minted.
\<close>

theorem dashboard_admission:
  shows "length (filter (admits t) (web_trace (Webui_New tok net) ops)) \<le> length (filter ((=) (WMint t)) ops)
    \<and> list_all (\<lambda>(r, a). case a of
          Served \<Rightarrow> hr_cookie r = Some tok
        | CookieSet c \<Rightarrow> c = tok \<and> hr_sourceAllowed r \<and> WMint (hr_token r) \<in> set ops
        | Forbidden \<Rightarrow> True) (web_trace (Webui_New tok net) ops)"
proof
  show "length (filter (admits t) (web_trace (Webui_New tok net) ops)) \<le> length (filter ((=) (WMint t)) ops)"
    using web_trace_bound [of t "Webui_New tok net" ops] by (simp add: Webui_New_def)
  show "list_all (\<lambda>(r, a). case a of
          Served \<Rightarrow> hr_cookie r = Some tok
        | CookieSet c \<Rightarrow> c = tok \<and> hr_sourceAllowed r \<and> WMint (hr_token r) \<in> set ops
        | Forbidden \<Rightarrow> True) (web_trace (Webui_New tok net) ops)"
    using web_trace_sound [of _ _ "Webui_New tok net" ops] unfolding list_all_iff
    by (auto simp: Webui_New_def split: admission.split)
qed

section \<open>Witnesses\<close>

definition sample_result :: ConnectResult where
  "sample_result = \<lparr>cn_PeerID = ''12D3KooWHost'', cn_RelayAddrs = [], cn_IrohTicket = ''ticket'', cn_BitTorrentQUICEndpoint = [],
     cn_HostLabel = ''host'', cn_Mode = ''pairing'', cn_Protocol = ''ssh'', cn_TargetPort = 22, cn_SessionToken = [1]\<rparr>"

definition sample_connect_env :: "string connect_env" where
  "sample_connect_env = \<lparr>ke_now = 5, ke_act = (\<lambda>_. (0, 0)), ke_svc = sample_service_env, ke_cr = toy_crypto, ke_ended = False,
     ke_ConnectByURL = (\<lambda>_. Inr sample_result), ke_ReauthPaired = (\<lambda>_ _. Inr sample_result),
     ke_ReauthRemote = (\<lambda>_ _. Inr sample_result), ke_tunnel = (\<lambda>_. Inr (7, ''127.0.0.1:5000''))\<rparr>"

abbreviation sample_key :: string where
  "sample_key \<equiv> ''peer:12D3KooWHost''"

abbreviation sample_alias :: string where
  "sample_alias \<equiv> pairedConnectKey (cn_PeerID sample_result) (cn_Protocol sample_result) (cn_TargetPort sample_result)"

abbreviation sample_start :: "string Server" where
  "sample_start \<equiv> Webui_New ''cookie'' (service_start relay_node)"

abbreviation sample_ops :: "string ui_op list" where
  "sample_ops \<equiv> [UBegin sample_connect_env sample_key, UTunnel sample_connect_env sample_key ''iroh'' False ''rdp'' sample_result]"

lemma sample_keys:
  "TrimSpace sample_key = sample_key" "uniqueConnectKeys [sample_key, sample_alias] = [sample_key, sample_alias]"
  "sample_alias \<noteq> sample_key" "backendForConnectResult (Some sample_result) ''iroh'' = ''iroh''" "TrimSpace ''iroh'' = ''iroh''"
  by (code_simp, code_simp, code_simp, code_simp, code_simp)

lemma sample_retain:
  "fst (setBackendRef sample_service_env ''iroh'' (''connect:'' @ k) True (service_start relay_node)) = None"
  by (simp add: setBackendRef_def startIrohSidecar_def launchIrohSidecar_def
        registerIrohSidecar_def set_irohMode_def set_cfg_def service_start_def sample_service_env_def relay_node_def relay_config_def
        fresh_node_def defaultConfig_def mode_off_def CanonicalNetworkBackend_def BackendIroh_def Let_def)

text \<open>The state after the attempt has begun.\<close>

definition sample_begun :: "string Server" where
  "sample_begun = ui_step sample_start (UBegin sample_connect_env sample_key)"

lemma sample_begun_fields:
  "ws_net sample_begun = service_start relay_node" "ws_activeSessions sample_begun = []" "ws_open sample_begun = []"
  "map_get (ws_activeConnects sample_begun) sample_key \<noteq> None"
  by (simp_all add: sample_begun_def beginConnect_def Webui_New_def setConnectCancel_def setConnectStatus_def put_status_def
      Let_def go_map_simps status_of_def zero_status_def)

lemma sample_allowed: "tunnel_allowed sample_connect_env sample_key ''iroh'' sample_result sample_begun"
  unfolding tunnel_allowed_def sample_keys(2,4)
  using sample_keys(1) sample_retain [of sample_key]
  by (simp add: connectedSession_def sample_begun_fields sample_connect_env_def retainSessionBackend_def sample_keys(5) Let_def
      case_prod_beta)

definition sample_connected :: "string Server" where
  "sample_connected = ui_step sample_begun (UTunnel sample_connect_env sample_key ''iroh'' False ''rdp'' sample_result)"

lemma sample_run: "ui_run sample_start sample_ops = Some sample_connected"
  using sample_allowed unfolding sample_connected_def sample_begun_def by simp

definition sample_session :: connectSession where
  "sample_session = \<lparr>cs_Key = sample_key, cs_Keys = [sample_key, sample_alias], cs_Peer = ''12D3KooWHost'', cs_Protocol = ''ssh'',
     cs_Mode = ''pairing'', cs_TargetPort = 22, cs_Backend = ''iroh'', cs_LocalAddr = ''127.0.0.1:5000'', cs_StartedAt = 5, cs_Proxy = 7\<rparr>"

lemma sample_retained:
  "retainSessionBackend sample_service_env ''iroh'' sample_key s =
     (None, s\<lparr>ws_net := snd (setBackendRef sample_service_env ''iroh'' (''connect:'' @ sample_key) True (ws_net s))\<rparr>)"
  if "ws_net s = service_start relay_node"
proof -
  obtain e net where en: "setBackendRef sample_service_env ''iroh'' (''connect:'' @ sample_key) True (ws_net s) = (e, net)" by fastforce
  then have "e = None" using sample_retain [of sample_key] that by (metis fst_conv)
  then show ?thesis using en by (simp add: retainSessionBackend_def sample_keys(5))
qed

lemma sample_registered:
  "registerConnectSession env now sample_key peer proto mode port ''iroh'' 7 addr [sample_alias] s =
     (let x = \<lparr>cs_Key = sample_key, cs_Keys = [sample_key, sample_alias], cs_Peer = peer, cs_Protocol = proto, cs_Mode = mode,
           cs_TargetPort = port, cs_Backend = ''iroh'', cs_LocalAddr = addr, cs_StartedAt = now, cs_Proxy = 7\<rparr>
      in (snd (register_keys now x [sample_key, sample_alias] ([], s)))\<lparr>ws_onClose := map_set 7 sample_key (ws_onClose s)\<rparr>)"
  if "ws_activeSessions s = []" "ws_open s = [7]"
  using that sample_keys(3)
  by (simp add: registerConnectSession_def sample_keys(2) set_on_close_def put_status_def Let_def)

lemma sample_connected_fields:
  "connectedSession sample_key sample_connected = Some sample_session"
  "map_get (ws_activeConnects sample_connected) sample_key \<noteq> None"
proof -
  let ?s2 = "(ke_status sample_connect_env sample_key ''tunnel'' (tunnelStatusMessage (Some sample_result)) (cn_Protocol sample_result)
      (cn_PeerID sample_result) [] [] False sample_begun)\<lparr>ws_open := [7]\<rparr>"
  let ?s3 = "?s2\<lparr>ws_net := snd (setBackendRef sample_service_env ''iroh'' (''connect:'' @ sample_key) True (ws_net ?s2))\<rparr>"
  have st: "ws_activeSessions (setConnectStatus act now k a b c d e f g s) = ws_activeSessions s"
      "ws_activeConnects (setConnectStatus act now k a b c d e f g s) = ws_activeConnects s"
      "ws_open (setConnectStatus act now k a b c d e f g s) = ws_open s" for act now k a b c d e f g and s :: "string Server"
    by (simp_all add: setConnectStatus_def put_status_def Let_def)
  have net: "ws_net ?s2 = service_start relay_node" by (simp add: view_simps sample_begun_fields)
  have ok: "sample_connected = ke_status sample_connect_env sample_key ''ready'' ''Local tunnel ready'' (cn_Protocol sample_result)
      (cn_PeerID sample_result) ''127.0.0.1:5000'' [] True
      (registerConnectSession sample_service_env 5 sample_key (cn_PeerID sample_result) (cn_Protocol sample_result) (cn_Mode sample_result)
        (cn_TargetPort sample_result) ''iroh'' 7 ''127.0.0.1:5000'' [sample_alias] ?s3)"
    using sample_retained [OF net]
    by (simp add: sample_connected_def open_tunnel_def sample_connect_env_def sample_keys(4) st sample_begun_fields Let_def)
  have s3: "ws_activeSessions ?s3 = []" "ws_open ?s3 = [7]" by (simp_all add: st sample_begun_fields)
  show "connectedSession sample_key sample_connected = Some sample_session"
    unfolding ok sample_registered [OF s3] using sample_keys(3)
    by (simp add: connectedSession_def st put_status_def go_map_simps s3 sample_session_def sample_result_def Let_def)
  show "map_get (ws_activeConnects sample_connected) sample_key \<noteq> None"
    unfolding ok sample_registered [OF s3] using sample_begun_fields(4)
    by (simp add: connectedSession_def st put_status_def go_map_simps s3 Let_def)
qed


theorem cancel_strands_session_witness:
  "case cancelConnect sample_service_env 9 sample_key sample_connected of ((st, canceled), t) \<Rightarrow>
     canceled \<and> connectedSession sample_key t = None \<and> connectedSession sample_alias t = Some sample_session
     \<and> 7 \<notin> set (ws_open t)"
  using cancel_strands_session [OF sample_run sample_connected_fields(2,1), of sample_alias sample_service_env 9] sample_keys(3)
  by (simp add: sample_session_def case_prod_beta)

end
