(* ===== verification/Rdpcheck.thy ===== *)
theory Rdpcheck
  imports Go_Prelude "HOL-Library.Multiset"
begin

text \<open>
  Readiness checks and the port scan, \<open>internal/rdpcheck\<close>. A protocol is a string here,
  as in the package. What the operating system answers is an argument: \<open>dial p\<close> whether
  a connection to the local port \<open>p\<close> is accepted (and after which time), \<open>lookPath\<close> the
  search for a binary, \<open>goos\<close> the platform and \<open>getenv\<close> the environment.
\<close>

section \<open>Protocols\<close>

definition rdp_ParseProtocol :: "string \<Rightarrow> string" where
  "rdp_ParseProtocol s =
     (let l = ToLower s in
      if l = ''vnc'' then ''vnc'' else if l = ''ssh'' then ''ssh''
      else if l = ''custom'' then ''custom'' else ''rdp'')"

definition rdp_DefaultPort :: "string \<Rightarrow> int" where
  "rdp_DefaultPort p = (if p = ''vnc'' then 5900 else if p = ''ssh'' then 22 else 3389)"

definition guessProtocol :: "int \<Rightarrow> string" where
  "guessProtocol port =
     (if port = 3389 then ''rdp'' else if port \<in> {5900, 5901, 5902} then ''vnc''
      else if port = 22 then ''ssh'' else ''rdp'')"

definition PortsForProtocol :: "string \<Rightarrow> int list" where
  "PortsForProtocol p =
     (if p = ''rdp'' then [3389] else if p = ''ssh'' then [22, 2222]
      else if p = ''vnc'' then [5900, 5901, 5902, 5903, 5904, 5905]
      else if p = ''custom'' then [] else [3389])"

section \<open>Readiness\<close>

record rdp_Status =
  rs_ServerListening :: bool
  rs_ServerPort :: int
  rs_ServerProtocol :: string
  rs_ServerSetupCmd :: string
  rs_ClientBin :: string
  rs_ClientAvailable :: bool
  rs_ClientInstallCmd :: string
  rs_OS :: string
  rs_IsHeadless :: bool

record machine_env =
  me_goos :: string
  me_dial :: "int \<Rightarrow> bool"
  me_lookPath :: "string \<Rightarrow> string option"
  me_getenv :: "string \<Rightarrow> string"

definition arrow :: string where "arrow = '' '' @ [CHR 0xE2, CHR 0x86, CHR 0x92] @ '' ''"

definition serverSetupCmd :: "string \<Rightarrow> int \<Rightarrow> string" where
  "serverSetupCmd os port =
     (let proto = guessProtocol port in
      if proto = ''rdp'' then
        (if os = ''windows'' then ''Settings'' @ arrow @ ''System'' @ arrow @ ''Remote Desktop'' @ arrow @ ''Enable Remote Desktop''
         else if os = ''linux'' then ''sudo apt install xrdp && sudo systemctl enable --now xrdp'' else [])
      else if proto = ''vnc'' then
        (if os = ''linux'' then ''sudo apt install tigervnc-standalone-server && vncserver :1''
         else if os = ''windows'' then ''Install TightVNC: https://tightvnc.com'' else [])
      else if proto = ''ssh'' then
        (if os = ''linux'' then ''sudo systemctl enable --now ssh''
         else if os = ''windows'' then ''Settings'' @ arrow @ ''Apps'' @ arrow @ ''Optional Features'' @ arrow @ ''OpenSSH Server'' else [])
      else [])"

definition clientInstallCmd :: "string \<Rightarrow> string \<Rightarrow> string" where
  "clientInstallCmd os proto =
     (if proto = ''rdp'' then
        (if os = ''linux'' then
           ''sudo apt install freerdp2-x11   # Debian/Ubuntu/Pi'' @ [CHR 0x0A] @
           ''sudo dnf install freerdp          # Fedora'' @ [CHR 0x0A] @
           ''sudo pacman -S freerdp            # Arch''
         else if os = ''darwin'' then ''Install '' @ [CHR 0x27] @ ''Microsoft Remote Desktop'' @ [CHR 0x27] @ '' from the Mac App Store'' else [])
      else if proto = ''vnc'' then
        (if os = ''linux'' then ''sudo apt install tigervnc-viewer''
         else if os = ''darwin'' then ''Built-in: Finder'' @ arrow @ ''Go'' @ arrow @ ''Connect to Server'' @ arrow @ ''vnc://address'' else [])
      else [])"

definition clientCandidates :: "string \<Rightarrow> string \<Rightarrow> string list" where
  "clientCandidates os proto =
     (if proto = ''rdp'' then
        (if os = ''windows'' then [''mstsc'']
         else if os = ''linux'' then [''xfreerdp'', ''xfreerdp3'', ''remmina'', ''gnome-connections'']
         else if os = ''darwin'' then [''/Applications/Microsoft Remote Desktop.app/Contents/MacOS/msrdp'', ''remmina'']
         else [])
      else if proto = ''vnc'' then
        (if os = ''windows'' then [''tvnviewer'', ''vncviewer'']
         else if os = ''linux'' then [''vncviewer'', ''tigervnc'', ''xtigervncviewer'', ''remmina'']
         else if os = ''darwin'' then [''open'']
         else [])
      else if proto = ''ssh'' then [''ssh'']
      else [])"

primrec first_path :: "(string \<Rightarrow> string option) \<Rightarrow> string list \<Rightarrow> string \<times> bool" where
  "first_path lookPath [] = ([], False)"
| "first_path lookPath (bin # rest) =
     (case lookPath bin of Some path \<Rightarrow> (path, True) | None \<Rightarrow> first_path lookPath rest)"

definition findClient :: "machine_env \<Rightarrow> string \<Rightarrow> string \<times> bool" where
  "findClient h proto = first_path (me_lookPath h) (clientCandidates (me_goos h) proto)"

definition headlessCheck :: "(string \<Rightarrow> string) \<Rightarrow> bool" where
  "headlessCheck getenv \<longleftrightarrow> getenv ''DISPLAY'' = [] \<and> getenv ''WAYLAND_DISPLAY'' = []"

definition isHeadless :: "machine_env \<Rightarrow> bool" where
  "isHeadless h = (if me_goos h = ''windows'' then False else headlessCheck (me_getenv h))"

definition CheckHost :: "machine_env \<Rightarrow> int \<Rightarrow> rdp_Status" where
  "CheckHost h port =
     \<lparr>rs_ServerListening = me_dial h port, rs_ServerPort = port, rs_ServerProtocol = guessProtocol port,
      rs_ServerSetupCmd = (if \<not> me_dial h port then serverSetupCmd (me_goos h) port else []),
      rs_ClientBin = [], rs_ClientAvailable = False, rs_ClientInstallCmd = [], rs_OS = me_goos h, rs_IsHeadless = False\<rparr>"

definition CheckClient :: "machine_env \<Rightarrow> string \<Rightarrow> rdp_Status" where
  "CheckClient h proto =
     (case findClient h proto of (bin, available) \<Rightarrow>
        \<lparr>rs_ServerListening = False, rs_ServerPort = 0, rs_ServerProtocol = proto, rs_ServerSetupCmd = [],
         rs_ClientBin = bin, rs_ClientAvailable = available,
         rs_ClientInstallCmd = (if \<not> available then clientInstallCmd (me_goos h) proto else []),
         rs_OS = me_goos h, rs_IsHeadless = isHeadless h\<rparr>)"

section \<open>Scanning\<close>

text \<open>
  One goroutine per port sends its result to a channel; \<open>arrival\<close> is the order in which
  they arrive, any permutation of the ports. \<open>scan_probe\<close> is the body of the goroutine.
\<close>

record ScanResult =
  sr_Port :: int
  sr_Latency :: duration

definition scan_probe :: "(int \<Rightarrow> duration option) \<Rightarrow> int \<Rightarrow> int \<times> duration \<times> bool" where
  "scan_probe dial p = (case dial p of None \<Rightarrow> (p, 0, False) | Some latency \<Rightarrow> (p, latency, True))"

primrec collect_open :: "(int \<times> duration \<times> bool) list \<Rightarrow> ScanResult list" where
  "collect_open [] = []"
| "collect_open (r # rs) =
     (case r of (port, latency, opened) \<Rightarrow>
        if opened then \<lparr>sr_Port = port, sr_Latency = latency\<rparr> # collect_open rs else collect_open rs)"

definition ScanPorts :: "(int \<Rightarrow> duration option) \<Rightarrow> int list \<Rightarrow> ScanResult list" where
  "ScanPorts dial arrival = sort_key sr_Port (collect_open (map (scan_probe dial) arrival))"

definition bestPort :: "int list \<Rightarrow> string \<Rightarrow> int" where
  "bestPort opened proto =
     (if opened = [] then rdp_DefaultPort proto
      else if proto = ''vnc'' \<and> list_ex (\<lambda>p. p = 5900) opened then 5900
      else hd opened)"

record scan_reply =
  sc_scanned :: "int list"
  sc_ports :: "int list"
  sc_found :: bool
  sc_best :: "int option"

definition handleScan :: "(int \<Rightarrow> duration option) \<Rightarrow> (int list \<Rightarrow> int list) \<Rightarrow> string \<Rightarrow> scan_reply" where
  "handleScan dial arrive q =
     (let proto = rdp_ParseProtocol q; candidates = PortsForProtocol proto in
      if candidates = [] then \<lparr>sc_scanned = [], sc_ports = [], sc_found = False, sc_best = None\<rparr>
      else
        let results = ScanPorts dial (arrive candidates); ports = map sr_Port results
        in \<lparr>sc_scanned = candidates, sc_ports = ports, sc_found = (ports \<noteq> []), sc_best = Some (bestPort ports proto)\<rparr>)"

section \<open>Scanning is independent of the arrival order\<close>

lemma collect_open_ports: "map sr_Port (collect_open (map (scan_probe dial) ps)) = filter (\<lambda>p. dial p \<noteq> None) ps"
  by (induction ps) (auto simp: scan_probe_def split: option.splits)

lemma ScanPorts_sorted: "map sr_Port (ScanPorts dial ps) = sort (filter (\<lambda>p. dial p \<noteq> None) ps)"
proof -
  have "map sr_Port (sort_key sr_Port xs) = sort (map sr_Port xs)" for xs :: "ScanResult list"
    by (rule properties_for_sort [symmetric]) simp_all
  then show ?thesis by (simp add: ScanPorts_def collect_open_ports)
qed

lemma ScanPorts_order_independent:
  assumes "mset ps = mset qs"
  shows "map sr_Port (ScanPorts dial ps) = sort (filter (\<lambda>p. dial p \<noteq> None) qs)"
  unfolding ScanPorts_sorted using assms
  by (intro properties_for_sort [symmetric]) simp_all

lemma bestPort_open: "ps \<noteq> [] \<Longrightarrow> bestPort ps proto \<in> set ps"
  by (auto simp: bestPort_def list_ex_iff)

lemma bestPort_lowest:
  "sorted ps \<Longrightarrow> (\<forall>p\<in>set ps. 5900 \<le> p) \<or> proto \<noteq> ''vnc'' \<Longrightarrow> p \<in> set ps \<Longrightarrow> bestPort ps proto \<le> p"
  by (cases ps) (auto simp: bestPort_def list_ex_iff)

lemma sorted_PortsForProtocol: "sorted (PortsForProtocol p)"
  by (simp add: PortsForProtocol_def)

lemma PortsForProtocol_vnc: "p \<in> set (PortsForProtocol ''vnc'') \<Longrightarrow> 5900 \<le> p"
  by (auto simp: PortsForProtocol_def)

text \<open>
  Whatever the order in which the probes finish, the scan of a protocol reports
  exactly the candidate ports that accept a connection, in ascending order, and
  recommends the lowest of them; with none open it recommends the default port of the
  protocol, and it recommends nothing only when the protocol has no candidates.
\<close>

theorem handleScan_correct:
  assumes "mset (arrive (PortsForProtocol (rdp_ParseProtocol q))) = mset (PortsForProtocol (rdp_ParseProtocol q))"
  shows "let r = handleScan dial arrive q; cands = PortsForProtocol (rdp_ParseProtocol q);
             opened = filter (\<lambda>p. dial p \<noteq> None) cands
         in sc_ports r = opened \<and> sc_found r = (opened \<noteq> [])
          \<and> sc_best r = (if rdp_ParseProtocol q = ''custom'' then None
                         else Some (if opened = [] then rdp_DefaultPort (rdp_ParseProtocol q) else Min (set opened)))"
proof -
  let ?p = "rdp_ParseProtocol q"
  let ?cands = "PortsForProtocol ?p"
  let ?open = "filter (\<lambda>p. dial p \<noteq> None) ?cands"
  have custom: "?cands = [] \<longleftrightarrow> ?p = ''custom''"
    by (simp add: PortsForProtocol_def)
  have sorted: "sorted ?open" by (intro sorted_wrt_filter sorted_PortsForProtocol)
  have ports: "map sr_Port (ScanPorts dial (arrive ?cands)) = ?open"
    using ScanPorts_order_independent [OF assms, of dial] sorted by (simp add: sorted_sort_id)
  have best: "bestPort ?open ?p = (if ?open = [] then rdp_DefaultPort ?p else Min (set ?open))"
  proof (cases "?open = []")
    case False
    have vnc: "(\<forall>p\<in>set ?open. 5900 \<le> p) \<or> ?p \<noteq> ''vnc''"
      by (cases "?p = ''vnc''") (simp_all add: PortsForProtocol_vnc)
    have "Min (set ?open) = bestPort ?open ?p"
      by (rule Min_eqI) (use bestPort_open [OF False, of ?p] bestPort_lowest [OF sorted vnc] in simp_all)
    with False show ?thesis by simp
  qed (simp add: bestPort_def)
  show ?thesis
  proof (cases "?p = ''custom''")
    case True
    then show ?thesis by (simp add: handleScan_def Let_def PortsForProtocol_def)
  next
    case False
    have "ScanPorts dial (arrive ?cands) = [] \<longleftrightarrow> ?open = []"
      by (simp only: ports [symmetric] map_is_Nil_conv)
    with False custom ports best show ?thesis by (simp add: handleScan_def Let_def)
  qed
qed

theorem handleScan_correct_witness:
  "let r = handleScan (\<lambda>p. if p = 5901 \<or> p = 5900 then Some 7 else None) rev ''VNC''
   in sc_ports r = [5900, 5901] \<and> sc_best r = Some 5900"
proof -
  have "rdp_ParseProtocol ''VNC'' = ''vnc''" by code_simp
  with handleScan_correct [of rev "''VNC''" "\<lambda>p. if p = 5901 \<or> p = 5900 then Some 7 else None"]
  show ?thesis by (simp add: Let_def PortsForProtocol_def)
qed

end
