(* ===== verification/Presence.thy ===== *)
theory Presence
  imports Node
begin

text \<open>
  Presence of paired machines, \<open>internal/presence/presence.go\<close>: announcements received
  over the gossip topic, the sweep that times peers out, the cold start from the DHT,
  and what the rest of the program asks of it. Gossip, JSON and the DHT are arguments.
\<close>

definition announceInterval :: duration where "announceInterval = 20 * second"
definition offlineAfter :: duration where "offlineAfter = 65 * second"

record Announcement =
  an_NodeID :: string
  an_Label :: string
  an_RelayAddrs :: "string list"
  an_Timestamp :: instant

record Status =
  ps_NodeID :: string
  ps_Label :: string
  ps_Online :: bool
  ps_LastSeen :: instant
  ps_Addrs :: "string list"

text \<open>\<open>pm_notified\<close> collects the calls of the change callback; \<open>pm_crashed\<close> records a panic of \<open>NodeID[:12]\<close>.\<close>

record presence_Manager =
  pm_peers :: "(string, Status) gomap"
  pm_cfg :: Config
  pm_notified :: "Status list list"
  pm_crashed :: bool

definition All :: "presence_Manager \<Rightarrow> Status list" where
  "All m = map (\<lambda>r. case map_get (pm_peers m) (rc_NodeID r) of
       Some s \<Rightarrow> s
     | None \<Rightarrow> \<lparr>ps_NodeID = rc_NodeID r, ps_Label = rc_Label r, ps_Online = False, ps_LastSeen = 0, ps_Addrs = []\<rparr>)
     (cfg_Remotes (pm_cfg m))"

definition GetPeerAddrs :: "string \<Rightarrow> presence_Manager \<Rightarrow> string list" where
  "GetPeerAddrs nodeID m =
     (case map_get (pm_peers m) nodeID of None \<Rightarrow> [] | Some s \<Rightarrow> if ps_Online s then ps_Addrs s else [])"

definition IsOnline :: "string \<Rightarrow> presence_Manager \<Rightarrow> bool" where
  "IsOnline nodeID m = (case map_get (pm_peers m) nodeID of None \<Rightarrow> False | Some s \<Rightarrow> ps_Online s)"

definition presence_notify :: "presence_Manager \<Rightarrow> presence_Manager" where
  "presence_notify m = m\<lparr>pm_notified := pm_notified m @ [All m]\<rparr>"

definition presence_announce :: "'m multiaddr_lib \<Rightarrow> string \<Rightarrow> instant \<Rightarrow> string list \<Rightarrow> Config \<Rightarrow> Announcement" where
  "presence_announce lib self now relayAddrs c =
     \<lparr>an_NodeID = self, an_Label = nd_Label (cfg_Node c), an_RelayAddrs = FilterExternallyDialableAddrs lib relayAddrs, an_Timestamp = now\<rparr>"

definition announceOffline :: "string \<Rightarrow> instant \<Rightarrow> Config \<Rightarrow> Announcement" where
  "announceOffline self now c = \<lparr>an_NodeID = self, an_Label = nd_Label (cfg_Node c), an_RelayAddrs = [], an_Timestamp = now\<rparr>"

primrec update_first :: "('a \<Rightarrow> bool) \<Rightarrow> ('a \<Rightarrow> 'a) \<Rightarrow> 'a list \<Rightarrow> 'a list" where
  "update_first p f [] = []"
| "update_first p f (x # xs) = (if p x then f x # xs else x # update_first p f xs)"

definition updateRemoteAddrs :: "string \<Rightarrow> string list \<Rightarrow> presence_Manager \<Rightarrow> presence_Manager" where
  "updateRemoteAddrs nodeID addrs m =
     m\<lparr>pm_cfg := (pm_cfg m)\<lparr>cfg_Remotes :=
         update_first (\<lambda>r. rc_NodeID r = nodeID) (\<lambda>r. r\<lparr>rc_RelayAddrs := addrs\<rparr>) (cfg_Remotes (pm_cfg m))\<rparr>\<rparr>"

definition handle_announcement :: "'m multiaddr_lib \<Rightarrow> instant \<Rightarrow> Announcement \<Rightarrow> presence_Manager \<Rightarrow> presence_Manager" where
  "handle_announcement lib now ann m =
     (let existing = map_get (pm_peers m) (an_NodeID ann) in
      case existing of
        Some s \<Rightarrow>
          if an_RelayAddrs ann = []
          then presence_notify (m\<lparr>pm_peers := map_set (an_NodeID ann) (s\<lparr>ps_Online := False, ps_Addrs := []\<rparr>) (pm_peers m)\<rparr>)
          else
            let addrs = FilterExternallyDialableAddrs lib (an_RelayAddrs ann);
                n = \<lparr>ps_NodeID = an_NodeID ann, ps_Label = an_Label ann, ps_Online = True, ps_LastSeen = now, ps_Addrs = addrs\<rparr>;
                m1 = updateRemoteAddrs (an_NodeID ann) addrs (m\<lparr>pm_peers := map_set (an_NodeID ann) n (pm_peers m)\<rparr>)
            in if \<not> ps_Online s \<and> length (an_NodeID ann) < 12 then m1\<lparr>pm_crashed := True\<rparr> else presence_notify m1
      | None \<Rightarrow>
          let addrs = FilterExternallyDialableAddrs lib (an_RelayAddrs ann);
              n = \<lparr>ps_NodeID = an_NodeID ann, ps_Label = an_Label ann, ps_Online = True, ps_LastSeen = now, ps_Addrs = addrs\<rparr>;
              m1 = updateRemoteAddrs (an_NodeID ann) addrs (m\<lparr>pm_peers := map_set (an_NodeID ann) n (pm_peers m)\<rparr>)
          in if length (an_NodeID ann) < 12 then m1\<lparr>pm_crashed := True\<rparr> else presence_notify m1)"

definition receive_message ::
  "'m multiaddr_lib \<Rightarrow> string \<Rightarrow> (bytes \<Rightarrow> Announcement option) \<Rightarrow> instant \<Rightarrow> string \<Rightarrow> bytes \<Rightarrow> presence_Manager \<Rightarrow> presence_Manager" where
  "receive_message lib self unmarshal now from data m =
     (if from = self then m
      else case unmarshal data of None \<Rightarrow> m | Some ann \<Rightarrow> handle_announcement lib now ann m)"

definition swept :: "instant \<Rightarrow> Status \<Rightarrow> Status" where
  "swept now s = s\<lparr>ps_Online := ps_Online s \<and> now - ps_LastSeen s < offlineAfter\<rparr>"

definition sweep_presence :: "instant \<Rightarrow> presence_Manager \<Rightarrow> presence_Manager" where
  "sweep_presence now m =
     (let m1 = m\<lparr>pm_peers := map (\<lambda>(k, s). (k, swept now s)) (pm_peers m)\<rparr>;
          gone = filter (\<lambda>(k, s). ps_Online s \<and> \<not> ps_Online (swept now s)) (pm_peers m)
      in if list_ex (\<lambda>(k, s). length (ps_NodeID s) < 12) gone then m1\<lparr>pm_crashed := True\<rparr>
         else if gone \<noteq> [] then presence_notify m1 else m1)"

text \<open>One remote of the cold start, with the addresses the DHT found and whether it could be connected.\<close>

definition cold_start_one ::
  "'m multiaddr_lib \<Rightarrow> (string \<Rightarrow> string list option) \<Rightarrow> (string \<Rightarrow> bool) \<Rightarrow> instant \<Rightarrow> RemoteConfig \<Rightarrow> presence_Manager \<Rightarrow> presence_Manager" where
  "cold_start_one lib findPeer connect now remote m =
     (if ml_peer_Decode lib (rc_NodeID remote) = None then m
      else if map_get (pm_peers m) (rc_NodeID remote) \<noteq> None then m
      else case findPeer (rc_NodeID remote) of
        None \<Rightarrow> m
      | Some found_addrs \<Rightarrow>
          if \<not> connect (rc_NodeID remote) then m
          else
            let relayAddrs = FilterExternallyDialableAddrs lib (filter (\<lambda>a. Contains a ''p2p-circuit'') found_addrs) in
            if relayAddrs = [] then m
            else presence_notify (m\<lparr>pm_peers := map_set (rc_NodeID remote)
                   \<lparr>ps_NodeID = rc_NodeID remote, ps_Label = rc_Label remote, ps_Online = True, ps_LastSeen = now, ps_Addrs = relayAddrs\<rparr>
                   (pm_peers m)\<rparr>))"

definition dhtColdStart ::
  "'m multiaddr_lib \<Rightarrow> bool \<Rightarrow> (string \<Rightarrow> string list option) \<Rightarrow> (string \<Rightarrow> bool) \<Rightarrow> instant \<Rightarrow> presence_Manager \<Rightarrow> presence_Manager" where
  "dhtColdStart lib ready findPeer connect now m =
     (if \<not> ready then m else foldl (\<lambda>t r. cold_start_one lib findPeer connect now r t) m (cfg_Remotes (pm_cfg m)))"

section \<open>Presence as a function of the history\<close>

datatype presence_event = Heard Announcement instant | Swept instant

primrec presence_step :: "'m multiaddr_lib \<Rightarrow> presence_Manager \<Rightarrow> presence_event \<Rightarrow> presence_Manager" where
  "presence_step lib m (Heard ann now) = handle_announcement lib now ann m"
| "presence_step lib m (Swept now) = sweep_presence now m"

definition presence_New :: "Config \<Rightarrow> presence_Manager" where
  "presence_New c = \<lparr>pm_peers = [], pm_cfg = c, pm_notified = [], pm_crashed = False\<rparr>"

text \<open>
  The reference: what was heard last of a node and the sweeps since, newest event
  first.
\<close>

primrec names :: "string \<Rightarrow> presence_event \<Rightarrow> bool" where
  "names n (Heard ann now) = (an_NodeID ann = n)"
| "names n (Swept now) = False"

primrec last_heard :: "string \<Rightarrow> instant list \<Rightarrow> presence_event list \<Rightarrow> (Announcement \<times> instant \<times> instant list \<times> bool) option" where
  "last_heard n sweeps [] = None"
| "last_heard n sweeps (e # es) =
     (case e of
        Swept now \<Rightarrow> last_heard n (now # sweeps) es
      | Heard ann now \<Rightarrow> if an_NodeID ann = n then Some (ann, now, sweeps, list_ex (names n) es) else last_heard n sweeps es)"

definition online_spec :: "string \<Rightarrow> presence_event list \<Rightarrow> bool" where
  "online_spec n history =
     (case last_heard n [] (rev history) of
        None \<Rightarrow> False
      | Some (ann, heard, sweeps, before) \<Rightarrow>
          (an_RelayAddrs ann \<noteq> [] \<or> \<not> before) \<and> list_all (\<lambda>now. now - heard < offlineAfter) sweeps)"

definition addrs_spec :: "'m multiaddr_lib \<Rightarrow> string \<Rightarrow> presence_event list \<Rightarrow> string list" where
  "addrs_spec lib n history =
     (if \<not> online_spec n history then []
      else case last_heard n [] (rev history) of
        None \<Rightarrow> []
      | Some (ann, _) \<Rightarrow> FilterExternallyDialableAddrs lib (an_RelayAddrs ann))"

lemma last_heard_sweeps:
  "last_heard n sw es = map_option (\<lambda>(a, h, s, b). (a, h, s @ sw, b)) (last_heard n [] es)"
proof (induction es arbitrary: sw)
  case Nil
  then show ?case by simp
next
  case (Cons e es)
  show ?case
  proof (cases e)
    case (Swept now)
    then show ?thesis using Cons [of "now # sw"] Cons [of "[now]"] by (cases "last_heard n [] es") auto
  next
    case (Heard ann now)
    then show ?thesis using Cons [of sw] by simp
  qed
qed

lemma last_heard_None: "last_heard n sw es = None \<longleftrightarrow> \<not> list_ex (names n) es"
  by (induction es arbitrary: sw) (auto split: presence_event.split)

text \<open>The entry the manager holds for a node, by what was heard of it last.\<close>

definition entry_of :: "'m multiaddr_lib \<Rightarrow> string \<Rightarrow> presence_event list \<Rightarrow> Status option \<Rightarrow> bool" where
  "entry_of lib n history entry \<longleftrightarrow>
     (case last_heard n [] (rev history) of
        None \<Rightarrow> entry = None
      | Some (ann, heard, sweeps, before) \<Rightarrow>
          (case entry of
             None \<Rightarrow> False
           | Some s \<Rightarrow>
               if an_RelayAddrs ann = [] \<and> before then \<not> ps_Online s \<and> ps_Addrs s = []
               else ps_LastSeen s = heard \<and> ps_Online s = list_all (\<lambda>now. now - heard < offlineAfter) sweeps
                 \<and> ps_Addrs s = FilterExternallyDialableAddrs lib (an_RelayAddrs ann)))"

definition long_ids :: "presence_Manager \<Rightarrow> bool" where
  "long_ids m \<longleftrightarrow> \<not> pm_crashed m \<and> (\<forall>(k, s) \<in> set (pm_peers m). 12 \<le> length (ps_NodeID s))"

lemma set_map_set: "set (map_set k v m) \<subseteq> insert (k, v) (set m)"
  by (induction m) auto

lemma peers_notify [simp]: "pm_peers (presence_notify m) = pm_peers m" "pm_crashed (presence_notify m) = pm_crashed m"
  by (simp_all add: presence_notify_def)

lemma peers_updateRemoteAddrs [simp]:
  "pm_peers (updateRemoteAddrs n as m) = pm_peers m" "pm_crashed (updateRemoteAddrs n as m) = pm_crashed m"
  by (simp_all add: updateRemoteAddrs_def)

lemma peers_handle:
  "map_get (pm_peers (handle_announcement lib now ann m)) n =
     (if n \<noteq> an_NodeID ann then map_get (pm_peers m) n
      else case map_get (pm_peers m) n of
        Some s \<Rightarrow> if an_RelayAddrs ann = [] then Some (s\<lparr>ps_Online := False, ps_Addrs := []\<rparr>)
          else Some \<lparr>ps_NodeID = n, ps_Label = an_Label ann, ps_Online = True, ps_LastSeen = now,
                     ps_Addrs = FilterExternallyDialableAddrs lib (an_RelayAddrs ann)\<rparr>
      | None \<Rightarrow> Some \<lparr>ps_NodeID = n, ps_Label = an_Label ann, ps_Online = True, ps_LastSeen = now,
                     ps_Addrs = FilterExternallyDialableAddrs lib (an_RelayAddrs ann)\<rparr>)"
  by (auto simp: handle_announcement_def Let_def go_map_simps split: option.split)

lemma peers_sweep: "map_get (pm_peers (sweep_presence now m)) n = map_option (swept now) (map_get (pm_peers m) n)"
  by (simp add: sweep_presence_def Let_def map_of_map)

lemma long_ids_handle:
  assumes "long_ids m" "12 \<le> length (an_NodeID ann)"
  shows "long_ids (handle_announcement lib now ann m)"
proof (cases "map_get (pm_peers m) (an_NodeID ann)")
  case None
  then show ?thesis using assms set_map_set by (fastforce simp: long_ids_def handle_announcement_def Let_def)
next
  case (Some s)
  then have "12 \<le> length (ps_NodeID s)" using assms(1) map_of_SomeD [OF Some] by (auto simp: long_ids_def)
  then show ?thesis
    using Some assms set_map_set by (fastforce simp: long_ids_def handle_announcement_def Let_def)
qed

lemma long_ids_sweep: "long_ids m \<Longrightarrow> long_ids (sweep_presence now m)"
  by (auto simp: long_ids_def sweep_presence_def swept_def list_ex_iff Let_def)

lemma entry_of_Heard:
  assumes "entry_of lib n history entry"
  shows "entry_of lib n (history @ [Heard ann now])
     (if n \<noteq> an_NodeID ann then entry
      else case entry of
        Some s \<Rightarrow> if an_RelayAddrs ann = [] then Some (s\<lparr>ps_Online := False, ps_Addrs := []\<rparr>)
          else Some \<lparr>ps_NodeID = n, ps_Label = an_Label ann, ps_Online = True, ps_LastSeen = now,
                     ps_Addrs = FilterExternallyDialableAddrs lib (an_RelayAddrs ann)\<rparr>
      | None \<Rightarrow> Some \<lparr>ps_NodeID = n, ps_Label = an_Label ann, ps_Online = True, ps_LastSeen = now,
                     ps_Addrs = FilterExternallyDialableAddrs lib (an_RelayAddrs ann)\<rparr>)"
proof (cases "n = an_NodeID ann")
  case False
  then show ?thesis using assms by (simp add: entry_of_def)
next
  case True
  have "entry = None \<longleftrightarrow> \<not> list_ex (names n) (rev history)"
    using assms last_heard_None [of n "[]" "rev history"] by (auto simp: entry_of_def split: option.splits)
  then show ?thesis using True by (auto simp: entry_of_def split: option.split)
qed

lemma entry_of_Swept:
  assumes "entry_of lib n history entry"
  shows "entry_of lib n (history @ [Swept now]) (map_option (swept now) entry)"
proof -
  have l: "last_heard n [] (rev (history @ [Swept now])) =
      map_option (\<lambda>(a, h, s, b). (a, h, s @ [now], b)) (last_heard n [] (rev history))"
    using last_heard_sweeps [of n "[now]" "rev history"] by simp
  show ?thesis using assms unfolding entry_of_def l by (auto simp: swept_def split: option.splits)
qed

lemma presence_run:
  assumes "list_all (\<lambda>e. case e of Heard ann now \<Rightarrow> 12 \<le> length (an_NodeID ann) | Swept now \<Rightarrow> True) history"
  shows "long_ids (foldl (presence_step lib) (presence_New c) history)
    \<and> entry_of lib n history (map_get (pm_peers (foldl (presence_step lib) (presence_New c) history)) n)"
  using assms
proof (induction history rule: rev_induct)
  case Nil
  then show ?case by (simp add: long_ids_def presence_New_def entry_of_def)
next
  case (snoc e history)
  let ?m = "foldl (presence_step lib) (presence_New c) history"
  have ih: "long_ids ?m" "entry_of lib n history (map_get (pm_peers ?m) n)" using snoc by simp_all
  show ?case
  proof (cases e)
    case (Heard ann now)
    then show ?thesis
      using snoc.prems entry_of_Heard [OF ih(2), of ann now] by (simp add: peers_handle long_ids_handle [OF ih(1)])
  next
    case (Swept now)
    then show ?thesis using long_ids_sweep [OF ih(1)] entry_of_Swept [OF ih(2)] by (simp add: peers_sweep)
  qed
qed

text \<open>
  C27: What presence reports of a node is a function of the history alone: over any sequence of
  announcements, with node identifiers of at least 12 characters, and sweeps, a node is online exactly
  when its last announcement carried addresses (or was the first ever heard of it) and every
  sweep since then came within 65 seconds of it, and its addresses are then the externally
  dialable ones of that announcement, otherwise none; other nodes have no influence and nothing panics.
\<close>

theorem presence_equiv_history:
  assumes "list_all (\<lambda>e. case e of Heard ann now \<Rightarrow> 12 \<le> length (an_NodeID ann) | Swept now \<Rightarrow> True) history"
  shows "let m = foldl (presence_step lib) (presence_New c) history in
     IsOnline n m = online_spec n history \<and> GetPeerAddrs n m = addrs_spec lib n history \<and> \<not> pm_crashed m"
proof -
  let ?m = "foldl (presence_step lib) (presence_New c) history"
  have r: "long_ids ?m" "entry_of lib n history (map_get (pm_peers ?m) n)" using presence_run [OF assms] by blast+
  have "IsOnline n ?m = online_spec n history"
    using r(2) by (auto simp: entry_of_def IsOnline_def online_spec_def split: option.splits if_splits)
  moreover have "GetPeerAddrs n ?m = addrs_spec lib n history"
    using r(2) by (auto simp: entry_of_def GetPeerAddrs_def addrs_spec_def online_spec_def split: option.splits if_splits)
  ultimately show ?thesis using r(1) by (simp add: long_ids_def)
qed

theorem presence_equiv_history_witness:
  "let ann = \<lparr>an_NodeID = ''12D3KooWPeer'', an_Label = ''p'', an_RelayAddrs = [''/ip4/1.2.3.4''], an_Timestamp = 0\<rparr>;
       history = [Heard ann (10 * second), Swept (30 * second), Swept (80 * second)];
       m = foldl (presence_step toy_multiaddr) (presence_New (defaultConfig ''h'')) history
   in IsOnline ''12D3KooWPeer'' m = online_spec ''12D3KooWPeer'' history \<and> \<not> IsOnline ''12D3KooWPeer'' m \<and> \<not> pm_crashed m"
proof -
  let ?ann = "\<lparr>an_NodeID = ''12D3KooWPeer'', an_Label = ''p'', an_RelayAddrs = [''/ip4/1.2.3.4''], an_Timestamp = 0\<rparr>"
  let ?h = "[Heard ?ann (10 * second), Swept (30 * second), Swept (80 * second)]"
  have "list_all (\<lambda>e. case e of Heard ann now \<Rightarrow> 12 \<le> length (an_NodeID ann) | Swept now \<Rightarrow> True) ?h" by simp
  note t = presence_equiv_history [OF this, where lib = toy_multiaddr and c = "defaultConfig ''h''" and n = "''12D3KooWPeer''"]
  have "\<not> online_spec ''12D3KooWPeer'' ?h" by (simp add: online_spec_def offlineAfter_def)
  then show ?thesis using t unfolding Let_def by blast
qed

end
