(* ===== verification/Webui_Api.thy ===== *)
theory Webui_Api
  imports Webui_Sessions Rdpcheck Pairing_Safety Presence
begin

text \<open>
  The remaining handlers of the dashboard, \<open>internal/webui/webui.go\<close>: configuration,
  invites, remotes, allowed machines, the label and the readiness check. Server, pairing
  manager and service share one configuration through a pointer; the state keeps the
  copy of the pairing manager and the copy of the service, and every operation writes
  through to both.
\<close>

section \<open>Requests, replies and the shared configuration\<close>

datatype 'a api_reply = Reply 'a | HttpError nat string

record 'm api_state =
  ap_srv :: "'m Server"
  ap_mgr :: Manager

definition ap_cfg :: "'m api_state \<Rightarrow> Config" where
  "ap_cfg s = m_cfg (ap_mgr s)"

definition set_srv :: "'m Server \<Rightarrow> 'm api_state \<Rightarrow> 'm api_state" where
  "set_srv srv s = s\<lparr>ap_srv := srv, ap_mgr := (ap_mgr s)\<lparr>m_cfg := ns_cfg (ws_net srv)\<rparr>\<rparr>"

definition set_mgr :: "Manager \<Rightarrow> 'm api_state \<Rightarrow> 'm api_state" where
  "set_mgr m s = s\<lparr>ap_mgr := m, ap_srv := (ap_srv s)\<lparr>ws_net := set_cfg (m_cfg m) (ws_net (ap_srv s))\<rparr>\<rparr>"

definition set_config :: "Config \<Rightarrow> 'm api_state \<Rightarrow> 'm api_state" where
  "set_config c s = set_mgr ((ap_mgr s)\<lparr>m_cfg := c\<rparr>) s"

record 'm api_env =
  ae_svc :: "'m service_env"
  ae_store :: config_store
  ae_gen :: generate_env
  ae_now :: instant
  ae_gen_msg :: "generate_error \<Rightarrow> string"
  ae_invite_msg :: "invite_op_error \<Rightarrow> string"

definition save_api :: "'m api_env \<Rightarrow> 'm api_state \<Rightarrow> config_error option \<times> 'm api_state" where
  "save_api env s = (case save_config (ae_store env) (ap_cfg s) of (e, c) \<Rightarrow> (e, set_config c s))"

section \<open>Configuration\<close>

definition normalizeNetworkMode :: "string \<Rightarrow> string" where
  "normalizeNetworkMode mode =
     (if mode = ''custom'' \<or> mode = ''mixed'' then ''custom''
      else if mode = ''disabled'' then ''disabled'' else ''public'')"

definition protocolOrDefault :: "string \<Rightarrow> string" where
  "protocolOrDefault proto = (let p = rdp_ParseProtocol proto in if p = [] then ''rdp'' else p)"

text \<open>\<open>fmt.Sscanf\<close> with \<open>%d\<close>: leading spaces, a sign, digits; what follows is ignored.\<close>

fun skip_space :: "string \<Rightarrow> string option" where
  "skip_space [] = Some []"
| "skip_space (c # cs) =
     (if c = CHR 0x0D \<and> cs \<noteq> [] \<and> hd cs = CHR 0x0A then skip_space cs
      else if c = CHR 0x0A then None
      else if is_space c then skip_space cs else Some (c # cs))"

definition Sscanf_d :: "string \<Rightarrow> int option" where
  "Sscanf_d s =
     (case skip_space s of
        None \<Rightarrow> None
      | Some t \<Rightarrow>
          let sgn = (if t \<noteq> [] \<and> hd t \<in> {CHR ''+'', CHR ''-''} then [hd t] else []);
              ds = takeWhile is_digit (drop (length sgn) t)
          in if ds = [] then None else Atoi (sgn @ ds))"

definition targetPortOrDefault :: "string \<Rightarrow> string \<Rightarrow> int" where
  "targetPortOrDefault targetAddr proto =
     (let dflt = rdp_DefaultPort (rdp_ParseProtocol proto) in
      case LastIndexByte targetAddr (CHR '':'') of
        None \<Rightarrow> dflt
      | Some idx \<Rightarrow>
          if idx + 1 < length targetAddr then
            (case Sscanf_d (drop (idx + 1) targetAddr) of
               Some port \<Rightarrow> if port > 0 then port else dflt
             | None \<Rightarrow> dflt)
          else dflt)"

record config_view =
  cv_share_backend :: string
  cv_protocol :: string
  cv_target_port :: int
  cv_relay :: "string \<times> string list"
  cv_dht :: "string \<times> string list"
  cv_bittorrent_dht :: "string \<times> string list \<times> int"
  cv_iroh :: "string \<times> string list"

record config_patch =
  cp_ShareBackend :: string
  cp_App :: "(string \<times> int) option"
  cp_Relay :: "(string \<times> string list option) option"
  cp_DHT :: "(string \<times> string list option) option"
  cp_BTDHT :: "(string \<times> string list option \<times> int) option"
  cp_Iroh :: "(string \<times> string list option) option"

datatype config_reply = ConfigView config_view | ConfigSaved bool nat

definition config_get :: "'m api_state \<Rightarrow> config_reply api_reply \<times> 'm api_state" where
  "config_get s =
     (let c = NormalizeNetworkBackend (ap_cfg s) in
      (Reply (ConfigView
         \<lparr>cv_share_backend = ActiveNetworkBackend (Some c),
          cv_protocol = protocolOrDefault (rdp_Protocol (cfg_RDP c)),
          cv_target_port = targetPortOrDefault (rdp_TargetAddr (cfg_RDP c)) (rdp_Protocol (cfg_RDP c)),
          cv_relay = (rl_Mode (cfg_Relay c), rl_Servers (cfg_Relay c)),
          cv_dht = (dht_Mode (cfg_DHT c), dht_Bootstrap (cfg_DHT c)),
          cv_bittorrent_dht = (bt_Mode (cfg_BTDHT c), bt_Bootstrap (cfg_BTDHT c), bt_PublishIntervalSecs (cfg_BTDHT c)),
          cv_iroh = (iroh_Mode (cfg_Iroh c), iroh_Servers (cfg_Iroh c))\<rparr>),
       set_config c s))"

definition patch_app :: "(string \<times> int) option \<Rightarrow> RDPConfig \<Rightarrow> RDPConfig" where
  "patch_app p r =
     (case p of
        None \<Rightarrow> r
      | Some (protocol, targetPort) \<Rightarrow>
          let proto = protocolOrDefault protocol;
              port = (if targetPort \<le> 0 then rdp_DefaultPort (rdp_ParseProtocol proto) else targetPort)
          in r\<lparr>rdp_Protocol := proto, rdp_TargetAddr := ''127.0.0.1:'' @ Itoa port\<rparr>)"

definition patch_relay :: "(string \<times> string list option) option \<Rightarrow> RelayConfig \<Rightarrow> RelayConfig" where
  "patch_relay p r = (case p of None \<Rightarrow> r
      | Some (mode, servers) \<Rightarrow> r\<lparr>rl_Mode := normalizeNetworkMode mode, rl_Servers := case_option (rl_Servers r) (\<lambda>x. x) servers\<rparr>)"

definition patch_dht :: "(string \<times> string list option) option \<Rightarrow> DHTConfig \<Rightarrow> DHTConfig" where
  "patch_dht p r = (case p of None \<Rightarrow> r
      | Some (mode, bs) \<Rightarrow> r\<lparr>dht_Mode := normalizeNetworkMode mode, dht_Bootstrap := case_option (dht_Bootstrap r) (\<lambda>x. x) bs\<rparr>)"

definition patch_btdht :: "(string \<times> string list option \<times> int) option \<Rightarrow> BTDHTConfig \<Rightarrow> BTDHTConfig" where
  "patch_btdht p r = (case p of None \<Rightarrow> r
      | Some (mode, bs, secs) \<Rightarrow> r\<lparr>bt_Mode := normalizeNetworkMode mode, bt_Bootstrap := case_option (bt_Bootstrap r) (\<lambda>x. x) bs,
            bt_PublishIntervalSecs := if secs > 0 then secs else bt_PublishIntervalSecs r\<rparr>)"

definition patch_iroh :: "(string \<times> string list option) option \<Rightarrow> IrohConfig \<Rightarrow> IrohConfig" where
  "patch_iroh p r = (case p of None \<Rightarrow> r
      | Some (mode, servers) \<Rightarrow> r\<lparr>iroh_Mode := normalizeNetworkMode mode, iroh_Servers := case_option (iroh_Servers r) (\<lambda>x. x) servers\<rparr>)"

definition apply_patch :: "config_patch \<Rightarrow> Config \<Rightarrow> Config" where
  "apply_patch p c =
     c\<lparr>cfg_Network := (if cp_ShareBackend p \<noteq> [] then (cfg_Network c)\<lparr>nc_ShareBackend := cp_ShareBackend p\<rparr> else cfg_Network c),
       cfg_RDP := patch_app (cp_App p) (cfg_RDP c),
       cfg_Relay := patch_relay (cp_Relay p) (cfg_Relay c),
       cfg_DHT := patch_dht (cp_DHT p) (cfg_DHT c),
       cfg_BTDHT := patch_btdht (cp_BTDHT p) (cfg_BTDHT c),
       cfg_Iroh := patch_iroh (cp_Iroh p) (cfg_Iroh c)\<rparr>"

primrec Join :: "string list \<Rightarrow> string \<Rightarrow> string" where
  "Join [] sep = []"
| "Join (x # xs) sep = (if xs = [] then x else x @ sep @ Join xs sep)"

abbreviation lines_of :: "string list \<Rightarrow> string" where
  "lines_of xs \<equiv> Join xs [CHR 0x0A]"

definition networkChanged :: "Config \<Rightarrow> Config \<Rightarrow> bool" where
  "networkChanged old new \<longleftrightarrow>
     ActiveNetworkBackend (Some old) \<noteq> ActiveNetworkBackend (Some new)
     \<or> rl_Mode (cfg_Relay old) \<noteq> rl_Mode (cfg_Relay new)
     \<or> lines_of (rl_Servers (cfg_Relay old)) \<noteq> lines_of (rl_Servers (cfg_Relay new))
     \<or> dht_Mode (cfg_DHT old) \<noteq> dht_Mode (cfg_DHT new)
     \<or> lines_of (dht_Bootstrap (cfg_DHT old)) \<noteq> lines_of (dht_Bootstrap (cfg_DHT new))
     \<or> bt_Mode (cfg_BTDHT old) \<noteq> bt_Mode (cfg_BTDHT new)
     \<or> lines_of (bt_Bootstrap (cfg_BTDHT old)) \<noteq> lines_of (bt_Bootstrap (cfg_BTDHT new))
     \<or> bt_PublishIntervalSecs (cfg_BTDHT old) \<noteq> bt_PublishIntervalSecs (cfg_BTDHT new)
     \<or> iroh_Mode (cfg_Iroh old) \<noteq> iroh_Mode (cfg_Iroh new)
     \<or> lines_of (iroh_Servers (cfg_Iroh old)) \<noteq> lines_of (iroh_Servers (cfg_Iroh new))"

definition apply_network :: "'m api_env \<Rightarrow> 'm api_state \<Rightarrow> string option \<times> 'm api_state" where
  "apply_network env s =
     (case service_applyNetworkConfig (ae_svc env) (ws_net (ap_srv s)) of
        (e, net) \<Rightarrow> (e, set_srv ((ap_srv s)\<lparr>ws_net := net\<rparr>) s))"

definition delete_stale :: "'m api_env \<Rightarrow> string \<Rightarrow> 'm api_state \<Rightarrow> nat \<times> 'm api_state" where
  "delete_stale env oldBackend s =
     (let backend = ActiveNetworkBackend (Some (ap_cfg s)) in
      if oldBackend \<noteq> backend
      then case DeletePendingPairingInvitesExceptBackend (ae_now env) backend (ap_mgr s) of (n, m) \<Rightarrow> (n, set_mgr m s)
      else (0, s))"

definition config_patch_handler ::
  "'m api_env \<Rightarrow> config_patch option \<Rightarrow> 'm api_state \<Rightarrow> config_reply api_reply \<times> 'm api_state" where
  "config_patch_handler env body s =
     (case body of
        None \<Rightarrow> (HttpError 400 ''bad request'', s)
      | Some p \<Rightarrow>
          if cp_ShareBackend p \<noteq> [] \<and> cp_ShareBackend p \<notin> {''iroh'', ''bittorrent_dht'', ''libp2p_relay'', ''libp2p_dht''}
          then (HttpError 400 ''invalid share_backend'', s)
          else
            let old = ap_cfg s in
            case save_api env (set_config (apply_patch p old) s) of
              (Some e, s1) \<Rightarrow> (HttpError 500 (''save failed: '' @ sv_config_error (ae_svc env) e), s1)
            | (None, s1) \<Rightarrow>
                let changed = networkChanged old (ap_cfg s1) in
                (case (if changed then apply_network env s1 else (None, s1)) of
                   (Some e, s2) \<Rightarrow> (HttpError 500 (''saved but apply failed: '' @ e), s2)
                 | (None, s2) \<Rightarrow>
                     (case delete_stale env (ActiveNetworkBackend (Some old)) s2 of
                        (n, s3) \<Rightarrow> (Reply (ConfigSaved changed n), s3))))"

definition handleConfig ::
  "'m api_env \<Rightarrow> string \<Rightarrow> config_patch option \<Rightarrow> 'm api_state \<Rightarrow> config_reply api_reply \<times> 'm api_state" where
  "handleConfig env meth body s =
     (if meth = ''GET'' then config_get s
      else if meth = ''PATCH'' then config_patch_handler env body s
      else (HttpError 405 ''GET or PATCH required'', s))"

section \<open>Invites\<close>

text \<open>The body holds label, protocol (\<open>rdp\<close> if absent) and port as decoding left them; a decoding error is ignored.\<close>

record generate_request =
  gq_Label :: string
  gq_Protocol :: string
  gq_Port :: int

definition minute :: duration where "minute = 60 * second"

definition handleGenerateURL ::
  "'m api_env \<Rightarrow> string \<Rightarrow> string \<Rightarrow> generate_request \<Rightarrow> 'm api_state \<Rightarrow> (string \<times> InviteView) api_reply \<times> 'm api_state" where
  "handleGenerateURL env mode meth req s =
     (if meth \<noteq> ''POST'' then (HttpError 405 ''POST required'', s)
      else
        let durationMins = (if mode = ''onetime'' then 60 else 0 :: int);
            targetPort = (if gq_Port req = 0 then rdp_DefaultPort (rdp_ParseProtocol (gq_Protocol req)) else gq_Port req);
            ttl = (if durationMins = 0 then 0 else durationMins * minute)
        in case GenerateURL (ae_gen env) (ae_now env) mode ttl (TrimSpace (gq_Label req)) (gq_Protocol req) targetPort (ap_mgr s) of
             (Inl e, m) \<Rightarrow> (HttpError 500 (ae_gen_msg env e), set_mgr m s)
           | (Inr r, m) \<Rightarrow> (Reply r, set_mgr m s))"

definition handleURLOneTime ::
  "'m api_env \<Rightarrow> string \<Rightarrow> generate_request \<Rightarrow> 'm api_state \<Rightarrow> (string \<times> InviteView) api_reply \<times> 'm api_state" where
  "handleURLOneTime env = handleGenerateURL env ''onetime''"

definition handleURLPairing ::
  "'m api_env \<Rightarrow> string \<Rightarrow> generate_request \<Rightarrow> 'm api_state \<Rightarrow> (string \<times> InviteView) api_reply \<times> 'm api_state" where
  "handleURLPairing env = handleGenerateURL env ''pairing''"

definition handleInvites :: "'m api_env \<Rightarrow> 'm api_state \<Rightarrow> InviteView list api_reply \<times> 'm api_state" where
  "handleInvites env s = (Reply (ListInvites (ae_now env) (ap_mgr s)), s)"

definition handleRevoke :: "'m api_env \<Rightarrow> string \<Rightarrow> string \<Rightarrow> 'm api_state \<Rightarrow> unit api_reply \<times> 'm api_state" where
  "handleRevoke env meth k s =
     (if meth \<noteq> ''DELETE'' then (HttpError 405 ''DELETE required'', s)
      else case RevokeInvite (ae_store env) k (ap_mgr s) of
        (Some e, m) \<Rightarrow> (HttpError 404 (ae_invite_msg env e), set_mgr m s)
      | (None, m) \<Rightarrow> (Reply (), set_mgr m s))"

definition handleRenameInvite ::
  "'m api_env \<Rightarrow> string \<Rightarrow> (string \<times> string) option \<Rightarrow> 'm api_state \<Rightarrow> unit api_reply \<times> 'm api_state" where
  "handleRenameInvite env meth body s =
     (if meth \<noteq> ''PATCH'' then (HttpError 405 ''PATCH required'', s)
      else case body of
        None \<Rightarrow> (HttpError 400 ''id and label required'', s)
      | Some (k, label) \<Rightarrow>
          if k = [] then (HttpError 400 ''id and label required'', s)
          else case RenameInvite k (TrimSpace label) (ap_mgr s) of
            (Some e, m) \<Rightarrow> (HttpError 404 (ae_invite_msg env e), set_mgr m s)
          | (None, m) \<Rightarrow> (Reply (), set_mgr m s))"

section \<open>Remotes\<close>

definition handleAddRemote :: "'m api_env \<Rightarrow> string \<Rightarrow> RemoteConfig option \<Rightarrow> 'm api_state \<Rightarrow> unit api_reply \<times> 'm api_state" where
  "handleAddRemote env meth body s =
     (if meth \<noteq> ''POST'' then (HttpError 405 ''POST required'', s)
      else case body of
        None \<Rightarrow> (HttpError 400 ''bad request'', s)
      | Some rc \<Rightarrow>
          (case save_api env (set_config (AddRemote (ae_now env) rc (ap_cfg s)) s) of
             (Some e, s1) \<Rightarrow> (HttpError 500 ''save failed'', s1)
           | (None, s1) \<Rightarrow> (Reply (), s1)))"

definition remove_service :: "'m api_env \<Rightarrow> string \<Rightarrow> 'm api_state \<Rightarrow> unit api_reply \<times> 'm api_state" where
  "remove_service env remoteKey s =
     (case RemoveRemoteService remoteKey (ap_cfg s) of
        (False, c) \<Rightarrow> (HttpError 404 ''remote not found'', set_config c s)
      | (True, c) \<Rightarrow>
          let s1 = set_config c s;
              s2 = set_srv (removeRemoteConnectState (ae_svc env) (ae_now env) remoteKey (ap_srv s1)) s1
          in (case save_api env s2 of
                (Some e, s3) \<Rightarrow> (HttpError 500 ''save failed'', s3)
              | (None, s3) \<Rightarrow> (Reply (), s3)))"

definition delete_port :: "string \<Rightarrow> unit + int" where
  "delete_port raw =
     (if raw = [] then Inr 0
      else case Atoi raw of
        None \<Rightarrow> Inl ()
      | Some p \<Rightarrow> if p \<le> 0 \<or> p > 65535 then Inl () else Inr p)"

definition handleDeleteRemote ::
  "'m api_env \<Rightarrow> string \<Rightarrow> (string \<Rightarrow> string) \<Rightarrow> 'm api_state \<Rightarrow> unit api_reply \<times> 'm api_state" where
  "handleDeleteRemote env meth query s =
     (if meth \<noteq> ''DELETE'' then (HttpError 405 ''DELETE required'', s)
      else
        let remoteKey = TrimSpace (query ''remote_key'') in
        if remoteKey \<noteq> [] then remove_service env remoteKey s
        else
          let nodeID = TrimSpace (query ''node_id''); protocol = TrimSpace (query ''protocol'') in
          case delete_port (TrimSpace (query ''target_port'')) of
            Inl _ \<Rightarrow> (HttpError 400 ''invalid target_port'', s)
          | Inr targetPort \<Rightarrow>
              if nodeID = [] \<or> protocol = [] \<or> targetPort \<le> 0
              then (HttpError 400 ''remote_key or node_id+protocol+target_port required'', s)
              else remove_service env (RemoteServiceKeyParts nodeID protocol targetPort) s)"

definition rename_first :: "('a \<Rightarrow> bool) \<Rightarrow> ('a \<Rightarrow> 'a) \<Rightarrow> 'a list \<Rightarrow> 'a list option" where
  "rename_first P f xs = (case find_first P xs of None \<Rightarrow> None | Some i \<Rightarrow> Some (xs[i := f (xs ! i)]))"

definition handleRenameRemote ::
  "'m api_env \<Rightarrow> string \<Rightarrow> (string \<times> string \<times> string) option \<Rightarrow> 'm api_state \<Rightarrow> unit api_reply \<times> 'm api_state" where
  "handleRenameRemote env meth body s =
     (if meth \<noteq> ''PATCH'' then (HttpError 405 ''PATCH required'', s)
      else case body of
        None \<Rightarrow> (HttpError 400 ''node_id or remote_key and label required'', s)
      | Some (nodeID, remoteKey, label) \<Rightarrow>
          if (nodeID = [] \<and> remoteKey = []) \<or> label = []
          then (HttpError 400 ''node_id or remote_key and label required'', s)
          else if TrimSpace label = [] then (HttpError 400 ''label cannot be empty'', s)
          else case rename_first (\<lambda>r. if remoteKey \<noteq> [] then RemoteServiceKey r = remoteKey else rc_NodeID r = nodeID)
                      (\<lambda>r. r\<lparr>rc_Label := TrimSpace label\<rparr>) (cfg_Remotes (ap_cfg s)) of
                 None \<Rightarrow> (HttpError 404 ''remote not found'', s)
               | Some rs \<Rightarrow> (Reply (), snd (save_api env (set_config ((ap_cfg s)\<lparr>cfg_Remotes := rs\<rparr>) s))))"

section \<open>Allowed machines\<close>

definition trustedPeerDisplayKey :: "TrustedPeer \<Rightarrow> string" where
  "trustedPeerDisplayKey p =
     (if tp_TPMRootThumbprint p \<noteq> [] then ''tpm:'' @ tp_TPMRootThumbprint p else ''peer:'' @ tp_NodeID p)"

primrec dedupe_loop :: "TrustedPeer list \<Rightarrow> TrustedPeer list \<Rightarrow> (string, nat) gomap \<Rightarrow> TrustedPeer list" where
  "dedupe_loop [] out seen = out"
| "dedupe_loop (p # rest) out seen =
     (let key = trustedPeerDisplayKey p in
      case map_get seen key of
        Some idx \<Rightarrow> dedupe_loop rest (if After (tp_AddedAt p) (tp_AddedAt (out ! idx)) then out[idx := p] else out) seen
      | None \<Rightarrow> dedupe_loop rest (out @ [p]) (map_set key (length out) seen))"

definition dedupeTrustedPeers :: "TrustedPeer list \<Rightarrow> TrustedPeer list" where
  "dedupeTrustedPeers ps = dedupe_loop ps [] []"

definition handleAllowed :: "string \<Rightarrow> 'm api_state \<Rightarrow> TrustedPeer list api_reply \<times> 'm api_state" where
  "handleAllowed meth s =
     (if meth \<noteq> ''GET'' then (HttpError 405 ''GET required'', s)
      else (Reply (dedupeTrustedPeers (cfg_Trusted (ap_cfg s))), s))"

definition handleRenameAllowed ::
  "'m api_env \<Rightarrow> string \<Rightarrow> (string \<times> string) option \<Rightarrow> 'm api_state \<Rightarrow> unit api_reply \<times> 'm api_state" where
  "handleRenameAllowed env meth body s =
     (if meth \<noteq> ''PATCH'' then (HttpError 405 ''PATCH required'', s)
      else case body of
        None \<Rightarrow> (HttpError 400 ''node_id and label required'', s)
      | Some (nodeID, label) \<Rightarrow>
          if nodeID = [] then (HttpError 400 ''node_id and label required'', s)
          else if TrimSpace label = [] then (HttpError 400 ''label cannot be empty'', s)
          else case rename_first (\<lambda>p. tp_NodeID p = nodeID) (\<lambda>p. p\<lparr>tp_Label := TrimSpace label\<rparr>) (cfg_Trusted (ap_cfg s)) of
                 None \<Rightarrow> (HttpError 404 ''allowed machine not found'', s)
               | Some ps \<Rightarrow>
                   (case save_api env (set_config ((ap_cfg s)\<lparr>cfg_Trusted := ps\<rparr>) s) of
                      (Some e, s1) \<Rightarrow> (HttpError 500 ''save failed'', s1)
                    | (None, s1) \<Rightarrow> (Reply (), s1)))"

definition handleDeleteAllowed :: "'m api_env \<Rightarrow> string \<Rightarrow> string \<Rightarrow> 'm api_state \<Rightarrow> unit api_reply \<times> 'm api_state" where
  "handleDeleteAllowed env meth nodeID s =
     (if meth \<noteq> ''DELETE'' then (HttpError 405 ''DELETE required'', s)
      else if nodeID = [] then (HttpError 400 ''node_id required'', s)
      else
        let filtered = filter (\<lambda>p. tp_NodeID p \<noteq> nodeID) (cfg_Trusted (ap_cfg s));
            removed = list_ex (\<lambda>p. tp_NodeID p = nodeID) (cfg_Trusted (ap_cfg s))
        in if \<not> removed then (HttpError 404 ''allowed machine not found'', s)
           else case save_api env (set_config ((ap_cfg s)\<lparr>cfg_Trusted := filtered\<rparr>) s) of
             (Some e, s1) \<Rightarrow> (HttpError 500 ''save failed'', s1)
           | (None, s1) \<Rightarrow> (Reply (), s1))"

section \<open>Label and readiness\<close>

definition handleLabel ::
  "'m api_env \<Rightarrow> string \<Rightarrow> string option \<Rightarrow> 'm api_state \<Rightarrow> string api_reply \<times> 'm api_state" where
  "handleLabel env meth body s =
     (if meth = ''GET'' then (Reply (nd_Label (cfg_Node (ap_cfg s))), s)
      else if meth = ''PATCH'' then
        (case body of
           None \<Rightarrow> (HttpError 400 ''bad request'', s)
         | Some label \<Rightarrow>
             if TrimSpace label = [] then (HttpError 400 ''label cannot be empty'', s)
             else
               let c = ap_cfg s;
                   s1 = snd (save_api env (set_config (c\<lparr>cfg_Node := (cfg_Node c)\<lparr>nd_Label := TrimSpace label\<rparr>\<rparr>) s))
               in (Reply (nd_Label (cfg_Node (ap_cfg s1))), s1))
      else (HttpError 405 ''GET or PATCH required'', s))"

definition handleHealth :: "machine_env \<Rightarrow> (string \<Rightarrow> string) \<Rightarrow> Config \<Rightarrow> rdp_Status \<times> rdp_Status" where
  "handleHealth h query c =
     (let proto0 = query ''protocol'';
          proto1 = (if proto0 = [] then rdp_Protocol (cfg_RDP c) else proto0);
          proto = (if proto1 = [] then ''rdp'' else proto1);
          dflt = rdp_DefaultPort (rdp_ParseProtocol proto);
          scan = (\<lambda>raw. case Sscanf_d raw of Some p \<Rightarrow> p | None \<Rightarrow> dflt);
          target = rdp_TargetAddr (cfg_RDP c);
          port = (if query ''port'' \<noteq> [] then scan (query ''port'')
                  else if target \<noteq> [] then
                    scan (case LastIndexByte target (CHR '':'') of None \<Rightarrow> target | Some i \<Rightarrow> drop (i + 1) target)
                  else dflt)
      in (CheckHost h port, CheckClient h proto))"

end
