(* ===== verification/Webui_Api_Safety.thy ===== *)
theory Webui_Api_Safety
  imports Webui_Api
begin

text \<open>
  What the dashboard's handlers keep and achieve: the shared configuration stays one
  configuration, normalised, with one entry per trusted machine; the invite tables stay
  consistent; the list of allowed machines is the list of their latest entries.
\<close>

section \<open>Who changes the configuration\<close>

named_theorems cfg_kept \<open>operations that leave the configuration alone\<close>

lemma node_cfg_kept [cfg_kept]:
  "n_cfg (setRelayError e n) = n_cfg n" "n_cfg (setDHTError d n) = n_cfg n" "n_cfg (fireAddrsChange lib n) = n_cfg n"
  "n_cfg (startRelayLoops n) = n_cfg n" "n_cfg (StopLibp2p lib n) = n_cfg n"
  by (simp_all add: setRelayError_def setDHTError_def fireAddrsChange_def startRelayLoops_def StopLibp2p_def Let_def)

lemma reserveAll_cfg [cfg_kept]: "n_cfg (snd (reserveAll lib answer now n)) = n_cfg n"
  by (simp add: reserveAll_def Let_def)

lemma startDHT_cfg [cfg_kept]: "n_cfg (startDHT n) = n_cfg n"
  by (simp add: startDHT_def cfg_kept)

lemma host_reserve_cfg [cfg_kept]: "n_cfg (host_reserve lib env n) = n_cfg n"
  using reserveAll_cfg [of lib "he_answer env" "he_now env" n]
  by (auto simp: host_reserve_def node_cfg_kept split: prod.splits option.splits)

lemma startLibp2pHost_cfg [cfg_kept]: "n_cfg (snd (startLibp2pHost lib env n)) = n_cfg n"
  by (simp add: startLibp2pHost_def Let_def cfg_kept split: option.split sum.split)

lemma applyNetworkConfig_cfg [cfg_kept]: "n_cfg (snd (applyNetworkConfig lib env b n)) = n_cfg n"
  by (simp add: applyNetworkConfig_def Let_def cfg_kept split: sum.split)

lemma ApplyNetworkConfig_cfg [cfg_kept]: "n_cfg (snd (ApplyNetworkConfig lib env n)) = n_cfg n"
  by (simp add: ApplyNetworkConfig_def cfg_kept)

lemma set_irohMode_twice: "ns_cfg (set_irohMode (iroh_Mode (cfg_Iroh (ns_cfg s))) t) = ns_cfg s"
  if "ns_cfg t = ns_cfg (set_irohMode m s)"
  using that by (simp add: set_irohMode_def)

lemma launchIrohSidecar_cfg [cfg_kept]: "ns_cfg (snd (launchIrohSidecar env a s)) = ns_cfg s"
  by (simp add: launchIrohSidecar_def Let_def set_irohMode_def registerIrohSidecar_def split: sum.split)

lemma stopIrohSidecar_cfg [cfg_kept]: "ns_cfg (stopIrohSidecar s) = ns_cfg s"
  by (simp add: stopIrohSidecar_def)

lemma startIrohSidecar_cfg [cfg_kept]: "ns_cfg (snd (startIrohSidecar env a s)) = ns_cfg s"
  by (simp add: startIrohSidecar_def cfg_kept)

lemma setBackendRef_cfg [cfg_kept]: "ns_cfg (snd (setBackendRef env b k a s)) = ns_cfg s"
  by (simp add: setBackendRef_def Let_def cfg_kept)

lemma bittorrent_cfg [cfg_kept]:
  "ns_cfg (stop_bittorrent s) = ns_cfg s" "ns_cfg (start_bittorrent env s) = ns_cfg s" "ns_cfg (set_libp2p s) = ns_cfg s"
  by (simp_all add: stop_bittorrent_def start_bittorrent_def set_libp2p_def Let_def split: sum.split)

lemma service_apply_cfg: "ns_cfg (snd (service_applyNetworkConfig env s)) = NormalizeNetworkBackend (ns_cfg s)"
proof -
  let ?s = "set_cfg (NormalizeNetworkBackend (ns_cfg s)) s"
  obtain e n1 where a: "ApplyNetworkConfig (sv_lib env) (sv_host env) (ns_node ?s) = (e, n1)" by force
  then have n1: "n_cfg n1 = NormalizeNetworkBackend (ns_cfg s)"
    using ApplyNetworkConfig_cfg [of "sv_lib env" "sv_host env" "ns_node ?s"] by simp
  have t: "ns_cfg (case setBackendRef env BackendIroh ''selected'' True x of (Some err, t) \<Rightarrow> t\<lparr>ns_lastError := err\<rparr> | (None, t) \<Rightarrow> t) = ns_cfg x" for x
    using setBackendRef_cfg [of env BackendIroh "''selected''" True x] by (auto split: prod.splits option.splits)
  show ?thesis
  proof (cases e)
    case None
    then show ?thesis by (simp add: service_applyNetworkConfig_def Let_def a t n1 cfg_kept)
  next
    case (Some x)
    then show ?thesis by (simp add: service_applyNetworkConfig_def Let_def a n1 fail_with_def)
  qed
qed

abbreviation srv_cfg :: "'m Server \<Rightarrow> Config" where
  "srv_cfg s \<equiv> ns_cfg (ws_net s)"

lemma releaseSessionBackend_cfg [cfg_kept]: "srv_cfg (releaseSessionBackend senv x s) = srv_cfg s"
  by (simp add: releaseSessionBackend_def Let_def cfg_kept split: option.split)

lemma put_status_cfg [cfg_kept]: "srv_cfg (put_status k st s) = srv_cfg s" "srv_cfg (drop_sessions ks s) = srv_cfg s"
  by (simp_all add: put_status_def drop_sessions_def)

lemma close_statuses_cfg [cfg_kept]: "srv_cfg (close_statuses now m x ks s) = srv_cfg s"
  by (induction ks arbitrary: s) (simp_all add: Let_def cfg_kept)

lemma markSessionClosed_cfg [cfg_kept]: "srv_cfg (markSessionClosed senv now k p m s) = srv_cfg s"
  by (simp add: markSessionClosed_def Let_def cfg_kept split: option.split)

lemma close_proxy_cfg [cfg_kept]: "srv_cfg (close_proxy senv now p s) = srv_cfg s"
  by (simp add: close_proxy_def Let_def cfg_kept split: option.split)

lemma disconnectSession_cfg [cfg_kept]: "srv_cfg (snd (disconnectSession senv now k s)) = srv_cfg s"
  by (simp add: disconnectSession_def Let_def cfg_kept split: option.split)

lemma cancel_ctx_cfg [cfg_kept]: "srv_cfg (cancel_ctx k s) = srv_cfg s"
  by (simp add: cancel_ctx_def split: option.split)

lemma forget_keys_cfg [cfg_kept]:
  "srv_cfg (foldl (\<lambda>t k. let t1 = cancel_ctx k t in
      t1\<lparr>ws_activeConnects := map_del k (ws_activeConnects t1), ws_connectStatus := map_del k (ws_connectStatus t1)\<rparr>) s ks) = srv_cfg s"
  by (induction ks arbitrary: s) (simp_all add: Let_def cfg_kept)

lemma removeRemoteConnectState_cfg [cfg_kept]: "srv_cfg (removeRemoteConnectState senv now k s) = srv_cfg s"
  by (simp add: removeRemoteConnectState_def cfg_kept forget_keys_cfg [unfolded Let_def] case_prod_beta Let_def)

section \<open>Requests as steps\<close>

datatype api_request =
    ReqConfig string "config_patch option"
  | ReqGenerate string string generate_request
  | ReqRevoke string string
  | ReqRenameInvite string "(string \<times> string) option"
  | ReqAddRemote string "RemoteConfig option"
  | ReqDeleteRemote string "string \<Rightarrow> string"
  | ReqRenameRemote string "(string \<times> string \<times> string) option"
  | ReqRenameAllowed string "(string \<times> string) option"
  | ReqDeleteAllowed string string
  | ReqLabel string "string option"

primrec api_run :: "'m api_env \<Rightarrow> 'm api_state \<Rightarrow> api_request \<Rightarrow> 'm api_state" where
  "api_run env s (ReqConfig meth body) = snd (handleConfig env meth body s)"
| "api_run env s (ReqGenerate mode meth body) = snd (handleGenerateURL env mode meth body s)"
| "api_run env s (ReqRevoke meth k) = snd (handleRevoke env meth k s)"
| "api_run env s (ReqRenameInvite meth body) = snd (handleRenameInvite env meth body s)"
| "api_run env s (ReqAddRemote meth body) = snd (handleAddRemote env meth body s)"
| "api_run env s (ReqDeleteRemote meth query) = snd (handleDeleteRemote env meth query s)"
| "api_run env s (ReqRenameRemote meth body) = snd (handleRenameRemote env meth body s)"
| "api_run env s (ReqRenameAllowed meth body) = snd (handleRenameAllowed env meth body s)"
| "api_run env s (ReqDeleteAllowed meth n) = snd (handleDeleteAllowed env meth n s)"
| "api_run env s (ReqLabel meth body) = snd (handleLabel env meth body s)"

definition api_step :: "'m api_state \<Rightarrow> 'm api_env \<times> api_request \<Rightarrow> 'm api_state" where
  "api_step s x = api_run (fst x) s (snd x)"

definition api_ok :: "'m api_state \<Rightarrow> bool" where
  "api_ok s \<longleftrightarrow> srv_cfg (ap_srv s) = ap_cfg s \<and> normalized (ap_cfg s) \<and> trust_ok (ap_cfg s) \<and> mgr_ok (ap_mgr s)"

text \<open>What a request may do to invites and trust: invites evolve as under the pairing operations, and no machine gains trust.\<close>

definition api_rel :: "'m api_state \<Rightarrow> 'm api_state \<Rightarrow> bool" where
  "api_rel s t \<longleftrightarrow> evolves (ap_mgr s) (ap_mgr t) \<and> (\<forall>n. IsTrusted n (ap_cfg t) \<longrightarrow> IsTrusted n (ap_cfg s))
     \<and> m_sessions (ap_mgr t) = m_sessions (ap_mgr s)"

lemma api_rel_refl: "api_rel s s"
  by (simp add: api_rel_def)

lemma api_rel_trans: "api_rel s t \<Longrightarrow> api_rel t u \<Longrightarrow> api_rel s u"
  by (auto simp: api_rel_def intro: evolves_trans)

lemma state_views [simp]:
  "ap_cfg (set_config c s) = c" "srv_cfg (ap_srv (set_config c s)) = c"
  "ap_mgr (set_config c s) = (ap_mgr s)\<lparr>m_cfg := c\<rparr>"
  "ap_mgr (set_mgr m s) = m" "srv_cfg (ap_srv (set_mgr m s)) = m_cfg m" "ap_cfg (set_mgr m s) = m_cfg m"
  "ap_srv (set_srv srv s) = srv" "ap_cfg (set_srv srv s) = srv_cfg srv" "ap_mgr (set_srv srv s) = (ap_mgr s)\<lparr>m_cfg := srv_cfg srv\<rparr>"
  by (simp_all add: set_config_def set_mgr_def set_srv_def ap_cfg_def)

lemma trust_ok_Normalize [simp]: "trust_ok (NormalizeNetworkBackend c) = trust_ok c"
  by (simp add: trust_ok_def NormalizeNetworkBackend_keeps)

lemma IsTrusted_Normalize [simp]: "IsTrusted n (NormalizeNetworkBackend c) = IsTrusted n c"
  by (simp add: IsTrusted_set NormalizeNetworkBackend_keeps)

lemma save_config_snd: "snd (save_config st c) = NormalizeNetworkBackend c"
  by (simp add: save_config_def Save_def Let_def split: option.split)

lemma save_api_snd: "snd (save_api env s) = set_config (NormalizeNetworkBackend (ap_cfg s)) s"
  using save_config_snd [of "ae_store env" "ap_cfg s"] by (auto simp: save_api_def split: prod.split)

text \<open>
  Every handler ends in a state that is the old one with a configuration stored: it
  suffices that the trusted machines were not extended.
\<close>

lemma stored_step:
  assumes "api_ok s" "ap_mgr t = (ap_mgr s)\<lparr>m_cfg := c\<rparr>" "trust_ok c" "\<And>n. IsTrusted n c \<Longrightarrow> IsTrusted n (ap_cfg s)"
  shows "api_ok (snd (save_api env t)) \<and> api_rel s (snd (save_api env t))"
proof -
  have "ap_cfg t = c" using assms(2) by (simp add: ap_cfg_def)
  then show ?thesis using assms by (simp add: save_api_snd api_ok_def api_rel_def normalized_Normalize)
qed

lemma mgr_step:
  assumes "api_ok s" "mgr_ok m" "evolves (ap_mgr s) m" "normalized (m_cfg m)" "trust_ok (m_cfg m)"
    "\<And>n. IsTrusted n (m_cfg m) \<Longrightarrow> IsTrusted n (ap_cfg s)" "m_sessions m = m_sessions (ap_mgr s)"
  shows "api_ok (set_mgr m s) \<and> api_rel s (set_mgr m s)"
  using assms by (simp add: api_ok_def api_rel_def)


lemma unchanged_step: "api_ok s \<Longrightarrow> api_ok s \<and> api_rel s s"
  by (simp add: api_rel_refl)

lemma IsTrusted_image: "IsTrusted n c \<longleftrightarrow> n \<in> tp_NodeID ` set (cfg_Trusted c)"
  by (auto simp: IsTrusted_set)

lemma rename_first_trust:
  assumes "rename_first P f (cfg_Trusted c) = Some ps" and f: "\<And>p. tp_NodeID (f p) = tp_NodeID p" "\<And>p. tp_TPMRootThumbprint (f p) = tp_TPMRootThumbprint p"
      "\<And>p. tp_MachineID (f p) = tp_MachineID p"
    and "trust_ok c"
  shows "trust_ok (c\<lparr>cfg_Trusted := ps\<rparr>) \<and> (\<forall>n. IsTrusted n (c\<lparr>cfg_Trusted := ps\<rparr>) = IsTrusted n c)"
proof -
  obtain i where ps: "ps = (cfg_Trusted c)[i := f (cfg_Trusted c ! i)]" and i: "i < length (cfg_Trusted c)"
    using assms(1) by (auto simp: rename_first_def dest: find_first_Some split: option.splits)
  have nth: "tp_NodeID (ps ! j) = tp_NodeID (cfg_Trusted c ! j) \<and> tp_TPMRootThumbprint (ps ! j) = tp_TPMRootThumbprint (cfg_Trusted c ! j)
      \<and> tp_MachineID (ps ! j) = tp_MachineID (cfg_Trusted c ! j)"
    if "j < length ps" for j
    using that f i by (simp add: ps nth_list_update)
  have "length ps = length (cfg_Trusted c)" by (simp add: ps)
  moreover from this have "sameTrustedMachine (ps ! j) (ps ! k) = sameTrustedMachine (cfg_Trusted c ! j) (cfg_Trusted c ! k)"
    if "j < length ps" "k < length ps" for j k
    using nth [OF that(1)] nth [OF that(2)] by (simp add: sameTrustedMachine_def)
  ultimately have "trust_ok (c\<lparr>cfg_Trusted := ps\<rparr>)"
    using assms(5) by (simp add: trust_ok_def sorted_wrt_iff_nth_less)
  moreover have "map tp_NodeID ps = map tp_NodeID (cfg_Trusted c)"
    using nth by (intro nth_equalityI) (simp_all add: ps)
  then have "tp_NodeID ` set ps = tp_NodeID ` set (cfg_Trusted c)" by (metis set_map)
  then have "IsTrusted n (c\<lparr>cfg_Trusted := ps\<rparr>) = IsTrusted n c" for n
    by (simp add: IsTrusted_image)
  ultimately show ?thesis by simp
qed

lemma AddRemote_trusted: "cfg_Trusted (AddRemote now r c) = cfg_Trusted c"
  by (simp add: AddRemote_def Let_def split: option.split)

lemma RemoveRemote_trusted:
  "cfg_Trusted (snd (RemoveRemoteService k c)) = cfg_Trusted c" "cfg_Trusted (snd (RemoveRemote n c)) = cfg_Trusted c"
  by (simp_all add: RemoveRemoteService_def RemoveRemote_def Let_def split: option.split)

lemma same_trusted: "cfg_Trusted c = cfg_Trusted d \<Longrightarrow> trust_ok c = trust_ok d \<and> IsTrusted n c = IsTrusted n d"
  by (simp add: trust_ok_def IsTrusted_set)

abbreviation step_ok :: "'m api_state \<Rightarrow> 'm api_state \<Rightarrow> bool" where
  "step_ok s t \<equiv> api_ok t \<and> api_rel s t"

lemma stored_same_trust:
  assumes "api_ok s" "cfg_Trusted c = cfg_Trusted (ap_cfg s)"
  shows "step_ok s (snd (save_api env (set_config c s)))"
  using assms same_trusted [OF assms(2)] by (intro stored_step [where c = c]) (simp_all add: api_ok_def)

lemma handleLabel_step: "api_ok s \<Longrightarrow> step_ok s (snd (handleLabel env meth body s))"
  by (simp add: handleLabel_def Let_def unchanged_step stored_same_trust split: option.split)

lemma snd_save_cases:
  "snd (case save_api env t of (None, u) \<Rightarrow> (r, u) | (Some e, u) \<Rightarrow> (r' e, u)) = snd (save_api env t)"
  by (simp split: prod.split option.split)

lemma handleAddRemote_step: "api_ok s \<Longrightarrow> step_ok s (snd (handleAddRemote env meth body s))"
  by (simp add: handleAddRemote_def snd_save_cases unchanged_step stored_same_trust AddRemote_trusted split: option.split)

lemma handleRenameRemote_step: "api_ok s \<Longrightarrow> step_ok s (snd (handleRenameRemote env meth body s))"
  by (simp add: handleRenameRemote_def unchanged_step stored_same_trust split: option.split prod.split)

lemma handleRenameAllowed_step:
  assumes ok: "api_ok s"
  shows "step_ok s (snd (handleRenameAllowed env meth body s))"
proof -
  have "step_ok s (snd (save_api env (set_config ((ap_cfg s)\<lparr>cfg_Trusted := ps\<rparr>) s)))"
    if "rename_first (\<lambda>p. tp_NodeID p = n) (\<lambda>p. p\<lparr>tp_Label := l\<rparr>) (cfg_Trusted (ap_cfg s)) = Some ps" for n l ps
    using rename_first_trust [OF that] ok
    by (intro stored_step [OF ok, where c = "(ap_cfg s)\<lparr>cfg_Trusted := ps\<rparr>"]) (simp_all add: api_ok_def)
  then show ?thesis
    by (simp add: handleRenameAllowed_def snd_save_cases unchanged_step ok split: option.split prod.split)
qed

lemma handleDeleteAllowed_step:
  assumes ok: "api_ok s"
  shows "step_ok s (snd (handleDeleteAllowed env meth n s))"
proof -
  let ?c = "(ap_cfg s)\<lparr>cfg_Trusted := filter (\<lambda>p. tp_NodeID p \<noteq> n) (cfg_Trusted (ap_cfg s))\<rparr>"
  have "step_ok s (snd (save_api env (set_config ?c s)))"
    by (rule stored_step [OF ok, where c = ?c])
      (use ok in \<open>auto simp: api_ok_def trust_ok_def IsTrusted_set intro: sorted_wrt_filter\<close>)
  then show ?thesis by (simp add: handleDeleteAllowed_def Let_def snd_save_cases unchanged_step ok)
qed

lemma remove_service_step:
  assumes ok: "api_ok s"
  shows "step_ok s (snd (remove_service env k s))"
proof -
  obtain b c where c: "RemoveRemoteService k (ap_cfg s) = (b, c)" by force
  then have tr: "cfg_Trusted c = cfg_Trusted (ap_cfg s)" using RemoveRemote_trusted(1) [of k "ap_cfg s"] by simp
  have unfound: "\<not> b \<Longrightarrow> set_config c s = s"
    using c ok by (auto simp: RemoveRemoteService_def api_ok_def set_config_def set_mgr_def set_cfg_def ap_cfg_def
        split: option.splits)
  have "step_ok s (snd (save_api env (set_srv srv (set_config c s))))" if "srv_cfg srv = c" for srv
    using same_trusted [OF tr] ok that by (intro stored_step [OF ok, where c = c]) (simp_all add: api_ok_def)
  then show ?thesis
    using unfound by (cases b) (simp_all add: remove_service_def c Let_def snd_save_cases cfg_kept unchanged_step ok)
qed

lemma handleDeleteRemote_step: "api_ok s \<Longrightarrow> step_ok s (snd (handleDeleteRemote env meth query s))"
  by (simp add: handleDeleteRemote_def Let_def unchanged_step remove_service_step split: sum.split)

section \<open>Invite and configuration handlers\<close>

lemma DeletePending_fields:
  "m_cfg (snd (DeletePendingPairingInvitesExceptBackend now b m)) = m_cfg m"
  "m_sessions (snd (DeletePendingPairingInvitesExceptBackend now b m)) = m_sessions m"
proof -
  let ?g = "\<lambda>(n, m') (k, a). if pending_other_backend now b (at m' a) then (Suc n, delete_invite k a m') else (n, m')"
  have "m_cfg (snd (foldl ?g (n, m') xs)) = m_cfg m' \<and> m_sessions (snd (foldl ?g (n, m') xs)) = m_sessions m'" for n m' xs
    by (induction xs arbitrary: n m') (auto simp: delete_invite_def split: prod.splits)
  then show "m_cfg (snd (DeletePendingPairingInvitesExceptBackend now b m)) = m_cfg m"
    "m_sessions (snd (DeletePendingPairingInvitesExceptBackend now b m)) = m_sessions m"
    by (simp_all add: DeletePendingPairingInvitesExceptBackend_def)
qed

lemma create_invite_fields:
  "m_cfg (snd (create_invite env now mode ttl label proto port addrs b m)) = m_cfg m"
  "m_sessions (snd (create_invite env now mode ttl label proto port addrs b m)) = m_sessions m"
  by (simp_all add: create_invite_def Let_def split: sum.split option.split)

lemma GenerateURL_fields:
  "m_cfg (snd (GenerateURL env now mode ttl label proto port m)) = NormalizeNetworkBackend (m_cfg m)"
  "m_sessions (snd (GenerateURL env now mode ttl label proto port m)) = m_sessions m"
  by (simp_all add: GenerateURL_def generateURL_def Let_def create_invite_fields DeletePending_fields split: option.split prod.split)

lemma snd_mgr_cases:
  "snd (case x of (None, m) \<Rightarrow> (r, set_mgr m s) | (Some e, m) \<Rightarrow> (r' e, set_mgr m s)) = set_mgr (snd x) s"
  "snd (case y of (Inl e, m) \<Rightarrow> (q e, set_mgr m s) | (Inr v, m) \<Rightarrow> (q' v, set_mgr m s)) = set_mgr (snd y) s"
  by (simp_all split: prod.split option.split sum.split)

lemma handleGenerateURL_step:
  assumes ok: "api_ok s"
  shows "step_ok s (snd (handleGenerateURL env mode meth req s))"
proof -
  have "step_ok s (set_mgr (snd (GenerateURL g now mode ttl label proto port (ap_mgr s))) s)" for g now ttl label proto port
  proof -
    let ?m = "snd (GenerateURL g now mode ttl label proto port (ap_mgr s))"
    have "mgr_ok ?m \<and> evolves (ap_mgr s) ?m"
      using generateURL_step [of "ap_mgr s" g now mode ttl label proto port None] ok
      by (simp add: GenerateURL_def api_ok_def)
    then show ?thesis
      using ok by (intro mgr_step [OF ok]) (simp_all add: GenerateURL_fields api_ok_def ap_cfg_def normalized_Normalize)
  qed
  then show ?thesis by (simp add: handleGenerateURL_def Let_def snd_mgr_cases unchanged_step ok)
qed

lemma RenameInvite_fields:
  "m_cfg (snd (RenameInvite k l m)) = m_cfg m" "m_sessions (snd (RenameInvite k l m)) = m_sessions m"
  by (simp_all add: RenameInvite_def split: option.split)

lemma handleRenameInvite_step:
  assumes ok: "api_ok s"
  shows "step_ok s (snd (handleRenameInvite env meth body s))"
proof -
  have "step_ok s (set_mgr (snd (RenameInvite k l (ap_mgr s))) s)" for k l
    using RenameInvite_step [of "ap_mgr s" k l] ok
    by (intro mgr_step [OF ok]) (simp_all add: RenameInvite_fields api_ok_def ap_cfg_def)
  then show ?thesis
    by (simp add: handleRenameInvite_def snd_mgr_cases unchanged_step ok split: option.split prod.split)
qed

lemma RevokeInvite_fields:
  "m_cfg (snd (RevokeInvite st k m)) = m_cfg m \<or>
   (\<exists>n. m_cfg (snd (RevokeInvite st k m)) = NormalizeNetworkBackend (snd (RemoveRemote n (snd (RemoveTrustedPeer n (m_cfg m))))))"
  "m_sessions (snd (RevokeInvite st k m)) = m_sessions m"
proof -
  have *: "snd (case save_config st c of (None, c3) \<Rightarrow> (None, m1\<lparr>m_cfg := c3\<rparr>) | (Some u, c3) \<Rightarrow> (Some SaveTrustCleanup, m1\<lparr>m_cfg := c3\<rparr>))
      = m1\<lparr>m_cfg := NormalizeNetworkBackend c\<rparr>" for c m1
    using save_config_snd [of st c] by (auto split: prod.split option.split)
  show "m_cfg (snd (RevokeInvite st k m)) = m_cfg m \<or>
   (\<exists>n. m_cfg (snd (RevokeInvite st k m)) = NormalizeNetworkBackend (snd (RemoveRemote n (snd (RemoveTrustedPeer n (m_cfg m))))))"
    by (auto simp: RevokeInvite_def Let_def * delete_invite_def split: option.split)
  show "m_sessions (snd (RevokeInvite st k m)) = m_sessions m"
    by (simp add: RevokeInvite_def Let_def * delete_invite_def split: option.split)
qed

lemma handleRevoke_step:
  assumes ok: "api_ok s"
  shows "step_ok s (snd (handleRevoke env meth k s))"
proof -
  let ?m = "snd (RevokeInvite (ae_store env) k (ap_mgr s))"
  have trusted: "trust_ok (snd (RemoveRemote n (snd (RemoveTrustedPeer n c)))) = trust_ok (snd (RemoveTrustedPeer n c))"
    "IsTrusted x (snd (RemoveRemote n (snd (RemoveTrustedPeer n c)))) = IsTrusted x (snd (RemoveTrustedPeer n c))" for n x c
    using same_trusted [OF RemoveRemote_trusted(2)] by blast+
  have "normalized (m_cfg ?m) \<and> trust_ok (m_cfg ?m) \<and> (\<forall>n. IsTrusted n (m_cfg ?m) \<longrightarrow> IsTrusted n (m_cfg (ap_mgr s)))"
    using RevokeInvite_fields(1) [of "ae_store env" k "ap_mgr s"] ok
    by (auto simp: normalized_Normalize trusted trust_ok_Remove api_ok_def ap_cfg_def dest: Remove_trusted_only)
  moreover have "mgr_ok ?m \<and> evolves (ap_mgr s) ?m"
    using RevokeInvite_step [of "ap_mgr s" "ae_store env" k] ok by (simp add: api_ok_def)
  ultimately have "step_ok s (set_mgr ?m s)"
    by (intro mgr_step [OF ok]) (simp_all add: RevokeInvite_fields(2) ap_cfg_def)
  then show ?thesis by (simp add: handleRevoke_def snd_mgr_cases unchanged_step ok)
qed


lemma apply_network_views:
  assumes "api_ok s"
  shows "ap_mgr (snd (apply_network env s)) = ap_mgr s \<and> srv_cfg (ap_srv (snd (apply_network env s))) = ap_cfg s"
proof -
  obtain e net where a: "service_applyNetworkConfig (ae_svc env) (ws_net (ap_srv s)) = (e, net)" by force
  have "ns_cfg net = ap_cfg s"
    using assms service_apply_cfg [of "ae_svc env" "ws_net (ap_srv s)"] by (simp add: a api_ok_def normalized_fixed)
  then show ?thesis by (simp add: apply_network_def a, simp add: ap_cfg_def)
qed

lemma apply_network_step:
  assumes "api_ok s"
  shows "step_ok s (snd (apply_network env s))"
  using assms apply_network_views [OF assms, of env] by (simp add: api_ok_def api_rel_def ap_cfg_def)

lemma delete_stale_step:
  assumes ok: "api_ok s"
  shows "step_ok s (snd (delete_stale env b s))"
proof -
  have "step_ok s (set_mgr (snd (DeletePendingPairingInvitesExceptBackend (ae_now env) d (ap_mgr s))) s)" for d
    using DeletePending_step [of "ap_mgr s"] ok
    by (intro mgr_step [OF ok]) (simp_all add: DeletePending_fields api_ok_def ap_cfg_def)
  then show ?thesis by (simp add: delete_stale_def Let_def case_prod_beta unchanged_step ok)
qed

lemma apply_patch_trusted: "cfg_Trusted (apply_patch p c) = cfg_Trusted c"
  by (simp add: apply_patch_def)

lemma config_patch_handler_cases:
  obtains (rejected) "snd (config_patch_handler env body s) = s"
  | (saved) p where "body = Some p" "snd (config_patch_handler env body s) = snd (save_api env (set_config (apply_patch p (ap_cfg s)) s))"
  | (unapplied) p where "body = Some p" "snd (config_patch_handler env body s) =
        snd (apply_network env (snd (save_api env (set_config (apply_patch p (ap_cfg s)) s))))"
  | (cleaned) p t where "body = Some p" "t \<in> {snd (save_api env (set_config (apply_patch p (ap_cfg s)) s)),
        snd (apply_network env (snd (save_api env (set_config (apply_patch p (ap_cfg s)) s))))}"
      "snd (config_patch_handler env body s) = snd (delete_stale env (ActiveNetworkBackend (Some (ap_cfg s))) t)"
proof (cases body)
  case None
  then show ?thesis using rejected by (simp add: config_patch_handler_def)
next
  case (Some p)
  obtain e1 s1 where s1: "save_api env (set_config (apply_patch p (ap_cfg s)) s) = (e1, s1)" by force
  obtain e2 s2 where s2: "apply_network env s1 = (e2, s2)" by force
  obtain n3 s3 where s3: "delete_stale env (ActiveNetworkBackend (Some (ap_cfg s))) s1 = (n3, s3)" by force
  obtain n4 s4 where s4: "delete_stale env (ActiveNetworkBackend (Some (ap_cfg s))) s2 = (n4, s4)" by force
  have "snd (config_patch_handler env body s) \<in> {s, s1, s3} \<union> {s2, s4}"
    unfolding config_patch_handler_def Some option.case Let_def s1
    by (cases e1; cases e2; cases "networkChanged (ap_cfg s) (ap_cfg s1)"; simp only: prod.case option.case s2 s3 s4 if_True if_False snd_conv; simp)
  then show ?thesis using rejected saved [OF Some] unapplied [OF Some] cleaned [OF Some, of s1] cleaned [OF Some, of s2] s1 s2 s3 s4
    by auto
qed

lemma handleConfig_step:
  assumes ok: "api_ok s"
  shows "step_ok s (snd (handleConfig env meth body s))"
proof -
  have get: "step_ok s (snd (config_get s))"
    using ok by (simp add: config_get_def Let_def api_ok_def api_rel_def normalized_Normalize)
  have save: "step_ok s (snd (save_api env (set_config (apply_patch p (ap_cfg s)) s)))" for p
    by (rule stored_same_trust [OF ok]) (simp add: apply_patch_trusted)
  have appl: "step_ok s (snd (apply_network env (snd (save_api env (set_config (apply_patch p (ap_cfg s)) s)))))" for p
    using save [of p] apply_network_step api_rel_trans by blast
  have "step_ok s (snd (config_patch_handler env body s))"
  proof (cases rule: config_patch_handler_cases [of env body s])
    case (cleaned p t)
    then have "step_ok s t" using save appl by auto
    then show ?thesis using cleaned(3) delete_stale_step api_rel_trans by metis
  qed (simp_all add: save appl unchanged_step ok)
  then show ?thesis using get ok by (simp add: handleConfig_def unchanged_step)
qed

lemma api_step_keeps: "api_ok s \<Longrightarrow> step_ok s (api_step s x)"
  by (cases "snd x") (simp_all only: api_step_def api_run.simps handleConfig_step handleGenerateURL_step handleRevoke_step
      handleRenameInvite_step handleAddRemote_step handleDeleteRemote_step handleRenameRemote_step handleRenameAllowed_step
      handleDeleteAllowed_step handleLabel_step simp_thms)

interpretation api: tracked_machine api_step api_ok api_rel
  by unfold_locales (auto intro: api_rel_refl api_rel_trans simp: api_step_keeps)



section \<open>Changing the configuration\<close>

lemma map_del_if_get:
  assumes "map_get (foldl (\<lambda>iv (k, a). if P a then map_del k iv else iv) iv xs) k = Some a"
  shows "map_get iv k = Some a \<and> (\<forall>c. (k, c) \<in> set xs \<longrightarrow> \<not> P c)"
  using assms
proof (induction xs arbitrary: iv)
  case (Cons x xs)
  obtain k' c where x: "x = (k', c)" by force
  show ?case
  proof (cases "P c")
    case True
    then have "map_get (map_del k' iv) k = Some a \<and> (\<forall>c. (k, c) \<in> set xs \<longrightarrow> \<not> P c)"
      using Cons.prems by (intro Cons.IH) (simp add: x)
    then show ?thesis by (cases "k' = k") (simp_all add: x go_map_simps)
  next
    case False
    then have "map_get iv k = Some a \<and> (\<forall>c. (k, c) \<in> set xs \<longrightarrow> \<not> P c)"
      using Cons.prems by (intro Cons.IH) (simp add: x)
    then show ?thesis using False by (simp add: x)
  qed
qed simp

lemma DeletePending_result:
  assumes "DeletePendingPairingInvitesExceptBackend now b m = (n, m')" "map_get (m_invites m') k = Some a"
  shows "\<not> pending_other_backend now b (at m' a)"
proof -
  let ?g = "\<lambda>(n, m') (k, a). if pending_other_backend now b (at m' a) then (Suc n, delete_invite k a m') else (n, m')"
  have fold: "m_heap (snd (foldl ?g (n, u) xs)) = m_heap u \<and> m_invites (snd (foldl ?g (n, u) xs)) =
      foldl (\<lambda>iv (k, a). if pending_other_backend now b (at u a) then map_del k iv else iv) (m_invites u) xs"
    for n u and xs :: "(string \<times> nat) list"
  proof (induction xs arbitrary: n u)
    case (Cons x xs)
    obtain k a where x: "x = (k, a)" by force
    have "at (delete_invite k a u) c = at u c" for c by (simp add: delete_invite_def at_def)
    then show ?case
      using Cons.IH [of "Suc n" "delete_invite k a u"] Cons.IH [of n u] by (simp add: x, simp add: delete_invite_def)
  qed simp
  have m': "m' = snd (foldl ?g (0, m) (m_invites m))"
    using assms(1) unfolding DeletePendingPairingInvitesExceptBackend_def by simp
  then have "map_get (foldl (\<lambda>iv (k, a). if pending_other_backend now b (at m a) then map_del k iv else iv) (m_invites m) (m_invites m)) k = Some a"
    using assms(2) fold [of 0 m "m_invites m"] by simp
  from map_del_if_get [OF this] have "\<not> pending_other_backend now b (at m a)" by (auto dest: map_of_SomeD)
  then show ?thesis using fold [of 0 m "m_invites m"] m' by (simp add: at_def)
qed

lemma ActiveNetworkBackend_patch:
  assumes "cp_ShareBackend p \<noteq> []" "cp_ShareBackend p \<in> {''iroh'', ''bittorrent_dht'', ''libp2p_relay'', ''libp2p_dht''}"
  shows "ActiveNetworkBackend (Some (NormalizeNetworkBackend (apply_patch p c))) = cp_ShareBackend p"
proof -
  have v: "validNetworkBackend (cp_ShareBackend p)" using assms(2) by (simp add: validNetworkBackend_def CanonicalNetworkBackend_def)
  have "ActiveNetworkBackend (Some (NormalizeNetworkBackend c)) = ActiveNetworkBackend (Some c)" for c
    by (simp add: NormalizeNetworkBackend_active)
  then show ?thesis using assms(1) v by (simp add: ActiveNetworkBackend_def apply_patch_def CanonicalNetworkBackend_def Let_def)
qed

text \<open>
  A change of the configuration is rejected without effect when the body does not
  decode or names no known backend. Otherwise the configuration is the patched one,
  normalised, also when saving or applying it fails. It is reported as saved only when
  both worked; then the active backend is the one asked for, its mode is not disabled,
  and after a change of backend no pending pairing invite of another backend is left.
  When applying fails no invite is deleted.
\<close>

theorem handleConfig_patch:
  assumes ok: "api_ok s" and res: "handleConfig env ''PATCH'' (Some p) s = (r, t)"
    and known: "cp_ShareBackend p \<in> {[], ''iroh'', ''bittorrent_dht'', ''libp2p_relay'', ''libp2p_dht''}"
  shows "ap_cfg t = NormalizeNetworkBackend (apply_patch p (ap_cfg s))
    \<and> (cp_ShareBackend p \<noteq> [] \<longrightarrow> ActiveNetworkBackend (Some (ap_cfg t)) = cp_ShareBackend p)
    \<and> backend_mode (ActiveNetworkBackend (Some (ap_cfg t))) (ap_cfg t) \<notin> {[], ''disabled''}
    \<and> (case r of
         Reply v \<Rightarrow> ActiveNetworkBackend (Some (ap_cfg s)) \<noteq> ActiveNetworkBackend (Some (ap_cfg t)) \<longrightarrow>
           (\<forall>k a. map_get (m_invites (ap_mgr t)) k = Some a \<longrightarrow>
              \<not> pending_other_backend (ae_now env) (ActiveNetworkBackend (Some (ap_cfg t))) (at (ap_mgr t) a))
       | HttpError code msg \<Rightarrow> code = 500 \<and> m_invites (ap_mgr t) = m_invites (ap_mgr s))"
proof -
  obtain e1 s1 where s1: "save_api env (set_config (apply_patch p (ap_cfg s)) s) = (e1, s1)" by force
  let ?c = "NormalizeNetworkBackend (apply_patch p (ap_cfg s))"
  have s1c: "s1 = set_config ?c (set_config (apply_patch p (ap_cfg s)) s)"
    using save_api_snd [of env "set_config (apply_patch p (ap_cfg s)) s"] s1 by simp
  have ok1: "api_ok s1" using stored_same_trust [OF ok apply_patch_trusted, of env p] s1 by simp
  have inv1: "m_invites (ap_mgr s1) = m_invites (ap_mgr s)" "ap_cfg s1 = ?c" by (simp_all add: s1c)
  define s2 where "s2 = (if networkChanged (ap_cfg s) (ap_cfg s1) then snd (apply_network env s1) else s1)"
  have s2: "ap_mgr s2 = ap_mgr s1" "ap_cfg s2 = ?c"
    using apply_network_views [OF ok1, of env] inv1(2) by (simp_all add: s2_def ap_cfg_def)
  obtain n3 s3 where s3: "delete_stale env (ActiveNetworkBackend (Some (ap_cfg s))) s2 = (n3, s3)" by force
  have s3c: "ap_cfg s3 = ?c"
    using s3 s2 DeletePending_fields(1) [of "ae_now env" "ActiveNetworkBackend (Some ?c)" "ap_mgr s2"]
    by (auto simp: delete_stale_def Let_def ap_cfg_def split: if_splits prod.splits)
  have s3i: "\<not> pending_other_backend (ae_now env) (ActiveNetworkBackend (Some ?c)) (at (ap_mgr s3) a)"
    if "ActiveNetworkBackend (Some (ap_cfg s)) \<noteq> ActiveNetworkBackend (Some ?c)" "map_get (m_invites (ap_mgr s3)) k = Some a" for k a
    using s3 s2 that DeletePending_result by (auto simp: delete_stale_def Let_def split: prod.splits)
  have out: "(\<exists>msg. r = HttpError 500 msg \<and> t \<in> {s1, s2}) \<or> (\<exists>v. r = Reply v \<and> t = s3)"
  proof -
    obtain x y where "apply_network env s1 = (x, y)" by force
    then obtain e2 where e2: "(if networkChanged (ap_cfg s) (ap_cfg s1) then apply_network env s1 else (None, s1)) = (e2, s2)"
      by (cases "networkChanged (ap_cfg s) (ap_cfg s1)") (simp_all add: s2_def)
    from res known show ?thesis
      unfolding handleConfig_def config_patch_handler_def Let_def option.case s1
      by (cases e1; cases e2) (auto simp: e2 s3)
  qed
  have act: "ActiveNetworkBackend (Some ?c) = nc_ShareBackend (cfg_Network ?c)"
    using normalized_Normalize [of "apply_patch p (ap_cfg s)"]
    by (simp add: ActiveNetworkBackend_def normalized_def CanonicalNetworkBackend_def Let_def)
  have t: "ap_cfg t = ?c" using out inv1(2) s2(2) s3c by auto
  have "cp_ShareBackend p \<noteq> [] \<longrightarrow> ActiveNetworkBackend (Some ?c) = cp_ShareBackend p"
    using ActiveNetworkBackend_patch known by blast
  moreover have "backend_mode (ActiveNetworkBackend (Some ?c)) ?c \<notin> {[], ''disabled''}"
    using normalized_Normalize [of "apply_patch p (ap_cfg s)"] unfolding act normalized_def by blast
  moreover have "case r of Reply v \<Rightarrow> ActiveNetworkBackend (Some (ap_cfg s)) \<noteq> ActiveNetworkBackend (Some ?c) \<longrightarrow>
           (\<forall>k a. map_get (m_invites (ap_mgr t)) k = Some a \<longrightarrow>
              \<not> pending_other_backend (ae_now env) (ActiveNetworkBackend (Some ?c)) (at (ap_mgr t) a))
       | HttpError code msg \<Rightarrow> code = 500 \<and> m_invites (ap_mgr t) = m_invites (ap_mgr s)"
    using out s3i inv1(1) s2(1) by auto
  ultimately show ?thesis unfolding t by blast
qed

section \<open>Witnesses\<close>

definition sample_api :: "string api_state" where
  "sample_api =
     (let c = (NormalizeNetworkBackend (defaultConfig ''h''))\<lparr>cfg_Trusted := [sample_peer]\<rparr>
      in \<lparr>ap_srv = Webui_New ''t'' (service_start (fresh_node c ''id'')), ap_mgr = Manager_New ''id'' c\<rparr>)"

definition sample_api_env :: "string api_env" where
  "sample_api_env = \<lparr>ae_svc = sample_service_env, ae_store = \<lparr>cs_mkdir = True, cs_marshal = \<lambda>c. Some [], cs_write = \<lambda>b. True\<rparr>,
     ae_gen = sample_env, ae_now = 5, ae_gen_msg = \<lambda>e. [], ae_invite_msg = \<lambda>e. []\<rparr>"

definition sample_patch :: config_patch where
  "sample_patch = \<lparr>cp_ShareBackend = ''libp2p_relay'', cp_App = None, cp_Relay = Some (''disabled'', None), cp_DHT = None,
     cp_BTDHT = None, cp_Iroh = None\<rparr>"

lemma normalized_trusted: "normalized (c\<lparr>cfg_Trusted := ts\<rparr>) = normalized c"
proof -
  have "backend_mode b (c\<lparr>cfg_Trusted := ts\<rparr>) = backend_mode b c" for b by (simp add: backend_mode_def)
  then show ?thesis by (simp add: normalized_def)
qed

lemma sample_api_ok: "api_ok sample_api"
  by (simp add: api_ok_def sample_api_def ap_cfg_def Let_def Manager_New_def Webui_New_def service_start_def fresh_node_def
      mgr_ok_def trust_ok_def normalized_trusted normalized_Normalize)



theorem handleConfig_patch_witness:
  "\<exists>r t. handleConfig sample_api_env ''PATCH'' (Some sample_patch) sample_api = (r, t)
     \<and> ActiveNetworkBackend (Some (ap_cfg t)) = ''libp2p_relay'' \<and> backend_mode ''libp2p_relay'' (ap_cfg t) \<notin> {[], ''disabled''}"
proof -
  obtain r t where rt: "handleConfig sample_api_env ''PATCH'' (Some sample_patch) sample_api = (r, t)" by force
  have p: "cp_ShareBackend sample_patch = ''libp2p_relay''" by (simp add: sample_patch_def)
  from handleConfig_patch [OF sample_api_ok rt] rt show ?thesis unfolding p by auto
qed

end
