(* ===== verification/Webui_Allowed.thy ===== *)
theory Webui_Allowed
  imports Webui_Api_Safety
begin

text \<open>
  The machines allowed to reconnect, as the dashboard lists and removes them: the
  deduplicated list against a reference definition, and removal against the handshake.
\<close>

section \<open>The list of allowed machines\<close>

text \<open>
  The reference: the display keys in order of first appearance, each with the entry
  added last, the earlier one in the list on a tie.
\<close>

definition note_key :: "string list \<Rightarrow> TrustedPeer \<Rightarrow> string list" where
  "note_key ks p = (if trustedPeerDisplayKey p \<in> set ks then ks else ks @ [trustedPeerDisplayKey p])"

definition display_keys :: "TrustedPeer list \<Rightarrow> string list" where
  "display_keys ps = foldl note_key [] ps"

definition later :: "TrustedPeer \<Rightarrow> TrustedPeer \<Rightarrow> TrustedPeer" where
  "later best p = (if After (tp_AddedAt p) (tp_AddedAt best) then p else best)"

definition entries_of :: "string \<Rightarrow> TrustedPeer list \<Rightarrow> TrustedPeer list" where
  "entries_of k ps = filter (\<lambda>p. trustedPeerDisplayKey p = k) ps"

definition latest_entry :: "TrustedPeer list \<Rightarrow> TrustedPeer" where
  "latest_entry ps = foldl later (hd ps) (tl ps)"

definition allowed_view :: "TrustedPeer list \<Rightarrow> TrustedPeer list" where
  "allowed_view ps = map (\<lambda>k. latest_entry (entries_of k ps)) (display_keys ps)"

lemma display_keys_snoc: "display_keys (ps @ [p]) = note_key (display_keys ps) p"
  by (simp add: display_keys_def)

lemma set_display_keys: "set (display_keys ps) = trustedPeerDisplayKey ` set ps"
  by (induction ps rule: rev_induct) (auto simp: display_keys_snoc note_key_def, simp_all add: display_keys_def)

lemma distinct_display_keys: "distinct (display_keys ps)"
  by (induction ps rule: rev_induct) (auto simp: display_keys_snoc note_key_def, simp add: display_keys_def)

lemma latest_entry_snoc: "ps \<noteq> [] \<Longrightarrow> latest_entry (ps @ [p]) = later (latest_entry ps) p"
  by (cases ps) (simp_all add: latest_entry_def)

lemma latest_entry_max:
  "ps \<noteq> [] \<Longrightarrow> latest_entry ps \<in> set ps \<and> (\<forall>p\<in>set ps. tp_AddedAt p \<le> tp_AddedAt (latest_entry ps))"
proof (induction ps rule: rev_induct)
  case (snoc p ps)
  then show ?case
    by (cases "ps = []") (auto simp: latest_entry_snoc later_def After_def, simp_all add: latest_entry_def)
qed simp

lemma entries_snoc: "entries_of k (ps @ [p]) = (if trustedPeerDisplayKey p = k then entries_of k ps @ [p] else entries_of k ps)"
  by (simp add: entries_of_def)

lemma entries_ne: "k \<in> set (display_keys ps) \<Longrightarrow> entries_of k ps \<noteq> []"
  by (auto simp: set_display_keys entries_of_def filter_empty_conv)

text \<open>What one iteration does to the view of the entries read so far.\<close>

definition index_of :: "(string, nat) gomap \<Rightarrow> string list \<Rightarrow> bool" where
  "index_of seen ks \<longleftrightarrow> (\<forall>k. map_get seen k = find_first (\<lambda>x. x = k) ks)"

lemma find_first_snoc: "find_first P (xs @ [y]) =
    (case find_first P xs of Some i \<Rightarrow> Some i | None \<Rightarrow> if P y then Some (length xs) else None)"
  by (induction xs) (auto split: option.splits)

lemma find_first_nth: "distinct ks \<Longrightarrow> find_first (\<lambda>x. x = k) ks = Some i \<Longrightarrow> j < length ks \<Longrightarrow> ks ! j = k \<longleftrightarrow> j = i"
  using find_first_Some [of "\<lambda>x. x = k" ks i] by (auto simp: nth_eq_iff_index_eq)

lemma allowed_view_known:
  assumes "find_first (\<lambda>x. x = trustedPeerDisplayKey p) (display_keys ps) = Some i"
  shows "allowed_view (ps @ [p]) =
      (if After (tp_AddedAt p) (tp_AddedAt (allowed_view ps ! i)) then (allowed_view ps)[i := p] else allowed_view ps)"
    and "display_keys (ps @ [p]) = display_keys ps"
proof -
  let ?k = "trustedPeerDisplayKey p"
  have i: "i < length (display_keys ps)" "display_keys ps ! i = ?k"
    using find_first_Some [OF assms] by auto
  then have mem: "?k \<in> set (display_keys ps)" by (metis nth_mem)
  then show keys: "display_keys (ps @ [p]) = display_keys ps" by (simp add: display_keys_snoc note_key_def)
  have at_i: "allowed_view ps ! i = latest_entry (entries_of ?k ps)" using i by (simp add: allowed_view_def)
  have "allowed_view (ps @ [p]) ! j =
      (if After (tp_AddedAt p) (tp_AddedAt (allowed_view ps ! i)) then (allowed_view ps)[i := p] else allowed_view ps) ! j"
    if "j < length (display_keys ps)" for j
  proof (cases "j = i")
    case True
    then show ?thesis
      using i at_i entries_ne [OF mem] by (simp add: allowed_view_def keys entries_snoc latest_entry_snoc later_def)
  next
    case False
    then have "?k \<noteq> display_keys ps ! j"
      using find_first_nth [OF distinct_display_keys assms that] by simp
    then show ?thesis using False that by (simp add: allowed_view_def keys entries_snoc)
  qed
  then show "allowed_view (ps @ [p]) =
      (if After (tp_AddedAt p) (tp_AddedAt (allowed_view ps ! i)) then (allowed_view ps)[i := p] else allowed_view ps)"
    by (intro nth_equalityI) (simp_all add: allowed_view_def keys)
qed

lemma allowed_view_new:
  assumes "find_first (\<lambda>x. x = trustedPeerDisplayKey p) (display_keys ps) = None"
  shows "allowed_view (ps @ [p]) = allowed_view ps @ [p]"
    and "display_keys (ps @ [p]) = display_keys ps @ [trustedPeerDisplayKey p]"
proof -
  let ?k = "trustedPeerDisplayKey p"
  have new: "?k \<notin> set (display_keys ps)" using assms by (auto simp: find_first_None)
  then show keys: "display_keys (ps @ [p]) = display_keys ps @ [?k]" by (simp add: display_keys_snoc note_key_def)
  have "entries_of ?k ps = []" using new unfolding set_display_keys entries_of_def filter_empty_conv by (metis imageI)
  then show "allowed_view (ps @ [p]) = allowed_view ps @ [p]"
    using new by (auto simp: allowed_view_def keys entries_snoc latest_entry_def)
qed

lemma dedupe_loop_view:
  "index_of seen (display_keys pre) \<Longrightarrow> dedupe_loop rest (allowed_view pre) seen = allowed_view (pre @ rest)"
proof (induction rest arbitrary: pre seen)
  case Nil
  then show ?case by simp
next
  case (Cons p rest)
  let ?k = "trustedPeerDisplayKey p"
  have get: "map_get seen ?k = find_first (\<lambda>x. x = ?k) (display_keys pre)"
    using Cons.prems by (simp add: index_of_def)
  show ?case
  proof (cases "find_first (\<lambda>x. x = ?k) (display_keys pre)")
    case (Some i)
    then show ?thesis
      using Cons.IH [of seen "pre @ [p]"] Cons.prems allowed_view_known [OF Some] get by (simp add: Let_def)
  next
    case None
    have "index_of (map_set ?k (length (allowed_view pre)) seen) (display_keys (pre @ [p]))"
      using Cons.prems None
      by (auto simp: index_of_def allowed_view_new [OF None] find_first_snoc go_map_simps allowed_view_def split: option.splits)
    then show ?thesis
      using Cons.IH [of "map_set ?k (length (allowed_view pre)) seen" "pre @ [p]"] allowed_view_new [OF None] None get
      by (simp add: Let_def)
  qed
qed

text \<open>
  C31: The list of allowed machines, built in one pass with an index that is updated in
  place, equals the reference: one entry per display key (the TPM root, or the node
  identifier for machines without one) in order of first appearance, and for each key
  an entry of the trust list that no other entry of the key was added after.
\<close>

theorem dedupeTrustedPeers_view:
  "dedupeTrustedPeers ps = allowed_view ps
   \<and> distinct (map trustedPeerDisplayKey (dedupeTrustedPeers ps))
   \<and> trustedPeerDisplayKey ` set (dedupeTrustedPeers ps) = trustedPeerDisplayKey ` set ps
   \<and> set (dedupeTrustedPeers ps) \<subseteq> set ps
   \<and> (\<forall>p q. p \<in> set ps \<and> q \<in> set (dedupeTrustedPeers ps) \<and> trustedPeerDisplayKey p = trustedPeerDisplayKey q
         \<longrightarrow> tp_AddedAt p \<le> tp_AddedAt q)"
proof -
  have eq: "dedupeTrustedPeers ps = allowed_view ps"
    using dedupe_loop_view [of "[]" "[]" ps] by (simp add: dedupeTrustedPeers_def index_of_def display_keys_def allowed_view_def)
  have entry: "latest_entry (entries_of k ps) \<in> set ps \<and> trustedPeerDisplayKey (latest_entry (entries_of k ps)) = k
      \<and> (\<forall>p\<in>set ps. trustedPeerDisplayKey p = k \<longrightarrow> tp_AddedAt p \<le> tp_AddedAt (latest_entry (entries_of k ps)))"
    if "k \<in> set (display_keys ps)" for k
    using latest_entry_max [OF entries_ne [OF that]] by (simp add: entries_of_def)
  have keys: "map trustedPeerDisplayKey (allowed_view ps) = display_keys ps"
    using entry by (simp add: allowed_view_def comp_def map_idI)
  then have "distinct (map trustedPeerDisplayKey (allowed_view ps))" by (simp add: distinct_display_keys)
  moreover have "trustedPeerDisplayKey ` set (allowed_view ps) = trustedPeerDisplayKey ` set ps"
    using keys by (metis set_map set_display_keys)
  moreover have "set (allowed_view ps) \<subseteq> set ps" using entry by (auto simp: allowed_view_def)
  moreover have "tp_AddedAt p \<le> tp_AddedAt q"
    if "p \<in> set ps" "q \<in> set (allowed_view ps)" "trustedPeerDisplayKey p = trustedPeerDisplayKey q" for p q
    using that entry by (auto simp: allowed_view_def)
  ultimately show ?thesis unfolding eq by blast
qed

theorem dedupeTrustedPeers_view_witness:
  "let a = sample_peer\<lparr>tp_TPMRootThumbprint := ''t'', tp_AddedAt := 3\<rparr>;
       b = sample_peer\<lparr>tp_NodeID := ''m'', tp_TPMRootThumbprint := ''t'', tp_AddedAt := 8\<rparr>
   in dedupeTrustedPeers [a, b] = [b] \<and> tp_AddedAt a \<le> tp_AddedAt b"
proof -
  define a where "a = sample_peer\<lparr>tp_TPMRootThumbprint := ''t'', tp_AddedAt := 3\<rparr>"
  define b where "b = sample_peer\<lparr>tp_NodeID := ''m'', tp_TPMRootThumbprint := ''t'', tp_AddedAt := 8\<rparr>"
  have k: "trustedPeerDisplayKey a = trustedPeerDisplayKey b"
    by (simp add: a_def b_def trustedPeerDisplayKey_def)
  have d: "dedupeTrustedPeers [a, b] = [b]"
    using k by (simp add: dedupeTrustedPeers_def Let_def) (simp add: a_def b_def After_def)
  have "tp_AddedAt a \<le> tp_AddedAt b"
    using dedupeTrustedPeers_view [of "[a, b]"] k d by simp
  with d show ?thesis by (simp add: a_def b_def Let_def)
qed

section \<open>Removing an allowed machine\<close>

lemma handleDeleteAllowed_Reply:
  assumes "handleDeleteAllowed env meth n s = (Reply u, t)"
  shows "t = set_config (NormalizeNetworkBackend
     ((ap_cfg s)\<lparr>cfg_Trusted := filter (\<lambda>p. tp_NodeID p \<noteq> n) (cfg_Trusted (ap_cfg s))\<rparr>))
       (set_config ((ap_cfg s)\<lparr>cfg_Trusted := filter (\<lambda>p. tp_NodeID p \<noteq> n) (cfg_Trusted (ap_cfg s))\<rparr>) s)"
proof -
  let ?u = "set_config ((ap_cfg s)\<lparr>cfg_Trusted := filter (\<lambda>p. tp_NodeID p \<noteq> n) (cfg_Trusted (ap_cfg s))\<rparr>) s"
  have "t = snd (save_api env ?u)"
    using assms by (auto simp: handleDeleteAllowed_def Let_def split: if_splits prod.splits option.splits)
  then show ?thesis by (simp add: save_api_snd)
qed



end
