(* ===== verification/Btdht.thy ===== *)
theory Btdht
  imports Netbackend
begin

text \<open>
  The BitTorrent DHT client, \<open>internal/btdht/btdht.go\<close>: the record a node publishes, its
  status, and the lookup of another node's record down to the bytes of the mutable
  item. The DHT, the signatures on its items and JSON are arguments.
\<close>

section \<open>The published record\<close>

definition btdht_salt :: string where "btdht_salt = ''DeskAccess:presence:v1''"
definition recordMaxAge :: duration where "recordMaxAge = 2 * 60 * minute"
definition recordSchema :: int where "recordSchema = 1"

record Record =
  rec_Version :: int
  rec_NodeID :: string
  rec_Label :: string
  rec_RelayAddrs :: "string list"
  rec_DirectQUICAddrs :: "string list"
  rec_Timestamp :: int

record btdht_Client =
  bc_nodeID :: string
  bc_ready :: bool
  bc_lastError :: string
  bc_lastPublishErr :: string
  bc_lastPublished :: instant

definition btdht_setStatus :: "bool \<Rightarrow> string \<Rightarrow> btdht_Client \<Rightarrow> btdht_Client" where
  "btdht_setStatus ready err c = c\<lparr>bc_ready := ready, bc_lastError := err\<rparr>"

definition setPublishStatus :: "string \<Rightarrow> instant \<Rightarrow> btdht_Client \<Rightarrow> btdht_Client" where
  "setPublishStatus err at_time c =
     (let c1 = c\<lparr>bc_lastPublishErr := err\<rparr> in if at_time \<noteq> 0 then c1\<lparr>bc_lastPublished := at_time\<rparr> else c1)"

definition btdht_bootstrap :: "string option \<Rightarrow> bool \<Rightarrow> btdht_Client \<Rightarrow> btdht_Client" where
  "btdht_bootstrap err ctxEnded c =
     (case err of
        Some e \<Rightarrow> if \<not> ctxEnded then btdht_setStatus False e c else btdht_setStatus True [] c
      | None \<Rightarrow> btdht_setStatus True [] c)"

text \<open>\<open>put\<close> is the outcome of the DHT put for the payload, with whether its context had ended.\<close>

definition PublishNow ::
  "(Record \<Rightarrow> string + bytes) \<Rightarrow> (bytes \<Rightarrow> string option \<times> bool) \<Rightarrow> instant \<Rightarrow> string \<Rightarrow> string list \<Rightarrow> string list \<Rightarrow>
   btdht_Client \<Rightarrow> bytes option \<times> btdht_Client" where
  "PublishNow marshal put now label addrs quicAddrs c =
     (if addrs = [] \<and> quicAddrs = []
      then (None, setPublishStatus ''no relay or direct QUIC addresses available to publish'' 0 c)
      else
        case marshal \<lparr>rec_Version = recordSchema, rec_NodeID = bc_nodeID c, rec_Label = label, rec_RelayAddrs = addrs,
               rec_DirectQUICAddrs = quicAddrs, rec_Timestamp = Unix now\<rparr> of
          Inl e \<Rightarrow> (None, setPublishStatus e 0 c)
        | Inr payload \<Rightarrow>
            (case put payload of
               (Some e, False) \<Rightarrow> (Some payload, setPublishStatus e 0 c)
             | _ \<Rightarrow> (Some payload, setPublishStatus [] now c)))"

text \<open>\<open>WaitReady\<close> polls the client until it is ready or the context ends; \<open>states\<close> are the states it sees.\<close>

primrec btdht_WaitReady :: "btdht_Client list \<Rightarrow> string option" where
  "btdht_WaitReady [] = Some ''BitTorrent DHT not ready''"
| "btdht_WaitReady (c # cs) =
     (if bc_ready c then None
      else if cs = [] then Some (if bc_lastError c \<noteq> [] then ''BitTorrent DHT not ready: '' @ bc_lastError c else ''BitTorrent DHT not ready'')
      else btdht_WaitReady cs)"

section \<open>Byte strings of bencode\<close>

text \<open>
  The loop of \<open>decodeBencodeBytes\<close> looks for the colon; \<open>None\<close> is an error, otherwise
  its index or -1. Lengths are 64-bit integers: the sum of the start and the decoded
  length wraps, and a slice expression out of range panics.
\<close>

datatype bencode_result = BytesOk string | BytesErr | BytesPanic

primrec find_colon :: "nat \<Rightarrow> string \<Rightarrow> int option" where
  "find_colon i [] = Some (- 1)"
| "find_colon i (b # bs) =
     (if b = CHR '':'' then Some (int i) else if \<not> is_digit b then None else find_colon (Suc i) bs)"

definition wrap64 :: "int \<Rightarrow> int" where
  "wrap64 x = (x + 2 ^ 63) mod 2 ^ 64 - 2 ^ 63"

definition slice_expr :: "string \<Rightarrow> int \<Rightarrow> int \<Rightarrow> bencode_result" where
  "slice_expr s lo hi =
     (if 0 \<le> lo \<and> lo \<le> hi \<and> hi \<le> int (length s) then BytesOk (take (nat hi - nat lo) (drop (nat lo) s)) else BytesPanic)"

definition decodeBencodeBytes :: "string \<Rightarrow> bencode_result" where
  "decodeBencodeBytes s =
     (case find_colon 0 s of
        None \<Rightarrow> BytesErr
      | Some colon \<Rightarrow>
          if colon \<le> 0 then BytesErr
          else case Atoi (take (nat colon) s) of
            None \<Rightarrow> BytesErr
          | Some n \<Rightarrow>
              let start = colon + 1 in
              if n < 0 \<or> wrap64 (start + n) > int (length s) then BytesErr
              else slice_expr s start (wrap64 (start + n)))"

section \<open>Lookup\<close>

datatype lookup_error =
    LookupDisabled | LookupKey | LookupKeyLength | LookupGet string | LookupBencode | LookupJSON | LookupSchema int | LookupNode
  | LookupStale | LookupNoRelays | LookupPanic

text \<open>\<open>get\<close> is the verified DHT get under the target of a public key.\<close>

definition check_record :: "string \<Rightarrow> instant \<Rightarrow> Record \<Rightarrow> lookup_error + Record" where
  "check_record expectedNodeID now r =
     (if rec_Version r \<noteq> recordSchema then Inl (LookupSchema (rec_Version r))
      else if expectedNodeID \<noteq> [] \<and> rec_NodeID r \<noteq> expectedNodeID then Inl LookupNode
      else if now - time_Unix (rec_Timestamp r) > recordMaxAge then Inl LookupStale
      else Inr r)"

definition LookupRecord ::
  "(bytes \<Rightarrow> string + string) \<Rightarrow> (string \<Rightarrow> Record option) \<Rightarrow> instant \<Rightarrow> string \<Rightarrow> string \<Rightarrow> btdht_Client option \<Rightarrow> lookup_error + Record" where
  "LookupRecord get unmarshal now publicKeyHex expectedNodeID c =
     (case c of
        None \<Rightarrow> Inl LookupDisabled
      | Some c \<Rightarrow>
          (case hexDecode publicKeyHex of
             None \<Rightarrow> Inl LookupKey
           | Some keyBytes \<Rightarrow>
               if length keyBytes \<noteq> 32 then Inl LookupKeyLength
               else case get keyBytes of
                 Inl e \<Rightarrow> Inl (LookupGet e)
               | Inr v \<Rightarrow>
                   (case decodeBencodeBytes v of
                      BytesErr \<Rightarrow> Inl LookupBencode
                    | BytesPanic \<Rightarrow> Inl LookupPanic
                    | BytesOk encoded \<Rightarrow>
                        (case unmarshal encoded of
                           None \<Rightarrow> Inl LookupJSON
                         | Some r \<Rightarrow> check_record expectedNodeID now r))))"

definition btdht_Lookup ::
  "(bytes \<Rightarrow> string + string) \<Rightarrow> (string \<Rightarrow> Record option) \<Rightarrow> instant \<Rightarrow> string \<Rightarrow> string \<Rightarrow> btdht_Client option \<Rightarrow> lookup_error + string list" where
  "btdht_Lookup get unmarshal now publicKeyHex expectedNodeID c =
     (case LookupRecord get unmarshal now publicKeyHex expectedNodeID c of
        Inl e \<Rightarrow> Inl e
      | Inr r \<Rightarrow> if rec_RelayAddrs r = [] then Inl LookupNoRelays else Inr (rec_RelayAddrs r))"

definition LookupDirectQUIC ::
  "(bytes \<Rightarrow> string + string) \<Rightarrow> (string \<Rightarrow> Record option) \<Rightarrow> instant \<Rightarrow> string \<Rightarrow> string \<Rightarrow> btdht_Client option \<Rightarrow>
   lookup_error + string list \<times> string list" where
  "LookupDirectQUIC get unmarshal now publicKeyHex expectedNodeID c =
     (case LookupRecord get unmarshal now publicKeyHex expectedNodeID c of
        Inl e \<Rightarrow> Inl e
      | Inr r \<Rightarrow> Inr (rec_RelayAddrs r, rec_DirectQUICAddrs r))"

section \<open>Properties\<close>

lemma colon_not_digit [simp]: "\<not> is_digit (CHR '':'')"
  by (simp add: is_digit_def char_code_def)

lemma find_colon_digits:
  "find_colon i s = (case dropWhile is_digit s of
     [] \<Rightarrow> Some (- 1)
   | b # r \<Rightarrow> if b = CHR '':'' then Some (int (i + length (takeWhile is_digit s))) else None)"
  by (induction s arbitrary: i) (auto split: list.split simp del: dropWhile_eq_Nil_conv)

lemma digits_split:
  "s = ds @ CHR '':'' # r \<and> list_all is_digit ds \<longleftrightarrow> takeWhile is_digit s = ds \<and> dropWhile is_digit s = CHR '':'' # r"
proof
  assume "s = ds @ CHR '':'' # r \<and> list_all is_digit ds"
  then show "takeWhile is_digit s = ds \<and> dropWhile is_digit s = CHR '':'' # r"
    by (simp add: list_all_iff takeWhile_append2 dropWhile_append2)
next
  assume a: "takeWhile is_digit s = ds \<and> dropWhile is_digit s = CHR '':'' # r"
  have "s = takeWhile is_digit s @ dropWhile is_digit s" by simp
  moreover have "list_all is_digit (takeWhile is_digit s)" by (auto simp: list_all_iff dest: set_takeWhileD)
  ultimately show "s = ds @ CHR '':'' # r \<and> list_all is_digit ds" using a by metis
qed

lemma Atoi_digits:
  assumes "ds \<noteq> []" "list_all is_digit ds"
  shows "Atoi ds = (if int (digits_value ds) \<le> max_int64 then Some (int (digits_value ds)) else None)"
proof -
  obtain c t where c: "ds = c # t" using assms(1) by (cases ds) auto
  then have "is_digit c" using assms(2) by simp
  then have "\<not> HasPrefix ds ''-''" "\<not> HasPrefix ds ''+''" using c by (auto simp: HasPrefix_def is_digit_def char_code_def)
  then show ?thesis using assms by (simp add: Atoi_def Let_def max_int64_def)
qed

lemma wrap64_small: "- (2 ^ 63) \<le> x \<Longrightarrow> x < 2 ^ 63 \<Longrightarrow> wrap64 x = x"
  by (simp add: wrap64_def)

lemma wrap64_over: "2 ^ 63 \<le> x \<Longrightarrow> x < 2 ^ 64 \<Longrightarrow> wrap64 x = x - 2 ^ 64"
proof -
  assume a: "2 ^ 63 \<le> x" "x < 2 ^ 64"
  have e: "x + 2 ^ 63 = (x - 2 ^ 63) + 2 ^ 64" by simp
  have "(x - 2 ^ 63) mod 2 ^ 64 = x - 2 ^ 63" using a by (intro mod_pos_pos_trivial) auto
  then show ?thesis unfolding wrap64_def e mod_add_self2 by simp
qed

lemma decodeBencodeBytes_cases:
  assumes len: "int (length s) \<le> max_int64"
  shows "decodeBencodeBytes s =
    (case dropWhile is_digit s of
       [] \<Rightarrow> BytesErr
     | b # r \<Rightarrow>
         let ds = takeWhile is_digit s; n = digits_value ds in
         if b \<noteq> CHR '':'' \<or> ds = [] \<or> int n > max_int64 then BytesErr
         else if int (length ds) + 1 + int n > max_int64 then BytesPanic
         else if n \<le> length r then BytesOk (take n r) else BytesErr)"
proof (cases "\<exists>r. dropWhile is_digit s = CHR '':'' # r \<and> takeWhile is_digit s \<noteq> []")
  case False
  then show ?thesis by (auto simp: decodeBencodeBytes_def find_colon_digits split: list.split)
next
  case True
  then obtain r where r: "dropWhile is_digit s = CHR '':'' # r" "takeWhile is_digit s \<noteq> []" by auto
  define ds where "ds = takeWhile is_digit s"
  have s: "s = ds @ CHR '':'' # r" "list_all is_digit ds" using digits_split [of s ds r] r by (auto simp: ds_def)
  let ?n = "digits_value ds"
  have c: "find_colon 0 s = Some (int (length ds))" using r by (simp add: find_colon_digits ds_def)
  have pos: "0 < int (length ds)" using r by (simp add: ds_def)
  have t: "take (nat (int (length ds))) s = ds" using s by simp
  have a: "Atoi ds = (if int ?n \<le> max_int64 then Some (int ?n) else None)"
    using Atoi_digits s(2) r(2) by (simp add: ds_def)
  have l: "int (length s) = int (length ds) + 1 + int (length r)" using s by simp
  show ?thesis
  proof (cases "int ?n \<le> max_int64")
    case False
    then show ?thesis using c pos t a r by (simp add: decodeBencodeBytes_def ds_def)
  next
    case n: True
    let ?h = "int (length ds) + 1 + int ?n"
    have unf: "decodeBencodeBytes s =
        (if wrap64 ?h > int (length s) then BytesErr else slice_expr s (int (length ds) + 1) (wrap64 ?h))"
      using c pos t a n by (simp add: decodeBencodeBytes_def Let_def)
    show ?thesis
    proof (cases "?h > max_int64")
      case True
      then have "wrap64 ?h = ?h - 2 ^ 64" using n len l by (intro wrap64_over) (auto simp: max_int64_def)
      then have "wrap64 ?h < 0" using n len l by (simp add: max_int64_def)
      then show ?thesis using unf True n r by (simp add: slice_expr_def ds_def)
    next
      case False
      then have w: "wrap64 ?h = ?h" using pos by (intro wrap64_small) (auto simp: max_int64_def)
      have d: "drop (Suc (length ds)) s = r" using s by simp
      have e: "nat ?h - nat (int (length ds) + 1) = ?n" "nat (int (length ds) + 1) = Suc (length ds)" by simp_all
      show ?thesis using unf w False n r l d e by (auto simp: slice_expr_def ds_def Let_def)
    qed
  qed
qed

text \<open>
  C26: Decoding a bencoded byte string of a received DHT item returns data exactly when the input is
  decimal digits, a colon and at least as many bytes as the digits say, and then exactly
  those bytes; it panics, instead of reporting an error, exactly when the digits denote a number
  that fits a 64-bit integer but overflows it once the length of the prefix is added.
\<close>

theorem decodeBencodeBytes_correct:
  assumes "int (length s) \<le> max_int64"
  shows "(decodeBencodeBytes s = BytesOk d \<longleftrightarrow>
      (\<exists>ds rest. s = ds @ CHR '':'' # d @ rest \<and> ds \<noteq> [] \<and> list_all is_digit ds \<and> digits_value ds = length d))
    \<and> (decodeBencodeBytes s = BytesPanic \<longleftrightarrow>
      (\<exists>ds rest. s = ds @ CHR '':'' # rest \<and> ds \<noteq> [] \<and> list_all is_digit ds
         \<and> int (digits_value ds) \<le> max_int64 \<and> max_int64 < int (length ds) + 1 + int (digits_value ds)))"
    (is "(?L \<longleftrightarrow> ?R) \<and> (?P \<longleftrightarrow> ?Q)")
proof -
  note cs = decodeBencodeBytes_cases [OF assms]
  have R: ?R if l: ?L
  proof -
    obtain r where r: "dropWhile is_digit s = CHR '':'' # r" "takeWhile is_digit s \<noteq> []"
        "digits_value (takeWhile is_digit s) \<le> length r" "d = take (digits_value (takeWhile is_digit s)) r"
      using l by (auto simp: cs Let_def split: list.splits if_splits)
    have "s = takeWhile is_digit s @ CHR '':'' # d @ drop (digits_value (takeWhile is_digit s)) r"
      using takeWhile_dropWhile_id [of is_digit s] r by simp
    moreover have "list_all is_digit (takeWhile is_digit s)" by (auto simp: list_all_iff dest: set_takeWhileD)
    moreover have "digits_value (takeWhile is_digit s) = length d" using r by simp
    ultimately show ?thesis using r(2) by metis
  qed
  have L: ?L if r: ?R
  proof -
    obtain ds rest where s: "s = ds @ CHR '':'' # d @ rest" "ds \<noteq> []" "list_all is_digit ds" "digits_value ds = length d"
      using r by auto
    have "takeWhile is_digit s = ds" "dropWhile is_digit s = CHR '':'' # d @ rest"
      using digits_split [of s ds "d @ rest"] s by auto
    moreover have "int (length s) = int (length ds) + 1 + int (length d) + int (length rest)" using s(1) by simp
    ultimately show ?thesis unfolding cs using s(2,4) assms by (simp add: Let_def)
  qed
  have "?P \<longleftrightarrow> ?Q"
  proof
    assume ?P
    then obtain r where r: "dropWhile is_digit s = CHR '':'' # r" "takeWhile is_digit s \<noteq> []"
        "int (digits_value (takeWhile is_digit s)) \<le> max_int64"
        "max_int64 < int (length (takeWhile is_digit s)) + 1 + int (digits_value (takeWhile is_digit s))"
      by (auto simp: cs Let_def split: list.splits if_splits)
    then show ?Q using digits_split [of s "takeWhile is_digit s" r] by blast
  next
    assume ?Q
    then obtain ds rest where s: "s = ds @ CHR '':'' # rest" "ds \<noteq> []" "list_all is_digit ds"
        "int (digits_value ds) \<le> max_int64" "max_int64 < int (length ds) + 1 + int (digits_value ds)" by auto
    then have "takeWhile is_digit s = ds" "dropWhile is_digit s = CHR '':'' # rest"
      using digits_split [of s ds rest] by auto
    then show ?P unfolding cs using s(2-5) by (simp add: Let_def)
  qed
  with R L show ?thesis by blast
qed

theorem decodeBencodeBytes_correct_witness:
  "decodeBencodeBytes ''3:abcd'' = BytesOk ''abc'' \<and> decodeBencodeBytes ''9223372036854775807:'' = BytesPanic"
proof -
  have "decodeBencodeBytes ''3:abcd'' = BytesOk ''abc''"
  proof (rule decodeBencodeBytes_correct [THEN conjunct1, THEN iffD2])
    show "int (length ''3:abcd'') \<le> max_int64" by (simp add: max_int64_def)
    show "\<exists>ds rest. ''3:abcd'' = ds @ CHR '':'' # ''abc'' @ rest \<and> ds \<noteq> [] \<and> list_all is_digit ds \<and> digits_value ds = length ''abc''"
      by (intro exI [of _ "''3''"] exI [of _ "''d''"]) (simp add: is_digit_def char_code_def digits_value_def)
  qed
  moreover have "decodeBencodeBytes ''9223372036854775807:'' = BytesPanic"
  proof (rule decodeBencodeBytes_correct [THEN conjunct2, THEN iffD2])
    show "int (length ''9223372036854775807:'') \<le> max_int64" by (simp add: max_int64_def)
    show "\<exists>ds rest. ''9223372036854775807:'' = ds @ CHR '':'' # rest \<and> ds \<noteq> [] \<and> list_all is_digit ds
         \<and> int (digits_value ds) \<le> max_int64 \<and> max_int64 < int (length ds) + 1 + int (digits_value ds)"
      by (intro exI [of _ "''9223372036854775807''"] exI [of _ "[]"]) (simp add: is_digit_def char_code_def digits_value_def max_int64_def)
  qed
  ultimately show ?thesis by simp
qed

end
