(* ===== verification/Quicnet.thy ===== *)
theory Quicnet
  imports Netbackend
begin

text \<open>
  The direct QUIC backend, \<open>internal/quicnet/quicnet.go\<close>: endpoints, certificates,
  the cache of connections and the streams opened over them, the dispatch of accepted
  streams, and the discovery of the own addresses. The QUIC library, X.509 parsing and
  the sockets are arguments; the handshake of QUIC proves the possession of the key in
  the certificate a peer presents.
\<close>

section \<open>Endpoints\<close>

definition kindPair :: byte where "kindPair = 1"
definition kindTun :: byte where "kindTun = 2"

datatype quic_error =
    InvalidEndpoint | BadKeyHex | BadKeySize | DialQUIC | OpenQUICStream | WriteStreamKind
  | MissingCertificate | BadCertificate | NotEd25519 | KeyMismatch

definition Endpoint :: "string \<Rightarrow> string \<Rightarrow> string" where
  "Endpoint publicKeyHex addr = ToLower publicKeyHex @ ''@'' @ addr"

definition parseEndpoint :: "string \<Rightarrow> quic_error + string \<times> bytes" where
  "parseEndpoint endpoint =
     (case Cut endpoint ''@'' of (pubHex, addr, ok) \<Rightarrow>
        if \<not> ok \<or> TrimSpace addr = [] then Inl InvalidEndpoint
        else case hexDecode pubHex of
          None \<Rightarrow> Inl BadKeyHex
        | Some pubBytes \<Rightarrow> if length pubBytes \<noteq> 32 then Inl BadKeySize else Inr (addr, pubBytes))"

section \<open>Certificates\<close>

text \<open>What \<open>x509.ParseCertificate\<close> finds as the public key of a certificate.\<close>

datatype cert_key = Ed25519Key bytes | OtherKey

definition publicKeyFromRawCerts :: "(bytes \<Rightarrow> cert_key option) \<Rightarrow> bytes list \<Rightarrow> quic_error + bytes" where
  "publicKeyFromRawCerts parse rawCerts =
     (if rawCerts = [] then Inl MissingCertificate
      else case parse (hd rawCerts) of
        None \<Rightarrow> Inl BadCertificate
      | Some OtherKey \<Rightarrow> Inl NotEd25519
      | Some (Ed25519Key pub) \<Rightarrow> if length pub \<noteq> 32 then Inl NotEd25519 else Inr pub)"

definition verifyPeer :: "(bytes \<Rightarrow> cert_key option) \<Rightarrow> bytes list \<Rightarrow> bytes \<Rightarrow> quic_error option" where
  "verifyPeer parse rawCerts expected =
     (case publicKeyFromRawCerts parse rawCerts of
        Inl e \<Rightarrow> Some e
      | Inr pub \<Rightarrow> if pub \<noteq> expected then Some KeyMismatch else None)"

text \<open>\<open>toPeerID\<close> stands for the conversion of a key to a libp2p peer identifier.\<close>

definition peerIDFromTLSState :: "(bytes \<Rightarrow> string option) \<Rightarrow> cert_key list \<Rightarrow> string" where
  "peerIDFromTLSState toPeerID certs =
     (if certs = [] then []
      else case hd certs of
        OtherKey \<Rightarrow> []
      | Ed25519Key pub \<Rightarrow> (case toPeerID pub of None \<Rightarrow> [] | Some pid \<Rightarrow> pid))"

definition PublicKeyHexFromPrivate :: "bytes \<Rightarrow> string option" where
  "PublicKeyHexFromPrivate pub = (if length pub \<noteq> 32 then None else Some (hexEncode pub))"

section \<open>The backend\<close>

text \<open>
  Connections are numbered; \<open>qb_pool\<close> lists every connection the backend ever dialled
  with the certificates its peer presented, its address and whether it was closed.
\<close>

record quic_conn =
  qc_certs :: "bytes list"
  qc_addr :: string
  qc_closed :: bool

record quic_Backend =
  qb_listening :: bool
  qb_listenAddr :: string
  qb_pairingHandler :: "nat option"
  qb_tunnelHandler :: "nat option"
  qb_conns :: "(string, nat) gomap"
  qb_pool :: "quic_conn list"
  qb_stunAddrs :: "string list"
  qb_stunServers :: "string list"

definition SetHandlers :: "nat option \<Rightarrow> nat option \<Rightarrow> quic_Backend \<Rightarrow> quic_Backend" where
  "SetHandlers pairing tunnel b = b\<lparr>qb_pairingHandler := pairing, qb_tunnelHandler := tunnel\<rparr>"

definition close_conn :: "nat \<Rightarrow> quic_Backend \<Rightarrow> quic_Backend" where
  "close_conn i b =
     (if i < length (qb_pool b) then b\<lparr>qb_pool := (qb_pool b)[i := (qb_pool b ! i)\<lparr>qc_closed := True\<rparr>]\<rparr> else b)"

definition quic_Close :: "quic_Backend \<Rightarrow> quic_Backend" where
  "quic_Close b =
     (foldl (\<lambda>b (key, i). let b1 = close_conn i b in b1\<lparr>qb_conns := map_del key (qb_conns b1)\<rparr>) b (qb_conns b))
       \<lparr>qb_listening := False\<rparr>"

definition conn_key :: "bytes \<Rightarrow> string \<Rightarrow> string" where
  "conn_key expectedPub addr = hexEncode expectedPub @ ''@'' @ addr"

text \<open>\<open>cachedConn\<close> releases the lock while it dials: first the lookup, then the dial, then the store.\<close>

definition cachedConn_lookup :: "string \<Rightarrow> quic_Backend \<Rightarrow> nat option" where
  "cachedConn_lookup key b = map_get (qb_conns b) key"

definition cachedConn_dial ::
  "(bytes \<Rightarrow> cert_key option) \<Rightarrow> (string \<Rightarrow> bytes list option) \<Rightarrow> string \<Rightarrow> bytes \<Rightarrow> quic_error + quic_conn" where
  "cachedConn_dial parse dial addr expectedPub =
     (case dial addr of
        None \<Rightarrow> Inl DialQUIC
      | Some certs \<Rightarrow>
          (case verifyPeer parse certs expectedPub of
             Some e \<Rightarrow> Inl DialQUIC
           | None \<Rightarrow> Inr \<lparr>qc_certs = certs, qc_addr = addr, qc_closed = False\<rparr>))"

definition cachedConn_store :: "string \<Rightarrow> quic_conn \<Rightarrow> quic_Backend \<Rightarrow> nat \<times> quic_Backend" where
  "cachedConn_store key conn b =
     (let i = length (qb_pool b) in
      (i, b\<lparr>qb_pool := qb_pool b @ [conn], qb_conns := map_set key i (qb_conns b)\<rparr>))"

definition cachedConn ::
  "(bytes \<Rightarrow> cert_key option) \<Rightarrow> (string \<Rightarrow> bytes list option) \<Rightarrow> string \<Rightarrow> bytes \<Rightarrow> quic_Backend \<Rightarrow> (quic_error + nat) \<times> quic_Backend" where
  "cachedConn parse dial addr expectedPub b =
     (let key = conn_key expectedPub addr in
      case cachedConn_lookup key b of
        Some i \<Rightarrow> (Inr i, b)
      | None \<Rightarrow>
          (case cachedConn_dial parse dial addr expectedPub of
             Inl e \<Rightarrow> (Inl e, b)
           | Inr conn \<Rightarrow> (case cachedConn_store key conn b of (i, b1) \<Rightarrow> (Inr i, b1))))"

definition dropConn :: "string \<Rightarrow> quic_Backend \<Rightarrow> quic_Backend" where
  "dropConn endpoint b =
     (case parseEndpoint endpoint of
        Inl _ \<Rightarrow> b
      | Inr (addr, expectedPub) \<Rightarrow>
          let key = conn_key expectedPub addr in
          case map_get (qb_conns b) key of
            None \<Rightarrow> b
          | Some i \<Rightarrow> let b1 = close_conn i b in b1\<lparr>qb_conns := map_del key (qb_conns b1)\<rparr>)"

text \<open>
  A stream is the connection it runs over and the bytes written first. \<open>opens i\<close> says
  whether the connection accepts a new stream now, \<open>writes i\<close> whether the first byte
  can be written. A closed connection accepts none.
\<close>

record quic_stream =
  qs_conn :: nat
  qs_kind :: byte

definition openStream_on ::
  "(nat \<Rightarrow> bool) \<Rightarrow> (nat \<Rightarrow> bool) \<Rightarrow> string \<Rightarrow> byte \<Rightarrow> nat \<Rightarrow> quic_Backend \<Rightarrow> (quic_error + quic_stream) \<times> quic_Backend" where
  "openStream_on opens writes endpoint kind i b =
     (if \<not> opens i \<or> i \<ge> length (qb_pool b) \<or> qc_closed (qb_pool b ! i)
      then (Inl OpenQUICStream, dropConn endpoint b)
      else if \<not> writes i then (Inl WriteStreamKind, b)
      else (Inr \<lparr>qs_conn = i, qs_kind = kind\<rparr>, b))"

definition openStream ::
  "(bytes \<Rightarrow> cert_key option) \<Rightarrow> (string \<Rightarrow> bytes list option) \<Rightarrow> (nat \<Rightarrow> bool) \<Rightarrow> (nat \<Rightarrow> bool) \<Rightarrow> string \<Rightarrow> byte \<Rightarrow>
   quic_Backend \<Rightarrow> (quic_error + quic_stream) \<times> quic_Backend" where
  "openStream parse dial opens writes endpoint kind b =
     (case parseEndpoint endpoint of
        Inl e \<Rightarrow> (Inl e, b)
      | Inr (addr, expectedPub) \<Rightarrow>
          (case cachedConn parse dial addr expectedPub b of
             (Inl e, b1) \<Rightarrow> (Inl e, b1)
           | (Inr i, b1) \<Rightarrow> openStream_on opens writes endpoint kind i b1))"

definition quic_OpenPairing ::
  "(bytes \<Rightarrow> cert_key option) \<Rightarrow> (string \<Rightarrow> bytes list option) \<Rightarrow> (nat \<Rightarrow> bool) \<Rightarrow> (nat \<Rightarrow> bool) \<Rightarrow> string \<Rightarrow>
   quic_Backend \<Rightarrow> (quic_error + quic_stream) \<times> quic_Backend" where
  "quic_OpenPairing parse dial opens writes endpoint b = openStream parse dial opens writes endpoint kindPair b"

definition quic_OpenTunnel ::
  "(bytes \<Rightarrow> cert_key option) \<Rightarrow> (string \<Rightarrow> bytes list option) \<Rightarrow> (nat \<Rightarrow> bool) \<Rightarrow> (nat \<Rightarrow> bool) \<Rightarrow> string \<Rightarrow>
   quic_Backend \<Rightarrow> (quic_error + quic_stream) \<times> quic_Backend" where
  "quic_OpenTunnel parse dial opens writes endpoint b = openStream parse dial opens writes endpoint kindTun b"

section \<open>Accepting\<close>

datatype stream_fate = HandedTo nat string | StreamClosed

text \<open>\<open>kind\<close> is the first byte of the stream, absent when reading it failed.\<close>

definition handleStream :: "byte option \<Rightarrow> string \<Rightarrow> quic_Backend \<Rightarrow> stream_fate" where
  "handleStream kind remotePeerID b =
     (case kind of
        None \<Rightarrow> StreamClosed
      | Some k \<Rightarrow>
          if k = kindPair then (case qb_pairingHandler b of Some h \<Rightarrow> HandedTo h remotePeerID | None \<Rightarrow> StreamClosed)
          else if k = kindTun then (case qb_tunnelHandler b of Some h \<Rightarrow> HandedTo h remotePeerID | None \<Rightarrow> StreamClosed)
          else StreamClosed)"

text \<open>The streams of one accepted connection, until \<open>AcceptStream\<close> fails.\<close>

definition handleConn :: "(bytes \<Rightarrow> string option) \<Rightarrow> cert_key list \<Rightarrow> byte option list \<Rightarrow> quic_Backend \<Rightarrow> stream_fate list" where
  "handleConn toPeerID certs streams b =
     (let remotePeerID = peerIDFromTLSState toPeerID certs in map (\<lambda>k. handleStream k remotePeerID b) streams)"

definition isServerClosed :: "string option \<Rightarrow> bool" where
  "isServerClosed err =
     (case err of
        None \<Rightarrow> False
      | Some e \<Rightarrow>
          let msg = ToLower e in
          Contains msg ''server closed'' \<or> Contains msg ''use of closed network connection'' \<or> Contains msg ''closed listener'')"

datatype accept_event = AcceptOk "cert_key list" "byte option list" | AcceptErr bool string

text \<open>The accept loop over what \<open>Accept\<close> returns; an error carries whether the context has ended.\<close>

primrec acceptLoop :: "accept_event list \<Rightarrow> (cert_key list \<times> byte option list) list \<times> bool" where
  "acceptLoop [] = ([], False)"
| "acceptLoop (e # es) =
     (case e of
        AcceptOk certs streams \<Rightarrow> (case acceptLoop es of (hs, ended) \<Rightarrow> ((certs, streams) # hs, ended))
      | AcceptErr cancelled msg \<Rightarrow> if cancelled \<or> isServerClosed (Some msg) then ([], True) else acceptLoop es)"

section \<open>Addresses\<close>

primrec unique_loop :: "string list \<Rightarrow> string list \<Rightarrow> string list" where
  "unique_loop [] out = out"
| "unique_loop (a # as) out =
     (let addr = TrimSpace a in
      if addr = [] then unique_loop as out
      else if addr \<in> set out then unique_loop as out
      else unique_loop as (out @ [addr]))"

definition uniqueAddrs :: "string list \<Rightarrow> string list" where
  "uniqueAddrs xs = unique_loop xs []"

datatype iface_ip = NoIP | IP bool bool "string option"

record net_iface =
  if_up :: bool
  if_loopback :: bool
  if_addrs :: "iface_ip list"

text \<open>An address: whether it is a loopback address, whether unspecified, and its IPv4 form.\<close>

primrec iface_ip_addrs :: "string \<Rightarrow> iface_ip \<Rightarrow> string list" where
  "iface_ip_addrs port NoIP = []"
| "iface_ip_addrs port (IP loopback unspecified to4) =
     (if loopback \<or> unspecified then []
      else case to4 of None \<Rightarrow> [] | Some ip4 \<Rightarrow> [JoinHostPort ip4 port])"

definition localUDPAddrs :: "net_iface list \<Rightarrow> string \<Rightarrow> string list" where
  "localUDPAddrs ifaces port =
     (let out = concat (map (\<lambda>i. if \<not> if_up i \<or> if_loopback i then [] else concat (map (iface_ip_addrs port) (if_addrs i))) ifaces)
      in if out = [] then [JoinHostPort ''127.0.0.1'' port] else out)"

definition quic_Addrs :: "net_iface list \<Rightarrow> quic_Backend option \<Rightarrow> string list" where
  "quic_Addrs ifaces bk =
     (case bk of
        None \<Rightarrow> []
      | Some b \<Rightarrow>
          (case SplitHostPort (qb_listenAddr b) of
             None \<Rightarrow> [qb_listenAddr b]
           | Some (host, port) \<Rightarrow>
               if host = [] \<or> host = ''0.0.0.0'' \<or> host = ''::''
               then uniqueAddrs (localUDPAddrs ifaces port @ qb_stunAddrs b)
               else [JoinHostPort host port]))"

text \<open>
  The packets a STUN query reads until the read deadline: whether it is a STUN message
  that decodes with the transaction of the request, and its mapped addresses.
\<close>

record stun_packet =
  sp_isMessage :: bool
  sp_decodes :: bool
  sp_transaction :: bytes
  sp_xor :: "(string \<times> nat) option"
  sp_mapped :: "(string \<times> nat) option"

datatype stun_error = StunWrite | StunDeadline | StunRead | StunNoAddress

primrec stun_read :: "bytes \<Rightarrow> stun_packet list \<Rightarrow> stun_error + string" where
  "stun_read tid [] = Inl StunRead"
| "stun_read tid (p # ps) =
     (if \<not> sp_isMessage p then stun_read tid ps
      else if \<not> sp_decodes p then stun_read tid ps
      else if sp_transaction p \<noteq> tid then stun_read tid ps
      else case sp_xor p of
        Some (ip, port) \<Rightarrow> Inr (JoinHostPort ip (Itoa (int port)))
      | None \<Rightarrow>
          (case sp_mapped p of
             Some (ip, port) \<Rightarrow> Inr (JoinHostPort ip (Itoa (int port)))
           | None \<Rightarrow> Inl StunNoAddress))"

definition querySTUN :: "bool \<Rightarrow> bool \<Rightarrow> bytes \<Rightarrow> stun_packet list \<Rightarrow> stun_error + string" where
  "querySTUN written deadlineSet tid packets =
     (if \<not> written then Inl StunWrite else if \<not> deadlineSet then Inl StunDeadline else stun_read tid packets)"

primrec discover_loop :: "(string \<Rightarrow> string option) \<Rightarrow> (string \<Rightarrow> stun_error + string) \<Rightarrow> string list \<Rightarrow> string list \<times> string list" where
  "discover_loop resolve query [] = ([], [])"
| "discover_loop resolve query (server # rest) =
     (case discover_loop resolve query rest of (addrs, resolved) \<Rightarrow>
        (case resolve server of
           None \<Rightarrow> (addrs, resolved)
         | Some addr \<Rightarrow>
             (case query addr of
                Inl _ \<Rightarrow> (addrs, addr # resolved)
              | Inr mapped \<Rightarrow> (mapped # addrs, addr # resolved))))"

definition discoverSTUNAddrs ::
  "(string \<Rightarrow> string option) \<Rightarrow> (string \<Rightarrow> stun_error + string) \<Rightarrow> string list \<Rightarrow> string list \<times> string list" where
  "discoverSTUNAddrs resolve query servers =
     (case discover_loop resolve query servers of (addrs, resolved) \<Rightarrow> (uniqueAddrs addrs, resolved))"

definition googleSTUNServers :: "string list" where
  "googleSTUNServers = [''stun.l.google.com:19302'', ''stun1.l.google.com:19302'', ''stun2.l.google.com:19302'',
     ''stun3.l.google.com:19302'', ''stun4.l.google.com:19302'']"

definition sendSTUNKeepalive :: "(string \<Rightarrow> bool) \<Rightarrow> quic_Backend option \<Rightarrow> nat" where
  "sendSTUNKeepalive writes bk = (case bk of None \<Rightarrow> 0 | Some b \<Rightarrow> length (filter writes (qb_stunServers b)))"

text \<open>
  Starting: a disabled mode gives no backend and no error. \<open>listenPacket\<close> is whether
  the UDP socket opens, \<open>listen\<close> the address of the QUIC listener.
\<close>

datatype quic_new_error = QuicCertificate | ListenPacket | ListenQUIC

definition quic_New ::
  "Config option \<Rightarrow> bool \<Rightarrow> bool \<Rightarrow> (string \<Rightarrow> string option) \<Rightarrow> (string \<Rightarrow> stun_error + string) \<Rightarrow> string option \<Rightarrow>
   quic_new_error + quic_Backend option" where
  "quic_New c certOk listenPacket resolve query listen =
     (case c of
        None \<Rightarrow> Inr None
      | Some cf \<Rightarrow>
          if bt_Mode (cfg_BTDHT cf) = [] \<or> bt_Mode (cfg_BTDHT cf) = ''disabled'' then Inr None
          else if \<not> certOk then Inl QuicCertificate
          else if \<not> listenPacket then Inl ListenPacket
          else case discoverSTUNAddrs resolve query googleSTUNServers of (stunAddrs, stunServers) \<Rightarrow>
            (case listen of
               None \<Rightarrow> Inl ListenQUIC
             | Some addr \<Rightarrow> Inr (Some \<lparr>qb_listening = True, qb_listenAddr = addr, qb_pairingHandler = None, qb_tunnelHandler = None,
                 qb_conns = [], qb_pool = [], qb_stunAddrs = stunAddrs, qb_stunServers = stunServers\<rparr>)))"

section \<open>Endpoints and keys determine each other\<close>

lemma hexEncode_no_at: "CHR ''@'' \<notin> set (hexEncode bs)"
proof -
  have "hextable ! k \<noteq> CHR ''@''" if "k < 16" for k
  proof -
    have "hextable ! k \<in> set hextable" using that by (intro nth_mem) (simp add: hextable_def)
    moreover have "CHR ''@'' \<notin> set hextable" by (simp add: hextable_def)
    ultimately show ?thesis by metis
  qed
  moreover have "unat b div 16 < 16" "unat b mod 16 < 16" for b :: byte
  proof -
    have "unat b < 2 ^ LENGTH(8)" by (rule unsigned_less)
    then have "unat b < 16 * 16" by simp
    then show "unat b div 16 < 16" "unat b mod 16 < 16" by (simp_all add: less_mult_imp_div_less)
  qed
  ultimately have "hextable ! (unat b div 16) \<noteq> CHR ''@''" "hextable ! (unat b mod 16) \<noteq> CHR ''@''" for b :: byte
    by blast+
  then show ?thesis by (auto simp: hexEncode_def dest: sym)
qed

lemma Cut_conn_key: "Cut (conn_key pub addr) ''@'' = (hexEncode pub, addr, True)"
  unfolding conn_key_def using Cut_at [OF hexEncode_no_at, of pub addr] by simp

lemma conn_key_inject [simp]: "conn_key pub addr = conn_key pub' addr' \<longleftrightarrow> pub = pub' \<and> addr = addr'"
  by (metis Cut_conn_key hexEncode_inject prod.inject)

lemma parseEndpoint_conn_key:
  "length pub = 32 \<Longrightarrow> TrimSpace addr \<noteq> [] \<Longrightarrow> parseEndpoint (conn_key pub addr) = Inr (addr, pub)"
  by (simp add: parseEndpoint_def Cut_conn_key)

lemma parseEndpoint_Inr: "parseEndpoint ep = Inr (addr, pub) \<Longrightarrow> length pub = 32 \<and> TrimSpace addr \<noteq> []"
  by (auto simp: parseEndpoint_def split: prod.splits if_splits option.splits)

section \<open>Calls that interleave\<close>

text \<open>
  A call of \<open>openStream\<close> is dialling (the lock is released), holds a connection it is
  about to open a stream on, or has returned.
\<close>

datatype quic_call =
    Dialling string byte
  | Holding string byte nat
  | Returned string byte "quic_error + quic_stream"

type_synonym quic_system = "quic_Backend \<times> quic_call list"

inductive quic_step :: "(bytes \<Rightarrow> cert_key option) \<Rightarrow> quic_system \<Rightarrow> quic_system \<Rightarrow> bool"
  for parse :: "bytes \<Rightarrow> cert_key option" where
  call_bad: "parseEndpoint ep = Inl e \<Longrightarrow> quic_step parse (b, cs) (b, cs @ [Returned ep kind (Inl e)])"
| call_cached: "parseEndpoint ep = Inr (addr, pub) \<Longrightarrow> cachedConn_lookup (conn_key pub addr) b = Some i \<Longrightarrow>
    quic_step parse (b, cs) (b, cs @ [Holding ep kind i])"
| call_dial: "parseEndpoint ep = Inr (addr, pub) \<Longrightarrow> cachedConn_lookup (conn_key pub addr) b = None \<Longrightarrow>
    quic_step parse (b, cs) (b, cs @ [Dialling ep kind])"
| dial_failed: "k < length cs \<Longrightarrow> cs ! k = Dialling ep kind \<Longrightarrow> parseEndpoint ep = Inr (addr, pub) \<Longrightarrow>
    cachedConn_dial parse dial addr pub = Inl e \<Longrightarrow>
    quic_step parse (b, cs) (b, cs[k := Returned ep kind (Inl e)])"
| dial_done: "k < length cs \<Longrightarrow> cs ! k = Dialling ep kind \<Longrightarrow> parseEndpoint ep = Inr (addr, pub) \<Longrightarrow>
    cachedConn_dial parse dial addr pub = Inr conn \<Longrightarrow> cachedConn_store (conn_key pub addr) conn b = (i, b') \<Longrightarrow>
    quic_step parse (b, cs) (b', cs[k := Holding ep kind i])"
| stream: "k < length cs \<Longrightarrow> cs ! k = Holding ep kind i \<Longrightarrow> openStream_on opens writes ep kind i b = (r, b') \<Longrightarrow>
    quic_step parse (b, cs) (b', cs[k := Returned ep kind r])"
| handlers: "quic_step parse (b, cs) (SetHandlers p t b, cs)"
| shutdown: "quic_step parse (b, cs) (quic_Close b, cs)"

inductive_cases quic_stepE: "quic_step parse s t"

definition conn_for :: "(bytes \<Rightarrow> cert_key option) \<Rightarrow> quic_Backend \<Rightarrow> string \<Rightarrow> bytes \<Rightarrow> nat \<Rightarrow> bool" where
  "conn_for parse b addr pub i \<longleftrightarrow> i < length (qb_pool b) \<and> qc_addr (qb_pool b ! i) = addr
     \<and> verifyPeer parse (qc_certs (qb_pool b ! i)) pub = None"

definition for_endpoint :: "(bytes \<Rightarrow> cert_key option) \<Rightarrow> quic_Backend \<Rightarrow> string \<Rightarrow> nat \<Rightarrow> bool" where
  "for_endpoint parse b ep i \<longleftrightarrow> (\<exists>addr pub. parseEndpoint ep = Inr (addr, pub) \<and> conn_for parse b addr pub i)"

primrec call_ok :: "(bytes \<Rightarrow> cert_key option) \<Rightarrow> quic_Backend \<Rightarrow> quic_call \<Rightarrow> bool" where
  "call_ok parse b (Dialling ep kind) = True"
| "call_ok parse b (Holding ep kind i) = for_endpoint parse b ep i"
| "call_ok parse b (Returned ep kind r) =
     (case r of Inl e \<Rightarrow> True | Inr st \<Rightarrow> for_endpoint parse b ep (qs_conn st) \<and> qs_kind st = kind)"

definition cache_ok :: "(bytes \<Rightarrow> cert_key option) \<Rightarrow> quic_Backend \<Rightarrow> bool" where
  "cache_ok parse b \<longleftrightarrow> (\<forall>key i. map_get (qb_conns b) key = Some i \<longrightarrow> (\<exists>pub addr. key = conn_key pub addr \<and> conn_for parse b addr pub i))"

definition quic_ok :: "(bytes \<Rightarrow> cert_key option) \<Rightarrow> quic_system \<Rightarrow> bool" where
  "quic_ok parse s \<longleftrightarrow> cache_ok parse (fst s) \<and> (\<forall>c \<in> set (snd s). call_ok parse (fst s) c)"

text \<open>The pool only grows, and a connection keeps its certificates and its address.\<close>

definition pool_grows :: "quic_Backend \<Rightarrow> quic_Backend \<Rightarrow> bool" where
  "pool_grows b b' \<longleftrightarrow> length (qb_pool b) \<le> length (qb_pool b')
     \<and> (\<forall>i < length (qb_pool b). qc_addr (qb_pool b' ! i) = qc_addr (qb_pool b ! i)
          \<and> qc_certs (qb_pool b' ! i) = qc_certs (qb_pool b ! i) \<and> (qc_closed (qb_pool b ! i) \<longrightarrow> qc_closed (qb_pool b' ! i)))"

lemma pool_grows_refl [simp]: "pool_grows b b"
  by (simp add: pool_grows_def)

lemma pool_grows_trans: "pool_grows a b \<Longrightarrow> pool_grows b c \<Longrightarrow> pool_grows a c"
  by (auto simp: pool_grows_def)

lemma conn_for_grows: "pool_grows b b' \<Longrightarrow> conn_for parse b addr pub i \<Longrightarrow> conn_for parse b' addr pub i"
  by (auto simp: pool_grows_def conn_for_def)

lemma for_endpoint_grows: "pool_grows b b' \<Longrightarrow> for_endpoint parse b ep i \<Longrightarrow> for_endpoint parse b' ep i"
  unfolding for_endpoint_def using conn_for_grows by blast

lemma call_ok_grows: "pool_grows b b' \<Longrightarrow> call_ok parse b c \<Longrightarrow> call_ok parse b' c"
  by (cases c) (auto intro: for_endpoint_grows split: sum.splits)

lemma close_conn_grows: "pool_grows b (close_conn i b)"
  by (simp add: pool_grows_def close_conn_def nth_list_update)

lemma pool_grows_conns [simp]:
  "pool_grows b (b'\<lparr>qb_conns := m\<rparr>) = pool_grows b b'" "pool_grows (b\<lparr>qb_conns := m\<rparr>) b' = pool_grows b b'"
  "pool_grows b (b'\<lparr>qb_listening := l\<rparr>) = pool_grows b b'"
  by (simp_all add: pool_grows_def)

lemma cache_ok_shrink:
  assumes "cache_ok parse b" "pool_grows b b'" "\<And>k i. map_get (qb_conns b') k = Some i \<Longrightarrow> map_get (qb_conns b) k = Some i"
  shows "cache_ok parse b'"
  using assms conn_for_grows [OF assms(2)] unfolding cache_ok_def by blast

definition close_fold :: "quic_Backend \<Rightarrow> (string \<times> nat) list \<Rightarrow> quic_Backend" where
  "close_fold b xs = foldl (\<lambda>b (key, i). let b1 = close_conn i b in b1\<lparr>qb_conns := map_del key (qb_conns b1)\<rparr>) b xs"

lemma close_fold_simps:
  "close_fold b [] = b"
  "close_fold b ((key, i) # xs) = close_fold ((close_conn i b)\<lparr>qb_conns := map_del key (qb_conns b)\<rparr>) xs"
  by (simp_all add: close_fold_def Let_def close_conn_def)

lemma close_fold_props:
  "pool_grows b (close_fold b xs)
   \<and> (\<forall>k. map_get (qb_conns (close_fold b xs)) k = (if k \<in> fst ` set xs then None else map_get (qb_conns b) k))
   \<and> (\<forall>(k, i) \<in> set xs. i < length (qb_pool b) \<longrightarrow> qc_closed (qb_pool (close_fold b xs) ! i))"
proof (induction xs arbitrary: b)
  case Nil
  then show ?case by (simp add: close_fold_simps)
next
  case (Cons x xs)
  obtain key i where x: "x = (key, i)" by force
  let ?b = "(close_conn i b)\<lparr>qb_conns := map_del key (qb_conns b)\<rparr>"
  have g: "pool_grows b ?b" using close_conn_grows by simp
  have len: "length (qb_pool ?b) = length (qb_pool b)" by (simp add: close_conn_def)
  have c: "i < length (qb_pool b) \<Longrightarrow> qc_closed (qb_pool ?b ! i)" by (simp add: close_conn_def)
  note IH = Cons.IH [of ?b]
  then have closed: "i < length (qb_pool b) \<Longrightarrow> qc_closed (qb_pool (close_fold ?b xs) ! i)"
    using c len by (auto simp: pool_grows_def)
  show ?case
    using IH g len closed pool_grows_trans [of b ?b "close_fold ?b xs"]
    by (auto simp: x close_fold_simps go_map_simps)
qed

lemma quic_Close_props:
  "pool_grows b (quic_Close b)" "map_get (qb_conns (quic_Close b)) k = None"
  "map_get (qb_conns b) k = Some i \<Longrightarrow> i < length (qb_pool b) \<Longrightarrow> qc_closed (qb_pool (quic_Close b) ! i)"
proof -
  have q: "quic_Close b = (close_fold b (qb_conns b))\<lparr>qb_listening := False\<rparr>" by (simp add: quic_Close_def close_fold_def)
  note p = close_fold_props [of b "qb_conns b"]
  show "pool_grows b (quic_Close b)" using p by (simp add: q)
  show "map_get (qb_conns (quic_Close b)) k = None"
    using p by (auto simp: q map_of_eq_None_iff)
  show "map_get (qb_conns b) k = Some i \<Longrightarrow> i < length (qb_pool b) \<Longrightarrow> qc_closed (qb_pool (quic_Close b) ! i)"
    using p by (auto simp: q dest: map_of_SomeD)
qed

lemma dropConn_props:
  "pool_grows b (dropConn ep b)"
  "map_get (qb_conns (dropConn ep b)) k = Some i \<Longrightarrow> map_get (qb_conns b) k = Some i"
proof -
  have c: "qb_conns (close_conn j b) = qb_conns b" for j by (simp add: close_conn_def)
  show "pool_grows b (dropConn ep b)"
    by (auto simp: dropConn_def Let_def close_conn_grows split: sum.split option.split prod.split)
  show "map_get (qb_conns (dropConn ep b)) k = Some i \<Longrightarrow> map_get (qb_conns b) k = Some i"
    by (auto simp: dropConn_def Let_def c go_map_simps split: sum.splits option.splits prod.splits if_splits)
qed

lemma openStream_on_props:
  assumes "openStream_on opens writes ep kind i b = (r, b')"
  shows "pool_grows b b'" "\<And>k j. map_get (qb_conns b') k = Some j \<Longrightarrow> map_get (qb_conns b) k = Some j"
    "r = Inr st \<Longrightarrow> st = \<lparr>qs_conn = i, qs_kind = kind\<rparr> \<and> b' = b \<and> \<not> qc_closed (qb_pool b ! i)"
  using assms dropConn_props(1) [of b ep] dropConn_props(2) [of ep b] by (auto simp: openStream_on_def split: if_splits)

lemma store_props:
  assumes "cachedConn_dial parse dial addr pub = Inr conn" "cachedConn_store (conn_key pub addr) conn b = (i, b')"
  shows "pool_grows b b'" "conn_for parse b' addr pub i" "map_get (qb_conns b') k = (if conn_key pub addr = k then Some i else map_get (qb_conns b) k)"
proof -
  have i: "i = length (qb_pool b)" and b': "b' = b\<lparr>qb_pool := qb_pool b @ [conn], qb_conns := map_set (conn_key pub addr) i (qb_conns b)\<rparr>"
    using assms(2) by (auto simp: cachedConn_store_def Let_def)
  have conn: "qc_addr conn = addr" "verifyPeer parse (qc_certs conn) pub = None"
    using assms(1) by (auto simp: cachedConn_dial_def split: option.splits)
  show "pool_grows b b'" by (simp add: b' pool_grows_def nth_append)
  show "conn_for parse b' addr pub i" using conn by (simp add: b' i conn_for_def)
  show "map_get (qb_conns b') k = (if conn_key pub addr = k then Some i else map_get (qb_conns b) k)"
    by (simp add: b' go_map_simps)
qed

lemma quic_ok_update:
  assumes "quic_ok parse (b, cs)" "pool_grows b b'" "cache_ok parse b'" "call_ok parse b' c"
  shows "quic_ok parse (b', cs[k := c])" "quic_ok parse (b', cs @ [c])" "quic_ok parse (b', cs)"
  using assms call_ok_grows [OF assms(2)] by (auto simp: quic_ok_def dest!: subsetD [OF set_update_subset_insert])

lemma quic_step_ok:
  assumes "quic_step parse s t" "quic_ok parse s"
  shows "quic_ok parse t"
  using assms
proof (cases rule: quic_step.cases)
  case (call_cached ep addr pub b i cs kind)
  have "conn_for parse b addr pub i"
    using assms(2) call_cached unfolding quic_ok_def cache_ok_def cachedConn_lookup_def by fastforce
  then have "call_ok parse b (Holding ep kind i)" using call_cached by (auto simp: for_endpoint_def)
  then show ?thesis using assms(2) call_cached by (auto intro: quic_ok_update(2) simp: quic_ok_def)
next
  case (dial_done k cs ep kind addr pub dial conn b i b')
  note st = store_props [OF dial_done(6,7)]
  have "cache_ok parse b'"
    unfolding cache_ok_def
  proof (intro allI impI)
    fix key j assume "map_get (qb_conns b') key = Some j"
    then show "\<exists>pub addr. key = conn_key pub addr \<and> conn_for parse b' addr pub j"
      using st(2) st(3) [of key] assms(2) conn_for_grows [OF st(1)] dial_done(1)
      by (cases "conn_key pub addr = key") (auto simp: quic_ok_def cache_ok_def, blast+)
  qed
  moreover have "call_ok parse b' (Holding ep kind i)" using st(2) dial_done(5) by (auto simp: for_endpoint_def)
  ultimately show ?thesis using assms(2) dial_done st(1) by (auto intro: quic_ok_update(1))
next
  case (stream k cs ep kind i opens writes b r b')
  note st = openStream_on_props [OF stream(5)]
  have "cache_ok parse b'" using assms(2) stream(1) st(1,2) by (auto simp: quic_ok_def intro: cache_ok_shrink)
  moreover have "for_endpoint parse b ep i"
    using assms(2) stream(1,3,4) by (auto simp: quic_ok_def dest!: nth_mem)
  then have "call_ok parse b' (Returned ep kind r)"
    using st(3) by (auto split: sum.split)
  ultimately show ?thesis using assms(2) stream st(1) by (auto intro: quic_ok_update(1))
next
  case (handlers b cs p t')
  have "pool_grows b (SetHandlers p t' b)" by (simp add: pool_grows_def SetHandlers_def)
  moreover have "qb_conns (SetHandlers p t' b) = qb_conns b" by (simp add: SetHandlers_def)
  ultimately show ?thesis
    using assms(2) handlers cache_ok_shrink [of parse b "SetHandlers p t' b"] call_ok_grows [of b "SetHandlers p t' b"]
    by (simp add: quic_ok_def)
next
  case (shutdown b cs)
  have "cache_ok parse (quic_Close b)" by (simp add: cache_ok_def quic_Close_props(2))
  then show ?thesis using assms(2) shutdown call_ok_grows [OF quic_Close_props(1)] by (auto simp: quic_ok_def)
qed (auto simp: quic_ok_def dest!: subsetD [OF set_update_subset_insert])

definition quic_start :: "string \<Rightarrow> quic_system" where
  "quic_start addr = (\<lparr>qb_listening = True, qb_listenAddr = addr, qb_pairingHandler = None, qb_tunnelHandler = None,
     qb_conns = [], qb_pool = [], qb_stunAddrs = [], qb_stunServers = []\<rparr>, [])"

interpretation quic: concurrent_system "quic_start addr" "quic_step parse" "quic_ok parse" for addr parse
proof unfold_locales
  show "quic_ok parse (quic_start addr)" by (simp add: quic_start_def quic_ok_def cache_ok_def)
qed (rule quic_step_ok)

text \<open>
  C32: In every interleaving of calls that open streams, of dials, handler changes and
  shutdowns, a stream returned for an endpoint runs over a connection to the address of
  that endpoint whose peer presented a certificate for exactly the endpoint's Ed25519
  key, cached or not, and is marked with the kind asked for.
\<close>

theorem quic_stream_authenticated:
  assumes "(quic_step parse)\<^sup>*\<^sup>* (quic_start listenAddr) (b, cs)" "Returned ep kind (Inr st) \<in> set cs"
  shows "\<exists>addr pub. parseEndpoint ep = Inr (addr, pub) \<and> qs_kind st = kind \<and> qs_conn st < length (qb_pool b)
    \<and> qc_addr (qb_pool b ! qs_conn st) = addr
    \<and> publicKeyFromRawCerts parse (qc_certs (qb_pool b ! qs_conn st)) = Inr pub"
proof -
  have "call_ok parse b (Returned ep kind (Inr st))"
    using quic.reachable_ok [OF assms(1)] assms(2) by (auto simp: quic_ok_def simp del: call_ok.simps)
  then obtain addr pub where "parseEndpoint ep = Inr (addr, pub)" "conn_for parse b addr pub (qs_conn st)" "qs_kind st = kind"
    by (auto simp: for_endpoint_def)
  then show ?thesis
    by (auto simp: conn_for_def verifyPeer_def split: sum.splits if_splits)
qed

section \<open>A run\<close>

definition sample_pub :: bytes where "sample_pub = replicate 32 7"

definition sample_ep :: string where "sample_ep = conn_key sample_pub ''h:1''"

definition sample_parse :: "bytes \<Rightarrow> cert_key option" where "sample_parse c = Some (Ed25519Key c)"

definition sample_conn :: quic_conn where "sample_conn = \<lparr>qc_certs = [sample_pub], qc_addr = ''h:1'', qc_closed = False\<rparr>"

lemma sample_ep: "parseEndpoint sample_ep = Inr (''h:1'', sample_pub)"
  unfolding sample_ep_def by (rule parseEndpoint_conn_key) (simp add: sample_pub_def, code_simp)

lemma quic_sample_dial: "cachedConn_dial sample_parse (\<lambda>a. Some [sample_pub]) ''h:1'' sample_pub = Inr sample_conn"
  by (simp add: cachedConn_dial_def verifyPeer_def publicKeyFromRawCerts_def sample_parse_def sample_conn_def sample_pub_def)

text \<open>Two calls for one endpoint that both find no cached connection dial twice.\<close>

abbreviation two_dials :: quic_Backend where
  "two_dials \<equiv> (fst (quic_start ''a''))\<lparr>qb_pool := [sample_conn, sample_conn], qb_conns := [(sample_ep, 1)]\<rparr>"

lemma reach_two_dials:
  "(quic_step sample_parse)\<^sup>*\<^sup>* (quic_start ''a'') (two_dials, [Holding sample_ep kindPair 0, Holding sample_ep kindTun 1])"
proof -
  let ?b = "fst (quic_start ''a'')"
  let ?b1 = "?b\<lparr>qb_pool := [sample_conn], qb_conns := [(sample_ep, 0)]\<rparr>"
  have "quic_step sample_parse (quic_start ''a'') (?b, [Dialling sample_ep kindPair])"
    using quic_step.call_dial [OF sample_ep, of ?b sample_parse "[]" kindPair] by (simp add: quic_start_def cachedConn_lookup_def)
  moreover have "quic_step sample_parse (?b, [Dialling sample_ep kindPair]) (?b, [Dialling sample_ep kindPair, Dialling sample_ep kindTun])"
    using quic_step.call_dial [OF sample_ep, of ?b sample_parse "[Dialling sample_ep kindPair]" kindTun]
    by (simp add: quic_start_def cachedConn_lookup_def)
  moreover have "quic_step sample_parse (?b, [Dialling sample_ep kindPair, Dialling sample_ep kindTun])
      (?b1, [Holding sample_ep kindPair 0, Dialling sample_ep kindTun])"
    using quic_step.dial_done [OF _ _ sample_ep quic_sample_dial, of 0 "[Dialling sample_ep kindPair, Dialling sample_ep kindTun]" kindPair ?b 0 ?b1]
    by (simp add: quic_start_def cachedConn_store_def sample_ep_def)
  moreover have "quic_step sample_parse (?b1, [Holding sample_ep kindPair 0, Dialling sample_ep kindTun])
      (two_dials, [Holding sample_ep kindPair 0, Holding sample_ep kindTun 1])"
    using quic_step.dial_done [OF _ _ sample_ep quic_sample_dial, of 1 "[Holding sample_ep kindPair 0, Dialling sample_ep kindTun]" kindTun ?b1 1 two_dials]
    by (simp add: quic_start_def cachedConn_store_def sample_ep_def)
  ultimately show ?thesis by (meson converse_rtranclp_into_rtranclp rtranclp.rtrancl_refl)
qed

text \<open>
  Closing the backend then closes the connection the cache knows and leaves the other
  one open, although the backend has no reference to it any more.
\<close>

lemma quic_Close_leaks:
  "\<exists>b cs. (quic_step sample_parse)\<^sup>*\<^sup>* (quic_start ''a'') (b, cs) \<and> \<not> qb_listening b \<and> qb_conns b = []
     \<and> map qc_closed (qb_pool b) = [False, True]"
proof -
  have "(quic_step sample_parse)\<^sup>*\<^sup>* (quic_start ''a'') (quic_Close two_dials, [Holding sample_ep kindPair 0, Holding sample_ep kindTun 1])"
    using reach_two_dials quic_step.shutdown by (rule rtranclp.rtrancl_into_rtrancl)
  moreover have "\<not> qb_listening (quic_Close two_dials) \<and> qb_conns (quic_Close two_dials) = []
      \<and> map qc_closed (qb_pool (quic_Close two_dials)) = [False, True]"
    by (simp add: quic_Close_def close_conn_def sample_conn_def Let_def)
  ultimately show ?thesis
    by (intro exI [of _ "quic_Close two_dials"] exI [of _ "[Holding sample_ep kindPair 0, Holding sample_ep kindTun 1]"] conjI) simp_all
qed

theorem quic_stream_authenticated_witness:
  "\<exists>b cs st. (quic_step sample_parse)\<^sup>*\<^sup>* (quic_start ''a'') (b, cs) \<and> Returned sample_ep kindTun (Inr st) \<in> set cs
     \<and> publicKeyFromRawCerts sample_parse (qc_certs (qb_pool b ! qs_conn st)) = Inr sample_pub"
proof -
  let ?cs = "[Holding sample_ep kindPair 0, Holding sample_ep kindTun 1]"
  let ?st = "\<lparr>qs_conn = 1, qs_kind = kindTun\<rparr>"
  have "openStream_on (\<lambda>i. True) (\<lambda>i. True) sample_ep kindTun 1 two_dials = (Inr ?st, two_dials)"
    by (simp add: openStream_on_def sample_conn_def)
  then have "quic_step sample_parse (two_dials, ?cs) (two_dials, ?cs[1 := Returned sample_ep kindTun (Inr ?st)])"
    by (intro quic_step.stream) simp_all
  with reach_two_dials have r: "(quic_step sample_parse)\<^sup>*\<^sup>* (quic_start ''a'') (two_dials, ?cs[1 := Returned sample_ep kindTun (Inr ?st)])"
    by (rule rtranclp.rtrancl_into_rtrancl)
  have "publicKeyFromRawCerts sample_parse (qc_certs (qb_pool two_dials ! qs_conn ?st)) = Inr sample_pub"
    using quic_stream_authenticated [OF r, of sample_ep kindTun ?st] sample_ep by auto
  with r show ?thesis
    by (intro exI [of _ two_dials] exI [of _ "?cs[1 := Returned sample_ep kindTun (Inr ?st)]"] exI [of _ ?st] conjI) simp_all
qed

end
