(* ===== verification/Irohsidecar.thy ===== *)
theory Irohsidecar
  imports Handshake
begin

text \<open>
  The backend that talks to the iroh sidecar process, \<open>internal/irohsidecar/sidecar.go\<close>:
  finding the binary, its environment and files, starting and restarting the process,
  opening streams, the callbacks for incoming streams and shutting down. The process,
  its control requests, the file system and path handling of the platform are arguments.
\<close>

section \<open>Files and paths\<close>

text \<open>\<open>filepath.Join\<close> and \<open>filepath.Dir\<close> depend on the platform.\<close>

record platform =
  pf_goos :: string
  pf_getenv :: "string \<Rightarrow> string"
  pf_join :: "string list \<Rightarrow> string"
  pf_dir :: "string \<Rightarrow> string"
  pf_home :: "string option"
  pf_cache :: "string option"
  pf_wd :: "string option"
  pf_exe :: "string option"
  pf_logFile :: string

definition env_key :: "string \<Rightarrow> string" where
  "env_key item = CutBefore item (CHR ''='')"

definition sidecarEnv :: "platform \<Rightarrow> string list \<Rightarrow> string \<Rightarrow> string list" where
  "sidecarEnv pf base logPath =
     filter (\<lambda>item. \<not> (EqualFold (env_key item) ''DESKACCESS_IROH_SIDECAR_LOG'' \<or> EqualFold (env_key item) ''DESKACCESS_LOG_DIR'')) base
     @ (if logPath \<noteq> [] then [''DESKACCESS_IROH_SIDECAR_LOG='' @ logPath, ''DESKACCESS_LOG_DIR='' @ pf_dir pf logPath] else [])"

definition add_candidate :: "string list \<Rightarrow> string \<Rightarrow> string list" where
  "add_candidate candidates path0 =
     (let path = TrimSpace path0 in
      if path = [] then candidates
      else if list_ex (\<lambda>existing. existing = path) candidates then candidates
      else candidates @ [path])"

definition log_name :: string where "log_name = ''deskaccess-iroh-sidecar.log''"

definition under_env :: "platform \<Rightarrow> string \<Rightarrow> string list \<Rightarrow> string list" where
  "under_env pf var rest = (if pf_getenv pf var \<noteq> [] then [pf_join pf (pf_getenv pf var # rest)] else [])"

definition under_dir :: "platform \<Rightarrow> string option \<Rightarrow> string list \<Rightarrow> string list" where
  "under_dir pf dir rest = (case dir of None \<Rightarrow> [] | Some d \<Rightarrow> [pf_join pf (d # rest)])"

definition sidecarLogCandidates :: "platform \<Rightarrow> string list" where
  "sidecarLogCandidates pf =
     foldl add_candidate []
       ([pf_getenv pf ''DESKACCESS_IROH_SIDECAR_LOG'']
        @ under_env pf ''DESKACCESS_LOG_DIR'' [log_name]
        @ (if pf_logFile pf \<noteq> [] then [pf_join pf [pf_dir pf (pf_logFile pf), log_name]] else [])
        @ (if pf_goos pf = ''windows'' then
             under_env pf ''ProgramData'' [''DeskAccess'', log_name]
             @ under_env pf ''APPDATA'' [''DeskAccess'', log_name]
             @ under_env pf ''LOCALAPPDATA'' [''DeskAccess'', log_name]
           else
             [pf_join pf [''/'', ''var'', ''lib'', ''deskaccess'', log_name]]
             @ under_env pf ''XDG_STATE_HOME'' [''DeskAccess'', log_name]
             @ (case pf_home pf of None \<Rightarrow> []
                | Some home \<Rightarrow> if home \<noteq> [] then [pf_join pf [home, ''.local'', ''share'', ''DeskAccess'', log_name]] else []))
        @ under_dir pf (pf_wd pf) [''.deskaccess-logs'', log_name])"

text \<open>The first candidate whose directory and file can be made, else the last error.\<close>

primrec prepare_loop :: "(string \<Rightarrow> string option) \<Rightarrow> (string \<Rightarrow> string option) \<Rightarrow> string option \<Rightarrow> string list \<Rightarrow> string + string" where
  "prepare_loop mkdir opn lastErr [] =
     (case lastErr of Some e \<Rightarrow> Inl e | None \<Rightarrow> Inl ''no iroh sidecar log file path available'')"
| "prepare_loop mkdir opn lastErr (path # rest) =
     (if TrimSpace path = [] then prepare_loop mkdir opn lastErr rest
      else case mkdir path of
        Some e \<Rightarrow> prepare_loop mkdir opn (Some (path @ '': '' @ e)) rest
      | None \<Rightarrow>
          (case opn path of
             Some e \<Rightarrow> prepare_loop mkdir opn (Some (path @ '': '' @ e)) rest
           | None \<Rightarrow> Inr path))"

definition prepareSidecarLogFile :: "platform \<Rightarrow> (string \<Rightarrow> string option) \<Rightarrow> (string \<Rightarrow> string option) \<Rightarrow> string + string" where
  "prepareSidecarLogFile pf mkdir opn = prepare_loop mkdir opn None (sidecarLogCandidates pf)"

definition runtimeDirCandidates :: "platform \<Rightarrow> string list" where
  "runtimeDirCandidates pf =
     (if pf_getenv pf ''DESKACCESS_RUNTIME_DIR'' \<noteq> [] then [pf_getenv pf ''DESKACCESS_RUNTIME_DIR''] else [])
     @ (if pf_goos pf = ''windows'' then
          under_env pf ''LOCALAPPDATA'' [''DeskAccess'', ''run''] @ under_env pf ''APPDATA'' [''DeskAccess'', ''run'']
        else
          under_env pf ''XDG_RUNTIME_DIR'' [''DeskAccess'']
          @ under_dir pf (pf_cache pf) [''DeskAccess'', ''run'']
          @ under_dir pf (pf_home pf) [''.local'', ''share'', ''DeskAccess'', ''run'']
          @ under_dir pf (pf_home pf) [''.config'', ''DeskAccess'', ''run''])
     @ under_dir pf (pf_wd pf) [''.deskaccess-run'']"

primrec ready_loop :: "(string \<Rightarrow> string option) \<Rightarrow> (string \<Rightarrow> string + string) \<Rightarrow> string option \<Rightarrow> string list \<Rightarrow> string + string" where
  "ready_loop mkdir create lastErr [] =
     (case lastErr of Some e \<Rightarrow> Inl e | None \<Rightarrow> Inl ''no writable runtime directory found'')"
| "ready_loop mkdir create lastErr (dir # rest) =
     (if TrimSpace dir = [] then ready_loop mkdir create lastErr rest
      else case mkdir dir of
        Some e \<Rightarrow> ready_loop mkdir create (Some (dir @ '': '' @ e)) rest
      | None \<Rightarrow>
          (case create dir of
             Inl e \<Rightarrow> ready_loop mkdir create (Some (dir @ '': '' @ e)) rest
           | Inr path \<Rightarrow> Inr path))"

definition createReadyFile :: "platform \<Rightarrow> (string \<Rightarrow> string option) \<Rightarrow> (string \<Rightarrow> string + string) \<Rightarrow> string + string" where
  "createReadyFile pf mkdir create = ready_loop mkdir create None (runtimeDirCandidates pf)"

definition sidecar_roots :: "platform \<Rightarrow> string list" where
  "sidecar_roots pf =
     (case pf_exe pf of
        None \<Rightarrow> []
      | Some exe \<Rightarrow> let dir = pf_dir pf exe in [dir, pf_join pf [dir, ''sidecars''], pf_join pf [dir, ''bin'']])
     @ (case pf_wd pf of
          None \<Rightarrow> []
        | Some wd \<Rightarrow> [pf_join pf [wd, ''sidecars'', ''iroh-sidecar'', ''target'', ''release''],
                     pf_join pf [wd, ''sidecars'', ''iroh-sidecar'', ''target'', ''debug''], pf_join pf [wd, ''build'']])"

primrec search_roots :: "platform \<Rightarrow> (string \<Rightarrow> bool) \<Rightarrow> string \<Rightarrow> string list \<Rightarrow> string list \<Rightarrow> string \<times> string list \<times> bool" where
  "search_roots pf isExec name searched [] = ([], searched, False)"
| "search_roots pf isExec name searched (root # rest) =
     (let path = pf_join pf [root, name]; searched' = searched @ [path] in
      if isExec path then (path, searched', True) else search_roots pf isExec name searched' rest)"

definition findBundledSidecar :: "platform \<Rightarrow> (string \<Rightarrow> bool) \<Rightarrow> string \<times> string list \<times> bool" where
  "findBundledSidecar pf isExec =
     (let name = (if pf_goos pf = ''windows'' then ''deskaccess-iroh-sidecar.exe'' else ''deskaccess-iroh-sidecar'')
      in search_roots pf isExec name [] (sidecar_roots pf))"

section \<open>State\<close>

text \<open>
  \<open>ib_procs\<close> lists every sidecar process started, and whether it still runs;
  \<open>ib_listening\<close> whether the callback listeners are open.
\<close>

record iroh_Backend =
  ib_baseURL :: string
  ib_command :: string
  ib_pairingHandler :: "nat option"
  ib_tunnelHandler :: "nat option"
  ib_pairingLn :: "string option"
  ib_tunnelLn :: "string option"
  ib_listening :: bool
  ib_cmd :: "nat option"
  ib_closed :: bool
  ib_lastErr :: string
  ib_endpointID :: string
  ib_procs :: "bool list"

record statusResponse =
  sr_Running :: bool
  sr_Ready :: bool
  sr_EndpointID :: string
  sr_LastError :: string

datatype ready_poll = ReadyAbsent | ReadyUnreadable string | ReadyEmpty | ReadyBad string | ReadyData string string

text \<open>
  What the world answers while one operation runs: the ready file at each look, the
  status at each request, and the other control requests.
\<close>

record iroh_world =
  iw_readyFile :: "string + string"
  iw_cancelled :: "string option"
  iw_spawn :: "string option"
  iw_readyPolls :: "ready_poll list"
  iw_urlOk :: "string \<Rightarrow> string option"
  iw_status :: "string + statusResponse"
  iw_statusPolls :: "(string + statusResponse) list"
  iw_handlers :: "string option"
  iw_open :: "string + string \<times> string \<times> string"
  iw_dial :: "string option"
  iw_ticket :: "string + string \<times> string"
  iw_closeTunnel :: "string + nat"
  iw_listenPairing :: "string + string"
  iw_listenTunnel :: "string + string"

definition setLastError :: "string option \<Rightarrow> iroh_Backend \<Rightarrow> iroh_Backend" where
  "setLastError err b = b\<lparr>ib_lastErr := (case err of None \<Rightarrow> [] | Some e \<Rightarrow> e)\<rparr>"

definition kill :: "nat \<Rightarrow> iroh_Backend \<Rightarrow> iroh_Backend" where
  "kill p b = b\<lparr>ib_procs := (ib_procs b)[p := False]\<rparr>"

definition alive :: "nat \<Rightarrow> iroh_Backend \<Rightarrow> bool" where
  "alive p b \<longleftrightarrow> p < length (ib_procs b) \<and> ib_procs b ! p"

definition trim_url :: "string \<Rightarrow> string" where
  "trim_url u = rev (dropWhile (\<lambda>c. c = CHR ''/'') (rev (TrimSpace u)))"

section \<open>Starting\<close>

primrec waitReadyFile :: "iroh_world \<Rightarrow> string option \<Rightarrow> ready_poll list \<Rightarrow> iroh_Backend \<Rightarrow> string option \<times> iroh_Backend" where
  "waitReadyFile w lastErr [] b =
     (Some (case lastErr of Some e \<Rightarrow> ''iroh sidecar did not write ready file: '' @ e | None \<Rightarrow> ''iroh sidecar did not write ready file''), b)"
| "waitReadyFile w lastErr (r # rs) b =
     (case r of
        ReadyData u e \<Rightarrow>
          let u' = trim_url u in
          if u' = [] then (Some ''iroh sidecar ready file missing url'', b)
          else (case iw_urlOk w u' of
                  Some err \<Rightarrow> (Some (''invalid iroh sidecar ready url '' @ u' @ '': '' @ err), b)
                | None \<Rightarrow> (None, b\<lparr>ib_baseURL := u', ib_endpointID := e\<rparr>))
      | ReadyBad err \<Rightarrow> (Some (''parse iroh sidecar ready file: '' @ err), b)
      | ReadyUnreadable err \<Rightarrow> waitReadyFile w (Some err) rs b
      | ReadyAbsent \<Rightarrow> waitReadyFile w lastErr rs b
      | ReadyEmpty \<Rightarrow> waitReadyFile w lastErr rs b)"

definition startProcess :: "iroh_world \<Rightarrow> string \<Rightarrow> iroh_Backend \<Rightarrow> string option \<times> iroh_Backend" where
  "startProcess w command b0 =
     (if TrimSpace command = [] then (Some ''iroh sidecar command is empty'', b0)
      else
        let b = b0\<lparr>ib_command := command\<rparr> in
        case iw_readyFile w of
          Inl e \<Rightarrow> (Some (''create iroh sidecar ready file: '' @ e), b)
        | Inr readyPath \<Rightarrow>
            (case iw_cancelled w of
               Some e \<Rightarrow> (Some e, b)
             | None \<Rightarrow>
                 (case iw_spawn w of
                    Some e \<Rightarrow> (Some (''start iroh sidecar '' @ command @ '': '' @ e), b)
                  | None \<Rightarrow>
                      let p = length (ib_procs b);
                          b1 = b\<lparr>ib_procs := ib_procs b @ [True], ib_cmd := Some p\<rparr>
                      in (case waitReadyFile w None (iw_readyPolls w) b1 of
                            (Some e, b2) \<Rightarrow> (Some e, kill p b2)
                          | (None, b2) \<Rightarrow> (None, b2)))))"

primrec wait_ready_loop :: "string option \<Rightarrow> (string + statusResponse) list \<Rightarrow> iroh_Backend \<Rightarrow> string option \<times> iroh_Backend" where
  "wait_ready_loop lastErr [] b =
     (case lastErr of
        Some e \<Rightarrow> (Some (''iroh sidecar not ready: '' @ e), setLastError (Some e) b)
      | None \<Rightarrow> (Some ''iroh sidecar not ready'', b))"
| "wait_ready_loop lastErr (r # rs) b =
     (case r of
        Inr st \<Rightarrow> if sr_Running st then (None, setLastError None (b\<lparr>ib_endpointID := sr_EndpointID st\<rparr>)) else wait_ready_loop lastErr rs b
      | Inl e \<Rightarrow> wait_ready_loop (Some e) rs b)"

definition waitReady :: "iroh_world \<Rightarrow> iroh_Backend \<Rightarrow> string option \<times> iroh_Backend" where
  "waitReady w b = wait_ready_loop None (iw_statusPolls w) b"

definition registerHandlers :: "iroh_world \<Rightarrow> iroh_Backend \<Rightarrow> string option" where
  "registerHandlers w b =
     (if ib_pairingLn b = None \<or> ib_tunnelLn b = None then Some ''iroh sidecar callback listeners are not running''
      else iw_handlers w)"

definition startCallbacks :: "iroh_world \<Rightarrow> iroh_Backend \<Rightarrow> string option \<times> iroh_Backend" where
  "startCallbacks w b =
     (case iw_listenPairing w of
        Inl e \<Rightarrow> (Some (''listen pairing callback: '' @ e), b)
      | Inr pln \<Rightarrow>
          (case iw_listenTunnel w of
             Inl e \<Rightarrow> (Some (''listen tunnel callback: '' @ e), b)
           | Inr tln \<Rightarrow> let b1 = b\<lparr>ib_pairingLn := Some pln, ib_tunnelLn := Some tln, ib_listening := True\<rparr> in (registerHandlers w b1, b1)))"

section \<open>Shutting down and checking\<close>

text \<open>Closing: the sidecar exits on the request within three seconds, or it is killed.\<close>

definition iroh_Close :: "iroh_Backend \<Rightarrow> iroh_Backend" where
  "iroh_Close b =
     (if ib_closed b then b
      else
        let b1 = b\<lparr>ib_closed := True, ib_listening := False\<rparr> in
        case ib_cmd b1 of None \<Rightarrow> b1 | Some p \<Rightarrow> kill p b1)"

definition Running :: "iroh_world \<Rightarrow> iroh_Backend \<Rightarrow> bool \<times> iroh_Backend" where
  "Running w b =
     (if ib_closed b then (False, b)
      else if (case ib_cmd b of Some p \<Rightarrow> \<not> alive p b | None \<Rightarrow> False) then (False, b)
      else case iw_status w of
        Inl e \<Rightarrow> (False, setLastError (Some e) b)
      | Inr st \<Rightarrow> (True, b))"

definition new_backend :: "string \<Rightarrow> iroh_Backend" where
  "new_backend command = \<lparr>ib_baseURL = [], ib_command = command, ib_pairingHandler = None, ib_tunnelHandler = None,
     ib_pairingLn = None, ib_tunnelLn = None, ib_listening = False, ib_cmd = None, ib_closed = False, ib_lastErr = [], ib_endpointID = [], ib_procs = []\<rparr>"

definition newWithCommand :: "iroh_world \<Rightarrow> string \<Rightarrow> (string + unit) \<times> iroh_Backend" where
  "newWithCommand w command =
     (case startProcess w command (new_backend command) of
        (Some e, b) \<Rightarrow> (Inl e, b)
      | (None, b) \<Rightarrow>
          (case waitReady w b of
             (Some e, b1) \<Rightarrow> (Inl e, iroh_Close b1)
           | (None, b1) \<Rightarrow>
               (case startCallbacks w b1 of
                  (Some e, b2) \<Rightarrow> (Inl e, iroh_Close b2)
                | (None, b2) \<Rightarrow> (Inr (), b2))))"

definition iroh_New :: "platform \<Rightarrow> (string \<Rightarrow> bool) \<Rightarrow> iroh_world \<Rightarrow> Config option \<Rightarrow> string + iroh_Backend option" where
  "iroh_New pf isExec w c =
     (case c of
        None \<Rightarrow> Inr None
      | Some cf \<Rightarrow>
          if iroh_Mode (cfg_Iroh cf) = [] \<or> iroh_Mode (cfg_Iroh cf) = ''disabled'' then Inr None
          else case findBundledSidecar pf isExec of (command, searched, ok) \<Rightarrow>
            if \<not> ok then Inl ''iroh sidecar binary not found''
            else case newWithCommand w command of
              (Inl e, b) \<Rightarrow> Inl e
            | (Inr _, b) \<Rightarrow> Inr (Some b))"

section \<open>Streams\<close>

definition ensureRunning :: "iroh_world \<Rightarrow> iroh_Backend \<Rightarrow> string option \<times> iroh_Backend" where
  "ensureRunning w b =
     (case Running w b of
        (True, b1) \<Rightarrow> (None, b1)
      | (False, b1) \<Rightarrow>
          if ib_closed b1 then (Some ''iroh sidecar backend is closed'', b1)
          else if TrimSpace (ib_command b1) = [] then (Some ''iroh sidecar command is unknown'', b1)
          else case startProcess w (ib_command b1) b1 of
            (Some e, b2) \<Rightarrow> (Some (''restart iroh sidecar: '' @ e), setLastError (Some e) b2)
          | (None, b2) \<Rightarrow>
              (case waitReady w b2 of
                 (Some e, b3) \<Rightarrow> (Some (''wait for restarted iroh sidecar: '' @ e), setLastError (Some e) b3)
               | (None, b3) \<Rightarrow>
                   (case registerHandlers w b3 of
                      Some e \<Rightarrow> (Some (''register restarted iroh sidecar handlers: '' @ e), setLastError (Some e) b3)
                    | None \<Rightarrow> (None, setLastError None b3))))"

record iroh_stream =
  is_kind :: string
  is_ticket :: string
  is_addr :: string
  is_path :: string
  is_remoteAddr :: string

definition iroh_openStream ::
  "ticket_codec \<Rightarrow> iroh_world \<Rightarrow> string \<Rightarrow> string \<Rightarrow> iroh_Backend \<Rightarrow> (string + iroh_stream) \<times> iroh_Backend" where
  "iroh_openStream tc w kind ticket b =
     (if \<not> IsTicket tc ticket then (Inl ''iroh ticket was not created by the sidecar backend'', b)
      else case iw_open w of
        Inl e \<Rightarrow> (Inl e, setLastError (Some e) b)
      | Inr (addr, path, remoteAddr) \<Rightarrow>
          (case iw_dial w of
             Some e \<Rightarrow> (Inl (''dial iroh sidecar stream '' @ addr @ '': '' @ e), setLastError (Some e) b)
           | None \<Rightarrow> (Inr \<lparr>is_kind = kind, is_ticket = ticket, is_addr = addr, is_path = path, is_remoteAddr = remoteAddr\<rparr>, setLastError None b)))"

definition iroh_Open ::
  "ticket_codec \<Rightarrow> iroh_world \<Rightarrow> string \<Rightarrow> string \<Rightarrow> iroh_Backend \<Rightarrow> (string + iroh_stream) \<times> iroh_Backend" where
  "iroh_Open tc w kind ticket b =
     (case ensureRunning w b of
        (Some e, b1) \<Rightarrow> (Inl e, b1)
      | (None, b1) \<Rightarrow> iroh_openStream tc w kind ticket b1)"

definition iroh_OpenPairing :: "ticket_codec \<Rightarrow> iroh_world \<Rightarrow> string \<Rightarrow> iroh_Backend \<Rightarrow> (string + iroh_stream) \<times> iroh_Backend" where
  "iroh_OpenPairing tc w ticket b = iroh_Open tc w ''pairing'' ticket b"

definition iroh_OpenTunnel :: "ticket_codec \<Rightarrow> iroh_world \<Rightarrow> string \<Rightarrow> iroh_Backend \<Rightarrow> (string + iroh_stream) \<times> iroh_Backend" where
  "iroh_OpenTunnel tc w ticket b = iroh_Open tc w ''tunnel'' ticket b"

definition iroh_SetHandlers :: "nat option \<Rightarrow> nat option \<Rightarrow> iroh_Backend \<Rightarrow> iroh_Backend" where
  "iroh_SetHandlers pairing tunnel b = b\<lparr>ib_pairingHandler := pairing, ib_tunnelHandler := tunnel\<rparr>"

definition TicketContext :: "iroh_world \<Rightarrow> iroh_Backend \<Rightarrow> (string + string) \<times> iroh_Backend" where
  "TicketContext w b =
     (case iw_ticket w of
        Inl e \<Rightarrow> (Inl e, setLastError (Some e) b)
      | Inr (ticket, endpoint) \<Rightarrow> (Inr ticket, setLastError None (b\<lparr>ib_endpointID := endpoint\<rparr>)))"

definition iroh_CloseTunnel :: "iroh_world \<Rightarrow> iroh_Backend \<Rightarrow> nat \<times> iroh_Backend" where
  "iroh_CloseTunnel w b =
     (case iw_closeTunnel w of Inl e \<Rightarrow> (0, setLastError (Some e) b) | Inr n \<Rightarrow> (n, b))"

record iroh_status =
  it_running :: bool
  it_ready :: bool
  it_endpoint_id :: string
  it_last_error :: string
  it_url :: string

definition iroh_Status :: "iroh_world \<Rightarrow> iroh_Backend \<Rightarrow> iroh_status \<times> iroh_Backend" where
  "iroh_Status w b =
     (case iw_status w of
        Inr st \<Rightarrow>
          (\<lparr>it_running = sr_Running st, it_ready = sr_Ready st, it_endpoint_id = sr_EndpointID st, it_last_error = sr_LastError st,
            it_url = ib_baseURL b\<rparr>, b\<lparr>ib_endpointID := sr_EndpointID st\<rparr>)
      | Inl e \<Rightarrow>
          let b1 = setLastError (Some e) b in
          (\<lparr>it_running = False, it_ready = False, it_endpoint_id = ib_endpointID b1, it_last_error = ib_lastErr b1,
            it_url = ib_baseURL b1\<rparr>, b1))"

definition iroh_Refresh :: "iroh_world \<Rightarrow> iroh_Backend \<Rightarrow> (iroh_status \<times> string option) \<times> iroh_Backend" where
  "iroh_Refresh w b =
     (case iw_status w of
        Inl e \<Rightarrow> (case iroh_Status w (setLastError (Some e) b) of (st, b1) \<Rightarrow> ((st, Some e), b1))
      | Inr r \<Rightarrow> (case iroh_Status w (setLastError None (b\<lparr>ib_endpointID := sr_EndpointID r\<rparr>)) of (st, b1) \<Rightarrow> ((st, None), b1)))"

section \<open>Callbacks\<close>

record callbackMeta =
  cm_PeerID :: string
  cm_Path :: string
  cm_RemoteAddr :: string

text \<open>The first line of the connection, and what JSON decoding makes of it.\<close>

definition readCallbackMeta :: "(string \<Rightarrow> callbackMeta option) \<Rightarrow> string option \<Rightarrow> callbackMeta option" where
  "readCallbackMeta decode line =
     (case line of
        None \<Rightarrow> None
      | Some l \<Rightarrow>
          (case decode (TrimSpace l) of
             None \<Rightarrow> None
           | Some meta \<Rightarrow> if TrimSpace (cm_PeerID meta) = [] then None else Some meta))"

datatype callback_fate = CallbackClosed | CallbackHanded nat string string string

definition handleCallback :: "(string \<Rightarrow> callbackMeta option) \<Rightarrow> string \<Rightarrow> string option \<Rightarrow> iroh_Backend \<Rightarrow> callback_fate" where
  "handleCallback decode kind line b =
     (case readCallbackMeta decode line of
        None \<Rightarrow> CallbackClosed
      | Some meta \<Rightarrow>
          (case (if kind = ''tunnel'' then ib_tunnelHandler b else ib_pairingHandler b) of
             None \<Rightarrow> CallbackClosed
           | Some h \<Rightarrow> CallbackHanded h (cm_PeerID meta) (cm_Path meta) (cm_RemoteAddr meta)))"

definition isTimeoutError :: "(bool \<times> string) option \<Rightarrow> bool" where
  "isTimeoutError err =
     (case err of
        None \<Rightarrow> False
      | Some (timeout, text) \<Rightarrow> timeout \<or> (let msg = ToLower text in Contains msg ''timeout'' \<or> Contains msg ''deadline exceeded''))"

definition st_ConnectionPath :: "iroh_stream option \<Rightarrow> string" where
  "st_ConnectionPath c = (case c of None \<Rightarrow> ''unknown'' | Some s \<Rightarrow> if TrimSpace (is_path s) = [] then ''unknown'' else is_path s)"

definition ConnectionRemoteAddr :: "iroh_stream option \<Rightarrow> string" where
  "ConnectionRemoteAddr c = (case c of None \<Rightarrow> [] | Some s \<Rightarrow> is_remoteAddr s)"

section \<open>The process over a sequence of operations\<close>

definition same_process :: "iroh_Backend \<Rightarrow> iroh_Backend \<Rightarrow> bool" where
  "same_process b b' \<longleftrightarrow> ib_procs b' = ib_procs b \<and> ib_cmd b' = ib_cmd b \<and> ib_closed b' = ib_closed b \<and> ib_listening b' = ib_listening b"

named_theorems process_kept \<open>operations that leave the processes alone\<close>

lemma same_process_refl [simp]: "same_process b b"
  by (simp add: same_process_def)

lemma setLastError_kept [process_kept]: "same_process b (setLastError e b') = same_process b b'"
  by (simp add: same_process_def setLastError_def)

lemma endpoint_kept [process_kept]: "same_process b (b'\<lparr>ib_endpointID := e\<rparr>) = same_process b b'"
  by (simp add: same_process_def)

lemma waitReadyFile_kept [process_kept]: "same_process b (snd (waitReadyFile w l rs b))"
  by (induction rs arbitrary: l) (simp_all add: same_process_def Let_def split: ready_poll.split option.split)

lemma wait_ready_kept [process_kept]: "same_process b (snd (wait_ready_loop l rs b))"
  by (induction rs arbitrary: l) (simp_all add: process_kept split: sum.split option.split)

lemma waitReady_kept [process_kept]: "same_process b (snd (waitReady w b))"
  by (simp add: waitReady_def process_kept)

lemma Running_kept [process_kept]: "same_process b (snd (Running w b))"
  by (simp add: Running_def process_kept split: sum.split option.split)

lemma openStream_kept [process_kept]: "same_process b (snd (iroh_openStream tc w k t b))"
  by (simp add: iroh_openStream_def process_kept split: sum.split option.split prod.split)

lemma TicketContext_kept [process_kept]: "same_process b (snd (TicketContext w b))" "same_process b (snd (iroh_CloseTunnel w b))"
  "same_process b (iroh_SetHandlers p t b)"
  by (simp_all add: TicketContext_def iroh_CloseTunnel_def process_kept split: sum.split prod.split)
    (simp add: same_process_def iroh_SetHandlers_def)

lemma Status_kept [process_kept]: "same_process b (snd (iroh_Status w b'))" if "same_process b b'"
  using that by (simp add: iroh_Status_def Let_def process_kept split: sum.split)

lemma Refresh_kept [process_kept]: "same_process b (snd (iroh_Refresh w b))"
  by (simp add: iroh_Refresh_def case_prod_beta process_kept split: sum.split)

datatype iroh_op =
    IrohOpen ticket_codec iroh_world string string
  | IrohExit nat "string option"
  | IrohHandlers "nat option" "nat option"
  | IrohTicket iroh_world
  | IrohCloseTunnel iroh_world
  | IrohRefresh iroh_world
  | IrohShutdown

definition process_exit :: "nat \<Rightarrow> string option \<Rightarrow> iroh_Backend \<Rightarrow> iroh_Backend" where
  "process_exit p err b =
     (let b1 = kill p b in
      case err of None \<Rightarrow> b1 | Some e \<Rightarrow> if \<not> ib_closed b1 then setLastError (Some e) b1 else b1)"

primrec iroh_step :: "iroh_Backend \<Rightarrow> iroh_op \<Rightarrow> iroh_Backend" where
  "iroh_step b (IrohOpen tc w kind ticket) = snd (iroh_Open tc w kind ticket b)"
| "iroh_step b (IrohExit p err) = process_exit p err b"
| "iroh_step b (IrohHandlers p t) = iroh_SetHandlers p t b"
| "iroh_step b (IrohTicket w) = snd (TicketContext w b)"
| "iroh_step b (IrohCloseTunnel w) = snd (iroh_CloseTunnel w b)"
| "iroh_step b (IrohRefresh w) = snd (iroh_Refresh w b)"
| "iroh_step b IrohShutdown = iroh_Close b"

text \<open>A live sidecar answers the status request with which an opening starts.\<close>

definition process_live :: "iroh_Backend \<Rightarrow> bool" where
  "process_live b = (case ib_cmd b of Some p \<Rightarrow> alive p b | None \<Rightarrow> False)"

definition status_answered :: "iroh_world \<Rightarrow> bool" where
  "status_answered w = (case iw_status w of Inl e \<Rightarrow> False | Inr st \<Rightarrow> True)"

primrec responsive :: "iroh_Backend \<Rightarrow> iroh_op list \<Rightarrow> bool" where
  "responsive b [] = True"
| "responsive b (x # xs) =
     ((case x of IrohOpen tc w kind ticket \<Rightarrow> process_live b \<longrightarrow> status_answered w | _ \<Rightarrow> True)
      \<and> responsive (iroh_step b x) xs)"

definition sidecar_ok :: "iroh_Backend \<Rightarrow> bool" where
  "sidecar_ok b \<longleftrightarrow> (\<forall>p. alive p b \<longrightarrow> ib_cmd b = Some p) \<and> (ib_closed b \<longrightarrow> (\<forall>p. \<not> alive p b) \<and> \<not> ib_listening b)
     \<and> (\<forall>p. ib_cmd b = Some p \<longrightarrow> p < length (ib_procs b))"

lemma sidecar_ok_same: "same_process b b' \<Longrightarrow> sidecar_ok b' = sidecar_ok b"
  by (simp add: same_process_def sidecar_ok_def alive_def)

lemma alive_kill: "alive q (kill p b) \<longleftrightarrow> alive q b \<and> q \<noteq> p"
  by (cases "p < length (ib_procs b)") (auto simp: alive_def kill_def nth_list_update)

lemma sidecar_ok_kill: "sidecar_ok b \<Longrightarrow> sidecar_ok (kill p b)"
  by (simp add: sidecar_ok_def alive_kill) (simp add: kill_def)

lemma startProcess_ok:
  assumes "sidecar_ok b" "\<not> ib_closed b" "\<And>p. \<not> alive p b"
  shows "sidecar_ok (snd (startProcess w c b)) \<and> \<not> ib_closed (snd (startProcess w c b))"
proof -
  let ?b = "b\<lparr>ib_command := c\<rparr>"
  let ?p = "length (ib_procs b)"
  let ?b1 = "?b\<lparr>ib_procs := ib_procs b @ [True], ib_cmd := Some ?p\<rparr>"
  have "same_process b ?b" by (simp add: same_process_def)
  then have ok0: "sidecar_ok ?b" using assms(1) sidecar_ok_same by blast
  have "\<not> alive p b" for p by (rule assms(3))
  then have "alive p ?b1 \<longleftrightarrow> p = ?p" for p
    by (auto simp: alive_def nth_append less_Suc_eq)
  then have ok1: "sidecar_ok ?b1" using assms(2) by (simp add: sidecar_ok_def)
  obtain e b2 where b2: "waitReadyFile w None (iw_readyPolls w) ?b1 = (e, b2)" by force
  then have sp: "same_process ?b1 b2" using waitReadyFile_kept [of ?b1 w None "iw_readyPolls w"] by simp
  have ok2: "sidecar_ok b2" using sidecar_ok_same [OF sp] ok1 by simp
  have open2: "\<not> ib_closed b2" using sp assms(2) by (simp add: same_process_def)
  then have ok3: "sidecar_ok (kill ?p b2)" "\<not> ib_closed (kill ?p b2)" using sidecar_ok_kill [OF ok2] by (simp_all add: kill_def)
  show ?thesis
    using assms(1,2) ok0 ok2 open2 ok3 by (simp add: startProcess_def Let_def b2 split: sum.split option.split)
qed

lemma ensureRunning_cases:
  obtains (kept) "same_process b (snd (ensureRunning w b))" "fst (ensureRunning w b) = None \<Longrightarrow> fst (Running w b)"
  | (restarted) "\<not> fst (Running w b)" "\<not> ib_closed b"
      "same_process (snd (startProcess w (ib_command (snd (Running w b))) (snd (Running w b)))) (snd (ensureRunning w b))"
proof -
  obtain r b1 where r: "Running w b = (r, b1)" by force
  have k1: "same_process b b1" using Running_kept [of b w] by (simp add: r)
  obtain e2 b2 where s: "startProcess w (ib_command b1) b1 = (e2, b2)" by force
  obtain e3 b3 where v: "waitReady w b2 = (e3, b3)" by force
  have k3: "same_process b2 b3" using waitReady_kept [of b2 w] by (simp add: v)
  show ?thesis
  proof (cases "r \<or> ib_closed b1 \<or> TrimSpace (ib_command b1) = []")
    case True
    then obtain x where "ensureRunning w b = (x, b1)" "x = None \<longrightarrow> r"
      by (cases r; cases "ib_closed b1") (simp_all add: ensureRunning_def r)
    then show ?thesis using kept k1 by (simp add: r)
  next
    case False
    then have "same_process b2 (snd (ensureRunning w b))"
      using k3 by (simp add: ensureRunning_def r s v process_kept split: option.split)
    then show ?thesis using restarted False k1 by (simp add: r s same_process_def)
  qed
qed

lemma iroh_Open_state: "same_process (snd (ensureRunning w b)) (snd (iroh_Open tc w k t b))"
  by (simp add: iroh_Open_def openStream_kept split: prod.split option.split)

lemma dead_when_not_running:
  assumes "sidecar_ok b" "\<not> fst (Running w b)" "\<not> ib_closed b" "process_live b \<longrightarrow> status_answered w"
  shows "\<not> alive p b"
proof
  assume a: "alive p b"
  then have c: "ib_cmd b = Some p" using assms(1) by (simp add: sidecar_ok_def)
  then obtain st where "iw_status w = Inr st" using assms(4) a by (auto simp: process_live_def status_answered_def split: sum.splits)
  then show False using assms(2,3) a c by (simp add: Running_def)
qed

lemma iroh_step_ok:
  assumes "sidecar_ok b" "responsive b [x]"
  shows "sidecar_ok (iroh_step b x)"
proof (cases x)
  case (IrohOpen tc w k t)
  have "sidecar_ok (snd (ensureRunning w b))"
  proof (cases rule: ensureRunning_cases [of b w])
    case kept
    then show ?thesis using assms(1) sidecar_ok_same by blast
  next
    case restarted
    let ?b1 = "snd (Running w b)"
    have k1: "same_process b ?b1" by (rule Running_kept)
    have "\<not> alive p b" for p
      using dead_when_not_running [OF assms(1) restarted(1,2)] assms(2) IrohOpen by simp
    then have "sidecar_ok ?b1" "\<not> ib_closed ?b1" "\<And>p. \<not> alive p ?b1"
      using k1 assms(1) restarted(2) sidecar_ok_same [OF k1] by (simp_all add: same_process_def alive_def)
    then show ?thesis using startProcess_ok sidecar_ok_same [OF restarted(3)] by blast
  qed
  then show ?thesis using IrohOpen sidecar_ok_same [OF iroh_Open_state] by simp
next
  case (IrohExit p err)
  have "same_process (kill p b) (process_exit p err b)" by (simp add: process_exit_def Let_def process_kept split: option.split)
  then show ?thesis using IrohExit sidecar_ok_kill [OF assms(1)] sidecar_ok_same by simp
next
  case IrohShutdown
  have "alive q b \<Longrightarrow> ib_cmd b = Some q" for q using assms(1) by (simp add: sidecar_ok_def)
  moreover have "sidecar_ok (kill p (b\<lparr>ib_closed := True, ib_listening := False\<rparr>))" if "ib_cmd b = Some p" for p
    using assms(1) that by (auto simp: sidecar_ok_def alive_kill) (auto simp: alive_def kill_def)
  ultimately show ?thesis using IrohShutdown assms(1)
    by (auto simp: iroh_Close_def Let_def split: option.split) (auto simp: sidecar_ok_def alive_def)
qed (simp_all add: assms(1) sidecar_ok_same [OF TicketContext_kept(1)] sidecar_ok_same [OF TicketContext_kept(2)]
    sidecar_ok_same [OF TicketContext_kept(3)] sidecar_ok_same [OF Refresh_kept])

lemma iroh_run_ok: "sidecar_ok b \<Longrightarrow> responsive b xs \<Longrightarrow> sidecar_ok (foldl iroh_step b xs)"
  by (induction xs arbitrary: b) (simp_all add: iroh_step_ok)

lemma Open_closed:
  assumes "ib_closed b"
  shows "fst (iroh_Open tc w k t b) = Inl ''iroh sidecar backend is closed'' \<and> snd (iroh_Open tc w k t b) = b"
  using assms by (simp add: iroh_Open_def ensureRunning_def Running_def)

lemma closed_step: "ib_closed b \<Longrightarrow> ib_closed (iroh_step b x)"
proof (cases x)
  case (IrohOpen tc w k t)
  then show "ib_closed b \<Longrightarrow> ?thesis" using Open_closed [of b tc w k t] by simp
next
  case (IrohExit p err)
  then show "ib_closed b \<Longrightarrow> ?thesis" by (simp add: process_exit_def Let_def kill_def split: option.split)
next
  case IrohShutdown
  then show "ib_closed b \<Longrightarrow> ?thesis" by (simp add: iroh_Close_def)
qed (use TicketContext_kept [of b] Refresh_kept [of b] in \<open>simp_all add: same_process_def\<close>)

lemma closed_after_shutdown: "IrohShutdown \<in> set xs \<or> ib_closed b \<Longrightarrow> ib_closed (foldl iroh_step b xs)"
proof (induction xs arbitrary: b)
  case (Cons x xs)
  have "ib_closed (iroh_Close b)" by (simp add: iroh_Close_def Let_def kill_def split: option.split)
  then show ?case using Cons by (auto simp: closed_step)
qed simp

lemma sidecar_ok_fields:
  assumes "sidecar_ok b" "ib_procs b' = ib_procs b" "ib_cmd b' = ib_cmd b" "\<not> ib_closed b'"
  shows "sidecar_ok b'"
proof -
  have "alive p b' = alive p b" for p by (simp add: alive_def assms(2))
  then show ?thesis using assms unfolding sidecar_ok_def by metis
qed

lemma newWithCommand_ok:
  assumes "newWithCommand w command = (r, b)"
  shows "sidecar_ok b"
proof -
  have new: "sidecar_ok (new_backend command)" "\<not> ib_closed (new_backend command)" "\<And>p. \<not> alive p (new_backend command)"
    by (simp_all add: sidecar_ok_def new_backend_def alive_def)
  obtain e1 b1 where 1: "startProcess w command (new_backend command) = (e1, b1)" by force
  have ok1: "sidecar_ok b1" "\<not> ib_closed b1" using startProcess_ok [OF new, of w command] by (simp_all add: 1)
  obtain e2 b2 where 2: "waitReady w b1 = (e2, b2)" by force
  have k2: "same_process b1 b2" using waitReady_kept [of b1 w] by (simp add: 2)
  have ok2: "sidecar_ok b2" "\<not> ib_closed b2" using ok1 sidecar_ok_same [OF k2] k2 by (simp_all add: same_process_def)
  obtain e3 b3 where 3: "startCallbacks w b2 = (e3, b3)" by force
  then have "ib_procs b3 = ib_procs b2 \<and> ib_cmd b3 = ib_cmd b2 \<and> \<not> ib_closed b3"
    using ok2(2) by (auto simp: startCallbacks_def Let_def split: sum.splits)
  then have ok3: "sidecar_ok b3" using sidecar_ok_fields [OF ok2(1)] by simp
  have close: "sidecar_ok (iroh_Close c)" if "sidecar_ok c" for c
    using iroh_step_ok [OF that, of IrohShutdown] by simp
  show ?thesis
    using assms ok1(1) ok3 close [OF ok2(1)] close [OF ok3]
    by (cases e1; cases e2; cases e3) (simp_all add: newWithCommand_def 1 2 3)
qed


definition sample_world :: iroh_world where
  "sample_world = \<lparr>iw_readyFile = Inr ''/run/x'', iw_cancelled = None, iw_spawn = None, iw_readyPolls = [ReadyAbsent, ReadyData ''u'' ''e''],
     iw_urlOk = (\<lambda>u. None), iw_status = Inl ''timeout'', iw_statusPolls = [Inr \<lparr>sr_Running = True, sr_Ready = True, sr_EndpointID = ''e'', sr_LastError = []\<rparr>],
     iw_handlers = None, iw_open = Inl ''x'', iw_dial = None, iw_ticket = Inl ''x'', iw_closeTunnel = Inl ''x'',
     iw_listenPairing = Inr ''p'', iw_listenTunnel = Inr ''t''\<rparr>"

definition sample_tickets :: ticket_codec where
  "sample_tickets = \<lparr>tc_base64 = (\<lambda>s. None), tc_json_id = (\<lambda>b. None)\<rparr>"

abbreviation sample_sidecar :: iroh_Backend where
  "sample_sidecar \<equiv> snd (newWithCommand sample_world ''c'')"


text \<open>
  A live sidecar that does not answer in time is taken for stopped: a second process is
  started, the first one is forgotten, and shutting down leaves it running.
\<close>

lemma unresponsive_sidecar_leaks:
  "let t = foldl iroh_step sample_sidecar [IrohOpen sample_tickets sample_world ''tunnel'' ''x'']
   in alive 0 t \<and> alive 1 t \<and> ib_cmd t = Some 1 \<and> alive 0 (iroh_Close t) \<and> ib_closed (iroh_Close t)"
  by code_simp

end
