(* ===== verification/Logger.thy ===== *)
theory Logger
  imports Irohsidecar "HOL-Library.Sublist"
begin

text \<open>
  The logger, \<open>internal/logger/logger.go\<close>: where the log file goes, opening it, the
  writer that tolerates failing outputs, the handler that follows a replaced target,
  and \<open>Tail\<close>, which the dashboard shows. File system and environment are arguments,
  formatting is left to \<open>log/slog\<close>.
\<close>

section \<open>Files\<close>

definition envBool :: "string \<Rightarrow> bool" where
  "envBool v \<longleftrightarrow> ToLower (TrimSpace v) \<in> {''1'', ''true'', ''yes'', ''y'', ''on'', ''debug''}"

primrec firstEnv :: "(string \<Rightarrow> string) \<Rightarrow> string list \<Rightarrow> string" where
  "firstEnv getenv [] = []"
| "firstEnv getenv (name # names) =
     (let v = TrimSpace (getenv name) in if v \<noteq> [] then v else firstEnv getenv names)"

definition app_log :: "string list" where "app_log = [''DeskAccess'', ''DeskAccess.log'']"

definition LogFile :: "platform \<Rightarrow> string" where
  "LogFile pf =
     (if pf_goos pf = ''windows'' then
        (if pf_getenv pf ''ProgramData'' \<noteq> [] then pf_join pf (pf_getenv pf ''ProgramData'' # app_log)
         else if pf_getenv pf ''APPDATA'' \<noteq> [] then pf_join pf (pf_getenv pf ''APPDATA'' # app_log)
         else if pf_getenv pf ''LOCALAPPDATA'' \<noteq> [] then pf_join pf (pf_getenv pf ''LOCALAPPDATA'' # app_log)
         else pf_join pf [''DeskAccess.log''])
      else pf_join pf [''/'', ''var'', ''lib'', ''deskaccess'', ''DeskAccess.log''])"

definition logFileCandidates :: "platform \<Rightarrow> string \<Rightarrow> string list" where
  "logFileCandidates pf preferred =
     foldl add_candidate []
       ([preferred]
        @ (if pf_goos pf = ''windows'' then
             under_env pf ''ProgramData'' app_log @ under_env pf ''APPDATA'' app_log @ under_env pf ''LOCALAPPDATA'' app_log
           else
             [pf_join pf [''/'', ''var'', ''lib'', ''deskaccess'', ''DeskAccess.log'']]
             @ under_env pf ''XDG_STATE_HOME'' app_log
             @ (case pf_home pf of None \<Rightarrow> []
                | Some home \<Rightarrow>
                    if home \<noteq> [] then [pf_join pf ([home, ''.local'', ''state''] @ app_log), pf_join pf ([home, ''.local'', ''share''] @ app_log)]
                    else [])))"

primrec open_loop :: "(string \<Rightarrow> string option) \<Rightarrow> (string \<Rightarrow> string option) \<Rightarrow> string option \<Rightarrow> string list \<Rightarrow> string + string" where
  "open_loop mkdir opn lastErr [] = Inl (case lastErr of Some e \<Rightarrow> e | None \<Rightarrow> ''no log file path configured'')"
| "open_loop mkdir opn lastErr (path # rest) =
     (if path = [] then open_loop mkdir opn lastErr rest
      else case mkdir path of
        Some e \<Rightarrow> open_loop mkdir opn (Some (path @ '': '' @ e)) rest
      | None \<Rightarrow>
          (case opn path of
             Some e \<Rightarrow> open_loop mkdir opn (Some (path @ '': '' @ e)) rest
           | None \<Rightarrow> Inr path))"

definition openLogFile :: "platform \<Rightarrow> (string \<Rightarrow> string option) \<Rightarrow> (string \<Rightarrow> string option) \<Rightarrow> string \<Rightarrow> string + string" where
  "openLogFile pf mkdir opn preferred = open_loop mkdir opn None (logFileCandidates pf preferred)"

section \<open>Initialisation\<close>

datatype log_writer = FileWriter string | BootstrapWriter string | StderrWriter

record log_state =
  lg_path :: string
  lg_handle :: "string option"
  lg_closed :: "string list"
  lg_writers :: "log_writer list"
  lg_debug :: bool

definition logger_Init ::
  "platform \<Rightarrow> (string \<Rightarrow> string option) \<Rightarrow> (string \<Rightarrow> string option) \<Rightarrow> string \<Rightarrow> bool \<Rightarrow> log_state \<Rightarrow> log_state" where
  "logger_Init pf mkdir opn logFile0 debug0 s =
     (let envLog = firstEnv (pf_getenv pf) [''DESKACCESS_LOG'', ''DeskAccess_LOG''];
          logFile = (if pf_goos pf \<noteq> ''windows'' \<and> envLog \<noteq> [] then envLog else logFile0);
          debug = (debug0 \<or> envBool (firstEnv (pf_getenv pf) [''DESKACCESS_DEBUG'', ''DeskAccess_DEBUG'']));
          opened = (if logFile \<noteq> [] then Some (openLogFile pf mkdir opn logFile) else None);
          writers = (case opened of None \<Rightarrow> [] | Some (Inl e) \<Rightarrow> [BootstrapWriter e] | Some (Inr path) \<Rightarrow> [FileWriter path]) @ [StderrWriter];
          handle = (case opened of Some (Inr path) \<Rightarrow> Some path | _ \<Rightarrow> None)
      in s\<lparr>lg_path := (case handle of None \<Rightarrow> [] | Some p \<Rightarrow> p), lg_handle := handle,
           lg_closed := (case lg_handle s of None \<Rightarrow> lg_closed s | Some old \<Rightarrow> old # lg_closed s),
           lg_writers := writers, lg_debug := debug\<rparr>)"

section \<open>Writing\<close>

text \<open>Every writer is tried; the result of each is an error or success.\<close>

primrec best_effort_loop :: "string option list \<Rightarrow> string option \<Rightarrow> bool \<Rightarrow> string option \<times> bool" where
  "best_effort_loop [] firstErr wrote = (firstErr, wrote)"
| "best_effort_loop (r # rs) firstErr wrote =
     (case r of
        Some e \<Rightarrow> best_effort_loop rs (if firstErr = None then Some e else firstErr) wrote
      | None \<Rightarrow> best_effort_loop rs firstErr True)"

definition bestEffortWrite :: "string option list \<Rightarrow> nat \<Rightarrow> nat \<times> string option" where
  "bestEffortWrite results n =
     (case best_effort_loop results None False of (firstErr, wrote) \<Rightarrow>
        if wrote then (n, None) else case firstErr of Some e \<Rightarrow> (0, Some e) | None \<Rightarrow> (n, None))"

definition stdLogWrite :: "string \<Rightarrow> string option" where
  "stdLogWrite p = (let msg = TrimSpace p in if msg \<noteq> [] then Some msg else None)"

section \<open>Tail\<close>

primrec split_lines :: "string \<Rightarrow> string list" where
  "split_lines [] = [[]]"
| "split_lines (c # cs) =
     (if c = CHR 0x0A then [] # split_lines cs
      else case split_lines cs of [] \<Rightarrow> [[c]] | l # ls \<Rightarrow> (c # l) # ls)"

definition maxBytes :: nat where "maxBytes = 512 * 1024"

definition tail_window :: "string \<Rightarrow> string" where
  "tail_window data =
     (if length data > maxBytes then
        let d = drop (length data - maxBytes) data in
        case find_first (\<lambda>c. c = CHR 0x0A) d of
          Some i \<Rightarrow> if i + 1 < length d then drop (i + 1) d else d
        | None \<Rightarrow> d
      else data)"

definition last_lines :: "nat \<Rightarrow> string list \<Rightarrow> string list" where
  "last_lines n raw = (if length raw > n then drop (length raw - n) raw else raw)"

definition Tail :: "string \<Rightarrow> (string \<Rightarrow> string + string) \<Rightarrow> int \<Rightarrow> string + string list" where
  "Tail logPath readFile maxLines0 =
     (if logPath = [] then Inl ''file logging is disabled''
      else
        let maxLines = (if maxLines0 \<le> 0 then 200 else maxLines0) in
        case readFile logPath of
          Inl e \<Rightarrow> Inl e
        | Inr data \<Rightarrow>
            let raw = last_lines (nat maxLines) (split_lines (TrimSpace (tail_window data)))
            in Inr (filter (\<lambda>line. length (TrimSpace line) > 0) raw))"

section \<open>The handler that follows the target\<close>

text \<open>A derived logger keeps its attributes and groups and applies them to the current target.\<close>

datatype handler_call = CallGroup string | CallAttrs "string list"

record swapHandler =
  sh_attrs :: "string list"
  sh_groups :: "string list"

definition sh_WithAttrs :: "string list \<Rightarrow> swapHandler \<Rightarrow> swapHandler" where
  "sh_WithAttrs attrs h = h\<lparr>sh_attrs := sh_attrs h @ attrs\<rparr>"

definition sh_WithGroup :: "string \<Rightarrow> swapHandler \<Rightarrow> swapHandler" where
  "sh_WithGroup name h = h\<lparr>sh_groups := sh_groups h @ [name]\<rparr>"

text \<open>The calls on the target before the record is handled.\<close>

definition sh_Handle :: "swapHandler \<Rightarrow> handler_call list" where
  "sh_Handle h = map CallGroup (sh_groups h) @ (if sh_attrs h \<noteq> [] then [CallAttrs (sh_attrs h)] else [])"

section \<open>Tail returns whole lines\<close>

definition log_text :: "string list \<Rightarrow> string" where
  "log_text ls = concat (map (\<lambda>l. l @ [CHR 0x0A]) ls)"

definition log_line :: "string \<Rightarrow> bool" where
  "log_line l \<longleftrightarrow> l \<noteq> [] \<and> CHR 0x0A \<notin> set l \<and> TrimSpace l = l"

lemma log_text_simps [simp]: "log_text [] = []" "log_text (l # ls) = l @ CHR 0x0A # log_text ls"
  by (simp_all add: log_text_def)

lemma log_text_append: "log_text (xs @ ys) = log_text xs @ log_text ys"
  by (simp add: log_text_def)

lemma split_lines_ne [simp]: "split_lines s \<noteq> []"
  by (induction s) (auto split: list.splits)

lemma split_lines_line: "CHR 0x0A \<notin> set l \<Longrightarrow> split_lines l = [l]"
  by (induction l) auto

lemma split_lines_append: "CHR 0x0A \<notin> set l \<Longrightarrow> split_lines (l @ CHR 0x0A # s) = l # split_lines s"
  by (induction l) (auto split: list.splits)

lemma split_log_text: "(\<And>l. l \<in> set ls \<Longrightarrow> CHR 0x0A \<notin> set l) \<Longrightarrow> CHR 0x0A \<notin> set l \<Longrightarrow> split_lines (log_text ls @ l) = ls @ [l]"
  by (induction ls) (auto simp: split_lines_append split_lines_line)

lemma is_space_nl: "is_space (CHR 0x0A)"
  by (simp add: is_space_def char_code_def)

lemma log_line_edges:
  assumes "log_line l"
  shows "\<not> is_space (hd l)" "\<not> is_space (last l)"
  using assms TrimFunc_edges [of is_space l l] by (auto simp: log_line_def TrimSpace_def)

lemma TrimSpace_log_text:
  assumes "\<And>l. l \<in> set ls \<Longrightarrow> log_line l" "log_line l"
  shows "TrimSpace (log_text (ls @ [l])) = log_text ls @ l"
proof -
  let ?t = "log_text ls @ l"
  have ne: "l \<noteq> []" using assms(2) by (simp add: log_line_def)
  have hd: "\<not> is_space (hd ?t)"
  proof (cases ls)
    case Nil
    then show ?thesis using log_line_edges(1) [OF assms(2)] by simp
  next
    case (Cons a as)
    then have "log_line a" using assms(1) by simp
    then show ?thesis using log_line_edges(1) [of a] Cons by (cases a) (auto simp: log_line_def)
  qed
  have "last ?t = last l" using ne by simp
  then have id: "TrimFunc is_space ?t = ?t"
    using hd log_line_edges(2) [OF assms(2)] ne by (intro TrimFunc_edge_id) simp_all
  have "TrimLeftFunc is_space (?t @ [CHR 0x0A]) = ?t @ [CHR 0x0A]"
    using hd ne by (cases ?t) (simp_all add: TrimLeftFunc_def)
  moreover have "TrimLeftFunc is_space ?t = ?t" using hd ne by (cases ?t) (simp_all add: TrimLeftFunc_def)
  ultimately have "TrimFunc is_space (?t @ [CHR 0x0A]) = TrimFunc is_space ?t"
    by (simp add: TrimFunc_def TrimRightFunc_def is_space_nl)
  then show ?thesis using id by (simp add: TrimSpace_def log_text_append)
qed

lemma split_TrimSpace_log_text:
  assumes "\<And>l. l \<in> set ls \<Longrightarrow> log_line l" "ls \<noteq> []"
  shows "split_lines (TrimSpace (log_text ls)) = ls"
proof -
  obtain as l where ls: "ls = as @ [l]" using assms(2) by (metis rev_exhaust)
  have "TrimSpace (log_text ls) = log_text as @ l"
    unfolding ls using assms(1) ls by (intro TrimSpace_log_text) simp_all
  then show ?thesis using assms(1) ls by (simp add: split_log_text log_line_def)
qed

text \<open>The window of a long file starts inside some line and continues with whole lines.\<close>

lemma log_text_drop:
  "n < length (log_text ls) \<Longrightarrow> \<exists>as l k bs. ls = as @ l # bs \<and> k \<le> length l \<and> drop n (log_text ls) = drop k l @ CHR 0x0A # log_text bs"
proof (induction ls arbitrary: n)
  case (Cons a ls)
  show ?case
  proof (cases "n \<le> length a")
    case True
    then show ?thesis by (intro exI [of _ "[]"] exI [of _ a] exI [of _ n] exI [of _ ls]) simp
  next
    case False
    define m where "m = n - Suc (length a)"
    have n: "n = Suc (length a) + m" using False by (simp add: m_def)
    then obtain as l k bs where "ls = as @ l # bs" "k \<le> length l" "drop m (log_text ls) = drop k l @ CHR 0x0A # log_text bs"
      using Cons.IH [of m] Cons.prems by auto
    then show ?thesis by (intro exI [of _ "a # as"] exI [of _ l] exI [of _ k] exI [of _ bs]) (simp add: n)
  qed
qed simp

lemma find_first_line: "CHR 0x0A \<notin> set l \<Longrightarrow> find_first (\<lambda>c. c = CHR 0x0A) (l @ CHR 0x0A # s) = Some (length l)"
  by (induction l) auto

lemma tail_window_lines:
  assumes "\<And>l. l \<in> set ls \<Longrightarrow> log_line l" "\<And>l. l \<in> set ls \<Longrightarrow> Suc (length l) < maxBytes" "ls \<noteq> []"
  shows "\<exists>ms. suffix ms ls \<and> ms \<noteq> [] \<and> tail_window (log_text ls) = log_text ms"
proof (cases "length (log_text ls) > maxBytes")
  case False
  then show ?thesis using assms(3) by (intro exI [of _ ls]) (simp add: tail_window_def)
next
  case True
  define n where "n = length (log_text ls) - maxBytes"
  have "n < length (log_text ls)" using True by (simp add: n_def maxBytes_def)
  then obtain as l k bs where ls: "ls = as @ l # bs" and d: "drop n (log_text ls) = drop k l @ CHR 0x0A # log_text bs"
    using log_text_drop by blast
  have len: "length (drop n (log_text ls)) = maxBytes" using True by (simp add: n_def)
  have "CHR 0x0A \<notin> set (drop k l)" using assms(1) [of l] ls by (auto simp: log_line_def dest: in_set_dropD)
  then have f: "find_first (\<lambda>c. c = CHR 0x0A) (drop n (log_text ls)) = Some (length (drop k l))"
    unfolding d by (rule find_first_line)
  have "Suc (length l) < maxBytes" using assms(2) ls by simp
  then have lt: "length (drop k l) + 1 < length (drop n (log_text ls))" using len by simp
  then have bs: "bs \<noteq> []" unfolding d by (cases bs) simp_all
  have "tail_window (log_text ls) = drop (length (drop k l) + 1) (drop n (log_text ls))"
    using True lt f by (simp add: tail_window_def Let_def n_def)
  also have "\<dots> = log_text bs" unfolding d by simp
  finally show ?thesis using bs ls by (intro exI [of _ bs]) (auto simp: suffix_def)
qed

lemma last_lines_suffix: "suffix (last_lines n xs) xs" "length (last_lines n xs) = min n (length xs)"
  by (auto simp: last_lines_def suffix_drop)

text \<open>
  For a log of complete, trimmed lines each shorter than the window of 512 KiB,
  \<open>Tail\<close> returns the end of the log: whole lines, in order, never a fragment, at most
  the number asked for (200 when that is not positive); and for a log that fits the
  window it returns exactly that many of the last lines, or all of them.
\<close>

theorem Tail_whole_lines:
  assumes "ls \<noteq> []" "\<And>l. l \<in> set ls \<Longrightarrow> log_line l" "\<And>l. l \<in> set ls \<Longrightarrow> Suc (length l) < maxBytes"
    "path \<noteq> []" "readFile path = Inr (log_text ls)"
  shows "let n = nat (if maxLines \<le> 0 then 200 else maxLines)
         in \<exists>out. Tail path readFile maxLines = Inr out \<and> suffix out ls \<and> out \<noteq> [] \<and> length out \<le> n
              \<and> (length (log_text ls) \<le> maxBytes \<longrightarrow> out = drop (length ls - n) ls)"
proof -
  define n where "n = nat (if maxLines \<le> 0 then 200 else maxLines)"
  have n: "0 < n" by (simp add: n_def)
  obtain ms where ms: "suffix ms ls" "ms \<noteq> []" "tail_window (log_text ls) = log_text ms"
    using tail_window_lines [OF assms(2,3,1)] by blast
  have lines: "log_line l" if "l \<in> set ms" for l
    using that ms(1) assms(2) by (auto simp: suffix_def)
  let ?out = "last_lines n ms"
  have "filter (\<lambda>line. length (TrimSpace line) > 0) ?out = ?out"
    using lines set_mono_suffix [OF last_lines_suffix(1) [of n ms]]
    by (intro filter_True ballI) (auto simp: log_line_def dest!: subsetD)
  then have tail: "Tail path readFile maxLines = Inr ?out"
    using assms(4,5) ms lines by (simp add: Tail_def Let_def n_def [symmetric] split_TrimSpace_log_text)
  have "?out \<noteq> []" using last_lines_suffix(2) [of n ms] n ms(2) by (metis length_0_conv min_def neq0_conv)
  moreover have "suffix ?out ls" using last_lines_suffix(1) ms(1) by (rule suffix_order.trans)
  moreover have "?out = drop (length ls - n) ls" if "length (log_text ls) \<le> maxBytes"
  proof -
    have "log_text ms = log_text ls" using ms(3) that by (simp add: tail_window_def)
    then have "length ms = length ls"
      using ms split_TrimSpace_log_text [OF assms(2,1)] split_TrimSpace_log_text [OF lines ms(2)] by simp
    then have "ms = ls" using ms(1) by (auto simp: suffix_def)
    then show ?thesis by (simp add: last_lines_def)
  qed
  ultimately show ?thesis using tail last_lines_suffix(2) [of n ms] by (simp add: n_def Let_def)
qed

theorem Tail_whole_lines_witness:
  "\<exists>out. Tail ''p'' (\<lambda>p. Inr (log_text [''a'', ''b'', ''c''])) 2 = Inr out \<and> out = [''b'', ''c'']"
proof -
  have "TrimSpace ''a'' = ''a''" "TrimSpace ''b'' = ''b''" "TrimSpace ''c'' = ''c''" by code_simp+
  then have l: "log_line l \<and> Suc (length l) < maxBytes" if "l \<in> set [''a'', ''b'', ''c'']" for l
    using that by (auto simp: log_line_def maxBytes_def)
  have "length (log_text [''a'', ''b'', ''c'']) \<le> maxBytes" by (simp add: maxBytes_def)
  moreover obtain out where "Tail ''p'' (\<lambda>p. Inr (log_text [''a'', ''b'', ''c''])) 2 = Inr out"
    "length (log_text [''a'', ''b'', ''c'']) \<le> maxBytes \<longrightarrow> out = drop (length [''a'', ''b'', ''c''] - 2) [''a'', ''b'', ''c'']"
    using Tail_whole_lines [of "[''a'', ''b'', ''c'']" "''p''" "\<lambda>p. Inr (log_text [''a'', ''b'', ''c''])" 2] l by (auto simp: Let_def)
  ultimately show ?thesis by simp
qed

lemma best_effort_wrote: "snd (best_effort_loop rs f w) \<longleftrightarrow> w \<or> None \<in> set rs"
  by (induction rs arbitrary: f w) (auto split: option.split)

lemma best_effort_error: "fst (best_effort_loop rs (Some e) w) = Some e"
  by (induction rs arbitrary: w) (auto split: option.split)

text \<open>A write succeeds when some writer does, and otherwise reports the first error.\<close>

lemma bestEffortWrite_result:
  "bestEffortWrite rs n = (if None \<in> set rs \<or> rs = [] then (n, None) else (0, hd rs))"
proof (cases rs)
  case (Cons r rs')
  obtain f w where fw: "best_effort_loop rs None False = (f, w)" by force
  have w: "w \<longleftrightarrow> None \<in> set rs" using best_effort_wrote [of rs None False] by (simp add: fw)
  show ?thesis
  proof (cases r)
    case (Some e)
    then have "f = Some e" using best_effort_error [of rs' e False] fw Cons by simp
    then show ?thesis using w Cons Some unfolding bestEffortWrite_def fw by simp
  next
    case None
    then show ?thesis using w Cons unfolding bestEffortWrite_def fw by simp
  qed
qed (simp add: bestEffortWrite_def)

text \<open>
  Deriving a logger with attributes and then with a group applies the group first: the
  attributes end up inside a group that was opened after them.
\<close>

lemma sh_Handle_groups_first:
  "sh_Handle (sh_WithGroup g (sh_WithAttrs (a # as) \<lparr>sh_attrs = [], sh_groups = []\<rparr>)) = [CallGroup g, CallAttrs (a # as)]"
  by (simp add: sh_Handle_def sh_WithGroup_def sh_WithAttrs_def)

end
