(* ===== verification/Ipc.thy ===== *)
theory Ipc
  imports Webui_Api_Safety Logger
begin

text \<open>
  The channel between daemon and desktop process: \<open>internal/ipc\<close> (requests, replies,
  the sockets both sides use, serving and querying) and the request handler the service
  installs, the closure given to \<open>ipc.Serve\<close> in \<open>internal/service/service.go\<close>. The
  JSON codec, the sockets and the check of the calling process are arguments.
\<close>

section \<open>Messages\<close>

record ipc_Request =
  iq_Cmd :: string
  iq_Mode :: string
  iq_Protocol :: string
  iq_Port :: int
  iq_Label :: string

record ipc_Response =
  ir_NodeID :: string
  ir_Label :: string
  ir_WebuiURL :: string
  ir_RelayCount :: nat
  ir_LogFile :: string
  ir_InviteURL :: string
  ir_Error :: string

definition empty_response :: ipc_Response where
  "empty_response = \<lparr>ir_NodeID = [], ir_Label = [], ir_WebuiURL = [], ir_RelayCount = 0, ir_LogFile = [],
     ir_InviteURL = [], ir_Error = []\<rparr>"

definition error_response :: "string \<Rightarrow> ipc_Response" where
  "error_response e = empty_response\<lparr>ir_Error := e\<rparr>"

definition status_request :: ipc_Request where
  "status_request = \<lparr>iq_Cmd = ''status'', iq_Mode = [], iq_Protocol = [], iq_Port = 0, iq_Label = []\<rparr>"

section \<open>Sockets\<close>

definition systemSocketPath :: string where
  "systemSocketPath = ''/run/deskaccess/DeskAccess.sock''"

text \<open>The environment of a process on a Unix system: its user id and which directories exist.\<close>

record unix_env =
  ux_platform :: platform
  ux_uid :: nat
  ux_exists :: "string \<Rightarrow> bool"

definition userSocketPath :: "unix_env \<Rightarrow> string" where
  "userSocketPath ux =
     (let d = pf_getenv (ux_platform ux) ''XDG_RUNTIME_DIR'' in
      if d \<noteq> [] then pf_join (ux_platform ux) [d, ''DeskAccess.sock'']
      else ''/tmp/DeskAccess-'' @ Utoa (ux_uid ux) @ ''.sock'')"

definition listenSocketPath :: "unix_env \<Rightarrow> string" where
  "listenSocketPath ux =
     (let p = pf_getenv (ux_platform ux) ''DESKACCESS_IPC_SOCKET'' in
      if p \<noteq> [] then p
      else if ux_exists ux (pf_dir (ux_platform ux) systemSocketPath) then systemSocketPath
      else userSocketPath ux)"

definition dialSocketPaths :: "unix_env \<Rightarrow> string list" where
  "dialSocketPaths ux =
     (let p = pf_getenv (ux_platform ux) ''DESKACCESS_IPC_SOCKET'' in
      if p \<noteq> [] then [p]
      else uniq_loop (\<lambda>p. if p = [] then None else Some p) [] [userSocketPath ux, systemSocketPath])"

text \<open>
  \<open>listen\<close>: the path and the permission bits of the socket; \<open>bind\<close> reports the error of
  creating the directory, removing a stale socket and binding.
\<close>

definition ipc_listen :: "unix_env \<Rightarrow> (string \<Rightarrow> string option) \<Rightarrow> string + (string \<times> nat)" where
  "ipc_listen ux bind =
     (let path = listenSocketPath ux in
      case bind path of
        Some e \<Rightarrow> Inl e
      | None \<Rightarrow> Inr (path, if path = systemSocketPath then 0x1B0 else 0x180))"

primrec dial_paths :: "(string \<Rightarrow> string option) \<Rightarrow> string list \<Rightarrow> string list \<Rightarrow> string + string" where
  "dial_paths con errs [] = Inl (''all IPC sockets failed: '' @ Join errs ''; '')"
| "dial_paths con errs (path # rest) =
     (case con path of
        None \<Rightarrow> Inr path
      | Some e \<Rightarrow> dial_paths con (errs @ [path @ '': '' @ e]) rest)"

definition ipc_dial :: "unix_env \<Rightarrow> (string \<Rightarrow> string option) \<Rightarrow> string + string" where
  "ipc_dial ux con = dial_paths con [] (dialSocketPaths ux)"

section \<open>Authorisation of the caller\<close>

text \<open>
  The connection: on Windows the process id of the client or an error, and the image
  path of a process; elsewhere the permissions of the socket decide and nothing is checked.
\<close>

record ipc_peer =
  pe_pid :: "string + nat"
  pe_image :: "nat \<Rightarrow> string + string"
  pe_quote :: "string \<Rightarrow> string"
  pe_clean :: "string \<Rightarrow> string"

definition authorizeClient_unix :: "ipc_peer \<Rightarrow> string option" where
  "authorizeClient_unix pe = None"

definition authorizeClient_windows :: "string \<Rightarrow> ipc_peer \<Rightarrow> string option" where
  "authorizeClient_windows ownPath pe =
     (case pe_pid pe of
        Inl e \<Rightarrow> Some e
      | Inr pid \<Rightarrow>
          (case pe_image pe pid of
             Inl e \<Rightarrow> Some (''inspect client process '' @ Utoa pid @ '': '' @ e)
           | Inr path \<Rightarrow>
               if ToLower (pe_clean pe path) \<noteq> ToLower (pe_clean pe ownPath)
               then Some (''untrusted process pid='' @ Utoa pid @ '' path='' @ pe_quote pe path)
               else None))"

section \<open>Serving and querying\<close>

record ipc_codec =
  jc_encReq :: "ipc_Request \<Rightarrow> string"
  jc_decReq :: "string \<Rightarrow> ipc_Request option"
  jc_encResp :: "ipc_Response \<Rightarrow> string"
  jc_decResp :: "string \<Rightarrow> string + ipc_Response"

definition serveConn ::
  "ipc_codec \<Rightarrow> string option \<Rightarrow> (ipc_Request \<Rightarrow> 's \<Rightarrow> ipc_Response \<times> 's) \<Rightarrow> string \<Rightarrow> 's \<Rightarrow> string \<times> 's" where
  "serveConn jc auth h input s =
     (case auth of
        Some e \<Rightarrow> (jc_encResp jc (error_response (''unauthorized IPC client: '' @ e)), s)
      | None \<Rightarrow>
          (case jc_decReq jc input of
             None \<Rightarrow> ([], s)
           | Some req \<Rightarrow> (case h req s of (resp, s') \<Rightarrow> (jc_encResp jc resp, s'))))"

text \<open>\<open>con\<close> connects to a path, \<open>send\<close> is the far side: the error of sending, or what it answers to the bytes sent.\<close>

definition Query ::
  "ipc_codec \<Rightarrow> (string + string) \<Rightarrow> (string \<Rightarrow> string \<Rightarrow> 's \<Rightarrow> (string + string) \<times> 's) \<Rightarrow> ipc_Request \<Rightarrow> 's
   \<Rightarrow> (string + ipc_Response) \<times> 's" where
  "Query jc dialled send req s =
     (case dialled of
        Inl e \<Rightarrow> (Inl e, s)
      | Inr path \<Rightarrow>
          (case send path (jc_encReq jc req) s of
             (Inl e, s') \<Rightarrow> (Inl e, s')
           | (Inr reply, s') \<Rightarrow> (jc_decResp jc reply, s')))"

section \<open>The handler of the service\<close>

definition ipc_handler ::
  "'m api_env \<Rightarrow> string \<Rightarrow> string \<Rightarrow> ipc_Request \<Rightarrow> 'm api_state \<Rightarrow> ipc_Response \<times> 'm api_state" where
  "ipc_handler env tok logFile req s =
     (if iq_Cmd req = ''status'' then
        (case BaseURL tok (ap_srv s) of (url, srv) \<Rightarrow>
           (empty_response\<lparr>ir_NodeID := n_PeerID (ns_node (ws_net (ap_srv s))), ir_Label := nd_Label (cfg_Node (ap_cfg s)),
              ir_WebuiURL := url, ir_RelayCount := length (RelayAddrs (sv_lib (ae_svc env)) (ns_node (ws_net (ap_srv s)))),
              ir_LogFile := logFile\<rparr>, set_srv srv s))
      else if iq_Cmd req = ''generate'' then
        (if iq_Mode req \<noteq> ''onetime'' \<and> iq_Mode req \<noteq> ''pairing'' then (error_response ''mode must be onetime or pairing'', s)
         else
           let proto = (if iq_Protocol req = [] then rdp_Protocol (cfg_RDP (ap_cfg s)) else iq_Protocol req);
               proto = (if proto = [] then ''rdp'' else proto);
               port = (if iq_Port req = 0 then rdp_DefaultPort (rdp_ParseProtocol proto) else iq_Port req);
               ttl = (if iq_Mode req = ''pairing'' then 0 else hour)
           in (case GenerateURL (ae_gen env) (ae_now env) (iq_Mode req) ttl (iq_Label req) proto port (ap_mgr s) of
                 (Inl e, m) \<Rightarrow> (error_response (ae_gen_msg env e), set_mgr m s)
               | (Inr (url, view), m) \<Rightarrow> (empty_response\<lparr>ir_InviteURL := url\<rparr>, set_mgr m s)))
      else (error_response (''unknown command: '' @ iq_Cmd req), s))"


section \<open>Client and daemon meet\<close>

lemma keys_of_nonempty: "keys_of (\<lambda>p. if p = [] then None else Some p) xs = set xs - {[]}"
  by (auto simp: keys_of_def)

lemma systemSocketPath_nonempty: "systemSocketPath \<noteq> []"
  by (simp add: systemSocketPath_def)

lemma listen_in_dial:
  assumes "userSocketPath ux \<noteq> []"
  shows "listenSocketPath ux \<in> set (dialSocketPaths ux)"
  using assms systemSocketPath_nonempty
  by (auto simp: listenSocketPath_def dialSocketPaths_def set_uniq_loop keys_of_nonempty Let_def)

lemma dial_paths_Inr:
  "dial_paths con errs ps = Inr path \<Longrightarrow> path \<in> set ps \<and> con path = None"
  by (induction ps arbitrary: errs) (auto split: option.splits)

lemma dial_paths_finds: "p \<in> set ps \<Longrightarrow> con p = None \<Longrightarrow> \<exists>path. dial_paths con errs ps = Inr path"
  by (induction ps arbitrary: errs) (auto split: option.splits)

text \<open>Only the system-wide socket is open to a group; every other socket is for its owner.\<close>

lemma ipc_listen_mode:
  "ipc_listen ux bind = Inr (path, bits) \<Longrightarrow>
     path = listenSocketPath ux \<and> bits = (if path = systemSocketPath then 0x1B0 else 0x180)"
  by (auto simp: ipc_listen_def Let_def split: option.splits)

section \<open>Exchanges\<close>

text \<open>What the JSON codec promises: a message is read back as it was written.\<close>

definition codec_ok :: "ipc_codec \<Rightarrow> bool" where
  "codec_ok jc \<longleftrightarrow> (\<forall>req. jc_decReq jc (jc_encReq jc req) = Some req) \<and> (\<forall>resp. jc_decResp jc (jc_encResp jc resp) = Inr resp)"

lemma serveConn_Some:
  "serveConn jc (Some e) h input s = (jc_encResp jc (error_response (''unauthorized IPC client: '' @ e)), s)"
  by (simp add: serveConn_def)

text \<open>The daemon as the far side of a connection.\<close>

definition served ::
  "ipc_codec \<Rightarrow> string option \<Rightarrow> (ipc_Request \<Rightarrow> 's \<Rightarrow> ipc_Response \<times> 's) \<Rightarrow> string \<Rightarrow> string \<Rightarrow> 's \<Rightarrow> (string + string) \<times> 's" where
  "served jc auth h path input s = (case serveConn jc auth h input s of (out, s') \<Rightarrow> (Inr out, s'))"

lemma Query_served:
  assumes "codec_ok jc"
  shows "Query jc (Inr path) (served jc auth h) req s =
    (case auth of None \<Rightarrow> (case h req s of (resp, s') \<Rightarrow> (Inr resp, s'))
     | Some e \<Rightarrow> (Inr (error_response (''unauthorized IPC client: '' @ e)), s))"
  using assms by (auto simp: Query_def served_def serveConn_def codec_ok_def split: option.splits prod.splits)

definition daemon_query ::
  "'m api_env \<Rightarrow> ipc_codec \<Rightarrow> string option \<Rightarrow> (string + string) \<Rightarrow> string \<Rightarrow> string \<Rightarrow> ipc_Request \<Rightarrow> 'm api_state
   \<Rightarrow> (string + ipc_Response) \<times> 'm api_state" where
  "daemon_query env jc auth dialled tok logFile req s = Query jc dialled (served jc auth (ipc_handler env tok logFile)) req s"

section \<open>The handler\<close>

lemma ipc_status:
  "ipc_handler env tok logFile status_request s =
     (empty_response\<lparr>ir_NodeID := n_PeerID (ns_node (ws_net (ap_srv s))), ir_Label := nd_Label (cfg_Node (ap_cfg s)),
        ir_WebuiURL := ''http://127.0.0.1:18080/?token='' @ tok,
        ir_RelayCount := length (RelayAddrs (sv_lib (ae_svc env)) (ns_node (ws_net (ap_srv s)))), ir_LogFile := logFile\<rparr>,
      set_srv ((ap_srv s)\<lparr>ws_launchTokens := List.insert tok (ws_launchTokens (ap_srv s))\<rparr>) s)"
  by (simp add: ipc_handler_def status_request_def BaseURL_def)

lemma ipc_unknown:
  "iq_Cmd req \<notin> {''status'', ''generate''} \<Longrightarrow> ipc_handler env tok logFile req s = (error_response (''unknown command: '' @ iq_Cmd req), s)"
  by (simp add: ipc_handler_def)

text \<open>A status request only adds a launch token: sessions, invites and configuration stay.\<close>

lemma ipc_status_state:
  assumes "ns_cfg (ws_net (ap_srv s)) = ap_cfg s"
  shows "ap_mgr (snd (ipc_handler env tok logFile status_request s)) = ap_mgr s"
    and "ap_srv (snd (ipc_handler env tok logFile status_request s)) =
      (ap_srv s)\<lparr>ws_launchTokens := List.insert tok (ws_launchTokens (ap_srv s))\<rparr>"
  using assms by (simp_all add: ipc_status set_srv_def ap_cfg_def)

text \<open>The invites of the command line and those of the dashboard are made by the same call.\<close>

lemma ipc_generate_as_dashboard:
  assumes "iq_Cmd req = ''generate''" and "iq_Mode req \<in> {''onetime'', ''pairing''}"
    and "iq_Protocol req \<noteq> []" and "TrimSpace (iq_Label req) = iq_Label req"
  shows "ipc_handler env tok logFile req s =
    (case handleGenerateURL env (iq_Mode req) ''POST'' \<lparr>gq_Label = iq_Label req, gq_Protocol = iq_Protocol req, gq_Port = iq_Port req\<rparr> s of
       (Reply (url, view), s') \<Rightarrow> (empty_response\<lparr>ir_InviteURL := url\<rparr>, s')
     | (HttpError code e, s') \<Rightarrow> (error_response e, s'))"
proof -
  let ?port = "if iq_Port req = 0 then rdp_DefaultPort (rdp_ParseProtocol (iq_Protocol req)) else iq_Port req"
  let ?ttl = "if iq_Mode req = ''pairing'' then 0 else hour"
  define r where "r = GenerateURL (ae_gen env) (ae_now env) (iq_Mode req) ?ttl (iq_Label req) (iq_Protocol req) ?port (ap_mgr s)"
  have mode: "\<not> (iq_Mode req \<noteq> ''onetime'' \<and> iq_Mode req \<noteq> ''pairing'')" and ne: "''generate'' \<noteq> ''status''"
    using assms(2) by auto
  have ttl: "(if (if iq_Mode req = ''onetime'' then 60 else 0 :: int) = 0 then 0
      else (if iq_Mode req = ''onetime'' then 60 else 0) * Webui_Api.minute) = ?ttl"
    using assms(2) by (auto simp: Webui_Api.minute_def)
  have "ipc_handler env tok logFile req s =
      (case r of (Inl e, m) \<Rightarrow> (error_response (ae_gen_msg env e), set_mgr m s)
       | (Inr (url, view), m) \<Rightarrow> (empty_response\<lparr>ir_InviteURL := url\<rparr>, set_mgr m s))"
    unfolding ipc_handler_def Let_def r_def by (simp only: assms(1,3) ne mode if_False if_True simp_thms)
  moreover have "handleGenerateURL env (iq_Mode req) ''POST'' \<lparr>gq_Label = iq_Label req, gq_Protocol = iq_Protocol req, gq_Port = iq_Port req\<rparr> s =
      (case r of (Inl e, m) \<Rightarrow> (HttpError 500 (ae_gen_msg env e), set_mgr m s) | (Inr x, m) \<Rightarrow> (Reply x, set_mgr m s))"
    unfolding handleGenerateURL_def Let_def r_def ttl by (simp add: assms(4))
  ultimately show ?thesis by (cases r; cases "fst r") auto
qed

end
