(* ===== verification/Go_Base64.thy ===== *)
theory Go_Base64
  imports Go_Url
begin

text \<open>
  Unpadded URL-safe base64, \<open>base64.RawURLEncoding\<close> of the Go library: three bytes
  become four characters, a rest of one or two bytes becomes two or three characters.
  The decoder skips line ends, refuses a rest of one character and ignores unused bits.
\<close>

definition b64_alphabet :: string where
  "b64_alphabet = ''ABCDEFGHIJKLMNOPQRSTUVWXYZabcdefghijklmnopqrstuvwxyz0123456789-_''"

definition b64_char :: "nat \<Rightarrow> char" where
  "b64_char n = b64_alphabet ! (n mod 64)"

definition b64_value :: "char \<Rightarrow> nat option" where
  "b64_value c = map_of (zip b64_alphabet [0..<64]) c"

fun RawURLEncode :: "bytes \<Rightarrow> string" where
  "RawURLEncode [] = []"
| "RawURLEncode [a] = [b64_char (unat a div 4), b64_char (unat a * 16)]"
| "RawURLEncode [a, b] =
     [b64_char (unat a div 4), b64_char (unat a * 16 + unat b div 16), b64_char (unat b * 4)]"
| "RawURLEncode (a # b # c # rest) =
     b64_char (unat a div 4) # b64_char (unat a * 16 + unat b div 16) #
     b64_char (unat b * 4 + unat c div 64) # b64_char (unat c) # RawURLEncode rest"

fun b64_groups :: "nat list \<Rightarrow> bytes option" where
  "b64_groups [] = Some []"
| "b64_groups [w] = None"
| "b64_groups [w, x] = Some [word_of_nat (w * 4 + x div 16)]"
| "b64_groups [w, x, y] = Some [word_of_nat (w * 4 + x div 16), word_of_nat (x * 16 + y div 4)]"
| "b64_groups (w # x # y # z # rest) =
     map_option (\<lambda>bs. word_of_nat (w * 4 + x div 16) # word_of_nat (x * 16 + y div 4) # word_of_nat (y * 64 + z) # bs)
       (b64_groups rest)"

definition RawURLDecode :: "string \<Rightarrow> bytes option" where
  "RawURLDecode s =
     (case those (map b64_value (filter (\<lambda>c. c \<noteq> CHR 0x0A \<and> c \<noteq> CHR 0x0D) s)) of
        None \<Rightarrow> None
      | Some ds \<Rightarrow> b64_groups ds)"

section \<open>Decoding what was encoded\<close>

lemma b64_alphabet_facts: "length b64_alphabet = 64" "distinct b64_alphabet" "list_all is_unreserved b64_alphabet"
  "list_all (\<lambda>c. c \<noteq> CHR 0x0A \<and> c \<noteq> CHR 0x0D) b64_alphabet"
  by code_simp+

lemma b64_char_mem: "b64_char n \<in> set b64_alphabet"
  by (simp add: b64_char_def b64_alphabet_facts)

lemma b64_value_char: "b64_value (b64_char n) = Some (n mod 64)"
  using map_of_zip_nth [of b64_alphabet "[0..<64]" "n mod 64"]
  by (simp add: b64_value_def b64_char_def b64_alphabet_facts)

lemma b64_char_plain: "b64_char n \<noteq> CHR 0x0A" "b64_char n \<noteq> CHR 0x0D"
  using b64_char_mem [of n] b64_alphabet_facts(4) by (auto simp: list_all_iff)

text \<open>The six-bit digits of a byte sequence.\<close>

fun sextets :: "bytes \<Rightarrow> nat list" where
  "sextets [] = []"
| "sextets [a] = [unat a div 4, unat a * 16]"
| "sextets [a, b] = [unat a div 4, unat a * 16 + unat b div 16, unat b * 4]"
| "sextets (a # b # c # rest) =
     [unat a div 4, unat a * 16 + unat b div 16, unat b * 4 + unat c div 64, unat c] @ sextets rest"

lemma RawURLEncode_sextets: "RawURLEncode bs = map b64_char (sextets bs)"
  by (induction bs rule: sextets.induct) simp_all

lemma byte_bound: "unat (b :: byte) < 256"
  using unsigned_less [of b] by simp

lemma byte_parts: "unat (b :: byte) div 16 < 16" "unat b div 64 < 4" "unat b div 4 < 64"
  using byte_bound [of b] by (simp_all add: less_mult_imp_div_less)

lemma byte_of_mod: "n mod 256 = unat b \<Longrightarrow> word_of_nat n = (b :: byte)"
  by (simp only: word_unat_eq_iff) (simp add: unsigned_of_nat take_bit_eq_mod)

text \<open>A number below 256 in base 4 and 64, and in base 16.\<close>

lemma split_mod: "(n * m + k) mod m = k" "(n * m + k) div m = n" if "k < m" for n m k :: nat
  using that by simp_all

lemma join_bits:
  fixes p q :: nat
  assumes "q < m" "r < k" "m * k = 64"
  shows "((p * m + q) * k + r) mod 64 div k = q"
proof -
  have "q * k + r < (q + 1) * k" using assms(2) by simp
  also have "\<dots> \<le> m * k" using assms(1) by (intro mult_right_mono) simp_all
  finally have lt: "q * k + r < 64" using assms(3) by simp
  have "(p * m + q) * k + r = p * 64 + (q * k + r)" using assms(3) by (simp add: algebra_simps)
  then have "((p * m + q) * k + r) mod 64 = q * k + r" using split_mod(1) [OF lt, of p] by metis
  then show ?thesis using assms(2) by simp
qed

lemma first_byte: "word_of_nat ((unat a div 4 mod 64) * 4 + (unat a * 16 + r) mod 64 div 16) = (a :: byte)" if "r < 16"
proof -
  have "(unat a * 16 + r) mod 64 div 16 = unat a mod 4"
    using join_bits [of "unat a mod 4" 4 r 16 "unat a div 4"] that by simp
  moreover have "unat a div 4 mod 64 = unat a div 4" using byte_parts(3) [of a] by simp
  ultimately show ?thesis by simp
qed

lemma second_byte:
  "word_of_nat ((unat a * 16 + unat b div 16) mod 64 * 16 + (unat b * 4 + r) mod 64 div 4) = (b :: byte)" if "r < 4"
proof -
  have lo: "(unat b * 4 + r) mod 64 div 4 = unat b mod 16"
    using join_bits [of "unat b mod 16" 16 r 4 "unat b div 16"] that by simp
  note hi = byte_parts(1) [of b]
  have "(unat a * 16 + unat b div 16) mod 64 = unat a mod 4 * 16 + unat b div 16"
  proof -
    have "unat a mod 4 * 16 + unat b div 16 < 64" using hi mod_less_divisor [of 4 "unat a"] by linarith
    moreover have "unat a * 16 + unat b div 16 = unat a div 4 * 64 + (unat a mod 4 * 16 + unat b div 16)"
      using div_mult_mod_eq [of "unat a" 4] by linarith
    ultimately show ?thesis by (metis split_mod(1))
  qed
  moreover have "(unat a mod 4 * 16 + unat b div 16) * 16 + unat b mod 16 = unat a mod 4 * 256 + unat b"
    using div_mult_mod_eq [of "unat b" 16] by (simp add: distrib_right)
  ultimately show ?thesis using byte_bound [of b] by (intro byte_of_mod) (simp add: lo)
qed

lemma third_byte: "word_of_nat ((unat b * 4 + unat c div 64) mod 64 * 64 + unat c mod 64) = (c :: byte)"
proof -
  note hi = byte_parts(2) [of c]
  have "(unat b * 4 + unat c div 64) mod 64 = unat b mod 16 * 4 + unat c div 64"
  proof -
    have "unat b mod 16 * 4 + unat c div 64 < 64" using hi mod_less_divisor [of 16 "unat b"] by linarith
    moreover have "unat b * 4 + unat c div 64 = unat b div 16 * 64 + (unat b mod 16 * 4 + unat c div 64)"
      using div_mult_mod_eq [of "unat b" 16] by linarith
    ultimately show ?thesis by (metis split_mod(1))
  qed
  moreover have "(unat b mod 16 * 4 + unat c div 64) * 64 + unat c mod 64 = unat b mod 16 * 256 + unat c"
    using div_mult_mod_eq [of "unat c" 64] by (simp add: distrib_right)
  ultimately show ?thesis using byte_bound [of c] by (intro byte_of_mod) simp
qed

lemma b64_groups_sextets: "b64_groups (map (\<lambda>n. n mod 64) (sextets bs)) = Some bs"
proof (induction bs rule: sextets.induct)
  case (2 a)
  show ?case using first_byte [of 0 a] by simp
next
  case (3 a b)
  show ?case using byte_parts(1) [of b] first_byte [of "unat b div 16" a] second_byte [of 0 a b] by simp
next
  case (4 a b c rest)
  show ?case using byte_parts(1) [of b] byte_parts(2) [of c] 4 first_byte [of "unat b div 16" a] second_byte [of "unat c div 64" a b] third_byte [of b c] by simp
qed simp

theorem RawURLDecode_Encode: "RawURLDecode (RawURLEncode bs) = Some bs"
proof -
  have "filter (\<lambda>c. c \<noteq> CHR 0x0A \<and> c \<noteq> CHR 0x0D) (RawURLEncode bs) = RawURLEncode bs"
    by (auto simp: RawURLEncode_sextets filter_id_conv b64_char_plain)
  moreover have "those (map b64_value (map b64_char ns)) = Some (map (\<lambda>n. n mod 64) ns)" for ns
    by (induction ns) (simp_all add: b64_value_char)
  ultimately show ?thesis
    by (simp add: RawURLDecode_def RawURLEncode_sextets b64_groups_sextets)
qed

lemma RawURLEncode_unreserved: "c \<in> set (RawURLEncode bs) \<Longrightarrow> is_unreserved c"
  using b64_char_mem b64_alphabet_facts(3) by (auto simp: RawURLEncode_sextets list_all_iff)

lemma RawURLEncode_Nil [simp]: "RawURLEncode bs = [] \<longleftrightarrow> bs = []"
  by (cases bs rule: sextets.cases) simp_all

end
