(* ===== verification/Cli.thy ===== *)
theory Cli
  imports Ipc Go_Base64
begin

text \<open>
  The command \<open>deskaccess\<close>, \<open>cmd/deskaccess/main.go\<close>: which of its modes runs, the
  modes that ask the daemon over IPC, the two polling loops with a deadline, handing an
  invite link to the dashboard, and the portable client. A run is the list of what the
  process does, in order; \<open>Fatal\<close> ends it. The daemon, the clock, displays and the
  parts the modes start are arguments.
\<close>

section \<open>What a run does\<close>

datatype tunnel_via = ViaQUIC string | ViaIroh string | ViaRelays "string list"

datatype cli_event =
    Println string
  | ShowDashboard string
  | Fatal string
  | StartStack
  | WaitDaemonTimeout
  | RunTrayLoop
  | CancelStack
  | WaitSignal
  | StackStopped
  | StackStopTimeout
  | BackendsSet bool bool bool
  | OpenTunnel tunnel_via string bytes int
  | LaunchRDP string

text \<open>
  The daemon is seen through \<open>ce_query\<close>: the answer to a request and the time until
  it is there (for a request the daemon never answers there is no such time).
  \<open>ce_done\<close> says whether the context was cancelled by then.
\<close>

record 'w cli_env =
  ce_query :: "ipc_Request \<Rightarrow> 'w \<Rightarrow> (string + ipc_Response) \<times> nat \<times> 'w"
  ce_done :: "'w \<Rightarrow> bool"
  ce_hasDisplay :: bool
  ce_hasDesktop :: bool
  ce_stackStops :: bool

record 'w cli_world =
  cw_now :: instant
  cw_sent :: "ipc_Request list"
  cw_daemon :: 'w

definition cli_Query :: "'w cli_env \<Rightarrow> ipc_Request \<Rightarrow> 'w cli_world \<Rightarrow> (string + ipc_Response) \<times> 'w cli_world" where
  "cli_Query env req w =
     (case ce_query env req (cw_daemon w) of (r, took, d) \<Rightarrow>
        (r, \<lparr>cw_now = cw_now w + int took, cw_sent = cw_sent w @ [req], cw_daemon = d\<rparr>))"

definition cli_Sleep :: "duration \<Rightarrow> 'w cli_world \<Rightarrow> 'w cli_world" where
  "cli_Sleep d w = w\<lparr>cw_now := cw_now w + d\<rparr>"

definition poll_interval :: duration where "poll_interval = 250000000"
definition daemon_deadline :: duration where "daemon_deadline = 15 * second"

section \<open>Asking the daemon\<close>

definition show_url :: "'w cli_env \<Rightarrow> string \<Rightarrow> cli_event" where
  "show_url env url = (if ce_hasDesktop env then ShowDashboard url else Println url)"

definition printDashboardURL :: "'w cli_env \<Rightarrow> 'w cli_world \<Rightarrow> cli_event list \<times> 'w cli_world" where
  "printDashboardURL env w =
     (case cli_Query env status_request w of (r, w1) \<Rightarrow>
        ((case r of
            Inl e \<Rightarrow> [Fatal (''service not reachable: '' @ e)]
          | Inr st \<Rightarrow>
              if ir_Error st \<noteq> [] then [Fatal (ir_Error st)]
              else if ir_WebuiURL st = [] then [Fatal ''service did not return a dashboard URL'']
              else [Println (ir_WebuiURL st)]), w1))"

definition generateInvite :: "'w cli_env \<Rightarrow> string \<Rightarrow> int \<Rightarrow> string \<Rightarrow> 'w cli_world \<Rightarrow> cli_event list \<times> 'w cli_world" where
  "generateInvite env protocol port label w =
     (case cli_Query env \<lparr>iq_Cmd = ''generate'', iq_Mode = ''pairing'', iq_Protocol = protocol, iq_Port = port, iq_Label = label\<rparr> w of
        (r, w1) \<Rightarrow>
        ((case r of
            Inl e \<Rightarrow> [Fatal (''service not reachable: '' @ e)]
          | Inr resp \<Rightarrow> if ir_Error resp \<noteq> [] then [Fatal (ir_Error resp)] else [Println (ir_InviteURL resp)]), w1))"

text \<open>\<open>activateExistingInstance\<close> and \<open>openDashboardFromService\<close> have the same body.\<close>

definition dashboard_from_status :: "string + ipc_Response \<Rightarrow> string option" where
  "dashboard_from_status r =
     (case r of Inl _ \<Rightarrow> None | Inr st \<Rightarrow> if ir_WebuiURL st = [] then None else Some (ir_WebuiURL st))"

definition activateExistingInstance :: "'w cli_env \<Rightarrow> 'w cli_world \<Rightarrow> string option \<times> 'w cli_world" where
  "activateExistingInstance env w =
     (case cli_Query env status_request w of (r, w1) \<Rightarrow> (dashboard_from_status r, w1))"

definition openDashboardFromService :: "'w cli_env \<Rightarrow> 'w cli_world \<Rightarrow> string option \<times> 'w cli_world" where
  "openDashboardFromService env w =
     (case cli_Query env status_request w of (r, w1) \<Rightarrow> (dashboard_from_status r, w1))"

section \<open>The loops with a deadline\<close>

definition poll_answer :: "string + ipc_Response \<Rightarrow> string + string" where
  "poll_answer r =
     (case r of
        Inl e \<Rightarrow> Inl e
      | Inr st \<Rightarrow>
          if ir_Error st = [] \<and> ir_WebuiURL st \<noteq> [] then Inr (ir_WebuiURL st)
          else if ir_Error st \<noteq> [] then Inl (ir_Error st)
          else Inl ''service did not return a dashboard URL'')"

text \<open>The body of the loop: it ends with the dashboard shown, or goes on with the error and a pause.\<close>

definition open_poll ::
  "'w cli_env \<Rightarrow> string option \<times> 'w cli_world \<Rightarrow> (string option \<times> 'w cli_world) + (cli_event list \<times> 'w cli_world)" where
  "open_poll env s =
     (case cli_Query env status_request (snd s) of (r, w1) \<Rightarrow>
        (case poll_answer r of
           Inr url \<Rightarrow> Inr ([show_url env url], w1)
         | Inl e \<Rightarrow> Inl (Some e, cli_Sleep poll_interval w1)))"

definition open_expired :: "string option \<times> 'w cli_world \<Rightarrow> cli_event list \<times> 'w cli_world" where
  "open_expired s =
     ([Fatal (''service not reachable: '' @ (case fst s of Some e \<Rightarrow> e | None \<Rightarrow> ''<nil>''))], snd s)"

definition wait_poll :: "'w cli_env \<Rightarrow> 'w cli_world \<Rightarrow> 'w cli_world + (cli_event list \<times> 'w cli_world)" where
  "wait_poll env w =
     (case cli_Query env status_request w of (r, w1) \<Rightarrow>
        if \<not> isl r \<or> ce_done env (cw_daemon w1) then Inr ([], w1) else Inl (cli_Sleep poll_interval w1))"

lemma cli_Query_now: "cli_Query env req w = (r, w1) \<Longrightarrow> cw_now w \<le> cw_now w1"
  by (auto simp: cli_Query_def split: prod.splits)

lemma poll_advances: "cw_now w \<le> cw_now w1 \<Longrightarrow> cw_now w + poll_interval \<le> cw_now (cli_Sleep poll_interval w1)"
  by (simp add: cli_Sleep_def)

lemma open_poll_advances: "open_poll env s = Inl s' \<Longrightarrow> cw_now (snd s) + poll_interval \<le> cw_now (snd s')"
  by (auto simp: open_poll_def dest!: cli_Query_now intro!: poll_advances split: prod.splits sum.splits)

lemma wait_poll_advances: "wait_poll env w = Inl w' \<Longrightarrow> cw_now w + poll_interval \<le> cw_now w'"
  by (auto simp: wait_poll_def dest!: cli_Query_now intro!: poll_advances split: prod.splits if_splits)

lemma poll_interval_pos: "0 < poll_interval"
  by (simp add: poll_interval_def)

function open_dashboard_loop ::
  "'w cli_env \<Rightarrow> instant \<Rightarrow> string option \<times> 'w cli_world \<Rightarrow> cli_event list \<times> 'w cli_world" where
  "open_dashboard_loop env deadline s =
     (if Before (cw_now (snd s)) deadline
      then case open_poll env s of Inr r \<Rightarrow> r | Inl s' \<Rightarrow> open_dashboard_loop env deadline s'
      else open_expired s)"
  by pat_completeness auto
termination
proof (relation "measure (\<lambda>(env, deadline, s). nat (deadline - cw_now (snd s)))", goal_cases)
  case (2 env deadline s s')
  then show ?case using open_poll_advances [of env s s'] poll_interval_pos by (simp add: Before_def)
qed simp

function wait_daemon_loop :: "'w cli_env \<Rightarrow> instant \<Rightarrow> 'w cli_world \<Rightarrow> cli_event list \<times> 'w cli_world" where
  "wait_daemon_loop env deadline w =
     (if Before (cw_now w) deadline
      then case wait_poll env w of Inr r \<Rightarrow> r | Inl w' \<Rightarrow> wait_daemon_loop env deadline w'
      else ([WaitDaemonTimeout], w))"
  by pat_completeness auto
termination
proof (relation "measure (\<lambda>(env, deadline, w). nat (deadline - cw_now w))", goal_cases)
  case (2 env deadline w w')
  then show ?case using wait_poll_advances [of env w w'] poll_interval_pos by (simp add: Before_def)
qed simp

declare open_dashboard_loop.simps [simp del] wait_daemon_loop.simps [simp del]

definition openDashboardFromServiceOrExit :: "'w cli_env \<Rightarrow> 'w cli_world \<Rightarrow> cli_event list \<times> 'w cli_world" where
  "openDashboardFromServiceOrExit env w = open_dashboard_loop env (cw_now w + daemon_deadline) (None, w)"

definition waitForDaemon :: "'w cli_env \<Rightarrow> 'w cli_world \<Rightarrow> cli_event list \<times> 'w cli_world" where
  "waitForDaemon env w = wait_daemon_loop env (cw_now w + daemon_deadline) w"

section \<open>Invite links\<close>

definition isInviteURLArg :: "string \<Rightarrow> bool" where
  "isInviteURLArg arg = HasPrefix (ToLower arg) ''deskaccess:''"

definition dashboardURLWithConnect :: "string \<Rightarrow> string \<Rightarrow> string" where
  "dashboardURLWithConnect baseURL rawInviteURL =
     (case url_Parse baseURL of
        None \<Rightarrow> baseURL
      | Some u \<Rightarrow>
          url_String (u\<lparr>u_RawQuery := Values_Encode
            (Values_Set ''connect_b64'' (RawURLEncode (bytes_of_string rawInviteURL)) (url_Query u))\<rparr>))"


section \<open>The portable client\<close>

text \<open>
  Loading the configuration, the constructors of node and backends (\<open>Inr False\<close> is the
  nil result without error), the pairing exchange over the registered backends (direct
  QUIC, BitTorrent DHT, iroh), the tunnel manager and the launch of the client program.
\<close>

record cli_client =
  cc_load :: "string + Config"
  cc_node :: "Config \<Rightarrow> string option"
  cc_quic :: "Config \<Rightarrow> bytes \<Rightarrow> string + bool"
  cc_bt :: "Config \<Rightarrow> bytes \<Rightarrow> string + bool"
  cc_iroh :: "Config \<Rightarrow> string + bool"
  cc_ConnectByURL :: "bool \<Rightarrow> bool \<Rightarrow> bool \<Rightarrow> string \<Rightarrow> string + ConnectResult"
  cc_tunnel :: "tunnel_via \<Rightarrow> string \<Rightarrow> bytes \<Rightarrow> int \<Rightarrow> string + string"
  cc_launched :: "string \<Rightarrow> bool"

definition started :: "string + bool \<Rightarrow> bool" where
  "started r = (r = Inr True)"

definition client_backends :: "cli_client \<Rightarrow> Config \<Rightarrow> string \<Rightarrow> bool \<times> bool \<times> bool" where
  "client_backends cc cfg rawURL =
     (let useBitTorrentDHT = (InviteNetworkBackend rawURL = ''bittorrent_dht'');
          key = PrivateKeyBytes cfg;
          with_key = (\<lambda>new. case key of Inr priv \<Rightarrow> useBitTorrentDHT \<and> started (new cfg priv) | Inl _ \<Rightarrow> False)
      in (with_key (cc_quic cc), with_key (cc_bt cc), started (cc_iroh cc cfg)))"

definition client_via :: "ConnectResult \<Rightarrow> tunnel_via" where
  "client_via r =
     (if cn_BitTorrentQUICEndpoint r \<noteq> [] then ViaQUIC (cn_BitTorrentQUICEndpoint r)
      else if cn_IrohTicket r \<noteq> [] then ViaIroh (cn_IrohTicket r)
      else ViaRelays (cn_RelayAddrs r))"

definition runClient :: "cli_client \<Rightarrow> string \<Rightarrow> cli_event list" where
  "runClient cc rawURL =
     (case cc_load cc of
        Inl e \<Rightarrow> [Fatal e]
      | Inr cfg \<Rightarrow>
          (case cc_node cc cfg of
             Some e \<Rightarrow> [Fatal e]
           | None \<Rightarrow>
               (case client_backends cc cfg rawURL of (quic, bt, iroh) \<Rightarrow>
                  BackendsSet quic bt iroh #
                  (case cc_ConnectByURL cc quic bt iroh rawURL of
                     Inl e \<Rightarrow> [Fatal (''connect failed: '' @ e)]
                   | Inr r \<Rightarrow>
                       OpenTunnel (client_via r) (cn_PeerID r) (cn_SessionToken r) (cn_TargetPort r) #
                       (case cc_tunnel cc (client_via r) (cn_PeerID r) (cn_SessionToken r) (cn_TargetPort r) of
                          Inl e \<Rightarrow> [Fatal (''tunnel failed: '' @ e)]
                        | Inr localAddr \<Rightarrow>
                            LaunchRDP localAddr #
                            (if cc_launched cc localAddr then []
                             else [Println (''Tunnel ready at '' @ localAddr @ '' '' @ [CHR 0xE2, CHR 0x80, CHR 0x94] @ '' connect your RDP client manually'')])
                            @ [WaitSignal])))))"

definition openInviteFromProtocolHandler ::
  "'w cli_env \<Rightarrow> cli_client \<Rightarrow> string \<Rightarrow> 'w cli_world \<Rightarrow> cli_event list \<times> 'w cli_world" where
  "openInviteFromProtocolHandler env cc rawURL w =
     (case cli_Query env status_request w of (r, w1) \<Rightarrow>
        (case dashboard_from_status r of
           Some base \<Rightarrow> ([show_url env (dashboardURLWithConnect base rawURL)], w1)
         | None \<Rightarrow> (runClient cc rawURL, w1)))"

section \<open>The modes that run the stack\<close>

definition waitForStackShutdown :: "'w cli_env \<Rightarrow> bool \<Rightarrow> cli_event list" where
  "waitForStackShutdown env running =
     (if \<not> running then [] else if ce_stackStops env then [StackStopped] else [StackStopTimeout])"

definition runTray :: "'w cli_env \<Rightarrow> 'w cli_world \<Rightarrow> cli_event list \<times> 'w cli_world" where
  "runTray env w =
     (case cli_Query env status_request w of (r, w1) \<Rightarrow>
        if isl r then
          (case waitForDaemon env w1 of (ev, w2) \<Rightarrow>
             (StartStack # ev @ [RunTrayLoop, CancelStack] @ waitForStackShutdown env True, w2))
        else ([RunTrayLoop, CancelStack] @ waitForStackShutdown env False, w1))"

definition runDaemon :: "cli_event list" where
  "runDaemon = [StartStack, WaitSignal]"

definition runStandalone :: "'w cli_env \<Rightarrow> 'w cli_world \<Rightarrow> cli_event list \<times> 'w cli_world" where
  "runStandalone env w =
     (case waitForDaemon env w of (ev, w1) \<Rightarrow>
        (case cli_Query env status_request w1 of (r, w2) \<Rightarrow>
           (StartStack # ev @
            (case r of
               Inl e \<Rightarrow> [Fatal (''standalone backend started but dashboard is not reachable: '' @ e)]
             | Inr st \<Rightarrow>
                 if ir_Error st \<noteq> [] then [Fatal (ir_Error st)]
                 else if ir_WebuiURL st = [] then [Fatal ''standalone backend did not return a dashboard URL'']
                 else
                   Println (ir_WebuiURL st) #
                   (if ce_hasDisplay env then [RunTrayLoop, CancelStack]
                    else if ce_hasDesktop env then [ShowDashboard (ir_WebuiURL st), CancelStack]
                    else [WaitSignal])
                   @ waitForStackShutdown env True), w2)))"

section \<open>Dispatch\<close>

record cli_flags =
  fl_install :: bool
  fl_uninstall :: bool
  fl_service :: bool
  fl_standalone :: bool
  fl_ui :: bool
  fl_connect :: string
  fl_generate :: bool
  fl_protocol :: string
  fl_port :: int
  fl_label :: string
  fl_id :: bool
  fl_debug :: bool
  fl_log :: string
  fl_args :: "string list"

text \<open>
  The outcome of opening the log, of the calls into the service manager, of the
  privilege check, of loading the node for \<open>-id\<close>; the number of arguments of the process
  and the mode of standard output (\<open>None\<close> when it cannot be read).
\<close>

record main_env =
  me_logInit :: "string \<Rightarrow> bool \<Rightarrow> string option"
  me_install :: "string option"
  me_uninstall :: "string option"
  me_runService :: "string option"
  me_privilege :: "string option"
  me_nodeID :: "string + string"
  me_args :: nat
  me_stdoutChar :: "bool option"

definition isPlainInteractiveCLI :: "main_env \<Rightarrow> bool" where
  "isPlainInteractiveCLI me \<longleftrightarrow> me_args me = 1 \<and> me_stdoutChar me = Some True"

definition requireInviteGeneratePrivilege_windows :: "nat \<Rightarrow> string option \<Rightarrow> string option" where
  "requireInviteGeneratePrivilege_windows ret err =
     (if ret = 0 then
        Some (''invite generation from --generate requires an elevated administrator process''
              @ (case err of Some e \<Rightarrow> '': '' @ e | None \<Rightarrow> []))
      else None)"

definition requireInviteGeneratePrivilege_unix :: "string option" where
  "requireInviteGeneratePrivilege_unix = None"

definition connect_arg :: "cli_flags \<Rightarrow> string" where
  "connect_arg fl =
     (if fl_connect fl = [] \<and> fl_args fl \<noteq> [] \<and> isInviteURLArg (hd (fl_args fl)) then hd (fl_args fl) else fl_connect fl)"

definition ok_or_fatal :: "string \<Rightarrow> string option \<Rightarrow> cli_event list \<Rightarrow> cli_event list" where
  "ok_or_fatal what e ev = (case e of Some m \<Rightarrow> [Fatal (what @ m)] | None \<Rightarrow> ev)"

definition main_default :: "'w cli_env \<Rightarrow> main_env \<Rightarrow> 'w cli_world \<Rightarrow> cli_event list \<times> 'w cli_world" where
  "main_default env me w =
     (if isPlainInteractiveCLI me then printDashboardURL env w
      else if ce_hasDisplay env then
        (case activateExistingInstance env w of
           (Some url, w1) \<Rightarrow> ([ShowDashboard url], w1)
         | (None, w1) \<Rightarrow> runTray env w1)
      else if ce_hasDesktop env then
        (case openDashboardFromService env w of
           (Some url, w1) \<Rightarrow> ([ShowDashboard url], w1)
         | (None, w1) \<Rightarrow> (runDaemon, w1))
      else (runDaemon, w))"

definition main :: "'w cli_env \<Rightarrow> main_env \<Rightarrow> cli_client \<Rightarrow> cli_flags \<Rightarrow> 'w cli_world \<Rightarrow> cli_event list \<times> 'w cli_world" where
  "main env me cc fl w =
     (case me_logInit me (fl_log fl) (fl_debug fl) of
        Some e \<Rightarrow> ([Fatal (''logger: '' @ e)], w)
      | None \<Rightarrow>
          if fl_install fl then (ok_or_fatal ''install service: '' (me_install me) [Println ''Service installed.''], w)
          else if fl_uninstall fl then (ok_or_fatal ''uninstall service: '' (me_uninstall me) [Println ''Service uninstalled.''], w)
          else if fl_service fl then (ok_or_fatal ''run service: '' (me_runService me) [StartStack, WaitSignal], w)
          else if fl_standalone fl then runStandalone env w
          else if fl_ui fl then openDashboardFromServiceOrExit env w
          else if connect_arg fl \<noteq> [] then openInviteFromProtocolHandler env cc (connect_arg fl) w
          else if fl_generate fl then
            (case me_privilege me of
               Some e \<Rightarrow> ([Fatal e], w)
             | None \<Rightarrow> generateInvite env (fl_protocol fl) (fl_port fl) (fl_label fl) w)
          else if fl_id fl then
            ((case me_nodeID me of Inl e \<Rightarrow> [Fatal e] | Inr nid \<Rightarrow> [Println (''NodeID: '' @ nid)]), w)
          else main_default env me w)"


section \<open>Polling until a deadline\<close>

text \<open>The states a loop goes through while its body does not end it.\<close>

primrec polls :: "('s \<Rightarrow> 's + 'r) \<Rightarrow> 's \<Rightarrow> nat \<Rightarrow> 's" where
  "polls step s 0 = s"
| "polls step s (Suc k) = (case step (polls step s k) of Inl s' \<Rightarrow> s' | Inr _ \<Rightarrow> polls step s k)"

lemma polls_shift: "step s = Inl s' \<Longrightarrow> polls step s (Suc k) = polls step s' k"
  by (induction k) (simp_all split: sum.splits)

text \<open>The contract of both loops: the body is repeated before the deadline, and each repetition takes a fixed time.\<close>

locale polling =
  fixes now :: "'s \<Rightarrow> int" and interval :: int and step :: "'s \<Rightarrow> 's + 'r" and expired :: "'s \<Rightarrow> 'r"
    and loop :: "int \<Rightarrow> 's \<Rightarrow> 'r"
  assumes interval_pos: "0 < interval"
    and advances: "step s = Inl s' \<Longrightarrow> now s + interval \<le> now s'"
    and unfold: "loop deadline s = (if now s < deadline then case step s of Inr r \<Rightarrow> r | Inl s' \<Rightarrow> loop deadline s' else expired s)"
begin

lemma ends:
  "\<exists>n. (\<forall>k<n. now (polls step s k) < deadline \<and> isl (step (polls step s k)))
     \<and> (now (polls step s n) < deadline \<and> step (polls step s n) = Inr (loop deadline s)
        \<or> deadline \<le> now (polls step s n) \<and> loop deadline s = expired (polls step s n))"
proof (induction "nat (deadline - now s)" arbitrary: s rule: less_induct)
  case less
  show ?case
  proof (cases "now s < deadline")
    case False
    then show ?thesis by (intro exI [of _ 0]) (simp add: unfold [of deadline s])
  next
    case True
    show ?thesis
    proof (cases "step s")
      case (Inr r)
      then show ?thesis using True by (intro exI [of _ 0]) (simp add: unfold [of deadline s])
    next
      case (Inl s')
      have "nat (deadline - now s') < nat (deadline - now s)"
        using advances [OF Inl] interval_pos True by simp
      from less [OF this] obtain n where
        n: "\<forall>k<n. now (polls step s' k) < deadline \<and> isl (step (polls step s' k))"
           "now (polls step s' n) < deadline \<and> step (polls step s' n) = Inr (loop deadline s')
             \<or> deadline \<le> now (polls step s' n) \<and> loop deadline s' = expired (polls step s' n)"
        by blast
      have shift: "polls step s (Suc k) = polls step s' k" for k by (rule polls_shift) (rule Inl)
      have l: "loop deadline s = loop deadline s'" using True Inl by (simp add: unfold [of deadline s])
      have "\<forall>k<Suc n. now (polls step s k) < deadline \<and> isl (step (polls step s k))"
        using n(1) True Inl by (auto simp: less_Suc_eq_0_disj shift simp del: polls.simps(2))
      then show ?thesis
        using n(2) by (intro exI [of _ "Suc n"]) (simp add: l shift del: polls.simps(2))
    qed
  qed
qed

lemma elapsed:
  assumes "\<forall>k<n. isl (step (polls step s k))" and "m \<le> n"
  shows "now s + int m * interval \<le> now (polls step s m)"
  using assms(2)
proof (induction m)
  case (Suc m)
  then obtain s' where "step (polls step s m) = Inl s'"
    using assms(1) by (metis isl_def less_eq_Suc_le)
  then show ?case using Suc advances [of "polls step s m" s'] by (simp add: distrib_right)
qed simp

lemma bounded:
  assumes "\<forall>k<n. now (polls step s k) < deadline \<and> isl (step (polls step s k))"
    and "deadline \<le> now s + int m * interval"
  shows "n \<le> m"
proof (rule ccontr)
  assume "\<not> n \<le> m"
  then have "now s + int m * interval \<le> now (polls step s m)" "now (polls step s m) < deadline"
    using assms(1) elapsed [of n s m] by auto
  then show False using assms(2) by simp
qed

end

interpretation dashboard: polling "\<lambda>s. cw_now (snd s)" poll_interval "open_poll env" open_expired "open_dashboard_loop env" for env
proof
  show "open_dashboard_loop env deadline s =
      (if cw_now (snd s) < deadline then case open_poll env s of Inr r \<Rightarrow> r | Inl s' \<Rightarrow> open_dashboard_loop env deadline s' else open_expired s)"
    for deadline s
    by (subst open_dashboard_loop.simps) (simp add: Before_def)
qed (use poll_interval_pos open_poll_advances in auto)

interpretation daemon: polling cw_now poll_interval "wait_poll env" "\<lambda>w. ([WaitDaemonTimeout], w)" "wait_daemon_loop env" for env
proof
  show "wait_daemon_loop env deadline w =
      (if cw_now w < deadline then case wait_poll env w of Inr r \<Rightarrow> r | Inl w' \<Rightarrow> wait_daemon_loop env deadline w' else ([WaitDaemonTimeout], w))"
    for deadline w
    by (subst wait_daemon_loop.simps) (simp add: Before_def)
qed (use poll_interval_pos wait_poll_advances in auto)

lemma sixty_polls: "t + daemon_deadline \<le> t + int 60 * poll_interval"
  by (simp add: daemon_deadline_def poll_interval_def)


lemma open_poll_sent:
  "open_poll env s = Inl s' \<Longrightarrow> length (cw_sent (snd s')) = Suc (length (cw_sent (snd s))) \<and> fst s' \<noteq> None"
  "open_poll env s = Inr r \<Longrightarrow> length (cw_sent (snd r)) = Suc (length (cw_sent (snd s)))"
  by (auto simp: open_poll_def cli_Query_def cli_Sleep_def split: prod.splits sum.splits)

lemma open_polls_sent:
  "\<forall>k<n. isl (open_poll env (polls (open_poll env) s k)) \<Longrightarrow> m \<le> n \<Longrightarrow>
     length (cw_sent (snd (polls (open_poll env) s m))) = length (cw_sent (snd s)) + m
     \<and> (0 < m \<longrightarrow> fst (polls (open_poll env) s m) \<noteq> None)"
proof (induction m)
  case (Suc m)
  then obtain s' where "open_poll env (polls (open_poll env) s m) = Inl s'"
    by (metis isl_def less_eq_Suc_le)
  from open_poll_sent(1) [OF this] this show ?case using Suc by simp
qed simp


text \<open>A daemon that refuses requests after eight seconds: two are made.\<close>

definition sample_down :: "unit cli_env" where
  "sample_down = \<lparr>ce_query = \<lambda>q d. (Inl ''down'', 8000000000, ()), ce_done = \<lambda>d. False, ce_hasDisplay = False, ce_hasDesktop = False,
     ce_stackStops = True\<rparr>"

definition sample_world0 :: "unit cli_world" where
  "sample_world0 = \<lparr>cw_now = 0, cw_sent = [], cw_daemon = ()\<rparr>"

lemma sample_down_poll:
  "open_poll sample_down (e, \<lparr>cw_now = t, cw_sent = qs, cw_daemon = d\<rparr>) =
     Inl (Some ''down'', \<lparr>cw_now = t + 8250000000, cw_sent = qs @ [status_request], cw_daemon = ()\<rparr>)"
  by (simp add: open_poll_def cli_Query_def sample_down_def poll_answer_def cli_Sleep_def poll_interval_def)

lemma sample_down_run:
  "openDashboardFromServiceOrExit sample_down sample_world0 =
     ([Fatal ''service not reachable: down''], \<lparr>cw_now = 16500000000, cw_sent = [status_request, status_request], cw_daemon = ()\<rparr>)"
  unfolding openDashboardFromServiceOrExit_def
  by (simp add: sample_world0_def daemon_deadline_def Before_def open_dashboard_loop.simps [of _ _ "(None, _)"]
      sample_down_poll open_dashboard_loop.simps [of _ _ "(Some _, \<lparr>cw_now = 8250000000, cw_sent = _, cw_daemon = _\<rparr>)"]
      open_dashboard_loop.simps [of _ _ "(Some _, \<lparr>cw_now = 16500000000, cw_sent = _, cw_daemon = _\<rparr>)"] open_expired_def)


lemma wait_daemon_ends:
  "\<exists>n \<le> 60. (\<forall>k<n. isl (wait_poll env (polls (wait_poll env) w k)))
     \<and> (wait_poll env (polls (wait_poll env) w n) = Inr (waitForDaemon env w)
        \<or> waitForDaemon env w = ([WaitDaemonTimeout], polls (wait_poll env) w n))"
proof -
  obtain n where run: "\<forall>k<n. cw_now (polls (wait_poll env) w k) < cw_now w + daemon_deadline \<and> isl (wait_poll env (polls (wait_poll env) w k))"
    and stop: "cw_now (polls (wait_poll env) w n) < cw_now w + daemon_deadline \<and> wait_poll env (polls (wait_poll env) w n) = Inr (waitForDaemon env w)
      \<or> cw_now w + daemon_deadline \<le> cw_now (polls (wait_poll env) w n) \<and> waitForDaemon env w = ([WaitDaemonTimeout], polls (wait_poll env) w n)"
    using daemon.ends [of env w "cw_now w + daemon_deadline"] unfolding waitForDaemon_def by blast
  have "n \<le> 60" using daemon.bounded [OF run, of 60] sixty_polls [of "cw_now w"] by simp
  then show ?thesis using run stop by blast
qed

section \<open>The link handed to the dashboard\<close>

definition dashboard_url :: "string \<Rightarrow> URL" where
  "dashboard_url q = \<lparr>u_Scheme = ''http'', u_Opaque = [], u_Authority = Some ''127.0.0.1:18080'', u_Path = ''/'',
     u_RawQuery = q, u_ForceQuery = False, u_Fragment = []\<rparr>"

lemma dashboard_url_String: "q \<noteq> [] \<Longrightarrow> url_String (dashboard_url q) = ''http://127.0.0.1:18080/?'' @ q"
  by (simp add: url_String_def dashboard_url_def)

lemma dashboard_authority: "parse_authority_ok ''127.0.0.1:18080''" "escapes_ok ''/''"
  by code_simp+

lemma url_Parse_dashboard:
  assumes "\<forall>c \<in> set q. c \<noteq> CHR ''#'' \<and> \<not> is_ctl c" and "q \<noteq> []"
  shows "url_Parse (''http://127.0.0.1:18080/?'' @ q) = Some (dashboard_url q)"
proof -
  let ?l = "''http://127.0.0.1:18080/?'' @ q"
  let ?r = "''//127.0.0.1:18080/'' @ CHR ''?'' # q"
  have t: "takeWhile (\<lambda>c. c \<noteq> CHR ''#'') ?l = ?l" using assms(1) by (auto simp: takeWhile_eq_all_conv)
  have nc: "\<not> list_ex is_ctl ?l" using assms(1) by (auto simp: list_ex_iff is_ctl_def char_code_def)
  have g: "get_scheme 0 ?l ?l = Some (''http'', ?r)"
    using get_scheme_letters [of "''http''" "[]" ?r] by (simp add: is_alnum_def is_digit_def char_code_def)
  have c: "Cut ?r ''?'' = (''//127.0.0.1:18080/'', q, True)"
    using Cut_at [of "CHR ''?''" "''//127.0.0.1:18080/''" q] by simp
  have "parse_rest ''http'' ''//127.0.0.1:18080/'' q False [] = Some (dashboard_url q)"
    using dashboard_authority unfolding parse_rest_def Let_def by (simp add: HasPrefix_def dashboard_url_def)
  moreover have "ToLower ''http'' = ''http''" by code_simp
  moreover have "escapes_ok []" by simp
  ultimately show ?thesis
    unfolding url_Parse_def Let_def t using nc g c assms(2) by simp
qed

end
