(* ===== verification/Cli_Dashboard.thy ===== *)
theory Cli_Dashboard
  imports Cli
begin

text \<open>
  The command line together with the daemon: an invite link the desktop hands to
  \<open>deskaccess\<close> reaches the dashboard of the running daemon, over IPC, the single-use
  launch token and the redirect of the dashboard server.
\<close>

section \<open>Tokens and queries\<close>

lemma hextable_unreserved: "list_all is_unreserved hextable"
  by code_simp

lemma hexEncode_unreserved: "c \<in> set (hexEncode bs) \<Longrightarrow> is_unreserved c"
proof (induction bs)
  case (Cons b bs)
  have "hextable ! i \<in> set hextable" if "i < 16" for i
    using that by (intro nth_mem) (simp add: hextable_def)
  then have h: "is_unreserved (hextable ! i)" if "i < 16" for i
    using that hextable_unreserved by (simp add: list_all_iff)
  show ?case using Cons h [of "unat b div 16"] h [of "unat b mod 16"] byte_parts(1) [of b]
    by (auto simp: hexEncode_def)
qed (simp add: hexEncode_def)

lemma hexEncode_Nil [simp]: "hexEncode bs = [] \<longleftrightarrow> bs = []"
  by (metis hexEncode_inject length_0_conv length_hexEncode list.size(3) mult_0_right)

lemma token_query:
  assumes "\<forall>c \<in> set tok. is_unreserved c"
  shows "ParseQuery (''token='' @ tok) = [(''token'', [tok])]"
proof -
  have e: "QueryEscape tok = tok"
    using assms by (induction tok) (simp_all add: QueryEscape_def escape_char_def)
  have "Values_Encode [(''token'', [tok])] = QueryEscape ''token'' @ CHR ''='' # tok"
    by (simp add: Values_Encode_def value_pairs_def encode_pair_def e)
  moreover have "QueryEscape ''token'' = ''token''" by code_simp
  ultimately have "Values_Encode [(''token'', [tok])] = ''token='' @ tok" by simp
  then show ?thesis using ParseQuery_Values_Encode(1) [of "[(''token'', [tok])]"] by (simp add: values_ok_def map_ok_def)
qed

section \<open>The redirect\<close>

text \<open>The address \<open>serveHTTP\<close> redirects to once it has set the cookie.\<close>

definition redirect_url :: "URL \<Rightarrow> string" where
  "redirect_url u = url_String (u\<lparr>u_RawQuery := Values_Encode (map_del ''token'' (url_Query u))\<rparr>)"

lemma url_Query_dashboard: "url_Query (dashboard_url q) = ParseQuery q"
  by (simp add: url_Query_def dashboard_url_def)

lemma dashboard_url_query: "(dashboard_url q)\<lparr>u_RawQuery := q'\<rparr> = dashboard_url q'"
  by (simp add: dashboard_url_def)

lemma url_Parse_values:
  assumes "values_ok m" "m \<noteq> []"
  shows "url_Parse (url_String (dashboard_url (Values_Encode m))) = Some (dashboard_url (Values_Encode m))"
proof -
  have ne: "Values_Encode m \<noteq> []" using assms by (simp add: Values_Encode_Nil_iff)
  have "\<forall>c \<in> set (Values_Encode m). c \<noteq> CHR ''#'' \<and> \<not> is_ctl c" using Values_Encode_safe by blast
  then show ?thesis unfolding dashboard_url_String [OF ne] by (rule url_Parse_dashboard) (rule ne)
qed

text \<open>The query the dashboard is opened with.\<close>

definition connect_values :: "string \<Rightarrow> string \<Rightarrow> url_values" where
  "connect_values tok raw = [(''token'', [tok]), (''connect_b64'', [RawURLEncode (bytes_of_string raw)])]"

lemma connect_values_ok: "values_ok (connect_values tok raw)"
  by (simp add: connect_values_def values_ok_def map_ok_def)

lemma dashboardURLWithConnect_url:
  assumes "\<forall>c \<in> set tok. is_unreserved c"
  shows "dashboardURLWithConnect (''http://127.0.0.1:18080/?token='' @ tok) raw =
    url_String (dashboard_url (Values_Encode (connect_values tok raw)))"
proof -
  have "\<forall>c \<in> set (''token='' @ tok). c \<noteq> CHR ''#'' \<and> \<not> is_ctl c"
    using assms is_unreserved_plain by (auto simp: is_ctl_def char_code_def)
  then have "url_Parse (''http://127.0.0.1:18080/?token='' @ tok) = Some (dashboard_url (''token='' @ tok))"
    using url_Parse_dashboard [of "''token='' @ tok"] by simp
  then show ?thesis
    by (simp add: dashboardURLWithConnect_def url_Query_dashboard token_query [OF assms, simplified]
        dashboard_url_query Values_Set_def connect_values_def)
qed

lemma connect_values_get:
  "map_get (connect_values tok raw) ''token'' = Some [tok]"
  "map_get (connect_values tok raw) ''connect_b64'' = Some [RawURLEncode (bytes_of_string raw)]"
  by (simp_all add: connect_values_def)

section \<open>The daemon behind the command line\<close>

definition daemon_env ::
  "'m api_env \<Rightarrow> ipc_codec \<Rightarrow> string option \<Rightarrow> (string + string) \<Rightarrow> string \<Rightarrow> string \<Rightarrow> nat \<Rightarrow> bool \<Rightarrow> 'm api_state cli_env" where
  "daemon_env aenv jc auth dialled tok logFile took desktop =
     \<lparr>ce_query = (\<lambda>req s. case daemon_query aenv jc auth dialled tok logFile req s of (r, s') \<Rightarrow> (r, took, s')),
      ce_done = (\<lambda>s. False), ce_hasDisplay = desktop, ce_hasDesktop = desktop, ce_stackStops = True\<rparr>"

lemma daemon_status:
  assumes "codec_ok jc" and "srv_cfg (ap_srv (cw_daemon w)) = ap_cfg (cw_daemon w)"
  shows "\<exists>st w1. cli_Query (daemon_env aenv jc None (Inr path) tok logFile took desktop) status_request w = (Inr st, w1)
     \<and> ir_WebuiURL st = ''http://127.0.0.1:18080/?token='' @ tok
     \<and> ap_srv (cw_daemon w1) = (ap_srv (cw_daemon w))\<lparr>ws_launchTokens := List.insert tok (ws_launchTokens (ap_srv (cw_daemon w)))\<rparr>"
  using assms
  by (simp add: cli_Query_def daemon_env_def daemon_query_def Query_served ipc_status set_srv_def ap_cfg_def empty_response_def)

text \<open>A browser of an allowed process that opens an address without a cookie.\<close>

definition browser_request :: "string \<Rightarrow> http_request" where
  "browser_request tok = \<lparr>hr_cookie = None, hr_token = tok, hr_sourceAllowed = True\<rparr>"

lemma launch_once:
  assumes "tok \<in> set (ws_launchTokens srv)" "tok \<noteq> []"
  shows "fst (serveHTTP (browser_request tok) srv) = CookieSet (ws_sessionToken srv)"
    and "fst (serveHTTP (browser_request tok) (snd (serveHTTP (browser_request tok) srv))) = Forbidden"
  using assms by (simp_all add: serveHTTP_def browser_request_def Let_def)

text \<open>
  C34: an invite link given to the command while the daemon runs reaches the dashboard:
  the address shown parses, its token is a launch token the dashboard exchanges for the
  session cookie exactly once, and the address it then redirects to has no token any
  more but still carries the link, byte for byte.
\<close>

theorem invite_reaches_dashboard:
  assumes "codec_ok jc" and "api_ok (cw_daemon w)" and "bs \<noteq> []"
  shows "\<exists>url u u' w1.
     openInviteFromProtocolHandler (daemon_env aenv jc None (Inr path) (hexEncode bs) logFile took desktop) cc raw w
       = ([if desktop then ShowDashboard url else Println url], w1)
     \<and> url_Parse url = Some u
     \<and> (let tok = Values_Get (url_Query u) ''token'';
            first = serveHTTP (browser_request tok) (ap_srv (cw_daemon w1));
            again = serveHTTP (browser_request tok) (snd first)
        in fst first = CookieSet (ws_sessionToken (ap_srv (cw_daemon w))) \<and> fst again = Forbidden)
     \<and> url_Parse (redirect_url u) = Some u'
     \<and> map_get (url_Query u') ''token'' = None
     \<and> RawURLDecode (Values_Get (url_Query u') ''connect_b64'') = Some (bytes_of_string raw)"
proof -
  let ?tok = "hexEncode bs" and ?env = "daemon_env aenv jc None (Inr path) (hexEncode bs) logFile took desktop"
  let ?v = "connect_values ?tok raw"
  let ?u = "dashboard_url (Values_Encode ?v)"
  let ?m = "map_del ''token'' (url_Query ?u)"
  let ?u' = "dashboard_url (Values_Encode ?m)"
  have un: "\<forall>c \<in> set ?tok. is_unreserved c" using hexEncode_unreserved by blast
  obtain st w1 where q: "cli_Query ?env status_request w = (Inr st, w1)"
      and url: "ir_WebuiURL st = ''http://127.0.0.1:18080/?token='' @ ?tok"
      and srv: "ap_srv (cw_daemon w1) = (ap_srv (cw_daemon w))\<lparr>ws_launchTokens := List.insert ?tok (ws_launchTokens (ap_srv (cw_daemon w)))\<rparr>"
    using daemon_status [of jc w aenv path ?tok logFile took desktop] assms(1,2) unfolding api_ok_def by blast
  have shown: "openInviteFromProtocolHandler ?env cc raw w =
      ([if desktop then ShowDashboard (url_String ?u) else Println (url_String ?u)], w1)"
    unfolding openInviteFromProtocolHandler_def
    by (simp add: q dashboard_from_status_def url show_url_def dashboardURLWithConnect_url [OF un, simplified])
      (simp add: daemon_env_def)
  have Q: "map_get (url_Query ?u) = map_get ?v" and ok: "values_ok (url_Query ?u)"
    using ParseQuery_Values_Encode(2,3) [OF connect_values_ok] by (simp_all add: url_Query_dashboard)
  have u: "url_Parse (url_String ?u) = Some ?u"
    using url_Parse_values [OF connect_values_ok] by (simp add: connect_values_def)
  have tok: "Values_Get (url_Query ?u) ''token'' = ?tok" by (simp add: Values_Get_def Q connect_values_get)
  have m: "map_get ?m ''connect_b64'' = Some [RawURLEncode (bytes_of_string raw)]" "map_get ?m ''token'' = None"
    by (simp_all add: Q connect_values_get go_map_simps)
  have mok: "values_ok ?m" using ok by (auto simp: values_ok_def AList.delete_eq)
  have "?m \<noteq> []" using m(1) by (metis map_of.simps(1) option.distinct(1))
  then have u': "url_Parse (redirect_url ?u) = Some ?u'"
    using url_Parse_values [OF mok] by (simp add: redirect_url_def dashboard_url_query)
  have Q': "map_get (url_Query ?u') = map_get ?m"
    using ParseQuery_Values_Encode(2) [OF mok] by (simp add: url_Query_dashboard)
  have "RawURLDecode (Values_Get (url_Query ?u') ''connect_b64'') = Some (bytes_of_string raw)"
    by (simp add: Values_Get_def Q' m(1) RawURLDecode_Encode)
  moreover have "map_get (url_Query ?u') ''token'' = None" by (simp add: Q' m(2))
  moreover have "fst (serveHTTP (browser_request ?tok) (ap_srv (cw_daemon w1))) = CookieSet (ws_sessionToken (ap_srv (cw_daemon w)))"
      "fst (serveHTTP (browser_request ?tok) (snd (serveHTTP (browser_request ?tok) (ap_srv (cw_daemon w1))))) = Forbidden"
    using launch_once [of ?tok "ap_srv (cw_daemon w1)"] assms(3) by (simp_all add: srv)
  ultimately show ?thesis using shown u u' unfolding Let_def by (metis tok)
qed


section \<open>Launch tokens\<close>

text \<open>
  A client that only asks for the status, as the tray does every ten seconds, leaves one
  unused launch token behind with each request.
\<close>

lemma status_tokens_accumulate:
  assumes "distinct toks" "set toks \<inter> set (ws_launchTokens (ap_srv s)) = {}"
  shows "length (ws_launchTokens (ap_srv (foldl (\<lambda>s tok. snd (ipc_handler env tok logFile status_request s)) s toks)))
    = length (ws_launchTokens (ap_srv s)) + length toks"
  using assms
proof (induction toks arbitrary: s)
  case (Cons tok toks)
  have "ws_launchTokens (ap_srv (snd (ipc_handler env tok logFile status_request s))) = tok # ws_launchTokens (ap_srv s)"
    using Cons.prems by (simp add: ipc_status set_srv_def)
  then show ?case using Cons by simp
qed simp

section \<open>Which runs start a daemon\<close>

lemma open_dashboard_events: "StartStack \<notin> set (fst (open_dashboard_loop env deadline s))"
proof (induction env deadline s rule: open_dashboard_loop.induct)
  case (1 env deadline s)
  then show ?case
    by (subst open_dashboard_loop.simps)
      (auto simp: open_expired_def open_poll_def show_url_def split: sum.splits prod.splits)
qed

lemma runClient_events: "StartStack \<notin> set (runClient cc raw)"
  by (auto simp: runClient_def split: sum.splits option.splits prod.splits)

lemma query_answer: "cli_Query env req w = (r, w1) \<Longrightarrow> \<exists>took d. ce_query env req (cw_daemon w) = (r, took, d)"
  by (auto simp: cli_Query_def split: prod.splits)

text \<open>
  While a daemon answers with a dashboard address, a second one is started only by
  \<open>-service\<close> and \<open>-standalone\<close>, or by the default mode on a machine without display.
\<close>

lemma no_second_daemon:
  assumes answers: "\<forall>s. \<exists>st took s'. ce_query env status_request s = (Inr st, took, s') \<and> ir_WebuiURL st \<noteq> []"
    and "\<not> fl_service fl" "\<not> fl_standalone fl" "ce_hasDisplay env \<or> ce_hasDesktop env \<or> isPlainInteractiveCLI me"
  shows "StartStack \<notin> set (fst (main env me cc fl w))"
proof -
  obtain st w1 where q: "cli_Query env status_request w = (Inr st, w1)" "ir_WebuiURL st \<noteq> []"
    using answers [rule_format, of "cw_daemon w"] by (auto simp: cli_Query_def)
  have "StartStack \<notin> set (fst (main_default env me w))"
    using assms(4) q
    by (auto simp: main_default_def printDashboardURL_def activateExistingInstance_def openDashboardFromService_def dashboard_from_status_def)
  moreover have "StartStack \<notin> set (fst (generateInvite env p n l w))" for p n l
    by (auto simp: generateInvite_def split: prod.splits sum.splits)
  moreover have "StartStack \<notin> set (fst (openInviteFromProtocolHandler env cc raw w))" for raw
    using q by (auto simp: openInviteFromProtocolHandler_def dashboard_from_status_def show_url_def)
  moreover have "StartStack \<notin> set (fst (openDashboardFromServiceOrExit env w))"
    by (simp add: openDashboardFromServiceOrExit_def open_dashboard_events)
  ultimately show ?thesis
    using assms(2,3) unfolding main_def ok_or_fatal_def
    by (simp split: option.split sum.split)
qed

section \<open>Examples\<close>

text \<open>A codec for the examples: every field with its length in front, numbers in unary.\<close>

definition put_str :: "string \<Rightarrow> string" where
  "put_str s = replicate (length s) (CHR ''1'') @ CHR ''0'' # s"

definition get_str :: "string \<Rightarrow> string \<times> string" where
  "get_str t = (let n = length (takeWhile (\<lambda>c. c = CHR ''1'') t); r = drop (Suc n) t in (take n r, drop n r))"

lemma get_put_str [simp]: "get_str (put_str s @ r) = (s, r)"
proof -
  have "takeWhile (\<lambda>c. c = CHR ''1'') (replicate n (CHR ''1'') @ CHR ''0'' # t) = replicate n (CHR ''1'')" for n t
    by (induction n) simp_all
  then show ?thesis by (simp add: get_str_def put_str_def Let_def)
qed

definition put_nat :: "nat \<Rightarrow> string" where "put_nat n = put_str (replicate n (CHR ''x''))"
definition put_int :: "int \<Rightarrow> string" where "put_int i = put_nat (nat i) @ put_nat (nat (- i))"
definition get_nat :: "string \<Rightarrow> nat \<times> string" where "get_nat t = (case get_str t of (s, r) \<Rightarrow> (length s, r))"
definition get_int :: "string \<Rightarrow> int \<times> string" where
  "get_int t = (case get_nat t of (n, r) \<Rightarrow> case get_nat r of (m, r') \<Rightarrow> (int n - int m, r'))"

lemma get_put_num [simp]: "get_nat (put_nat n @ r) = (n, r)" "get_int (put_int i @ r) = (i, r)"
  by (simp_all add: get_nat_def put_nat_def get_int_def put_int_def)

definition sample_codec :: ipc_codec where
  "sample_codec =
     \<lparr>jc_encReq = (\<lambda>q. put_str (iq_Cmd q) @ put_str (iq_Mode q) @ put_str (iq_Protocol q) @ put_int (iq_Port q) @ put_str (iq_Label q) @ []),
      jc_decReq = (\<lambda>t. case get_str t of (a, t) \<Rightarrow> case get_str t of (b, t) \<Rightarrow> case get_str t of (c, t) \<Rightarrow>
         case get_int t of (d, t) \<Rightarrow> case get_str t of (e, t) \<Rightarrow>
         Some \<lparr>iq_Cmd = a, iq_Mode = b, iq_Protocol = c, iq_Port = d, iq_Label = e\<rparr>),
      jc_encResp = (\<lambda>p. put_str (ir_NodeID p) @ put_str (ir_Label p) @ put_str (ir_WebuiURL p) @ put_nat (ir_RelayCount p)
         @ put_str (ir_LogFile p) @ put_str (ir_InviteURL p) @ put_str (ir_Error p) @ []),
      jc_decResp = (\<lambda>t. case get_str t of (a, t) \<Rightarrow> case get_str t of (b, t) \<Rightarrow> case get_str t of (c, t) \<Rightarrow>
         case get_nat t of (d, t) \<Rightarrow> case get_str t of (e, t) \<Rightarrow> case get_str t of (f, t) \<Rightarrow> case get_str t of (g, t) \<Rightarrow>
         Inr \<lparr>ir_NodeID = a, ir_Label = b, ir_WebuiURL = c, ir_RelayCount = d, ir_LogFile = e, ir_InviteURL = f, ir_Error = g\<rparr>)\<rparr>"

lemma sample_codec_ok: "codec_ok sample_codec"
  by (simp add: codec_ok_def sample_codec_def del: append_Nil2)

definition sample_desktop :: "string api_state cli_world" where
  "sample_desktop = \<lparr>cw_now = 0, cw_sent = [], cw_daemon = sample_api\<rparr>"

definition sample_client :: cli_client where
  "sample_client = \<lparr>cc_load = Inl ''x'', cc_node = \<lambda>c. None, cc_quic = \<lambda>c k. Inr True, cc_bt = \<lambda>c k. Inr True, cc_iroh = \<lambda>c. Inr True,
     cc_ConnectByURL = \<lambda>a b c u. Inl u, cc_tunnel = \<lambda>v p t n. Inl p, cc_launched = \<lambda>a. True\<rparr>"

theorem invite_reaches_dashboard_witness:
  "\<exists>url u u' w1.
     openInviteFromProtocolHandler (daemon_env sample_api_env sample_codec None (Inr ''sock'') (hexEncode [7, 8]) [] 5 True) sample_client ''deskaccess://x'' sample_desktop
       = ([ShowDashboard url], w1)
     \<and> url_Parse url = Some u \<and> url_Parse (redirect_url u) = Some u'
     \<and> RawURLDecode (Values_Get (url_Query u') ''connect_b64'') = Some (bytes_of_string ''deskaccess://x'')"
proof -
  have "api_ok (cw_daemon sample_desktop)" by (simp add: sample_desktop_def sample_api_ok)
  from invite_reaches_dashboard [OF sample_codec_ok this, of "[7, 8]" sample_api_env "''sock''" "[]" 5 True sample_client "''deskaccess://x''"]
  show ?thesis by fastforce
qed

end
