(* ===== verification/Identity_Load.thy ===== *)
theory Identity_Load
  imports Identity
begin

text \<open>
  Where this machine's identity comes from, \<open>internal/identity/load.go\<close>,
  \<open>software.go\<close>, \<open>tpm_linux_real.go\<close> and \<open>tpm_windows_real.go\<close>: the TPM key with its
  certificate if there is one, otherwise the key file. The file system is a state; key
  generation, the libp2p key format, X.509, the TPM tools and the Windows key store are
  arguments.
\<close>

section \<open>Files\<close>

record id_files =
  fi_data :: "string \<Rightarrow> bytes option"
  fi_readable :: "string \<Rightarrow> bool"

definition ReadFile :: "string \<Rightarrow> id_files \<Rightarrow> bytes option" where
  "ReadFile path f = (if fi_readable f path then fi_data f path else None)"

definition fileExists :: "string \<Rightarrow> id_files \<Rightarrow> bool" where
  "fileExists path f \<longleftrightarrow> fi_data f path \<noteq> None"

record id_env =
  ie_goos :: string
  ie_goarch :: string
  ie_getenv :: "string \<Rightarrow> string"
  ie_home :: string
  ie_join :: "string list \<Rightarrow> string"
  ie_mkdir :: "string \<Rightarrow> string option"
  ie_writable :: "string \<Rightarrow> bool"
  ie_now :: instant
  ie_generate :: "bytes option"
  ie_unmarshal :: "bytes \<Rightarrow> private_key option"
  ie_tool :: "string \<Rightarrow> bool"
  ie_tpm2 :: "string \<Rightarrow> string list \<Rightarrow> id_files \<Rightarrow> string option \<times> id_files"
  ie_pem_ecdsa :: "bytes \<Rightarrow> string + bytes"
  ie_notAfter :: "bytes \<Rightarrow> instant option"
  ie_createCert :: "string \<Rightarrow> instant \<Rightarrow> bytes \<Rightarrow> string + bytes"
  ie_sign :: "string \<Rightarrow> bytes \<Rightarrow> bytes option"

definition WriteFile :: "id_env \<Rightarrow> string \<Rightarrow> bytes \<Rightarrow> id_files \<Rightarrow> (string option \<times> id_files)" where
  "WriteFile env path data f =
     (if ie_writable env path then (None, f\<lparr>fi_data := (fi_data f)(path \<mapsto> data)\<rparr>) else (Some ''permission denied'', f))"

section \<open>The software key\<close>

definition identityDir :: "id_env \<Rightarrow> string" where
  "identityDir env =
     (if ie_goos env = ''windows'' then ie_join env [ie_getenv env ''APPDATA'', ''DeskAccess'']
      else ie_join env [ie_home env, ''.config'', ''DeskAccess''])"

definition software_identity :: "private_key \<Rightarrow> Identity" where
  "software_identity priv = \<lparr>id_PrivKey = Some priv, id_Signer = None, id_Backend = BackendSoftware, id_Attestation = None\<rparr>"

definition LoadOrCreateSoftware :: "id_env \<Rightarrow> string \<Rightarrow> id_files \<Rightarrow> (string + Identity) \<times> id_files" where
  "LoadOrCreateSoftware env keyPath f =
     (case ie_mkdir env keyPath of
        Some e \<Rightarrow> (Inl e, f)
      | None \<Rightarrow>
          (case ReadFile keyPath f of
             Some data \<Rightarrow>
               (case hexDecode (string_of_bytes data) of
                  None \<Rightarrow> (Inl ''decode key'', f)
                | Some privBytes \<Rightarrow>
                    (case ie_unmarshal env privBytes of
                       None \<Rightarrow> (Inl ''unmarshal key'', f)
                     | Some priv \<Rightarrow> (Inr (software_identity priv), f)))
           | None \<Rightarrow>
               (case ie_generate env of
                  None \<Rightarrow> (Inl ''generate key'', f)
                | Some raw \<Rightarrow>
                    (case ie_unmarshal env raw of
                       None \<Rightarrow> (Inl ''unmarshal key'', f)
                     | Some priv \<Rightarrow>
                         (case WriteFile env keyPath (bytes_of_string (hexEncode raw)) f of
                            (Some e, f1) \<Rightarrow> (Inl (''save key: '' @ e), f1)
                          | (None, f1) \<Rightarrow> (Inr (software_identity priv), f1))))))"

section \<open>The TPM key on Linux\<close>

definition hasTPMDevice :: "id_files \<Rightarrow> bool" where
  "hasTPMDevice f \<longleftrightarrow> fileExists ''/dev/tpmrm0'' f \<or> fileExists ''/dev/tpm0'' f"

record tpm2ToolKey =
  tk_ctxPath :: string
  tk_pub :: bytes

definition newTPM2ToolKey :: "id_env \<Rightarrow> string \<Rightarrow> string \<Rightarrow> id_files \<Rightarrow> string + tpm2ToolKey" where
  "newTPM2ToolKey env ctxPath pubPEM f =
     (case ReadFile pubPEM f of
        None \<Rightarrow> Inl ''read public key''
      | Some data \<Rightarrow>
          (case ie_pem_ecdsa env data of
             Inl e \<Rightarrow> Inl e
           | Inr pub \<Rightarrow> Inr \<lparr>tk_ctxPath = ctxPath, tk_pub = pub\<rparr>))"

text \<open>The commands are run in order; the first failure is reported with its message.\<close>

primrec run_tools :: "id_env \<Rightarrow> (string \<times> string \<times> string list) list \<Rightarrow> id_files \<Rightarrow> string option \<times> id_files" where
  "run_tools env [] f = (None, f)"
| "run_tools env (c # cs) f =
     (case c of (what, name, args) \<Rightarrow>
        (case ie_tpm2 env name args f of
           (Some e, f1) \<Rightarrow> (Some (what @ '': '' @ name @ '': '' @ e), f1)
         | (None, f1) \<Rightarrow> run_tools env cs f1))"

definition loadOrCreateLinuxTPMKey :: "id_env \<Rightarrow> string \<Rightarrow> id_files \<Rightarrow> (string + tpm2ToolKey) \<times> id_files" where
  "loadOrCreateLinuxTPMKey env dir f =
     (let primary = ie_join env [dir, ''tpm_primary.ctx'']; pubFile = ie_join env [dir, ''tpm_key.pub''];
          privFile = ie_join env [dir, ''tpm_key.priv'']; keyCtx = ie_join env [dir, ''tpm_key.ctx''];
          pubPEM = ie_join env [dir, ''tpm_public.pem'']
      in if fileExists keyCtx f \<and> fileExists pubPEM f then (newTPM2ToolKey env keyCtx pubPEM f, f)
         else case run_tools env
             [(''create TPM primary'', ''tpm2_createprimary'', [''-C'', ''o'', ''-G'', ''ecc'', ''-c'', primary]),
              (''create TPM key'', ''tpm2_create'', [''-C'', primary, ''-G'', ''ecc'', ''-u'', pubFile, ''-r'', privFile]),
              (''load TPM key'', ''tpm2_load'', [''-C'', primary, ''-u'', pubFile, ''-r'', privFile, ''-c'', keyCtx]),
              (''read TPM public key'', ''tpm2_readpublic'', [''-c'', keyCtx, ''-o'', pubPEM, ''-f'', ''pem''])] f of
           (Some e, f1) \<Rightarrow> (Inl e, f1)
         | (None, f1) \<Rightarrow> (newTPM2ToolKey env keyCtx pubPEM f1, f1))"

definition linuxTPMManufacturer :: "id_env \<Rightarrow> id_files \<Rightarrow> string" where
  "linuxTPMManufacturer env f =
     (let v = (case ReadFile ''/sys/class/tpm/tpm0/tpm_version_major'' f of None \<Rightarrow> [] | Some d \<Rightarrow> TrimSpace (string_of_bytes d)) in
      if v \<noteq> [] then ''Linux TPM '' @ v @ ''.0''
      else if ie_goarch env = ''arm'' \<or> ie_goarch env = ''arm64'' then ''Raspberry Pi TPM 2.0''
      else ''Linux TPM 2.0'')"

text \<open>
  The certificate, the same on both systems: a stored one is used until it expires,
  otherwise one is made for the key and stored; a created certificate that does not parse is an error.
\<close>

definition load_or_create_cert :: "id_env \<Rightarrow> string \<Rightarrow> string \<Rightarrow> bytes \<Rightarrow> id_files \<Rightarrow> (string + bytes) \<times> id_files" where
  "load_or_create_cert env manufacturer path pub f =
     (case (case ReadFile path f of
              None \<Rightarrow> None
            | Some der \<Rightarrow> (case ie_notAfter env der of
                 Some t \<Rightarrow> if Before (ie_now env) t then Some der else None
               | None \<Rightarrow> None)) of
        Some der \<Rightarrow> (Inr der, f)
      | None \<Rightarrow>
          (case ie_createCert env manufacturer (ie_now env) pub of
             Inl e \<Rightarrow> (Inl (''create TPM cert: '' @ e), f)
           | Inr der \<Rightarrow>
               (case WriteFile env path der f of
                  (Some e, f1) \<Rightarrow> (Inl e, f1)
                | (None, f1) \<Rightarrow> if ie_notAfter env der = None then (Inl ''parse certificate'', f1) else (Inr der, f1))))"

definition loadOrCreateLinuxTPMCert :: "id_env \<Rightarrow> string \<Rightarrow> tpm2ToolKey \<Rightarrow> id_files \<Rightarrow> (string + bytes) \<times> id_files" where
  "loadOrCreateLinuxTPMCert env path key f = load_or_create_cert env (linuxTPMManufacturer env f) path (tk_pub key) f"

text \<open>
  A raw signature is the two numbers side by side; the tool signs a digest, a message of
  another length is hashed first. \<open>asn1\<close> is the marshalling of the pair.
\<close>

definition split_signature :: "(nat \<Rightarrow> nat \<Rightarrow> bytes) \<Rightarrow> bytes \<Rightarrow> bytes option" where
  "split_signature asn1 raw =
     (if length raw mod 2 \<noteq> 0 then None
      else let half = length raw div 2 in Some (asn1 (be_value (take half raw)) (be_value (drop half raw))))"

definition sign_digest :: "(bytes \<Rightarrow> bytes) \<Rightarrow> nat option \<Rightarrow> bytes \<Rightarrow> bytes" where
  "sign_digest sha256 hashSize digest =
     (case hashSize of None \<Rightarrow> digest | Some n \<Rightarrow> if length digest \<noteq> n then sha256 digest else digest)"

definition tpm_Sign ::
  "(bytes \<Rightarrow> bytes) \<Rightarrow> (nat \<Rightarrow> nat \<Rightarrow> bytes) \<Rightarrow> (bytes \<Rightarrow> bytes option) \<Rightarrow> nat option \<Rightarrow> bytes \<Rightarrow> bytes option" where
  "tpm_Sign sha256 asn1 device hashSize digest =
     (case device (sign_digest sha256 hashSize digest) of None \<Rightarrow> None | Some raw \<Rightarrow> split_signature asn1 raw)"

definition tpm_identity :: "(bytes \<Rightarrow> bytes option) \<Rightarrow> bytes \<Rightarrow> string \<Rightarrow> Identity" where
  "tpm_identity signer certDER manufacturer =
     \<lparr>id_PrivKey = None, id_Signer = Some signer, id_Backend = BackendTPM,
      id_Attestation = Some \<lparr>ab_AKCert = certDER, ab_EKCert = [], ab_ManufacturerCA = [], ab_Manufacturer = manufacturer, ab_TPMVersion = ''2.0''\<rparr>\<rparr>"

definition LoadOrCreateTPM_linux :: "id_env \<Rightarrow> string \<Rightarrow> id_files \<Rightarrow> (string + Identity) \<times> id_files" where
  "LoadOrCreateTPM_linux env dir f =
     (case ie_mkdir env dir of
        Some e \<Rightarrow> (Inl e, f)
      | None \<Rightarrow>
          if \<not> hasTPMDevice f then (Inl ''no TPM device found'', f)
          else if \<not> ie_tool env ''tpm2_createprimary'' then (Inl ''tpm2-tools not installed'', f)
          else case loadOrCreateLinuxTPMKey env dir f of
            (Inl e, f1) \<Rightarrow> (Inl e, f1)
          | (Inr key, f1) \<Rightarrow>
              (case loadOrCreateLinuxTPMCert env (ie_join env [dir, ''tpm_identity.cer'']) key f1 of
                 (Inl e, f2) \<Rightarrow> (Inl e, f2)
               | (Inr certDER, f2) \<Rightarrow>
                   (Inr (tpm_identity (ie_sign env (tk_ctxPath key)) certDER (linuxTPMManufacturer env f2)), f2)))"

section \<open>The TPM key on Windows\<close>

text \<open>The key store: the outcome of opening the provider and the key (with its status), of creating and of finalising it.\<close>

record ncrypt_env =
  nc_provider :: "nat option"
  nc_openKey :: "nat + nat"
  nc_create :: "nat + nat"
  nc_finalize :: "nat option"

definition nteBadKeyset :: nat where "nteBadKeyset = 0x80090016"

definition openOrCreatePlatformKey :: "ncrypt_env \<Rightarrow> string + nat" where
  "openOrCreatePlatformKey nc =
     (if nc_provider nc \<noteq> None then Inl ''open TPM provider''
      else case nc_openKey nc of
        Inr h \<Rightarrow> Inr h
      | Inl code \<Rightarrow>
          if code \<noteq> nteBadKeyset then Inl ''open TPM key''
          else case nc_create nc of
            Inl _ \<Rightarrow> Inl ''create TPM key''
          | Inr h \<Rightarrow> if nc_finalize nc \<noteq> None then Inl ''finalize TPM key'' else Inr h)"

text \<open>The public key blob: magic and key size as little-endian 32-bit words, then the coordinates. Slicing out of range panics.\<close>

datatype blob_result = BlobPanic | BlobError string | BlobKey nat nat

definition le32 :: "bytes \<Rightarrow> 32 word" where
  "le32 bs = word_of_nat (unat (bs ! 0) + 256 * unat (bs ! 1) + 65536 * unat (bs ! 2) + 16777216 * unat (bs ! 3))"

definition bcryptECDSAP256 :: "32 word" where "bcryptECDSAP256 = 0x31534345"

definition exportPublic :: "(nat \<Rightarrow> nat \<Rightarrow> bool) \<Rightarrow> bytes \<Rightarrow> blob_result" where
  "exportPublic onCurve blob =
     (if length blob < 8 then BlobError ''invalid TPM public blob''
      else
        let magic = le32 (take 4 blob); cbKey = le32 (take 4 (drop 4 blob)) in
        if magic \<noteq> bcryptECDSAP256 \<or> cbKey = 0 \<or> length blob < unat (8 + 2 * cbKey) then BlobError ''unsupported TPM public blob''
        else if unat (8 + cbKey) < 8 \<or> length blob < unat (8 + cbKey) \<or> unat (8 + 2 * cbKey) < unat (8 + cbKey) then BlobPanic
        else
          let x = be_value (drop 8 (take (unat (8 + cbKey)) blob));
              y = be_value (drop (unat (8 + cbKey)) (take (unat (8 + 2 * cbKey)) blob))
          in if \<not> onCurve x y then BlobError ''TPM public key is not on P-256'' else BlobKey x y)"

definition LoadOrCreateTPM_windows ::
  "id_env \<Rightarrow> ncrypt_env \<Rightarrow> (nat \<Rightarrow> bytes) \<Rightarrow> (bytes \<Rightarrow> string) \<Rightarrow> (nat \<Rightarrow> bytes \<Rightarrow> bytes option) \<Rightarrow> string \<Rightarrow> id_files
   \<Rightarrow> (string + Identity) \<times> id_files" where
  "LoadOrCreateTPM_windows env nc pub issuer sign dir f =
     (case ie_mkdir env dir of
        Some e \<Rightarrow> (Inl e, f)
      | None \<Rightarrow>
          (case openOrCreatePlatformKey nc of
             Inl e \<Rightarrow> (Inl e, f)
           | Inr h \<Rightarrow>
               (case load_or_create_cert env ''Microsoft Platform Crypto Provider'' (ie_join env [dir, ''tpm_identity.cer'']) (pub h) f of
                  (Inl e, f1) \<Rightarrow> (Inl e, f1)
                | (Inr certDER, f1) \<Rightarrow>
                    (Inr (tpm_identity (sign h) certDER
                       (if issuer certDER = [] then ''Microsoft Platform Crypto Provider'' else issuer certDER)), f1))))"

section \<open>Loading\<close>

definition LoadOrCreateTPM_none :: "string \<Rightarrow> id_files \<Rightarrow> (string + Identity) \<times> id_files" where
  "LoadOrCreateTPM_none dir f = (Inl ''TPM backend is not implemented for this build'', f)"

text \<open>\<open>tpm\<close> is the \<open>LoadOrCreateTPM\<close> of the platform.\<close>

definition identity_Load :: "id_env \<Rightarrow> (string \<Rightarrow> id_files \<Rightarrow> (string + Identity) \<times> id_files) \<Rightarrow> id_files \<Rightarrow> (string + Identity) \<times> id_files" where
  "identity_Load env tpm f =
     (let dir = identityDir env in
      case ie_mkdir env dir of
        Some e \<Rightarrow> (Inl (''identity dir: '' @ e), f)
      | None \<Rightarrow>
          (case tpm dir f of
             (Inr i, f1) \<Rightarrow> (Inr i, f1)
           | (Inl e, f1) \<Rightarrow> LoadOrCreateSoftware env (ie_join env [dir, ''identity.key'']) f1))"


section \<open>The identity stays\<close>

lemma WriteFile_None:
  "WriteFile env path data f = (None, f1) \<Longrightarrow> fi_data f1 path = Some data \<and> fi_readable f1 = fi_readable f"
  by (auto simp: WriteFile_def split: if_splits)

text \<open>
  The key of a machine survives restarts: what a load returned, created or read, every
  later load returns again, whatever its random source, and changes no file, as long as
  the key file can be read.
\<close>

lemma software_key_stays:
  assumes first: "LoadOrCreateSoftware env keyPath f = (Inr i, f1)"
    and again: "ie_mkdir env' keyPath = None" "ie_unmarshal env' = ie_unmarshal env" "fi_readable f1 keyPath"
  shows "LoadOrCreateSoftware env' keyPath f1 = (Inr i, f1)"
proof -
  have "\<exists>data raw priv. fi_data f1 keyPath = Some data \<and> hexDecode (string_of_bytes data) = Some raw
      \<and> ie_unmarshal env raw = Some priv \<and> i = software_identity priv"
  proof (cases "ReadFile keyPath f")
    case (Some data)
    then show ?thesis
      using first by (auto simp: LoadOrCreateSoftware_def ReadFile_def split: option.splits if_splits)
  next
    case None
    then obtain raw priv where "ie_unmarshal env raw = Some priv" "i = software_identity priv"
        "WriteFile env keyPath (bytes_of_string (hexEncode raw)) f = (None, f1)"
      using first by (auto simp: LoadOrCreateSoftware_def split: option.splits prod.splits)
    then show ?thesis using WriteFile_None by fastforce
  qed
  then show ?thesis using again by (auto simp: LoadOrCreateSoftware_def ReadFile_def)
qed

text \<open>The key file is replaced not only when it is missing but also when it cannot be read.\<close>

lemma unreadable_key_replaced:
  assumes "\<not> fi_readable f keyPath" "ie_mkdir env keyPath = None" "ie_generate env = Some raw"
    "ie_unmarshal env raw = Some priv" "ie_writable env keyPath"
  shows "LoadOrCreateSoftware env keyPath f =
    (Inr (software_identity priv), f\<lparr>fi_data := (fi_data f)(keyPath \<mapsto> bytes_of_string (hexEncode raw))\<rparr>)"
  using assms by (simp add: LoadOrCreateSoftware_def ReadFile_def WriteFile_def)

lemma cert_stays:
  assumes "load_or_create_cert env man path pub f = (Inr der, f1)" and "fi_readable f1 path"
    and "ie_notAfter env' = ie_notAfter env" "\<exists>t. ie_notAfter env der = Some t \<and> ie_now env' < t"
  shows "load_or_create_cert env' man' path pub' f1 = (Inr der, f1)"
proof -
  have "fi_data f1 path = Some der"
    using assms(1) by (auto simp: load_or_create_cert_def ReadFile_def dest: WriteFile_None split: option.splits sum.splits prod.splits if_splits)
  then show ?thesis using assms(2-) by (auto simp: load_or_create_cert_def ReadFile_def Before_def)
qed

text \<open>
  The certificate is kept also when the key is a new one: if the key files of the TPM
  tools are lost, the identity combines the new key with the certificate of the old one.
\<close>

lemma stale_certificate:
  assumes "ReadFile path f = Some der" "ie_notAfter env der = Some t" "ie_now env < t"
  shows "loadOrCreateLinuxTPMCert env path key f = (Inr der, f)"
  using assms by (simp add: loadOrCreateLinuxTPMCert_def load_or_create_cert_def Before_def)

text \<open>
  C36: loading the identity is stable: the identity a successful load returns without TPM is
  returned again by every later load on the files it left, with any random source, and
  no file changes, as long as the TPM stays unavailable and the key file can be read.
\<close>

theorem identity_persists:
  assumes "identity_Load env tpm f = (Inr i, f1)"
    and "\<forall>f. \<exists>e. tpm (identityDir env) f = (Inl e, f)"
    and "ie_goos env' = ie_goos env" "ie_getenv env' = ie_getenv env" "ie_home env' = ie_home env" "ie_join env' = ie_join env"
    and "ie_unmarshal env' = ie_unmarshal env" "ie_mkdir env' = ie_mkdir env"
    and "fi_readable f1 (ie_join env [identityDir env, ''identity.key''])"
  shows "identity_Load env' tpm f1 = (Inr i, f1)"
proof -
  let ?k = "ie_join env [identityDir env, ''identity.key'']"
  have dir: "identityDir env' = identityDir env" using assms(3-6) by (simp add: identityDir_def)
  obtain e where e: "tpm (identityDir env) f = (Inl e, f)" using assms(2) by blast
  have m: "ie_mkdir env (identityDir env) = None" and s: "LoadOrCreateSoftware env ?k f = (Inr i, f1)"
    using assms(1) e by (auto simp: identity_Load_def Let_def split: option.splits)
  have mk: "ie_mkdir env ?k = None" using s by (auto simp: LoadOrCreateSoftware_def split: option.splits)
  have "LoadOrCreateSoftware env' ?k f1 = (Inr i, f1)"
    using software_key_stays [OF s, of env'] assms(7-9) mk by simp
  moreover obtain e' where "tpm (identityDir env) f1 = (Inl e', f1)" using assms(2) by blast
  ultimately show ?thesis using m assms(6,8) by (simp add: identity_Load_def Let_def dir)
qed

definition sample_id_env :: "nat \<Rightarrow> id_env" where
  "sample_id_env seed = \<lparr>ie_goos = ''linux'', ie_goarch = ''amd64'', ie_getenv = \<lambda>v. [], ie_home = ''/root'', ie_join = concat,
     ie_mkdir = \<lambda>d. None, ie_writable = \<lambda>p. True, ie_now = 0, ie_generate = Some [word_of_nat seed],
     ie_unmarshal = \<lambda>raw. Some \<lparr>pk_public = Some raw, pk_sign = \<lambda>m. Some m\<rparr>, ie_tool = \<lambda>t. False,
     ie_tpm2 = \<lambda>n a f. (None, f), ie_pem_ecdsa = Inr, ie_notAfter = \<lambda>d. None, ie_createCert = \<lambda>m t p. Inr p, ie_sign = \<lambda>c d. Some d\<rparr>"

definition sample_files :: id_files where
  "sample_files = \<lparr>fi_data = Map.empty, fi_readable = \<lambda>p. True\<rparr>"

theorem identity_persists_witness:
  "let first = identity_Load (sample_id_env 1) LoadOrCreateTPM_none sample_files;
       again = identity_Load (sample_id_env 2) LoadOrCreateTPM_none (snd first)
   in again = first \<and> (\<exists>i. fst first = Inr i \<and> PublicKeyRaw (Some i) = [1])"
proof -
  let ?f = "identity_Load (sample_id_env 1) LoadOrCreateTPM_none sample_files"
  have f: "?f = (Inr (software_identity \<lparr>pk_public = Some [1], pk_sign = \<lambda>m. Some m\<rparr>), snd ?f)"
    by (simp add: identity_Load_def Let_def sample_id_env_def LoadOrCreateTPM_none_def LoadOrCreateSoftware_def ReadFile_def
        sample_files_def WriteFile_def)
  have "fi_readable (snd ?f) p" for p
    by (simp add: identity_Load_def Let_def sample_id_env_def LoadOrCreateTPM_none_def LoadOrCreateSoftware_def ReadFile_def
        sample_files_def WriteFile_def)
  then have "identity_Load (sample_id_env 2) LoadOrCreateTPM_none (snd ?f) = ?f"
    using identity_persists [OF f, of "sample_id_env 2"] f by (simp add: sample_id_env_def LoadOrCreateTPM_none_def)
  moreover have "\<exists>i. fst ?f = Inr i \<and> PublicKeyRaw (Some i) = [1]"
    by (subst f) (simp add: software_identity_def PublicKeyRaw_def)
  ultimately show ?thesis by (simp add: Let_def)
qed

section \<open>Signatures and key blobs\<close>

lemma split_signature_even:
  "split_signature asn1 (be_bytes n r @ be_bytes n s) = Some (asn1 r s)" if "r < 256 ^ n" "s < 256 ^ n"
  using that by (simp add: split_signature_def Let_def be_value_be_bytes)

text \<open>
  The size check of the blob is done in 32 bits, where the doubled key size wraps around:
  a blob that announces \<open>0x80000000\<close> bytes per coordinate passes it, and slicing it panics.
\<close>

lemma exportPublic_panics:
  "exportPublic onCurve [0x45, 0x43, 0x53, 0x31, 0, 0, 0, 0x80] = BlobPanic"
  by (simp add: exportPublic_def le32_def bcryptECDSAP256_def Let_def)

lemma exportPublic_good:
  assumes "exportPublic onCurve blob = BlobKey x y"
  shows "onCurve x y \<and> 8 \<le> length blob"
  using assms by (auto simp: exportPublic_def Let_def split: if_splits)

end
