(* ===== verification/Dht.thy ===== *)
theory Dht
  imports Node
begin

text \<open>
  The libp2p DHT client, \<open>internal/dht/dht.go\<close>, and what the node does with it: the
  bootstrap peers of each mode, publishing and finding the provider record of an identity,
  relay candidates, and waiting for the routing table. The Kademlia library, multiaddresses
  and the hash are arguments; a wait is modelled by what each tick of its loop observes.
\<close>

section \<open>The client\<close>

definition aminoBootstrap :: "string list" where
  "aminoBootstrap =
    [''/ip4/147.75.80.110/tcp/4001/p2p/QmbFgm5zan8P6eWWmeyfncR5feYEMPbht5b1FW1C37aQ7y'',
     ''/ip4/147.75.80.110/udp/4001/quic-v1/p2p/QmbFgm5zan8P6eWWmeyfncR5feYEMPbht5b1FW1C37aQ7y'',
     ''/ip4/147.75.195.153/tcp/4001/p2p/QmW9m57aiBDHAkKj9nmFSEn7ZqrcF1fZS4bipsTCHburei'',
     ''/ip4/147.75.195.153/udp/4001/quic-v1/p2p/QmW9m57aiBDHAkKj9nmFSEn7ZqrcF1fZS4bipsTCHburei'',
     ''/ip4/147.75.70.221/tcp/4001/p2p/Qme8g49gm3q4Acp7xWBKg3nAa9fxZ1YmyDJdyGgoG6LsXh'',
     ''/ip4/147.75.70.221/udp/4001/quic-v1/p2p/Qme8g49gm3q4Acp7xWBKg3nAa9fxZ1YmyDJdyGgoG6LsXh'']"

definition parseMultiaddrs :: "'m multiaddr_lib \<Rightarrow> string list \<Rightarrow> 'm AddrInfo list" where
  "parseMultiaddrs lib addrs =
     List.map_filter (\<lambda>s. case ml_New lib s of None \<Rightarrow> None | Some a \<Rightarrow> ml_AddrInfo lib a) addrs"

definition dht_addrs :: "DHTConfig \<Rightarrow> string list" where
  "dht_addrs cfg =
     (if dht_Mode cfg = ''custom'' then dht_Bootstrap cfg
      else if dht_Mode cfg = ''mixed'' then aminoBootstrap @ dht_Bootstrap cfg
      else aminoBootstrap)"

text \<open>The multihash of a byte sequence, and the content identifier made of it.\<close>

definition identity_prefix :: bytes where
  "identity_prefix = bytes_of_string ''DeskAccess:identity:v1:''"

definition IdentityProviderCID :: "(bytes \<Rightarrow> 'c option) \<Rightarrow> bytes \<Rightarrow> string + 'c" where
  "IdentityProviderCID hsum publicKey =
     (if publicKey = [] then Inl ''empty public key''
      else case hsum (identity_prefix @ publicKey) of None \<Rightarrow> Inl ''hash'' | Some c \<Rightarrow> Inr c)"

definition identityProviderCID :: "(bytes \<Rightarrow> 'c option) \<Rightarrow> (string + bytes) \<Rightarrow> string + 'c" where
  "identityProviderCID hsum hostKey =
     (case hostKey of Inl e \<Rightarrow> Inl (''read host public key: '' @ e) | Inr pub \<Rightarrow> IdentityProviderCID hsum pub)"

record 'c dht_client =
  dc_identityCID :: 'c

text \<open>\<open>kad\<close> starts the Kademlia client with its bootstrap peers; \<open>Inr None\<close> is the nil client of a disabled DHT.\<close>

definition dht_New ::
  "'m multiaddr_lib \<Rightarrow> (bytes \<Rightarrow> 'c option) \<Rightarrow> ('m AddrInfo list \<Rightarrow> string option) \<Rightarrow> (string + bytes) \<Rightarrow> DHTConfig
   \<Rightarrow> string + 'c dht_client option" where
  "dht_New lib hsum kad hostKey cfg =
     (if dht_Mode cfg = ''disabled'' then Inr None
      else case kad (parseMultiaddrs lib (dht_addrs cfg)) of
        Some e \<Rightarrow> Inl e
      | None \<Rightarrow>
          (case identityProviderCID hsum hostKey of
             Inl e \<Rightarrow> Inl e
           | Inr c \<Rightarrow> Inr (Some \<lparr>dc_identityCID = c\<rparr>)))"

text \<open>Each tick sees the size of the routing table and whether the context has ended; \<open>None\<close> is still waiting.\<close>

fun dht_WaitReady :: "(nat \<times> bool) list \<Rightarrow> bool option" where
  "dht_WaitReady [] = None"
| "dht_WaitReady ((tsize, ended) # ticks) =
     (if 0 < tsize then Some True else if ended then Some False else dht_WaitReady ticks)"

text \<open>The provider records of the network: which peers offer a content identifier.\<close>

type_synonym ('c, 'm) providers = "('c \<times> 'm AddrInfo) list"

definition dht_PublishNow ::
  "(nat \<times> bool) list \<Rightarrow> bool \<Rightarrow> 'm AddrInfo \<Rightarrow> 'c dht_client option \<Rightarrow> ('c, 'm) providers \<Rightarrow> ('c, 'm) providers" where
  "dht_PublishNow ticks provide self c net =
     (case c of
        None \<Rightarrow> net
      | Some dc \<Rightarrow> if dht_WaitReady ticks = Some True \<and> provide then (dc_identityCID dc, self) # net else net)"

definition FindProviders :: "'c \<Rightarrow> ('c, 'm) providers \<Rightarrow> 'm AddrInfo list" where
  "FindProviders c net = take 8 (map snd (filter (\<lambda>(k, i). k = c) net))"

text \<open>The loop over the providers found, with the addresses the peerstore knows.\<close>

primrec find_provider :: "(peer_id \<Rightarrow> 'm AddrInfo) \<Rightarrow> peer_id \<Rightarrow> 'm AddrInfo list \<Rightarrow> 'm AddrInfo option" where
  "find_provider peerstore expected [] = None"
| "find_provider peerstore expected (info # infos) =
     (if ai_ID info = [] then find_provider peerstore expected infos
      else if expected \<noteq> [] \<and> ai_ID info \<noteq> expected then find_provider peerstore expected infos
      else if ai_Addrs info \<noteq> [] then Some info
      else if ai_Addrs (peerstore (ai_ID info)) \<noteq> [] then Some (peerstore (ai_ID info))
      else Some info)"

definition FindIdentityProvider ::
  "(bytes \<Rightarrow> 'c option) \<Rightarrow> ('c \<Rightarrow> 'm AddrInfo list) \<Rightarrow> (peer_id \<Rightarrow> 'm AddrInfo) \<Rightarrow> bytes \<Rightarrow> peer_id \<Rightarrow> string + 'm AddrInfo" where
  "FindIdentityProvider hsum lookup peerstore publicKey expected =
     (case IdentityProviderCID hsum publicKey of
        Inl e \<Rightarrow> Inl e
      | Inr c \<Rightarrow>
          (case find_provider peerstore expected (lookup c) of
             None \<Rightarrow> Inl ''identity provider not found''
           | Some info \<Rightarrow> Inr info))"

definition hopProto :: string where "hopProto = ''/libp2p/circuit/relay/0.2.0/hop''"

definition RelayPeers :: "peer_id list \<Rightarrow> (peer_id \<Rightarrow> string list) \<Rightarrow> (peer_id \<Rightarrow> 'm AddrInfo) \<Rightarrow> 'm AddrInfo list" where
  "RelayPeers table protos peerstore =
     filter (\<lambda>info. ai_Addrs info \<noteq> []) (map peerstore (filter (\<lambda>p. hopProto \<in> set (protos p)) table))"

section \<open>The node and its client\<close>

text \<open>What a tick of \<open>waitDHTClient\<close> sees: the client, whether DHT is enabled, the last error, the end of the context.\<close>

record dht_tick =
  dt_client :: "nat option"
  dt_enabled :: bool
  dt_lastErr :: string
  dt_ended :: bool

fun waitDHTClient :: "dht_tick list \<Rightarrow> (string + nat) option" where
  "waitDHTClient [] = None"
| "waitDHTClient (t # ts) =
     (case dt_client t of
        Some dc \<Rightarrow> Some (Inr dc)
      | None \<Rightarrow>
          if \<not> dt_enabled t then Some (Inl ''DHT is disabled'')
          else if dt_ended t then
            Some (Inl (if dt_lastErr t \<noteq> [] then ''DHT is not ready: '' @ dt_lastErr t else ''DHT is not ready''))
          else waitDHTClient ts)"

definition WaitDHTReady :: "dht_tick list \<Rightarrow> (nat \<times> bool) list \<Rightarrow> string option option" where
  "WaitDHTReady ticks table =
     (case waitDHTClient ticks of
        None \<Rightarrow> None
      | Some (Inl e) \<Rightarrow> Some (Some e)
      | Some (Inr dc) \<Rightarrow> map_option (\<lambda>ready. if ready then None else Some ''DHT bootstrap not ready'') (dht_WaitReady table))"

record relay_status =
  rs_enabled :: bool
  rs_connected :: bool
  rs_relay_count :: nat
  rs_reserved_addrs :: nat
  rs_last_error :: "node_error option"
  rs_mask :: byte

record dht_status =
  ds_enabled :: bool
  ds_running :: bool
  ds_ready :: bool
  ds_table :: nat
  ds_last_error :: "node_error option"

definition NetworkStatus :: "(peer_id \<Rightarrow> bool) \<Rightarrow> nat \<Rightarrow> 'm Node \<Rightarrow> relay_status \<times> dht_status" where
  "NetworkStatus connected table n =
     (let dhtPeers = (if n_dhtClient n \<noteq> None then table else 0) in
      (\<lparr>rs_enabled = relayEnabled n, rs_connected = (relayEnabled n \<and> n_relayAddrs n \<noteq> []),
        rs_relay_count = length (n_relayInfos n), rs_reserved_addrs = length (n_relayAddrs n),
        rs_last_error = n_lastRelayErr n, rs_mask = RelayMask connected n\<rparr>,
       \<lparr>ds_enabled = dhtEnabled n, ds_running = (n_dhtClient n \<noteq> None), ds_ready = (n_dhtClient n \<noteq> None \<and> 0 < dhtPeers),
        ds_table = dhtPeers, ds_last_error = n_lastDHTErr n\<rparr>))"

text \<open>A keepalive tick: whether a reconnection is started.\<close>

definition pingRelays :: "(peer_id \<Rightarrow> bool) \<Rightarrow> 'm Node \<Rightarrow> bool" where
  "pingRelays connected n = list_ex (\<lambda>info. \<not> connected (ai_ID info)) (n_relayInfos n)"

text \<open>The reconnections under way after a sequence of keepalive ticks none of which has ended yet.\<close>

definition keepAliveLoop :: "(peer_id \<Rightarrow> bool) list \<Rightarrow> 'm Node \<Rightarrow> nat" where
  "keepAliveLoop ticks n = length (filter (\<lambda>connected. pingRelays connected n) ticks)"

definition Libp2pRunning :: "'m Node option \<Rightarrow> bool" where
  "Libp2pRunning n = (case n of None \<Rightarrow> False | Some x \<Rightarrow> n_Host x)"

definition node_Close :: "'m Node \<Rightarrow> 'm Node" where
  "node_Close n = n\<lparr>n_relayCancel := False, n_dhtCancel := False, n_dhtClient := None, n_Host := False\<rparr>"

section \<open>Finding an identity\<close>

lemma find_provider_sound:
  assumes "find_provider peerstore expected infos = Some info" and "\<And>p. ai_ID (peerstore p) = p"
  shows "ai_ID info \<noteq> [] \<and> (expected \<noteq> [] \<longrightarrow> ai_ID info = expected) \<and> (\<exists>i \<in> set infos. ai_ID i = ai_ID info)"
  using assms by (induction infos) (auto split: if_splits)

lemma find_provider_finds:
  "i \<in> set infos \<Longrightarrow> ai_ID i = expected \<Longrightarrow> expected \<noteq> [] \<Longrightarrow> \<exists>info. find_provider peerstore expected infos = Some info"
  by (induction infos) auto

lemma find_provider_addrs:
  assumes "find_provider peerstore expected infos = Some info" "ai_Addrs info = []"
  shows "\<exists>i \<in> set infos. ai_Addrs i = [] \<and> ai_Addrs (peerstore (ai_ID i)) = []"
  using assms by (induction infos) (auto split: if_splits)

text \<open>The content identifier separates identities as far as the hash does.\<close>

lemma IdentityProviderCID_inject:
  assumes "\<And>a b c. hsum a = Some c \<Longrightarrow> hsum b = Some c \<Longrightarrow> a = b"
    and "IdentityProviderCID hsum k = Inr c" "IdentityProviderCID hsum k' = Inr c"
  shows "k = k'"
  using assms by (fastforce simp: IdentityProviderCID_def split: if_splits option.splits)

text \<open>
  A host that published its identity is found by a client that knows the public key and
  the peer from the invite, and nobody else is returned in its place, whoever else
  published under the same key.
\<close>

theorem published_identity_found:
  assumes new: "dht_New lib hsum kad (Inr pub) cfg = Inr (Some dc)"
    and ready: "dht_WaitReady ticks = Some True"
    and self: "ai_ID self \<noteq> []" and store: "\<And>p. ai_ID (peerstore p) = p"
  shows "\<exists>info. FindIdentityProvider hsum (\<lambda>c. FindProviders c (dht_PublishNow ticks True self (Some dc) net)) peerstore pub (ai_ID self) = Inr info
     \<and> ai_ID info = ai_ID self"
proof -
  have c: "IdentityProviderCID hsum pub = Inr (dc_identityCID dc)"
    using new by (auto simp: dht_New_def identityProviderCID_def split: if_splits option.splits sum.splits)
  have "self \<in> set (FindProviders (dc_identityCID dc) (dht_PublishNow ticks True self (Some dc) net))"
    by (simp add: FindProviders_def dht_PublishNow_def ready)
  then obtain info where f: "find_provider peerstore (ai_ID self) (FindProviders (dc_identityCID dc) (dht_PublishNow ticks True self (Some dc) net)) = Some info"
    using find_provider_finds [of self _ "ai_ID self" peerstore] self by blast
  then show ?thesis
    using find_provider_sound [OF f store] self by (simp add: FindIdentityProvider_def c)
qed

section \<open>Waiting\<close>

lemma dht_WaitReady_Some:
  "dht_WaitReady ticks = Some b \<Longrightarrow> \<exists>i < length ticks. (b \<longleftrightarrow> 0 < fst (ticks ! i)) \<and> (\<not> b \<longrightarrow> snd (ticks ! i)) \<and> (\<forall>j < i. fst (ticks ! j) = 0)"
proof (induction ticks rule: dht_WaitReady.induct)
  case (2 tsize ended ticks)
  show ?case
  proof (cases "tsize = 0 \<and> \<not> ended")
    case True
    then obtain i where "i < length ticks" "b \<longleftrightarrow> 0 < fst (ticks ! i)" "\<not> b \<longrightarrow> snd (ticks ! i)" "\<forall>j < i. fst (ticks ! j) = 0"
      using 2 by auto
    then show ?thesis using True by (intro exI [of _ "Suc i"]) (auto simp: less_Suc_eq_0_disj)
  next
    case False
    then show ?thesis using 2(2) by (intro exI [of _ 0]) (auto split: if_splits)
  qed
qed simp

text \<open>A wait ends at the latest with the context.\<close>

lemma waits_end:
  "t \<in> set ticks \<Longrightarrow> snd t \<Longrightarrow> dht_WaitReady ticks \<noteq> None"
  "u \<in> set obs \<Longrightarrow> dt_ended u \<Longrightarrow> waitDHTClient obs \<noteq> None"
proof -
  show "t \<in> set ticks \<Longrightarrow> snd t \<Longrightarrow> dht_WaitReady ticks \<noteq> None"
    by (induction ticks rule: dht_WaitReady.induct) auto
  show "u \<in> set obs \<Longrightarrow> dt_ended u \<Longrightarrow> waitDHTClient obs \<noteq> None"
    by (induction obs rule: waitDHTClient.induct) (auto split: option.splits)
qed

section \<open>Relays and the DHT\<close>

lemma aminoBootstrap_in_sync: "aminoBootstrap = PublicRelays"
  by (simp add: aminoBootstrap_def PublicRelays_def)

text \<open>
  Relay and DHT are different backends of the node, so a node that keeps relay
  reservations has DHT disabled: starting the DHT drops the client, and the candidates
  \<open>addDHTRelays\<close> would add are never there.
\<close>

lemma relay_excludes_dht: "relayEnabled n \<Longrightarrow> \<not> dhtEnabled n \<and> n_dhtClient (startDHT n) = None"
  by (auto simp: relayEnabled_def dhtEnabled_def startDHT_def)

text \<open>Every keepalive tick that finds a relay disconnected starts one more reconnection.\<close>

lemma keepAlive_accumulates:
  "\<forall>connected \<in> set ticks. \<exists>info \<in> set (n_relayInfos n). \<not> connected (ai_ID info) \<Longrightarrow> keepAliveLoop ticks n = length ticks"
  by (simp add: keepAliveLoop_def pingRelays_def list_ex_iff)

lemma node_Close_stops: "n_dhtClient (node_Close n) = None \<and> \<not> n_Host (node_Close n) \<and> n_relayInfos (node_Close n) = n_relayInfos n"
  by (simp add: node_Close_def)

end
