(* ===== verification/Daemon.thy ===== *)
theory Daemon
  imports Cli_Dashboard Identity_Load Dht
begin

text \<open>
  The daemon as a whole, \<open>RunStack\<close> and \<open>App\<close> of \<open>internal/service/service.go\<close>: how
  configuration, identity, node, pairing manager, backends, presence and dashboard are put
  together at the start, what the dashboard is told about the network, and the start and
  stop calls of the service manager.
\<close>

section \<open>Starting\<close>

record 'm daemon =
  da_api :: "'m api_state"
  da_presence :: bool

text \<open>
  The outcome of loading configuration and identity, the constructors of the service, of
  presence (\<open>Inr False\<close> is nil) and the session token of the dashboard.
\<close>

record 'm stack_env =
  se_config :: "config_error + Config"
  se_identity :: "string + Identity"
  se_svc :: "'m service_env"
  se_presence :: "Config \<Rightarrow> string + bool"
  se_token :: string

text \<open>
  One error variable runs through the start of both BitTorrent parts: the DHT is started
  only if loading the key and starting direct QUIC left it nil.
\<close>

definition start_bt_backends :: "'m service_env \<Rightarrow> 'm net_state \<Rightarrow> 'm net_state" where
  "start_bt_backends env s =
     (if \<not> shouldRunBitTorrentDHTBackend (Some (ns_cfg s)) then s
      else case PrivateKeyBytes (ns_cfg s) of
        Inl _ \<Rightarrow> s
      | Inr priv \<Rightarrow>
          (case sv_newQUIC env (ns_cfg s) priv of
             Inl _ \<Rightarrow> s
           | Inr quic \<Rightarrow>
               let bt = (sv_newBT env (ns_cfg s) priv = Inr True) in
               s\<lparr>ns_bt := bt, ns_discoverer := bt, ns_quic := quic, ns_quic_pairing := quic, ns_quic_tunnel := quic\<rparr>))"

definition start_net :: "'m service_env \<Rightarrow> 'm Node \<Rightarrow> 'm net_state" where
  "start_net env n =
     (let s1 = start_bt_backends env (service_start n);
          s2 = (if n_Host n then s1\<lparr>ns_libp2p_pairing := True, ns_libp2p_tunnel := True\<rparr> else s1)
      in if ActiveNetworkBackend (Some (n_cfg n)) = BackendIroh then snd (setBackendRef env BackendIroh ''selected'' True s2) else s2)"

definition RunStack :: "'m stack_env \<Rightarrow> string + 'm daemon" where
  "RunStack env =
     (case se_config env of
        Inl e \<Rightarrow> Inl (''load config: '' @ sv_config_error (se_svc env) e)
      | Inr cfg0 \<Rightarrow>
          let cfg = NormalizeNetworkBackend cfg0 in
          (case se_identity env of
             Inl e \<Rightarrow> Inl (''load identity: '' @ e)
           | Inr i \<Rightarrow>
               (case Node_New (sv_lib (se_svc env)) (sv_host (se_svc env)) cfg of
                  Inl e \<Rightarrow> Inl (''start node: '' @ sv_node_error (se_svc env) e)
                | Inr n \<Rightarrow>
                    Inr \<lparr>da_api = \<lparr>ap_srv = Webui_New (se_token env) (start_net (se_svc env) n),
                                   ap_mgr = SetIdentity (Some i) (Manager_New (n_PeerID n) cfg)\<rparr>,
                         da_presence = (shouldRunLibp2pBackground (Some cfg) \<and> se_presence env cfg = Inr True)\<rparr>)))"

text \<open>The callback on changed relay addresses: what is announced again.\<close>

definition on_addrs_change :: "'m daemon \<Rightarrow> bool \<times> bool \<times> bool" where
  "on_addrs_change d =
     (let s = ws_net (ap_srv (da_api d)) in (n_dhtClient (ns_node s) \<noteq> None, da_presence d, ns_bt s))"

section \<open>Network status\<close>

text \<open>\<open>None\<close> stands for a backend that is not there; its entry then says only whether it is enabled.\<close>

record ('b, 'i) network_status =
  nw_relay :: relay_status
  nw_dht :: dht_status
  nw_share_backend :: string
  nw_last_apply_error :: string
  nw_bt :: "'b + bool"
  nw_iroh :: "'i + bool"
  nw_references :: nat

definition networkStatus ::
  "(peer_id \<Rightarrow> bool) \<Rightarrow> nat \<Rightarrow> 'b \<Rightarrow> 'i \<Rightarrow> 'm net_state \<Rightarrow> ('b, 'i) network_status" where
  "networkStatus connected table btStatus irohStatus s =
     (case NetworkStatus connected table (ns_node s) of (relay, dht) \<Rightarrow>
        \<lparr>nw_relay = relay, nw_dht = dht, nw_share_backend = ActiveNetworkBackend (Some (ns_cfg s)),
         nw_last_apply_error = ns_lastError s,
         nw_bt = (if ns_bt s then Inl btStatus else Inr (\<not> mode_off (bt_Mode (cfg_BTDHT (ns_cfg s))))),
         nw_iroh = (if ns_sidecar s \<noteq> None then Inl irohStatus else Inr (\<not> mode_off (iroh_Mode (cfg_Iroh (ns_cfg s))))),
         nw_references = backendRefCount BackendIroh s\<rparr>)"

definition refreshNetworkStatus :: "string option \<Rightarrow> 'm net_state \<Rightarrow> string option" where
  "refreshNetworkStatus refresh s =
     (if ActiveNetworkBackend (Some (ns_cfg s)) = ''iroh'' then
        (if ns_sidecar s \<noteq> None then refresh else Some ''iroh sidecar backend is not running'')
      else None)"

section \<open>The service manager\<close>

datatype app_state = AppNew | AppRunning | AppStopped

definition App_Start :: "app_state \<Rightarrow> app_state" where
  "App_Start a = AppRunning"

text \<open>Whether the stack ended within ten seconds only decides a warning.\<close>

definition App_Stop :: "bool \<Rightarrow> app_state \<Rightarrow> bool \<times> app_state" where
  "App_Stop stackStops a = (case a of AppNew \<Rightarrow> (False, AppNew) | _ \<Rightarrow> (\<not> stackStops, AppStopped))"

definition svc_RunService :: "string option \<Rightarrow> string option \<Rightarrow> string option" where
  "svc_RunService new run = (case new of Some e \<Rightarrow> Some e | None \<Rightarrow> run)"

definition svc_Install :: "string option \<Rightarrow> string option \<Rightarrow> string option" where
  "svc_Install new install = (case new of Some e \<Rightarrow> Some e | None \<Rightarrow> install)"

definition svc_Uninstall :: "string option \<Rightarrow> string option \<Rightarrow> string option" where
  "svc_Uninstall new uninstall = (case new of Some e \<Rightarrow> Some e | None \<Rightarrow> uninstall)"

section \<open>The state the daemon starts in\<close>

lemma start_bt_backends_kept:
  "ns_refs (start_bt_backends env s) = ns_refs s" "ns_node (start_bt_backends env s) = ns_node s"
  "ns_sidecar (start_bt_backends env s) = ns_sidecar s"
  "registration_ok s \<Longrightarrow> registration_ok (start_bt_backends env s)"
  by (auto simp: start_bt_backends_def registration_ok_def Let_def split: sum.splits)

lemma service_ok_libp2p [simp]:
  "service_ok (s\<lparr>ns_libp2p_pairing := a, ns_libp2p_tunnel := b\<rparr>) = service_ok s"
  "held (s\<lparr>ns_libp2p_pairing := a, ns_libp2p_tunnel := b\<rparr>) = held s"
  by (simp_all add: service_ok_def refs_ok_def registration_ok_def refs_of_def held_def)

lemma start_bt_backends_ok:
  "service_ok (start_bt_backends env (service_start n))" "held (start_bt_backends env (service_start n)) = {}"
  using service_ok_start [of n] start_bt_backends_kept [where env = env and s = "service_start n"]
  by (simp_all add: service_ok_def refs_ok_def refs_of_def held_def)

lemma start_net_ok: "service_ok (start_net env n)" "held (start_net env n) = {}" "ns_cfg (start_net env n) = n_cfg n"
proof -
  let ?s1 = "start_bt_backends env (service_start n)"
  let ?s2 = "if n_Host n then ?s1\<lparr>ns_libp2p_pairing := True, ns_libp2p_tunnel := True\<rparr> else ?s1"
  have s2: "service_ok ?s2" "held ?s2 = {}" "ns_cfg ?s2 = n_cfg n"
    using start_bt_backends_ok [of env n] start_bt_backends_kept(2) [where env = env and s = "service_start n"] by (simp_all add: service_start_def)
  note iroh = setBackendRef_step [OF s2(1), of env BackendIroh "''selected''" True]
  have "\<not> valid_lease BackendIroh ''selected''" by (simp add: valid_lease_def)
  then have h: "held (snd (setBackendRef env BackendIroh ''selected'' True ?s2)) = {}"
    using iroh s2(2) by simp
  show "service_ok (start_net env n)" using s2(1) iroh by (simp add: start_net_def Let_def)
  show "held (start_net env n) = {}" using s2(2) h by (simp add: start_net_def Let_def)
  show "ns_cfg (start_net env n) = n_cfg n"
    using s2(3) setBackendRef_cfg [of env BackendIroh "''selected''" True ?s2] by (simp add: start_net_def Let_def)
qed

lemma Node_New_cfg: "Node_New lib env c = Inr n \<Longrightarrow> n_cfg n = c"
proof -
  have f: "n_cfg (fresh_node c p) = c" for p :: peer_id by (simp add: fresh_node_def)
  have "startLibp2pHost lib env (fresh_node c p) = (None, n) \<Longrightarrow> n_cfg n = c" for p
    using startLibp2pHost_cfg [of lib env "fresh_node c p"] f by (metis snd_conv)
  then show "Node_New lib env c = Inr n \<Longrightarrow> n_cfg n = c"
    using f by (auto simp: Node_New_def Let_def split: sum.splits if_splits option.splits prod.splits)
qed

lemma RunStack_Inr:
  assumes "RunStack env = Inr d"
  obtains cfg n i where "se_config env = Inr cfg" "n_cfg n = NormalizeNetworkBackend cfg"
    "ap_srv (da_api d) = Webui_New (se_token env) (start_net (se_svc env) n)"
    "ap_mgr (da_api d) = SetIdentity (Some i) (Manager_New (n_PeerID n) (NormalizeNetworkBackend cfg))"
    "se_identity env = Inr i"
proof -
  obtain cfg i n where "se_config env = Inr cfg" "se_identity env = Inr i"
      "Node_New (sv_lib (se_svc env)) (sv_host (se_svc env)) (NormalizeNetworkBackend cfg) = Inr n"
      "da_api d = \<lparr>ap_srv = Webui_New (se_token env) (start_net (se_svc env) n),
                  ap_mgr = SetIdentity (Some i) (Manager_New (n_PeerID n) (NormalizeNetworkBackend cfg))\<rparr>"
    using assms by (auto simp: RunStack_def Let_def split: sum.splits)
  then show ?thesis using that [of cfg n i] Node_New_cfg by fastforce
qed


text \<open>A failing start of direct QUIC also keeps the BitTorrent DHT from starting.\<close>

lemma quic_failure_stops_bt:
  "PrivateKeyBytes (ns_cfg s) = Inr priv \<Longrightarrow> sv_newQUIC env (ns_cfg s) priv = Inl e \<Longrightarrow> start_bt_backends env s = s"
  by (simp add: start_bt_backends_def)


definition sample_stack :: "string stack_env" where
  "sample_stack =
     (let c = defaultConfig ''h'' in
      \<lparr>se_config = Inr (c\<lparr>cfg_Node := (cfg_Node c)\<lparr>nd_PrivateKey := hexEncode (replicate 64 0)\<rparr>\<rparr>),
       se_identity = Inr \<lparr>id_PrivKey = None, id_Signer = None, id_Backend = ''software'', id_Attestation = None\<rparr>,
       se_svc = sample_service_env\<lparr>sv_host := \<lparr>he_key = \<lambda>k. Some ''id'', he_new = None, he_answer = \<lambda>p. RelayDialFailed, he_now = 0\<rparr>\<rparr>, se_presence = \<lambda>c. Inr True, se_token = ''t''\<rparr>)"

lemma sample_stack_starts: "\<not> isl (RunStack sample_stack)"
  by code_simp

lemma sample_stack_trust: "\<forall>cfg. se_config sample_stack = Inr cfg \<longrightarrow> trust_ok cfg"
  by (simp add: sample_stack_def Let_def trust_ok_def defaultConfig_def)


end
