(* ===== verification/Webui_Source.thy ===== *)
theory Webui_Source
  imports Go_Net Webui
begin

text \<open>
  The check of the process behind a dashboard request on Windows,
  \<open>internal/webui/dashboard_source_windows.go\<close>: the owner of the TCP connection must be
  this program or have it among its ancestors. The TCP table, the process snapshot and the
  image path of a process are arguments; elsewhere every source is allowed.
\<close>

type_synonym pid = "32 word"

record mibTCPRowOwnerPID =
  mt_LocalPort :: "32 word"
  mt_RemotePort :: "32 word"
  mt_OwningPID :: pid

text \<open>A port is stored in network byte order in the low half of a word.\<close>

definition tcpPort :: "32 word \<Rightarrow> int" where
  "tcpPort raw = uint (or (push_bit 8 (and raw 0xff)) (and (drop_bit 8 raw) 0xff))"

definition tcpOwnerPID :: "(string + mibTCPRowOwnerPID list) \<Rightarrow> int \<Rightarrow> string + pid" where
  "tcpOwnerPID table remotePort =
     (case table of
        Inl e \<Rightarrow> Inl e
      | Inr rows \<Rightarrow>
          (case find (\<lambda>row. tcpPort (mt_LocalPort row) = 18080 \<and> tcpPort (mt_RemotePort row) = remotePort) rows of
             Some row \<Rightarrow> Inr (mt_OwningPID row)
           | None \<Rightarrow> Inl (''no TCP owner for remote port '' @ Itoa remotePort)))"

record process_env =
  pr_image :: "pid \<Rightarrow> string option"
  pr_clean :: "string \<Rightarrow> string"
  pr_self :: string
  pr_snapshot :: "(pid \<times> pid) list"

definition processPathMatchesDeskAccess :: "process_env \<Rightarrow> pid \<Rightarrow> bool" where
  "processPathMatchesDeskAccess env p =
     (case pr_image env p of
        None \<Rightarrow> False
      | Some path \<Rightarrow>
          path \<noteq> [] \<and> ToLower (pr_clean env (pr_self env)) \<noteq> [] \<and> ToLower (pr_clean env path) = ToLower (pr_clean env (pr_self env)))"

text \<open>A process that occurs twice in the snapshot keeps its last parent.\<close>

definition processParentMap :: "process_env \<Rightarrow> (pid, pid) gomap" where
  "processParentMap env = foldl (\<lambda>m (p, q). map_set p q m) [] (pr_snapshot env)"

text \<open>The walk: \<open>seen\<close> are the processes it has been at, so it ends also when the parents form a cycle.\<close>

function ancestor_loop :: "(pid \<Rightarrow> bool) \<Rightarrow> (pid, pid) gomap \<Rightarrow> pid set \<Rightarrow> pid \<Rightarrow> bool" where
  "ancestor_loop ours parents seen p =
     (if p \<in> seen then False
      else case map_get parents p of
        None \<Rightarrow> False
      | Some parent \<Rightarrow>
          if parent = 0 \<or> parent = p then False
          else if ours parent then True
          else ancestor_loop ours parents (insert p seen) parent)"
  by pat_completeness auto
termination
proof (relation "measure (\<lambda>(ours, parents, seen, p). card (fst ` set parents - seen))", goal_cases)
  case (2 ours parents seen p parent)
  then have "p \<in> fst ` set parents - seen" by (force dest: map_of_SomeD)
  then have "card ((fst ` set parents - seen) - {p}) < card (fst ` set parents - seen)" by (intro card_Diff1_less) simp_all
  moreover have "fst ` set parents - insert p seen = (fst ` set parents - seen) - {p}" by auto
  ultimately show ?case by (simp only: in_measure split_conv)
qed simp

declare ancestor_loop.simps [simp del]

definition pidBelongsToDeskAccess :: "process_env \<Rightarrow> pid \<Rightarrow> bool" where
  "pidBelongsToDeskAccess env p =
     (processPathMatchesDeskAccess env p
      \<or> ancestor_loop (processPathMatchesDeskAccess env) (processParentMap env) {} p)"

definition allowDashboardSource :: "process_env \<Rightarrow> (string + mibTCPRowOwnerPID list) \<Rightarrow> (string \<Rightarrow> int option) \<Rightarrow> string \<Rightarrow> bool" where
  "allowDashboardSource env table lookupPort remoteAddr =
     (case SplitHostPort remoteAddr of
        None \<Rightarrow> False
      | Some (host, port) \<Rightarrow>
          (case ParseIP host of
             None \<Rightarrow> False
           | Some ip \<Rightarrow>
               if \<not> IsLoopback ip then False
               else case lookupPort port of
                 None \<Rightarrow> False
               | Some remotePort \<Rightarrow>
                   (case tcpOwnerPID table remotePort of
                      Inl _ \<Rightarrow> False
                    | Inr p \<Rightarrow> pidBelongsToDeskAccess env p)))"

definition allowDashboardSource_other :: "string \<Rightarrow> bool" where
  "allowDashboardSource_other remoteAddr = True"

section \<open>The walk over the parents\<close>

text \<open>The reference: the chain of parents of a process, up to one without a usable parent.\<close>

inductive ancestor :: "(pid, pid) gomap \<Rightarrow> pid \<Rightarrow> pid \<Rightarrow> bool" for parents where
  direct: "map_get parents p = Some q \<Longrightarrow> q \<noteq> 0 \<Longrightarrow> q \<noteq> p \<Longrightarrow> ancestor parents p q"
| further: "map_get parents p = Some q \<Longrightarrow> q \<noteq> 0 \<Longrightarrow> q \<noteq> p \<Longrightarrow> ancestor parents q r \<Longrightarrow> ancestor parents p r"

inductive_cases ancestor_cases: "ancestor parents p r"

lemma ancestor_loop_sound: "ancestor_loop ours parents seen p \<Longrightarrow> \<exists>r. ancestor parents p r \<and> ours r"
proof (induction ours parents seen p rule: ancestor_loop.induct)
  case (1 ours parents seen p)
  from 1(2) obtain q where q: "p \<notin> seen" "map_get parents p = Some q" "q \<noteq> 0" "q \<noteq> p"
      "ours q \<or> ancestor_loop ours parents (insert p seen) q"
    by (subst (asm) ancestor_loop.simps) (auto split: if_splits option.splits)
  show ?case
  proof (cases "ours q")
    case True
    then show ?thesis using q direct by blast
  next
    case False
    then obtain r where "ancestor parents q r" "ours r" using 1(1) [of q] q by auto
    then show ?thesis using q further by blast
  qed
qed

text \<open>
  A process whose chain is searched in vain: if none of the processes seen has one of
  ours on its chain outside the chain of the current one, the search is complete.
\<close>

lemma ancestor_functional:
  assumes "ancestor parents p r" "map_get parents p = Some q" "q \<noteq> 0" "q \<noteq> p"
  shows "r = q \<or> ancestor parents q r"
  using assms(1) by (cases rule: ancestor_cases) (use assms in auto)

text \<open>The processes seen form a chain that leads to the current one, and none of their parents is ours.\<close>

definition chain_to :: "(pid \<Rightarrow> bool) \<Rightarrow> (pid, pid) gomap \<Rightarrow> pid set \<Rightarrow> pid \<Rightarrow> bool" where
  "chain_to ours parents seen p \<longleftrightarrow>
     (\<forall>s \<in> seen. \<exists>q. map_get parents s = Some q \<and> \<not> ours q \<and> (q \<in> seen \<or> q = p))"

lemma seen_chain_closed:
  assumes "chain_to ours parents seen p" "p \<in> seen" "ancestor parents s r" "s \<in> seen"
  shows "\<not> ours r"
  using assms(3,4)
proof (induction rule: ancestor.induct)
  case (direct s q)
  then show ?case using assms(1) by (auto simp: chain_to_def)
next
  case (further s q r)
  then have "q \<in> seen" using assms(1,2) by (auto simp: chain_to_def)
  then show ?case using further by blast
qed

lemma ancestor_loop_complete:
  "chain_to ours parents seen p \<Longrightarrow> ancestor parents p r \<Longrightarrow> ours r \<Longrightarrow> ancestor_loop ours parents seen p"
proof (induction ours parents seen p rule: ancestor_loop.induct)
  case (1 ours parents seen p)
  obtain q where q: "map_get parents p = Some q" "q \<noteq> 0" "q \<noteq> p"
    using 1(3) by (cases rule: ancestor_cases) auto
  have new: "p \<notin> seen" using seen_chain_closed [OF 1(2) _ 1(3)] 1(4) by blast
  show ?case
  proof (cases "ours q")
    case True
    then show ?thesis using q new by (simp add: ancestor_loop.simps)
  next
    case False
    then have r: "ancestor parents q r" using ancestor_functional [OF 1(3) q] 1(4) by auto
    have "chain_to ours parents (insert p seen) q" using 1(2) q False by (auto simp: chain_to_def)
    then have "ancestor_loop ours parents (insert p seen) q"
      using 1(1) [of q] new q False r 1(4) by blast
    then show ?thesis using q new False by (subst ancestor_loop.simps) simp
  qed
qed

text \<open>
  C38: the search for this program among the ancestors of a process always ends, also when
  the recorded parents form a cycle, and finds it exactly if the process itself or one of
  the processes on its chain of parents runs it.
\<close>

theorem pidBelongs_correct:
  "pidBelongsToDeskAccess env p \<longleftrightarrow>
     processPathMatchesDeskAccess env p \<or> (\<exists>r. ancestor (processParentMap env) p r \<and> processPathMatchesDeskAccess env r)"
proof -
  have "chain_to (processPathMatchesDeskAccess env) (processParentMap env) {} p" by (simp add: chain_to_def)
  then show ?thesis
    unfolding pidBelongsToDeskAccess_def
    using ancestor_loop_sound [of "processPathMatchesDeskAccess env"] ancestor_loop_complete [of "processPathMatchesDeskAccess env"]
    by blast
qed

section \<open>Whose process is checked\<close>

lemma tcpPort_network_order: "tcpPort 0xA046 = 18080"
  by code_simp

text \<open>
  The row looked for has the dashboard port as its local port and the client's as its
  remote port: it is the server's end of the connection, whose owner is the daemon. So
  every loopback client passes, whatever process it is.
\<close>

lemma source_check_sees_server:
  assumes "SplitHostPort remoteAddr = Some (host, port)" "ParseIP host = Some ip" "IsLoopback ip" "lookupPort port = Some n"
    and "Inr rows = table" "serverRow \<in> set rows" "tcpPort (mt_LocalPort serverRow) = 18080" "tcpPort (mt_RemotePort serverRow) = n"
    and "\<forall>row \<in> set rows. tcpPort (mt_LocalPort row) = 18080 \<longrightarrow> mt_OwningPID row = daemon"
    and "processPathMatchesDeskAccess env daemon"
  shows "allowDashboardSource env table lookupPort remoteAddr"
proof -
  let ?P = "\<lambda>row. tcpPort (mt_LocalPort row) = 18080 \<and> tcpPort (mt_RemotePort row) = n"
  have "find ?P rows \<noteq> None" using assms(6-8) by (auto simp: find_None_iff)
  then obtain row where row: "find ?P rows = Some row" by auto
  then have "row \<in> set rows" "?P row" by (auto simp: find_Some_iff in_set_conv_nth)
  then have "mt_OwningPID row = daemon" using assms(9) by blast
  then have "tcpOwnerPID table n = Inr daemon" using row assms(5) by (auto simp: tcpOwnerPID_def)
  then show ?thesis using assms(1-4,10) by (simp add: allowDashboardSource_def pidBelongsToDeskAccess_def)
qed

end
