(* ===== verification/Launch.thy ===== *)
theory Launch
  imports Tunnel Webui_Api
begin

text \<open>
  Starting client programs for a tunnel, \<open>LaunchClient\<close> of \<open>internal/tunnel/tunnel.go\<close> with
  the platform files \<open>rdp_linux.go\<close>, \<open>rdp_windows.go\<close>, \<open>vnc_linux.go\<close> and
  \<open>vnc_windows.go\<close>. Environment variables, the search path and the outcome of starting a
  program are arguments; a launch yields the command that was started, if any.
\<close>

record LaunchResult =
  lr_Launched :: bool
  lr_Client :: string
  lr_LocalAddr :: string
  lr_Error :: string

text \<open>A command: the path of the program and its arguments.\<close>

type_synonym command = "string \<times> string list"

record launch_env =
  le_getenv :: "string \<Rightarrow> string"
  le_lookPath :: "string \<Rightarrow> string option"
  le_start :: "command \<Rightarrow> string option"
  le_exists :: "string \<Rightarrow> bool"
  le_join :: "string list \<Rightarrow> string"

text \<open>The outcome of a launch: an error, or success with the command started (none when the user is only told what to do).\<close>

type_synonym launch = "string + command option"

definition start :: "launch_env \<Rightarrow> command \<Rightarrow> launch" where
  "start env cmd = (case le_start env cmd of Some e \<Rightarrow> Inl e | None \<Rightarrow> Inr (Some cmd))"

definition headless :: "launch_env \<Rightarrow> bool" where
  "headless env \<longleftrightarrow> le_getenv env ''DISPLAY'' = [] \<and> le_getenv env ''WAYLAND_DISPLAY'' = []"

definition splitHostPort :: "string \<Rightarrow> string \<times> string" where
  "splitHostPort addr =
     (case LastIndexByte addr (CHR '':'') of
        Some i \<Rightarrow> (take i addr, drop (Suc i) addr)
      | None \<Rightarrow> (addr, ''3389''))"

section \<open>Linux\<close>

definition rdpClients :: "(string \<times> (string \<Rightarrow> string list)) list" where
  "rdpClients =
     [(''xfreerdp'', \<lambda>addr. case splitHostPort addr of (host, port) \<Rightarrow>
         [''/v:'' @ host, ''/port:'' @ port, ''/dynamic-resolution'', ''/smart-sizing'', ''/sound'', ''/clipboard'', ''+home-drive'']),
      (''xfreerdp3'', \<lambda>addr. case splitHostPort addr of (host, port) \<Rightarrow> [''/v:'' @ host, ''/port:'' @ port, ''/dynamic-resolution'']),
      (''remmina'', \<lambda>addr. [''-c'', ''rdp://'' @ addr]),
      (''gnome-connections'', \<lambda>addr. [''rdp://'' @ addr])]"

text \<open>The loop over the clients: one that is missing or does not start is skipped.\<close>

primrec try_clients :: "launch_env \<Rightarrow> string \<Rightarrow> (string \<times> (string \<Rightarrow> string list)) list \<Rightarrow> command option" where
  "try_clients env addr [] = None"
| "try_clients env addr (c # cs) =
     (case le_lookPath env (fst c) of
        None \<Rightarrow> try_clients env addr cs
      | Some path \<Rightarrow>
          if le_start env (path, snd c addr) \<noteq> None then try_clients env addr cs else Some (path, snd c addr))"

definition launchRDP_linux :: "launch_env \<Rightarrow> string \<Rightarrow> launch" where
  "launchRDP_linux env addr =
     (if headless env then Inr None
      else case try_clients env addr rdpClients of
        Some cmd \<Rightarrow> Inr (Some cmd)
      | None \<Rightarrow> Inl ''no RDP client installed (tried: xfreerdp, remmina, gnome-connections)'')"

text \<open>The first program of a list that the search path has.\<close>

primrec first_found :: "launch_env \<Rightarrow> string list \<Rightarrow> (string \<times> string) option" where
  "first_found env [] = None"
| "first_found env (b # bs) = (case le_lookPath env b of Some path \<Rightarrow> Some (b, path) | None \<Rightarrow> first_found env bs)"

definition client_name :: "launch_env \<Rightarrow> string list \<Rightarrow> string" where
  "client_name env bs = (case first_found env bs of Some (b, path) \<Rightarrow> b | None \<Rightarrow> ''none'')"

definition rdpClientName_linux :: "launch_env \<Rightarrow> string" where
  "rdpClientName_linux env = client_name env (map fst rdpClients)"

definition launchVNC_linux :: "launch_env \<Rightarrow> string \<Rightarrow> launch" where
  "launchVNC_linux env addr =
     (if headless env then Inr None
      else case first_found env [''xtigervncviewer'', ''vncviewer'', ''remmina''] of
        Some (bin, path) \<Rightarrow> start env (path, if bin = ''remmina'' then [''-c'', ''vnc://'' @ addr] else [addr])
      | None \<Rightarrow> Inl (''no VNC viewer found'' @ [CHR 0x0A] @ ''  sudo apt install tigervnc-viewer''))"

definition vncClientName_linux :: "launch_env \<Rightarrow> string" where
  "vncClientName_linux env = client_name env [''xtigervncviewer'', ''vncviewer'']"

definition launchSSH_linux :: "launch_env \<Rightarrow> string \<Rightarrow> launch" where
  "launchSSH_linux env addr =
     (case splitHostPort addr of (host, port) \<Rightarrow>
        if headless env then Inr None
        else case first_found env [''gnome-terminal'', ''xterm'', ''konsole'', ''xfce4-terminal''] of
          Some (term, path) \<Rightarrow>
            start env (path, if term = ''gnome-terminal'' then [''--'', ''ssh'', ''-p'', port, host]
                             else [''-e'', ''ssh -p '' @ port @ '' '' @ host])
        | None \<Rightarrow> Inr None)"

section \<open>Windows\<close>

definition mstscPath :: "launch_env \<Rightarrow> string" where
  "mstscPath env =
     (let root = le_getenv env ''SystemRoot''; path = le_join env [root, ''System32'', ''mstsc.exe''] in
      if root \<noteq> [] \<and> le_exists env path then path
      else case le_lookPath env ''mstsc.exe'' of Some p \<Rightarrow> p | None \<Rightarrow> ''mstsc.exe'')"

definition launchRDP_windows :: "launch_env \<Rightarrow> string \<Rightarrow> launch" where
  "launchRDP_windows env addr = start env (mstscPath env, [''/v:'' @ loopbackClientAddr addr])"

definition launchVNC_windows :: "launch_env \<Rightarrow> string \<Rightarrow> launch" where
  "launchVNC_windows env addr =
     (case first_found env [''tvnviewer'', ''vncviewer'', ''ultravnc_viewer''] of
        Some (bin, path) \<Rightarrow> start env (path, [addr])
      | None \<Rightarrow> Inl ''no VNC viewer found (install TightVNC, UltraVNC, or RealVNC)'')"

definition vncClientName_windows :: "launch_env \<Rightarrow> string" where
  "vncClientName_windows env = client_name env [''tvnviewer'', ''vncviewer'', ''ultravnc_viewer'']"

definition launchSSH_windows :: "launch_env \<Rightarrow> string \<Rightarrow> launch" where
  "launchSSH_windows env addr =
     (case splitHostPort addr of (host, port) \<Rightarrow>
        let sshArgs = [''ssh'', ''-o'', ''ServerAliveInterval=15'', ''-o'', ''ServerAliveCountMax=3'', ''-p'', port, host] in
        case le_lookPath env ''wt'' of
          Some path \<Rightarrow> start env (path, sshArgs)
        | None \<Rightarrow>
            (case le_lookPath env ''cmd'' of
               Some path \<Rightarrow> start env (path, [''/C'', ''start'', []] @ sshArgs)
             | None \<Rightarrow> Inl ''no terminal found to launch ssh''))"

section \<open>LaunchClient\<close>

text \<open>The three launchers of a platform and the names they report.\<close>

record launchers =
  la_rdp :: "string \<Rightarrow> launch"
  la_vnc :: "string \<Rightarrow> launch"
  la_ssh :: "string \<Rightarrow> launch"
  la_rdpName :: string
  la_vncName :: string

definition linux_launchers :: "launch_env \<Rightarrow> launchers" where
  "linux_launchers env = \<lparr>la_rdp = launchRDP_linux env, la_vnc = launchVNC_linux env, la_ssh = launchSSH_linux env,
     la_rdpName = rdpClientName_linux env, la_vncName = vncClientName_linux env\<rparr>"

definition windows_launchers :: "launch_env \<Rightarrow> launchers" where
  "windows_launchers env = \<lparr>la_rdp = launchRDP_windows env, la_vnc = launchVNC_windows env, la_ssh = launchSSH_windows env,
     la_rdpName = ''mstsc'', la_vncName = vncClientName_windows env\<rparr>"

definition LaunchClient :: "launchers \<Rightarrow> string \<Rightarrow> string \<Rightarrow> LaunchResult \<times> command option" where
  "LaunchClient la localAddr protocol =
     (case (if protocol = ''vnc'' then (la_vnc la localAddr, la_vncName la)
            else if protocol = ''ssh'' then (la_ssh la localAddr, ''ssh'')
            else (la_rdp la localAddr, la_rdpName la)) of
        (Inl e, name) \<Rightarrow> (\<lparr>lr_Launched = False, lr_Client = [], lr_LocalAddr = localAddr, lr_Error = e\<rparr>, None)
      | (Inr cmd, name) \<Rightarrow> (\<lparr>lr_Launched = True, lr_Client = name, lr_LocalAddr = localAddr, lr_Error = []\<rparr>, cmd))"

section \<open>What is launched\<close>

lemma try_clients_Some:
  "try_clients env addr cs = Some cmd \<Longrightarrow>
     \<exists>c \<in> set cs. le_lookPath env (fst c) = Some (fst cmd) \<and> snd cmd = snd c addr \<and> le_start env cmd = None"
  by (induction cs) (auto split: option.splits if_splits)

lemma try_clients_None:
  "try_clients env addr cs = None \<Longrightarrow> c \<in> set cs \<Longrightarrow> le_lookPath env (fst c) = Some path \<Longrightarrow> le_start env (path, snd c addr) \<noteq> None"
  by (induction cs) (auto split: option.splits if_splits)

text \<open>On a desktop a remote desktop client is started if any of the known ones can be; the arguments address the tunnel.\<close>

theorem launchRDP_linux_desktop:
  assumes "\<not> headless env"
  shows "case launchRDP_linux env addr of
      Inr (Some cmd) \<Rightarrow> le_start env cmd = None \<and> (\<exists>c \<in> set rdpClients. le_lookPath env (fst c) = Some (fst cmd) \<and> snd cmd = snd c addr)
    | Inr None \<Rightarrow> False
    | Inl e \<Rightarrow> \<forall>c \<in> set rdpClients. \<forall>path. le_lookPath env (fst c) = Some path \<longrightarrow> le_start env (path, snd c addr) \<noteq> None"
proof (cases "try_clients env addr rdpClients")
  case None
  then show ?thesis using assms try_clients_None [OF None] by (simp add: launchRDP_linux_def)
next
  case (Some cmd)
  then show ?thesis using assms try_clients_Some [OF Some] by (auto simp: launchRDP_linux_def)
qed

text \<open>A result reports success although nothing was started: without a display the launchers only print a hint.\<close>

lemma headless_reports_launched:
  "headless env \<Longrightarrow> fst (LaunchClient (linux_launchers env) addr p) =
     \<lparr>lr_Launched = True, lr_Client = (if p = ''vnc'' then vncClientName_linux env else if p = ''ssh'' then ''ssh'' else rdpClientName_linux env),
      lr_LocalAddr = addr, lr_Error = []\<rparr> \<and> snd (LaunchClient (linux_launchers env) addr p) = None"
  by (auto simp: LaunchClient_def linux_launchers_def launchRDP_linux_def launchVNC_linux_def launchSSH_linux_def split: prod.splits)

text \<open>The viewer that is started need not be the one that is named: the list of names lacks the last viewer tried.\<close>

lemma vnc_name_lacks_remmina:
  assumes "\<not> headless env" "le_lookPath env ''xtigervncviewer'' = None" "le_lookPath env ''vncviewer'' = None"
    "le_lookPath env ''remmina'' = Some path" "\<And>cmd. le_start env cmd = None"
  shows "LaunchClient (linux_launchers env) addr ''vnc'' =
    (\<lparr>lr_Launched = True, lr_Client = ''none'', lr_LocalAddr = addr, lr_Error = []\<rparr>, Some (path, [''-c'', ''vnc://'' @ addr]))"
  using assms by (simp add: LaunchClient_def linux_launchers_def launchVNC_linux_def vncClientName_linux_def client_name_def start_def)

lemma splitHostPort_join:
  assumes "CHR '':'' \<notin> set port"
  shows "splitHostPort (host @ CHR '':'' # port) = (host, port)"
proof -
  have "takeWhile (\<lambda>x. x \<noteq> CHR '':'') (rev (host @ CHR '':'' # port)) = rev port"
    using assms by (simp add: takeWhile_append takeWhile_eq_all_conv)
  then show ?thesis by (simp add: splitHostPort_def LastIndexByte_def Let_def)
qed

end
