(* ===== verification/Tray.thy ===== *)
theory Tray
  imports Cli_Dashboard Launch
begin

text \<open>
  The tray process, \<open>internal/tray\<close>: the loop of its menu over status polls and clicks, the
  rule that one dashboard window is open at a time, opening a browser and copying a link.
  Windows, menus and programs are effects, listed in order; the daemon is reached as from
  the command line.
\<close>

section \<open>Displays and programs\<close>

definition displayEnvSet_linux :: "(string \<Rightarrow> string) \<Rightarrow> bool" where
  "displayEnvSet_linux getenv \<longleftrightarrow> getenv ''DISPLAY'' \<noteq> [] \<or> getenv ''WAYLAND_DISPLAY'' \<noteq> []"

definition displayEnvSet_windows :: bool where
  "displayEnvSet_windows = True"

definition HasDisplay :: "string \<Rightarrow> bool \<Rightarrow> bool" where
  "HasDisplay goos displaySet =
     (if goos = ''windows'' then True else if goos = ''linux'' \<or> goos = ''freebsd'' then displaySet else False)"

definition HasDesktopDisplay :: "bool \<Rightarrow> bool" where
  "HasDesktopDisplay displaySet = displaySet"

definition openBrowser :: "string \<Rightarrow> string \<Rightarrow> command option" where
  "openBrowser goos url =
     (if goos = ''windows'' then Some (''rundll32'', [''url.dll,FileProtocolHandler'', url])
      else if goos = ''linux'' then Some (''xdg-open'', [url]) else None)"

definition openBrowser_arm :: "string \<Rightarrow> command option" where
  "openBrowser_arm url = (if url = [] then None else Some (''xdg-open'', [url]))"

definition copyToClipboard :: "string \<Rightarrow> string \<Rightarrow> command option" where
  "copyToClipboard goos text =
     (if goos = ''windows'' then Some (''cmd'', [''/c'', ''echo'', text, ''|'', ''clip''])
      else if goos = ''linux'' then
        Some (''bash'', [''-c'', ''echo -n '' @ [CHR 0x27] @ text @ [CHR 0x27] @ '' | xclip -selection clipboard''])
      else None)"

section \<open>The dashboard window\<close>

datatype tray_effect =
    SetNodeTitle string
  | SetTooltip string
  | Focused
  | WindowOpened string bool
  | ClipboardSet string
  | Printed string
  | Quit

text \<open>
  \<open>focus\<close> says whether a window of an earlier launch was found and brought to the front;
  \<open>tr_dashOpen\<close> is the flag that a window of this process is open.
\<close>

record tray_state =
  tr_last :: "ipc_Response option"
  tr_autoOpened :: bool
  tr_dashOpen :: bool
  tr_effects :: "tray_effect list"

definition emit :: "tray_effect \<Rightarrow> tray_state \<Rightarrow> tray_state" where
  "emit e t = t\<lparr>tr_effects := tr_effects t @ [e]\<rparr>"

definition openDashboard :: "bool \<Rightarrow> string \<Rightarrow> tray_state \<Rightarrow> tray_state" where
  "openDashboard focus url t =
     (if focus then emit Focused t
      else if tr_dashOpen t then t
      else emit (WindowOpened url True) (t\<lparr>tr_dashOpen := True\<rparr>))"

definition dashboard_closed :: "tray_state \<Rightarrow> tray_state" where
  "dashboard_closed t = t\<lparr>tr_dashOpen := False\<rparr>"

definition ShowDashboard_effect :: "bool \<Rightarrow> string \<Rightarrow> tray_effect" where
  "ShowDashboard_effect focus url = (if focus then Focused else WindowOpened url False)"

section \<open>The menu loop\<close>

text \<open>
  What the loop receives: a status of the poller, a click with the answer of the daemon it
  leads to, the end of the window, quitting and the end of the context.
\<close>

datatype tray_event =
    StatusReceived ipc_Response bool
  | ClickGenerate string "string + ipc_Response"
  | ClickOpen "string + ipc_Response" bool
  | WindowClosed
  | ClickQuit
  | ContextDone

definition short16 :: "string \<Rightarrow> string" where
  "short16 s = (if length s > 16 then take 16 s @ ''...'' else s)"

definition em_dash :: string where "em_dash = [CHR 0xE2, CHR 0x80, CHR 0x94]"

definition on_status :: "ipc_Response \<Rightarrow> bool \<Rightarrow> tray_state \<Rightarrow> tray_state" where
  "on_status st focus t =
     (let t1 = emit (SetTooltip (''DeskAccess '' @ em_dash @ '' '' @ ir_Label st))
                 (emit (SetNodeTitle (''NodeID: '' @ short16 (ir_NodeID st))) (t\<lparr>tr_last := Some st\<rparr>))
      in if \<not> tr_autoOpened t1 \<and> ir_WebuiURL st \<noteq> []
         then openDashboard focus (ir_WebuiURL st) (t1\<lparr>tr_autoOpened := True\<rparr>) else t1)"

definition link_name :: "string \<Rightarrow> string" where
  "link_name mode = (if mode = ''onetime'' then ''one-time'' else ''pairing'')"

definition on_generate :: "string \<Rightarrow> string + ipc_Response \<Rightarrow> tray_state \<Rightarrow> tray_state" where
  "on_generate mode r t =
     (case r of
        Inl e \<Rightarrow> emit (Printed (''Error generating '' @ link_name mode @ '' link: '' @ e)) t
      | Inr resp \<Rightarrow>
          if ir_Error resp \<noteq> [] then emit (Printed (''Error generating '' @ link_name mode @ '' link: <nil>'')) t
          else emit (Printed ((if mode = ''onetime'' then ''One-time'' else ''Pairing'') @ '' link copied: '' @ ir_InviteURL resp))
                 (emit (ClipboardSet (ir_InviteURL resp)) t))"

definition on_open :: "string + ipc_Response \<Rightarrow> bool \<Rightarrow> tray_state \<Rightarrow> tray_state" where
  "on_open r focus t =
     (case r of
        Inr st \<Rightarrow> openDashboard focus (ir_WebuiURL st) t
      | Inl e \<Rightarrow>
          (case tr_last t of
             Some st \<Rightarrow> openDashboard focus (ir_WebuiURL st) t
           | None \<Rightarrow> emit (Printed (''Service not reachable: '' @ e)) t))"

text \<open>\<open>onReady\<close>: the loop over the events, until it is quit.\<close>

fun onReady :: "tray_state \<Rightarrow> tray_event list \<Rightarrow> tray_state" where
  "onReady t [] = t"
| "onReady t (StatusReceived st focus # evs) = onReady (on_status st focus t) evs"
| "onReady t (ClickGenerate mode r # evs) = onReady (on_generate mode r t) evs"
| "onReady t (ClickOpen r focus # evs) = onReady (on_open r focus t) evs"
| "onReady t (WindowClosed # evs) = onReady (dashboard_closed t) evs"
| "onReady t (ClickQuit # evs) = emit Quit t"
| "onReady t (ContextDone # evs) = emit Quit t"

definition tray_start :: tray_state where
  "tray_start = \<lparr>tr_last = None, tr_autoOpened = False, tr_dashOpen = False, tr_effects = []\<rparr>"

section \<open>One window, opened once\<close>

text \<open>The windows open after a list of events: those opened less those closed.\<close>

definition opened :: "tray_effect list \<Rightarrow> nat" where
  "opened es = length (filter (\<lambda>e. case e of WindowOpened _ _ \<Rightarrow> True | _ \<Rightarrow> False) es)"

lemma opened_append [simp]: "opened (xs @ ys) = opened xs + opened ys"
  by (simp add: opened_def)

lemma opened_emit [simp]:
  "opened (tr_effects (emit e t)) = opened (tr_effects t) + (case e of WindowOpened _ _ \<Rightarrow> 1 | _ \<Rightarrow> 0)"
  "tr_dashOpen (emit e t) = tr_dashOpen t" "tr_autoOpened (emit e t) = tr_autoOpened t" "tr_last (emit e t) = tr_last t"
  by (simp_all add: emit_def opened_def split: tray_effect.split)

text \<open>The windows that were closed: a closing event counts only while a window is open.\<close>

fun closings :: "tray_state \<Rightarrow> tray_event list \<Rightarrow> nat" where
  "closings t [] = 0"
| "closings t (StatusReceived st focus # evs) = closings (on_status st focus t) evs"
| "closings t (ClickGenerate mode r # evs) = closings (on_generate mode r t) evs"
| "closings t (ClickOpen r focus # evs) = closings (on_open r focus t) evs"
| "closings t (WindowClosed # evs) = (if tr_dashOpen t then 1 else 0) + closings (dashboard_closed t) evs"
| "closings t (ClickQuit # evs) = 0"
| "closings t (ContextDone # evs) = 0"

lemma openDashboard_open:
  "opened (tr_effects (openDashboard focus url t)) + (if tr_dashOpen t then 1 else 0)
     = opened (tr_effects t) + (if tr_dashOpen (openDashboard focus url t) then 1 else 0)"
  by (simp add: openDashboard_def)

lemma tray_step_open:
  "opened (tr_effects (on_status st focus t)) + (if tr_dashOpen t then 1 else 0)
     = opened (tr_effects t) + (if tr_dashOpen (on_status st focus t) then 1 else 0)"
  "opened (tr_effects (on_open r focus t)) + (if tr_dashOpen t then 1 else 0)
     = opened (tr_effects t) + (if tr_dashOpen (on_open r focus t) then 1 else 0)"
  "opened (tr_effects (on_generate mode r t)) = opened (tr_effects t)" "tr_dashOpen (on_generate mode r t) = tr_dashOpen t"
proof -
  have e: "opened (tr_effects (t\<lparr>tr_last := l\<rparr>)) = opened (tr_effects t)" "opened (tr_effects (t\<lparr>tr_autoOpened := b\<rparr>)) = opened (tr_effects t)" for t l b
    by simp_all
  show "opened (tr_effects (on_status st focus t)) + (if tr_dashOpen t then 1 else 0)
     = opened (tr_effects t) + (if tr_dashOpen (on_status st focus t) then 1 else 0)"
    using openDashboard_open [of focus "ir_WebuiURL st"
        "(emit (SetTooltip (''DeskAccess '' @ em_dash @ '' '' @ ir_Label st))
           (emit (SetNodeTitle (''NodeID: '' @ short16 (ir_NodeID st))) (t\<lparr>tr_last := Some st\<rparr>)))\<lparr>tr_autoOpened := True\<rparr>"]
    unfolding on_status_def Let_def by simp
  show "opened (tr_effects (on_open r focus t)) + (if tr_dashOpen t then 1 else 0)
     = opened (tr_effects t) + (if tr_dashOpen (on_open r focus t) then 1 else 0)"
    by (simp add: on_open_def openDashboard_def split: sum.split option.split)
  show "opened (tr_effects (on_generate mode r t)) = opened (tr_effects t)" "tr_dashOpen (on_generate mode r t) = tr_dashOpen t"
    by (simp_all add: on_generate_def split: sum.split)
qed

lemma onReady_windows:
  "opened (tr_effects (onReady t evs)) + (if tr_dashOpen t then 1 else 0)
     = opened (tr_effects t) + closings t evs + (if tr_dashOpen (onReady t evs) then 1 else 0)"
proof (induction t evs rule: onReady.induct)
  case (2 t st focus evs)
  then show ?case using tray_step_open(1) [of st focus t] by simp
next
  case (4 t r focus evs)
  then show ?case using tray_step_open(2) [of r focus t] by simp
qed (simp_all add: tray_step_open(3,4) dashboard_closed_def)

text \<open>At every moment at most one dashboard window of the tray is open.\<close>

theorem one_dashboard_window:
  "opened (tr_effects (onReady tray_start evs)) \<le> closings tray_start evs + 1"
  using onReady_windows [of tray_start evs] by (simp add: tray_start_def opened_def split: if_splits)

text \<open>When the daemon cannot be asked, the window is opened with the address of the last status, whose token may be used up.\<close>

lemma stale_address:
  "tr_last t = Some st \<Longrightarrow> \<not> tr_dashOpen t \<Longrightarrow> on_open (Inl e) False t = emit (WindowOpened (ir_WebuiURL st) True) (t\<lparr>tr_dashOpen := True\<rparr>)"
  by (simp add: on_open_def openDashboard_def)

section \<open>Links on the clipboard\<close>

text \<open>
  On Windows the link is an unquoted argument of the command interpreter, and a query of two
  parameters contains the character that separates its commands.
\<close>

lemma two_parameters_separated:
  "values_ok m \<Longrightarrow> 2 \<le> length m \<Longrightarrow> CHR ''&'' \<in> set (Values_Encode m)"
proof -
  assume m: "values_ok m" "2 \<le> length m"
  let ?s = "sort_key fst m"
  have ok: "\<forall>(k, vs) \<in> set ?s. vs \<noteq> []" using m(1) by (simp add: values_ok_def)
  have "2 \<le> length ?s" using m(2) by simp
  then obtain a b r where s: "?s = a # b # r" by (cases ?s; cases "tl ?s") auto
  obtain k v vs where a: "a = (k, v # vs)" using ok s by (cases a; cases "snd a") auto
  obtain k' v' vs' where b: "b = (k', v' # vs')" using ok s by (cases b; cases "snd b") auto
  have "map encode_pair (value_pairs ?s) =
      encode_pair (k, v) # map encode_pair (map (Pair k) vs) @ encode_pair (k', v') # map encode_pair (map (Pair k') vs' @ value_pairs r)"
    unfolding s a b by (simp add: value_pairs_def)
  moreover have "CHR ''&'' \<in> set (join_amp (x # xs @ y # ys))" for x :: string and xs y ys
    by (cases xs) simp_all
  ultimately show ?thesis unfolding Values_Encode_def by simp
qed

text \<open>On Linux the link stands between quotes; an encoded query contains no quote, so the shell sees one word.\<close>

lemma query_no_quote: "CHR 0x27 \<notin> set (Values_Encode m)"
proof -
  have hex: "upperhex ! i \<noteq> CHR 0x27" if "i < 16" for i
  proof -
    have "upperhex ! i \<in> set upperhex" using that by (intro nth_mem) (simp add: upperhex_def)
    then show ?thesis by (auto simp: upperhex_def)
  qed
  have u: "\<not> is_unreserved (CHR 0x27)" by code_simp
  have "CHR 0x27 \<notin> set (escape_char c)" for c
    using u hex [of "char_code c div 16"] hex [of "char_code c mod 16"] char_code_less [of c]
    by (auto simp: escape_char_def less_mult_imp_div_less)
  then have q: "CHR 0x27 \<notin> set (QueryEscape s)" for s by (auto simp: QueryEscape_def)
  have "CHR 0x27 \<notin> set (join_amp (map encode_pair ps))" for ps
    by (induction ps) (auto simp: encode_pair_def q)
  then show ?thesis by (simp add: Values_Encode_def)
qed

end
