(* ===== verification/Webui_Views.thy ===== *)
theory Webui_Views
  imports Webui_Sessions Webui_Api Tunnel Logger Presence
begin

text \<open>
  The pages of the dashboard that only read, \<open>internal/webui/webui.go\<close>: the routes, the
  paired remotes and the other connections with what is known of their tunnels, the status
  of the machine and its network, the log, and the log entries the browser sends.
\<close>

section \<open>Routes\<close>

datatype route =
    RStatic | RStatus | RStatusRefresh | RRemotes | RActiveConnections | RURLOneTime | RURLPairing | RInvites | RRevoke
  | RRenameInvite | RConnect | RCancelConnect | RDisconnect | RLaunch | RConnectStatus | RAddRemote | RRenameRemote
  | RDeleteRemote | RAllowed | RRenameAllowed | RDeleteAllowed | RLabel | RHealth | RLogs | RClientLog | RScan | RConfig

definition routes :: "(string, route) gomap" where
  "routes =
     [(''/api/status'', RStatus), (''/api/status/refresh'', RStatusRefresh), (''/api/remotes'', RRemotes),
      (''/api/active-connections'', RActiveConnections), (''/api/url/onetime'', RURLOneTime), (''/api/url/pairing'', RURLPairing),
      (''/api/invites'', RInvites), (''/api/invites/revoke'', RRevoke), (''/api/invites/rename'', RRenameInvite),
      (''/api/connect'', RConnect), (''/api/connect/cancel'', RCancelConnect), (''/api/disconnect'', RDisconnect),
      (''/api/launch'', RLaunch), (''/api/connect/status'', RConnectStatus), (''/api/remotes/add'', RAddRemote),
      (''/api/remotes/rename'', RRenameRemote), (''/api/remotes/delete'', RDeleteRemote), (''/api/allowed'', RAllowed),
      (''/api/allowed/rename'', RRenameAllowed), (''/api/allowed/delete'', RDeleteAllowed), (''/api/label'', RLabel),
      (''/api/health'', RHealth), (''/api/logs'', RLogs), (''/api/client-log'', RClientLog), (''/api/scan'', RScan),
      (''/api/config'', RConfig)]"

text \<open>
  The multiplexer on a clean path: patterns that do not end in a slash match exactly, and
  \<open>/\<close> matches everything else. Only an admitted request reaches it.
\<close>

definition mux_route :: "string \<Rightarrow> route" where
  "mux_route path = (case map_get routes path of Some r \<Rightarrow> r | None \<Rightarrow> RStatic)"

definition request_route :: "http_request \<Rightarrow> string \<Rightarrow> 'm Server \<Rightarrow> route option" where
  "request_route r path s = (case serveHTTP r s of (Served, _) \<Rightarrow> Some (mux_route path) | _ \<Rightarrow> None)"

section \<open>Remotes and connections\<close>

text \<open>The last entry wins where presence lists a machine more than once.\<close>

definition presence_by_id :: "presence_Manager option \<Rightarrow> (string, Status) gomap" where
  "presence_by_id p = (case p of None \<Rightarrow> [] | Some m \<Rightarrow> foldl (\<lambda>acc st. map_set (ps_NodeID st) st acc) [] (All m))"

definition conn_type_string :: "ConnType \<Rightarrow> string" where
  "conn_type_string t = (case t of ConnDirect \<Rightarrow> ''direct'' | ConnRelayed \<Rightarrow> ''relayed'' | ConnUnknown \<Rightarrow> ''unknown'')"

record remote_row =
  rw_remote_key :: string
  rw_node_id :: string
  rw_label :: string
  rw_protocol :: string
  rw_target_port :: int
  rw_online :: bool
  rw_last_seen :: instant
  rw_conn_type :: string
  rw_connected :: bool
  rw_local_addr :: string
  rw_connection_addr :: string
  rw_connected_protocol :: string
  rw_app_connected :: bool
  rw_active_app_streams :: nat
  rw_active_app_clients :: nat
  rw_connecting :: bool
  rw_connect_stage :: string
  rw_connect_message :: string

text \<open>
  The row of a remote; \<open>px\<close> gives the state of a proxy, \<open>connType\<close> what the node says of the
  connections to a machine.
\<close>

definition remote_status ::
  "(nat \<Rightarrow> LocalProxy) \<Rightarrow> (string \<Rightarrow> ConnType) \<Rightarrow> (string, Status) gomap \<Rightarrow> 'm Server \<Rightarrow> RemoteConfig \<Rightarrow> remote_row" where
  "remote_status px connType presenceByID s remote =
     (let remoteKey = RemoteServiceKey remote;
          st = (case map_get presenceByID (rc_NodeID remote) of
                  Some st \<Rightarrow> st
                | None \<Rightarrow> \<lparr>ps_NodeID = rc_NodeID remote, ps_Label = rc_Label remote, ps_Online = False, ps_LastSeen = 0, ps_Addrs = []\<rparr>);
          connectKey = ''peer:'' @ remoteKey;
          session = connectedSession connectKey s
      in case connectingState connectKey s of (connecting, connectStage, connectMessage) \<Rightarrow>
         \<lparr>rw_remote_key = remoteKey, rw_node_id = ps_NodeID st, rw_label = ps_Label st, rw_protocol = rc_Protocol remote,
          rw_target_port = rc_TargetPort remote, rw_online = (session \<noteq> None), rw_last_seen = ps_LastSeen st,
          rw_conn_type =
            (case session of
               None \<Rightarrow> ''unknown''
             | Some x \<Rightarrow>
                 let path = ConnectionPath (Some (px (cs_Proxy x)))
                 in if path = ''unknown'' then conn_type_string (connType (ps_NodeID st)) else path),
          rw_connected = (session \<noteq> None),
          rw_local_addr = (case session of None \<Rightarrow> [] | Some x \<Rightarrow> cs_LocalAddr x),
          rw_connection_addr = (case session of None \<Rightarrow> [] | Some x \<Rightarrow> ConnectionAddr (Some (px (cs_Proxy x)))),
          rw_connected_protocol = (case session of None \<Rightarrow> [] | Some x \<Rightarrow> cs_Protocol x),
          rw_app_connected = (case session of None \<Rightarrow> False | Some x \<Rightarrow> ActiveStreams (Some (px (cs_Proxy x))) > 0),
          rw_active_app_streams = (case session of None \<Rightarrow> 0 | Some x \<Rightarrow> ActiveStreams (Some (px (cs_Proxy x)))),
          rw_active_app_clients = (case session of None \<Rightarrow> 0 | Some x \<Rightarrow> ActiveClients (Some (px (cs_Proxy x)))),
          rw_connecting = connecting, rw_connect_stage = connectStage, rw_connect_message = connectMessage\<rparr>)"

definition handleRemotes ::
  "(nat \<Rightarrow> LocalProxy) \<Rightarrow> (string \<Rightarrow> ConnType) \<Rightarrow> presence_Manager option \<Rightarrow> 'm Server \<Rightarrow> remote_row list" where
  "handleRemotes px connType presence s =
     map (remote_status px connType (presence_by_id presence) s) (cfg_Remotes (ns_cfg (ws_net s)))"

record connection_row =
  cw_key :: string
  cw_peer :: string
  cw_protocol :: string
  cw_mode :: string
  cw_target_port :: int
  cw_backend :: string
  cw_local_addr :: string
  cw_started_at :: instant
  cw_conn_type :: string
  cw_connection_addr :: string
  cw_app_connected :: bool
  cw_active_app_streams :: nat
  cw_active_app_clients :: nat

definition connection_status :: "(nat \<Rightarrow> LocalProxy) \<Rightarrow> connectSession \<Rightarrow> connection_row" where
  "connection_status px x =
     (let p = Some (px (cs_Proxy x)) in
      \<lparr>cw_key = cs_Key x, cw_peer = cs_Peer x, cw_protocol = cs_Protocol x, cw_mode = cs_Mode x, cw_target_port = cs_TargetPort x,
       cw_backend = cs_Backend x, cw_local_addr = cs_LocalAddr x, cw_started_at = cs_StartedAt x,
       cw_conn_type = ConnectionPath p, cw_connection_addr = ConnectionAddr p, cw_app_connected = (ActiveStreams p > 0),
       cw_active_app_streams = ActiveStreams p, cw_active_app_clients = ActiveClients p\<rparr>)"

definition handleActiveConnections :: "(nat \<Rightarrow> LocalProxy) \<Rightarrow> string \<Rightarrow> 'm Server \<Rightarrow> connection_row list api_reply" where
  "handleActiveConnections px meth s =
     (if meth \<noteq> ''GET'' then HttpError 405 ''GET required''
      else Reply (map (connection_status px) (active_connections (ns_cfg (ws_net s)) s)))"

section \<open>Status\<close>

record 'n status_view =
  sv_node_id :: string
  sv_machine_id :: string
  sv_machine_id_source :: string
  sv_label :: string
  sv_identity_backend :: string
  sv_hardware_backed :: bool
  sv_tpm_vendor :: string
  sv_log_file :: string
  sv_share_backend :: string
  sv_network_status :: "'n option"

definition handleStatus ::
  "cryptography \<Rightarrow> string \<Rightarrow> Identity option \<Rightarrow> string \<Rightarrow> (unit \<Rightarrow> 'n) option \<Rightarrow> Config \<Rightarrow> 'n status_view" where
  "handleStatus cr nodeID idn logFile networkStatus c =
     (let backend = (case idn of None \<Rightarrow> ''software'' | Some i \<Rightarrow> id_Backend i);
          tpmBackend = (case idn of None \<Rightarrow> False | Some i \<Rightarrow> id_Backend i = BackendTPM);
          thumb = (case idn of None \<Rightarrow> [] | Some i \<Rightarrow> AttestationKeyThumbprint cr (id_Attestation i))
      in \<lparr>sv_node_id = nodeID,
          sv_machine_id = (if thumb \<noteq> [] then thumb else nodeID),
          sv_machine_id_source = (if thumb \<noteq> [] then ''tpm_attestation_key'' else ''peer_id''),
          sv_label = nd_Label (cfg_Node c), sv_identity_backend = backend, sv_hardware_backed = tpmBackend,
          sv_tpm_vendor = (case idn of None \<Rightarrow> [] | Some i \<Rightarrow> (case id_Attestation i of None \<Rightarrow> [] | Some a \<Rightarrow> ab_Manufacturer a)),
          sv_log_file = logFile, sv_share_backend = ActiveNetworkBackend (Some c),
          sv_network_status = (case networkStatus of None \<Rightarrow> None | Some f \<Rightarrow> Some (f ()))\<rparr>)"

record 'n refresh_view =
  rv_ok :: bool
  rv_error :: "string option"
  rv_network_status :: 'n

definition handleStatusRefresh :: "string \<Rightarrow> (unit \<Rightarrow> 'n \<times> string option) option \<Rightarrow> 'n refresh_view api_reply" where
  "handleStatusRefresh meth refreshNetworkStatus =
     (if meth \<noteq> ''POST'' then HttpError 405 ''POST required''
      else case refreshNetworkStatus of
        None \<Rightarrow> HttpError 501 ''refresh unavailable''
      | Some f \<Rightarrow>
          (case f () of
             (status, Some e) \<Rightarrow> Reply \<lparr>rv_ok = False, rv_error = Some e, rv_network_status = status\<rparr>
           | (status, None) \<Rightarrow> Reply \<lparr>rv_ok = True, rv_error = None, rv_network_status = status\<rparr>))"

section \<open>Logs\<close>

definition log_lines_wanted :: "string \<Rightarrow> int" where
  "log_lines_wanted raw =
     (let lines = (if raw = [] then 200 else case Sscanf_d raw of Some n \<Rightarrow> if n \<le> 0 then 200 else n | None \<Rightarrow> 200)
      in if lines > 1000 then 1000 else lines)"

definition handleLogs ::
  "string \<Rightarrow> (string \<Rightarrow> string + string) \<Rightarrow> string \<Rightarrow> string \<Rightarrow> (string \<times> string list) api_reply" where
  "handleLogs logPath readFile meth raw =
     (if meth \<noteq> ''GET'' then HttpError 405 ''GET required''
      else case Tail logPath readFile (log_lines_wanted raw) of
        Inl e \<Rightarrow> HttpError 404 e
      | Inr out \<Rightarrow> Reply (logPath, out))"

datatype log_level = LInfo | LWarn | LError

text \<open>
  What the browser sends, its context in the order the map is walked; the entry logged is
  returned with the reply.
\<close>

record 'v client_log =
  cl_Level :: string
  cl_Message :: string
  cl_Context :: "(string \<times> 'v) list"

definition client_level :: "string \<Rightarrow> log_level" where
  "client_level raw =
     (let l = ToLower (TrimSpace raw) in
      if l = ''warn'' \<or> l = ''warning'' then LWarn else if l = ''error'' then LError else LInfo)"

definition handleClientLog ::
  "string \<Rightarrow> 'v client_log option \<Rightarrow> unit api_reply \<times> (log_level \<times> string \<times> (string \<times> 'v) list) option" where
  "handleClientLog meth body =
     (if meth \<noteq> ''POST'' then (HttpError 405 ''POST required'', None)
      else case body of
        None \<Rightarrow> (HttpError 400 ''bad request'', None)
      | Some req \<Rightarrow>
          let msg0 = TrimSpace (cl_Message req);
              msg = (if msg0 = [] then ''browser event'' else msg0)
          in (Reply (), Some (client_level (cl_Level req), msg, filter (\<lambda>(key, value). key \<noteq> []) (cl_Context req))))"

section \<open>What the lists show\<close>

lemma routes_distinct: "distinct (map fst routes)" "distinct (map snd routes)" "RStatic \<notin> snd ` set routes"
  by (simp_all add: routes_def)

text \<open>Every handler is reached by exactly one path, and only by an admitted request.\<close>

lemma request_route_api:
  "request_route r path s = Some rt \<and> rt \<noteq> RStatic \<longleftrightarrow> hr_cookie r = Some (ws_sessionToken s) \<and> (path, rt) \<in> set routes"
proof -
  have "map_get routes path = Some rt \<longleftrightarrow> (path, rt) \<in> set routes"
    using routes_distinct(1) by simp
  then have "mux_route path = rt \<and> rt \<noteq> RStatic \<longleftrightarrow> (path, rt) \<in> set routes"
    using routes_distinct(3) unfolding mux_route_def by (cases "map_get routes path") force+
  then show ?thesis by (simp add: request_route_def serveHTTP_def Let_def)
qed

text \<open>The sessions are a map: no operation lists a key twice.\<close>

named_theorems distinct_keys \<open>the operations keep the sessions a map\<close>

definition keys_once :: "'m Server \<Rightarrow> bool" where
  "keys_once s \<longleftrightarrow> map_ok (ws_activeSessions s)"

lemma keys_once_same: "ws_activeSessions t = ws_activeSessions s \<Longrightarrow> keys_once t = keys_once s"
  by (simp add: keys_once_def)

lemma keys_once_fields [distinct_keys]:
  "keys_once (put_status k st s) = keys_once s" "keys_once (s\<lparr>ws_net := net\<rparr>) = keys_once s" "keys_once (s\<lparr>ws_open := ps\<rparr>) = keys_once s"
  "keys_once (s\<lparr>ws_onClose := oc\<rparr>) = keys_once s" "keys_once (s\<lparr>ws_activeConnects := ac\<rparr>) = keys_once s"
  "keys_once (s\<lparr>ws_cancelled := cc\<rparr>) = keys_once s" "keys_once (s\<lparr>ws_connectStatus := cs\<rparr>) = keys_once s"
  "keys_once (s\<lparr>ws_activeConnects := ac, ws_connectStatus := cs\<rparr>) = keys_once s"
  by (simp_all add: keys_once_def put_status_def)

lemma keys_once_close_statuses [distinct_keys]: "keys_once (close_statuses now m x ks s) = keys_once s"
  by (induction ks arbitrary: s) (simp_all add: distinct_keys)

lemma keys_once_status [distinct_keys]: "keys_once (setConnectStatus act now k a b c d e f g s) = keys_once s"
  by (simp add: setConnectStatus_def Let_def distinct_keys)

lemma keys_once_connect_failed [distinct_keys]: "keys_once (snd (connect_failed env k m p q e r s)) = keys_once s"
  by (simp add: connect_failed_def distinct_keys)

lemma keys_once_refs [distinct_keys]:
  "keys_once (releaseSessionBackend env x s) = keys_once s" "keys_once (snd (retainSessionBackend env b k s)) = keys_once s"
  "keys_once (retainConnectAttemptBackend env b k s) = keys_once s" "keys_once (releaseConnectAttemptBackend env b k s) = keys_once s"
  by (auto simp: releaseSessionBackend_def retainSessionBackend_def retainConnectAttemptBackend_def releaseConnectAttemptBackend_def
      Let_def distinct_keys split: option.split prod.split)

lemma map_ok_foldl_del: "map_ok m \<Longrightarrow> map_ok (foldl (\<lambda>m k. map_del k m) m ks)"
  by (induction ks arbitrary: m) (simp_all add: map_ok_del)

lemma keys_once_drop: "keys_once s \<Longrightarrow> keys_once (drop_sessions ks s)"
  by (simp add: keys_once_def drop_sessions_def map_ok_foldl_del)

lemma keys_once_close_proxy:
  assumes "keys_once s"
  shows "keys_once (markSessionClosed env now key p m s)" "keys_once (close_proxy env now p s)" "keys_once (set_on_close env now key p s)"
proof -
  have *: "keys_once t \<Longrightarrow> keys_once (markSessionClosed env now key p m t)" for t key p m
    by (auto simp: markSessionClosed_def Let_def distinct_keys keys_once_drop split: option.split)
  show "keys_once (markSessionClosed env now key p m s)" by (rule * [OF assms])
  show "keys_once (close_proxy env now p s)" "keys_once (set_on_close env now key p s)"
    using assms * by (auto simp: close_proxy_def set_on_close_def Let_def distinct_keys split: option.split)
qed

lemma keys_once_register_keys: "keys_once s \<Longrightarrow> keys_once (snd (register_keys now x ks (old, s)))"
  by (induction ks arbitrary: old s) (simp_all add: Let_def keys_once_def put_status_def)

lemma keys_once_retire: "keys_once s \<Longrightarrow> keys_once (foldl (\<lambda>t o1. retire_session env now o1 t) s os)"
  by (induction os arbitrary: s) (simp_all add: retire_session_def keys_once_close_proxy distinct_keys)

lemma keys_once_register: "keys_once s \<Longrightarrow> keys_once (registerConnectSession env now key peer proto mode port b p addr al s)"
  using keys_once_register_keys [of s now _ _ "[]"]
  by (auto simp: registerConnectSession_def Let_def split: prod.split intro!: keys_once_close_proxy keys_once_retire) (metis snd_conv)

lemma keys_once_tunnel: "keys_once s \<Longrightarrow> keys_once (snd (open_tunnel env key fb np proto r s))"
  using keys_once_refs(2)
  by (auto simp: open_tunnel_def Let_def distinct_keys split: sum.split prod.split option.split
      intro!: keys_once_register keys_once_close_proxy) (metis snd_conv distinct_keys)+

lemma keys_once_disconnect: "keys_once s \<Longrightarrow> keys_once (snd (disconnectSession env now key s))"
  by (auto simp: disconnectSession_def Let_def distinct_keys keys_once_drop split: option.split intro!: keys_once_close_proxy)

lemma keys_once_cancel_ctx [distinct_keys]: "keys_once (cancel_ctx k s) = keys_once s"
  by (simp add: cancel_ctx_def distinct_keys split: option.split)

lemma keys_once_remove:
  assumes "keys_once s"
  shows "keys_once (removeRemoteConnectState env now rk s)"
proof (cases "TrimSpace rk = []")
  case False
  let ?f = "\<lambda>t k. (cancel_ctx k t)\<lparr>ws_activeConnects := map_del k (ws_activeConnects (cancel_ctx k t)),
      ws_connectStatus := map_del k (ws_connectStatus (cancel_ctx k t))\<rparr>"
  have *: "keys_once (foldl ?f t ks) = keys_once t" for t ks
    by (rule foldl_keeps) (simp add: distinct_keys)
  obtain x s1 where d: "disconnectSession env now (''peer:'' @ TrimSpace rk) s = (x, s1)" by fastforce
  then have "keys_once s1" using keys_once_disconnect [OF assms] by (metis snd_conv)
  then show ?thesis using False d by (simp add: removeRemoteConnectState_def Let_def *)
qed (simp add: removeRemoteConnectState_def assms)

lemma keys_once_begin [distinct_keys]: "keys_once (snd (beginConnect now k s)) = keys_once s" "keys_once (setConnectCancel k s) = keys_once s"
  "keys_once (endConnect k s) = keys_once s"
  by (simp_all add: beginConnect_def setConnectCancel_def endConnect_def Let_def distinct_keys split: option.split)

lemma keys_once_cancel: "keys_once s \<Longrightarrow> keys_once (snd (cancelConnect env now k s))"
  by (auto simp: cancelConnect_def Let_def distinct_keys keys_once_def [of "_\<lparr>ws_activeSessions := _\<rparr>"] split: option.split
      intro!: keys_once_close_proxy) (simp_all add: keys_once_def put_status_def cancel_ctx_def split: option.split)

lemma keys_once_step:
  assumes "keys_once s"
  shows "keys_once (ui_step s a)"
proof (cases a)
  case (UBegin env key)
  obtain b s1 where b: "beginConnect (ke_now env) key s = (b, s1)" by fastforce
  then have "keys_once s1" using keys_once_begin(1) [of "ke_now env" key s] assms by simp
  then show ?thesis using UBegin b by (cases b) (simp_all add: distinct_keys)
qed (simp_all add: assms Let_def distinct_keys keys_once_tunnel keys_once_cancel keys_once_disconnect keys_once_remove keys_once_close_proxy)

lemma keys_once_run: "keys_once s \<Longrightarrow> ui_run s as = Some t \<Longrightarrow> keys_once t"
  by (induction as arbitrary: s) (auto intro: keys_once_step split: if_splits)

section \<open>The properties\<close>

text \<open>
  C39: The two lists of connections show the live sessions, all of them and nothing else, over
  every interleaving of attempts, disconnections and ending proxies covered by the session
  bookkeeping: a live session has its own entry among the active connections or is the
  connection of a paired remote; a remote is shown as connected exactly if there is a
  live session under its key, with an open proxy and the address shown; and every active
  connection listed is a live session with an open proxy.
\<close>

theorem connection_lists_exact:
  assumes "ui_run (Webui_New tok (service_start n)) ops = Some s"
  shows "(\<exists>rows. handleActiveConnections px ''GET'' s = Reply rows
         \<and> (connectedSession k s = Some x \<longrightarrow>
              connection_status px x \<in> set rows
              \<or> (\<exists>row \<in> set (handleRemotes px ct pm s). rw_connected row \<and> ''peer:'' @ rw_remote_key row \<in> set (cs_Keys x)
                   \<and> rw_local_addr row = cs_LocalAddr x \<and> rw_active_app_streams row = ActiveStreams (Some (px (cs_Proxy x)))))
         \<and> (\<forall>row \<in> set rows. \<exists>y. connectedSession (cw_key row) s = Some y \<and> cs_Proxy y \<in> set (ws_open s) \<and> row = connection_status px y))
    \<and> (\<forall>row \<in> set (handleRemotes px ct pm s). rw_connected row \<longleftrightarrow>
          (\<exists>y. connectedSession (''peer:'' @ rw_remote_key row) s = Some y \<and> cs_Proxy y \<in> set (ws_open s) \<and> rw_local_addr row = cs_LocalAddr y))"
proof -
  let ?c = "ns_cfg (ws_net s)"
  have so: "sessions_ok (view_of s)" using ui_ok_run [OF ui_ok_start assms] by (simp add: ui_ok_def)
  have mok: "map_ok (ws_activeSessions s)"
    using keys_once_run [OF _ assms] by (simp add: keys_once_def Webui_New_def)
  have v: "v_sessions (view_of s) k = connectedSession k s" for k by (simp add: view_of_def connectedSession_def)
  note D = sessions_okD [OF so, unfolded v, folded sessions_view(2)]
  have row: "rw_connected (remote_status px ct q s r) \<longleftrightarrow> connectedSession (''peer:'' @ RemoteServiceKey r) s \<noteq> None"
    "rw_remote_key (remote_status px ct q s r) = RemoteServiceKey r"
    "connectedSession (''peer:'' @ RemoteServiceKey r) s = Some y \<Longrightarrow> rw_local_addr (remote_status px ct q s r) = cs_LocalAddr y
       \<and> rw_active_app_streams (remote_status px ct q s r) = ActiveStreams (Some (px (cs_Proxy y)))" for q r y
    by (simp_all add: remote_status_def Let_def case_prod_beta)
  have "connection_status px x \<in> connection_status px ` set (active_connections ?c s)
      \<or> (\<exists>row \<in> set (handleRemotes px ct pm s). rw_connected row \<and> ''peer:'' @ rw_remote_key row \<in> set (cs_Keys x)
           \<and> rw_local_addr row = cs_LocalAddr x \<and> rw_active_app_streams row = ActiveStreams (Some (px (cs_Proxy x))))"
    if x: "connectedSession k s = Some x"
  proof (cases "x \<in> set (active_connections ?c s)")
    case False
    have mem: "x \<in> snd ` set (ws_activeSessions s)" using map_of_SomeD x unfolding connectedSession_def by (metis image_eqI snd_conv)
    have "cs_Keys x \<noteq> []" using D(1) [OF x] by auto
    then obtain r where r: "r \<in> set (cfg_Remotes ?c)" "''peer:'' @ RemoteServiceKey r \<in> set (cs_Keys x)"
      using False mem by (auto simp: active_connections_def Let_def sessionKeys_def list_ex_iff)
    have "connectedSession (''peer:'' @ RemoteServiceKey r) s = Some x" by (rule D(2) [OF x r(2)])
    then show ?thesis using r row unfolding handleRemotes_def by (intro disjI2) auto
  qed simp
  moreover have "rw_connected w \<longleftrightarrow>
      (\<exists>y. connectedSession (''peer:'' @ rw_remote_key w) s = Some y \<and> cs_Proxy y \<in> set (ws_open s) \<and> rw_local_addr w = cs_LocalAddr y)"
    if "w \<in> set (handleRemotes px ct pm s)" for w
    using that row D(4) by (auto simp: handleRemotes_def)
  moreover have "\<exists>y. connectedSession (cw_key w) s = Some y \<and> cs_Proxy y \<in> set (ws_open s) \<and> w = connection_status px y"
    if w: "w \<in> connection_status px ` set (active_connections ?c s)" for w
  proof -
    obtain y where y: "w = connection_status px y" "y \<in> snd ` set (ws_activeSessions s)"
      using w by (auto simp: active_connections_def Let_def)
    then obtain k' where "connectedSession k' s = Some y" using map_get_mem [OF mok] by (force simp: connectedSession_def)
    then show ?thesis using D(4,6) y(1) by (auto simp: connection_status_def Let_def)
  qed
  ultimately show ?thesis by (simp add: handleActiveConnections_def)
qed

text \<open>
  At most a thousand lines of the log are returned, however the number of lines is written.
\<close>

lemma handleLogs_bounded: "handleLogs logPath readFile meth raw = Reply (p, out) \<Longrightarrow> length out \<le> 1000"
proof -
  assume r: "handleLogs logPath readFile meth raw = Reply (p, out)"
  let ?n = "log_lines_wanted raw"
  have n: "0 < ?n" "nat ?n \<le> 1000" by (auto simp: log_lines_wanted_def Let_def split: option.split)
  obtain xs where "out = filter (\<lambda>line. length (TrimSpace line) > 0) (last_lines (nat ?n) xs)"
    using r n(1) by (auto simp: handleLogs_def Tail_def Let_def split: sum.splits if_splits)
  then show "length out \<le> 1000"
    using last_lines_suffix(2) [of "nat ?n" xs] n(2) length_filter_le [of "\<lambda>line. length (TrimSpace line) > 0" "last_lines (nat ?n) xs"]
    by simp
qed

text \<open>
  The machine a client trusts is known by the thumbprint of its key; the status page shows
  that thumbprint only for a hardware key, and the peer identifier for a software key.
\<close>

lemma status_machine_id:
  "sv_machine_id (handleStatus cr nid (Some i) lf ns c) =
     (if AttestationKeyThumbprint cr (id_Attestation i) \<noteq> [] then MachineID cr (Some i) else nid)"
  by (auto simp: handleStatus_def MachineID_def AttestationKeyThumbprint_def Let_def)

section \<open>A witness\<close>

definition sample_proxy :: "nat \<Rightarrow> LocalProxy" where
  "sample_proxy p = newLocalProxy ''127.0.0.1:5000''"

lemma sample_connected_net:
  "ws_net sample_connected = snd (setBackendRef sample_service_env ''iroh'' (''connect:'' @ sample_key) True (service_start relay_node))"
proof -
  let ?s2 = "(ke_status sample_connect_env sample_key ''tunnel'' (tunnelStatusMessage (Some sample_result)) (cn_Protocol sample_result)
      (cn_PeerID sample_result) [] [] False sample_begun)\<lparr>ws_open := [7]\<rparr>"
  let ?s3 = "?s2\<lparr>ws_net := snd (setBackendRef sample_service_env ''iroh'' (''connect:'' @ sample_key) True (ws_net ?s2))\<rparr>"
  have st: "ws_activeSessions (setConnectStatus act now k a b c d e f g s) = ws_activeSessions s"
      "ws_open (setConnectStatus act now k a b c d e f g s) = ws_open s" for act now k a b c d e f g and s :: "string Server"
    by (simp_all add: setConnectStatus_def put_status_def Let_def)
  have net: "ws_net ?s2 = service_start relay_node" by (simp add: view_simps sample_begun_fields)
  have s3: "ws_activeSessions ?s3 = []" "ws_open ?s3 = [7]" by (simp_all add: st sample_begun_fields)
  have "ws_net sample_connected = ws_net ?s3"
    using sample_retained [OF net] sample_registered [OF s3]
    by (simp add: sample_connected_def open_tunnel_def sample_connect_env_def sample_keys(4) st sample_begun_fields Let_def view_simps
        put_status_def)
  then show ?thesis by (simp add: net)
qed

lemma sample_no_remotes: "cfg_Remotes (ns_cfg (ws_net sample_connected)) = []"
  unfolding sample_connected_net
  by (simp add: setBackendRef_def startIrohSidecar_def launchIrohSidecar_def
        registerIrohSidecar_def set_irohMode_def set_cfg_def service_start_def sample_service_env_def relay_node_def relay_config_def
        fresh_node_def defaultConfig_def mode_off_def CanonicalNetworkBackend_def BackendIroh_def Let_def)

theorem connection_lists_exact_witness:
  "connection_status sample_proxy sample_session \<in> connection_status sample_proxy ` set (active_connections (ns_cfg (ws_net sample_connected)) sample_connected)"
  using connection_lists_exact [OF sample_run, of sample_proxy sample_key sample_session "\<lambda>_. ConnUnknown" None] sample_connected_fields(1)
    sample_no_remotes
  by (simp add: handleRemotes_def handleActiveConnections_def)

end
