(* ===== verification/Pairing_Backends.thy ===== *)
theory Pairing_Backends
  imports Netbackend Tunnel
begin

text \<open>
  The backends of the pairing manager and of the tunnel manager, \<open>SetLibp2p\<close>, \<open>SetIroh\<close>,
  \<open>SetBitTorrentQUIC\<close> and \<open>SetDHTDiscoverer\<close> of \<open>internal/pairing/pairing.go\<close> and
  \<open>internal/tunnel/tunnel.go\<close>, what they use of the registered backends, and the small
  operations both apply to a stream: deadlines and the ways of closing it.
\<close>

section \<open>Backends\<close>

type_synonym discoverer = "string \<Rightarrow> string \<Rightarrow> net_error + string list \<times> string list"

text \<open>
  The three implementations. The sidecar also issues tickets and closes the cached tunnel of
  a peer, with the number of connections closed.
\<close>

datatype 's backend =
    Libp2pBackend "'s libp2p_node"
  | IrohSidecarBackend "'s iroh_sidecar" "unit \<Rightarrow> string + string" "string \<Rightarrow> nat"
  | DirectQUICBackend "string \<Rightarrow> net_error + 's" "string \<Rightarrow> net_error + 's" "discoverer option"

primrec backend_Name :: "'s backend \<Rightarrow> string" where
  "backend_Name (Libp2pBackend n) = BackendLibp2pRelay"
| "backend_Name (IrohSidecarBackend i t c) = BackendIroh"
| "backend_Name (DirectQUICBackend p t d) = BackendBitTorrentDHT"

primrec as_TicketBackend :: "'s backend \<Rightarrow> (unit \<Rightarrow> string + string) option" where
  "as_TicketBackend (Libp2pBackend n) = None"
| "as_TicketBackend (IrohSidecarBackend i t c) = Some t"
| "as_TicketBackend (DirectQUICBackend p t d) = None"

primrec as_TunnelCloser :: "'s backend \<Rightarrow> (string \<Rightarrow> nat) option" where
  "as_TunnelCloser (Libp2pBackend n) = None"
| "as_TunnelCloser (IrohSidecarBackend i t c) = Some c"
| "as_TunnelCloser (DirectQUICBackend p t d) = None"

primrec SetDiscoverer :: "discoverer option \<Rightarrow> 's backend \<Rightarrow> 's backend" where
  "SetDiscoverer d (Libp2pBackend n) = Libp2pBackend n"
| "SetDiscoverer d (IrohSidecarBackend i t c) = IrohSidecarBackend i t c"
| "SetDiscoverer d (DirectQUICBackend p t d0) = DirectQUICBackend p t d"

definition QUIC_OpenPairing :: "(string \<Rightarrow> net_error + 's) \<Rightarrow> Target \<Rightarrow> net_error + 's" where
  "QUIC_OpenPairing dial target = dial (tg_QUICEndpoint target)"

definition QUIC_OpenTunnel :: "(string \<Rightarrow> net_error + 's) \<Rightarrow> Target \<Rightarrow> net_error + 's" where
  "QUIC_OpenTunnel dial target = dial (tg_QUICEndpoint target)"

text \<open>A backend as the registry sees it. Only libp2p is started and stopped through it; \<open>startStop\<close> are its two calls.\<close>

primrec stream_backend ::
  "(string list \<Rightarrow> string list) \<Rightarrow> (string \<Rightarrow> net_error option) \<times> (unit \<Rightarrow> net_error option) \<Rightarrow> 's backend \<Rightarrow> 's StreamBackend" where
  "stream_backend arrive startStop (Libp2pBackend n) =
     \<lparr>sb_Name = BackendLibp2pRelay, sb_OpenPairing = Libp2p_OpenPairing (Some n), sb_OpenTunnel = Libp2p_OpenTunnel (Some n),
      sb_OpenPairingSession = Some (Libp2p_OpenPairingSession (Some n)), sb_Start = Some (fst startStop), sb_Stop = Some (snd startStop)\<rparr>"
| "stream_backend arrive startStop (IrohSidecarBackend i t c) =
     \<lparr>sb_Name = BackendIroh, sb_OpenPairing = Iroh_OpenPairing (Some i), sb_OpenTunnel = Iroh_OpenTunnel (Some i),
      sb_OpenPairingSession = Some (Iroh_OpenPairingSession (Some i)), sb_Start = None, sb_Stop = None\<rparr>"
| "stream_backend arrive startStop (DirectQUICBackend p t d) =
     \<lparr>sb_Name = BackendBitTorrentDHT, sb_OpenPairing = QUIC_OpenPairing p, sb_OpenTunnel = QUIC_OpenTunnel t,
      sb_OpenPairingSession = Some (QUIC_OpenPairingSession arrive (Some p) d), sb_Start = None, sb_Stop = None\<rparr>"

section \<open>The managers\<close>

text \<open>
  Both managers keep a registry; the pairing manager also the discoverer, and handlers are
  set on the node once libp2p is registered.
\<close>

record 's manager_backends =
  mb_backends :: "(string, 's backend) gomap"
  mb_discoverer :: "discoverer option"
  mb_handler :: bool

definition register_backend :: "'s backend \<Rightarrow> string list \<Rightarrow> 's manager_backends \<Rightarrow> 's manager_backends" where
  "register_backend b names m = m\<lparr>mb_backends := foldl (\<lambda>r name. if name = [] then r else map_set name b r) (mb_backends m) (backend_Name b # names)\<rparr>"

definition unregister_backends :: "string list \<Rightarrow> 's manager_backends \<Rightarrow> 's manager_backends" where
  "unregister_backends names m = m\<lparr>mb_backends := foldl (\<lambda>r name. map_del name r) (mb_backends m) names\<rparr>"

text \<open>\<open>hosted\<close>: the node has a host, without which setting a handler does nothing.\<close>

definition SetLibp2p :: "bool \<Rightarrow> 's libp2p_node option \<Rightarrow> 's manager_backends \<Rightarrow> 's manager_backends" where
  "SetLibp2p hosted n m =
     (case n of
        Some nd \<Rightarrow> (let m1 = register_backend (Libp2pBackend nd) [BackendLibp2pDHT] m in if hosted then m1\<lparr>mb_handler := True\<rparr> else m1)
      | None \<Rightarrow> unregister_backends [BackendLibp2pRelay, BackendLibp2pDHT] m)"

definition SetDHTDiscoverer :: "discoverer option \<Rightarrow> 's manager_backends \<Rightarrow> 's manager_backends" where
  "SetDHTDiscoverer d m =
     (let m1 = m\<lparr>mb_discoverer := d\<rparr> in
      case map_get (mb_backends m1) BackendBitTorrentDHT of
        None \<Rightarrow> m1
      | Some b \<Rightarrow> m1\<lparr>mb_backends := map_set BackendBitTorrentDHT (SetDiscoverer d b) (mb_backends m1)\<rparr>)"

definition SetIroh ::
  "('s iroh_sidecar \<times> (unit \<Rightarrow> string + string) \<times> (string \<Rightarrow> nat)) option \<Rightarrow> 's manager_backends \<Rightarrow> 's manager_backends" where
  "SetIroh i m =
     (case i of
        None \<Rightarrow> unregister_backends [BackendIroh] m
      | Some (inner, ticket, closeTunnel) \<Rightarrow> register_backend (IrohSidecarBackend inner ticket closeTunnel) [] m)"

definition SetBitTorrentQUIC ::
  "((string \<Rightarrow> net_error + 's) \<times> (string \<Rightarrow> net_error + 's)) option \<Rightarrow> 's manager_backends \<Rightarrow> 's manager_backends" where
  "SetBitTorrentQUIC q m =
     (case q of
        None \<Rightarrow> unregister_backends [BackendBitTorrentDHT] m
      | Some (p, t) \<Rightarrow> register_backend (DirectQUICBackend p t (mb_discoverer m)) [] m)"

text \<open>The tunnel manager has no discoverer to hand on.\<close>

record 's tunnel_backends =
  tb_backends :: "(string, 's backend) gomap"
  tb_handler :: bool

definition tunnel_register :: "'s backend \<Rightarrow> string list \<Rightarrow> 's tunnel_backends \<Rightarrow> 's tunnel_backends" where
  "tunnel_register b names m =
     m\<lparr>tb_backends := foldl (\<lambda>r name. if name = [] then r else map_set name b r) (tb_backends m) (backend_Name b # names)\<rparr>"

definition tunnel_unregister :: "string list \<Rightarrow> 's tunnel_backends \<Rightarrow> 's tunnel_backends" where
  "tunnel_unregister names m = m\<lparr>tb_backends := foldl (\<lambda>r name. map_del name r) (tb_backends m) names\<rparr>"

definition tunnel_SetLibp2p :: "bool \<Rightarrow> 's libp2p_node option \<Rightarrow> 's tunnel_backends \<Rightarrow> 's tunnel_backends" where
  "tunnel_SetLibp2p hosted n m =
     (case n of
        Some nd \<Rightarrow> (let m1 = tunnel_register (Libp2pBackend nd) [BackendLibp2pDHT] m in if hosted then m1\<lparr>tb_handler := True\<rparr> else m1)
      | None \<Rightarrow> tunnel_unregister [BackendLibp2pRelay, BackendLibp2pDHT] m)"

definition tunnel_SetIroh ::
  "('s iroh_sidecar \<times> (unit \<Rightarrow> string + string) \<times> (string \<Rightarrow> nat)) option \<Rightarrow> 's tunnel_backends \<Rightarrow> 's tunnel_backends" where
  "tunnel_SetIroh i m =
     (case i of
        None \<Rightarrow> tunnel_unregister [BackendIroh] m
      | Some (inner, ticket, closeTunnel) \<Rightarrow> tunnel_register (IrohSidecarBackend inner ticket closeTunnel) [] m)"

definition tunnel_SetBitTorrentQUIC ::
  "((string \<Rightarrow> net_error + 's) \<times> (string \<Rightarrow> net_error + 's)) option \<Rightarrow> 's tunnel_backends \<Rightarrow> 's tunnel_backends" where
  "tunnel_SetBitTorrentQUIC q m =
     (case q of
        None \<Rightarrow> tunnel_unregister [BackendBitTorrentDHT] m
      | Some (p, t) \<Rightarrow> tunnel_register (DirectQUICBackend p t None) [] m)"

definition tunnel_New :: "bool \<Rightarrow> 's libp2p_node \<Rightarrow> 's tunnel_backends" where
  "tunnel_New running n =
     (let m = \<lparr>tb_backends = [], tb_handler = False\<rparr> in if running then tunnel_SetLibp2p running (Some n) m else m)"

definition manager_New :: "bool \<Rightarrow> 's libp2p_node \<Rightarrow> 's manager_backends" where
  "manager_New running n =
     (let m = \<lparr>mb_backends = [], mb_discoverer = None, mb_handler = False\<rparr> in if running then SetLibp2p running (Some n) m else m)"

definition currentIrohTicket :: "'s manager_backends \<Rightarrow> string + string" where
  "currentIrohTicket m =
     (case map_get (mb_backends m) BackendIroh of
        None \<Rightarrow> Inl ''iroh backend is not running''
      | Some b \<Rightarrow> (case as_TicketBackend b of None \<Rightarrow> Inl ''iroh backend cannot issue tickets'' | Some t \<Rightarrow> t ()))"

text \<open>
  Closing the cached tunnel of a peer: the number closed, or \<open>None\<close> for the panic of
  \<open>peerID[:12]\<close> in the log entry.
\<close>

definition closeBackendTunnel :: "string \<Rightarrow> string \<Rightarrow> 's tunnel_backends \<Rightarrow> nat option" where
  "closeBackendTunnel peerID endpoint m =
     (case closeBackendTunnel_backend peerID endpoint of
        None \<Rightarrow> Some 0
      | Some name \<Rightarrow>
          (case map_get (tb_backends m) name of
             None \<Rightarrow> Some 0
           | Some b \<Rightarrow>
               (case as_TunnelCloser b of
                  None \<Rightarrow> Some 0
                | Some close_tunnel \<Rightarrow>
                    let closed = close_tunnel peerID in if closed > 0 \<and> length peerID < 12 then None else Some closed)))"

section \<open>Streams\<close>

text \<open>
  What a stream offers: deadlines it may accept or refuse, the read and the write deadline
  in force (zero is none), and the calls that closed it.
\<close>

datatype stream_call = CalledCloseWrite | CalledAbortClose | CalledClose | CalledNoDelay | CalledKeepAlive | CalledKeepAlivePeriod duration

record any_stream =
  as_deadlines :: bool
  as_accepts :: "instant \<Rightarrow> bool"
  as_read :: instant
  as_write :: instant
  as_closeWrite :: bool
  as_abortClose :: bool
  as_closer :: bool
  as_tcp :: bool
  as_calls :: "stream_call list"

definition call :: "stream_call \<Rightarrow> any_stream \<Rightarrow> any_stream" where
  "call c s = s\<lparr>as_calls := as_calls s @ [c]\<rparr>"

text \<open>A deadline is set for a while: the function returned clears it if it was accepted.\<close>

definition setReadDeadline :: "instant \<Rightarrow> any_stream \<Rightarrow> (any_stream \<Rightarrow> any_stream) \<times> any_stream" where
  "setReadDeadline d s =
     (if as_deadlines s then
        (if \<not> as_accepts s d then ((\<lambda>t. t), s)
         else ((\<lambda>t. if as_accepts t 0 then t\<lparr>as_read := 0\<rparr> else t), s\<lparr>as_read := d\<rparr>))
      else ((\<lambda>t. t), s))"

definition setWriteDeadline :: "instant \<Rightarrow> any_stream \<Rightarrow> (any_stream \<Rightarrow> any_stream) \<times> any_stream" where
  "setWriteDeadline d s =
     (if as_deadlines s then
        (if \<not> as_accepts s d then ((\<lambda>t. t), s)
         else ((\<lambda>t. if as_accepts t 0 then t\<lparr>as_write := 0\<rparr> else t), s\<lparr>as_write := d\<rparr>))
      else ((\<lambda>t. t), s))"

text \<open>The tunnel's copies of the two, which differ in what they log.\<close>

definition tunnel_setReadDeadline :: "instant \<Rightarrow> any_stream \<Rightarrow> (any_stream \<Rightarrow> any_stream) \<times> any_stream" where
  "tunnel_setReadDeadline d s =
     (if as_deadlines s then
        (if \<not> as_accepts s d then ((\<lambda>t. t), s)
         else ((\<lambda>t. if as_accepts t 0 then t\<lparr>as_read := 0\<rparr> else t), s\<lparr>as_read := d\<rparr>))
      else ((\<lambda>t. t), s))"

definition tunnel_setWriteDeadline :: "instant \<Rightarrow> any_stream \<Rightarrow> (any_stream \<Rightarrow> any_stream) \<times> any_stream" where
  "tunnel_setWriteDeadline d s =
     (if as_deadlines s then
        (if \<not> as_accepts s d then ((\<lambda>t. t), s)
         else ((\<lambda>t. if as_accepts t 0 then t\<lparr>as_write := 0\<rparr> else t), s\<lparr>as_write := d\<rparr>))
      else ((\<lambda>t. t), s))"

definition closeWrite :: "any_stream \<Rightarrow> any_stream" where
  "closeWrite s = (if as_closeWrite s then call CalledCloseWrite s else s)"

definition closeGraceful :: "any_stream \<Rightarrow> any_stream" where
  "closeGraceful s = (if as_closer s then call CalledClose s else s)"

definition closeAbortive :: "any_stream \<Rightarrow> any_stream" where
  "closeAbortive s = (if as_abortClose s then call CalledAbortClose s else closeGraceful s)"

definition tuneTCPConn :: "any_stream \<Rightarrow> any_stream" where
  "tuneTCPConn s =
     (if \<not> as_tcp s then s else call (CalledKeepAlivePeriod (30 * second)) (call CalledKeepAlive (call CalledNoDelay s)))"

definition newStreamID :: "bytes option \<Rightarrow> instant \<Rightarrow> string" where
  "newStreamID rand now = (case rand of None \<Rightarrow> Itoa now | Some b \<Rightarrow> hexEncode b)"

section \<open>What the registry holds\<close>

datatype 's backend_call =
    CallLibp2p bool "'s libp2p_node option"
  | CallDiscoverer "discoverer option"
  | CallIroh "('s iroh_sidecar \<times> (unit \<Rightarrow> string + string) \<times> (string \<Rightarrow> nat)) option"
  | CallQUIC "((string \<Rightarrow> net_error + 's) \<times> (string \<Rightarrow> net_error + 's)) option"

primrec run_call :: "'s manager_backends \<Rightarrow> 's backend_call \<Rightarrow> 's manager_backends" where
  "run_call m (CallLibp2p hosted n) = SetLibp2p hosted n m"
| "run_call m (CallDiscoverer d) = SetDHTDiscoverer d m"
| "run_call m (CallIroh i) = SetIroh i m"
| "run_call m (CallQUIC q) = SetBitTorrentQUIC q m"

text \<open>The specification: the last call of each kind decides, whatever was called in between.\<close>

primrec last_libp2p :: "'s libp2p_node option \<Rightarrow> 's backend_call list \<Rightarrow> 's libp2p_node option" where
  "last_libp2p x [] = x"
| "last_libp2p x (c # cs) = last_libp2p (case c of CallLibp2p _ n \<Rightarrow> n | _ \<Rightarrow> x) cs"

primrec last_discoverer :: "discoverer option \<Rightarrow> 's backend_call list \<Rightarrow> discoverer option" where
  "last_discoverer x [] = x"
| "last_discoverer x (c # cs) = last_discoverer (case c of CallDiscoverer d \<Rightarrow> d | _ \<Rightarrow> x) cs"

primrec last_iroh ::
  "('s iroh_sidecar \<times> (unit \<Rightarrow> string + string) \<times> (string \<Rightarrow> nat)) option \<Rightarrow> 's backend_call list \<Rightarrow>
   ('s iroh_sidecar \<times> (unit \<Rightarrow> string + string) \<times> (string \<Rightarrow> nat)) option" where
  "last_iroh x [] = x"
| "last_iroh x (c # cs) = last_iroh (case c of CallIroh i \<Rightarrow> i | _ \<Rightarrow> x) cs"

primrec last_quic ::
  "((string \<Rightarrow> net_error + 's) \<times> (string \<Rightarrow> net_error + 's)) option \<Rightarrow> 's backend_call list \<Rightarrow>
   ((string \<Rightarrow> net_error + 's) \<times> (string \<Rightarrow> net_error + 's)) option" where
  "last_quic x [] = x"
| "last_quic x (c # cs) = last_quic (case c of CallQUIC q \<Rightarrow> q | _ \<Rightarrow> x) cs"

definition spec_backend ::
  "'s libp2p_node option \<Rightarrow> ('s iroh_sidecar \<times> (unit \<Rightarrow> string + string) \<times> (string \<Rightarrow> nat)) option \<Rightarrow>
   ((string \<Rightarrow> net_error + 's) \<times> (string \<Rightarrow> net_error + 's)) option \<Rightarrow> discoverer option \<Rightarrow> string \<Rightarrow> 's backend option" where
  "spec_backend l i q d name =
     (if name = BackendLibp2pRelay \<or> name = BackendLibp2pDHT then map_option Libp2pBackend l
      else if name = BackendIroh then map_option (\<lambda>(inner, t, c). IrohSidecarBackend inner t c) i
      else if name = BackendBitTorrentDHT then map_option (\<lambda>(p, t). DirectQUICBackend p t d) q
      else None)"

lemma backend_names_differ [simp]:
  "BackendLibp2pRelay \<noteq> BackendLibp2pDHT" "BackendLibp2pRelay \<noteq> BackendIroh" "BackendLibp2pRelay \<noteq> BackendBitTorrentDHT"
  "BackendLibp2pDHT \<noteq> BackendIroh" "BackendLibp2pDHT \<noteq> BackendBitTorrentDHT" "BackendIroh \<noteq> BackendBitTorrentDHT"
  "BackendLibp2pDHT \<noteq> BackendLibp2pRelay" "BackendIroh \<noteq> BackendLibp2pRelay" "BackendBitTorrentDHT \<noteq> BackendLibp2pRelay"
  "BackendLibp2pRelay \<noteq> []" "BackendLibp2pDHT \<noteq> []" "BackendIroh \<noteq> []" "BackendBitTorrentDHT \<noteq> []"
  "BackendIroh \<noteq> BackendLibp2pDHT" "BackendBitTorrentDHT \<noteq> BackendLibp2pDHT" "BackendBitTorrentDHT \<noteq> BackendIroh"
  by (simp_all add: BackendLibp2pRelay_def BackendLibp2pDHT_def BackendIroh_def BackendBitTorrentDHT_def)

text \<open>A registry that agrees with the specification still does after any call.\<close>

definition shows_backends ::
  "'s libp2p_node option \<Rightarrow> ('s iroh_sidecar \<times> (unit \<Rightarrow> string + string) \<times> (string \<Rightarrow> nat)) option \<Rightarrow>
   ((string \<Rightarrow> net_error + 's) \<times> (string \<Rightarrow> net_error + 's)) option \<Rightarrow> discoverer option \<Rightarrow> 's manager_backends \<Rightarrow> bool" where
  "shows_backends l i q d m \<longleftrightarrow> mb_discoverer m = d \<and> map_get (mb_backends m) = spec_backend l i q d"

lemma fold_register:
  "map_get (foldl (\<lambda>r name. if name = [] then r else map_set name b r) r names) n = (if n \<noteq> [] \<and> n \<in> set names then Some b else map_get r n)"
  by (induction names arbitrary: r) (auto simp: go_map_simps)

lemma fold_unregister: "map_get (foldl (\<lambda>r name. map_del name r) r names) n = (if n \<in> set names then None else map_get r n)"
  by (induction names arbitrary: r) (auto simp: go_map_simps)

text \<open>Both managers keep a table of backends by name, with the laws of the registry.\<close>

interpretation pairing_table: named_table register_backend unregister_backends "\<lambda>n m. map_get (mb_backends m) n" "\<lambda>b ns. backend_Name b # ns"
  by unfold_locales (auto simp: register_backend_def unregister_backends_def fold_register fold_unregister go_map_simps)

interpretation tunnel_table: named_table tunnel_register tunnel_unregister "\<lambda>n m. map_get (tb_backends m) n" "\<lambda>b ns. backend_Name b # ns"
  by unfold_locales (auto simp: tunnel_register_def tunnel_unregister_def fold_register fold_unregister go_map_simps)

lemma get_register:
  "map_get (mb_backends (register_backend b ns m)) = (\<lambda>n. if n \<noteq> [] \<and> n \<in> set (backend_Name b # ns) then Some b else map_get (mb_backends m) n)"
  by (rule ext) (rule pairing_table.get_put)

lemma get_unregister: "map_get (mb_backends (unregister_backends ns m)) = (\<lambda>n. if n \<in> set ns then None else map_get (mb_backends m) n)"
  by (rule ext) (rule pairing_table.get_drop)

lemma registry_discoverer [simp]:
  "mb_discoverer (register_backend b ns m) = mb_discoverer m" "mb_discoverer (unregister_backends ns m) = mb_discoverer m"
  by (simp_all add: register_backend_def unregister_backends_def)

lemma shows_step:
  assumes "shows_backends l i q d m"
  shows "shows_backends (case c of CallLibp2p _ n \<Rightarrow> n | _ \<Rightarrow> l) (case c of CallIroh j \<Rightarrow> j | _ \<Rightarrow> i) (case c of CallQUIC p \<Rightarrow> p | _ \<Rightarrow> q)
     (case c of CallDiscoverer e \<Rightarrow> e | _ \<Rightarrow> d) (run_call m c)"
proof (cases c)
  case (CallLibp2p hosted n)
  then show ?thesis using assms
    by (cases n) (auto simp: shows_backends_def SetLibp2p_def get_register get_unregister spec_backend_def Let_def fun_eq_iff)
next
  case (CallDiscoverer e)
  then show ?thesis using assms
    by (auto simp: shows_backends_def SetDHTDiscoverer_def spec_backend_def Let_def fun_eq_iff go_map_simps split: option.split)
next
  case (CallIroh j)
  then show ?thesis using assms
    by (cases j) (auto simp: shows_backends_def SetIroh_def get_register get_unregister spec_backend_def fun_eq_iff)
next
  case (CallQUIC p)
  then show ?thesis using assms
    by (cases p) (auto simp: shows_backends_def SetBitTorrentQUIC_def get_register get_unregister spec_backend_def fun_eq_iff)
qed

lemma shows_run:
  "shows_backends l i q d m \<Longrightarrow>
     shows_backends (last_libp2p l cs) (last_iroh i cs) (last_quic q cs) (last_discoverer d cs) (foldl run_call m cs)"
proof (induction cs arbitrary: l i q d m)
  case (Cons c cs)
  show ?case using Cons.IH [OF shows_step [OF Cons.prems, of c]] by simp
qed simp

lemma shows_New: "shows_backends (if running then Some n else None) None None None (manager_New running n)"
  by (auto simp: shows_backends_def manager_New_def SetLibp2p_def get_register spec_backend_def Let_def fun_eq_iff)

text \<open>The registry of interfaces, as the session code uses it.\<close>

definition interfaces ::
  "(string list \<Rightarrow> string list) \<Rightarrow> (string \<Rightarrow> net_error option) \<times> (unit \<Rightarrow> net_error option) \<Rightarrow> 's manager_backends \<Rightarrow> 's Registry" where
  "interfaces arrive startStop m = map (\<lambda>(n, b). (n, stream_backend arrive startStop b)) (mb_backends m)"

lemma Get_interfaces: "Get n (interfaces arrive ss m) = map_option (stream_backend arrive ss) (map_get (mb_backends m) n)"
  by (simp add: Get_def interfaces_def map_of_map comp_def)

text \<open>
  C40: After any sequence of calls that register and remove backends and change the discoverer,
  each name is bound to what the last call of its kind gave, and in particular the
  direct QUIC backend, if there is one, looks addresses up with the current discoverer,
  in whichever order transport and discoverer were set: a pairing session over
  BitTorrent DHT is opened with the last transport and the last discoverer or reported
  as not running.
\<close>

theorem backends_last_call:
  "map_get (mb_backends (foldl run_call (manager_New running n) cs)) name =
     spec_backend (last_libp2p (if running then Some n else None) cs) (last_iroh None cs) (last_quic None cs) (last_discoverer None cs) name
   \<and> Registry_OpenPairingSession BackendBitTorrentDHT target (interfaces arrive ss (foldl run_call (manager_New running n) cs)) =
       (case last_quic None cs of
          None \<Rightarrow> Inl (BackendNotRunning BackendBitTorrentDHT)
        | Some (p, t) \<Rightarrow> QUIC_OpenPairingSession arrive (Some p) (last_discoverer None cs) (target\<lparr>pt_Backend := BackendBitTorrentDHT\<rparr>))"
proof -
  let ?m = "foldl run_call (manager_New running n) cs"
  have "shows_backends (last_libp2p (if running then Some n else None) cs) (last_iroh None cs) (last_quic None cs) (last_discoverer None cs) ?m"
    by (rule shows_run [OF shows_New])
  then have get: "map_get (mb_backends ?m) =
      spec_backend (last_libp2p (if running then Some n else None) cs) (last_iroh None cs) (last_quic None cs) (last_discoverer None cs)"
    by (simp add: shows_backends_def)
  have "Get BackendBitTorrentDHT (interfaces arrive ss ?m) =
      map_option (\<lambda>(p, t). stream_backend arrive ss (DirectQUICBackend p t (last_discoverer None cs))) (last_quic None cs)"
    by (simp add: Get_interfaces get spec_backend_def option.map_comp comp_def case_prod_beta' split_beta)
  then show ?thesis
    by (auto simp: get Registry_OpenPairingSession_def MustGet_def Let_def split: option.split)
qed

text \<open>Tickets come from the sidecar set last.\<close>

lemma currentIrohTicket_last:
  "currentIrohTicket (foldl run_call (manager_New running n) cs) =
     (case last_iroh None cs of None \<Rightarrow> Inl ''iroh backend is not running'' | Some (i, t, c) \<Rightarrow> t ())"
proof -
  have "map_get (mb_backends (foldl run_call (manager_New running n) cs)) BackendIroh =
      map_option (\<lambda>(inner, t, c). IrohSidecarBackend inner t c) (last_iroh None cs)"
    using shows_run [OF shows_New [of running n], of cs] by (simp add: shows_backends_def spec_backend_def)
  then show ?thesis by (auto simp: currentIrohTicket_def split: option.split)
qed

section \<open>The two managers\<close>

primrec run_tunnel_call :: "'s tunnel_backends \<Rightarrow> 's backend_call \<Rightarrow> 's tunnel_backends" where
  "run_tunnel_call m (CallLibp2p hosted n) = tunnel_SetLibp2p hosted n m"
| "run_tunnel_call m (CallDiscoverer d) = m"
| "run_tunnel_call m (CallIroh i) = tunnel_SetIroh i m"
| "run_tunnel_call m (CallQUIC q) = tunnel_SetBitTorrentQUIC q m"

text \<open>What the tunnel manager registers is what the pairing manager without a discoverer would.\<close>

definition as_pairing :: "'s tunnel_backends \<Rightarrow> 's manager_backends" where
  "as_pairing m = \<lparr>mb_backends = tb_backends m, mb_discoverer = None, mb_handler = tb_handler m\<rparr>"

lemma as_pairing_call:
  "as_pairing (run_tunnel_call m c) = (case c of CallDiscoverer d \<Rightarrow> as_pairing m | _ \<Rightarrow> run_call (as_pairing m) c)"
  by (cases c) (auto simp: as_pairing_def tunnel_SetLibp2p_def SetLibp2p_def tunnel_SetIroh_def SetIroh_def tunnel_SetBitTorrentQUIC_def
      SetBitTorrentQUIC_def tunnel_register_def register_backend_def tunnel_unregister_def unregister_backends_def Let_def
      split: option.split)

lemma tunnel_shows:
  "shows_backends l i q None (as_pairing m) \<Longrightarrow>
     shows_backends (last_libp2p l cs) (last_iroh i cs) (last_quic q cs) None (as_pairing (foldl run_tunnel_call m cs))"
proof (induction cs arbitrary: l i q m)
  case (Cons c cs)
  have "shows_backends (case c of CallLibp2p _ n \<Rightarrow> n | _ \<Rightarrow> l) (case c of CallIroh j \<Rightarrow> j | _ \<Rightarrow> i) (case c of CallQUIC p \<Rightarrow> p | _ \<Rightarrow> q)
      None (as_pairing (run_tunnel_call m c))"
    using shows_step [OF Cons.prems, of c] Cons.prems by (cases c) (simp_all only: as_pairing_call backend_call.case)
  then show ?case using Cons.IH by simp
qed simp

lemma tunnel_New_shows: "shows_backends (if running then Some n else None) None None None (as_pairing (tunnel_New running n))"
proof -
  have "as_pairing (tunnel_New running n) = manager_New running n"
    using as_pairing_call [of "\<lparr>tb_backends = [], tb_handler = False\<rparr>" "CallLibp2p running (Some n)"]
    by (cases running) (simp_all add: tunnel_New_def manager_New_def Let_def as_pairing_def)
  then show ?thesis using shows_New [of running n] by simp
qed

text \<open>
  The service makes the same calls on both managers; they then offer the same backends, up
  to the discoverer that only pairing needs.
\<close>

theorem managers_agree:
  "map_get (tb_backends (foldl run_tunnel_call (tunnel_New running n) cs)) name =
     map_option (SetDiscoverer None) (map_get (mb_backends (foldl run_call (manager_New running n) cs)) name)"
  using tunnel_shows [OF tunnel_New_shows [of running n], of cs] shows_run [OF shows_New [of running n], of cs]
  by (auto simp: shows_backends_def spec_backend_def as_pairing_def option.map_comp comp_def split: option.split
      intro!: map_option_cong)

text \<open>
  Direct QUIC keeps connections cached as well, but offers no way to close them: nothing is
  closed for an endpoint of that kind.
\<close>

lemma quic_tunnels_not_closed:
  assumes "HasPrefix endpoint ''quic:''"
  shows "closeBackendTunnel peerID endpoint (foldl run_tunnel_call (tunnel_New running n) cs) = Some 0"
proof -
  have "map_get (tb_backends (foldl run_tunnel_call (tunnel_New running n) cs)) BackendBitTorrentDHT =
      map_option (\<lambda>(p, t). DirectQUICBackend p t None) (last_quic None cs)"
    using tunnel_shows [OF tunnel_New_shows [of running n], of cs] by (simp add: shows_backends_def spec_backend_def as_pairing_def)
  then show ?thesis using assms
    by (auto simp: closeBackendTunnel_def closeBackendTunnel_backend_def split: option.split)
qed

section \<open>Deadlines are taken back\<close>

text \<open>
  Whatever is done to the stream in between, as long as it still accepts deadlines, clearing
  leaves no deadline that was set; a stream that refused keeps the one it had.
\<close>

lemma read_deadline_cleared:
  assumes "setReadDeadline d s = (clear, s')" "as_accepts t 0"
  shows "as_read (clear t) = (if as_deadlines s \<and> as_accepts s d then 0 else as_read t)" "as_write (clear t) = as_write t"
    "as_calls (clear t) = as_calls t"
  using assms by (auto simp: setReadDeadline_def split: if_splits)

lemma write_deadline_cleared:
  assumes "setWriteDeadline d s = (clear, s')" "as_accepts t 0"
  shows "as_write (clear t) = (if as_deadlines s \<and> as_accepts s d then 0 else as_write t)" "as_read (clear t) = as_read t"
    "as_calls (clear t) = as_calls t"
  using assms by (auto simp: setWriteDeadline_def split: if_splits)

lemma tunnel_deadlines: "tunnel_setReadDeadline d s = setReadDeadline d s" "tunnel_setWriteDeadline d s = setWriteDeadline d s"
  by (simp_all add: tunnel_setReadDeadline_def setReadDeadline_def tunnel_setWriteDeadline_def setWriteDeadline_def)

text \<open>An abortive close calls exactly one of the ways to close a stream, if it has any.\<close>

lemma closeAbortive_once:
  "as_calls (closeAbortive s) = as_calls s @ (if as_abortClose s then [CalledAbortClose] else if as_closer s then [CalledClose] else [])"
  by (simp add: closeAbortive_def closeGraceful_def call_def)

text \<open>A stream identifier is eight hexadecimal digits, or the time if there is no randomness.\<close>

lemma newStreamID_length: "length b = 4 \<Longrightarrow> length (newStreamID (Some b) now) = 8"
  by (simp add: newStreamID_def length_hexEncode)

end
