(* ===== verification/Irohsidecar_Http.thy ===== *)
theory Irohsidecar_Http
  imports Irohsidecar Handshake
begin

text \<open>
  The control requests to the sidecar process, \<open>get\<close>, \<open>post\<close> and \<open>do\<close> of
  \<open>internal/irohsidecar/sidecar.go\<close>, and their messages. The HTTP client and JSON are
  arguments; addresses of the sidecar have no path of their own.
\<close>

record handlersRequest =
  hq_PairingAddr :: string
  hq_TunnelAddr :: string
  hq_PairingALPN :: string
  hq_TunnelALPN :: string

record ticketResponse =
  tk_Ticket :: string
  tk_EndpointID :: string

record openRequest =
  oq_Kind :: string
  oq_Ticket :: string

record openResponse =
  or_Addr :: string
  or_Path :: string
  or_RemoteAddr :: string

record closeTunnelRequest =
  ct_PeerID :: string
  ct_Reason :: string

record control_request =
  cr_Method :: string
  cr_URL :: string
  cr_Path :: string
  cr_Body :: "string option"
  cr_JSON :: bool

record control_response =
  cp_StatusCode :: nat
  cp_Status :: string
  cp_Body :: string

text \<open>The client: an error with whether it calls itself a timeout, or a response.\<close>

type_synonym http_client = "control_request \<Rightarrow> (bool \<times> string) + control_response"

text \<open>The result \<open>out\<close> is decoded from the body; \<open>None\<close> stands for a nil \<open>out\<close>.\<close>

definition do_request :: "http_client \<Rightarrow> (string \<Rightarrow> string + 'o) option \<Rightarrow> control_request \<Rightarrow> string + 'o option" where
  "do_request client decode req =
     (case client req of
        Inl err \<Rightarrow>
          Inl (''sidecar '' @ cr_Method req @ '' '' @ cr_Path req @
               (if isTimeoutError (Some err) then '' timed out after 2m0s: '' else '' failed: '') @ snd err)
      | Inr resp \<Rightarrow>
          if cp_StatusCode resp < 200 \<or> cp_StatusCode resp \<ge> 300
          then Inl (''sidecar '' @ cr_Method req @ '' '' @ cr_Path req @ '': '' @ cp_Status resp @ '': '' @
                    TrimSpace (take (4 * 1024) (cp_Body resp)))
          else case decode of
            None \<Rightarrow> Inr None
          | Some f \<Rightarrow> (case f (cp_Body resp) of Inl e \<Rightarrow> Inl e | Inr x \<Rightarrow> Inr (Some x)))"

text \<open>\<open>newRequest\<close>: the error of an address that does not parse.\<close>

definition get_request ::
  "(string \<Rightarrow> string option) \<Rightarrow> http_client \<Rightarrow> string \<Rightarrow> string \<Rightarrow> (string \<Rightarrow> string + 'o) option \<Rightarrow> string + 'o option" where
  "get_request newRequest client baseURL path decode =
     (case newRequest (baseURL @ path) of
        Some e \<Rightarrow> Inl e
      | None \<Rightarrow> do_request client decode
          \<lparr>cr_Method = ''GET'', cr_URL = baseURL @ path, cr_Path = path, cr_Body = None, cr_JSON = False\<rparr>)"

definition post_request ::
  "(string \<Rightarrow> string option) \<Rightarrow> http_client \<Rightarrow> string \<Rightarrow> string \<Rightarrow> (string + string) option \<Rightarrow>
   (string \<Rightarrow> string + 'o) option \<Rightarrow> string + 'o option" where
  "post_request newRequest client baseURL path body decode =
     (case body of
        Some (Inl e) \<Rightarrow> Inl e
      | b \<Rightarrow>
          (case newRequest (baseURL @ path) of
             Some e \<Rightarrow> Inl e
           | None \<Rightarrow> do_request client decode
               \<lparr>cr_Method = ''POST'', cr_URL = baseURL @ path, cr_Path = path,
                cr_Body = (case b of Some (Inr data) \<Rightarrow> Some data | _ \<Rightarrow> None), cr_JSON = (b \<noteq> None)\<rparr>))"

text \<open>A request with a decoder never yields \<open>None\<close>, see below.\<close>

definition fetchStatus ::
  "(string \<Rightarrow> string option) \<Rightarrow> http_client \<Rightarrow> (string \<Rightarrow> string + statusResponse) \<Rightarrow> iroh_Backend \<Rightarrow> string + statusResponse" where
  "fetchStatus newRequest client decode b =
     (case get_request newRequest client (ib_baseURL b) ''/status'' (Some decode) of
        Inl e \<Rightarrow> Inl e
      | Inr None \<Rightarrow> Inl []
      | Inr (Some st) \<Rightarrow> Inr st)"

text \<open>The stream: closing its writing side, where the connection can.\<close>

datatype conn_close = HalfClosed | FullyClosed

definition stream_CloseWrite :: "bool \<Rightarrow> conn_close" where
  "stream_CloseWrite canHalf = (if canHalf then HalfClosed else FullyClosed)"

definition stream_AbortClose :: conn_close where
  "stream_AbortClose = FullyClosed"

section \<open>What the errors say\<close>

lemma ToLower_append: "ToLower (a @ b) = ToLower a @ ToLower b"
  by (simp add: ToLower_def)

lemma Contains_append: "Contains (a @ b @ c) b"
proof (induction a)
  case Nil
  have "HasPrefix (b @ c) b" by (simp add: HasPrefix_def)
  then show ?case by (cases "b @ c") (auto simp: Contains_def)
next
  case (Cons x a)
  then show ?case by (auto simp: Contains_def)
qed

lemma Contains_ToLower: "Contains (ToLower (a @ b @ c)) (ToLower b)"
  by (simp add: ToLower_append Contains_append)

text \<open>
  A request to open a stream that times out is recognised as such by the pairing manager,
  which decides by the text of the error whether to retry.
\<close>

theorem open_timeout_recognised:
  assumes "client req = Inl err" "isTimeoutError (Some err)" "cr_Path req = ''/open''"
  shows "\<exists>e. do_request client decode req = Inl e \<and> isIrohOpenTimeout e"
proof -
  let ?e = "''sidecar '' @ cr_Method req @ '' '' @ ''/open'' @ '' timed out after 2m0s: '' @ snd err"
  have words: "ToLower ''/open'' = ''/open''" "ToLower ''timed out'' = ''timed out''" by code_simp+
  have "Contains (ToLower ?e) (ToLower ''/open'')"
    using Contains_ToLower [of "''sidecar '' @ cr_Method req @ '' ''" "''/open''"] by simp
  moreover have "Contains (ToLower ?e) (ToLower ''timed out'')"
    using Contains_ToLower [of "''sidecar '' @ cr_Method req @ '' /open ''" "''timed out''" "'' after 2m0s: '' @ snd err"] by simp
  ultimately have "Contains (ToLower ?e) ''/open''" "Contains (ToLower ?e) ''timed out''" unfolding words .
  then show ?thesis using assms by (simp add: do_request_def isIrohOpenTimeout_def Let_def)
qed

text \<open>A request succeeds only with a response of the 200 class whose body decodes.\<close>

lemma do_request_Inr:
  "do_request client decode req = Inr r \<longleftrightarrow>
     (\<exists>resp. client req = Inr resp \<and> 200 \<le> cp_StatusCode resp \<and> cp_StatusCode resp < 300
       \<and> (case decode of None \<Rightarrow> r = None | Some f \<Rightarrow> \<exists>x. f (cp_Body resp) = Inr x \<and> r = Some x))"
  by (auto simp: do_request_def split: sum.splits option.splits)

text \<open>So a status is always there when the request for it succeeds.\<close>

lemma get_request_decoded: "get_request newRequest client baseURL path (Some f) \<noteq> Inr None"
  by (simp add: get_request_def do_request_Inr split: option.split)

end
