(* ===== verification/Relay_Server.thy ===== *)
theory Relay_Server
  imports Go_Prelude Config
begin

text \<open>
  The relay server, \<open>cmd/relay-server/main.go\<close>: its flags, where its key comes from, and
  the relay it starts. The file system, the random source, the key format, the libp2p host
  and the relay service are arguments.
\<close>

section \<open>The key\<close>

datatype read_result = FileData string | FileMissing | FileError string

text \<open>\<open>ke_save\<close>: the error of writing the key file; a failure only prints a warning.\<close>

record 'k key_env =
  ke_generate :: "string + bytes"
  ke_unmarshal :: "bytes \<Rightarrow> string + 'k"
  ke_save :: "string option"

text \<open>The key, and what was written to the key file.\<close>

definition loadOrGenerateKey :: "'k key_env \<Rightarrow> string \<Rightarrow> read_result \<Rightarrow> (string + 'k) \<times> string option" where
  "loadOrGenerateKey env path file =
     (case (path \<noteq> [], file) of
        (True, FileData data) \<Rightarrow>
          ((case hexDecode data of None \<Rightarrow> Inl ''decode key'' | Some b \<Rightarrow> ke_unmarshal env b), None)
      | (True, FileError e) \<Rightarrow> (Inl e, None)
      | _ \<Rightarrow>
          (case ke_generate env of
             Inl e \<Rightarrow> (Inl e, None)
           | Inr priv \<Rightarrow>
               (ke_unmarshal env (take 64 priv), if path \<noteq> [] \<and> ke_save env = None then Some (hexEncode priv) else None)))"

section \<open>The server\<close>

record relay_flags =
  rf_addr :: string
  rf_key :: string
  rf_maxReservations :: int
  rf_reservationTTL :: duration
  rf_maxCircuits :: int
  rf_allow :: string

definition default_flags :: relay_flags where
  "default_flags = \<lparr>rf_addr = ''/ip4/0.0.0.0/tcp/4001'', rf_key = [], rf_maxReservations = 1024, rf_reservationTTL = 24 * hour,
     rf_maxCircuits = 256, rf_allow = []\<rparr>"

record RelayLimit =
  li_Duration :: duration
  li_Data :: int

record relay_Resources =
  rr_Limit :: RelayLimit
  rr_ReservationTTL :: duration
  rr_MaxReservations :: int
  rr_MaxCircuits :: int
  rr_BufferSize :: int
  rr_MaxReservationsPerPeer :: int
  rr_MaxReservationsPerIP :: int

definition relay_resources :: "relay_flags \<Rightarrow> relay_Resources" where
  "relay_resources f =
     \<lparr>rr_Limit = \<lparr>li_Duration = rf_reservationTTL f, li_Data = 0\<rparr>, rr_ReservationTTL = rf_reservationTTL f,
      rr_MaxReservations = rf_maxReservations f, rr_MaxCircuits = rf_maxCircuits f, rr_BufferSize = 4096,
      rr_MaxReservationsPerPeer = 4, rr_MaxReservationsPerIP = 8\<rparr>"

text \<open>
  The listening address parsed, the host made from key and address (its identifier and its
  addresses) and the start of the relay service, with the outcome of the program: a fatal
  message, or the lines it prints before it waits for a signal.
\<close>

record ('k, 'a) relay_env =
  re_key :: "'k key_env"
  re_multiaddr :: "string \<Rightarrow> string + 'a"
  re_host :: "'k \<Rightarrow> 'a \<Rightarrow> string + string \<times> string list"
  re_relay :: "relay_Resources \<Rightarrow> string option"

definition relay_main :: "('k, 'a) relay_env \<Rightarrow> relay_flags \<Rightarrow> read_result \<Rightarrow> (string + string list) \<times> string option" where
  "relay_main env f file =
     (case loadOrGenerateKey (re_key env) (rf_key f) file of
        (Inl e, w) \<Rightarrow> (Inl (''key: '' @ e), w)
      | (Inr priv, w) \<Rightarrow>
          (case re_multiaddr env (rf_addr f) of
             Inl e \<Rightarrow> (Inl (''listen addr: '' @ e), w)
           | Inr ma \<Rightarrow>
               (case re_host env priv ma of
                  Inl e \<Rightarrow> (Inl (''create host: '' @ e), w)
                | Inr (pid, addrs) \<Rightarrow>
                    (case re_relay env (relay_resources f) of
                       Some e \<Rightarrow> (Inl (''start relay: '' @ e), w)
                     | None \<Rightarrow>
                         (Inr ([''   [relay]'', ''   mode = '' @ [CHR 0x22] @ ''custom'' @ [CHR 0x22]]
                               @ map (\<lambda>addr. ''   url  = '' @ [CHR 0x22] @ addr @ ''/p2p/'' @ pid @ [CHR 0x22]) addrs), w)))))"

section \<open>One identity\<close>

text \<open>
  The relay keeps its identity: if a run with a key file generated a key and could save it,
  a later run on the file it left obtains the same key, whatever the random source and
  without writing the file again, provided a generated key has the 64 bytes of its format.
  So the addresses printed for the clients stay valid.
\<close>

theorem relay_key_persists:
  assumes "rf_key f \<noteq> []" "loadOrGenerateKey (re_key env) (rf_key f) FileMissing = (Inr k, Some data)"
    and "\<And>priv. ke_generate (re_key env) = Inr priv \<Longrightarrow> length priv = 64"
    and "ke_unmarshal (re_key env') = ke_unmarshal (re_key env)" "re_multiaddr env' = re_multiaddr env" "re_host env' = re_host env"
      "re_relay env' = re_relay env"
  shows "loadOrGenerateKey (re_key env') (rf_key f) (FileData data) = (Inr k, None)
    \<and> relay_main env' f (FileData data) = (fst (relay_main env f FileMissing), None)"
proof -
  obtain priv where g: "ke_generate (re_key env) = Inr priv" "ke_unmarshal (re_key env) (take 64 priv) = Inr k" "data = hexEncode priv"
    using assms(1,2) by (auto simp: loadOrGenerateKey_def split: sum.splits if_splits)
  have "take 64 priv = priv" using assms(3) [OF g(1)] by simp
  then have l: "loadOrGenerateKey (re_key env') (rf_key f) (FileData data) = (Inr k, None)"
    using g assms(1,4) by (simp add: loadOrGenerateKey_def)
  then show ?thesis using assms(2,5-7) by (auto simp: relay_main_def split: sum.split prod.split option.split)
qed

text \<open>The list of allowed peers is not used: the flag changes nothing.\<close>

lemma allow_flag_ignored: "relay_main env (f\<lparr>rf_allow := file'\<rparr>) file = relay_main env f file"
proof -
  have "relay_resources (f\<lparr>rf_allow := file'\<rparr>) = relay_resources f" "rf_key (f\<lparr>rf_allow := file'\<rparr>) = rf_key f"
    "rf_addr (f\<lparr>rf_allow := file'\<rparr>) = rf_addr f" by (simp_all add: relay_resources_def)
  then show ?thesis unfolding relay_main_def by (simp only:)
qed

text \<open>Nothing about the data a circuit may carry depends on the flags; durations and numbers do.\<close>

lemma relay_limits: "li_Data (rr_Limit (relay_resources f)) = 0"
  "li_Duration (rr_Limit (relay_resources f)) = rr_ReservationTTL (relay_resources f)"
  by (simp_all add: relay_resources_def)

section \<open>A witness\<close>

definition sample_relay_env :: "bytes \<Rightarrow> (bytes, string) relay_env" where
  "sample_relay_env seed = \<lparr>re_key = \<lparr>ke_generate = Inr (take 64 (seed @ replicate 64 0)), ke_unmarshal = Inr, ke_save = None\<rparr>,
     re_multiaddr = Inr, re_host = (\<lambda>k a. Inr (hexEncode (take 4 k), [a])), re_relay = (\<lambda>_. None)\<rparr>"

abbreviation sample_flags :: relay_flags where
  "sample_flags \<equiv> default_flags\<lparr>rf_key := ''relay.key''\<rparr>"

theorem relay_key_persists_witness:
  "relay_main (sample_relay_env [9, 9]) sample_flags (FileData (hexEncode (take 64 ([1, 2, 3] @ replicate 64 0)))) =
     (fst (relay_main (sample_relay_env [1, 2, 3]) sample_flags FileMissing), None)"
  using relay_key_persists [of sample_flags "sample_relay_env [1, 2, 3]" "take 64 ([1, 2, 3] @ replicate 64 0)"
      "hexEncode (take 64 ([1, 2, 3] @ replicate 64 0))" "sample_relay_env [9, 9]"]
  by (simp add: sample_relay_env_def loadOrGenerateKey_def)

end
