(* ===== verification/Btdht_Client.thy ===== *)
theory Btdht_Client
  imports Btdht Webui_Api
begin

text \<open>
  The life of the BitTorrent DHT client, \<open>New\<close>, \<open>publishLoop\<close> and \<open>Status\<close> of
  \<open>internal/btdht/btdht.go\<close>: when it is created, the nodes it starts from, how often it
  publishes, and what it reports. The DHT server is an argument.
\<close>

section \<open>Creation\<close>

text \<open>The addresses of the public bootstrap nodes and of those of the configuration are resolved each time they are asked for.\<close>

record 'a dht_lib =
  dl_global :: "string + 'a list"
  dl_resolve :: "string list \<Rightarrow> string + 'a list"
  dl_server :: "string option"

definition starting_nodes :: "'a dht_lib \<Rightarrow> BTDHTConfig \<Rightarrow> string + 'a list" where
  "starting_nodes lib cfg =
     (if bt_Mode cfg \<noteq> ''custom'' \<and> bt_Mode cfg \<noteq> ''mixed'' then dl_global lib
      else
        case (if bt_Mode cfg = ''mixed'' then dl_global lib else Inr []) of
          Inl e \<Rightarrow> Inl e
        | Inr pub \<Rightarrow>
            if bt_Bootstrap cfg = [] then Inr pub
            else (case dl_resolve lib (bt_Bootstrap cfg) of Inl e \<Rightarrow> Inl e | Inr addrs \<Rightarrow> Inr (pub @ addrs)))"

definition defaultInterval :: duration where "defaultInterval = 60 * second"

text \<open>The configured seconds are multiplied as a 64-bit duration.\<close>

definition publish_interval :: "BTDHTConfig \<Rightarrow> duration" where
  "publish_interval cfg =
     (if bt_PublishIntervalSecs cfg > 0 then wrap64 (bt_PublishIntervalSecs cfg * second) else defaultInterval)"

record new_client =
  nc_client :: btdht_Client
  nc_pub :: bytes
  nc_interval :: duration

text \<open>\<open>Inr None\<close> is the nil client of a disabled configuration; the public key is the second half of the private one.\<close>

definition btdht_New :: "'a dht_lib \<Rightarrow> BTDHTConfig \<Rightarrow> bytes \<Rightarrow> string \<Rightarrow> string + new_client option" where
  "btdht_New lib cfg priv nodeID =
     (if bt_Mode cfg = [] \<or> bt_Mode cfg = ''disabled'' then Inr None
      else if length priv \<noteq> 64 then Inl ''ed25519 private key must be 64 bytes''
      else case dl_server lib of
        Some e \<Rightarrow> Inl e
      | None \<Rightarrow>
          Inr (Some \<lparr>nc_client = \<lparr>bc_nodeID = nodeID, bc_ready = False, bc_lastError = [], bc_lastPublishErr = [], bc_lastPublished = 0\<rparr>,
                    nc_pub = drop 32 priv, nc_interval = publish_interval cfg\<rparr>))"

section \<open>Publishing\<close>

text \<open>
  The loop publishes at once and at every tick until the context ends. \<open>publish\<close> is one
  publication at a time; \<open>None\<close> is the panic of a ticker whose interval is not positive.
\<close>

primrec publish_ticks :: "(instant \<Rightarrow> btdht_Client \<Rightarrow> btdht_Client) \<Rightarrow> instant list \<Rightarrow> btdht_Client \<Rightarrow> btdht_Client" where
  "publish_ticks publish [] c = c"
| "publish_ticks publish (t # ts) c = publish_ticks publish ts (publish t c)"

definition publishLoop ::
  "(instant \<Rightarrow> btdht_Client \<Rightarrow> btdht_Client) \<Rightarrow> duration \<Rightarrow> instant \<Rightarrow> instant list \<Rightarrow> btdht_Client \<Rightarrow> btdht_Client option" where
  "publishLoop publish interval start ticks c =
     (let c1 = publish start c in if interval \<le> 0 then None else Some (publish_ticks publish ticks c1))"

record client_status =
  ci_enabled :: bool
  ci_running :: bool
  ci_ready :: bool
  ci_last_error :: string
  ci_last_publish_err :: string
  ci_last_published :: instant

definition btdht_Status :: "btdht_Client option \<Rightarrow> client_status" where
  "btdht_Status c =
     (case c of
        None \<Rightarrow> \<lparr>ci_enabled = False, ci_running = False, ci_ready = False, ci_last_error = [], ci_last_publish_err = [], ci_last_published = 0\<rparr>
      | Some x \<Rightarrow> \<lparr>ci_enabled = True, ci_running = True, ci_ready = bc_ready x, ci_last_error = bc_lastError x,
                  ci_last_publish_err = bc_lastPublishErr x, ci_last_published = bc_lastPublished x\<rparr>)"

section \<open>The interval\<close>

lemma wrap64_id: "- (2 ^ 63) \<le> x \<Longrightarrow> x < 2 ^ 63 \<Longrightarrow> wrap64 x = x"
  by (simp add: wrap64_def)

text \<open>For every interval up to 292 years the loop publishes at that interval; the product does not wrap.\<close>

lemma publish_interval_exact:
  assumes "0 < bt_PublishIntervalSecs cfg" "bt_PublishIntervalSecs cfg \<le> 9223372036"
  shows "publish_interval cfg = bt_PublishIntervalSecs cfg * second" "publishLoop publish (publish_interval cfg) t ts c \<noteq> None"
proof -
  have "bt_PublishIntervalSecs cfg * second < 2 ^ 63" using assms(2) by simp
  then show "publish_interval cfg = bt_PublishIntervalSecs cfg * second"
    using assms(1) wrap64_id [of "bt_PublishIntervalSecs cfg * second"] by (simp add: publish_interval_def)
  then show "publishLoop publish (publish_interval cfg) t ts c \<noteq> None" using assms(1) by (simp add: publishLoop_def)
qed

text \<open>
  The dashboard accepts a larger number: the product wraps to a negative duration and the
  ticker panics, which ends the daemon, also at its next start with the saved value.
\<close>

lemma large_interval_panics:
  assumes "p = (''public'', None, 9223372037)"
  shows "publish_interval (patch_btdht (Some p) cfg) < 0" "publishLoop publish (publish_interval (patch_btdht (Some p) cfg)) t ts c = None"
proof -
  have "publish_interval (patch_btdht (Some p) cfg) = wrap64 (9223372037 * second)"
    by (simp add: assms patch_btdht_def publish_interval_def Let_def)
  then show "publish_interval (patch_btdht (Some p) cfg) < 0" by (simp add: wrap64_def)
  then show "publishLoop publish (publish_interval (patch_btdht (Some p) cfg)) t ts c = None" by (simp add: publishLoop_def)
qed

text \<open>In mixed mode the nodes of the configuration are not used when the public ones cannot be resolved.\<close>

lemma mixed_needs_public: "bt_Mode cfg = ''mixed'' \<Longrightarrow> dl_global lib = Inl e \<Longrightarrow> starting_nodes lib cfg = Inl e"
  by (simp add: starting_nodes_def)

text \<open>What is published last is what the status says: publications are run in order and each sets the status.\<close>

lemma publishLoop_last:
  "publishLoop publish interval t (ts @ [u]) c = Some c' \<Longrightarrow>
     \<exists>c0. publishLoop publish interval t ts c = Some c0 \<and> c' = publish u c0"
proof -
  have "publish_ticks publish (ts @ [u]) x = publish u (publish_ticks publish ts x)" for x
    by (induction ts arbitrary: x) simp_all
  then show "publishLoop publish interval t (ts @ [u]) c = Some c' \<Longrightarrow>
     \<exists>c0. publishLoop publish interval t ts c = Some c0 \<and> c' = publish u c0"
    by (simp add: publishLoop_def Let_def split: if_splits)
qed

end
