(* ===== verification/Platform_Windows.thy ===== *)
theory Platform_Windows
  imports Identity_Load Ipc Webui_Source
begin

text \<open>
  The Windows parts of identity and IPC: signing with the key of the platform store and its
  certificate, \<open>internal/identity/tpm_windows_real.go\<close>; the process at the other end of the
  named pipe, \<open>internal/ipc/auth_windows.go\<close> and \<open>transport_windows.go\<close>; and the accept
  loop of the IPC server, \<open>internal/ipc/ipc.go\<close>. What a system call answers is an argument;
  the outcomes include the panics of indexing and slicing.
\<close>

datatype 'a win_result = WOk 'a | WStatus string nat | WError string | WPanic

section \<open>The platform key\<close>

definition ncryptStatus :: "nat \<Rightarrow> nat option" where
  "ncryptStatus r1 = (if r1 = 0 then None else Some r1)"

record ncryptKey =
  nk_h :: nat
  nk_pub :: "(nat \<times> nat) option"

text \<open>\<open>Close\<close> gives the handle that is freed.\<close>

definition ncrypt_Close :: "ncryptKey \<Rightarrow> nat option \<times> ncryptKey" where
  "ncrypt_Close k = (if nk_h k \<noteq> 0 then (Some (nk_h k), k\<lparr>nk_h := 0\<rparr>) else (None, k))"

text \<open>The blob the store exports: the size it announces, then the bytes; their buffer is indexed at zero.\<close>

definition export_blob :: "(nat \<Rightarrow> nat \<times> 32 word) \<Rightarrow> (nat \<Rightarrow> 32 word \<Rightarrow> nat \<times> bytes) \<Rightarrow> nat \<Rightarrow> bytes win_result" where
  "export_blob sizeCall blobCall h =
     (case sizeCall h of (r, sz) \<Rightarrow>
        (case ncryptStatus r of
           Some st \<Rightarrow> WStatus ''export TPM public size'' st
         | None \<Rightarrow>
             if sz = 0 then WPanic
             else case blobCall h sz of (r2, blob) \<Rightarrow>
               (case ncryptStatus r2 of
                  Some st \<Rightarrow> WStatus ''export TPM public'' st
                | None \<Rightarrow> WOk (take (unat sz) (blob @ replicate (unat sz) 0)))))"

definition ncrypt_Public ::
  "(nat \<Rightarrow> nat \<Rightarrow> bool) \<Rightarrow> (nat \<Rightarrow> bytes win_result) \<Rightarrow> ncryptKey \<Rightarrow> (nat \<times> nat) option win_result \<times> ncryptKey" where
  "ncrypt_Public onCurve export k =
     (case nk_pub k of
        Some p \<Rightarrow> (WOk (Some p), k)
      | None \<Rightarrow>
          (case export (nk_h k) of
             WPanic \<Rightarrow> (WPanic, k)
           | WStatus _ _ \<Rightarrow> (WOk None, k)
           | WError _ \<Rightarrow> (WOk None, k)
           | WOk blob \<Rightarrow>
               (case exportPublic onCurve blob of
                  BlobPanic \<Rightarrow> (WPanic, k)
                | BlobError _ \<Rightarrow> (WOk None, k)
                | BlobKey x y \<Rightarrow> (WOk (Some (x, y)), k\<lparr>nk_pub := Some (x, y)\<rparr>))))"

text \<open>
  Signing: the sz of the signature is asked for first; the second call fills a buffer of
  that size and says how much of it it used.
\<close>

definition ncrypt_Sign ::
  "(bytes \<Rightarrow> bytes) \<Rightarrow> (nat \<Rightarrow> nat \<Rightarrow> bytes) \<Rightarrow> (bytes \<Rightarrow> nat \<times> 32 word) \<Rightarrow> (bytes \<Rightarrow> 32 word \<Rightarrow> nat \<times> bytes \<times> 32 word)
   \<Rightarrow> nat option \<Rightarrow> bytes \<Rightarrow> bytes win_result" where
  "ncrypt_Sign sha256 asn1 sizeCall signCall hashSize digest0 =
     (let digest = sign_digest sha256 hashSize digest0 in
      if digest = [] then WPanic
      else case sizeCall digest of (r, sz) \<Rightarrow>
        (case ncryptStatus r of
           Some st \<Rightarrow> WStatus ''TPM sign size'' st
         | None \<Rightarrow>
             if sz = 0 then WPanic
             else case signCall digest sz of (r2, buf, used) \<Rightarrow>
               (case ncryptStatus r2 of
                  Some st \<Rightarrow> WStatus ''TPM sign'' st
                | None \<Rightarrow>
                    if used > sz then WPanic
                    else (case split_signature asn1 (take (unat used) buf) of
                            None \<Rightarrow> WError ''unexpected ECDSA signature length''
                          | Some sig \<Rightarrow> WOk sig))))"

definition loadOrCreateTPMCert_windows :: "id_env \<Rightarrow> string \<Rightarrow> bytes \<Rightarrow> id_files \<Rightarrow> (string + bytes) \<times> id_files" where
  "loadOrCreateTPMCert_windows env path pub f =
     (case (case ReadFile path f of
              None \<Rightarrow> None
            | Some der \<Rightarrow> (case ie_notAfter env der of
                 Some t \<Rightarrow> if Before (ie_now env) t then Some der else None
               | None \<Rightarrow> None)) of
        Some der \<Rightarrow> (Inr der, f)
      | None \<Rightarrow>
          (case ie_createCert env ''Microsoft Platform Crypto Provider'' (ie_now env) pub of
             Inl e \<Rightarrow> (Inl (''create TPM cert: '' @ e), f)
           | Inr der \<Rightarrow>
               (case WriteFile env path der f of
                  (Some e, f1) \<Rightarrow> (Inl e, f1)
                | (None, f1) \<Rightarrow> if ie_notAfter env der = None then (Inl ''parse certificate'', f1) else (Inr der, f1))))"

section \<open>The process at the other end of the pipe\<close>

definition pipeName :: string where
  "pipeName = [CHR 0x5C, CHR 0x5C, CHR ''.'', CHR 0x5C] @ ''pipe'' @ [CHR 0x5C] @ ''DeskAccess''"

definition pipe_descriptor :: string where
  "pipe_descriptor = ''D:P(A;;GA;;;SY)(A;;GA;;;BA)(A;;GRGW;;;IU)''"

definition pipe_listen :: "(string \<Rightarrow> string \<Rightarrow> string option) \<Rightarrow> string + string" where
  "pipe_listen listenPipe = (case listenPipe pipeName pipe_descriptor of Some e \<Rightarrow> Inl e | None \<Rightarrow> Inr pipeName)"

definition pipe_dial :: "(string \<Rightarrow> duration \<Rightarrow> string option) \<Rightarrow> string + string" where
  "pipe_dial dialPipe = (case dialPipe pipeName (3 * second) of Some e \<Rightarrow> Inl e | None \<Rightarrow> Inr pipeName)"

text \<open>\<open>None\<close>: the connection exposes no handle; otherwise the result of the call with its error text.\<close>

definition pipeClientPID :: "(nat \<times> string \<times> pid) option \<Rightarrow> string + pid" where
  "pipeClientPID c =
     (case c of
        None \<Rightarrow> Inl ''named pipe connection does not expose a handle''
      | Some (ret, err, p) \<Rightarrow>
          if ret = 0 then Inl (''GetNamedPipeClientProcessId: '' @ err)
          else if p = 0 then Inl ''GetNamedPipeClientProcessId returned pid 0'' else Inr p)"

definition maxProcessImagePathChars :: nat where "maxProcessImagePathChars = 32768"

text \<open>
  The image path: the handle of the process, then the path as UTF-16 in a buffer, with its
  length; \<open>utf16\<close> decodes it up to the first zero.
\<close>

definition processImagePath ::
  "(16 word list \<Rightarrow> string) \<Rightarrow> (pid \<Rightarrow> nat \<times> string) \<Rightarrow> (nat \<Rightarrow> nat \<times> string \<times> 16 word list \<times> 32 word) \<Rightarrow> pid \<Rightarrow> string win_result" where
  "processImagePath utf16 openProcess queryName p =
     (case openProcess p of (h, err) \<Rightarrow>
        if h = 0 then WError err
        else case queryName h of (ret, err2, buf, sz) \<Rightarrow>
          if ret = 0 then WError err2
          else if unat sz > maxProcessImagePathChars then WPanic
          else WOk (utf16 (takeWhile (\<lambda>u. u \<noteq> 0) (take (unat sz) buf))))"

text \<open>The caller as the authorisation sees it.\<close>

definition windows_peer :: "(string \<Rightarrow> string) \<Rightarrow> (string \<Rightarrow> string) \<Rightarrow> (nat \<times> string \<times> pid) option \<Rightarrow> (pid \<Rightarrow> string win_result) \<Rightarrow> ipc_peer" where
  "windows_peer quote clean call img =
     \<lparr>pe_pid = (case pipeClientPID call of Inl e \<Rightarrow> Inl e | Inr p \<Rightarrow> Inr (unat p)),
      pe_image = (\<lambda>n. case img (word_of_nat n) of WOk s \<Rightarrow> Inr s | WError e \<Rightarrow> Inl e | WStatus e _ \<Rightarrow> Inl e | WPanic \<Rightarrow> Inl []),
      pe_quote = quote, pe_clean = clean\<rparr>"

section \<open>The server\<close>

text \<open>
  The listener is opened once; each accepted connection is served, in any order of their
  requests here in the order of acceptance, until accepting fails, as it does when the
  context ends.
\<close>

datatype accept_event = AcceptConn "string option" string | AcceptFailed

primrec accept_loop ::
  "ipc_codec \<Rightarrow> (ipc_Request \<Rightarrow> 's \<Rightarrow> ipc_Response \<times> 's) \<Rightarrow> accept_event list \<Rightarrow> 's \<Rightarrow> string list \<times> 's" where
  "accept_loop jc h [] s = ([], s)"
| "accept_loop jc h (e # es) s =
     (case e of
        AcceptFailed \<Rightarrow> ([], s)
      | AcceptConn auth input \<Rightarrow>
          (case serveConn jc auth h input s of (out, s1) \<Rightarrow>
             (case accept_loop jc h es s1 of (outs, s2) \<Rightarrow> (out # outs, s2))))"

definition ipc_Serve ::
  "(string + 'l) \<Rightarrow> ipc_codec \<Rightarrow> (ipc_Request \<Rightarrow> 's \<Rightarrow> ipc_Response \<times> 's) \<Rightarrow> accept_event list \<Rightarrow> 's \<Rightarrow> string + string list \<times> 's" where
  "ipc_Serve listening jc h es s = (case listening of Inl e \<Rightarrow> Inl e | Inr l \<Rightarrow> Inr (accept_loop jc h es s))"

section \<open>What holds\<close>

text \<open>The handle is freed once.\<close>

lemma ncrypt_Close_twice: "fst (ncrypt_Close (snd (ncrypt_Close k))) = None"
  by (simp add: ncrypt_Close_def)

text \<open>The certificate is handled as on Linux, with another issuer.\<close>

lemma loadOrCreateTPMCert_windows_same:
  "loadOrCreateTPMCert_windows env path pub f = load_or_create_cert env ''Microsoft Platform Crypto Provider'' path pub f"
  by (simp add: loadOrCreateTPMCert_windows_def load_or_create_cert_def)

text \<open>The public key is exported once: later calls return it whatever the store answers.\<close>

lemma ncrypt_Public_stable:
  "ncrypt_Public onCurve export k = (WOk (Some p), k') \<Longrightarrow> ncrypt_Public onCurve' export' k' = (WOk (Some p), k')"
  by (auto simp: ncrypt_Public_def split: option.splits win_result.splits blob_result.splits)

text \<open>
  With a store that announces the sz of the signature and then delivers it, signing on
  Windows and with the tools on Linux is the same function of the raw signature.
\<close>

theorem ncrypt_Sign_agrees:
  assumes "sign_digest sha256 hashSize digest \<noteq> []"
    and "device (sign_digest sha256 hashSize digest) = Some raw" "raw \<noteq> []" "length raw < 2 ^ 32"
    and "sizeCall (sign_digest sha256 hashSize digest) = (0, word_of_nat (length raw))"
    and "signCall (sign_digest sha256 hashSize digest) (word_of_nat (length raw)) = (0, raw, word_of_nat (length raw))"
  shows "ncrypt_Sign sha256 asn1 sizeCall signCall hashSize digest =
    (case tpm_Sign sha256 asn1 device hashSize digest of Some sig \<Rightarrow> WOk sig | None \<Rightarrow> WError ''unexpected ECDSA signature length'')"
proof -
  have u: "unat (word_of_nat (length raw) :: 32 word) = length raw" using assms(4) by (simp add: unat_of_nat take_bit_eq_mod)
  have "(word_of_nat (length raw) :: 32 word) \<noteq> 0" using u assms(3) by (metis length_0_conv unat_0)
  then show ?thesis using assms(1-3,5,6) u
    by (simp add: ncrypt_Sign_def tpm_Sign_def ncryptStatus_def Let_def)
qed

text \<open>An empty message that is signed without a hash function panics before the store is asked.\<close>

lemma empty_message_panics: "ncrypt_Sign sha256 asn1 sizeCall signCall None [] = WPanic"
  by (simp add: ncrypt_Sign_def sign_digest_def)

text \<open>A caller is authorised exactly if the system names its process, not as zero, and the image of that process is this program.\<close>

theorem windows_caller_same_program:
  "authorizeClient_windows own (windows_peer quote clean call img) = None \<longleftrightarrow>
     (\<exists>ret err p path. call = Some (ret, err, p) \<and> ret \<noteq> 0 \<and> p \<noteq> 0 \<and> img p = WOk path \<and> ToLower (clean path) = ToLower (clean own))"
  by (auto simp: authorizeClient_windows_def windows_peer_def pipeClientPID_def split: option.splits win_result.splits if_splits)

text \<open>Every connection accepted before accepting fails is answered, and no other.\<close>

lemma accept_loop_answers:
  "length (fst (accept_loop jc h es s)) = length (takeWhile (\<lambda>e. e \<noteq> AcceptFailed) es)"
  by (induction es arbitrary: s) (simp_all add: case_prod_beta split: accept_event.split)

text \<open>A caller that is not authorised changes nothing.\<close>

lemma accept_loop_rejected: "snd (accept_loop jc h [AcceptConn (Some e) input] s) = s"
  by (simp add: serveConn_Some)

end
