(* ===== verification/Spec2Isabelle.thy ===== *)
theory Spec2Isabelle
  imports Handshake_Live Tunnel_Proxy Webui_Allowed Btdht Quicnet Daemon Webui_Source Tray Webui_Views Pairing_Backends Irohsidecar_Http Relay_Server Btdht_Client Platform_Windows
begin

text \<open>
  DeskAccess, a verification of its host and client logic.

  \<^bold>\<open>The program.\<close> DeskAccess (Go, under \<open>src/\<close>) gives access to a remote desktop, shell or
  other TCP service of another machine without opening a port. A host creates an invite
  link; a client redeems it in a pairing exchange over one of several network backends
  (libp2p relays, libp2p DHT, BitTorrent DHT with direct QUIC, an iroh sidecar process),
  receives a session token, and opens tunnel streams that the host connects to a local
  service. Machines paired once reconnect by proving their identities. A daemon holds
  node, managers and backends; a dashboard on a loopback port and an IPC socket control
  it; the command line, tray and dashboard window are its clients. One configuration,
  shared through a pointer, is read and written by all of them.

  \<^bold>\<open>Theories and sources.\<close>
  \<^item> \<open>Go_Prelude\<close>, \<open>Go_Url\<close>, \<open>Go_Net\<close>, \<open>Go_Base64\<close>: what the program uses of Go's library
    (strings, bytes, big-endian integers, times, numerals, hex, maps as association lists,
    URLs and queries, IP addresses, base64), the shared lemmas, the locales \<open>machine\<close> and
    \<open>tracked_machine\<close> for invariants and relations over sequences of operations, and \<open>fixed_codec\<close>
    (the locale \<open>named_table\<close> of \<open>Netbackend\<close> is the contract of the backend registries).
  \<^item> \<open>Protocol\<close>: \<open>internal/protocol\<close>, frames and the session token store. \<open>Token\<close>:
    \<open>internal/rendezvous\<close>, invite tokens as links, invite proofs, session codes.
  \<^item> \<open>Config\<close>: \<open>internal/config\<close>, the configuration with its remotes and trusted machines.
  \<^item> \<open>Identity\<close>, \<open>Identity_Load\<close>: \<open>internal/identity\<close> and the identity functions of
    \<open>internal/pairing\<close>: proofs, their verification, and where the key comes from.
  \<^item> \<open>Pairing\<close>, \<open>Pairing_Safety\<close>: the invites of \<open>internal/pairing/pairing.go\<close>. \<open>Handshake\<close>,
    \<open>Handshake_Safety\<close>, \<open>Handshake_Live\<close>: the pairing exchange of the same file, host and
    client side, first and later connections. \<open>Pairing_Backends\<close>: how the managers of pairing
    and tunnels register and remove backends, and what they do to a stream.
  \<^item> \<open>Netbackend\<close>: \<open>internal/netbackend\<close> and \<open>internal/btdht/backend.go\<close>, the registry of
    backends and the race of direct dials. \<open>Node\<close>, \<open>Dht\<close>: \<open>internal/node\<close> and
    \<open>internal/dht\<close>. \<open>Btdht\<close>, \<open>Btdht_Client\<close>: \<open>internal/btdht/btdht.go\<close>.
    \<open>Quicnet\<close>: \<open>internal/quicnet\<close>. \<open>Irohsidecar\<close>, \<open>Irohsidecar_Http\<close>: \<open>internal/irohsidecar\<close>. \<open>Presence\<close>: \<open>internal/presence\<close>.
  \<^item> \<open>Tunnel\<close>, \<open>Tunnel_Proxy\<close>, \<open>Launch\<close>: \<open>internal/tunnel\<close>, the host side of a tunnel stream, the
    local proxy of the client with its goroutines, bridging, and starting client programs.
  \<^item> \<open>Service\<close>, \<open>Daemon\<close>: \<open>internal/service\<close>, the backends with their references, and the start
    of the whole daemon.
  \<^item> \<open>Webui\<close>, \<open>Webui_Sessions\<close>, \<open>Webui_Api\<close>, \<open>Webui_Api_Safety\<close>, \<open>Webui_Allowed\<close>,
    \<open>Webui_Views\<close>, \<open>Webui_Source\<close>: \<open>internal/webui\<close>, admission, connections, the other
    handlers, what the pages show, and the check of the process behind a request.
    \<open>Rdpcheck\<close>: \<open>internal/rdpcheck\<close>.
  \<^item> \<open>Logger\<close>: \<open>internal/logger\<close>. \<open>Ipc\<close>: \<open>internal/ipc\<close> and the handler of the service.
    \<open>Cli\<close>, \<open>Cli_Dashboard\<close>, \<open>Tray\<close>: \<open>cmd/deskaccess\<close> and \<open>internal/tray\<close>. \<open>Relay_Server\<close>:
    \<open>cmd/relay-server\<close>. \<open>Platform_Windows\<close>: the Windows parts of identity and IPC, and the
    accept loop of the IPC server.

  \<^bold>\<open>How the code is modelled.\<close> A struct is a record, with a prefix for its fields; an operation
  is a function that takes the state and returns its result and the new state; an error is
  the left side of a sum, or \<open>Some\<close> message where the code returns an error alone; a panic
  of Go is an outcome of its own. Code that runs under one lock is one step. Where
  goroutines interleave (the proxy, the QUIC connection cache, the sidecar process, the
  connection stages of the dashboard) the steps of each are separate operations, and the
  theorems quantify over their sequences. The clock, the random source, file system,
  network, operating system and all packages outside \<open>src/\<close> (libp2p, QUIC, Kademlia,
  X.509 and key formats, HMAC and hash functions, TOML) are arguments; what a theorem needs
  of them is a named hypothesis, and its witness gives a concrete function that meets it.
  The JSON encoding of messages is such an argument too. Times are nanoseconds as
  integers; 8-, 16-, 32- and 64-bit quantities are words where the code wraps or truncates.

  \<^bold>\<open>What is shown.\<close>
  \<^item> Links, frames and encodings are read back as written and nothing else is accepted; what
    a proof signs determines its purpose, peers and time window.
  \<^item> A session token is bounded in uses and time, an invite is redeemed as often as its mode
    allows and never after it was revoked; trust comes only from a pairing invite and
    identity proofs, over any history; a removed machine is locked out.
  \<^item> A session is added, or a remote stored, only after the other side proved the identity
    of the link or of the stored entry; honest peers do complete the exchange, and the tunnel
    opened with its token is connected to the granted loopback port and to nothing else.
  \<^item> The proxy leaves no connection behind when closed; the bridge delivers the bytes; the
    races of dials and probes return a working endpoint if there is one, in every order.
  \<^item> Backends are reference counted as a set of leases and registered exactly while they
    run; sessions of the dashboard hold their backends; there is one sidecar process.
  \<^item> The dashboard admits only the session cookie and each launch token once, never grants
    trust, keeps the shared configuration well-formed, and lists all live connections and no others;
    an invite link given to the command line reaches it.
  \<^item> The daemon starts in a state that has these invariants. Waiting loops end, the walk over
    parent processes does too on a cyclic table. The managers hold the backends that the last
    calls gave them, in whichever order the calls came.

  \<^bold>\<open>Loops and bounds.\<close> Loops are structural recursion or \<open>function\<close> with a measure: the remaining
  input for parsers, the time to the deadline for polling (at most sixty polls in
  fifteen seconds), the processes not yet visited for the walk over parent processes. No
  model uses fuel. A wait that may last forever is a function of the observations its loop
  makes, with no result while it waits; that it ends with its context is proved apart.

  \<^bold>\<open>Not modelled.\<close> The wording of log entries and the level filter (\<open>log/slog\<close>); the pages under
  \<open>internal/webui/static\<close>, the Android client and the Rust sidecar (other languages, only
  their messages matter here); icons and assets; drawing of menus and windows and the
  Windows message loop in \<open>internal/tray\<close>; the raw system calls behind the Windows named
  pipe, the process and TCP tables and the key store (their results are arguments); tickers,
  accept loops of listeners and goroutine plumbing without state of their own; TLS certificates and
  transport parameters handed to the QUIC library.
\<close>

end
